(* ===== verification/Prelude.thy ===== *)
theory Prelude
  imports Main "HOL-Library.Sublist" "HOL-Library.Word"
begin

text \<open>
  Shared vocabulary of the development: fallible computations as sums (\<open>Inl\<close> the
  error, \<open>Inr\<close> the value), panics as \<open>None\<close> of an option, the loops
  \<open>for x in xs { out.push(f(x)?) }\<close> of the source, decimal rendering of unsigned
  integers, and the rules on lists and maps that several components use.
\<close>

section \<open>Collections of rewrite rules\<close>

named_theorems loc_simps \<open>unfolding rules of the address operations\<close>
named_theorems wave_simps \<open>unfolding rules of the wave accessors\<close>
named_theorems lane_simps \<open>unfolding rules of the hyperlane operations\<close>

section \<open>Fallible computations\<close>

text \<open>\<open>Result<(), ()>\<close> of the source: a yes/no answer without a payload.\<close>

type_synonym check = "unit + unit"

abbreviation pass :: check where "pass \<equiv> Inr ()"
abbreviation refuse :: check where "refuse \<equiv> Inl ()"

definition is_ok :: "'e + 'a \<Rightarrow> bool" where
  "is_ok r = (case r of Inl _ \<Rightarrow> False | Inr _ \<Rightarrow> True)"

lemma is_ok_simps [simp]: "is_ok (Inr a)" "\<not> is_ok (Inl e)"
  by (simp_all add: is_ok_def)

lemma is_ok_iff: "is_ok r \<longleftrightarrow> (\<exists>a. r = Inr a)"
  by (cases r) simp_all

lemma check_cases: "(r::check) = pass \<or> r = refuse"
  by (cases r) auto

lemma not_refuse_iff [simp]: "(r::check) \<noteq> refuse \<longleftrightarrow> r = pass"
  by (cases r) auto

lemma is_ok_check [simp]: "is_ok (r::check) \<longleftrightarrow> r = pass"
  by (cases r) auto

text \<open>The \<open>?\<close> operator: stop at the first error.\<close>

fun res_bind :: "'e + 'a \<Rightarrow> ('a \<Rightarrow> 'e + 'b) \<Rightarrow> 'e + 'b" where
  "res_bind (Inl e) f = Inl e"
| "res_bind (Inr a) f = f a"

lemma res_bind_Inr_iff: "res_bind r f = Inr b \<longleftrightarrow> (\<exists>a. r = Inr a \<and> f a = Inr b)"
  by (cases r) simp_all

lemma res_bind_assoc: "res_bind (res_bind r f) g = res_bind r (\<lambda>a. res_bind (f a) g)"
  by (cases r) simp_all

text \<open>\<open>opt.ok_or(e)\<close>.\<close>

definition ok_or :: "'a option \<Rightarrow> 'e \<Rightarrow> 'e + 'a" where
  "ok_or x e = (case x of None \<Rightarrow> Inl e | Some a \<Rightarrow> Inr a)"

lemma ok_or_simps [simp]: "ok_or None e = Inl e" "ok_or (Some a) e = Inr a"
  by (simp_all add: ok_or_def)

lemma ok_or_Inr_iff [simp]: "ok_or x e = Inr a \<longleftrightarrow> x = Some a"
  by (cases x) simp_all

text \<open>\<open>for x in xs { out.push(f(x)?) }\<close>.\<close>

fun res_map :: "('a \<Rightarrow> 'e + 'b) \<Rightarrow> 'a list \<Rightarrow> 'e + 'b list" where
  "res_map f [] = Inr []"
| "res_map f (x # xs) = res_bind (f x) (\<lambda>y. res_bind (res_map f xs) (\<lambda>ys. Inr (y # ys)))"

lemma res_map_Inr_iff: "res_map f xs = Inr ys \<longleftrightarrow> list_all2 (\<lambda>x y. f x = Inr y) xs ys"
  by (induction xs arbitrary: ys) (auto simp: res_bind_Inr_iff list_all2_Cons1)

lemma res_map_all_ok: "(\<And>x. x \<in> set xs \<Longrightarrow> f x = Inr (g x)) \<Longrightarrow> res_map f xs = Inr (map g xs)"
  by (induction xs) simp_all

lemma res_map_length: "res_map f xs = Inr ys \<Longrightarrow> length ys = length xs"
  by (simp add: res_map_Inr_iff list_all2_lengthD)

lemma res_map_Inl_iff: "is_ok (res_map f xs) \<longleftrightarrow> (\<forall>x \<in> set xs. is_ok (f x))"
proof (induction xs)
  case (Cons x xs)
  then show ?case by (cases "f x"; cases "res_map f xs") auto
qed simp

text \<open>A loop that carries a value through fallible steps.\<close>

fun res_foldl :: "('s \<Rightarrow> 'a \<Rightarrow> 'e + 's) \<Rightarrow> 's \<Rightarrow> 'a list \<Rightarrow> 'e + 's" where
  "res_foldl f s [] = Inr s"
| "res_foldl f s (x # xs) = res_bind (f s x) (\<lambda>s'. res_foldl f s' xs)"

section \<open>Decimal rendering\<close>

definition digit_char :: "nat \<Rightarrow> char" where
  "digit_char d = char_of (48 + d)"

text \<open>\<open>to_string\<close> of an unsigned integer.\<close>

fun nat_to_string :: "nat \<Rightarrow> string" where
  "nat_to_string n =
     (if n < 10 then [digit_char n] else nat_to_string (n div 10) @ [digit_char (n mod 10)])"

declare nat_to_string.simps [simp del]

definition u16_to_string :: "16 word \<Rightarrow> string" where
  "u16_to_string w = nat_to_string (unat w)"

definition int_to_string :: "int \<Rightarrow> string" where
  "int_to_string i = (if i < 0 then CHR ''-'' # nat_to_string (nat (- i)) else nat_to_string (nat i))"

lemma digit_char_inj: "d < 10 \<Longrightarrow> e < 10 \<Longrightarrow> digit_char d = digit_char e \<Longrightarrow> d = e"
proof -
  assume "d < 10" "e < 10" "digit_char d = digit_char e"
  then have "of_char (char_of (48 + d) :: char) = (of_char (char_of (48 + e) :: char) :: nat)"
    by (simp add: digit_char_def)
  with \<open>d < 10\<close> \<open>e < 10\<close> show "d = e"
    by simp
qed

lemma nat_to_string_ne [simp]: "nat_to_string n \<noteq> []"
  by (subst nat_to_string.simps) simp

lemma nat_to_string_length_ge2: "10 \<le> n \<Longrightarrow> 2 \<le> length (nat_to_string n)"
  using nat_to_string_ne [of "n div 10"]
  by (subst nat_to_string.simps) (simp add: Suc_le_eq)

lemma nat_to_string_inj: "nat_to_string m = nat_to_string n \<Longrightarrow> m = n"
proof (induction m arbitrary: n rule: nat_to_string.induct)
  case (1 m)
  show ?case
  proof (cases "m < 10")
    case True
    with "1.prems" have len: "length (nat_to_string n) = 1"
      by (simp add: nat_to_string.simps [of m]) (drule sym, simp)
    have "n < 10" using nat_to_string_length_ge2 [of n] len by linarith
    with True "1.prems" show ?thesis
      by (simp add: nat_to_string.simps [of m] nat_to_string.simps [of n] digit_char_inj)
  next
    case False
    then have "2 \<le> length (nat_to_string m)" by (simp add: nat_to_string_length_ge2)
    with "1.prems" have "\<not> n < 10"
      by (auto simp: nat_to_string.simps [of n])
    with False "1.prems" have eq: "nat_to_string (m div 10) = nat_to_string (n div 10)"
      and "digit_char (m mod 10) = digit_char (n mod 10)"
      by (simp_all add: nat_to_string.simps [of m] nat_to_string.simps [of n])
    then have "m mod 10 = n mod 10" by (simp add: digit_char_inj)
    moreover have "m div 10 = n div 10" using "1.IH" [OF False eq] .
    ultimately show ?thesis by (metis div_mult_mod_eq)
  qed
qed

lemma u16_to_string_inj: "u16_to_string v = u16_to_string w \<Longrightarrow> v = w"
  by (metis u16_to_string_def nat_to_string_inj word_unat_eq_iff)

section \<open>Lists and strings\<close>

text \<open>\<open>s.replace(a, b)\<close> for one character, \<open>s.starts_with(p)\<close>, joining with a separator.\<close>

definition replace_char :: "char \<Rightarrow> char \<Rightarrow> string \<Rightarrow> string" where
  "replace_char a b s = map (\<lambda>c. if c = a then b else c) s"

definition starts_with :: "string \<Rightarrow> string \<Rightarrow> bool" where
  "starts_with p s = (take (length p) s = p)"

lemma starts_with_iff_prefix: "starts_with p s \<longleftrightarrow> prefix p s"
  by (auto simp: starts_with_def prefix_def) (metis append_take_drop_id)

text \<open>\<open>format!("'{}'", s)\<close>.\<close>

definition quoted :: "string \<Rightarrow> string" where
  "quoted s = CHR 0x27 # s @ [CHR 0x27]"

fun join :: "string \<Rightarrow> string list \<Rightarrow> string" where
  "join sep [] = []"
| "join sep [x] = x"
| "join sep (x # y # zs) = x @ sep @ join sep (y # zs)"

text \<open>ASCII lower case of one byte, and of a string.\<close>

definition lower_char :: "char \<Rightarrow> char" where
  "lower_char c =
     (let n = (of_char c :: nat) in if 65 \<le> n \<and> n \<le> 90 then char_of (n + 32) else c)"

definition to_lowercase :: "string \<Rightarrow> string" where
  "to_lowercase s = map lower_char s"

lemma prefix_iff_nth:
  "prefix xs ys \<longleftrightarrow> length xs \<le> length ys \<and> (\<forall>i < length xs. xs ! i = ys ! i)"
proof
  assume "prefix xs ys"
  then show "length xs \<le> length ys \<and> (\<forall>i < length xs. xs ! i = ys ! i)"
    by (auto simp: prefix_def nth_append)
next
  assume "length xs \<le> length ys \<and> (\<forall>i < length xs. xs ! i = ys ! i)"
  then have "xs = take (length xs) ys" by (intro nth_equalityI) auto
  then show "prefix xs ys" by (metis take_is_prefix)
qed

lemma strict_prefix_iff_length: "strict_prefix xs ys \<longleftrightarrow> prefix xs ys \<and> length xs < length ys"
  by (metis prefix_length_less prefix_order.le_less less_irrefl)

end
