(* ===== verification/Err.thy ===== *)
theory Err
  imports Prelude
begin

text \<open>
  The error values of the system (\<open>cosmic-space/src/err.rs\<close>) and the status codes of
  reflected waves (\<open>wave/core/http2.rs\<close>): \<open>SpaceErr\<close> with its named constructors,
  the diagnostic reports of the parser errors, \<open>ParseErrs::fold\<close>.  A panic is \<open>None\<close>.
\<close>

section \<open>Diagnostic reports\<close>

text \<open>\<open>Range\<close> of u32 offsets, \<open>Color\<close>, \<open>Label\<close>, \<open>ReportKind\<close>, \<open>Report\<close>.\<close>

record range32 =
  range_start :: "32 word"
  range_end :: "32 word"

datatype color =
    CUnset | CDefault | CBlack | CRed | CGreen | CYellow | CBlue | CMagenta | CCyan | CWhite
  | CFixed "8 word" | CRGB "8 word" "8 word" "8 word"

record label =
  label_span :: range32
  label_msg :: "string option"
  label_color :: "color option"
  label_order :: "32 word"
  label_priority :: "32 word"

datatype report_kind = RKError | RKWarning | RKAdvice

record report =
  report_rkind :: report_kind
  report_code :: "string option"
  report_msg :: "string option"
  report_note :: "string option"
  report_help :: "string option"
  report_location :: range32
  report_labels :: "label list"

definition range32_default :: range32 where
  "range32_default = \<lparr>range_start = 0, range_end = 0\<rparr>"

text \<open>\<open>Label::new\<close>: the usize bounds are cut to u32 by \<open>as u32\<close>.\<close>

definition label_new :: "nat \<times> nat \<Rightarrow> label" where
  "label_new r =
     \<lparr>label_span = \<lparr>range_start = word_of_nat (fst r), range_end = word_of_nat (snd r)\<rparr>,
      label_msg = None, label_color = None, label_order = 0, label_priority = 0\<rparr>"

definition label_with_message :: "label \<Rightarrow> string \<Rightarrow> label" where
  "label_with_message l m = l\<lparr>label_msg := Some m\<rparr>"

text \<open>\<open>Report::build\<close> starts an empty report (the last two arguments are unused),
  the builder methods fill it in, \<open>finish\<close> drops code, note and help.\<close>

definition report_build :: "report_kind \<Rightarrow> report" where
  "report_build k =
     \<lparr>report_rkind = k, report_code = None, report_msg = None, report_note = None,
      report_help = None, report_location = range32_default, report_labels = []\<rparr>"

definition report_with_message :: "report \<Rightarrow> string \<Rightarrow> report" where
  "report_with_message r m = r\<lparr>report_msg := Some m\<rparr>"

definition report_with_label :: "report \<Rightarrow> label \<Rightarrow> report" where
  "report_with_label r l = r\<lparr>report_labels := report_labels r @ [l]\<rparr>"

definition report_finish :: "report \<Rightarrow> report" where
  "report_finish r =
     \<lparr>report_rkind = report_rkind r, report_code = None, report_msg = report_msg r,
      report_note = None, report_help = None, report_location = report_location r,
      report_labels = report_labels r\<rparr>"

section \<open>Errors\<close>

record parse_errs =
  pe_report :: "report list"
  pe_source :: "string option"
  pe_ctx :: string

datatype space_err =
    Status "16 word" string
  | ParseErrs parse_errs

text \<open>\<open>SpaceErr::new\<close> panics on the message \<open>500\<close>.\<close>

definition space_err_new :: "16 word \<Rightarrow> string \<Rightarrow> space_err option" where
  "space_err_new status message = (if message = ''500'' then None else Some (Status status message))"

text \<open>\<open>From<String>\<close> and \<open>From<&str>\<close>: the message with status 500, without the check.\<close>

definition err_of_string :: "string \<Rightarrow> space_err" where
  "err_of_string message = Status 500 message"

definition err_timeout :: "string \<Rightarrow> space_err option" where
  "err_timeout s = space_err_new 408 (''Timeout: '' @ s)"

definition err_server_error :: "string \<Rightarrow> space_err option" where
  "err_server_error s = space_err_new 500 (''Server Side Error: '' @ s)"

definition err_forbidden :: "string \<Rightarrow> space_err option" where
  "err_forbidden s = space_err_new 403 (''Forbidden: '' @ s)"

definition err_not_found :: "string \<Rightarrow> space_err option" where
  "err_not_found s = space_err_new 404 (''Not Found: '' @ s)"

definition err_bad_request :: "string \<Rightarrow> space_err option" where
  "err_bad_request s = space_err_new 400 (''Bad Request: '' @ s)"

text \<open>The values the named constructors return (see \<open>named_errors_do_not_panic\<close>).\<close>

abbreviation server_error :: "string \<Rightarrow> space_err" where
  "server_error s \<equiv> Status 500 (''Server Side Error: '' @ s)"

abbreviation bad_request :: "string \<Rightarrow> space_err" where
  "bad_request s \<equiv> Status 400 (''Bad Request: '' @ s)"

abbreviation not_found :: "string \<Rightarrow> space_err" where
  "not_found s \<equiv> Status 404 (''Not Found: '' @ s)"

abbreviation forbidden :: "string \<Rightarrow> space_err" where
  "forbidden s \<equiv> Status 403 (''Forbidden: '' @ s)"

definition err_from_status :: "16 word \<Rightarrow> space_err" where
  "err_from_status status =
     Status status
       (if status = 400 then ''Bad Request''
        else if status = 404 then ''Not Found''
        else if status = 403 then ''Forbidden''
        else if status = 408 then ''Timeout''
        else if status = 500 then ''Internal Server Error''
        else u16_to_string status @ '' Error'')"

fun parse_errs_ctx :: "parse_errs \<Rightarrow> string \<Rightarrow> parse_errs" where
  "parse_errs_ctx e c = \<lparr>pe_report = pe_report e, pe_source = pe_source e, pe_ctx = c\<rparr>"

fun err_ctx :: "space_err \<Rightarrow> string \<Rightarrow> space_err" where
  "err_ctx (Status status message) c = Status status (message @ '' | '' @ c)"
| "err_ctx (ParseErrs errs) c = ParseErrs (parse_errs_ctx errs c)"

fun err_status :: "space_err \<Rightarrow> 16 word" where
  "err_status (Status status _) = status"
| "err_status (ParseErrs _) = 500"

fun err_message :: "space_err \<Rightarrow> string" where
  "err_message (Status _ message) = message"
| "err_message (ParseErrs _) = ''Error report''"

text \<open>\<open>Display\<close>: status and message, or a fixed text for a report.\<close>

fun err_to_string :: "space_err \<Rightarrow> string" where
  "err_to_string (Status status message) = u16_to_string status @ '': '' @ message"
| "err_to_string (ParseErrs _) = ''Error Report...''"

definition parse_errs_from_report :: "report \<Rightarrow> string \<Rightarrow> parse_errs" where
  "parse_errs_from_report r source = \<lparr>pe_report = [r], pe_source = Some source, pe_ctx = ''''\<rparr>"

definition parse_errs_from_range ::
  "string \<Rightarrow> string \<Rightarrow> nat \<times> nat \<Rightarrow> string \<Rightarrow> space_err" where
  "parse_errs_from_range message lbl rng extra =
     ParseErrs (parse_errs_from_report
       (report_finish
         (report_with_label (report_with_message (report_build RKError) message)
           (label_with_message (label_new rng) lbl)))
       extra)"

text \<open>\<open>From<SpaceErr> for ParseErrs\<close> keeps nothing of the error it converts.\<close>

definition parse_errs_of_space_err :: "space_err \<Rightarrow> parse_errs" where
  "parse_errs_of_space_err u = \<lparr>pe_report = [], pe_source = None, pe_ctx = ''''\<rparr>"

text \<open>\<open>ParseErrs::fold\<close>, after its conversion of every element.\<close>

definition parse_errs_fold :: "('e \<Rightarrow> parse_errs) \<Rightarrow> 'e list \<Rightarrow> parse_errs" where
  "parse_errs_fold into es =
     (let errs = map into es;
          source = (case errs of [] \<Rightarrow> None
                    | first # _ \<Rightarrow> (case pe_source first of Some s \<Rightarrow> Some s | None \<Rightarrow> None))
      in \<lparr>pe_report = concat (map pe_report errs), pe_source = source, pe_ctx = ''''\<rparr>)"

section \<open>Status codes\<close>

record status_code =
  code :: "16 word"

text \<open>\<open>StatusCode::from_u16\<close> never fails, whatever the number.\<close>

definition status_from_u16 :: "16 word \<Rightarrow> space_err + status_code" where
  "status_from_u16 c = Inr \<lparr>code = c\<rparr>"

definition status_as_u16 :: "status_code \<Rightarrow> 16 word" where
  "status_as_u16 s = code s"

definition status_is_success :: "status_code \<Rightarrow> bool" where
  "status_is_success s \<longleftrightarrow> 200 \<le> code s \<and> code s \<le> 299"

definition status_to_string :: "status_code \<Rightarrow> string" where
  "status_to_string s = u16_to_string (code s)"

definition status_default :: status_code where
  "status_default = \<lparr>code = 200\<rparr>"

abbreviation status :: "16 word \<Rightarrow> status_code" where
  "status c \<equiv> \<lparr>code = c\<rparr>"

section \<open>Facts\<close>

lemma status_from_u16_total: "\<exists>s. status_from_u16 c = Inr s \<and> status_as_u16 s = c"
  by (simp add: status_from_u16_def status_as_u16_def)

lemma status_is_success_unat:
  "status_is_success s \<longleftrightarrow> 200 \<le> unat (code s) \<and> unat (code s) \<le> 299"
  by (simp add: status_is_success_def word_le_nat_alt)

lemma err_values:
  "err_timeout s = Some (Status 408 (''Timeout: '' @ s))"
  "err_server_error s = Some (server_error s)"
  "err_forbidden s = Some (forbidden s)"
  "err_not_found s = Some (not_found s)"
  "err_bad_request s = Some (bad_request s)"
  by (simp_all add: err_timeout_def err_server_error_def err_forbidden_def err_not_found_def
      err_bad_request_def space_err_new_def)

lemma err_ctx_status [simp]: "err_status (err_ctx e c) = err_status e"
  by (cases e) simp_all

lemma fold_of_reports:
  "pe_report (parse_errs_fold (\<lambda>e. e) es) = concat (map pe_report es)"
  by (simp add: parse_errs_fold_def Let_def)

lemma fold_of_space_errs:
  "parse_errs_fold parse_errs_of_space_err es = \<lparr>pe_report = [], pe_source = None, pe_ctx = ''''\<rparr>"
  by (cases es) (auto simp: parse_errs_fold_def parse_errs_of_space_err_def Let_def)

end
