(* ===== verification/Loc.thy ===== *)
theory Loc
  imports Err "HOL-Library.List_Lexorder" "HOL-Library.Char_ord" "HOL-Library.Product_Lexorder"
begin

text \<open>
  Addresses (\<open>cosmic-space/src/loc.rs\<close>): route and point segments in their three stages
  (with variables, with context, resolved), points, topics, layers, surfaces and star keys, with
  their conversions and operations.

  A semantic version (crate \<open>semver\<close>) is carried as its canonical text, which is all this
  code observes of it (equality and \<open>to_string\<close>).  The parser behind
  \<open>Point::from_str\<close> is the parameter \<open>from_str\<close> of the operations that call it.
\<close>

section \<open>Identifiers\<close>

datatype uuid = Uuid (uuid_text: string)

datatype version = Version (version_text: string)

definition version_to_string :: "version \<Rightarrow> string" where
  "version_to_string v = version_text v"

record trace =
  trace_range :: "nat \<times> nat"
  trace_extra :: string

record variable =
  var_name :: string
  var_trace :: trace

datatype provision_affinity = PALocal | PAWrangle

section \<open>Route segments\<close>

datatype route_seg =
    RSThis | RSLocal | RSRemote | RSGlobal
  | RSDomain string | RSTag string | RSStar string

datatype route_seg_var =
    RVThis | RVLocal | RVRemote | RVGlobal
  | RVDomain string | RVTag string | RVStar string
  | RVVar variable

fun route_is_local :: "route_seg \<Rightarrow> bool" where
  "route_is_local RSThis = True"
| "route_is_local _ = False"

fun route_is_global :: "route_seg \<Rightarrow> bool" where
  "route_is_global RSGlobal = True"
| "route_is_global _ = False"

fun route_var_is_local :: "route_seg_var \<Rightarrow> bool" where
  "route_var_is_local RVThis = True"
| "route_var_is_local _ = False"

fun route_var_is_global :: "route_seg_var \<Rightarrow> bool" where
  "route_var_is_global RVGlobal = True"
| "route_var_is_global _ = False"

fun route_var_try_into :: "route_seg_var \<Rightarrow> space_err + route_seg" where
  "route_var_try_into RVThis = Inr RSThis"
| "route_var_try_into RVLocal = Inr RSLocal"
| "route_var_try_into RVGlobal = Inr RSGlobal"
| "route_var_try_into (RVDomain domain) = Inr (RSDomain domain)"
| "route_var_try_into (RVTag tag) = Inr (RSTag tag)"
| "route_var_try_into (RVStar star) = Inr (RSStar star)"
| "route_var_try_into (RVVar var) =
     Inl (parse_errs_from_range ''variables not allowed in this context''
       ''variable not allowed here'' (trace_range (var_trace var)) (trace_extra (var_trace var)))"
| "route_var_try_into RVRemote = Inr RSRemote"

fun route_into_var :: "route_seg \<Rightarrow> route_seg_var" where
  "route_into_var RSThis = RVThis"
| "route_into_var RSLocal = RVLocal"
| "route_into_var RSRemote = RVRemote"
| "route_into_var RSGlobal = RVGlobal"
| "route_into_var (RSDomain domain) = RVDomain domain"
| "route_into_var (RSTag tag) = RVTag tag"
| "route_into_var (RSStar mesh) = RVStar mesh"

fun route_var_to_string :: "route_seg_var \<Rightarrow> string" where
  "route_var_to_string RVThis = ''.''"
| "route_var_to_string RVLocal = ''LOCAL''"
| "route_var_to_string RVRemote = ''REMOTE''"
| "route_var_to_string RVGlobal = ''GLOBAL''"
| "route_var_to_string (RVDomain domain) = domain"
| "route_var_to_string (RVTag tag) = ''['' @ tag @ '']''"
| "route_var_to_string (RVStar mesh) = ''<<'' @ mesh @ ''>>''"
| "route_var_to_string (RVVar var) = ''${'' @ var_name var @ ''}''"

fun route_to_string :: "route_seg \<Rightarrow> string" where
  "route_to_string RSThis = ''.''"
| "route_to_string (RSDomain domain) = domain"
| "route_to_string (RSTag tag) = ''['' @ tag @ '']''"
| "route_to_string (RSStar sys) = ''<<'' @ sys @ ''>>''"
| "route_to_string RSGlobal = ''GLOBAL''"
| "route_to_string RSLocal = ''LOCAL''"
| "route_to_string RSRemote = ''REMOTE''"

section \<open>Point segments\<close>

datatype point_seg_kind =
    PKRoot | PKSpace | PKBase | PKFilesystemRootDir | PKDir | PKFile | PKVersion
  | PKPop | PKWorking | PKVar

fun preceding_delim :: "point_seg_kind \<Rightarrow> bool \<Rightarrow> string" where
  "preceding_delim PKSpace _ = ''''"
| "preceding_delim PKBase _ = '':''"
| "preceding_delim PKDir _ = ''''"
| "preceding_delim PKFile _ = ''''"
| "preceding_delim PKVersion _ = '':''"
| "preceding_delim PKFilesystemRootDir _ = '':''"
| "preceding_delim PKRoot _ = ''''"
| "preceding_delim PKPop post_fileroot = (if post_fileroot then '''' else '':'')"
| "preceding_delim PKWorking post_fileroot = (if post_fileroot then '''' else '':'')"
| "preceding_delim PKVar post_fileroot = (if post_fileroot then '''' else '':'')"

fun kind_is_normalized :: "point_seg_kind \<Rightarrow> bool" where
  "kind_is_normalized PKPop = False"
| "kind_is_normalized PKWorking = False"
| "kind_is_normalized PKVar = False"
| "kind_is_normalized _ = True"

fun kind_is_version :: "point_seg_kind \<Rightarrow> bool" where
  "kind_is_version PKVersion = True"
| "kind_is_version _ = False"

fun kind_is_file :: "point_seg_kind \<Rightarrow> bool" where
  "kind_is_file PKFile = True"
| "kind_is_file _ = False"

fun kind_is_dir :: "point_seg_kind \<Rightarrow> bool" where
  "kind_is_dir PKDir = True"
| "kind_is_dir _ = False"

fun kind_is_filesystem_seg :: "point_seg_kind \<Rightarrow> bool" where
  "kind_is_filesystem_seg PKRoot = False"
| "kind_is_filesystem_seg PKSpace = False"
| "kind_is_filesystem_seg PKBase = False"
| "kind_is_filesystem_seg PKFilesystemRootDir = True"
| "kind_is_filesystem_seg PKDir = True"
| "kind_is_filesystem_seg PKFile = True"
| "kind_is_filesystem_seg PKVersion = False"
| "kind_is_filesystem_seg PKPop = True"
| "kind_is_filesystem_seg PKWorking = True"
| "kind_is_filesystem_seg PKVar = True"

fun kind_is_mesh_seg :: "point_seg_kind \<Rightarrow> bool" where
  "kind_is_mesh_seg PKRoot = True"
| "kind_is_mesh_seg PKSpace = True"
| "kind_is_mesh_seg PKBase = True"
| "kind_is_mesh_seg PKFilesystemRootDir = False"
| "kind_is_mesh_seg PKDir = False"
| "kind_is_mesh_seg PKFile = False"
| "kind_is_mesh_seg PKVersion = True"
| "kind_is_mesh_seg PKPop = True"
| "kind_is_mesh_seg PKWorking = True"
| "kind_is_mesh_seg PKVar = True"

datatype point_seg =
    PSRoot | PSSpace string | PSBase string | PSFilesystemRootDir
  | PSDir string | PSFile string | PSVersion version

datatype point_seg_ctx =
    PCRoot | PCSpace string | PCBase string | PCFilesystemRootDir
  | PCDir string | PCFile string | PCVersion version
  | PCWorking trace | PCPop trace

datatype point_seg_var =
    PVRoot | PVSpace string | PVBase string | PVFilesystemRootDir
  | PVDir string | PVFile string | PVVersion version
  | PVWorking trace | PVPop trace | PVVar variable

fun seg_is_filesystem_root :: "point_seg \<Rightarrow> bool" where
  "seg_is_filesystem_root PSFilesystemRootDir = True"
| "seg_is_filesystem_root _ = False"

fun seg_kind :: "point_seg \<Rightarrow> point_seg_kind" where
  "seg_kind PSRoot = PKRoot"
| "seg_kind (PSSpace _) = PKSpace"
| "seg_kind (PSBase _) = PKBase"
| "seg_kind PSFilesystemRootDir = PKFilesystemRootDir"
| "seg_kind (PSDir _) = PKDir"
| "seg_kind (PSFile _) = PKFile"
| "seg_kind (PSVersion _) = PKVersion"

fun ctx_is_filesystem_root :: "point_seg_ctx \<Rightarrow> bool" where
  "ctx_is_filesystem_root PCFilesystemRootDir = True"
| "ctx_is_filesystem_root _ = False"

fun ctx_kind :: "point_seg_ctx \<Rightarrow> point_seg_kind" where
  "ctx_kind PCRoot = PKRoot"
| "ctx_kind (PCSpace _) = PKSpace"
| "ctx_kind (PCBase _) = PKBase"
| "ctx_kind PCFilesystemRootDir = PKFilesystemRootDir"
| "ctx_kind (PCDir _) = PKDir"
| "ctx_kind (PCFile _) = PKFile"
| "ctx_kind (PCVersion _) = PKVersion"
| "ctx_kind (PCPop _) = PKPop"
| "ctx_kind (PCWorking _) = PKWorking"

fun var_is_filesystem_root :: "point_seg_var \<Rightarrow> bool" where
  "var_is_filesystem_root PVFilesystemRootDir = True"
| "var_is_filesystem_root _ = False"

fun var_kind :: "point_seg_var \<Rightarrow> point_seg_kind" where
  "var_kind PVRoot = PKRoot"
| "var_kind (PVSpace _) = PKSpace"
| "var_kind (PVBase _) = PKBase"
| "var_kind PVFilesystemRootDir = PKFilesystemRootDir"
| "var_kind (PVDir _) = PKDir"
| "var_kind (PVFile _) = PKFile"
| "var_kind (PVVersion _) = PKVersion"
| "var_kind (PVPop _) = PKPop"
| "var_kind (PVWorking _) = PKWorking"
| "var_kind (PVVar _) = PKVar"

fun var_seg_to_string :: "point_seg_var \<Rightarrow> string" where
  "var_seg_to_string PVRoot = ''''"
| "var_seg_to_string (PVSpace space) = space"
| "var_seg_to_string (PVBase base) = base"
| "var_seg_to_string PVFilesystemRootDir = ''/''"
| "var_seg_to_string (PVDir dir) = dir"
| "var_seg_to_string (PVFile file) = file"
| "var_seg_to_string (PVVersion v) = version_to_string v"
| "var_seg_to_string (PVWorking _) = ''.''"
| "var_seg_to_string (PVPop _) = ''..''"
| "var_seg_to_string (PVVar var) = ''${'' @ var_name var @ ''}''"

fun seg_to_string :: "point_seg \<Rightarrow> string" where
  "seg_to_string (PSSpace space) = space"
| "seg_to_string (PSBase base) = base"
| "seg_to_string (PSDir dir) = dir"
| "seg_to_string (PSFile file) = file"
| "seg_to_string (PSVersion v) = version_to_string v"
| "seg_to_string PSFilesystemRootDir = ''/''"
| "seg_to_string PSRoot = ''''"

text \<open>\<open>PointSeg::is_file\<close>, \<open>is_normalized\<close>, \<open>is_version\<close>, \<open>is_filesystem_seg\<close>: through
  the kind.\<close>

definition seg_is_file :: "point_seg \<Rightarrow> bool" where
  "seg_is_file s = kind_is_file (seg_kind s)"

definition seg_is_normalized :: "point_seg \<Rightarrow> bool" where
  "seg_is_normalized s = kind_is_normalized (seg_kind s)"

definition seg_is_version :: "point_seg \<Rightarrow> bool" where
  "seg_is_version s = kind_is_version (seg_kind s)"

definition seg_is_filesystem_seg :: "point_seg \<Rightarrow> bool" where
  "seg_is_filesystem_seg s = kind_is_filesystem_seg (seg_kind s)"

fun ctx_into_var :: "point_seg_ctx \<Rightarrow> point_seg_var" where
  "ctx_into_var PCRoot = PVRoot"
| "ctx_into_var (PCSpace space) = PVSpace space"
| "ctx_into_var (PCBase base) = PVBase base"
| "ctx_into_var PCFilesystemRootDir = PVFilesystemRootDir"
| "ctx_into_var (PCDir dir) = PVDir dir"
| "ctx_into_var (PCFile file) = PVFile file"
| "ctx_into_var (PCVersion v) = PVVersion v"
| "ctx_into_var (PCWorking t) = PVWorking t"
| "ctx_into_var (PCPop t) = PVPop t"

definition trace_err :: "string \<Rightarrow> string \<Rightarrow> trace \<Rightarrow> space_err" where
  "trace_err message lbl t = parse_errs_from_range message lbl (trace_range t) (trace_extra t)"

fun var_try_into_ctx :: "point_seg_var \<Rightarrow> space_err + point_seg_ctx" where
  "var_try_into_ctx PVRoot = Inr PCRoot"
| "var_try_into_ctx (PVSpace space) = Inr (PCSpace space)"
| "var_try_into_ctx (PVBase base) = Inr (PCBase base)"
| "var_try_into_ctx PVFilesystemRootDir = Inr PCFilesystemRootDir"
| "var_try_into_ctx (PVDir dir) = Inr (PCDir dir)"
| "var_try_into_ctx (PVFile file) = Inr (PCFile file)"
| "var_try_into_ctx (PVVersion v) = Inr (PCVersion v)"
| "var_try_into_ctx (PVWorking t) =
     Inl (trace_err ''working point not available in this context''
       ''working point not available'' t)"
| "var_try_into_ctx (PVPop t) =
     Inl (trace_err ''point pop not available in this context'' ''point pop not available'' t)"
| "var_try_into_ctx (PVVar var) =
     Inl (trace_err ''variable substitution not available in this context''
       ''var subst not available'' (var_trace var))"

fun ctx_try_into_seg :: "point_seg_ctx \<Rightarrow> space_err + point_seg" where
  "ctx_try_into_seg PCRoot = Inr PSRoot"
| "ctx_try_into_seg (PCSpace space) = Inr (PSSpace space)"
| "ctx_try_into_seg (PCBase base) = Inr (PSBase base)"
| "ctx_try_into_seg PCFilesystemRootDir = Inr PSFilesystemRootDir"
| "ctx_try_into_seg (PCDir dir) = Inr (PSDir dir)"
| "ctx_try_into_seg (PCFile file) = Inr (PSFile file)"
| "ctx_try_into_seg (PCVersion v) = Inr (PSVersion v)"
| "ctx_try_into_seg (PCWorking t) =
     Inl (trace_err ''working point not available in this context''
       ''working point not available'' t)"
| "ctx_try_into_seg (PCPop t) =
     Inl (trace_err ''point pop not available in this context'' ''point pop not available'' t)"

fun seg_into_ctx :: "point_seg \<Rightarrow> point_seg_ctx" where
  "seg_into_ctx PSRoot = PCRoot"
| "seg_into_ctx (PSSpace space) = PCSpace space"
| "seg_into_ctx (PSBase base) = PCBase base"
| "seg_into_ctx PSFilesystemRootDir = PCFilesystemRootDir"
| "seg_into_ctx (PSDir dir) = PCDir dir"
| "seg_into_ctx (PSFile file) = PCFile file"
| "seg_into_ctx (PSVersion v) = PCVersion v"

datatype point_seg_delim = DelimEmpty | DelimMesh | DelimFile

fun delim_to_string :: "point_seg_delim \<Rightarrow> string" where
  "delim_to_string DelimEmpty = ''''"
| "delim_to_string DelimMesh = '':''"
| "delim_to_string DelimFile = ''/''"

record 's point_seg_pair =
  pair_delim :: point_seg_delim
  pair_seg :: 's

definition pair_to_string :: "('s \<Rightarrow> string) \<Rightarrow> 's point_seg_pair \<Rightarrow> string" where
  "pair_to_string seg_str p = delim_to_string (pair_delim p) @ seg_str (pair_seg p)"

section \<open>Resolving stages\<close>

text \<open>
  A route or segment goes through stages, each with fewer constructors than the one before:
  \<open>embed\<close> is the infallible \<open>Into\<close> back to the earlier stage, \<open>project\<close> the
  fallible \<open>TryInto\<close> to the later one.  The two laws make lists of segments convert
  exactly when every element is an embedded one.
\<close>

locale stage =
  fixes embed :: "'a \<Rightarrow> 'b" and project :: "'b \<Rightarrow> space_err + 'a"
  assumes project_embed: "project (embed a) = Inr a"
    and project_only_embedded: "project b = Inr a \<Longrightarrow> b = embed a"
begin

lemma project_iff: "project b = Inr a \<longleftrightarrow> b = embed a"
  using project_embed project_only_embedded by blast

lemma embed_inj: "embed a = embed b \<longleftrightarrow> a = b"
  by (metis project_embed sum.inject(2))

lemma project_all_iff: "res_map project bs = Inr as \<longleftrightarrow> bs = map embed as"
proof -
  have "list_all2 (\<lambda>b a. b = embed a) bs as \<longleftrightarrow> bs = map embed as"
    by (induction bs arbitrary: as) (auto simp: list_all2_Cons1)
  then show ?thesis by (simp add: res_map_Inr_iff project_iff)
qed

lemma project_all_embed: "res_map project (map embed as) = Inr as"
  by (simp add: project_all_iff)

lemma project_fails_iff: "is_ok (project b) \<longleftrightarrow> b \<in> range embed"
  by (auto simp: is_ok_iff project_iff)

end

interpretation route_stage: stage route_into_var route_var_try_into
proof
  show "route_var_try_into (route_into_var a) = Inr a" for a
    by (cases a) simp_all
  show "b = route_into_var a" if "route_var_try_into b = Inr a" for a b
    using that by (cases b) auto
qed

interpretation ctx_stage: stage seg_into_ctx ctx_try_into_seg
proof
  show "ctx_try_into_seg (seg_into_ctx a) = Inr a" for a
    by (cases a) simp_all
  show "b = seg_into_ctx a" if "ctx_try_into_seg b = Inr a" for a b
    using that by (cases b) auto
qed

text \<open>From segments with variables, the two fallible steps one after the other.\<close>

definition var_try_into_seg :: "point_seg_var \<Rightarrow> space_err + point_seg" where
  "var_try_into_seg v = res_bind (var_try_into_ctx v) ctx_try_into_seg"

interpretation var_stage: stage "ctx_into_var \<circ> seg_into_ctx" var_try_into_seg
proof
  show "var_try_into_seg ((ctx_into_var \<circ> seg_into_ctx) a) = Inr a" for a
    by (cases a) (simp_all add: var_try_into_seg_def)
  show "b = (ctx_into_var \<circ> seg_into_ctx) a" if "var_try_into_seg b = Inr a" for a b
    using that by (cases b) (auto simp: var_try_into_seg_def)
qed

lemma route_embed_to_string: "route_var_to_string (route_into_var r) = route_to_string r"
  by (cases r) simp_all

lemma seg_embed_to_string:
  "var_seg_to_string ((ctx_into_var \<circ> seg_into_ctx) s) = seg_to_string s"
  by (cases s) simp_all

lemma seg_embed_kind [simp]:
  "ctx_kind (seg_into_ctx s) = seg_kind s"
  "var_kind (ctx_into_var c) = ctx_kind c"
  by ((cases s; simp), (cases c; simp))

lemma seg_embed_root [simp]:
  "ctx_is_filesystem_root (seg_into_ctx s) = seg_is_filesystem_root s"
  "var_is_filesystem_root (ctx_into_var c) = ctx_is_filesystem_root c"
  by ((cases s; simp), (cases c; simp))

lemma seg_is_normalized_always [simp]: "seg_is_normalized s"
  by (cases s) (simp_all add: seg_is_normalized_def)

lemma seg_is_version_iff: "seg_is_version s \<longleftrightarrow> (\<exists>v. s = PSVersion v)"
  by (cases s) (simp_all add: seg_is_version_def)

lemma filesystem_or_mesh: "seg_is_filesystem_seg s \<longleftrightarrow> \<not> kind_is_mesh_seg (seg_kind s)"
  by (cases s) (simp_all add: seg_is_filesystem_seg_def)

end
