(* ===== verification/Points.thy ===== *)
theory Points
  imports Loc
begin

text \<open>
  Points (\<open>PointDef<Route, Seg>\<close> of \<open>cosmic-space/src/loc.rs\<close>) and everything built
  on them: their queries, \<open>push\<close>/\<open>pop\<close>/\<open>truncate\<close>, rendering, the collapse of
  points with variables and context, resolution against a working point, agents, and star keys.
\<close>

section \<open>Points\<close>

record ('r, 's) point_def =
  route :: 'r
  segments :: "'s list"

type_synonym point = "(route_seg, point_seg) point_def"
type_synonym point_ctx = "(route_seg, point_seg_ctx) point_def"
type_synonym point_var = "(route_seg_var, point_seg_var) point_def"

definition point_parent :: "('r, 's) point_def \<Rightarrow> ('r, 's) point_def option" where
  "point_parent p =
     (if segments p = [] then None
      else Some \<lparr>route = route p, segments = butlast (segments p)\<rparr>)"

definition last_segment :: "('r, 's) point_def \<Rightarrow> 's option" where
  "last_segment p = (if segments p = [] then None else Some (last (segments p)))"

definition is_root :: "('r, 's) point_def \<Rightarrow> bool" where
  "is_root p \<longleftrightarrow> segments p = []"

definition root_point :: point where
  "root_point = \<lparr>route = RSThis, segments = []\<rparr>"

definition root_with_route :: "route_seg \<Rightarrow> point" where
  "root_with_route r = \<lparr>route = r, segments = []\<rparr>"

definition is_local_root :: "point \<Rightarrow> bool" where
  "is_local_root p \<longleftrightarrow> segments p = [] \<and> route_is_local (route p)"

definition point_is_global :: "point \<Rightarrow> bool" where
  "point_is_global p = (case route p of RSGlobal \<Rightarrow> True | _ \<Rightarrow> False)"

text \<open>\<open>is_parent_of\<close>: an index loop over the segments of the first point.\<close>

definition is_parent_of :: "point \<Rightarrow> point \<Rightarrow> bool" where
  "is_parent_of self p =
     (if length (segments self) > length (segments p) then False
      else if route self \<noteq> route p then False
      else list_all (\<lambda>i. segments self ! i = segments p ! i) [0..<length (segments self)])"

definition is_parent :: "point \<Rightarrow> point \<Rightarrow> check" where
  "is_parent self child =
     (if route self \<noteq> route child then refuse
      else if length (segments self) \<ge> length (segments child) then refuse
      else if list_all (\<lambda>(i, seg). seg = segments child ! i)
                (zip [0..<length (segments self)] (segments self))
      then pass else refuse)"

definition point_is_normalized :: "point \<Rightarrow> bool" where
  "point_is_normalized p = list_all seg_is_normalized (segments p)"

text \<open>The loop of \<open>normalize\<close>: a normalized segment is kept, another one pops.\<close>

fun normalize_segments :: "space_err \<Rightarrow> point_seg list \<Rightarrow> point_seg list \<Rightarrow> space_err + point_seg list"
where
  "normalize_segments e acc [] = Inr acc"
| "normalize_segments e acc (seg # segs) =
     (if seg_is_normalized seg then normalize_segments e (acc @ [seg]) segs
      else if acc = [] then Inl e
      else normalize_segments e (butlast acc) segs)"

section \<open>Rendering\<close>

text \<open>\<open>to_string_impl\<close>: the loop over the segments carries \<open>post_fileroot\<close>.\<close>

fun segments_to_string ::
  "('s \<Rightarrow> bool) \<Rightarrow> ('s \<Rightarrow> point_seg_kind) \<Rightarrow> ('s \<Rightarrow> string) \<Rightarrow> bool \<Rightarrow> nat \<Rightarrow> 's list \<Rightarrow> string"
where
  "segments_to_string isroot kind str post_fileroot i [] = ''''"
| "segments_to_string isroot kind str post_fileroot i (seg # segs) =
     (let post = (if isroot seg then True else post_fileroot)
      in (if i > 0 then preceding_delim (kind seg) post else '''') @ str seg
         @ segments_to_string isroot kind str post (Suc i) segs)"

definition to_string_impl ::
  "('r \<Rightarrow> string) \<Rightarrow> ('s \<Rightarrow> bool) \<Rightarrow> ('s \<Rightarrow> point_seg_kind) \<Rightarrow> ('s \<Rightarrow> string) \<Rightarrow> bool
   \<Rightarrow> ('r, 's) point_def \<Rightarrow> string" where
  "to_string_impl rstr isroot kind str show_route p =
     (if show_route then rstr (route p) @ ''::'' else '''') @
     (if segments p = [] then ''ROOT''
      else segments_to_string isroot kind str False 0 (segments p))"

definition point_postfix :: "point \<Rightarrow> string" where
  "point_postfix p =
     to_string_impl route_to_string seg_is_filesystem_root seg_kind seg_to_string False p"

definition point_to_string :: "point \<Rightarrow> string" where
  "point_to_string p =
     to_string_impl route_to_string seg_is_filesystem_root seg_kind seg_to_string
       (\<not> route_is_local (route p)) p"

definition point_var_to_string :: "point_var \<Rightarrow> string" where
  "point_var_to_string p =
     to_string_impl route_var_to_string var_is_filesystem_root var_kind var_seg_to_string
       (\<not> route_var_is_local (route p)) p"

definition point_to_safe_filename :: "point \<Rightarrow> string" where
  "point_to_safe_filename p = point_to_string p"

section \<open>Queries and updates\<close>

text \<open>\<open>normalize\<close>: \<open>None\<close> is the panic of \<open>expect("expected first segment")\<close>.\<close>

definition point_normalize :: "point \<Rightarrow> (space_err + point) option" where
  "point_normalize p =
     (if point_is_normalized p then Some (Inr p)
      else (case segments p of
              [] \<Rightarrow> None
            | first # _ \<Rightarrow>
                if \<not> seg_is_normalized first then
                  Some (Inl (err_of_string
                    (''absolute point paths cannot begin with '' @ quoted ''..'' @
                     '' (reference parent segment) because there is no working point segment: '' @
                     quoted (point_to_string p))))
                else Some (res_bind
                  (normalize_segments
                     (err_of_string (quoted ''..'' @
                        '' too many pop segments directives: out of parents: '' @
                        quoted (point_to_string p)))
                     [] (segments p))
                  (\<lambda>segs. Inr \<lparr>route = route p, segments = segs\<rparr>))))"

lemma point_parent_length:
  "point_parent p = Some q \<Longrightarrow> length (segments q) < length (segments p)"
  by (auto simp: point_parent_def split: if_splits)

text \<open>\<open>to_bundle\<close> climbs to the nearest version segment; \<open>None\<close> is the panic of
  \<open>expect("expected parent")\<close>.\<close>

function to_bundle :: "point \<Rightarrow> (space_err + point) option" where
  "to_bundle p =
     (if segments p = [] then Some (Inl (err_of_string ''Point does not contain a bundle''))
      else (case last (segments p) of
              PSVersion _ \<Rightarrow> Some (Inr p)
            | _ \<Rightarrow> (case point_parent p of None \<Rightarrow> None | Some q \<Rightarrow> to_bundle q)))"
  by pat_completeness auto
termination
  by (relation "measure (\<lambda>p. length (segments p))") (simp_all add: point_parent_length)

declare to_bundle.simps [simp del]

definition has_bundle :: "point \<Rightarrow> bool option" where
  "has_bundle p =
     (if segments p = [] then Some False
      else (case last (segments p) of
              PSVersion _ \<Rightarrow> Some True
            | _ \<Rightarrow> (case point_parent p of None \<Rightarrow> None
                   | Some q \<Rightarrow> map_option is_ok (to_bundle q))))"

definition has_filesystem :: "point \<Rightarrow> bool" where
  "has_filesystem p = list_ex (\<lambda>s. s = PSFilesystemRootDir) (segments p)"

definition is_artifact_bundle_part :: "point \<Rightarrow> bool" where
  "is_artifact_bundle_part p = list_ex seg_is_version (segments p)"

definition is_artifact :: "point \<Rightarrow> bool" where
  "is_artifact p =
     (case last_segment p of
        Some seg \<Rightarrow> if is_artifact_bundle_part p \<and> seg_is_file seg then True else False
      | None \<Rightarrow> False)"

definition is_artifact_bundle :: "point \<Rightarrow> bool" where
  "is_artifact_bundle p =
     (case last_segment p of Some seg \<Rightarrow> seg_is_version seg | None \<Rightarrow> False)"

definition point_pop :: "point \<Rightarrow> point" where
  "point_pop p = \<lparr>route = route p, segments = butlast (segments p)\<rparr>"

text \<open>\<open>push\<close> renders the point, appends the text of the segment and parses the result.\<close>

definition point_push :: "(string \<Rightarrow> space_err + point) \<Rightarrow> point \<Rightarrow> string \<Rightarrow> space_err + point" where
  "point_push from_str p segment =
     (if segments p = [] then from_str segment
      else (case last (segments p) of
              PSRoot \<Rightarrow> from_str segment
            | PSSpace _ \<Rightarrow> from_str (point_to_string p @ '':'' @ segment)
            | PSBase _ \<Rightarrow> from_str (point_to_string p @ '':'' @ segment)
            | PSFilesystemRootDir \<Rightarrow> from_str (point_to_string p @ segment)
            | PSDir _ \<Rightarrow> from_str (point_to_string p @ segment)
            | PSVersion _ \<Rightarrow>
                if starts_with '':'' segment then from_str (point_to_string p @ segment)
                else from_str (point_to_string p @ '':'' @ segment)
            | PSFile _ \<Rightarrow> Inl (err_of_string ''cannot append to a file'')))"

definition push_file :: "(string \<Rightarrow> space_err + point) \<Rightarrow> point \<Rightarrow> string \<Rightarrow> space_err + point" where
  "push_file from_str p segment = from_str (point_to_string p @ segment)"

definition push_segment :: "point \<Rightarrow> point_seg \<Rightarrow> space_err + point" where
  "push_segment p segment =
     (if (has_filesystem p \<and> seg_is_filesystem_seg segment) \<or> kind_is_mesh_seg (seg_kind segment)
      then Inr (p\<lparr>segments := segments p @ [segment]\<rparr>)
      else if has_filesystem p then
        Inl (err_of_string ''cannot push a Mesh segment onto a point after the FileSystemRoot segment has been pushed'')
      else
        Inl (err_of_string ''cannot push a FileSystem segment onto a point until after the FileSystemRoot segment has been pushed''))"

fun filepath_text :: "point_seg list \<Rightarrow> string" where
  "filepath_text [] = ''''"
| "filepath_text (seg # segs) =
     (case seg of
        PSFilesystemRootDir \<Rightarrow> ''/''
      | PSDir dir \<Rightarrow> dir
      | PSFile file \<Rightarrow> file
      | _ \<Rightarrow> '''') @ filepath_text segs"

definition filepath :: "point \<Rightarrow> string option" where
  "filepath p = (let path = filepath_text (segments p) in if path = [] then None else Some path)"

definition is_filesystem_ref :: "point \<Rightarrow> bool" where
  "is_filesystem_ref p =
     (case last_segment p of Some seg \<Rightarrow> seg_is_filesystem_seg seg | None \<Rightarrow> False)"

fun kind_to_string :: "point_seg_kind \<Rightarrow> string" where
  "kind_to_string PKRoot = ''Root''"
| "kind_to_string PKSpace = ''Space''"
| "kind_to_string PKBase = ''Base''"
| "kind_to_string PKFilesystemRootDir = ''FilesystemRootDir''"
| "kind_to_string PKDir = ''Dir''"
| "kind_to_string PKFile = ''File''"
| "kind_to_string PKVersion = ''Version''"
| "kind_to_string PKPop = ''Pop''"
| "kind_to_string PKWorking = ''Working''"
| "kind_to_string PKVar = ''Var''"

text \<open>The loop of \<open>truncate\<close>: copy segments up to and including the first of the kind.\<close>

fun truncate_segments :: "point_seg_kind \<Rightarrow> point_seg list \<Rightarrow> point_seg list \<Rightarrow> point_seg list option"
where
  "truncate_segments kind acc [] = None"
| "truncate_segments kind acc (seg # segs) =
     (if seg_kind seg = kind then Some (acc @ [seg])
      else truncate_segments kind (acc @ [seg]) segs)"

definition point_truncate :: "point \<Rightarrow> point_seg_kind \<Rightarrow> space_err + point" where
  "point_truncate p kind =
     (case truncate_segments kind [] (segments p) of
        Some segs \<Rightarrow> Inr \<lparr>route = route p, segments = segs\<rparr>
      | None \<Rightarrow> Inl (Status 404 (''Point segment kind: '' @ kind_to_string kind @
                 '' not found in point: '' @ point_to_string p)))"

definition point_var_is_dir :: "point_var \<Rightarrow> bool" where
  "point_var_is_dir p =
     kind_is_dir (var_kind (case segments p of [] \<Rightarrow> PVRoot | _ \<Rightarrow> last (segments p)))"

definition point_ctx_is_dir :: "point_ctx \<Rightarrow> bool" where
  "point_ctx_is_dir p =
     kind_is_dir (ctx_kind (case segments p of [] \<Rightarrow> PCRoot | _ \<Rightarrow> last (segments p)))"

section \<open>Collapse and resolution\<close>

text \<open>\<open>PointVar::collapse\<close> and \<open>PointCtx::collapse\<close>.\<close>

definition point_var_collapse :: "point_var \<Rightarrow> space_err + point_ctx" where
  "point_var_collapse p =
     res_bind (route_var_try_into (route p)) (\<lambda>r.
     res_bind (res_map var_try_into_ctx (segments p)) (\<lambda>segs.
       Inr \<lparr>route = r, segments = segs\<rparr>))"

definition point_ctx_collapse :: "point_ctx \<Rightarrow> space_err + point" where
  "point_ctx_collapse p =
     res_bind (res_map ctx_try_into_seg (segments p)) (\<lambda>segs.
       Inr \<lparr>route = route p, segments = segs\<rparr>)"

text \<open>
  One step of the loop of \<open>PointCtx::to_resolved\<close> at position \<open>index\<close>.  The working
  point of the environment is \<open>env\<close>; \<open>Env::point_or\<close> always has one.
\<close>

definition resolve_step ::
  "(string \<Rightarrow> space_err + point) \<Rightarrow> point \<Rightarrow> point \<Rightarrow> nat \<times> point_seg_ctx \<Rightarrow> space_err + point" where
  "resolve_step from_str env pt seg =
     (case seg of (index, segment) \<Rightarrow>
       (case segment of
          PCWorking t \<Rightarrow>
            if index > 1 then
              Inl (trace_err ''working point can only be referenced in the first point segment''
                     ''first segment only'' t)
            else Inr env
        | PCPop t \<Rightarrow>
            (let start = (if index \<le> 1 then env else pt)
             in if segments start = [] then
                  Inl (trace_err (''Too many point pops. working point was: '' @
                         quoted (point_to_string env)) ''too many point pops'' t)
                else Inr (start\<lparr>segments := butlast (segments start)\<rparr>))
        | PCFilesystemRootDir \<Rightarrow> point_push from_str pt ''/''
        | PCRoot \<Rightarrow> Inr pt
        | PCSpace space \<Rightarrow> point_push from_str pt space
        | PCBase base \<Rightarrow> point_push from_str pt base
        | PCDir dir \<Rightarrow> point_push from_str pt dir
        | PCFile file \<Rightarrow> point_push from_str pt file
        | PCVersion v \<Rightarrow> point_push from_str pt (version_to_string v)))"

definition point_ctx_to_resolved ::
  "(string \<Rightarrow> space_err + point) \<Rightarrow> point \<Rightarrow> point_ctx \<Rightarrow> space_err + point" where
  "point_ctx_to_resolved from_str env self =
     (if segments self = [] then Inr \<lparr>route = route self, segments = []\<rparr>
      else res_foldl (resolve_step from_str env) root_point (List.enumerate 0 (segments self)))"

section \<open>Well-known points and agents\<close>

text \<open>The values of the \<open>lazy_static\<close> points: the first segment of a point is a space,
  the following ones bases; the text before \<open>::\<close> is the route.\<close>

definition hyperuser :: point where
  "hyperuser = \<lparr>route = RSThis,
     segments = [PSSpace ''hyperspace'', PSBase ''users'', PSBase ''hyperuser'']\<rparr>"

definition anonymous :: point where
  "anonymous = \<lparr>route = RSThis,
     segments = [PSSpace ''hyperspace'', PSBase ''users'', PSBase ''anonymous'']\<rparr>"

definition global_exec :: point where
  "global_exec = \<lparr>route = RSGlobal, segments = [PSSpace ''executor'']\<rparr>"

definition local_portal :: point where
  "local_portal = \<lparr>route = RSLocal, segments = [PSSpace ''portal'']\<rparr>"

definition local_endpoint :: point where
  "local_endpoint = \<lparr>route = RSLocal, segments = [PSSpace ''endpoint'']\<rparr>"

definition remote_endpoint :: point where
  "remote_endpoint = \<lparr>route = RSRemote, segments = [PSSpace ''endpoint'']\<rparr>"

datatype agent =
    AgentAnonymous
  | AgentHyperUser
  | AgentPoint point

fun agent_to_point :: "agent \<Rightarrow> point" where
  "agent_to_point AgentAnonymous = anonymous"
| "agent_to_point AgentHyperUser = hyperuser"
| "agent_to_point (AgentPoint p) = p"

definition to_agent :: "point \<Rightarrow> agent" where
  "to_agent p =
     (if p = hyperuser then AgentHyperUser
      else if p = anonymous then AgentAnonymous
      else AgentPoint p)"

section \<open>Star keys\<close>

datatype star_key =
  StarKey (constellation: string) (star_name: string) (star_index: "16 word")

text \<open>\<open>#[derive(Ord)]\<close>: lexicographic in the order of the fields.\<close>

definition star_key_tuple :: "star_key \<Rightarrow> string \<times> string \<times> 16 word" where
  "star_key_tuple k = (constellation k, star_name k, star_index k)"

lemma star_key_tuple_inj: "star_key_tuple j = star_key_tuple k \<longleftrightarrow> j = k"
  by (cases j; cases k) (simp add: star_key_tuple_def)

instantiation star_key :: linorder
begin

definition less_eq_star_key :: "star_key \<Rightarrow> star_key \<Rightarrow> bool" where
  "less_eq_star_key j k \<longleftrightarrow> star_key_tuple j \<le> star_key_tuple k"

definition less_star_key :: "star_key \<Rightarrow> star_key \<Rightarrow> bool" where
  "less_star_key j k \<longleftrightarrow> star_key_tuple j < star_key_tuple k"

instance
  by standard
    (auto simp: less_eq_star_key_def less_star_key_def star_key_tuple_inj [symmetric])

end

record star_handle =
  handle_name :: string
  handle_index :: "16 word"

definition star_handle_name :: "string \<Rightarrow> star_handle" where
  "star_handle_name name = \<lparr>handle_name = name, handle_index = 0\<rparr>"

definition star_handle_new :: "string \<Rightarrow> 16 word \<Rightarrow> star_handle" where
  "star_handle_new name index = \<lparr>handle_name = name, handle_index = index\<rparr>"

definition star_key_new :: "string \<Rightarrow> star_handle \<Rightarrow> star_key" where
  "star_key_new cons handle = StarKey cons (handle_name handle) (handle_index handle)"

definition star_key_machine :: "string \<Rightarrow> star_key" where
  "star_key_machine machine_name = star_key_new ''machine'' (star_handle_name machine_name)"

definition star_key_central :: star_key where
  "star_key_central = StarKey ''central'' ''central'' 0"

definition star_key_to_string :: "star_key \<Rightarrow> string" where
  "star_key_to_string k =
     ''STAR::'' @ constellation k @ '':'' @ star_name k @ ''['' @ u16_to_string (star_index k) @ '']''"

definition star_key_to_sql_name :: "star_key \<Rightarrow> string" where
  "star_key_to_sql_name k =
     ''STAR::'' @ constellation k @ ''_'' @ star_name k @ ''_'' @ u16_to_string (star_index k)"

definition star_key_sql_name :: "star_key \<Rightarrow> string" where
  "star_key_sql_name k =
     ''star_'' @ replace_char CHR ''-'' CHR ''_'' (to_lowercase (constellation k)) @ ''_'' @
     replace_char CHR ''-'' CHR ''_'' (to_lowercase (star_name k)) @ ''_'' @
     u16_to_string (star_index k)"

text \<open>\<open>to_point\<close> unwraps the parse of \<open><<key>>::star\<close>; \<open>None\<close> is its panic.\<close>

definition star_key_to_point :: "(string \<Rightarrow> space_err + point) \<Rightarrow> star_key \<Rightarrow> point option" where
  "star_key_to_point from_str k =
     (case from_str (''<<'' @ star_key_to_string k @ ''>>::star'') of Inl _ \<Rightarrow> None | Inr p \<Rightarrow> Some p)"

text \<open>\<open>TryFrom<Point>\<close>: the key is read from the star route by the key parser.\<close>

definition star_key_try_from :: "(string \<Rightarrow> space_err + star_key) \<Rightarrow> point \<Rightarrow> space_err + star_key" where
  "star_key_try_from parse_key p =
     (case route p of
        RSStar star \<Rightarrow> parse_key star
      | _ \<Rightarrow> Inl (err_of_string ''can only extract StarKey from Mesh point routes''))"

section \<open>Facts: parents and normal form\<close>

text \<open>\<open>Point::normalize\<close> returns the point itself, without error or panic: every segment
  a resolved point can hold is normalized, so its pop loop and its error messages are dead.\<close>

lemma normalize_is_identity: "point_normalize p = Some (Inr p)"
  by (simp add: point_normalize_def point_is_normalized_def list_all_iff)

lemma is_parent_of_iff_prefix:
  "is_parent_of p q \<longleftrightarrow> route p = route q \<and> prefix (segments p) (segments q)"
  by (auto simp: is_parent_of_def prefix_iff_nth list_all_iff)

lemma zip_enumerate_agree:
  "length xs \<le> length ys \<Longrightarrow>
   list_all (\<lambda>(i, x). x = ys ! i) (zip [0..<length xs] xs) \<longleftrightarrow> prefix xs ys"
  by (auto simp: prefix_iff_nth list_all_length)

lemma is_parent_iff_strict_prefix:
  "is_parent p q = pass \<longleftrightarrow> route p = route q \<and> strict_prefix (segments p) (segments q)"
  by (auto simp: is_parent_def zip_enumerate_agree strict_prefix_iff_length)

text \<open>The two ancestry tests agree up to reflexivity: \<open>is_parent_of\<close> holds exactly when the
  points are equal or \<open>is_parent\<close> accepts the pair.\<close>

theorem is_parent_of_reflexive_closure: "is_parent_of p q \<longleftrightarrow> p = q \<or> is_parent p q = pass"
  by (auto simp: is_parent_of_iff_prefix is_parent_iff_strict_prefix strict_prefix_def)

lemma is_parent_of_trans: "is_parent_of p q \<Longrightarrow> is_parent_of q r \<Longrightarrow> is_parent_of p r"
  by (auto simp: is_parent_of_iff_prefix)

lemma is_parent_of_antisym: "is_parent_of p q \<Longrightarrow> is_parent_of q p \<Longrightarrow> p = q"
  by (auto simp: is_parent_of_iff_prefix)

lemma point_parent_is_parent: "point_parent p = Some q \<Longrightarrow> is_parent q p = pass"
  by (auto simp: point_parent_def is_parent_iff_strict_prefix strict_prefix_iff_length
      prefixeq_butlast split: if_splits)

lemma point_pop_parent_of: "is_parent_of (point_pop p) p"
  by (simp add: is_parent_of_iff_prefix point_pop_def prefixeq_butlast)

section \<open>Facts: bundles\<close>

lemma seg_not_version_case:
  "\<not> seg_is_version s \<Longrightarrow> (case s of PSVersion v \<Rightarrow> a | _ \<Rightarrow> b) = b"
  by (cases s) (simp_all add: seg_is_version_iff)

lemma seg_version_case: "seg_is_version s \<Longrightarrow> (case s of PSVersion v \<Rightarrow> a | _ \<Rightarrow> b) = a"
  by (cases s) (simp_all add: seg_is_version_iff)

text \<open>The climb of \<open>to_bundle\<close> in one step per segment.\<close>

lemma to_bundle_root: "segments p = [] \<Longrightarrow>
    to_bundle p = Some (Inl (err_of_string ''Point does not contain a bundle''))"
  by (simp add: to_bundle.simps)

lemma to_bundle_version: "segments p = xs @ [s] \<Longrightarrow> seg_is_version s \<Longrightarrow> to_bundle p = Some (Inr p)"
  by (subst to_bundle.simps) (simp add: seg_version_case)

lemma to_bundle_climb:
  "segments p = xs @ [s] \<Longrightarrow> \<not> seg_is_version s \<Longrightarrow>
   to_bundle p = to_bundle \<lparr>route = route p, segments = xs\<rparr>"
  by (subst to_bundle.simps) (simp add: seg_not_version_case point_parent_def)

lemma to_bundle_spec:
  "to_bundle \<lparr>route = r, segments = xs\<rparr> =
     Some (if list_ex seg_is_version xs
           then Inr \<lparr>route = r, segments = rev (dropWhile (\<lambda>s. \<not> seg_is_version s) (rev xs))\<rparr>
           else Inl (err_of_string ''Point does not contain a bundle''))"
proof (induction xs rule: rev_induct)
  case Nil
  show ?case by (simp add: to_bundle_root)
next
  case (snoc s xs)
  show ?case
  proof (cases "seg_is_version s")
    case True
    then show ?thesis by (simp add: to_bundle_version)
  next
    case False
    then have "to_bundle \<lparr>route = r, segments = xs @ [s]\<rparr> = to_bundle \<lparr>route = r, segments = xs\<rparr>"
      by (simp add: to_bundle_climb)
    with False snoc show ?thesis by simp
  qed
qed

text \<open>\<open>to_bundle\<close> terminates without panic on every point: it answers with the longest
  ancestor that ends in a version segment, and with the error exactly when the point has no
  version segment.\<close>

theorem to_bundle_longest_version_prefix:
  "to_bundle p =
     Some (if is_artifact_bundle_part p
           then Inr (p\<lparr>segments := rev (dropWhile (\<lambda>s. \<not> seg_is_version s) (rev (segments p)))\<rparr>)
           else Inl (err_of_string ''Point does not contain a bundle''))"
  by (cases p) (simp add: to_bundle_spec is_artifact_bundle_part_def)

lemma has_bundle_of_to_bundle: "has_bundle p = map_option is_ok (to_bundle p)"
proof (cases "segments p" rule: rev_cases)
  case Nil
  then show ?thesis by (simp add: has_bundle_def to_bundle_root)
next
  case (snoc xs s)
  then show ?thesis
    by (cases s)
      (simp_all add: has_bundle_def point_parent_def to_bundle_climb to_bundle_version
        seg_is_version_iff)
qed

text \<open>\<open>has_bundle\<close> never panics and decides whether the point has a version segment.\<close>

theorem has_bundle_iff_version: "has_bundle p = Some (is_artifact_bundle_part p)"
  by (cases p) (simp add: to_bundle_spec has_bundle_of_to_bundle is_artifact_bundle_part_def)

section \<open>Facts: truncation, push and pop\<close>

lemma truncate_segments_spec:
  "truncate_segments k acc xs =
     (if list_ex (\<lambda>s. seg_kind s = k) xs
      then Some (acc @ takeWhile (\<lambda>s. seg_kind s \<noteq> k) xs @
                 [hd (dropWhile (\<lambda>s. seg_kind s \<noteq> k) xs)])
      else None)"
  by (induction xs arbitrary: acc) auto

text \<open>\<open>truncate\<close> succeeds exactly when a segment of the kind occurs; its result is then an
  ancestor of the point (or the point), ends in a segment of the kind and has no earlier one.\<close>

theorem truncate_to_first_of_kind:
  "point_truncate p k = Inr q \<longleftrightarrow>
     is_parent_of q p \<and>
     (\<exists>xs s. segments q = xs @ [s] \<and> seg_kind s = k \<and> k \<notin> seg_kind ` set xs)"
proof
  assume "point_truncate p k = Inr q"
  then have ex: "list_ex (\<lambda>s. seg_kind s = k) (segments p)"
    and q: "q = \<lparr>route = route p, segments = takeWhile (\<lambda>s. seg_kind s \<noteq> k) (segments p) @
                 [hd (dropWhile (\<lambda>s. seg_kind s \<noteq> k) (segments p))]\<rparr>"
    by (auto simp: point_truncate_def truncate_segments_spec split: if_splits)
  have ne: "dropWhile (\<lambda>s. seg_kind s \<noteq> k) (segments p) \<noteq> []"
    using ex by (auto simp: list_ex_iff)
  have "segments p = (takeWhile (\<lambda>s. seg_kind s \<noteq> k) (segments p) @
      [hd (dropWhile (\<lambda>s. seg_kind s \<noteq> k) (segments p))]) @
      tl (dropWhile (\<lambda>s. seg_kind s \<noteq> k) (segments p))"
    using ne by simp
  then have "prefix (segments q) (segments p)"
    unfolding q by (auto simp: prefix_def)
  moreover have "seg_kind (hd (dropWhile (\<lambda>s. seg_kind s \<noteq> k) (segments p))) = k"
    using hd_dropWhile [OF ne] by simp
  moreover have "k \<notin> seg_kind ` set (takeWhile (\<lambda>s. seg_kind s \<noteq> k) (segments p))"
    using set_takeWhileD by fastforce
  moreover have "route q = route p" unfolding q by simp
  moreover have "segments q = takeWhile (\<lambda>s. seg_kind s \<noteq> k) (segments p) @
                 [hd (dropWhile (\<lambda>s. seg_kind s \<noteq> k) (segments p))]" unfolding q by simp
  ultimately show "is_parent_of q p \<and>
     (\<exists>xs s. segments q = xs @ [s] \<and> seg_kind s = k \<and> k \<notin> seg_kind ` set xs)"
    unfolding is_parent_of_iff_prefix by blast
next
  assume "is_parent_of q p \<and>
     (\<exists>xs s. segments q = xs @ [s] \<and> seg_kind s = k \<and> k \<notin> seg_kind ` set xs)"
  then obtain xs s ys where q: "route q = route p" "segments q = xs @ [s]" and k: "seg_kind s = k"
    and before: "k \<notin> seg_kind ` set xs" and p: "segments p = xs @ s # ys"
    by (auto simp: is_parent_of_iff_prefix prefix_def)
  have before': "seg_kind x \<noteq> k" if "x \<in> set xs" for x
    using before that by blast
  have "takeWhile (\<lambda>s. seg_kind s \<noteq> k) (segments p) = xs"
    and "dropWhile (\<lambda>s. seg_kind s \<noteq> k) (segments p) = s # ys"
    unfolding p using k before' by (simp_all add: takeWhile_append2 dropWhile_append2)
  then have "truncate_segments k [] (segments p) = Some (segments q)"
    using k by (simp add: truncate_segments_spec p q)
  then show "point_truncate p k = Inr q"
    using q by (cases q) (simp add: point_truncate_def)
qed

lemma push_segment_cases:
  "push_segment p s =
     (if seg_is_filesystem_seg s \<and> \<not> has_filesystem p
      then Inl (err_of_string ''cannot push a FileSystem segment onto a point until after the FileSystemRoot segment has been pushed'')
      else Inr (p\<lparr>segments := segments p @ [s]\<rparr>))"
  by (auto simp: push_segment_def filesystem_or_mesh)

lemma pop_push_segment: "push_segment p s = Inr q \<Longrightarrow> point_pop q = p"
  by (cases p) (auto simp: push_segment_cases point_pop_def split: if_splits)

text \<open>Starting from a point without a filesystem, no sequence of \<open>push_segment\<close> calls ever
  gives it one: the filesystem root is itself a filesystem segment, refused until one is there,
  so filesystem points cannot be built this way.\<close>

theorem push_segment_never_opens_filesystem:
  "\<not> has_filesystem p \<Longrightarrow> res_foldl push_segment p segs = Inr q \<Longrightarrow>
     \<not> has_filesystem q \<and> \<not> list_ex seg_is_filesystem_seg segs"
proof (induction segs arbitrary: p)
  case (Cons s segs)
  from Cons.prems(2) obtain p' where p': "push_segment p s = Inr p'"
    and rest: "res_foldl push_segment p' segs = Inr q"
    by (auto simp: res_bind_Inr_iff)
  from p' Cons.prems(1) have fs: "\<not> seg_is_filesystem_seg s" and "p' = p\<lparr>segments := segments p @ [s]\<rparr>"
    by (auto simp: push_segment_cases split: if_splits)
  with Cons.prems(1) have "\<not> has_filesystem p'"
    by (cases s) (auto simp: has_filesystem_def seg_is_filesystem_seg_def)
  with Cons.IH [OF _ rest] fs show ?case by simp
qed simp

theorem push_segment_never_opens_filesystem_witness:
  "\<exists>q. res_foldl push_segment \<lparr>route = RSThis, segments = [PSSpace ''localhost'']\<rparr> [PSBase ''files''] = Inr q
     \<and> \<not> has_filesystem q"
proof -
  let ?p = "\<lparr>route = RSThis, segments = [PSSpace ''localhost'']\<rparr>"
  let ?q = "\<lparr>route = RSThis, segments = [PSSpace ''localhost'', PSBase ''files'']\<rparr>"
  have run: "res_foldl push_segment ?p [PSBase ''files''] = Inr ?q"
    by (simp add: push_segment_def)
  have fs: "\<not> has_filesystem ?p" by (simp add: has_filesystem_def)
  from run push_segment_never_opens_filesystem [OF fs run] show ?thesis by blast
qed

end
