(* ===== verification/Scope.thy ===== *)
theory Scope
  imports Points
begin

text \<open>
  Scopes (\<open>Env\<close> and the variable resolvers of \<open>cosmic-space/src/parse.rs\<close>) and the
  substitution of variables in points (\<open>ToResolved\<close> for \<open>VarVal\<close> and \<open>PointVar\<close> in
  \<open>loc.rs\<close>).  Values of variables are of a type \<open>'v\<close>, files of a type \<open>'b\<close>; a
  trait-object resolver is a function.
\<close>

section \<open>Resolvers\<close>

datatype resolver_err = NotAvailable | NotFound

text \<open>The default method of \<open>VarResolver\<close>, which is also \<open>NoResolver\<close>.\<close>

definition no_resolver_val :: "string \<Rightarrow> resolver_err + 'v" where
  "no_resolver_val var = Inl NotFound"

type_synonym 'v map_resolver = "string \<rightharpoonup> 'v"

definition map_resolver_new :: "'v map_resolver" where
  "map_resolver_new = (\<lambda>_. None)"

definition map_resolver_insert :: "'v map_resolver \<Rightarrow> string \<Rightarrow> 'v \<Rightarrow> 'v map_resolver" where
  "map_resolver_insert m key value = m(key \<mapsto> value)"

definition map_resolver_val :: "'v map_resolver \<Rightarrow> string \<Rightarrow> resolver_err + 'v" where
  "map_resolver_val m var = ok_or (m var) NotFound"

type_synonym 'v multi_resolver = "(string \<Rightarrow> resolver_err + 'v) list"

definition multi_resolver_push :: "'v multi_resolver \<Rightarrow> (string \<Rightarrow> resolver_err + 'v) \<Rightarrow> 'v multi_resolver" where
  "multi_resolver_push rs r = rs @ [r]"

fun multi_resolver_val :: "'v multi_resolver \<Rightarrow> string \<Rightarrow> resolver_err + 'v" where
  "multi_resolver_val [] var = Inl NotFound"
| "multi_resolver_val (r # rs) var =
     (case r var of Inr ok \<Rightarrow> Inr ok | Inl _ \<Rightarrow> multi_resolver_val rs var)"

record 'v composite_resolver =
  env_resolver :: "string \<Rightarrow> resolver_err + 'v"
  scope_resolver :: "'v map_resolver"
  other_resolver :: "'v multi_resolver"

definition composite_new :: "'v composite_resolver" where
  "composite_new =
     \<lparr>env_resolver = no_resolver_val, scope_resolver = map_resolver_new, other_resolver = []\<rparr>"

definition composite_set :: "'v composite_resolver \<Rightarrow> string \<Rightarrow> 'v \<Rightarrow> 'v composite_resolver" where
  "composite_set c key value =
     c\<lparr>scope_resolver := map_resolver_insert (scope_resolver c) key value\<rparr>"

text \<open>\<open>CompositeResolver::val\<close> asks the scope twice, never its \<open>env_resolver\<close>.\<close>

definition composite_val :: "'v composite_resolver \<Rightarrow> string \<Rightarrow> resolver_err + 'v" where
  "composite_val c var =
     (case map_resolver_val (scope_resolver c) var of
        Inr val \<Rightarrow> Inr val
      | Inl _ \<Rightarrow>
          (case map_resolver_val (scope_resolver c) var of
             Inr val \<Rightarrow> Inr val
           | Inl _ \<Rightarrow>
               (case multi_resolver_val (other_resolver c) var of
                  Inr val \<Rightarrow> Inr val
                | Inl _ \<Rightarrow> Inl NotFound)))"

section \<open>Files\<close>

record 'b scope_file =
  file_name :: string
  file_content :: 'b

text \<open>A \<open>FileResolver\<close> is its map of files, kept in a list with distinct keys so that
  \<open>singleton\<close> can count them.\<close>

type_synonym 'b file_resolver = "(string \<times> 'b) list"

definition file_resolver_file :: "'b file_resolver \<Rightarrow> string \<Rightarrow> resolver_err + 'b scope_file" where
  "file_resolver_file fs name =
     (case map_of fs name of
        Some content \<Rightarrow> Inr \<lparr>file_name = name, file_content = content\<rparr>
      | None \<Rightarrow> Inl NotFound)"

definition file_resolver_insert :: "'b file_resolver \<Rightarrow> string \<Rightarrow> 'b \<Rightarrow> 'b file_resolver" where
  "file_resolver_insert fs name content = (name, content) # filter (\<lambda>(n, _). n \<noteq> name) fs"

definition file_resolver_singleton :: "'b file_resolver \<Rightarrow> resolver_err + 'b scope_file" where
  "file_resolver_singleton fs =
     (if length fs = 1 then
        (case fs of
           (name, content) # _ \<Rightarrow> Inr \<lparr>file_name = name, file_content = content\<rparr>
         | [] \<Rightarrow> Inl NotFound)
      else Inl NotFound)"

section \<open>Scopes\<close>

datatype ('v, 'b) env =
  Env (env_parent: "('v, 'b) env option") (env_point: point) (env_vars: "string \<rightharpoonup> 'v")
      (env_files: "(string \<times> 'b) list") (env_resolvers: "(string \<Rightarrow> resolver_err + 'v) list")

definition env_new :: "point \<Rightarrow> ('v, 'b) env" where
  "env_new working = Env None working (\<lambda>_. None) [] []"

definition env_no_point :: "('v, 'b) env" where
  "env_no_point = env_new root_point"

definition env_push :: "('v, 'b) env \<Rightarrow> ('v, 'b) env" where
  "env_push e = Env (Some e) (env_point e) (\<lambda>_. None) [] []"

definition env_push_working ::
  "(string \<Rightarrow> space_err + point) \<Rightarrow> ('v, 'b) env \<Rightarrow> string \<Rightarrow> space_err + ('v, 'b) env" where
  "env_push_working from_str e segs =
     res_bind (point_push from_str (env_point e) segs) (\<lambda>p.
       Inr (Env (Some e) p (\<lambda>_. None) [] []))"

definition env_point_or :: "('v, 'b) env \<Rightarrow> space_err + point" where
  "env_point_or e = Inr (env_point e)"

definition env_pop :: "('v, 'b) env \<Rightarrow> space_err + ('v, 'b) env" where
  "env_pop e = ok_or (env_parent e) (err_of_string ''expected parent scopedVars'')"

fun env_add_var_resolver ::
  "('v, 'b) env \<Rightarrow> (string \<Rightarrow> resolver_err + 'v) \<Rightarrow> ('v, 'b) env" where
  "env_add_var_resolver (Env parent p vars files rs) r =
     Env parent p vars files (multi_resolver_push rs r)"

fun env_val :: "('v, 'b) env \<Rightarrow> string \<Rightarrow> resolver_err + 'v" where
  "env_val (Env parent p vars files rs) var =
     (case vars var of
        None \<Rightarrow>
          (case multi_resolver_val rs var of
             Inr val \<Rightarrow> Inr val
           | Inl _ \<Rightarrow> (case parent of Some e \<Rightarrow> env_val e var | None \<Rightarrow> Inl NotFound))
      | Some val \<Rightarrow> Inr val)"

fun env_set_working :: "('v, 'b) env \<Rightarrow> point \<Rightarrow> ('v, 'b) env" where
  "env_set_working (Env parent p vars files rs) q = Env parent q vars files rs"

fun env_set_var :: "('v, 'b) env \<Rightarrow> string \<Rightarrow> 'v \<Rightarrow> ('v, 'b) env" where
  "env_set_var (Env parent p vars files rs) key value = Env parent p (vars(key \<mapsto> value)) files rs"

fun env_file :: "('v, 'b) env \<Rightarrow> string \<Rightarrow> resolver_err + 'b scope_file" where
  "env_file (Env parent p vars files rs) name =
     (case map_of files name of
        None \<Rightarrow> (case parent of Some e \<Rightarrow> env_file e name | None \<Rightarrow> Inl NotFound)
      | Some bin \<Rightarrow> Inr \<lparr>file_name = name, file_content = bin\<rparr>)"

fun env_set_file :: "('v, 'b) env \<Rightarrow> string \<Rightarrow> 'b \<Rightarrow> ('v, 'b) env" where
  "env_set_file (Env parent p vars files rs) name content =
     Env parent p vars (file_resolver_insert files name content) rs"

section \<open>Substitution\<close>

datatype 'a var_val = VarValVar variable | VarValVal 'a

text \<open>The value of a variable as text is \<open>to_text\<close> (\<open>Substance\<close> into \<open>String\<close>).\<close>

fun var_val_to_resolved ::
  "('v \<Rightarrow> space_err + string) \<Rightarrow> (string \<Rightarrow> space_err + 'a) \<Rightarrow> ('v, 'b) env \<Rightarrow> 'a var_val
   \<Rightarrow> space_err + 'a" where
  "var_val_to_resolved to_text from_str e (VarValVar var) =
     (case env_val e (var_name var) of
        Inr val \<Rightarrow> res_bind (to_text val) from_str
      | Inl NotAvailable \<Rightarrow>
          Inl (trace_err ''variables not available in this context'' ''variables not available''
                 (var_trace var))
      | Inl NotFound \<Rightarrow>
          Inl (trace_err (''variable '' @ quoted (var_name var) @ '' not found'') ''not found''
                 (var_trace var)))"
| "var_val_to_resolved to_text from_str e (VarValVal val) = Inr val"

fun unresolved_err :: "resolver_err \<Rightarrow> variable \<Rightarrow> space_err" where
  "unresolved_err NotAvailable var =
     trace_err (''variables not available in this context '' @ quoted (var_name var)) ''Not Available''
       (var_trace var)"
| "unresolved_err NotFound var =
     trace_err (''variable could not be resolved '' @ quoted (var_name var)) ''Not Found''
       (var_trace var)"

text \<open>The state of \<open>PointVar::to_resolved\<close>: the text so far, whether the filesystem root was
  passed, and the errors collected.\<close>

record subst =
  sub_rtn :: string
  sub_after_fs :: bool
  sub_errs :: "space_err list"

fun resolve_route ::
  "('v \<Rightarrow> space_err + string) \<Rightarrow> ('v, 'b) env \<Rightarrow> route_seg_var \<Rightarrow> space_err + subst" where
  "resolve_route to_text e (RVVar var) =
     (case env_val e (var_name var) of
        Inr val \<Rightarrow> res_bind (to_text val) (\<lambda>val.
          Inr \<lparr>sub_rtn = val @ ''::'', sub_after_fs = False, sub_errs = []\<rparr>)
      | Inl err \<Rightarrow> Inr \<lparr>sub_rtn = '''', sub_after_fs = False, sub_errs = [unresolved_err err var]\<rparr>)"
| "resolve_route to_text e RVThis = Inr \<lparr>sub_rtn = '''', sub_after_fs = False, sub_errs = []\<rparr>"
| "resolve_route to_text e (RVDomain domain) =
     Inr \<lparr>sub_rtn = domain @ ''::'', sub_after_fs = False, sub_errs = []\<rparr>"
| "resolve_route to_text e (RVTag tag) =
     Inr \<lparr>sub_rtn = ''['' @ tag @ '']::'', sub_after_fs = False, sub_errs = []\<rparr>"
| "resolve_route to_text e (RVStar mesh) =
     Inr \<lparr>sub_rtn = ''<'' @ mesh @ ''>::'', sub_after_fs = False, sub_errs = []\<rparr>"
| "resolve_route to_text e RVGlobal =
     Inr \<lparr>sub_rtn = ''GLOBAL::'', sub_after_fs = False, sub_errs = []\<rparr>"
| "resolve_route to_text e RVLocal =
     Inr \<lparr>sub_rtn = ''LOCAL::'', sub_after_fs = False, sub_errs = []\<rparr>"
| "resolve_route to_text e RVRemote =
     Inr \<lparr>sub_rtn = ''REMOTE::'', sub_after_fs = False, sub_errs = []\<rparr>"

fun resolve_segment ::
  "('v \<Rightarrow> space_err + string) \<Rightarrow> ('v, 'b) env \<Rightarrow> subst \<Rightarrow> nat \<times> point_seg_var \<Rightarrow> space_err + subst" where
  "resolve_segment to_text e s (index, PVVar var) =
     (case env_val e (var_name var) of
        Inr val \<Rightarrow>
          (let sep = (if index > 1 \<and> \<not> sub_after_fs s then '':'' else '''')
           in res_bind (to_text val) (\<lambda>val. Inr (s\<lparr>sub_rtn := sub_rtn s @ sep @ val\<rparr>)))
      | Inl err \<Rightarrow> Inr (s\<lparr>sub_errs := sub_errs s @ [unresolved_err err var]\<rparr>))"
| "resolve_segment to_text e s (index, PVFilesystemRootDir) =
     Inr (s\<lparr>sub_after_fs := True, sub_rtn := sub_rtn s @ '':/''\<rparr>)"
| "resolve_segment to_text e s (index, segment) =
     (let sep = (if index > 0 \<and> \<not> sub_after_fs s then '':'' else '''')
      in Inr (s\<lparr>sub_rtn := sub_rtn s @ sep @ var_seg_to_string segment\<rparr>))"

text \<open>\<open>consume\<close> is the parser \<open>consume_point_ctx\<close>.\<close>

definition point_var_to_ctx ::
  "('v \<Rightarrow> space_err + string) \<Rightarrow> (string \<Rightarrow> space_err + point_ctx) \<Rightarrow> ('v, 'b) env \<Rightarrow> point_var
   \<Rightarrow> space_err + point_ctx" where
  "point_var_to_ctx to_text consume e p =
     res_bind (resolve_route to_text e (route p)) (\<lambda>s.
       if segments p = [] then consume (sub_rtn s @ ''ROOT'')
       else res_bind (res_foldl (resolve_segment to_text e) s (List.enumerate 0 (segments p))) (\<lambda>s.
         if sub_errs s \<noteq> [] then
           Inl (ParseErrs (parse_errs_fold parse_errs_of_space_err (sub_errs s)))
         else consume (sub_rtn s)))"

definition point_var_to_resolved ::
  "('v \<Rightarrow> space_err + string) \<Rightarrow> (string \<Rightarrow> space_err + point_ctx) \<Rightarrow> (string \<Rightarrow> space_err + point)
   \<Rightarrow> ('v, 'b) env \<Rightarrow> point_var \<Rightarrow> space_err + point" where
  "point_var_to_resolved to_text consume from_str e p =
     res_bind (point_var_to_ctx to_text consume e p)
       (\<lambda>c. res_bind (env_point_or e) (\<lambda>working. point_ctx_to_resolved from_str working c))"

section \<open>Facts: lexical scoping\<close>

text \<open>
  What the templates rely on: \<open>val\<close> looks a name up, \<open>bind\<close> sets it in the innermost
  scope, \<open>opn\<close> and \<open>cls\<close> open and close a scope.
\<close>

locale lexical_scope =
  fixes val :: "'e \<Rightarrow> string \<Rightarrow> resolver_err + 'v"
    and bind :: "'e \<Rightarrow> string \<Rightarrow> 'v \<Rightarrow> 'e"
    and opn :: "'e \<Rightarrow> 'e"
    and cls :: "'e \<Rightarrow> space_err + 'e"
  assumes val_bind: "val (bind e k v) k' = (if k' = k then Inr v else val e k')"
    and val_opn: "val (opn e) k = val e k"
    and cls_bind: "cls (bind e k v) = cls e"
    and cls_opn: "cls (opn e) = Inr e"
    and never_unavailable: "val e k \<noteq> Inl NotAvailable"
begin

definition bind_all :: "'e \<Rightarrow> (string \<times> 'v) list \<Rightarrow> 'e" where
  "bind_all e kvs = fold (\<lambda>(k, v) e. bind e k v) kvs e"

lemma val_bind_all:
  "val (bind_all e kvs) k = (case map_of (rev kvs) k of Some v \<Rightarrow> Inr v | None \<Rightarrow> val e k)"
  unfolding bind_all_def
  by (induction kvs arbitrary: e) (auto simp: val_bind map_add_def split: option.splits)

lemma cls_bind_all: "cls (bind_all e kvs) = cls e"
  unfolding bind_all_def by (induction kvs arbitrary: e) (auto simp: cls_bind)

text \<open>Closing a block gives back the scope it was opened in, whatever was bound inside; inside,
  the last binding of a name hides the outer ones.\<close>

lemma block_restores: "cls (bind_all (opn e) kvs) = Inr e"
  by (simp add: cls_bind_all cls_opn)

lemma block_shadows:
  "val (bind_all (opn e) kvs) k = (case map_of (rev kvs) k of Some v \<Rightarrow> Inr v | None \<Rightarrow> val e k)"
  by (simp add: val_bind_all val_opn split: option.split)

lemma val_error: "val e k = Inl err \<Longrightarrow> err = NotFound"
  using never_unavailable [of e k] by (cases err) auto

end

lemma env_val_never_unavailable: "env_val e k \<noteq> Inl NotAvailable"
  by (induction e k rule: env_val.induct) (auto split: option.splits sum.splits)

interpretation env_scope: lexical_scope env_val env_set_var env_push env_pop
proof
  show "env_val (env_set_var e k v) k' = (if k' = k then Inr v else env_val e k')"
    for e :: "('v, 'b) env" and k v k' by (cases e) simp
  show "env_val (env_push e) k = env_val e k" for e :: "('v, 'b) env" and k
    by (simp add: env_push_def)
  show "env_pop (env_set_var e k v) = env_pop e" for e :: "('v, 'b) env" and k v
    by (cases e) (simp add: env_pop_def)
  show "env_pop (env_push e) = Inr e" for e :: "('v, 'b) env"
    by (simp add: env_pop_def env_push_def)
qed (rule env_val_never_unavailable)

text \<open>Scoping is lexical: after opening a scope and binding any names in it, a lookup sees the
  latest binding of the block or else the outer scope, and popping gives the outer scope back
  unchanged.\<close>

theorem env_block_scoping:
  "env_val (fold (\<lambda>(k, v) e. env_set_var e k v) kvs (env_push e)) k =
     (case map_of (rev kvs) k of Some v \<Rightarrow> Inr v | None \<Rightarrow> env_val e k)
   \<and> env_pop (fold (\<lambda>(k, v) e. env_set_var e k v) kvs (env_push e)) = Inr e"
  using env_scope.block_shadows [of e kvs k] env_scope.block_restores [of e kvs]
  unfolding env_scope.bind_all_def by simp

lemma composite_ignores_env_resolver: "composite_val (c\<lparr>env_resolver := r\<rparr>) = composite_val c"
  by (simp add: composite_val_def fun_eq_iff split: sum.split)

section \<open>Facts: what resolution hands to the parser\<close>

text \<open>
  \<open>printable b i s\<close>: the segment \<open>s\<close> at position \<open>i\<close>, after the filesystem root or not
  (\<open>b\<close>), is where the point parser puts such a segment: the space first, bases and the version
  before the filesystem root, directories and files after it.
\<close>

fun printable :: "bool \<Rightarrow> nat \<Rightarrow> point_seg_var \<Rightarrow> bool" where
  "printable b i (PVVar _) = False"
| "printable b i PVFilesystemRootDir = (0 < i)"
| "printable b i (PVBase _) = (\<not> b \<or> i = 0)"
| "printable b i (PVVersion _) = (\<not> b \<or> i = 0)"
| "printable b i (PVSpace _) = (b \<or> i = 0)"
| "printable b i (PVDir _) = (b \<or> i = 0)"
| "printable b i (PVFile _) = (b \<or> i = 0)"
| "printable b i PVRoot = (b \<or> i = 0)"
| "printable b i (PVWorking _) = True"
| "printable b i (PVPop _) = True"

fun printable_segments :: "bool \<Rightarrow> nat \<Rightarrow> point_seg_var list \<Rightarrow> bool" where
  "printable_segments b i [] = True"
| "printable_segments b i (s # ss) =
     (printable b i s \<and> printable_segments (b \<or> var_is_filesystem_root s) (Suc i) ss)"

lemma resolve_segment_printable:
  "printable b i s \<Longrightarrow>
   resolve_segment to_text e \<lparr>sub_rtn = t, sub_after_fs = b, sub_errs = es\<rparr> (i, s) =
     Inr \<lparr>sub_rtn = t @ (if i > 0 then preceding_delim (var_kind s) (b \<or> var_is_filesystem_root s) else [])
                     @ var_seg_to_string s,
          sub_after_fs = b \<or> var_is_filesystem_root s, sub_errs = es\<rparr>"
  by (cases s) (auto simp: Let_def)

lemma resolve_segments_printable:
  "printable_segments b i ss \<Longrightarrow>
   \<exists>b'. res_foldl (resolve_segment to_text e) \<lparr>sub_rtn = t, sub_after_fs = b, sub_errs = es\<rparr>
          (List.enumerate i ss) =
        Inr \<lparr>sub_rtn = t @ segments_to_string var_is_filesystem_root var_kind var_seg_to_string b i ss,
             sub_after_fs = b', sub_errs = es\<rparr>"
proof (induction ss arbitrary: b i t)
  case (Cons s ss)
  then have "printable b i s" and rest: "printable_segments (b \<or> var_is_filesystem_root s) (Suc i) ss"
    by simp_all
  from Cons.IH [OF rest, of "t @ (if i > 0 then preceding_delim (var_kind s) (b \<or> var_is_filesystem_root s)
      else []) @ var_seg_to_string s"]
  show ?case
    using resolve_segment_printable [OF \<open>printable b i s\<close>, of to_text e t es]
    by (cases "var_is_filesystem_root s"; cases b) (auto simp: Let_def)
qed simp

lemma resolve_route_plain:
  "\<nexists>m. r = RVStar m \<Longrightarrow> \<nexists>v. r = RVVar v \<Longrightarrow>
   resolve_route to_text e r =
     Inr \<lparr>sub_rtn = (if \<not> route_var_is_local r then route_var_to_string r @ ''::'' else []),
          sub_after_fs = False, sub_errs = []\<rparr>"
  by (cases r) auto

text \<open>Substituting in a point that has no variables and whose route names no star hands the
  parser exactly the printed form of the point.\<close>

theorem resolution_prints_the_point:
  assumes "\<nexists>m. route p = RVStar m" and "\<nexists>v. route p = RVVar v"
    and "printable_segments False 0 (segments p)"
  shows "point_var_to_ctx to_text consume e p = consume (point_var_to_string p)"
proof (cases "segments p = []")
  case True
  with resolve_route_plain [OF assms(1,2), of to_text e] show ?thesis
    by (simp add: point_var_to_ctx_def point_var_to_string_def to_string_impl_def)
next
  case False
  let ?r = "if \<not> route_var_is_local (route p) then route_var_to_string (route p) @ ''::'' else []"
  obtain b' where "res_foldl (resolve_segment to_text e)
      \<lparr>sub_rtn = ?r, sub_after_fs = False, sub_errs = []\<rparr> (List.enumerate 0 (segments p)) =
    Inr \<lparr>sub_rtn = ?r @ segments_to_string var_is_filesystem_root var_kind var_seg_to_string False 0
                          (segments p), sub_after_fs = b', sub_errs = []\<rparr>"
    using resolve_segments_printable [OF assms(3)] by blast
  with False resolve_route_plain [OF assms(1,2), of to_text e] show ?thesis
    by (simp add: point_var_to_ctx_def point_var_to_string_def to_string_impl_def)
qed

theorem resolution_prints_the_point_witness:
  "point_var_to_ctx (\<lambda>_. Inr []) (\<lambda>t. Inl (err_of_string t)) (env_no_point :: (nat, nat) env)
     \<lparr>route = RVGlobal, segments = [PVSpace ''a'', PVBase ''b'', PVFilesystemRootDir, PVDir ''d/'']\<rparr>
   = Inl (err_of_string ''GLOBAL::a:b:/d/'')"
  by (subst resolution_prints_the_point)
    (simp_all add: point_var_to_string_def to_string_impl_def Let_def)

text \<open>A variable in second position loses the separator before it: the text handed to the
  parser glues the value to the space name, while one position later the colon is there.\<close>

theorem second_segment_variable_is_glued:
  "point_var_to_ctx Inr consume (env_set_var e (var_name x) t)
     \<lparr>route = RVThis, segments = [PVSpace s, PVVar x]\<rparr> = consume (s @ t)
   \<and> point_var_to_ctx Inr consume (env_set_var e (var_name x) t)
     \<lparr>route = RVThis, segments = [PVSpace s, PVBase b, PVVar x]\<rparr> = consume (s @ '':'' @ b @ '':'' @ t)"
  by (cases e) (simp add: point_var_to_ctx_def)

text \<open>The errors the loop collects when every value is text: one per unresolved variable.\<close>

definition unresolved :: "('v, 'b) env \<Rightarrow> point_seg_var list \<Rightarrow> space_err list" where
  "unresolved e ss =
     concat (map (\<lambda>s. case s of
       PVVar x \<Rightarrow> (case env_val e (var_name x) of Inl err \<Rightarrow> [unresolved_err err x] | Inr _ \<Rightarrow> [])
     | _ \<Rightarrow> []) ss)"

lemma resolve_segment_errs:
  "\<exists>s'. resolve_segment (\<lambda>v. Inr (f v)) e s (i, seg) = Inr s' \<and>
        sub_errs s' = sub_errs s @ unresolved e [seg]"
  by (cases seg) (auto simp: unresolved_def Let_def split: sum.split)

lemma resolve_segments_errs:
  "\<exists>s'. res_foldl (resolve_segment (\<lambda>v. Inr (f v)) e) s (List.enumerate i ss) = Inr s' \<and>
        sub_errs s' = sub_errs s @ unresolved e ss"
proof (induction ss arbitrary: s i)
  case Nil
  show ?case by (simp add: unresolved_def)
next
  case (Cons seg ss)
  obtain s1 where "resolve_segment (\<lambda>v. Inr (f v)) e s (i, seg) = Inr s1"
    and "sub_errs s1 = sub_errs s @ unresolved e [seg]"
    using resolve_segment_errs by blast
  moreover obtain s2 where "res_foldl (resolve_segment (\<lambda>v. Inr (f v)) e) s1 (List.enumerate (Suc i) ss) = Inr s2"
    and "sub_errs s2 = sub_errs s1 @ unresolved e ss"
    using Cons.IH by blast
  ultimately show ?case by (simp add: unresolved_def)
qed

lemma resolve_route_ok: "\<exists>s. resolve_route (\<lambda>v. Inr (f v)) e r = Inr s"
  by (cases r) (auto split: sum.split)

text \<open>When a variable of a point is not in scope, the whole substitution fails, but with a
  report that is empty: \<open>ParseErrs::fold\<close> converts each collected error through the conversion
  that keeps nothing of it, so no name and no position of an unresolved variable reaches the
  caller.\<close>

theorem unresolved_variables_leave_empty_report:
  assumes "PVVar x \<in> set (segments p)" and "env_val e (var_name x) = Inl err"
  shows "point_var_to_ctx (\<lambda>v. Inr (f v)) consume e p =
    Inl (ParseErrs \<lparr>pe_report = [], pe_source = None, pe_ctx = []\<rparr>)"
proof -
  obtain s where s: "resolve_route (\<lambda>v. Inr (f v)) e (route p) = Inr s"
    using resolve_route_ok by blast
  obtain s' where s': "res_foldl (resolve_segment (\<lambda>v. Inr (f v)) e) s (List.enumerate 0 (segments p)) = Inr s'"
    and errs: "sub_errs s' = sub_errs s @ unresolved e (segments p)"
    using resolve_segments_errs by blast
  have "unresolved e (segments p) \<noteq> []"
    using assms by (auto simp: unresolved_def intro!: bexI [of _ "PVVar x"])
  with errs have "sub_errs s' \<noteq> []" by simp
  moreover have "segments p \<noteq> []" using assms(1) by auto
  ultimately show ?thesis
    by (simp add: point_var_to_ctx_def s s' fold_of_space_errs)
qed

theorem unresolved_variables_leave_empty_report_witness:
  "point_var_to_ctx (\<lambda>v. Inr v) (\<lambda>t. Inl (err_of_string t)) (env_no_point :: (string, nat) env)
     \<lparr>route = RVThis, segments = [PVVar \<lparr>var_name = ''x'', var_trace = \<lparr>trace_range = (2, 3), trace_extra = []\<rparr>\<rparr>]\<rparr>
   = Inl (ParseErrs \<lparr>pe_report = [], pe_source = None, pe_ctx = []\<rparr>)"
  by (rule unresolved_variables_leave_empty_report [where f = "\<lambda>v. v" and err = NotFound])
    (simp_all add: env_no_point_def env_new_def)

end
