(* ===== verification/Surface.thy ===== *)
theory Surface
  imports Scope
begin

text \<open>
  Layers, topics and surfaces (\<open>cosmic-space/src/loc.rs\<close>) with the value patterns of
  \<open>util.rs\<close>, and the traversal plans and directions of \<open>particle/traversal.rs\<close>.
\<close>

section \<open>Enums with names\<close>

text \<open>
  \<open>strum_macros::EnumString\<close>: the variant whose name is the text, tried in order of
  declaration; \<open>perr\<close> is the message of the crate's \<open>ParseError\<close>.
\<close>

definition strum_from_str :: "string \<Rightarrow> 'a list \<Rightarrow> ('a \<Rightarrow> string) \<Rightarrow> string \<Rightarrow> space_err + 'a" where
  "strum_from_str perr values display s =
     ok_or (List.find (\<lambda>v. display v = s) values) (Status 500 perr)"

locale strum =
  fixes variants :: "'a list" and display :: "'a \<Rightarrow> string"
  assumes all_variants: "x \<in> set variants"
    and distinct_names: "distinct (map display variants)"
begin

lemma display_inj: "display x = display y \<longleftrightarrow> x = y"
  using all_variants distinct_names by (metis distinct_map inj_on_def)

lemma find_display: "List.find (\<lambda>v. display v = display x) variants = Some x"
  using all_variants [of x] by (auto simp: find_Some_iff display_inj in_set_conv_nth)
    (metis distinct_conv_nth distinct_map distinct_names less_trans nat_neq_iff)

lemma from_str_display: "strum_from_str perr variants display (display x) = Inr x"
  by (simp add: strum_from_str_def find_display)

lemma from_str_iff: "strum_from_str perr variants display s = Inr x \<longleftrightarrow> s = display x"
  by (auto simp: strum_from_str_def find_display) (auto simp: find_Some_iff)

end

section \<open>Layers\<close>

datatype layer = Gravity | Field | Shell | Portal | Host | Guest | Core

definition layer_variants :: "layer list" where
  "layer_variants = [Gravity, Field, Shell, Portal, Host, Guest, Core]"

fun layer_to_string :: "layer \<Rightarrow> string" where
  "layer_to_string Gravity = ''Gravity''"
| "layer_to_string Field = ''Field''"
| "layer_to_string Shell = ''Shell''"
| "layer_to_string Portal = ''Portal''"
| "layer_to_string Host = ''Host''"
| "layer_to_string Guest = ''Guest''"
| "layer_to_string Core = ''Core''"

text \<open>The \<open>#[repr(u8)]\<close> discriminants, by \<open>Ordinalize\<close>.\<close>

fun ordinal :: "layer \<Rightarrow> nat" where
  "ordinal Gravity = 0"
| "ordinal Field = 1"
| "ordinal Shell = 2"
| "ordinal Portal = 3"
| "ordinal Host = 4"
| "ordinal Guest = 5"
| "ordinal Core = 6"

definition from_ordinal :: "nat \<Rightarrow> layer option" where
  "from_ordinal i = (if i < length layer_variants then Some (layer_variants ! i) else None)"

fun has_state :: "layer \<Rightarrow> bool" where
  "has_state Gravity = False"
| "has_state Field = True"
| "has_state Shell = True"
| "has_state Portal = False"
| "has_state Host = False"
| "has_state Guest = False"
| "has_state Core = False"

interpretation layer_strum: strum layer_variants layer_to_string
proof
  show "x \<in> set layer_variants" for x by (cases x) (simp_all add: layer_variants_def)
qed (simp add: layer_variants_def)

lemma ordinal_lt: "ordinal l < 7"
  by (cases l) simp_all

lemma from_ordinal_ordinal [simp]: "from_ordinal (ordinal l) = Some l"
  by (cases l) (simp_all add: from_ordinal_def layer_variants_def)

lemma from_ordinal_iff: "from_ordinal i = Some l \<longleftrightarrow> i = ordinal l"
proof
  assume "from_ordinal i = Some l"
  then have "i < 7" and "l = layer_variants ! i"
    by (auto simp: from_ordinal_def layer_variants_def split: if_splits)
  moreover from \<open>i < 7\<close> have "i \<in> {0, 1, 2, 3, 4, 5, 6}" by auto
  ultimately show "i = ordinal l" by (auto simp: layer_variants_def)
qed simp

lemma ordinal_inj: "ordinal l = ordinal m \<longleftrightarrow> l = m"
  by (cases l; cases m) simp_all

lemma from_ordinal_None_iff: "from_ordinal i = None \<longleftrightarrow> 7 \<le> i"
  by (simp add: from_ordinal_def layer_variants_def)

text \<open>Layers ordered from the fabric to the core.\<close>

instantiation layer :: linorder
begin

definition less_eq_layer :: "layer \<Rightarrow> layer \<Rightarrow> bool" where
  "less_eq_layer l m \<longleftrightarrow> ordinal l \<le> ordinal m"

definition less_layer :: "layer \<Rightarrow> layer \<Rightarrow> bool" where
  "less_layer l m \<longleftrightarrow> ordinal l < ordinal m"

instance
  by standard (auto simp: less_eq_layer_def less_layer_def ordinal_inj)

end

section \<open>Patterns over values\<close>

datatype 'a value_pattern = VPAny | VPNone | VPPattern 'a

fun vp_stringify :: "('a \<Rightarrow> string) \<Rightarrow> 'a value_pattern \<Rightarrow> string value_pattern" where
  "vp_stringify str VPAny = VPAny"
| "vp_stringify str VPNone = VPNone"
| "vp_stringify str (VPPattern t) = VPPattern (str t)"

fun vp_to_string :: "('a \<Rightarrow> string) \<Rightarrow> 'a value_pattern \<Rightarrow> string" where
  "vp_to_string str VPAny = ''*''"
| "vp_to_string str VPNone = ''!''"
| "vp_to_string str (VPPattern p) = str p"

fun vp_modify :: "('a \<Rightarrow> space_err + 'b) \<Rightarrow> 'a value_pattern \<Rightarrow> space_err + 'b value_pattern" where
  "vp_modify f VPAny = Inr VPAny"
| "vp_modify f VPNone = Inr VPNone"
| "vp_modify f (VPPattern from) = res_bind (f from) (\<lambda>x. Inr (VPPattern x))"

fun vp_wrap :: "'a value_pattern \<Rightarrow> 'b \<Rightarrow> 'b value_pattern" where
  "vp_wrap VPAny x = VPAny"
| "vp_wrap VPNone x = VPNone"
| "vp_wrap (VPPattern _) x = VPPattern x"

text \<open>\<open>m\<close> is the \<open>ValueMatcher\<close> of the pattern's type.\<close>

fun vp_is_match :: "('a \<Rightarrow> 'x \<Rightarrow> check) \<Rightarrow> 'a value_pattern \<Rightarrow> 'x \<Rightarrow> check" where
  "vp_is_match m VPAny x = pass"
| "vp_is_match m (VPPattern exact) x = m exact x"
| "vp_is_match m VPNone x = refuse"

fun vp_is_match_opt :: "('a \<Rightarrow> 'x \<Rightarrow> check) \<Rightarrow> 'a value_pattern \<Rightarrow> 'x option \<Rightarrow> check" where
  "vp_is_match_opt m VPAny x = pass"
| "vp_is_match_opt m (VPPattern exact) x =
     (case x of None \<Rightarrow> refuse | Some x \<Rightarrow> vp_is_match m (VPPattern exact) x)"
| "vp_is_match_opt m VPNone x = refuse"

definition string_is_match :: "string \<Rightarrow> string \<Rightarrow> check" where
  "string_is_match pattern x = (if pattern = x then pass else refuse)"

text \<open>\<open>str::matches\<close> counts the occurrences of a needle that do not overlap; the empty needle
  occurs at every boundary.\<close>

function matches_count :: "string \<Rightarrow> string \<Rightarrow> nat" where
  "matches_count needle s =
     (if needle = [] then Suc (length s)
      else if s = [] then 0
      else if starts_with needle s then Suc (matches_count needle (drop (length needle) s))
      else matches_count needle (tl s))"
  by pat_completeness auto
termination
  by (relation "measure (\<lambda>(n, s). length s)") auto

declare matches_count.simps [simp del]

text \<open>\<open>RegexMatcher::is_match\<close> looks for \<open>x\<close> in \<open>x\<close>; its pattern is not used.\<close>

definition regex_is_match :: "string \<Rightarrow> string \<Rightarrow> check" where
  "regex_is_match pattern x = (if matches_count x x > 0 then pass else refuse)"

section \<open>Topics and surfaces\<close>

datatype topic = TopicNone | TopicNot | TopicAny | TopicCli | TopicUuid uuid | TopicPath "string list"

fun topic_to_string :: "topic \<Rightarrow> string" where
  "topic_to_string TopicNone = ''''"
| "topic_to_string TopicNot = ''Topic<!>''"
| "topic_to_string TopicAny = ''Topic<*>''"
| "topic_to_string (TopicUuid uuid) = ''Topic<Uuid>('' @ uuid_text uuid @ '')''"
| "topic_to_string (TopicPath segs) = ''Topic<Path>('' @ join '':'' segs @ '')''"
| "topic_to_string TopicCli = ''Topic<Cli>''"

definition topic_is_match :: "topic \<Rightarrow> topic \<Rightarrow> check" where
  "topic_is_match self x = (if x = self then pass else refuse)"

definition layer_default :: layer where "layer_default = Core"
definition topic_default :: topic where "topic_default = TopicNone"

datatype surface = Surface (surf_point: point) (surf_layer: layer) (surf_topic: topic)

definition surface_suffix :: "surface \<Rightarrow> string" where
  "surface_suffix s =
     (case surf_topic s of
        TopicNone \<Rightarrow> ''@'' @ layer_to_string (surf_layer s)
      | topic \<Rightarrow> ''@'' @ layer_to_string (surf_layer s) @ ''+'' @ topic_to_string topic)"

definition surface_postfix :: "surface \<Rightarrow> string" where
  "surface_postfix s = point_postfix (surf_point s) @ surface_suffix s"

definition surface_to_string :: "surface \<Rightarrow> string" where
  "surface_to_string s = point_to_string (surf_point s) @ surface_suffix s"

record surface_selector =
  sel_point :: "point value_pattern"
  sel_topic :: "topic value_pattern"
  sel_layer :: "layer value_pattern"

definition surface_into_selector :: "surface \<Rightarrow> surface_selector" where
  "surface_into_selector s =
     \<lparr>sel_point = VPPattern (surf_point s),
      sel_topic =
        (case surf_topic s of
           TopicNone \<Rightarrow> VPAny
         | TopicNot \<Rightarrow> VPNone
         | TopicAny \<Rightarrow> VPAny
         | TopicUuid uuid \<Rightarrow> VPPattern (TopicUuid uuid)
         | TopicPath path \<Rightarrow> VPPattern (TopicPath path)
         | TopicCli \<Rightarrow> VPPattern TopicCli),
      sel_layer = VPPattern (surf_layer s)\<rparr>"

text \<open>One \<open>match\<close> of \<open>SurfaceSelector::is_match\<close>: does it return \<open>Err\<close>?\<close>

fun selector_rejects :: "'a value_pattern \<Rightarrow> 'a \<Rightarrow> bool" where
  "selector_rejects VPAny x = False"
| "selector_rejects VPNone x = True"
| "selector_rejects (VPPattern p) x = (p \<noteq> x)"

definition surface_selector_is_match :: "surface_selector \<Rightarrow> surface \<Rightarrow> check" where
  "surface_selector_is_match sel s =
     (if selector_rejects (sel_point sel) (surf_point s) then refuse
      else if selector_rejects (sel_layer sel) (surf_layer s) then refuse
      else if selector_rejects (sel_topic sel) (surf_topic s) then refuse
      else pass)"

definition with_topic :: "surface \<Rightarrow> topic \<Rightarrow> surface" where
  "with_topic s t = Surface (surf_point s) (surf_layer s) t"

definition with_layer :: "surface \<Rightarrow> layer \<Rightarrow> surface" where
  "with_layer s l = Surface (surf_point s) l (surf_topic s)"

definition to_surface :: "point \<Rightarrow> surface" where
  "to_surface p = Surface p layer_default topic_default"

text \<open>\<open>Into<Surface> for StarKey\<close> goes through the point of the star.\<close>

definition star_key_into_surface :: "(string \<Rightarrow> space_err + point) \<Rightarrow> star_key \<Rightarrow> surface option" where
  "star_key_into_surface from_str k = map_option to_surface (star_key_to_point from_str k)"

section \<open>Traversal plans\<close>

record traversal_plan =
  stack :: "layer list"

definition plan_new :: "layer list \<Rightarrow> traversal_plan" where
  "plan_new layers = \<lparr>stack = layers\<rparr>"

text \<open>
  The loops of \<open>towards_fabric\<close> and \<open>towards_core\<close>.  The first counts an i32 down from the
  ordinal of the layer and unwraps \<open>from_ordinal\<close> (\<open>None\<close> is its panic); here its argument is the
  index before the decrement, and 0 is where the decrement goes negative.
\<close>

fun towards_fabric_from :: "layer list \<Rightarrow> nat \<Rightarrow> layer option option" where
  "towards_fabric_from ls 0 = Some None"
| "towards_fabric_from ls (Suc index) =
     (case from_ordinal index of
        None \<Rightarrow> None
      | Some l \<Rightarrow> if l \<in> set ls then Some (Some l) else towards_fabric_from ls index)"

definition towards_fabric :: "traversal_plan \<Rightarrow> layer \<Rightarrow> layer option option" where
  "towards_fabric plan l = towards_fabric_from (stack plan) (ordinal l)"

function towards_core_from :: "layer list \<Rightarrow> nat \<Rightarrow> layer option" where
  "towards_core_from ls index =
     (case from_ordinal (Suc index) of
        None \<Rightarrow> None
      | Some l \<Rightarrow> if l \<in> set ls then Some l else towards_core_from ls (Suc index))"
  by pat_completeness auto
termination
proof (relation "measure (\<lambda>(ls, index). 7 - index)")
  fix ls :: "layer list" and index l
  assume "from_ordinal (Suc index) = Some l"
  then have "Suc index < 7" using from_ordinal_None_iff [of "Suc index"] by force
  then show "((ls, Suc index), ls, index) \<in> measure (\<lambda>(ls, index). 7 - index)" by simp
qed simp

declare towards_core_from.simps [simp del]

definition towards_core :: "traversal_plan \<Rightarrow> layer \<Rightarrow> layer option" where
  "towards_core plan l = towards_core_from (stack plan) (ordinal l)"

definition has_layer :: "traversal_plan \<Rightarrow> layer \<Rightarrow> bool" where
  "has_layer plan l \<longleftrightarrow> l \<in> set (stack plan)"

datatype traversal_direction = ToFabric | ToCore

definition direction_new :: "layer \<Rightarrow> layer \<Rightarrow> space_err + traversal_direction" where
  "direction_new from_layer to_layer =
     (if from_layer = to_layer then
        Inl (err_of_string ''cannot determine traversal direction if from and to are the same layer'')
      else if ordinal from_layer < ordinal to_layer then Inr ToCore
      else Inr ToFabric)"

fun is_fabric :: "traversal_direction \<Rightarrow> bool" where
  "is_fabric ToFabric = True"
| "is_fabric ToCore = False"

fun is_core :: "traversal_direction \<Rightarrow> bool" where
  "is_core ToFabric = False"
| "is_core ToCore = True"

fun dir_reverse :: "traversal_direction \<Rightarrow> traversal_direction" where
  "dir_reverse ToFabric = ToCore"
| "dir_reverse ToCore = ToFabric"

text \<open>The plans of \<open>loc.rs\<close>.\<close>

definition std_wave_traversal_plan :: traversal_plan where
  "std_wave_traversal_plan = plan_new [Field, Shell, Core]"

definition mechtron_wave_traversal_plan :: traversal_plan where
  "mechtron_wave_traversal_plan = plan_new [Field, Shell, Portal, Host, Guest, Core]"

definition portal_wave_traversal_plan :: traversal_plan where
  "portal_wave_traversal_plan = plan_new [Field, Shell, Portal, Host, Guest, Core]"

definition control_wave_traversal_plan :: traversal_plan where
  "control_wave_traversal_plan = plan_new [Field, Shell, Portal, Host, Guest, Core]"

definition star_wave_traversal_plan :: traversal_plan where
  "star_wave_traversal_plan = plan_new [Field, Shell, Core]"

section \<open>Facts: where a traversal goes next\<close>

lemma towards_fabric_from_spec:
  "i \<le> 7 \<Longrightarrow> towards_fabric_from ls i =
     Some (if \<exists>l \<in> set ls. ordinal l < i then Some (Max {l \<in> set ls. ordinal l < i}) else None)"
proof (induction i)
  case (Suc i)
  then obtain l where l: "from_ordinal i = Some l"
    using from_ordinal_None_iff [of i] by (cases "from_ordinal i") auto
  then have i: "i = ordinal l" by (simp add: from_ordinal_iff)
  show ?case
  proof (cases "l \<in> set ls")
    case True
    then have "Max {m \<in> set ls. ordinal m < Suc i} = l"
      by (intro Max_eqI) (auto simp: i less_eq_layer_def)
    with True show ?thesis by (auto simp: l i)
  next
    case False
    then have "{m \<in> set ls. ordinal m < Suc i} = {m \<in> set ls. ordinal m < i}"
      by (auto simp: i less_Suc_eq ordinal_inj)
    moreover from this have "(\<exists>m \<in> set ls. ordinal m < Suc i) = (\<exists>m \<in> set ls. ordinal m < i)"
      by blast
    ultimately show ?thesis using False Suc by (simp add: l)
  qed
qed simp

lemma towards_core_from_spec:
  "i < 7 \<Longrightarrow> towards_core_from ls i =
     (if \<exists>l \<in> set ls. i < ordinal l then Some (Min {l \<in> set ls. i < ordinal l}) else None)"
proof (induction "7 - i" arbitrary: i)
  case (Suc n)
  show ?case
  proof (cases "from_ordinal (Suc i)")
    case None
    then have "6 \<le> i" by (simp add: from_ordinal_None_iff)
    then have "\<not> i < ordinal l" for l using ordinal_lt [of l] by linarith
    with None show ?thesis by (simp add: towards_core_from.simps)
  next
    case (Some l)
    then have i: "Suc i = ordinal l" by (simp add: from_ordinal_iff)
    show ?thesis
    proof (cases "l \<in> set ls")
      case True
      then have "Min {m \<in> set ls. i < ordinal m} = l"
        using i by (intro Min_eqI) (auto simp: less_eq_layer_def)
      moreover have "i < ordinal l" using i by linarith
      with True have "\<exists>m \<in> set ls. i < ordinal m" by blast
      ultimately show ?thesis using True Some by (simp add: towards_core_from.simps)
    next
      case False
      then have same: "i < ordinal m \<longleftrightarrow> Suc i < ordinal m" if "m \<in> set ls" for m
        using i that by (metis Suc_lessD Suc_lessI ordinal_inj)
      then have "{m \<in> set ls. i < ordinal m} = {m \<in> set ls. Suc i < ordinal m}"
        and "(\<exists>m \<in> set ls. i < ordinal m) = (\<exists>m \<in> set ls. Suc i < ordinal m)"
        by auto
      moreover have "Suc i < 7" using i ordinal_lt [of l] by simp
      moreover from this have "n = 7 - Suc i" using Suc.hyps(2) by simp
      ultimately show ?thesis
        using False Some Suc.hyps(1) by (subst towards_core_from.simps) simp
    qed
  qed
qed simp

text \<open>The next layer towards the fabric is the nearest layer of the plan strictly below the
  current one, and towards the core the nearest one strictly above; \<open>None\<close> is answered exactly
  when the plan has no such layer, and the \<open>unwrap\<close> in the loop never panics.\<close>

theorem plan_next_layer_nearest:
  "towards_fabric plan l =
     Some (if \<exists>m \<in> set (stack plan). m < l then Some (Max {m \<in> set (stack plan). m < l}) else None)
   \<and> towards_core plan l =
     (if \<exists>m \<in> set (stack plan). l < m then Some (Min {m \<in> set (stack plan). l < m}) else None)"
  using towards_fabric_from_spec [of "ordinal l" "stack plan"] towards_core_from_spec [of "ordinal l" "stack plan"]
    ordinal_lt [of l]
  by (simp add: towards_fabric_def towards_core_def less_layer_def)

text \<open>Iterating \<open>next\<close> visits layers in strictly increasing (decreasing) order.\<close>

lemma towards_core_ascends: "towards_core plan l = Some m \<Longrightarrow> l < m \<and> has_layer plan m"
proof -
  assume next_layer: "towards_core plan l = Some m"
  let ?above = "{m \<in> set (stack plan). l < m}"
  from next_layer have "?above \<noteq> {}" and "m = Min ?above"
    using towards_core_from_spec [of "ordinal l" "stack plan"] ordinal_lt [of l]
    by (auto simp: towards_core_def less_layer_def split: if_splits)
  then have "m \<in> ?above" using Min_in [of ?above] by simp
  then show ?thesis by (simp add: has_layer_def)
qed

lemma towards_fabric_descends: "towards_fabric plan l = Some (Some m) \<Longrightarrow> m < l \<and> has_layer plan m"
proof -
  assume next_layer: "towards_fabric plan l = Some (Some m)"
  let ?below = "{m \<in> set (stack plan). m < l}"
  from next_layer have "?below \<noteq> {}" and "m = Max ?below"
    using towards_fabric_from_spec [of "ordinal l" "stack plan"] ordinal_lt [of l]
    by (auto simp: towards_fabric_def less_layer_def split: if_splits)
  then have "m \<in> ?below" using Max_in [of ?below] by simp
  then show ?thesis by (simp add: has_layer_def)
qed

lemma towards_core_None_iff: "towards_core plan l = None \<longleftrightarrow> \<not> (\<exists>m \<in> set (stack plan). l < m)"
  using towards_core_from_spec [of "ordinal l" "stack plan"] ordinal_lt [of l]
  by (simp add: towards_core_def less_layer_def)

lemma towards_fabric_None_iff:
  "towards_fabric plan l = Some None \<longleftrightarrow> \<not> (\<exists>m \<in> set (stack plan). m < l)"
  using towards_fabric_from_spec [of "ordinal l" "stack plan"] ordinal_lt [of l]
  by (simp add: towards_fabric_def less_layer_def)

lemma towards_fabric_no_panic: "towards_fabric plan l \<noteq> None"
  using towards_fabric_from_spec [of "ordinal l" "stack plan"] ordinal_lt [of l]
  by (simp add: towards_fabric_def)

lemma direction_new_ok_iff:
  "direction_new a b = Inr d \<longleftrightarrow> (a < b \<and> d = ToCore) \<or> (b < a \<and> d = ToFabric)"
  by (cases d) (auto simp: direction_new_def less_layer_def not_less_iff_gr_or_eq ordinal_inj)

lemma direction_new_reverse:
  "direction_new a b = Inr d \<Longrightarrow> direction_new b a = Inr (dir_reverse d)"
  by (cases d) (auto simp: direction_new_ok_iff)

lemma dir_reverse_involutive [simp]: "dir_reverse (dir_reverse d) = d"
  by (cases d) simp_all

section \<open>Facts: surfaces\<close>

lemma regex_matches_everything: "regex_is_match pattern x = pass"
proof (cases "x = []")
  case True
  then show ?thesis by (simp add: regex_is_match_def matches_count.simps)
next
  case False
  then have "matches_count x x = Suc (matches_count x [])"
    by (subst matches_count.simps) (simp add: starts_with_def)
  then show ?thesis by (simp add: regex_is_match_def)
qed

text \<open>A surface is matched by its own selector exactly when its topic is not \<open>Not\<close>; the
  selector of a surface without a topic (or with \<open>Any\<close>) matches the same point and layer
  under every topic, the selector of any other surface only the surface itself.\<close>

theorem surface_selector_matches:
  "surface_selector_is_match (surface_into_selector s) t = pass \<longleftrightarrow>
     surf_point t = surf_point s \<and> surf_layer t = surf_layer s \<and>
     surf_topic s \<noteq> TopicNot \<and>
     (surf_topic t = surf_topic s \<or> surf_topic s = TopicNone \<or> surf_topic s = TopicAny)"
  by (cases "surf_topic s")
    (auto simp: surface_selector_is_match_def surface_into_selector_def)

end
