(* ===== verification/Kinds.thy ===== *)
theory Kinds
  imports Surface
begin

text \<open>
  Kinds of particles (\<open>cosmic-space/src/kind.rs\<close>): base kinds, sub kinds, specifics, the
  parts a kind is read from, what a kind decides (provisioning, the layers of its waves, which
  stars forward), and the patterns of \<open>selector.rs\<close> over single values.
\<close>

section \<open>Patterns\<close>

datatype 'p pattern = PAny | PExact 'p

fun pattern_to_string_version :: "('p \<Rightarrow> string) \<Rightarrow> 'p pattern \<Rightarrow> string pattern" where
  "pattern_to_string_version str PAny = PAny"
| "pattern_to_string_version str (PExact exact) = PExact (str exact)"

fun pattern_is_any :: "'p pattern \<Rightarrow> bool" where
  "pattern_is_any PAny = True"
| "pattern_is_any (PExact _) = False"

fun pattern_matches :: "'p pattern \<Rightarrow> 'p \<Rightarrow> bool" where
  "pattern_matches PAny t = True"
| "pattern_matches (PExact p) t = (p = t)"

fun pattern_matches_opt :: "'p pattern \<Rightarrow> 'p option \<Rightarrow> bool" where
  "pattern_matches_opt PAny other = True"
| "pattern_matches_opt (PExact exact) other =
     (case other of Some other \<Rightarrow> exact = other | None \<Rightarrow> False)"

fun pattern_convert :: "('p \<Rightarrow> space_err + 'q) \<Rightarrow> 'p pattern \<Rightarrow> space_err + 'q pattern" where
  "pattern_convert try_into PAny = Inr PAny"
| "pattern_convert try_into (PExact exact) = res_bind (try_into exact) (\<lambda>x. Inr (PExact x))"

fun pattern_to_string :: "('p \<Rightarrow> string) \<Rightarrow> 'p pattern \<Rightarrow> string" where
  "pattern_to_string str PAny = ''*''"
| "pattern_to_string str (PExact exact) = str exact"

datatype 'p empty_pattern = EPAny | EPPattern 'p

fun empty_pattern_matches :: "'p empty_pattern \<Rightarrow> 'p \<Rightarrow> bool" where
  "empty_pattern_matches EPAny t = True"
| "empty_pattern_matches (EPPattern p) t = (p = t)"

fun empty_pattern_matches_opt :: "'p empty_pattern \<Rightarrow> 'p option \<Rightarrow> bool" where
  "empty_pattern_matches_opt EPAny other = True"
| "empty_pattern_matches_opt (EPPattern exact) other =
     (case other of Some other \<Rightarrow> exact = other | None \<Rightarrow> False)"

fun empty_pattern_convert ::
  "('p \<Rightarrow> space_err + 'q) \<Rightarrow> 'p empty_pattern \<Rightarrow> space_err + 'q empty_pattern" where
  "empty_pattern_convert try_into EPAny = Inr EPAny"
| "empty_pattern_convert try_into (EPPattern exact) =
     res_bind (try_into exact) (\<lambda>x. Inr (EPPattern x))"

fun empty_pattern_to_string :: "('p \<Rightarrow> string) \<Rightarrow> 'p empty_pattern \<Rightarrow> string" where
  "empty_pattern_to_string str EPAny = ''''"
| "empty_pattern_to_string str (EPPattern exact) = str exact"

section \<open>Specifics\<close>

datatype specific =
  Specific (provider: string) (vendor: string) (product: string) (variant: string)
           (spec_version: version)

definition specific_to_string :: "specific \<Rightarrow> string" where
  "specific_to_string s =
     provider s @ '':'' @ vendor s @ '':'' @ product s @ '':'' @ variant s @ '':'' @
     version_to_string (spec_version s)"

text \<open>A version requirement (crate \<open>semver\<close>) is carried as its text; whether it accepts a
  version is the parameter \<open>req\<close>, its parser the parameter \<open>parse_req\<close>.\<close>

datatype version_req = VersionReq (req_text: string)

datatype specific_selector =
  SpecificSelector (sel_provider: "string pattern") (sel_vendor: "string pattern")
    (sel_product: "string pattern") (sel_variant: "string pattern") (sel_version: version_req)

definition specific_selector_is_match ::
  "(version_req \<Rightarrow> version \<Rightarrow> bool) \<Rightarrow> specific_selector \<Rightarrow> specific \<Rightarrow> check" where
  "specific_selector_is_match req sel s =
     (if pattern_matches (sel_provider sel) (provider s)
         \<and> pattern_matches (sel_vendor sel) (vendor s)
         \<and> pattern_matches (sel_product sel) (product s)
         \<and> pattern_matches (sel_variant sel) (variant s)
         \<and> req (sel_version sel) (spec_version s)
      then pass else refuse)"

definition specific_selector_to_string :: "specific_selector \<Rightarrow> string" where
  "specific_selector_to_string sel =
     pattern_to_string (\<lambda>s. s) (sel_vendor sel) @ '':'' @
     pattern_to_string (\<lambda>s. s) (sel_product sel) @ '':'' @
     pattern_to_string (\<lambda>s. s) (sel_variant sel) @ '':('' @ req_text (sel_version sel) @ '')''"

definition specific_try_into_selector ::
  "(string \<Rightarrow> space_err + version_req) \<Rightarrow> specific \<Rightarrow> space_err + specific_selector" where
  "specific_try_into_selector parse_req s =
     res_bind (parse_req (version_to_string (spec_version s))) (\<lambda>v.
       Inr (SpecificSelector (PExact (provider s)) (PExact (vendor s)) (PExact (product s))
              (PExact (variant s)) v))"

text \<open>\<open>Specific::to_selector\<close> unwraps the parse of its text: \<open>None\<close> is the panic.\<close>

definition specific_to_selector ::
  "(string \<Rightarrow> space_err + specific_selector) \<Rightarrow> specific \<Rightarrow> specific_selector option" where
  "specific_to_selector parse_sel s =
     (case parse_sel (specific_to_string s) of Inl _ \<Rightarrow> None | Inr sel \<Rightarrow> Some sel)"

section \<open>Names in camel case\<close>

definition is_upper :: "char \<Rightarrow> bool" where
  "is_upper c = (let n = (of_char c :: nat) in 65 \<le> n \<and> n \<le> 90)"

definition is_alphanumeric :: "char \<Rightarrow> bool" where
  "is_alphanumeric c =
     (let n = (of_char c :: nat) in 65 \<le> n \<and> n \<le> 90 \<or> 97 \<le> n \<and> n \<le> 122 \<or> 48 \<le> n \<and> n \<le> 57)"

text \<open>\<open>all_consuming(camel_case)\<close>: upper case letters, then alphanumerics; \<open>perr\<close> is the
  report of a failed parse.\<close>

definition camel_from_str :: "(string \<Rightarrow> space_err) \<Rightarrow> string \<Rightarrow> space_err + string" where
  "camel_from_str perr s =
     (if s \<noteq> [] \<and> is_upper (hd s) \<and> list_all is_alphanumeric s then Inr s else Inl (perr s))"

definition camel_unwrap :: "string \<Rightarrow> string option" where
  "camel_unwrap s = (case camel_from_str err_of_string s of Inl _ \<Rightarrow> None | Inr c \<Rightarrow> Some c)"

section \<open>Kinds\<close>

datatype base_kind =
    BKRoot | BKSpace | BKUserBase | BKBase | BKUser | BKApp | BKMechtron | BKFileSystem | BKFile
  | BKDatabase | BKRepo | BKBundleSeries | BKBundle | BKArtifact | BKControl | BKPortal | BKStar
  | BKDriver | BKGlobal | BKHost | BKGuest | BKNative

definition base_kind_variants :: "base_kind list" where
  "base_kind_variants =
     [BKRoot, BKSpace, BKUserBase, BKBase, BKUser, BKApp, BKMechtron, BKFileSystem, BKFile,
      BKDatabase, BKRepo, BKBundleSeries, BKBundle, BKArtifact, BKControl, BKPortal, BKStar,
      BKDriver, BKGlobal, BKHost, BKGuest, BKNative]"

fun base_kind_to_string :: "base_kind \<Rightarrow> string" where
  "base_kind_to_string BKRoot = ''Root''"
| "base_kind_to_string BKSpace = ''Space''"
| "base_kind_to_string BKUserBase = ''UserBase''"
| "base_kind_to_string BKBase = ''Base''"
| "base_kind_to_string BKUser = ''User''"
| "base_kind_to_string BKApp = ''App''"
| "base_kind_to_string BKMechtron = ''Mechtron''"
| "base_kind_to_string BKFileSystem = ''FileSystem''"
| "base_kind_to_string BKFile = ''File''"
| "base_kind_to_string BKDatabase = ''Database''"
| "base_kind_to_string BKRepo = ''Repo''"
| "base_kind_to_string BKBundleSeries = ''BundleSeries''"
| "base_kind_to_string BKBundle = ''Bundle''"
| "base_kind_to_string BKArtifact = ''Artifact''"
| "base_kind_to_string BKControl = ''Control''"
| "base_kind_to_string BKPortal = ''Portal''"
| "base_kind_to_string BKStar = ''Star''"
| "base_kind_to_string BKDriver = ''Driver''"
| "base_kind_to_string BKGlobal = ''Global''"
| "base_kind_to_string BKHost = ''Host''"
| "base_kind_to_string BKGuest = ''Guest''"
| "base_kind_to_string BKNative = ''Native''"

datatype native_sub = NativeWeb

fun native_sub_to_string :: "native_sub \<Rightarrow> string" where
  "native_sub_to_string NativeWeb = ''Web''"

datatype star_sub =
    StarCentral | StarSuper | StarNexus | StarMaelstrom | StarScribe | StarJump | StarFold
  | StarMachine

definition star_sub_variants :: "star_sub list" where
  "star_sub_variants =
     [StarCentral, StarSuper, StarNexus, StarMaelstrom, StarScribe, StarJump, StarFold, StarMachine]"

fun star_sub_to_string :: "star_sub \<Rightarrow> string" where
  "star_sub_to_string StarCentral = ''Central''"
| "star_sub_to_string StarSuper = ''Super''"
| "star_sub_to_string StarNexus = ''Nexus''"
| "star_sub_to_string StarMaelstrom = ''Maelstrom''"
| "star_sub_to_string StarScribe = ''Scribe''"
| "star_sub_to_string StarJump = ''Jump''"
| "star_sub_to_string StarFold = ''Fold''"
| "star_sub_to_string StarMachine = ''Machine''"

fun is_forwarder :: "star_sub \<Rightarrow> bool" where
  "is_forwarder StarNexus = True"
| "is_forwarder StarCentral = False"
| "is_forwarder StarSuper = True"
| "is_forwarder StarMaelstrom = True"
| "is_forwarder StarScribe = True"
| "is_forwarder StarJump = True"
| "is_forwarder StarFold = True"
| "is_forwarder StarMachine = False"

fun can_be_wrangled :: "star_sub \<Rightarrow> bool" where
  "can_be_wrangled StarNexus = False"
| "can_be_wrangled StarMachine = False"
| "can_be_wrangled _ = True"

datatype file_sub = FileFile | FileDir

definition file_sub_variants :: "file_sub list" where "file_sub_variants = [FileFile, FileDir]"

fun file_sub_to_string :: "file_sub \<Rightarrow> string" where
  "file_sub_to_string FileFile = ''File''"
| "file_sub_to_string FileDir = ''Dir''"

datatype artifact_sub = ArtifactRaw | ArtifactParticleConfig | ArtifactBind | ArtifactWasm | ArtifactDir

definition artifact_sub_variants :: "artifact_sub list" where
  "artifact_sub_variants =
     [ArtifactRaw, ArtifactParticleConfig, ArtifactBind, ArtifactWasm, ArtifactDir]"

fun artifact_sub_to_string :: "artifact_sub \<Rightarrow> string" where
  "artifact_sub_to_string ArtifactRaw = ''Raw''"
| "artifact_sub_to_string ArtifactParticleConfig = ''ParticleConfig''"
| "artifact_sub_to_string ArtifactBind = ''Bind''"
| "artifact_sub_to_string ArtifactWasm = ''Wasm''"
| "artifact_sub_to_string ArtifactDir = ''Dir''"

datatype user_base_sub = OAuth specific
datatype database_sub = Relational specific

fun user_base_sub_specific :: "user_base_sub \<Rightarrow> specific option" where
  "user_base_sub_specific (OAuth s) = Some s"

fun user_base_sub_to_string :: "user_base_sub \<Rightarrow> string" where
  "user_base_sub_to_string (OAuth _) = ''OAuth''"

fun database_sub_specific :: "database_sub \<Rightarrow> specific option" where
  "database_sub_specific (Relational s) = Some s"

fun database_sub_to_string :: "database_sub \<Rightarrow> string" where
  "database_sub_to_string (Relational _) = ''Relational''"

datatype sub =
    SubNone | SubDatabase database_sub | SubFile file_sub | SubArtifact artifact_sub
  | SubUserBase user_base_sub | SubStar star_sub | SubNative native_sub

text \<open>\<open>Sub::to_camel_case\<close>: the outer option of the result is the panic of \<open>unwrap\<close>.\<close>

fun sub_to_camel_case :: "sub \<Rightarrow> string option option" where
  "sub_to_camel_case SubNone = Some None"
| "sub_to_camel_case (SubDatabase d) = map_option Some (camel_unwrap (database_sub_to_string d))"
| "sub_to_camel_case (SubFile x) = map_option Some (camel_unwrap (file_sub_to_string x))"
| "sub_to_camel_case (SubArtifact x) = map_option Some (camel_unwrap (artifact_sub_to_string x))"
| "sub_to_camel_case (SubUserBase x) = map_option Some (camel_unwrap (user_base_sub_to_string x))"
| "sub_to_camel_case (SubStar x) = map_option Some (camel_unwrap (star_sub_to_string x))"
| "sub_to_camel_case (SubNative x) = map_option Some (camel_unwrap (native_sub_to_string x))"

fun sub_specific :: "sub \<Rightarrow> specific option" where
  "sub_specific (SubDatabase sub) = database_sub_specific sub"
| "sub_specific (SubUserBase sub) = user_base_sub_specific sub"
| "sub_specific _ = None"

fun sub_into_string :: "sub \<Rightarrow> string option" where
  "sub_into_string SubNone = None"
| "sub_into_string (SubDatabase d) = Some (database_sub_to_string d)"
| "sub_into_string (SubFile f) = Some (file_sub_to_string f)"
| "sub_into_string (SubArtifact a) = Some (artifact_sub_to_string a)"
| "sub_into_string (SubUserBase u) = Some (user_base_sub_to_string u)"
| "sub_into_string (SubStar s) = Some (star_sub_to_string s)"
| "sub_into_string (SubNative s) = Some (native_sub_to_string s)"

datatype kind =
    KRoot | KSpace | KUser | KApp | KMechtron | KFileSystem | KRepo | KBundleSeries | KBundle
  | KControl | KPortal | KDriver | KFile file_sub | KArtifact artifact_sub | KDatabase database_sub
  | KBase | KUserBase user_base_sub | KStar star_sub | KGlobal | KHost | KGuest | KNative native_sub

fun to_base :: "kind \<Rightarrow> base_kind" where
  "to_base KRoot = BKRoot"
| "to_base KSpace = BKSpace"
| "to_base KUser = BKUser"
| "to_base KApp = BKApp"
| "to_base KMechtron = BKMechtron"
| "to_base KFileSystem = BKFileSystem"
| "to_base KBundleSeries = BKBundleSeries"
| "to_base KBundle = BKBundle"
| "to_base KControl = BKControl"
| "to_base KPortal = BKPortal"
| "to_base (KUserBase _) = BKUserBase"
| "to_base (KFile _) = BKFile"
| "to_base (KArtifact _) = BKArtifact"
| "to_base (KDatabase _) = BKDatabase"
| "to_base (KNative _) = BKNative"
| "to_base KBase = BKBase"
| "to_base KRepo = BKRepo"
| "to_base (KStar _) = BKStar"
| "to_base KDriver = BKDriver"
| "to_base KGlobal = BKGlobal"
| "to_base KHost = BKHost"
| "to_base KGuest = BKGuest"

text \<open>The derived \<open>Display\<close> prints the name of the variant, without its payload.\<close>

definition kind_name :: "kind \<Rightarrow> string" where
  "kind_name k = base_kind_to_string (to_base k)"

text \<open>\<open>Kind::sub\<close> has no case for \<open>Native\<close>.\<close>

fun kind_sub :: "kind \<Rightarrow> sub" where
  "kind_sub (KFile s) = SubFile s"
| "kind_sub (KArtifact s) = SubArtifact s"
| "kind_sub (KDatabase s) = SubDatabase s"
| "kind_sub (KUserBase s) = SubUserBase s"
| "kind_sub (KStar s) = SubStar s"
| "kind_sub _ = SubNone"

definition kind_specific :: "kind \<Rightarrow> specific option" where
  "kind_specific k = sub_specific (kind_sub k)"

fun kind_specific_selector ::
  "(string \<Rightarrow> space_err + specific_selector) \<Rightarrow> kind \<Rightarrow> specific_selector option option" where
  "kind_specific_selector parse_sel k =
     (case kind_specific k of
        None \<Rightarrow> Some None
      | Some s \<Rightarrow> map_option Some (specific_to_selector parse_sel s))"

definition kind_provision_affinity :: "kind \<Rightarrow> provision_affinity" where
  "kind_provision_affinity k = (case to_base k of BKBase \<Rightarrow> PALocal | _ \<Rightarrow> PAWrangle)"

fun is_auto_provision :: "kind \<Rightarrow> bool" where
  "is_auto_provision KBundle = True"
| "is_auto_provision (KArtifact _) = True"
| "is_auto_provision KMechtron = True"
| "is_auto_provision KHost = True"
| "is_auto_provision (KNative NativeWeb) = True"
| "is_auto_provision _ = False"

fun wave_traversal_plan :: "kind \<Rightarrow> traversal_plan" where
  "wave_traversal_plan KMechtron = mechtron_wave_traversal_plan"
| "wave_traversal_plan KPortal = portal_wave_traversal_plan"
| "wave_traversal_plan KControl = control_wave_traversal_plan"
| "wave_traversal_plan (KStar _) = star_wave_traversal_plan"
| "wave_traversal_plan _ = std_wave_traversal_plan"

section \<open>Kinds from their parts\<close>

record kind_parts =
  kp_base :: base_kind
  kp_sub :: "string option"
  kp_specific :: "specific option"

definition kind_parts_root :: kind_parts where
  "kind_parts_root = \<lparr>kp_base = BKRoot, kp_sub = None, kp_specific = None\<rparr>"

definition kind_parts_new :: "base_kind \<Rightarrow> string option \<Rightarrow> specific option \<Rightarrow> kind_parts" where
  "kind_parts_new base sub specific = \<lparr>kp_base = base, kp_sub = sub, kp_specific = specific\<rparr>"

definition kind_parts_matches :: "kind_parts \<Rightarrow> kind_parts \<Rightarrow> bool" where
  "kind_parts_matches p q \<longleftrightarrow>
     kp_base p = kp_base q \<and> kp_sub p = kp_sub q \<and> kp_specific p = kp_specific q"

definition kind_parts_to_string :: "kind_parts \<Rightarrow> string" where
  "kind_parts_to_string p =
     (case kp_sub p of
        Some sub \<Rightarrow>
          (case kp_specific p of
             Some s \<Rightarrow> base_kind_to_string (kp_base p) @ ''<'' @ sub @ ''<'' @ specific_to_string s @ ''>>''
           | None \<Rightarrow> base_kind_to_string (kp_base p) @ ''<'' @ sub @ ''>'')
      | None \<Rightarrow> base_kind_to_string (kp_base p))"

text \<open>\<open>TryFrom<KindParts> for Kind\<close>.\<close>

definition kind_try_from :: "string \<Rightarrow> kind_parts \<Rightarrow> space_err + kind" where
  "kind_try_from perr value =
     (case kp_base value of
        BKDatabase \<Rightarrow>
          res_bind (ok_or (kp_sub value) (err_of_string ''Database<?> requires a Sub Kind'')) (\<lambda>sub.
            if sub = ''Relational'' then
              res_bind (ok_or (kp_specific value)
                          (err_of_string ''Database<Relational<?>> requires a Specific'')) (\<lambda>s.
                Inr (KDatabase (Relational s)))
            else Inl (err_of_string (''unexpected Database SubKind '' @ quoted sub)))
      | BKUserBase \<Rightarrow>
          res_bind (ok_or (kp_sub value) (err_of_string ''UserBase<?> requires a Sub Kind'')) (\<lambda>sub.
            if sub = ''OAuth'' then
              res_bind (ok_or (kp_specific value)
                          (err_of_string ''UserBase<OAuth<?>> requires a Specific'')) (\<lambda>s.
                Inr (KUserBase (OAuth s)))
            else Inl (err_of_string (''unexpected Database SubKind '' @ quoted sub)))
      | BKBase \<Rightarrow> Inr KBase
      | BKFile \<Rightarrow>
          res_bind (ok_or (kp_sub value) (err_of_string ''File<?> requires a Sub Kind'')) (\<lambda>sub.
          res_bind (strum_from_str perr file_sub_variants file_sub_to_string sub) (\<lambda>s. Inr (KFile s)))
      | BKArtifact \<Rightarrow>
          res_bind (ok_or (kp_sub value) (err_of_string ''Artifact<?> requires a sub kind'')) (\<lambda>sub.
          res_bind (strum_from_str perr artifact_sub_variants artifact_sub_to_string sub) (\<lambda>s.
            Inr (KArtifact s)))
      | BKStar \<Rightarrow>
          res_bind (ok_or (kp_sub value) (err_of_string ''Star<?> requires a sub kind'')) (\<lambda>sub.
          res_bind (strum_from_str perr star_sub_variants star_sub_to_string sub) (\<lambda>s. Inr (KStar s)))
      | BKNative \<Rightarrow>
          res_bind (ok_or (kp_sub value) (err_of_string ''Native<?> requires a sub kind'')) (\<lambda>sub.
          res_bind (strum_from_str perr [NativeWeb] native_sub_to_string sub) (\<lambda>s. Inr (KNative s)))
      | BKRoot \<Rightarrow> Inr KRoot
      | BKSpace \<Rightarrow> Inr KSpace
      | BKUser \<Rightarrow> Inr KUser
      | BKApp \<Rightarrow> Inr KApp
      | BKMechtron \<Rightarrow> Inr KMechtron
      | BKFileSystem \<Rightarrow> Inr KFileSystem
      | BKBundleSeries \<Rightarrow> Inr KBundleSeries
      | BKBundle \<Rightarrow> Inr KBundle
      | BKControl \<Rightarrow> Inr KControl
      | BKPortal \<Rightarrow> Inr KPortal
      | BKRepo \<Rightarrow> Inr KRepo
      | BKDriver \<Rightarrow> Inr KDriver
      | BKGlobal \<Rightarrow> Inr KGlobal
      | BKHost \<Rightarrow> Inr KHost
      | BKGuest \<Rightarrow> Inr KGuest)"

record kind_template =
  kt_base :: base_kind
  kt_sub :: "string option"
  kt_specific :: "specific_selector option"

text \<open>\<open>Kind::to_template\<close>; \<open>None\<close> is a panic of one of its \<open>unwrap\<close>s.\<close>

definition to_template ::
  "(string \<Rightarrow> space_err + specific_selector) \<Rightarrow> kind \<Rightarrow> kind_template option" where
  "to_template parse_sel k =
     (case sub_to_camel_case (kind_sub k) of
        None \<Rightarrow> None
      | Some sub \<Rightarrow>
          map_option (\<lambda>s. \<lparr>kt_base = to_base k, kt_sub = sub, kt_specific = s\<rparr>)
            (kind_specific_selector parse_sel k))"

definition kind_template_to_string :: "kind_template \<Rightarrow> string" where
  "kind_template_to_string t =
     (case kt_sub t of
        Some sub \<Rightarrow>
          (case kt_specific t of
             Some s \<Rightarrow>
               base_kind_to_string (kt_base t) @ ''<'' @ sub @ ''<'' @ specific_selector_to_string s @ ''>>''
           | None \<Rightarrow> base_kind_to_string (kt_base t) @ ''<'' @ sub @ ''>'')
      | None \<Rightarrow> base_kind_to_string (kt_base t))"

datatype child_registry = ChildShell | ChildCore

fun child_resource_registry_handler :: "base_kind \<Rightarrow> child_registry" where
  "child_resource_registry_handler BKUserBase = ChildCore"
| "child_resource_registry_handler _ = ChildShell"

record star_stub =
  stub_key :: star_key
  stub_kind :: star_sub

definition kind_template_try_into :: "kind_template \<Rightarrow> space_err + kind_parts" where
  "kind_template_try_into t =
     (if kt_specific t \<noteq> None then
        Inl (err_of_string ''cannot create a ResourceKind from a specific pattern when using KindTemplate'')
      else Inr \<lparr>kp_base = kt_base t, kp_sub = kt_sub t, kp_specific = None\<rparr>)"

section \<open>Facts\<close>

interpretation base_kind_strum: strum base_kind_variants base_kind_to_string
proof
  show "x \<in> set base_kind_variants" for x by (cases x) (simp_all add: base_kind_variants_def)
qed (simp add: base_kind_variants_def)

interpretation star_sub_strum: strum star_sub_variants star_sub_to_string
proof
  show "x \<in> set star_sub_variants" for x by (cases x) (simp_all add: star_sub_variants_def)
qed (simp add: star_sub_variants_def)

interpretation file_sub_strum: strum file_sub_variants file_sub_to_string
proof
  show "x \<in> set file_sub_variants" for x by (cases x) (simp_all add: file_sub_variants_def)
qed (simp add: file_sub_variants_def)

interpretation artifact_sub_strum: strum artifact_sub_variants artifact_sub_to_string
proof
  show "x \<in> set artifact_sub_variants" for x by (cases x) (simp_all add: artifact_sub_variants_def)
qed (simp add: artifact_sub_variants_def)

interpretation native_sub_strum: strum "[NativeWeb]" native_sub_to_string
proof
  show "x \<in> set [NativeWeb]" for x by (cases x) simp
qed simp

lemmas camel_unfold = camel_unwrap_def camel_from_str_def is_upper_def is_alphanumeric_def

lemma camel_database: "camel_unwrap (database_sub_to_string d) = Some (database_sub_to_string d)"
  by (cases d) (simp add: camel_unfold)

lemma camel_user_base: "camel_unwrap (user_base_sub_to_string u) = Some (user_base_sub_to_string u)"
  by (cases u) (simp add: camel_unfold)

lemma camel_file: "camel_unwrap (file_sub_to_string f) = Some (file_sub_to_string f)"
  by (cases f) (simp_all add: camel_unfold)

lemma camel_artifact: "camel_unwrap (artifact_sub_to_string a) = Some (artifact_sub_to_string a)"
  by (cases a) (simp_all add: camel_unfold)

lemma camel_star: "camel_unwrap (star_sub_to_string s) = Some (star_sub_to_string s)"
  by (cases s) (simp_all add: camel_unfold)

lemma camel_native: "camel_unwrap (native_sub_to_string n) = Some (native_sub_to_string n)"
  by (cases n) (simp add: camel_unfold)

lemmas camel_unwrap_sub_names =
  camel_database camel_user_base camel_file camel_artifact camel_star camel_native

lemma sub_to_camel_case_total: "sub_to_camel_case s = Some (sub_into_string s)"
  by (cases s) (simp_all add: camel_unwrap_sub_names)

text \<open>Reading a kind back from its base, sub kind and specific gives the kind again, for every
  kind but \<open>Native\<close>: \<open>Kind::sub\<close> forgets the sub kind of a native particle, and the conversion
  of its parts then fails for lack of one.\<close>

theorem kind_parts_roundtrip:
  "kind_try_from perr (kind_parts_new (to_base k) (sub_into_string (kind_sub k)) (kind_specific k)) =
     (case k of KNative _ \<Rightarrow> Inl (err_of_string ''Native<?> requires a sub kind'') | _ \<Rightarrow> Inr k)"
proof (cases k)
  case (KDatabase d)
  then show ?thesis by (cases d) (simp add: kind_try_from_def kind_parts_new_def kind_specific_def)
next
  case (KUserBase u)
  then show ?thesis by (cases u) (simp add: kind_try_from_def kind_parts_new_def kind_specific_def)
qed (simp_all add: kind_try_from_def kind_parts_new_def kind_specific_def
      file_sub_strum.from_str_display artifact_sub_strum.from_str_display
      star_sub_strum.from_str_display)

text \<open>Whatever parts a kind is read from, the kind has the base kind of the parts, and the sub
  kind and specific it reports are those of the parts whenever it reports any.\<close>

theorem kind_try_from_keeps_parts:
  assumes "kind_try_from perr parts = Inr k"
  shows "to_base k = kp_base parts
    \<and> (kind_sub k = SubNone \<or> sub_into_string (kind_sub k) = kp_sub parts)
    \<and> (kind_specific k = None \<or> kind_specific k = kp_specific parts)"
  using assms
  by (cases "kp_base parts")
    (auto simp: kind_try_from_def kind_specific_def res_bind_Inr_iff
      file_sub_strum.from_str_iff artifact_sub_strum.from_str_iff star_sub_strum.from_str_iff
      native_sub_strum.from_str_iff split: if_splits)

theorem kind_try_from_keeps_parts_witness:
  "to_base (KStar StarFold) = BKStar \<and> sub_into_string (kind_sub (KStar StarFold)) = Some ''Fold''"
  using kind_try_from_keeps_parts [of "[]" "\<lparr>kp_base = BKStar, kp_sub = Some ''Fold'', kp_specific = None\<rparr>"
      "KStar StarFold"]
  by (simp add: kind_try_from_def strum_from_str_def star_sub_variants_def)

lemma plan_layers:
  "set (stack (wave_traversal_plan k)) = {Field, Shell, Core} \<or>
   set (stack (wave_traversal_plan k)) = {Field, Shell, Portal, Host, Guest, Core}"
  by (cases k)
    (simp_all add: std_wave_traversal_plan_def mechtron_wave_traversal_plan_def
      portal_wave_traversal_plan_def control_wave_traversal_plan_def star_wave_traversal_plan_def
      plan_new_def)

lemma layer_bounds: "Gravity \<le> l" "l \<le> Core"
  by (cases l; simp add: less_eq_layer_def)+


lemma to_template_no_specific:
  "kind_specific k = None \<Longrightarrow>
   to_template parse_sel k =
     Some \<lparr>kt_base = to_base k, kt_sub = sub_into_string (kind_sub k), kt_specific = None\<rparr>"
  by (simp add: to_template_def sub_to_camel_case_total)

lemma template_roundtrip:
  "kind_specific k = None \<Longrightarrow> \<nexists>n. k = KNative n \<Longrightarrow>
   \<exists>t. to_template parse_sel k = Some t \<and>
       res_bind (kind_template_try_into t) (kind_try_from perr) = Inr k"
  using kind_try_from_def [of perr]
  by (cases k)
    (auto simp: to_template_no_specific kind_template_try_into_def kind_try_from_def kind_specific_def
      file_sub_strum.from_str_display artifact_sub_strum.from_str_display
      star_sub_strum.from_str_display split: database_sub.splits user_base_sub.splits
      elim!: database_sub_specific.elims user_base_sub_specific.elims)

end
