(* ===== verification/Selectors.thy ===== *)
theory Selectors
  imports Kinds
begin

text \<open>
  Selectors over particle hierarchies (\<open>cosmic-space/src/selector.rs\<close>): kind and segment
  selectors, hops, point hierarchies and the matching of a selector against a hierarchy.
  Whether a version requirement accepts a version is the parameter \<open>req\<close>; a panic is \<open>None\<close>.
\<close>

section \<open>Selectors of kinds and segments\<close>

datatype kind_selector =
  KindSelector (ks_base: "base_kind pattern") (ks_sub: "string option pattern")
    (ks_specific: "specific_selector value_pattern")

definition kind_selector_from_base :: "base_kind \<Rightarrow> kind_selector" where
  "kind_selector_from_base base = KindSelector (PExact base) PAny VPAny"

definition kind_selector_any :: kind_selector where
  "kind_selector_any = KindSelector PAny PAny VPAny"

text \<open>\<open>KindSelector::matches\<close> looks at the base kind only.\<close>

definition kind_selector_matches :: "kind_selector \<Rightarrow> kind \<Rightarrow> bool" where
  "kind_selector_matches ks k = pattern_matches (ks_base ks) (to_base k)"

definition kind_selector_to_string :: "kind_selector \<Rightarrow> string option" where
  "kind_selector_to_string ks =
     map_option (\<lambda>sub. pattern_to_string base_kind_to_string (ks_base ks) @ ''<'' @ sub @ ''<'' @
                       vp_to_string specific_selector_to_string (ks_specific ks) @ ''>>'')
       (case ks_sub ks of PAny \<Rightarrow> Some ''*'' | PExact sub \<Rightarrow> sub)"

definition star_sub_to_selector :: "star_sub \<Rightarrow> kind_selector" where
  "star_sub_to_selector s = KindSelector (PExact BKStar) (PExact (Some (star_sub_to_string s))) VPAny"

datatype exact_point_seg = EPointSeg point_seg | EVersion version

fun exact_seg_matches :: "exact_point_seg \<Rightarrow> point_seg \<Rightarrow> bool" where
  "exact_seg_matches (EPointSeg s) segment = (s = segment)"
| "exact_seg_matches (EVersion a) segment =
     (case segment of PSVersion b \<Rightarrow> a = b | _ \<Rightarrow> False)"

fun exact_seg_to_string :: "exact_point_seg \<Rightarrow> string" where
  "exact_seg_to_string (EPointSeg point) = seg_to_string point"
| "exact_seg_to_string (EVersion version) = version_to_string version"

datatype seg_selector =
    SSInclusiveAny | SSInclusiveRecursive | SSAny | SSRecursive
  | SSExact exact_point_seg | SSVersion version_req

fun seg_selector_is_exact :: "seg_selector \<Rightarrow> bool" where
  "seg_selector_is_exact (SSExact _) = True"
| "seg_selector_is_exact _ = False"

fun seg_selector_matches :: "(version_req \<Rightarrow> version \<Rightarrow> bool) \<Rightarrow> seg_selector \<Rightarrow> point_seg \<Rightarrow> bool" where
  "seg_selector_matches req SSInclusiveAny segment = True"
| "seg_selector_matches req SSInclusiveRecursive segment = True"
| "seg_selector_matches req SSAny segment = True"
| "seg_selector_matches req SSRecursive segment = True"
| "seg_selector_matches req (SSExact exact) segment =
     (case exact of
        EPointSeg pattern \<Rightarrow> pattern = segment
      | EVersion a \<Rightarrow> (case segment of PSVersion b \<Rightarrow> a = b | _ \<Rightarrow> False))"
| "seg_selector_matches req (SSVersion r) segment =
     (case segment of PSVersion b \<Rightarrow> req r b | _ \<Rightarrow> False)"

fun is_recursive :: "seg_selector \<Rightarrow> bool" where
  "is_recursive SSInclusiveAny = False"
| "is_recursive SSInclusiveRecursive = True"
| "is_recursive SSAny = False"
| "is_recursive SSRecursive = True"
| "is_recursive (SSExact _) = False"
| "is_recursive (SSVersion _) = False"

fun seg_selector_to_string :: "seg_selector \<Rightarrow> string" where
  "seg_selector_to_string SSInclusiveAny = ''+:*''"
| "seg_selector_to_string SSInclusiveRecursive = ''+:**''"
| "seg_selector_to_string SSAny = ''*''"
| "seg_selector_to_string SSRecursive = ''**''"
| "seg_selector_to_string (SSExact exact) = exact_seg_to_string exact"
| "seg_selector_to_string (SSVersion version) = req_text version"

section \<open>Hops and hierarchies\<close>

datatype point_kind_seg = PointKindSeg (pk_segment: point_seg) (pk_kind: kind)

definition point_kind_seg_to_string :: "point_kind_seg \<Rightarrow> string" where
  "point_kind_seg_to_string s = seg_to_string (pk_segment s) @ ''<'' @ kind_name (pk_kind s) @ ''>''"

datatype hop =
  Hop (hop_inclusive: bool) (hop_segment: seg_selector) (hop_kind: kind_selector)

definition hop_matches :: "(version_req \<Rightarrow> version \<Rightarrow> bool) \<Rightarrow> hop \<Rightarrow> point_kind_seg \<Rightarrow> bool" where
  "hop_matches req h s \<longleftrightarrow>
     seg_selector_matches req (hop_segment h) (pk_segment s)
     \<and> kind_selector_matches (hop_kind h) (pk_kind s)"

text \<open>\<open>Hop::to_string\<close>; \<open>None\<close> is the panic of unwrapping a missing sub kind.\<close>

definition hop_to_string :: "hop \<Rightarrow> string option" where
  "hop_to_string h =
     map_option
       (\<lambda>kind. seg_selector_to_string (hop_segment h) @ kind @ (if hop_inclusive h then ''+'' else ''''))
       (case ks_base (hop_kind h) of
          PAny \<Rightarrow> Some ''''
        | PExact base \<Rightarrow>
            map_option (\<lambda>sub. ''<'' @ base_kind_to_string base @ sub @ ''>'')
              (case ks_sub (hop_kind h) of
                 PAny \<Rightarrow> Some ''''
               | PExact None \<Rightarrow> None
               | PExact (Some sub) \<Rightarrow>
                   Some (''<'' @ sub @
                     (case ks_specific (hop_kind h) of
                        VPPattern s \<Rightarrow> ''<'' @ specific_selector_to_string s @ ''>''
                      | _ \<Rightarrow> '''') @ ''>'')))"

record point_hierarchy =
  hier_route :: route_seg
  hier_segments :: "point_kind_seg list"

definition hierarchy_push :: "point_hierarchy \<Rightarrow> point_kind_seg \<Rightarrow> point_hierarchy" where
  "hierarchy_push h s = \<lparr>hier_route = hier_route h, hier_segments = hier_segments h @ [s]\<rparr>"

definition hierarchy_consume :: "point_hierarchy \<Rightarrow> point_hierarchy option" where
  "hierarchy_consume h =
     (if length (hier_segments h) \<le> 1 then None
      else Some \<lparr>hier_route = hier_route h, hier_segments = tl (hier_segments h)\<rparr>)"

definition hierarchy_is_root :: "point_hierarchy \<Rightarrow> bool" where
  "hierarchy_is_root h \<longleftrightarrow> hier_segments h = []"

definition hierarchy_is_final :: "point_hierarchy \<Rightarrow> bool" where
  "hierarchy_is_final h \<longleftrightarrow> length (hier_segments h) = 1"

fun hier_segments_to_string :: "bool \<Rightarrow> point_kind_seg list \<Rightarrow> string" where
  "hier_segments_to_string post_fileroot [] = ''''"
| "hier_segments_to_string post_fileroot (s # ss) =
     (let post = (post_fileroot \<or> pk_segment s = PSFilesystemRootDir)
      in preceding_delim (seg_kind (pk_segment s)) post @ point_kind_seg_to_string s @
         hier_segments_to_string post ss)"

definition hierarchy_to_string :: "point_hierarchy \<Rightarrow> string" where
  "hierarchy_to_string h =
     (case hier_route h of RSThis \<Rightarrow> '''' | r \<Rightarrow> route_to_string r @ ''::'') @
     hier_segments_to_string False (hier_segments h)"

section \<open>Selectors\<close>

datatype selector = Selector (hops: "hop list")

definition selector_consume :: "selector \<Rightarrow> selector option" where
  "selector_consume sel = (if hops sel = [] then None else Some (Selector (tl (hops sel))))"

definition matches_root :: "selector \<Rightarrow> bool" where
  "matches_root sel =
     (if hops sel = [] then True
      else if length (hops sel) = 1 then
        (let h = hd (hops sel)
         in if hop_segment h = SSInclusiveAny \<or> hop_segment h = SSInclusiveRecursive
            then kind_selector_matches (hop_kind h) KRoot else False)
      else False)"

definition selector_is_root :: "selector \<Rightarrow> bool" where
  "selector_is_root sel \<longleftrightarrow> hops sel = []"

definition selector_is_final :: "selector \<Rightarrow> bool" where
  "selector_is_final sel \<longleftrightarrow> length (hops sel) = 1"

fun query_root_segments :: "hop list \<Rightarrow> point_seg list" where
  "query_root_segments [] = []"
| "query_root_segments (h # hs) =
     (case hop_segment h of
        SSExact exact \<Rightarrow>
          if hop_inclusive h then []
          else (case exact of EPointSeg seg \<Rightarrow> seg | EVersion version \<Rightarrow> PSVersion version)
               # query_root_segments hs
      | _ \<Rightarrow> [])"

definition query_root :: "selector \<Rightarrow> point" where
  "query_root sel = \<lparr>route = RSThis, segments = query_root_segments (hops sel)\<rparr>"

text \<open>\<open>remove(0)\<close>, which panics on an empty vector, the given number of times.\<close>

fun remove_first :: "nat \<Rightarrow> 'a list \<Rightarrow> 'a list option" where
  "remove_first 0 xs = Some xs"
| "remove_first (Suc n) xs = (case xs of [] \<Rightarrow> None | _ # ys \<Rightarrow> remove_first n ys)"

definition sub_select_hops :: "selector \<Rightarrow> hop list option" where
  "sub_select_hops sel = remove_first (length (segments (query_root sel))) (hops sel)"

lemma hierarchy_consume_less:
  "hierarchy_consume h = Some h' \<Longrightarrow> length (hier_segments h') < length (hier_segments h)"
  by (auto simp: hierarchy_consume_def split: if_splits)

text \<open>\<open>Selector::matches\<close>, with the \<open>expect\<close>s of its recursive calls.\<close>

function selector_matches ::
  "(version_req \<Rightarrow> version \<Rightarrow> bool) \<Rightarrow> selector \<Rightarrow> point_hierarchy \<Rightarrow> bool option" where
  "selector_matches req sel hier =
     (if hierarchy_is_root hier \<and> selector_is_root sel then Some True
      else if hier_segments hier = [] \<or> hops sel = [] then Some False
      else
        let h = hd (hops sel); seg = hd (hier_segments hier)
        in if hierarchy_is_final hier \<and> selector_is_final sel then Some (hop_matches req h seg)
           else if hierarchy_is_root hier then Some False
           else if selector_is_root sel then Some False
           else if hierarchy_is_final hier then Some (hop_inclusive h \<and> hop_matches req h seg)
           else if is_recursive (hop_segment h) \<and> length (hops sel) \<ge> 2 then
             (if hop_matches req (hops sel ! 1) seg then
                (case selector_consume sel of
                   None \<Rightarrow> None
                 | Some sel' \<Rightarrow>
                     (case hierarchy_consume hier of
                        None \<Rightarrow> None
                      | Some hier' \<Rightarrow> selector_matches req sel' hier'))
              else
                (case hierarchy_consume hier of
                   None \<Rightarrow> None
                 | Some hier' \<Rightarrow> selector_matches req sel hier'))
           else if is_recursive (hop_segment h) \<and> hierarchy_is_final hier then
             Some (hop_matches req h (last (hier_segments hier)))
           else if is_recursive (hop_segment h) then
             (if hop_matches req h (last (hier_segments hier)) then
                (case hierarchy_consume hier of
                   None \<Rightarrow> None
                 | Some hier' \<Rightarrow> selector_matches req sel hier')
              else Some False)
           else if hop_matches req h seg then
             (case selector_consume sel of
                None \<Rightarrow> None
              | Some sel' \<Rightarrow>
                  (case hierarchy_consume hier of
                     None \<Rightarrow> None
                   | Some hier' \<Rightarrow> selector_matches req sel' hier'))
           else Some False)"
  by pat_completeness auto
termination
  by (relation "measure (\<lambda>(req, sel, hier). length (hier_segments hier))")
    (simp_all add: hierarchy_consume_less)

declare selector_matches.simps [simp del]

definition selector_to_string :: "selector \<Rightarrow> string option" where
  "selector_to_string sel = map_option (join '':'') (those (map hop_to_string (hops sel)))"

section \<open>Facts: matching\<close>

text \<open>
  The reference: the same decision on the two lists, without panics and with the dead branches
  gone.  \<open>selects\<close> is what \<open>Selector::matches\<close> refines.
\<close>

fun selects :: "(version_req \<Rightarrow> version \<Rightarrow> bool) \<Rightarrow> hop list \<Rightarrow> point_kind_seg list \<Rightarrow> bool" where
  "selects req [] ss = (ss = [])"
| "selects req (h # hs) [] = False"
| "selects req (h # hs) [s] = (hop_matches req h s \<and> (hs = [] \<or> hop_inclusive h))"
| "selects req (h # hs) (s # t # ss) =
     (if \<not> is_recursive (hop_segment h) then hop_matches req h s \<and> selects req hs (t # ss)
      else (case hs of
              [] \<Rightarrow> hop_matches req h (last (t # ss)) \<and> selects req [h] (t # ss)
            | next_hop # _ \<Rightarrow>
                if hop_matches req next_hop s then selects req hs (t # ss)
                else selects req (h # hs) (t # ss)))"

lemma selector_matches_selects:
  "selector_matches req (Selector hs) \<lparr>hier_route = r, hier_segments = ss\<rparr> = Some (selects req hs ss)"
proof (induction req hs ss rule: selects.induct)
  case (1 req ss)
  show ?case
    by (auto simp: selector_matches.simps hierarchy_is_root_def selector_is_root_def)
next
  case (2 req h hs)
  show ?case
    by (auto simp: selector_matches.simps hierarchy_is_root_def selector_is_root_def)
next
  case (3 req h hs s)
  show ?case
    by (auto simp: selector_matches.simps hierarchy_is_root_def selector_is_root_def
        hierarchy_is_final_def selector_is_final_def)
next
  case (4 req h hs s t ss)
  note step = selector_matches.simps [of req "Selector (h # hs)"
      "\<lparr>hier_route = r, hier_segments = s # t # ss\<rparr>"]
  note unfold = hierarchy_is_root_def selector_is_root_def hierarchy_is_final_def
    hierarchy_consume_def selector_consume_def Let_def
  show ?case
  proof (cases "is_recursive (hop_segment h)")
    case False
    with "4.IH"(1) show ?thesis by (simp add: step unfold)
  next
    case True
    show ?thesis
    proof (cases hs)
      case Nil
      with True step "4.IH"(2) show ?thesis by (simp add: unfold)
    next
      case (Cons next_hop rest)
      with True step "4.IH"(3,4) show ?thesis by (simp add: unfold)
    qed
  qed
qed


lemma selects_without_recursion:
  "\<not> list_ex (\<lambda>h. is_recursive (hop_segment h)) hs \<Longrightarrow>
   selects req hs ss \<longleftrightarrow>
     list_all2 (hop_matches req) hs ss \<or>
     (ss \<noteq> [] \<and> length ss < length hs \<and> list_all2 (hop_matches req) (take (length ss) hs) ss
      \<and> hop_inclusive (hs ! (length ss - 1)))"
proof (induction req hs ss rule: selects.induct)
  case (3 req h hs s)
  then show ?case by (cases hs) auto
next
  case (4 req h hs s t ss)
  then show ?case by auto
qed auto

text \<open>A selector without recursive hops matches exactly the hierarchies with one segment per
  hop, each matched by its hop, and those that end early at a segment whose hop is inclusive.\<close>

theorem selector_without_recursion:
  assumes "\<not> list_ex (\<lambda>h. is_recursive (hop_segment h)) (hops sel)"
  shows "selector_matches req sel hier = Some
    (list_all2 (hop_matches req) (hops sel) (hier_segments hier) \<or>
     (let n = length (hier_segments hier)
      in 0 < n \<and> n < length (hops sel) \<and>
         list_all2 (hop_matches req) (take n (hops sel)) (hier_segments hier) \<and>
         hop_inclusive (hops sel ! (n - 1))))"
  using selects_without_recursion [OF assms, of req "hier_segments hier"]
  by (cases sel; cases hier) (simp add: Let_def selector_matches_selects)

theorem selector_without_recursion_witness:
  "selector_matches (\<lambda>_ _. False)
     (Selector [Hop True (SSExact (EPointSeg (PSSpace ''localhost''))) kind_selector_any,
                Hop False SSAny kind_selector_any])
     \<lparr>hier_route = RSThis, hier_segments = [PointKindSeg (PSSpace ''localhost'') KSpace]\<rparr> = Some True"
  by (subst selector_without_recursion)
    (simp_all add: hop_matches_def kind_selector_any_def kind_selector_matches_def)

lemma selects_last_recursive:
  "is_recursive (hop_segment h) \<Longrightarrow> ss \<noteq> [] \<Longrightarrow> selects req [h] ss \<longleftrightarrow> hop_matches req h (last ss)"
  by (induction ss rule: induct_list012) auto

lemma selects_exact_then_recursive:
  "\<not> list_ex (\<lambda>h. is_recursive (hop_segment h)) hs \<Longrightarrow> is_recursive (hop_segment r) \<Longrightarrow>
   list_all2 (hop_matches req) hs ss \<Longrightarrow> ts \<noteq> [] \<Longrightarrow>
   selects req (hs @ [r]) (ss @ ts) \<longleftrightarrow> hop_matches req r (last ts)"
proof (induction hs arbitrary: ss)
  case Nil
  then show ?case by (simp add: selects_last_recursive)
next
  case (Cons h hs)
  then obtain s ss' where ss: "ss = s # ss'" "hop_matches req h s" "list_all2 (hop_matches req) hs ss'"
    by (auto simp: list_all2_Cons1)
  from Cons.prems(4) obtain t ts' where "ss' @ ts = t # ts'" by (cases "ss' @ ts") auto
  with Cons.IH [of ss'] Cons.prems ss show ?case by simp
qed

text \<open>Hops that match the leading segments followed by one recursive hop select everything
  below, judging it by its last segment only: this is what \<open>localhost:**<Kind>\<close> relies on.\<close>

theorem trailing_recursive_selects_below:
  assumes "\<not> list_ex (\<lambda>h. is_recursive (hop_segment h)) hs" and "is_recursive (hop_segment r)"
    and "list_all2 (hop_matches req) hs ss" and "ts \<noteq> []"
  shows "selector_matches req (Selector (hs @ [r])) \<lparr>hier_route = rt, hier_segments = ss @ ts\<rparr> =
    Some (kind_selector_matches (hop_kind r) (pk_kind (last ts)))"
proof -
  have "hop_matches req r (last ts) = kind_selector_matches (hop_kind r) (pk_kind (last ts))"
    using assms(2) by (cases "hop_segment r") (simp_all add: hop_matches_def)
  with selects_exact_then_recursive [OF assms] show ?thesis
    by (simp add: selector_matches_selects)
qed

theorem trailing_recursive_selects_below_witness:
  "selector_matches (\<lambda>_ _. False)
     (Selector ([Hop False (SSExact (EPointSeg (PSSpace ''a''))) kind_selector_any] @
                [Hop False SSRecursive (kind_selector_from_base BKFile)]))
     \<lparr>hier_route = RSThis,
      hier_segments = [PointKindSeg (PSSpace ''a'') KSpace] @
                      [PointKindSeg (PSBase ''b'') KBase, PointKindSeg (PSFile ''c'') (KFile FileFile)]\<rparr>
   = Some True"
  by (subst trailing_recursive_selects_below)
    (simp_all add: hop_matches_def kind_selector_any_def kind_selector_matches_def
      kind_selector_from_base_def)

lemma selects_one_exact:
  "\<not> is_recursive (hop_segment h) \<Longrightarrow> selects req [h] ss \<longleftrightarrow> (\<exists>s. ss = [s] \<and> hop_matches req h s)"
  by (cases ss rule: remdups_adj.cases) auto

lemma selects_recursive_then_exact:
  assumes "is_recursive (hop_segment r)" and "\<not> hop_inclusive r" and "\<not> is_recursive (hop_segment h)"
  shows "selects req [r, h] ss \<longleftrightarrow>
    (\<exists>pre s t. ss = pre @ [s, t] \<and> hop_matches req h s \<and> hop_matches req h t
       \<and> \<not> list_ex (hop_matches req h) pre)"
proof (induction ss rule: induct_list012)
  case (3 s t ss)
  show ?case
  proof (cases "hop_matches req h s")
    case True
    have "(\<exists>pre s' t'. s # t # ss = pre @ [s', t'] \<and> hop_matches req h s' \<and> hop_matches req h t'
        \<and> \<not> list_ex (hop_matches req h) pre) \<longleftrightarrow> ss = [] \<and> hop_matches req h t" (is "?ex \<longleftrightarrow> _")
    proof
      assume ?ex
      then obtain pre s' t' where eq: "s # t # ss = pre @ [s', t']" and t': "hop_matches req h t'"
        and pre: "\<not> list_ex (hop_matches req h) pre" by blast
      from eq pre True have "pre = []" by (cases pre) auto
      with eq t' show "ss = [] \<and> hop_matches req h t" by simp
    qed (use True in force)
    moreover have "selects req [r, h] (s # t # ss) \<longleftrightarrow> ss = [] \<and> hop_matches req h t"
      using True assms by (auto simp: selects_one_exact)
    ultimately show ?thesis by blast
  next
    case False
    have "(\<exists>pre s' t'. s # t # ss = pre @ [s', t'] \<and> hop_matches req h s' \<and> hop_matches req h t'
        \<and> \<not> list_ex (hop_matches req h) pre)
      \<longleftrightarrow> (\<exists>pre s' t'. t # ss = pre @ [s', t'] \<and> hop_matches req h s' \<and> hop_matches req h t'
        \<and> \<not> list_ex (hop_matches req h) pre)" (is "?long \<longleftrightarrow> ?short")
    proof
      assume ?long
      then obtain pre s' t' where eq: "s # t # ss = pre @ [s', t']" and s': "hop_matches req h s'"
        and t': "hop_matches req h t'" and pre: "\<not> list_ex (hop_matches req h) pre" by blast
      from eq s' False obtain pre' where "pre = s # pre'" by (cases pre) auto
      with eq s' t' pre show ?short by auto
    next
      assume ?short
      then obtain pre s' t' where "t # ss = pre @ [s', t']" "hop_matches req h s'"
        "hop_matches req h t'" "\<not> list_ex (hop_matches req h) pre" by blast
      with False show ?long by (intro exI [of _ "s # pre"] exI [of _ s'] exI [of _ t']) simp
    qed
    with False assms 3 show ?thesis by simp
  qed
qed (use assms in auto)

text \<open>A recursive hop before one exact hop does not mean \<open>at any depth\<close>: the recursive hop is
  given up together with the segment that matched the next hop, so the exact hop must match the
  last two segments, and none before them.\<close>

theorem recursive_hop_needs_two_matches:
  assumes "is_recursive (hop_segment r)" and "\<not> hop_inclusive r" and "\<not> is_recursive (hop_segment h)"
  shows "selector_matches req (Selector [r, h]) \<lparr>hier_route = rt, hier_segments = ss\<rparr> = Some
    (\<exists>pre s t. ss = pre @ [s, t] \<and> hop_matches req h s \<and> hop_matches req h t
       \<and> \<not> list_ex (hop_matches req h) pre)"
  using selects_recursive_then_exact [OF assms] by (simp add: selector_matches_selects)

theorem recursive_hop_needs_two_matches_witness:
  "selector_matches (\<lambda>_ _. False)
     (Selector [Hop False SSRecursive kind_selector_any,
                Hop False (SSExact (EPointSeg (PSBase ''users''))) kind_selector_any])
     \<lparr>hier_route = RSThis,
      hier_segments = [PointKindSeg (PSSpace ''space.org'') KSpace,
                       PointKindSeg (PSBase ''dirs'') KBase, PointKindSeg (PSBase ''users'') KBase]\<rparr>
   = Some False"
  by (subst recursive_hop_needs_two_matches)
    (auto simp: append_eq_Cons_conv Cons_eq_append_conv hop_matches_def kind_selector_any_def
      kind_selector_matches_def)

text \<open>The example of the comment in \<open>Selector::matches\<close>: \<open>space.org:**:users\<close> does not match
  \<open>space.org:many:silly:dirs:users\<close>.\<close>

lemma documented_example_does_not_match:
  "selector_matches req
     (Selector [Hop False (SSExact (EPointSeg (PSSpace ''space.org''))) kind_selector_any,
                Hop False SSRecursive kind_selector_any,
                Hop False (SSExact (EPointSeg (PSBase ''users''))) kind_selector_any])
     \<lparr>hier_route = RSThis,
      hier_segments = [PointKindSeg (PSSpace ''space.org'') KSpace, PointKindSeg (PSBase ''many'') KBase,
        PointKindSeg (PSBase ''silly'') KBase, PointKindSeg (PSBase ''dirs'') KBase,
        PointKindSeg (PSBase ''users'') KBase]\<rparr> = Some False"
  by (simp add: selector_matches_selects hop_matches_def kind_selector_any_def kind_selector_matches_def)

section \<open>Facts: the root of a query\<close>

lemma query_root_segments_le: "length (query_root_segments hs) \<le> length hs"
  by (induction hs) (auto split: seg_selector.splits exact_point_seg.splits)

lemma remove_first_drop: "n \<le> length xs \<Longrightarrow> remove_first n xs = Some (drop n xs)"
proof (induction n arbitrary: xs)
  case (Suc n)
  then show ?case by (cases xs) auto
qed simp

lemma query_root_exact:
  "list_all2 (\<lambda>h s. seg_selector_matches req (hop_segment h) s)
     (take (length (query_root_segments hs)) hs) (query_root_segments hs)"
  by (induction hs) (auto split: seg_selector.splits exact_point_seg.splits)

text \<open>A query splits into its exact root and the hops below it: \<open>sub_select_hops\<close> never panics,
  returns the hops after the root, and each hop of the root matches the segment it contributed.\<close>

theorem query_root_split:
  "sub_select_hops sel = Some (drop (length (segments (query_root sel))) (hops sel))
   \<and> list_all2 (\<lambda>h s. seg_selector_matches req (hop_segment h) s)
       (take (length (segments (query_root sel))) (hops sel)) (segments (query_root sel))"
  by (simp add: sub_select_hops_def query_root_def remove_first_drop query_root_segments_le
      query_root_exact)

end
