(* ===== verification/Security.thy ===== *)
theory Security
  imports Selectors
begin

text \<open>
  Access control (\<open>cosmic-space/src/security.rs\<close>): permissions and their masks, privileges,
  access grants, and the access that the registry computes from the grants it stores
  (\<open>access\<close>, \<open>list_access\<close> and \<open>remove_access\<close> of \<open>cosmic-registry-postgres/src/lib.rs\<close>,
  with the tables as a record).
\<close>

section \<open>Permissions\<close>

datatype child_perms = ChildPerms (cp_create: bool) (cp_select: bool) (cp_delete: bool)
datatype particle_perms = ParticlePerms (pp_read: bool) (pp_write: bool) (pp_execute: bool)
datatype permissions = Permissions (perm_child: child_perms) (perm_particle: particle_perms)

definition child_full :: child_perms where "child_full = ChildPerms True True True"
definition child_none :: child_perms where "child_none = ChildPerms False False False"

fun child_or :: "child_perms \<Rightarrow> child_perms \<Rightarrow> child_perms" where
  "child_or (ChildPerms c s d) (ChildPerms c' s' d') = ChildPerms (c \<or> c') (s \<or> s') (d \<or> d')"

fun child_and :: "child_perms \<Rightarrow> child_perms \<Rightarrow> child_perms" where
  "child_and (ChildPerms c s d) (ChildPerms c' s' d') = ChildPerms (c \<and> c') (s \<and> s') (d \<and> d')"

definition child_to_string :: "child_perms \<Rightarrow> string" where
  "child_to_string p =
     (if cp_create p then ''C'' else ''c'') @ (if cp_select p then ''S'' else ''s'') @
     (if cp_delete p then ''D'' else ''d'')"

definition particle_full :: particle_perms where "particle_full = ParticlePerms True True True"
definition particle_none :: particle_perms where "particle_none = ParticlePerms False False False"

fun particle_or :: "particle_perms \<Rightarrow> particle_perms \<Rightarrow> particle_perms" where
  "particle_or (ParticlePerms r w x) (ParticlePerms r' w' x') = ParticlePerms (r \<or> r') (w \<or> w') (x \<or> x')"

fun particle_and :: "particle_perms \<Rightarrow> particle_perms \<Rightarrow> particle_perms" where
  "particle_and (ParticlePerms r w x) (ParticlePerms r' w' x') = ParticlePerms (r \<and> r') (w \<and> w') (x \<and> x')"

definition particle_to_string :: "particle_perms \<Rightarrow> string" where
  "particle_to_string p =
     (if pp_read p then ''R'' else ''r'') @ (if pp_write p then ''W'' else ''w'') @
     (if pp_execute p then ''X'' else ''x'')"

definition perms_full :: permissions where "perms_full = Permissions child_full particle_full"
definition perms_none :: permissions where "perms_none = Permissions child_none particle_none"

fun perms_or :: "permissions \<Rightarrow> permissions \<Rightarrow> permissions" where
  "perms_or (Permissions c p) (Permissions c' p') = Permissions (child_or c c') (particle_or p p')"

fun perms_and :: "permissions \<Rightarrow> permissions \<Rightarrow> permissions" where
  "perms_and (Permissions c p) (Permissions c' p') = Permissions (child_and c c') (particle_and p p')"

definition perms_to_string :: "permissions \<Rightarrow> string" where
  "perms_to_string p = child_to_string (perm_child p) @ ''-'' @ particle_to_string (perm_particle p)"

text \<open>The parsers \<open>child_perms\<close>, \<open>particle_perms\<close>, \<open>permissions\<close> and
  \<open>permissions_mask\<close>: one character per flag; \<open>None\<close> where the parse fails, else the value and
  the rest of the input.\<close>

fun flag :: "char \<Rightarrow> char \<Rightarrow> string \<Rightarrow> (bool \<times> string) option" where
  "flag lo up [] = None"
| "flag lo up (c # cs) = (if c = lo then Some (False, cs) else if c = up then Some (True, cs) else None)"

definition parse_child_perms :: "string \<Rightarrow> (child_perms \<times> string) option" where
  "parse_child_perms s =
     Option.bind (flag CHR ''c'' CHR ''C'' s) (\<lambda>(create, s).
     Option.bind (flag CHR ''s'' CHR ''S'' s) (\<lambda>(select, s).
     Option.bind (flag CHR ''d'' CHR ''D'' s) (\<lambda>(delete, s).
       Some (ChildPerms create select delete, s))))"

definition parse_particle_perms :: "string \<Rightarrow> (particle_perms \<times> string) option" where
  "parse_particle_perms s =
     Option.bind (flag CHR ''r'' CHR ''R'' s) (\<lambda>(read, s).
     Option.bind (flag CHR ''w'' CHR ''W'' s) (\<lambda>(write, s).
     Option.bind (flag CHR ''x'' CHR ''X'' s) (\<lambda>(execute, s).
       Some (ParticlePerms read write execute, s))))"

definition parse_permissions :: "string \<Rightarrow> (permissions \<times> string) option" where
  "parse_permissions s =
     Option.bind (parse_child_perms s) (\<lambda>(child, s).
     Option.bind (if starts_with ''-'' s then Some (tl s) else None) (\<lambda>s.
     Option.bind (parse_particle_perms s) (\<lambda>(particle, s).
       Some (Permissions child particle, s))))"

datatype mask_kind = MaskOr | MaskAnd

datatype permissions_mask = PermissionsMask (mask_kind: mask_kind) (mask_permissions: permissions)

definition mask_to_string :: "permissions_mask \<Rightarrow> string" where
  "mask_to_string m =
     (case mask_kind m of MaskOr \<Rightarrow> ''+'' | MaskAnd \<Rightarrow> ''&'') @ perms_to_string (mask_permissions m)"

definition parse_permissions_mask :: "string \<Rightarrow> (permissions_mask \<times> string) option" where
  "parse_permissions_mask s =
     Option.bind (case s of
         [] \<Rightarrow> None
       | c # cs \<Rightarrow> if c = CHR ''+'' then Some (MaskOr, cs)
                   else if c = CHR ''&'' then Some (MaskAnd, cs) else None) (\<lambda>(kind, s).
     Option.bind (parse_permissions s) (\<lambda>(perms, s). Some (PermissionsMask kind perms, s)))"

text \<open>\<open>all_consuming\<close>: the rest must be empty.\<close>

definition mask_from_str :: "space_err \<Rightarrow> string \<Rightarrow> space_err + permissions_mask" where
  "mask_from_str perr s =
     (case parse_permissions_mask s of Some (m, []) \<Rightarrow> Inr m | _ \<Rightarrow> Inl perr)"

section \<open>Privileges\<close>

datatype privilege = PrivFull | PrivSingle string

fun privilege_to_string :: "privilege \<Rightarrow> string" where
  "privilege_to_string PrivFull = ''*''"
| "privilege_to_string (PrivSingle name) = name"

text \<open>\<open>EnumeratedPrivileges\<close> is its set of names.\<close>

definition enum_privs_has :: "string set \<Rightarrow> string \<Rightarrow> check" where
  "enum_privs_has s privilege = (if privilege \<in> s then pass else refuse)"

definition enum_privs_add :: "string set \<Rightarrow> string \<Rightarrow> string set" where
  "enum_privs_add s privilege = insert privilege s"

definition enum_privs_or :: "string set \<Rightarrow> string set \<Rightarrow> string set" where
  "enum_privs_or s other = s \<union> {p \<in> other. \<not> is_ok (enum_privs_has s p)}"

definition enum_privs_and :: "string set \<Rightarrow> string set \<Rightarrow> string set" where
  "enum_privs_and s other = {p \<in> s. is_ok (enum_privs_has other p)}"

datatype privileges = PrivsFull | PrivsEnumerated "string set"

fun privs_has :: "privileges \<Rightarrow> string \<Rightarrow> check" where
  "privs_has PrivsFull p = pass"
| "privs_has (PrivsEnumerated s) p = enum_privs_has s p"

definition privs_none :: privileges where "privs_none = PrivsEnumerated {}"

fun privs_or :: "privileges \<Rightarrow> privileges \<Rightarrow> privileges" where
  "privs_or PrivsFull other = PrivsFull"
| "privs_or (PrivsEnumerated s) other =
     (case other of PrivsFull \<Rightarrow> PrivsFull | PrivsEnumerated t \<Rightarrow> PrivsEnumerated (enum_privs_or s t))"

fun privs_and :: "privileges \<Rightarrow> privileges \<Rightarrow> privileges" where
  "privs_and self PrivsFull = self"
| "privs_and self (PrivsEnumerated t) =
     (case self of PrivsFull \<Rightarrow> PrivsEnumerated t | PrivsEnumerated s \<Rightarrow> PrivsEnumerated (enum_privs_and s t))"

text \<open>\<open>privileges | privilege\<close>.\<close>

fun privs_bitor :: "privileges \<Rightarrow> privilege \<Rightarrow> privileges" where
  "privs_bitor self PrivFull = PrivsFull"
| "privs_bitor self (PrivSingle p) =
     (case self of PrivsFull \<Rightarrow> PrivsFull | PrivsEnumerated s \<Rightarrow> PrivsEnumerated (insert p s))"

section \<open>Grants and access\<close>

datatype grant_kind = GrantSuper | GrantPrivilege privilege | GrantMask permissions_mask

fun grant_kind_to_string :: "grant_kind \<Rightarrow> string" where
  "grant_kind_to_string GrantSuper = ''super''"
| "grant_kind_to_string (GrantPrivilege _) = ''priv''"
| "grant_kind_to_string (GrantMask _) = ''perm''"

record access_grant =
  grant_kind :: grant_kind
  on_point :: selector
  to_point :: selector
  by_particle :: point

datatype grant_to = GrantWorld | GrantSelector selector

fun grant_to_is_match ::
  "(version_req \<Rightarrow> version \<Rightarrow> bool) \<Rightarrow> grant_to \<Rightarrow> point_hierarchy \<Rightarrow> check option" where
  "grant_to_is_match req GrantWorld h = Some pass"
| "grant_to_is_match req (GrantSelector sel) h =
     map_option (\<lambda>b. if b then pass else refuse) (selector_matches req sel h)"

record enumerated_access =
  ea_permissions :: permissions
  ea_privileges :: privileges

definition enum_access_full :: enumerated_access where
  "enum_access_full = \<lparr>ea_permissions = perms_full, ea_privileges = PrivsFull\<rparr>"

definition enum_access_none :: enumerated_access where
  "enum_access_none = \<lparr>ea_permissions = perms_none, ea_privileges = privs_none\<rparr>"

definition enum_access_and :: "enumerated_access \<Rightarrow> enumerated_access \<Rightarrow> enumerated_access" where
  "enum_access_and self access =
     \<lparr>ea_permissions = perms_and (ea_permissions self) (ea_permissions access),
      ea_privileges = privs_and (ea_privileges self) (ea_privileges access)\<rparr>"

definition enum_access_clear_privs :: "enumerated_access \<Rightarrow> enumerated_access" where
  "enum_access_clear_privs self = self\<lparr>ea_privileges := privs_none\<rparr>"

definition enum_access_add :: "enumerated_access \<Rightarrow> access_grant \<Rightarrow> enumerated_access" where
  "enum_access_add self grant =
     (case grant_kind grant of
        GrantSuper \<Rightarrow> self
      | GrantPrivilege prv \<Rightarrow> self\<lparr>ea_privileges := privs_bitor (ea_privileges self) prv\<rparr>
      | GrantMask m \<Rightarrow>
          (case mask_kind m of
             MaskOr \<Rightarrow> self\<lparr>ea_permissions := perms_or (ea_permissions self) (mask_permissions m)\<rparr>
           | MaskAnd \<Rightarrow> self\<lparr>ea_permissions := perms_and (ea_permissions self) (mask_permissions m)\<rparr>))"

datatype access = AccSuper | AccOwner | AccSuperOwner | AccEnumerated enumerated_access

fun has_super :: "access \<Rightarrow> bool" where
  "has_super AccSuper = True"
| "has_super AccSuperOwner = True"
| "has_super _ = False"

fun has_owner :: "access \<Rightarrow> bool" where
  "has_owner AccOwner = True"
| "has_owner AccSuperOwner = True"
| "has_owner _ = False"

fun has_full :: "access \<Rightarrow> bool" where
  "has_full AccSuper = True"
| "has_full AccOwner = True"
| "has_full AccSuperOwner = True"
| "has_full (AccEnumerated _) = False"

definition access_none :: access where "access_none = AccEnumerated enum_access_none"

fun access_permissions :: "access \<Rightarrow> permissions" where
  "access_permissions AccSuper = perms_full"
| "access_permissions AccOwner = perms_full"
| "access_permissions AccSuperOwner = perms_full"
| "access_permissions (AccEnumerated e) = ea_permissions e"

fun check_privilege :: "access \<Rightarrow> string \<Rightarrow> space_err + unit" where
  "check_privilege AccSuper p = Inr ()"
| "check_privilege AccOwner p = Inr ()"
| "check_privilege AccSuperOwner p = Inr ()"
| "check_privilege (AccEnumerated e) p =
     (if is_ok (privs_has (ea_privileges e) p) then Inr () else Inl (err_of_string (quoted p)))"

text \<open>\<open>IndexedAccessGrant\<close> and its \<open>cmp\<close>.\<close>

datatype indexed_grant = IndexedGrant (grant_id: "32 word") (indexed_access_grant: access_grant)

datatype ordering = OrdLess | OrdEqual | OrdGreater

definition indexed_grant_cmp :: "indexed_grant \<Rightarrow> indexed_grant \<Rightarrow> ordering" where
  "indexed_grant_cmp self other =
     (if grant_id self <s grant_id other then OrdGreater
      else if grant_id self <s grant_id other then OrdLess
      else OrdEqual)"

definition indexed_grant_eq :: "indexed_grant \<Rightarrow> indexed_grant \<Rightarrow> bool" where
  "indexed_grant_eq self other \<longleftrightarrow> grant_id self = grant_id other"

section \<open>Facts: permissions are bounded lattices\<close>

text \<open>
  What every block of permissions promises: \<open>por\<close> and \<open>pand\<close> with \<open>none\<close> and \<open>full\<close> form
  a bounded distributive lattice, so masks may be applied in any order and any number of times.
\<close>

locale perm_block =
  fixes full none :: 'p and por pand :: "'p \<Rightarrow> 'p \<Rightarrow> 'p"
  assumes pand_full: "pand a full = a" and por_none: "por a none = a"
    and pand_commute: "pand a b = pand b a" and por_commute: "por a b = por b a"
    and pand_assoc: "pand (pand a b) c = pand a (pand b c)"
    and por_assoc: "por (por a b) c = por a (por b c)"
    and pand_idem: "pand a a = a"
    and absorb: "pand a (por a b) = a" "por a (pand a b) = a"
    and distrib: "pand a (por b c) = por (pand a b) (pand a c)"
begin

definition grants_at_most :: "'p \<Rightarrow> 'p \<Rightarrow> bool" where
  "grants_at_most a b \<longleftrightarrow> pand a b = a"

lemma at_most_refl: "grants_at_most a a"
  by (simp add: grants_at_most_def pand_idem)

lemma at_most_trans: "grants_at_most a b \<Longrightarrow> grants_at_most b c \<Longrightarrow> grants_at_most a c"
  unfolding grants_at_most_def by (metis pand_assoc)

lemma at_most_antisym: "grants_at_most a b \<Longrightarrow> grants_at_most b a \<Longrightarrow> a = b"
  unfolding grants_at_most_def by (metis pand_commute)

lemma none_at_most: "grants_at_most none a"
  unfolding grants_at_most_def by (metis absorb(1) por_commute por_none)

lemma at_most_full: "grants_at_most a full"
  by (simp add: grants_at_most_def pand_full)

lemma pand_at_most_left: "grants_at_most (pand a b) a"
  unfolding grants_at_most_def by (metis pand_assoc pand_commute pand_idem)

lemma pand_at_most_right: "grants_at_most (pand a b) b"
  unfolding grants_at_most_def by (simp add: pand_assoc pand_idem)

lemma pand_greatest: "grants_at_most c a \<Longrightarrow> grants_at_most c b \<Longrightarrow> grants_at_most c (pand a b)"
  unfolding grants_at_most_def by (metis pand_assoc)

lemma por_at_least: "grants_at_most a (por a b)"
  by (simp add: grants_at_most_def absorb)

lemma por_least: "grants_at_most a c \<Longrightarrow> grants_at_most b c \<Longrightarrow> grants_at_most (por a b) c"
  unfolding grants_at_most_def by (metis distrib pand_commute)

text \<open>A list of restrictions: the result is below the start and below every mask.\<close>

definition restrict :: "'p \<Rightarrow> 'p list \<Rightarrow> 'p" where
  "restrict a ms = foldl pand a ms"

lemma restrict_at_most_start: "grants_at_most (restrict a ms) a"
  unfolding restrict_def
proof (induction ms arbitrary: a)
  case Nil
  show ?case by (simp add: at_most_refl)
next
  case (Cons m ms)
  from Cons [of "pand a m"] pand_at_most_left [of a m] show ?case
    by (auto intro: at_most_trans)
qed

lemma restrict_at_most_mask: "m \<in> set ms \<Longrightarrow> grants_at_most (restrict a ms) m"
proof (induction ms arbitrary: a)
  case (Cons m' ms)
  show ?case
  proof (cases "m = m'")
    case True
    have "grants_at_most (restrict (pand a m') ms) (pand a m')" by (rule restrict_at_most_start)
    with True show ?thesis
      using pand_at_most_right [of a m'] by (auto simp: restrict_def intro: at_most_trans)
  next
    case False
    with Cons show ?thesis by (simp add: restrict_def)
  qed
qed simp

end

interpretation child_block: perm_block child_full child_none child_or child_and
proof
  fix a b c :: child_perms
  show "child_and a child_full = a" "child_or a child_none = a"
    by (cases a; simp add: child_full_def child_none_def)+
  show "child_and a b = child_and b a" "child_or a b = child_or b a"
    "child_and a (child_or a b) = a" "child_or a (child_and a b) = a" "child_and a a = a"
    by (cases a; cases b; auto)+
  show "child_and (child_and a b) c = child_and a (child_and b c)"
    "child_or (child_or a b) c = child_or a (child_or b c)"
    "child_and a (child_or b c) = child_or (child_and a b) (child_and a c)"
    by (cases a; cases b; cases c; auto)+
qed

interpretation particle_block: perm_block particle_full particle_none particle_or particle_and
proof
  fix a b c :: particle_perms
  show "particle_and a particle_full = a" "particle_or a particle_none = a"
    by (cases a; simp add: particle_full_def particle_none_def)+
  show "particle_and a b = particle_and b a" "particle_or a b = particle_or b a"
    "particle_and a (particle_or a b) = a" "particle_or a (particle_and a b) = a"
    "particle_and a a = a"
    by (cases a; cases b; auto)+
  show "particle_and (particle_and a b) c = particle_and a (particle_and b c)"
    "particle_or (particle_or a b) c = particle_or a (particle_or b c)"
    "particle_and a (particle_or b c) = particle_or (particle_and a b) (particle_and a c)"
    by (cases a; cases b; cases c; auto)+
qed

interpretation perms_block: perm_block perms_full perms_none perms_or perms_and
proof
  fix a b c :: permissions
  note child_laws = child_block.pand_full child_block.por_none child_block.absorb
    child_block.pand_idem child_block.pand_assoc child_block.por_assoc child_block.distrib
  note particle_laws = particle_block.pand_full particle_block.por_none particle_block.absorb
    particle_block.pand_idem particle_block.pand_assoc particle_block.por_assoc particle_block.distrib
  show "perms_and a perms_full = a" "perms_or a perms_none = a" "perms_and a a = a"
    by (cases a; simp add: perms_full_def perms_none_def child_laws particle_laws)+
  show "perms_and a b = perms_and b a" "perms_or a b = perms_or b a"
    using child_block.pand_commute child_block.por_commute particle_block.pand_commute
      particle_block.por_commute
    by (cases a; cases b; simp)+
  show "perms_and a (perms_or a b) = a" "perms_or a (perms_and a b) = a"
    by (cases a; cases b; simp add: child_laws particle_laws)+
  show "perms_and (perms_and a b) c = perms_and a (perms_and b c)"
    "perms_or (perms_or a b) c = perms_or a (perms_or b c)"
    "perms_and a (perms_or b c) = perms_or (perms_and a b) (perms_and a c)"
    by (cases a; cases b; cases c; simp add: child_laws particle_laws)+
qed

section \<open>Facts: masks and privileges\<close>

lemma parse_child_perms_print: "parse_child_perms (child_to_string p @ s) = Some (p, s)"
  by (cases p) (simp add: parse_child_perms_def child_to_string_def)

lemma parse_particle_perms_print: "parse_particle_perms (particle_to_string p @ s) = Some (p, s)"
  by (cases p) (simp add: parse_particle_perms_def particle_to_string_def)

lemma parse_permissions_print: "parse_permissions (perms_to_string p @ s) = Some (p, s)"
  by (cases p) (simp add: parse_permissions_def perms_to_string_def parse_child_perms_print
      parse_particle_perms_print starts_with_def)

text \<open>A permission mask survives its text: parsing what \<open>to_string\<close> prints gives the mask
  back, for each of the 128 masks (this is how the registry stores the masks of its grants).\<close>

theorem mask_roundtrip: "mask_from_str perr (mask_to_string m) = Inr m"
  using parse_permissions_print [of "mask_permissions m" "[]"]
  by (cases m) (simp add: mask_from_str_def parse_permissions_mask_def mask_to_string_def split: mask_kind.split)

lemma privs_has_or: "privs_has (privs_or a b) p = pass \<longleftrightarrow> privs_has a p = pass \<or> privs_has b p = pass"
  by (cases a; cases b) (auto simp: enum_privs_has_def enum_privs_or_def)

lemma privs_has_and: "privs_has (privs_and a b) p = pass \<longleftrightarrow> privs_has a p = pass \<and> privs_has b p = pass"
  by (cases a; cases b) (auto simp: enum_privs_has_def enum_privs_and_def)

lemma privs_has_bitor:
  "privs_has (privs_bitor a q) p = pass \<longleftrightarrow> privs_has a p = pass \<or> q = PrivFull \<or> q = PrivSingle p"
  by (cases a; cases q) (auto simp: enum_privs_has_def)

text \<open>Intersecting an access with another one grants exactly the privileges both have and at
  most the permissions of each: \<open>EnumeratedAccess::and\<close> never widens an access.\<close>

theorem enum_access_and_restricts:
  "perms_and (ea_permissions (enum_access_and a b)) (ea_permissions a) = ea_permissions (enum_access_and a b)
   \<and> perms_and (ea_permissions (enum_access_and a b)) (ea_permissions b) = ea_permissions (enum_access_and a b)
   \<and> (privs_has (ea_privileges (enum_access_and a b)) p = pass \<longleftrightarrow>
      privs_has (ea_privileges a) p = pass \<and> privs_has (ea_privileges b) p = pass)"
  using perms_block.pand_at_most_left perms_block.pand_at_most_right
  by (simp add: enum_access_and_def privs_has_and perms_block.grants_at_most_def)

text \<open>The order of indexed grants is broken: \<open>cmp\<close> never answers \<open>Less\<close>, so swapping two
  grants with different ids turns \<open>Greater\<close> into \<open>Equal\<close>, for grants that are not equal.\<close>

theorem indexed_grant_cmp_never_less:
  "indexed_grant_cmp a b \<noteq> OrdLess
   \<and> (indexed_grant_cmp a b = OrdGreater) = (grant_id a <s grant_id b)
   \<and> (indexed_grant_cmp a b = OrdEqual \<and> \<not> indexed_grant_eq a b) = (grant_id b <s grant_id a)"
proof -
  have "a \<noteq> b \<longleftrightarrow> a <s b \<or> b <s a" for a b :: "32 word"
    by (metis linorder_neqE signed.less_le word_sless_alt sint_sbintrunc' signed.neq_iff)
  then show ?thesis
    by (auto simp: indexed_grant_cmp_def indexed_grant_eq_def word_sless_alt)
qed

end
