(* ===== verification/Access.thy ===== *)
theory Access
  imports Security
begin

text \<open>
  The access a particle has on another one, as the registry computes it from the stored grants
  (\<open>access\<close>, \<open>remove_access\<close> of \<open>cosmic-registry-postgres/src/lib.rs\<close>).  The two
  tables are the state; the SQL comparisons are on the texts of points, as in the queries.
  \<open>access\<close> calls itself on the giver of each grant, without a bound: \<open>access_within n\<close>
  allows \<open>n\<close> nested calls and is \<open>None\<close> when that is not enough.
\<close>

section \<open>The tables\<close>

text \<open>\<open>particles(point, owner)\<close> and \<open>access_grants\<close> joined with the giver's point; the query
  for a point's hierarchy is a function that may fail.\<close>

record access_db =
  db_owners :: "(string \<times> string) list"
  db_grants :: "indexed_grant list"
  db_hierarchy :: "point \<Rightarrow> space_err + point_hierarchy"

definition owns :: "access_db \<Rightarrow> point \<Rightarrow> point \<Rightarrow> bool" where
  "owns db to on \<longleftrightarrow> (point_to_string on, point_to_string to) \<in> set (db_owners db)"

text \<open>The grants of one level: those whose query root is the point of the level, kept when both
  selectors match.  (\<open>selector_matches\<close> never panics, see \<open>selector_matches_refines\<close>.)\<close>

definition level_grants ::
  "(version_req \<Rightarrow> version \<Rightarrow> bool) \<Rightarrow> access_db \<Rightarrow> point_hierarchy \<Rightarrow> point_hierarchy \<Rightarrow> point
   \<Rightarrow> access_grant list" where
  "level_grants req db to_path on_path traversal =
     filter (\<lambda>g. selector_matches req (to_point g) to_path = Some True
               \<and> selector_matches req (on_point g) on_path = Some True)
       (map indexed_access_grant
         (filter (\<lambda>g. point_to_string (query_root (on_point (indexed_access_grant g))) = point_to_string traversal)
           (db_grants db)))"

text \<open>The points visited by \<open>traversal\<close>: the point itself, then each of its ancestors.\<close>

function traversal_levels :: "point \<Rightarrow> point list" where
  "traversal_levels traversal =
     traversal # (if is_root traversal then [] else traversal_levels (point_pop traversal))"
  by pat_completeness auto
termination
  by (relation "measure (\<lambda>p. length (segments p))") (auto simp: is_root_def point_pop_def)

declare traversal_levels.simps [simp del]

section \<open>The computation\<close>

text \<open>The loop over the grants of a level: \<open>rec\<close> is the recursive call for the giver.  The result
  is an error, an early return, or the privileges and permissions so far.\<close>

type_synonym level_result = "(space_err + (access + (privileges \<times> permissions))) option"

fun grant_loop ::
  "(point \<Rightarrow> (space_err + access) option) \<Rightarrow> bool \<Rightarrow> privileges \<Rightarrow> permissions \<Rightarrow> access_grant list
   \<Rightarrow> level_result" where
  "grant_loop rec owner prv perms [] = Some (Inr (Inr (prv, perms)))"
| "grant_loop rec owner prv perms (g # gs) =
     (case rec (by_particle g) of
        None \<Rightarrow> None
      | Some (Inl e) \<Rightarrow> Some (Inl e)
      | Some (Inr by_access) \<Rightarrow>
          (case grant_kind g of
             GrantSuper \<Rightarrow>
               if has_super by_access then
                 Some (Inr (Inl (if owner then AccSuperOwner else AccSuper)))
               else grant_loop rec owner prv perms gs
           | GrantPrivilege privilege \<Rightarrow>
               grant_loop rec owner
                 (if has_full by_access then privs_bitor prv privilege else prv) perms gs
           | GrantMask m \<Rightarrow>
               grant_loop rec owner prv
                 (if has_full by_access then
                    (case mask_kind m of MaskOr \<Rightarrow> perms_or perms (mask_permissions m) | MaskAnd \<Rightarrow> perms)
                  else perms) gs))"

text \<open>The \<open>And\<close> masks among the grants of a level.\<close>

fun and_masks :: "access_grant list \<Rightarrow> permissions list" where
  "and_masks [] = []"
| "and_masks (g # gs) =
     (case grant_kind g of
        GrantMask m \<Rightarrow> (case mask_kind m of MaskAnd \<Rightarrow> mask_permissions m # and_masks gs
                                           | MaskOr \<Rightarrow> and_masks gs)
      | _ \<Rightarrow> and_masks gs)"

text \<open>The outer loop, with the masks of the levels saved for later.\<close>

fun level_loop ::
  "(point \<Rightarrow> (space_err + access) option) \<Rightarrow> bool \<Rightarrow> (point \<Rightarrow> access_grant list)
   \<Rightarrow> privileges \<Rightarrow> permissions \<Rightarrow> permissions list list \<Rightarrow> point list
   \<Rightarrow> (space_err + (access + (privileges \<times> permissions \<times> permissions list list))) option" where
  "level_loop rec owner grants prv perms level_ands [] = Some (Inr (Inr (prv, perms, level_ands)))"
| "level_loop rec owner grants prv perms level_ands (level # levels) =
     (case grant_loop rec owner prv perms (grants level) of
        None \<Rightarrow> None
      | Some (Inl e) \<Rightarrow> Some (Inl e)
      | Some (Inr (Inl access)) \<Rightarrow> Some (Inr (Inl access))
      | Some (Inr (Inr (prv', perms'))) \<Rightarrow>
          level_loop rec owner grants prv' perms' (level_ands @ [and_masks (grants level)]) levels)"

text \<open>One call, with \<open>rec\<close> for the calls it makes; after the loops an owner gets \<open>Owner\<close>, any
  other particle what it collected, restricted by the masks of every level.\<close>

definition access_call ::
  "(point \<Rightarrow> (space_err + access) option) \<Rightarrow> (version_req \<Rightarrow> version \<Rightarrow> bool) \<Rightarrow> access_db
   \<Rightarrow> point \<Rightarrow> point \<Rightarrow> (space_err + access) option" where
  "access_call rec req db to on =
     (if to = hyperuser then
        Some (Inr (if owns db to on then AccSuper else AccSuperOwner))
      else if to = on \<and> owns db to on then Some (Inr AccOwner)
      else
        (case db_hierarchy db to of
           Inl e \<Rightarrow> Some (Inl e)
         | Inr to_path \<Rightarrow>
             (case db_hierarchy db on of
                Inl e \<Rightarrow> Some (Inl e)
              | Inr on_path \<Rightarrow>
                  (case level_loop rec (owns db to on) (level_grants req db to_path on_path)
                          privs_none perms_none [] (traversal_levels on) of
                     None \<Rightarrow> None
                   | Some (Inl e) \<Rightarrow> Some (Inl e)
                   | Some (Inr (Inl access)) \<Rightarrow> Some (Inr access)
                   | Some (Inr (Inr (prv, perms, level_ands))) \<Rightarrow>
                       if owns db to on then Some (Inr AccOwner)
                       else Some (Inr (AccEnumerated
                         \<lparr>ea_permissions = foldl perms_and perms (concat (rev level_ands)),
                          ea_privileges = prv\<rparr>))))))"

fun access_within ::
  "nat \<Rightarrow> (version_req \<Rightarrow> version \<Rightarrow> bool) \<Rightarrow> access_db \<Rightarrow> point \<Rightarrow> point \<Rightarrow> (space_err + access) option"
where
  "access_within 0 req db to on = None"
| "access_within (Suc n) req db to on =
     access_call (\<lambda>by_point. access_within n req db by_point on) req db to on"

text \<open>\<open>remove_access\<close>: only who has full access on the giver of a grant may delete it.\<close>

definition remove_access ::
  "nat \<Rightarrow> (version_req \<Rightarrow> version \<Rightarrow> bool) \<Rightarrow> space_err \<Rightarrow> access_db \<Rightarrow> 32 word \<Rightarrow> point
   \<Rightarrow> (space_err + access_db) option" where
  "remove_access n req missing db gid to =
     (case List.find (\<lambda>g. grant_id g = gid) (db_grants db) of
        None \<Rightarrow> Some (Inl missing)
      | Some g \<Rightarrow>
          (case access_within n req db to (by_particle (indexed_access_grant g)) of
             None \<Rightarrow> None
           | Some (Inl e) \<Rightarrow> Some (Inl e)
           | Some (Inr access) \<Rightarrow>
               if has_full access then
                 Some (Inr (db\<lparr>db_grants := filter (\<lambda>g. grant_id g \<noteq> gid) (db_grants db)\<rparr>))
               else Some (Inl (err_of_string
                 (quoted (point_to_string to) @ '' could not revoked grant '' @
                  int_to_string (sint gid) @
                  '' because it does not have full access (super or owner) on '' @
                  point_to_string (by_particle (indexed_access_grant g)))))))"

section \<open>Facts\<close>

lemma grant_loop_mono:
  assumes "\<And>p r. rec p = Some r \<Longrightarrow> rec' p = Some r"
  shows "grant_loop rec owner prv perms gs = Some r \<Longrightarrow> grant_loop rec' owner prv perms gs = Some r"
proof (induction gs arbitrary: prv perms)
  case (Cons g gs)
  show ?case
  proof (cases "rec (by_particle g)")
    case None
    with Cons.prems show ?thesis by simp
  next
    case (Some q)
    with assms have "rec' (by_particle g) = Some q" by blast
    with Some Cons show ?thesis
      by (auto split: sum.splits grant_kind.splits if_splits)
  qed
qed simp

lemma level_loop_mono:
  assumes "\<And>p r. rec p = Some r \<Longrightarrow> rec' p = Some r"
  shows "level_loop rec owner grants prv perms ands levels = Some r \<Longrightarrow>
    level_loop rec' owner grants prv perms ands levels = Some r"
proof (induction levels arbitrary: prv perms ands)
  case (Cons l levels)
  show ?case
  proof (cases "grant_loop rec owner prv perms (grants l)")
    case None
    with Cons.prems show ?thesis by simp
  next
    case (Some q)
    with grant_loop_mono [of rec rec', OF assms] have "grant_loop rec' owner prv perms (grants l) = Some q"
      by blast
    with Some Cons show ?thesis by (auto split: sum.splits)
  qed
qed simp

lemma access_call_mono:
  assumes "\<And>p r. rec p = Some r \<Longrightarrow> rec' p = Some r" and "access_call rec req db to on = Some r"
  shows "access_call rec' req db to on = Some r"
proof -
  have step: "level_loop rec' ow gr pv pm an ls = Some q" if "level_loop rec ow gr pv pm an ls = Some q"
    for ow gr pv pm an ls q using level_loop_mono [of rec rec', OF assms(1)] that by blast
  show ?thesis
  proof (cases "db_hierarchy db to")
    case (Inr tp)
    note tp = Inr
    show ?thesis
    proof (cases "db_hierarchy db on")
      case (Inr op)
      show ?thesis
      proof (cases "level_loop rec (owns db to on) (level_grants req db tp op) privs_none perms_none []
            (traversal_levels on)")
        case None
        with assms(2) tp Inr show ?thesis by (auto simp: access_call_def split: if_split_asm)
      next
        case (Some q)
        have "access_call rec' req db to on = access_call rec req db to on"
          unfolding access_call_def tp Inr sum.case Some step [OF Some] by (rule refl)
        with assms(2) show ?thesis by simp
      qed
    next
      case (Inl e)
      have "access_call rec' req db to on = access_call rec req db to on"
        unfolding access_call_def tp Inl sum.case by (rule refl)
      with assms(2) show ?thesis by simp
    qed
  next
    case (Inl e)
    have "access_call rec' req db to on = access_call rec req db to on"
      unfolding access_call_def Inl sum.case by (rule refl)
    with assms(2) show ?thesis by simp
  qed
qed

text \<open>More nested calls never change an answer.\<close>

lemma access_within_Suc: "access_within n req db to on = Some r \<Longrightarrow> access_within (Suc n) req db to on = Some r"
proof (induction n arbitrary: to r)
  case (Suc n)
  have "access_call (\<lambda>by_point. access_within (Suc n) req db by_point on) req db to on = Some r"
    by (rule access_call_mono [of "\<lambda>by_point. access_within n req db by_point on"])
      (use Suc in auto)
  then show ?case by simp
qed simp

lemma access_within_mono:
  "access_within n req db to on = Some r \<Longrightarrow> n \<le> m \<Longrightarrow> access_within m req db to on = Some r"
  by (induction m) (auto simp del: access_within.simps simp: le_Suc_eq intro: access_within_Suc)

text \<open>A grant that counts for \<open>to\<close> on \<open>on\<close>: it is met on the way from \<open>on\<close> to the root and both
  its selectors match.\<close>

definition applicable ::
  "(version_req \<Rightarrow> version \<Rightarrow> bool) \<Rightarrow> access_db \<Rightarrow> point \<Rightarrow> point \<Rightarrow> access_grant \<Rightarrow> bool" where
  "applicable req db to on g \<longleftrightarrow>
     (case db_hierarchy db to of Inl _ \<Rightarrow> False | Inr tp \<Rightarrow>
     (case db_hierarchy db on of Inl _ \<Rightarrow> False | Inr op \<Rightarrow>
       list_ex (\<lambda>level. g \<in> set (level_grants req db tp op level)) (traversal_levels on)))"

lemma grant_loop_super:
  "grant_loop rec ow prv perms gs = Some (Inr (Inl a)) \<Longrightarrow>
   has_super a \<and> (\<exists>g \<in> set gs. grant_kind g = GrantSuper \<and> (\<exists>b. rec (by_particle g) = Some (Inr b) \<and> has_super b))"
proof (induction gs arbitrary: prv perms)
  case (Cons g gs)
  then show ?case
    by (auto split: option.split_asm sum.split_asm grant_kind.split_asm if_split_asm)
qed simp

lemma grant_loop_privs:
  "grant_loop rec ow prv perms gs = Some (Inr (Inr (prv', perms'))) \<Longrightarrow> privs_has prv' p = pass \<Longrightarrow>
   privs_has prv p = pass \<or>
   (\<exists>g \<in> set gs. \<exists>q b. grant_kind g = GrantPrivilege q \<and> (q = PrivFull \<or> q = PrivSingle p)
      \<and> rec (by_particle g) = Some (Inr b) \<and> has_full b)"
proof (induction gs arbitrary: prv perms)
  case (Cons g gs)
  obtain b where b: "rec (by_particle g) = Some (Inr b)"
    using Cons.prems(1) by (auto split: option.split_asm sum.split_asm)
  show ?case
  proof (cases "grant_kind g")
    case (GrantPrivilege q)
    with b Cons.prems have
      run: "grant_loop rec ow (if has_full b then privs_bitor prv q else prv) perms gs = Some (Inr (Inr (prv', perms')))"
      by simp
    from Cons.IH [OF run Cons.prems(2)] b GrantPrivilege show ?thesis
      by (auto simp: privs_has_bitor split: if_split_asm)
  qed (use Cons b in \<open>auto split: if_split_asm\<close>)
qed simp

lemma level_loop_super:
  "level_loop rec ow grants prv perms ands ls = Some (Inr (Inl a)) \<Longrightarrow>
   has_super a \<and> (\<exists>l \<in> set ls. \<exists>g \<in> set (grants l). grant_kind g = GrantSuper \<and>
     (\<exists>b. rec (by_particle g) = Some (Inr b) \<and> has_super b))"
proof (induction ls arbitrary: prv perms ands)
  case (Cons l ls)
  then show ?case
    by (auto split: option.split_asm sum.split_asm prod.split_asm dest: grant_loop_super)
qed simp

lemma level_loop_collects:
  "level_loop rec ow grants prv perms ands ls = Some (Inr (Inr (prv', perms', ands'))) \<Longrightarrow>
   ands' = ands @ map (\<lambda>l. and_masks (grants l)) ls \<and>
   (privs_has prv' p = pass \<longrightarrow> privs_has prv p = pass \<or>
    (\<exists>l \<in> set ls. \<exists>g \<in> set (grants l). \<exists>q b. grant_kind g = GrantPrivilege q
      \<and> (q = PrivFull \<or> q = PrivSingle p) \<and> rec (by_particle g) = Some (Inr b) \<and> has_full b))"
proof (induction ls arbitrary: prv perms ands)
  case (Cons l ls)
  from Cons.prems obtain prv1 perms1 where
    one: "grant_loop rec ow prv perms (grants l) = Some (Inr (Inr (prv1, perms1)))"
    and rest: "level_loop rec ow grants prv1 perms1 (ands @ [and_masks (grants l)]) ls = Some (Inr (Inr (prv', perms', ands')))"
    by (auto split: option.split_asm sum.split_asm prod.split_asm)
  from Cons.IH [OF rest] grant_loop_privs [OF one] show ?case by fastforce
qed simp

lemma and_masks_iff:
  "m \<in> set (and_masks gs) \<longleftrightarrow> (\<exists>g \<in> set gs. grant_kind g = GrantMask (PermissionsMask MaskAnd m))"
proof (induction gs)
  case (Cons g gs)
  show ?case
  proof (cases "grant_kind g")
    case (GrantMask k)
    with Cons show ?thesis by (cases k) (auto split: mask_kind.split)
  qed (use Cons in auto)
qed simp

lemma access_callE:
  assumes "access_call rec req db to on = Some (Inr a)"
  obtains (hyper) "to = hyperuser" "a = (if owns db to on then AccSuper else AccSuperOwner)"
    | (self) "to \<noteq> hyperuser" "owns db to on" "a = AccOwner"
    | (early) tp op where "to \<noteq> hyperuser" "db_hierarchy db to = Inr tp" "db_hierarchy db on = Inr op"
        "level_loop rec (owns db to on) (level_grants req db tp op) privs_none perms_none []
           (traversal_levels on) = Some (Inr (Inl a))"
    | (collected) tp op prv perms ands where "to \<noteq> hyperuser" "\<not> owns db to on"
        "db_hierarchy db to = Inr tp" "db_hierarchy db on = Inr op"
        "level_loop rec (owns db to on) (level_grants req db tp op) privs_none perms_none []
           (traversal_levels on) = Some (Inr (Inr (prv, perms, ands)))"
        "a = AccEnumerated \<lparr>ea_permissions = foldl perms_and perms (concat (rev ands)), ea_privileges = prv\<rparr>"
  using assms
  by (auto simp: access_call_def split: if_split_asm option.split_asm sum.split_asm prod.split_asm)

lemma privs_none_has: "privs_has privs_none p \<noteq> pass"
  by (simp add: privs_none_def enum_privs_has_def)

lemma applicableI:
  "db_hierarchy db to = Inr tp \<Longrightarrow> db_hierarchy db on = Inr op \<Longrightarrow> l \<in> set (traversal_levels on) \<Longrightarrow>
   g \<in> set (level_grants req db tp op l) \<Longrightarrow> applicable req db to on g"
  by (auto simp: applicable_def list_ex_iff)

lemma applicable_iff:
  "db_hierarchy db to = Inr tp \<Longrightarrow> db_hierarchy db on = Inr op \<Longrightarrow>
   applicable req db to on g \<longleftrightarrow> (\<exists>l \<in> set (traversal_levels on). g \<in> set (level_grants req db tp op l))"
  by (auto simp: applicable_def list_ex_iff)

text \<open>C1. No particle other than the hyperuser and the owner gets full access unless an applicable
  \<open>super\<close> grant was given by a particle that itself has super access on the target: full access is
  only ever handed on by those who have it.\<close>

theorem full_access_is_handed_on:
  assumes "access_within (Suc n) req db to on = Some (Inr a)" and "has_full a"
    and "to \<noteq> hyperuser" and "\<not> owns db to on"
  shows "\<exists>g b. applicable req db to on g \<and> grant_kind g = GrantSuper
    \<and> access_within n req db (by_particle g) on = Some (Inr b) \<and> has_super b"
proof -
  from assms(1) have call: "access_call (\<lambda>by_point. access_within n req db by_point on) req db to on = Some (Inr a)"
    by simp
  then show ?thesis
  proof (cases rule: access_callE)
    case (early tp op)
    from level_loop_super [OF early(4)] obtain l g b where "l \<in> set (traversal_levels on)"
      "g \<in> set (level_grants req db tp op l)" "grant_kind g = GrantSuper"
      "access_within n req db (by_particle g) on = Some (Inr b)" "has_super b" by blast
    with early show ?thesis by (blast intro: applicableI)
  qed (use assms in auto)
qed

text \<open>C2. An enumerated access holds a privilege only if an applicable grant of it (or of all
  privileges) came from a particle with full access on the target, and it stays within every
  applicable \<open>And\<close> mask, at whatever level the mask was granted.\<close>

theorem enumerated_access_is_granted:
  assumes "access_within (Suc n) req db to on = Some (Inr (AccEnumerated e))"
  shows "(privs_has (ea_privileges e) p = pass \<longrightarrow>
      (\<exists>g b. applicable req db to on g \<and>
         (grant_kind g = GrantPrivilege PrivFull \<or> grant_kind g = GrantPrivilege (PrivSingle p)) \<and>
         access_within n req db (by_particle g) on = Some (Inr b) \<and> has_full b))
    \<and> (applicable req db to on g' \<and> grant_kind g' = GrantMask (PermissionsMask MaskAnd m) \<longrightarrow>
       perms_and (ea_permissions e) m = ea_permissions e)"
proof -
  from assms have call:
    "access_call (\<lambda>by_point. access_within n req db by_point on) req db to on = Some (Inr (AccEnumerated e))"
    by simp
  then show ?thesis
  proof (cases rule: access_callE)
    case (early tp op)
    from level_loop_super [OF early(4)] show ?thesis by simp
  next
    case (collected tp op prv perms ands)
    note loop = level_loop_collects [OF collected(5), of p]
    have privs: "\<exists>g b. applicable req db to on g \<and>
         (grant_kind g = GrantPrivilege PrivFull \<or> grant_kind g = GrantPrivilege (PrivSingle p)) \<and>
         access_within n req db (by_particle g) on = Some (Inr b) \<and> has_full b"
      if "privs_has (ea_privileges e) p = pass"
    proof -
      from that collected(6) loop privs_none_has [of p] obtain l g q b where
        "l \<in> set (traversal_levels on)" "g \<in> set (level_grants req db tp op l)"
        "grant_kind g = GrantPrivilege q" "q = PrivFull \<or> q = PrivSingle p"
        "access_within n req db (by_particle g) on = Some (Inr b)" "has_full b" by auto
      with applicableI [OF collected(3,4)] show ?thesis by blast
    qed
    have masks: "perms_and (ea_permissions e) m = ea_permissions e"
      if "applicable req db to on g'" "grant_kind g' = GrantMask (PermissionsMask MaskAnd m)"
    proof -
      from that(1) obtain l where "l \<in> set (traversal_levels on)" "g' \<in> set (level_grants req db tp op l)"
        by (auto simp: applicable_iff [OF collected(3,4)])
      with that(2) have "m \<in> set (concat (rev ands))"
        using loop by (auto simp: and_masks_iff)
      then show ?thesis
        using perms_block.restrict_at_most_mask [of m "concat (rev ands)" perms] collected(6)
        by (simp add: perms_block.restrict_def perms_block.grants_at_most_def)
    qed
    from privs masks show ?thesis by blast
  qed (use assms in \<open>auto split: if_split_asm\<close>)
qed

lemma owner_has_full: "access_within n req db to on = Some (Inr a) \<Longrightarrow> owns db to on \<Longrightarrow> has_full a"
proof (cases n)
  case (Suc k)
  assume "access_within n req db to on = Some (Inr a)" and "owns db to on"
  with Suc have "access_call (\<lambda>by_point. access_within k req db by_point on) req db to on = Some (Inr a)"
    by simp
  then show ?thesis
  proof (cases rule: access_callE)
    case (early tp op)
    from level_loop_super [OF early(4)] show ?thesis by (cases a) auto
  qed (use \<open>owns db to on\<close> in auto)
qed simp

section \<open>Facts: when the computation ends\<close>

lemma grant_loop_returns:
  "(\<And>g. g \<in> set gs \<Longrightarrow> rec (by_particle g) \<noteq> None) \<Longrightarrow> grant_loop rec ow prv perms gs \<noteq> None"
proof (induction gs arbitrary: prv perms)
  case (Cons g gs)
  obtain r where r: "rec (by_particle g) = Some r" using Cons.prems [of g] by auto
  have IH: "grant_loop rec ow pv pm gs \<noteq> None" for pv pm
    using Cons by simp
  show ?case using IH r by (auto split: sum.split grant_kind.split)
qed simp

lemma level_loop_returns:
  "(\<And>l g. l \<in> set ls \<Longrightarrow> g \<in> set (grants l) \<Longrightarrow> rec (by_particle g) \<noteq> None) \<Longrightarrow>
   level_loop rec ow grants prv perms ands ls \<noteq> None"
proof (induction ls arbitrary: prv perms ands)
  case (Cons l ls)
  obtain r where r: "grant_loop rec ow prv perms (grants l) = Some r"
    using grant_loop_returns [of "grants l" rec ow prv perms] Cons.prems [of l] by auto
  have IH: "level_loop rec ow grants pv pm an ls \<noteq> None" for pv pm an
    by (rule Cons.IH) (use Cons.prems in auto)
  show ?case using IH r by (auto split: sum.split)
qed simp

lemma access_call_returns:
  assumes "\<And>g. applicable req db to on g \<Longrightarrow> rec (by_particle g) \<noteq> None"
  shows "access_call rec req db to on \<noteq> None"
proof (cases "db_hierarchy db to")
  case tp: (Inr tp)
  show ?thesis
  proof (cases "db_hierarchy db on")
    case op: (Inr op)
    have "level_loop rec (owns db to on) (level_grants req db tp op) privs_none perms_none []
        (traversal_levels on) \<noteq> None"
      using assms applicableI [OF tp op] by (intro level_loop_returns) blast
    with tp op show ?thesis
      unfolding access_call_def by (auto split: sum.split)
  qed (use tp in \<open>simp add: access_call_def\<close>)
qed (simp add: access_call_def)

text \<open>C17. The recursion on givers ends when delegation is well founded: if every grant applicable to
  a particle other than the hyperuser was given by a particle of smaller rank than its receiver,
  more than \<open>rank to\<close> nested calls always give an answer.\<close>

theorem access_terminates_on_ranked_grants:
  assumes "\<And>p g. p \<noteq> hyperuser \<Longrightarrow> applicable req db p on g \<Longrightarrow> rank (by_particle g) < (rank p :: nat)"
    and "rank to < n"
  shows "\<exists>r. access_within n req db to on = Some r"
proof -
  have "access_within (Suc (rank to)) req db to on \<noteq> None" for to
  proof (induction "rank to" arbitrary: to rule: less_induct)
    case less
    show ?case
    proof (cases "to = hyperuser")
      case True
      then show ?thesis by (simp add: access_call_def)
    next
      case False
    have "access_within (rank to) req db (by_particle g) on \<noteq> None" if "applicable req db to on g" for g
    proof -
      from assms(1) [OF False that] have smaller: "rank (by_particle g) < rank to" .
      from less [OF smaller] obtain r where
        "access_within (Suc (rank (by_particle g))) req db (by_particle g) on = Some r" by auto
      with smaller have "access_within (rank to) req db (by_particle g) on = Some r"
        by (blast intro: access_within_mono Suc_leI)
      then show ?thesis by simp
    qed
    then show ?thesis using access_call_returns [of req db to on] by simp
    qed
  qed
  then obtain r where "access_within (Suc (rank to)) req db to on = Some r" by blast
  with assms(2) show ?thesis using access_within_mono Suc_leI by blast
qed


section \<open>Examples\<close>

text \<open>A target with one grant on everything to everyone, by the hyperuser or by the receiver.\<close>

definition example_point :: "string \<Rightarrow> point" where
  "example_point name = \<lparr>route = RSThis, segments = [PSSpace name]\<rparr>"

definition example_db :: "grant_kind \<Rightarrow> point \<Rightarrow> access_db" where
  "example_db k giver =
     (let everything = Selector [Hop False SSRecursive kind_selector_any]
      in \<lparr>db_owners = [],
          db_grants = [IndexedGrant 1 \<lparr>grant_kind = k, on_point = everything, to_point = everything,
                                       by_particle = giver\<rparr>],
          db_hierarchy = (\<lambda>p. Inr \<lparr>hier_route = RSThis, hier_segments = [PointKindSeg (PSSpace ''a'') KSpace]\<rparr>)\<rparr>)"

lemma example_levels: "traversal_levels (example_point n) = [example_point n, root_point]"
  by (simp add: example_point_def root_point_def traversal_levels.simps is_root_def point_pop_def)

lemma example_not_hyperuser: "example_point n \<noteq> hyperuser"
  by (simp add: example_point_def hyperuser_def)

lemma example_hierarchy:
  "db_hierarchy (example_db k giver) p =
     Inr \<lparr>hier_route = RSThis, hier_segments = [PointKindSeg (PSSpace ''a'') KSpace]\<rparr>"
  by (simp add: example_db_def Let_def)

lemma example_not_owner: "\<not> owns (example_db k giver) to on"
  by (simp add: owns_def example_db_def Let_def)

lemma example_level_grants:
  "level_grants req (example_db k giver) \<lparr>hier_route = RSThis, hier_segments = [PointKindSeg (PSSpace ''a'') KSpace]\<rparr>
     \<lparr>hier_route = RSThis, hier_segments = [PointKindSeg (PSSpace ''a'') KSpace]\<rparr> level =
   (if point_to_string level = ''ROOT'' then
      [\<lparr>grant_kind = k, on_point = Selector [Hop False SSRecursive kind_selector_any],
        to_point = Selector [Hop False SSRecursive kind_selector_any], by_particle = giver\<rparr>] else [])"
  by (auto simp: level_grants_def example_db_def Let_def selector_matches_selects hop_matches_def
      kind_selector_matches_def kind_selector_any_def query_root_def point_to_string_def to_string_impl_def)

lemma example_point_text: "point_to_string (example_point ''t'') = ''t''"
  by (simp add: point_to_string_def to_string_impl_def example_point_def Let_def)

lemma root_point_text: "point_to_string root_point = ''ROOT''"
  by (simp add: point_to_string_def to_string_impl_def root_point_def)

lemmas example_simps = example_levels example_not_hyperuser example_hierarchy example_not_owner
  example_level_grants example_point_text root_point_text

lemma example_access:
  "to \<noteq> hyperuser \<Longrightarrow> access_within 2 req (example_db k hyperuser) to (example_point ''t'') =
     Some (Inr (case k of
       GrantSuper \<Rightarrow> AccSuper
     | GrantPrivilege q \<Rightarrow> AccEnumerated \<lparr>ea_permissions = perms_none, ea_privileges = privs_bitor privs_none q\<rparr>
     | GrantMask m \<Rightarrow> AccEnumerated \<lparr>ea_permissions =
         (case mask_kind m of MaskOr \<Rightarrow> perms_or perms_none (mask_permissions m)
                            | MaskAnd \<Rightarrow> perms_and perms_none (mask_permissions m)),
         ea_privileges = privs_none\<rparr>))"
  by (cases k)
    (auto simp: numeral_2_eq_2 access_call_def example_simps split: mask_kind.split)

theorem full_access_is_handed_on_witness:
  "\<exists>g b. applicable (\<lambda>_ _. True) (example_db GrantSuper hyperuser) (example_point ''a'') (example_point ''t'') g
    \<and> grant_kind g = GrantSuper
    \<and> access_within 1 (\<lambda>_ _. True) (example_db GrantSuper hyperuser) (by_particle g) (example_point ''t'') = Some (Inr b)
    \<and> has_super b"
proof -
  have "access_within (Suc 1) (\<lambda>_ _. True) (example_db GrantSuper hyperuser) (example_point ''a'') (example_point ''t'') =
      Some (Inr AccSuper)"
    using example_access [OF example_not_hyperuser, of "\<lambda>_ _. True" GrantSuper "''a''"] by (simp add: numeral_2_eq_2)
  from full_access_is_handed_on [OF this] show ?thesis
    by (simp add: example_not_hyperuser example_not_owner)
qed

theorem enumerated_access_is_granted_witness:
  "\<exists>g b. applicable (\<lambda>_ _. True) (example_db (GrantPrivilege (PrivSingle ''p'')) hyperuser) (example_point ''a'')
           (example_point ''t'') g
    \<and> (grant_kind g = GrantPrivilege PrivFull \<or> grant_kind g = GrantPrivilege (PrivSingle ''p''))
    \<and> access_within 1 (\<lambda>_ _. True) (example_db (GrantPrivilege (PrivSingle ''p'')) hyperuser) (by_particle g)
        (example_point ''t'') = Some (Inr b) \<and> has_full b"
proof -
  let ?e = "\<lparr>ea_permissions = perms_none, ea_privileges = privs_bitor privs_none (PrivSingle ''p'')\<rparr>"
  have "access_within (Suc 1) (\<lambda>_ _. True) (example_db (GrantPrivilege (PrivSingle ''p'')) hyperuser)
      (example_point ''a'') (example_point ''t'') = Some (Inr (AccEnumerated ?e))"
    using example_access [OF example_not_hyperuser, of "\<lambda>_ _. True" "GrantPrivilege (PrivSingle ''p'')" "''a''"]
    by (simp add: numeral_2_eq_2)
  moreover have "privs_has (ea_privileges ?e) ''p'' = pass"
    by (simp add: privs_none_def enum_privs_has_def)
  ultimately show ?thesis using enumerated_access_is_granted [of 1 _ _ _ _ ?e "''p''"] by blast
qed

lemma example_ranked:
  "applicable req (example_db k hyperuser) p (example_point ''t'') g \<Longrightarrow> by_particle g = hyperuser"
  by (auto simp: applicable_def example_simps list_ex_iff split: if_split_asm)

theorem access_terminates_on_ranked_grants_witness:
  "\<exists>r. access_within 2 (\<lambda>_ _. True) (example_db GrantSuper hyperuser) (example_point ''a'') (example_point ''t'') = Some r"
proof (rule access_terminates_on_ranked_grants [where rank = "\<lambda>p. if p = hyperuser then 0 else 1"])
  show "(if by_particle g = hyperuser then 0 else 1) < (if p = hyperuser then 0 else 1 :: nat)"
    if "p \<noteq> hyperuser" "applicable (\<lambda>_ _. True) (example_db GrantSuper hyperuser) p (example_point ''t'') g" for p g
    using that by (simp add: example_ranked)
qed (simp add: example_not_hyperuser)


end
