(* ===== verification/Methods.thy ===== *)
theory Methods
  imports Access
begin

text \<open>
  The methods of directed waves (\<open>wave/core.rs\<close>, \<open>wave/core/hyp.rs\<close>, \<open>cmd.rs\<close>,
  \<open>ext.rs\<close>, \<open>http2.rs\<close>), their text and the patterns over them; the waiting classes and
  the timeouts of a request (\<open>settings.rs\<close>); the scopes a wave carries (\<open>wave.rs\<close>) with
  their intersection and union.
\<close>

section \<open>Methods\<close>

datatype hyp_method =
    HypAssign | HypHost | HypProvision | HypKnock | HypHop | HypTransport | HypHyperWave | HypSearch

definition hyp_method_variants :: "hyp_method list" where
  "hyp_method_variants =
     [HypAssign, HypHost, HypProvision, HypKnock, HypHop, HypTransport, HypHyperWave, HypSearch]"

fun hyp_method_to_string :: "hyp_method \<Rightarrow> string" where
  "hyp_method_to_string HypAssign = ''Assign''"
| "hyp_method_to_string HypHost = ''Host''"
| "hyp_method_to_string HypProvision = ''Provision''"
| "hyp_method_to_string HypKnock = ''Knock''"
| "hyp_method_to_string HypHop = ''Hop''"
| "hyp_method_to_string HypTransport = ''Transport''"
| "hyp_method_to_string HypHyperWave = ''HyperWave''"
| "hyp_method_to_string HypSearch = ''Search''"

datatype cmd_method =
    CmdInit | CmdRead | CmdUpdate | CmdBounce | CmdKnock | CmdGreet | CmdCommand | CmdRawCommand
  | CmdLog

definition cmd_method_variants :: "cmd_method list" where
  "cmd_method_variants =
     [CmdInit, CmdRead, CmdUpdate, CmdBounce, CmdKnock, CmdGreet, CmdCommand, CmdRawCommand, CmdLog]"

fun cmd_method_to_string :: "cmd_method \<Rightarrow> string" where
  "cmd_method_to_string CmdInit = ''Init''"
| "cmd_method_to_string CmdRead = ''Read''"
| "cmd_method_to_string CmdUpdate = ''Update''"
| "cmd_method_to_string CmdBounce = ''Bounce''"
| "cmd_method_to_string CmdKnock = ''Knock''"
| "cmd_method_to_string CmdGreet = ''Greet''"
| "cmd_method_to_string CmdCommand = ''Command''"
| "cmd_method_to_string CmdRawCommand = ''RawCommand''"
| "cmd_method_to_string CmdLog = ''Log''"

datatype http_method =
    HttpOptions | HttpGet | HttpPost | HttpPut | HttpDelete | HttpHead | HttpTrace | HttpConnect
  | HttpPatch

definition http_method_variants :: "http_method list" where
  "http_method_variants =
     [HttpOptions, HttpGet, HttpPost, HttpPut, HttpDelete, HttpHead, HttpTrace, HttpConnect, HttpPatch]"

fun http_method_to_string :: "http_method \<Rightarrow> string" where
  "http_method_to_string HttpOptions = ''Options''"
| "http_method_to_string HttpGet = ''Get''"
| "http_method_to_string HttpPost = ''Post''"
| "http_method_to_string HttpPut = ''Put''"
| "http_method_to_string HttpDelete = ''Delete''"
| "http_method_to_string HttpHead = ''Head''"
| "http_method_to_string HttpTrace = ''Trace''"
| "http_method_to_string HttpConnect = ''Connect''"
| "http_method_to_string HttpPatch = ''Patch''"

text \<open>\<open>ExtMethod\<close>: a name in camel case.  The constructor and the two conversions from text run
  the same parser; \<open>perr\<close> is the error it reports.\<close>

datatype ext_method = ExtMethod (ext_string: string)

definition ext_method_new :: "(string \<Rightarrow> space_err) \<Rightarrow> string \<Rightarrow> space_err + ext_method" where
  "ext_method_new perr s = res_bind (camel_from_str perr s) (\<lambda>t. Inr (ExtMethod t))"

definition ext_method_default :: ext_method where
  "ext_method_default = ExtMethod ''Def''"

datatype method_kind = MKHyp | MKCmd | MKExt | MKHttp

definition method_kind_variants :: "method_kind list" where
  "method_kind_variants = [MKHyp, MKCmd, MKExt, MKHttp]"

fun method_kind_to_string :: "method_kind \<Rightarrow> string" where
  "method_kind_to_string MKHyp = ''Hyp''"
| "method_kind_to_string MKCmd = ''Cmd''"
| "method_kind_to_string MKExt = ''Ext''"
| "method_kind_to_string MKHttp = ''Http''"

datatype wave_method = Hyp hyp_method | Cmd cmd_method | Http http_method | Ext ext_method

fun method_kind_of :: "wave_method \<Rightarrow> method_kind" where
  "method_kind_of (Cmd _) = MKCmd"
| "method_kind_of (Http _) = MKHttp"
| "method_kind_of (Ext _) = MKExt"
| "method_kind_of (Hyp _) = MKHyp"

fun method_to_deep_string :: "wave_method \<Rightarrow> string" where
  "method_to_deep_string (Hyp x) = ''Hyp<'' @ hyp_method_to_string x @ ''>''"
| "method_to_deep_string (Cmd x) = ''Cmd<'' @ cmd_method_to_string x @ ''>''"
| "method_to_deep_string (Http x) = ''Http<'' @ http_method_to_string x @ ''>''"
| "method_to_deep_string (Ext x) = ''Ext<'' @ ext_string x @ ''>''"

fun method_to_string :: "wave_method \<Rightarrow> string" where
  "method_to_string (Cmd cmd) = ''Cmd<'' @ cmd_method_to_string cmd @ ''>''"
| "method_to_string (Http m) = ''Http<'' @ http_method_to_string m @ ''>''"
| "method_to_string (Ext msg) = ''Ext<'' @ ext_string msg @ ''>''"
| "method_to_string (Hyp sys) = ''Hyp<'' @ hyp_method_to_string sys @ ''>''"

text \<open>The \<open>ValueMatcher\<close> of a method and of each of its families is equality.\<close>

definition method_is_match :: "wave_method \<Rightarrow> wave_method \<Rightarrow> check" where
  "method_is_match self x = (if x = self then pass else refuse)"

definition hyp_is_match :: "hyp_method \<Rightarrow> hyp_method \<Rightarrow> check" where
  "hyp_is_match self x = (if x = self then pass else refuse)"

definition cmd_is_match :: "cmd_method \<Rightarrow> cmd_method \<Rightarrow> check" where
  "cmd_is_match self x = (if x = self then pass else refuse)"

definition http_is_match :: "http_method \<Rightarrow> http_method \<Rightarrow> check" where
  "http_is_match self found = (if self = found then pass else refuse)"

definition ext_is_match :: "ext_method \<Rightarrow> ext_method \<Rightarrow> check" where
  "ext_is_match self x = (if self = x then pass else refuse)"

datatype method_pattern =
    MPHyp "hyp_method value_pattern"
  | MPCmd "cmd_method value_pattern"
  | MPHttp "http_method value_pattern"
  | MPExt "ext_method value_pattern"

fun method_pattern_to_string :: "method_pattern \<Rightarrow> string" where
  "method_pattern_to_string (MPCmd c) = ''Cmd<'' @ vp_to_string cmd_method_to_string c @ ''>''"
| "method_pattern_to_string (MPHttp c) = ''Http<'' @ vp_to_string http_method_to_string c @ ''>''"
| "method_pattern_to_string (MPExt c) = ''Ext<'' @ vp_to_string ext_string c @ ''>''"
| "method_pattern_to_string (MPHyp c) = ''Hyp<'' @ vp_to_string hyp_method_to_string c @ ''>''"

fun method_pattern_is_match :: "method_pattern \<Rightarrow> wave_method \<Rightarrow> check" where
  "method_pattern_is_match (MPHyp pattern) x =
     (case x of Hyp v \<Rightarrow> vp_is_match hyp_is_match pattern v | _ \<Rightarrow> refuse)"
| "method_pattern_is_match (MPCmd pattern) x =
     (case x of Cmd v \<Rightarrow> vp_is_match cmd_is_match pattern v | _ \<Rightarrow> refuse)"
| "method_pattern_is_match (MPHttp pattern) x =
     (case x of Http v \<Rightarrow> vp_is_match http_is_match pattern v | _ \<Rightarrow> refuse)"
| "method_pattern_is_match (MPExt pattern) x =
     (case x of Ext v \<Rightarrow> vp_is_match ext_is_match pattern v | _ \<Rightarrow> refuse)"

section \<open>Handling\<close>

datatype handling_kind = HandlingDurable | HandlingQueued | HandlingImmediate
datatype wait_time = WaitHigh | WaitMed | WaitLow
datatype retries = RetriesNone | RetriesMax | RetriesMedium | RetriesMin
datatype priority = PriorityHyper | PrioritySuper | PriorityHigh | PriorityMed | PriorityLow

datatype handling =
  Handling (handling_kind: handling_kind) (handling_priority: priority)
           (handling_retries: retries) (handling_wait: wait_time)

definition wait_time_default :: wait_time where "wait_time_default = WaitLow"
definition retries_default :: retries where "retries_default = RetriesNone"
definition priority_default :: priority where "priority_default = PriorityMed"

definition handling_default :: handling where
  "handling_default = Handling HandlingQueued priority_default retries_default wait_time_default"

datatype bounce_backs = BBNone | BBSingle | BBCount nat | BBTimer wait_time

fun has_bounce :: "bounce_backs \<Rightarrow> bool" where
  "has_bounce BBNone = False"
| "has_bounce BBSingle = True"
| "has_bounce (BBCount _) = True"
| "has_bounce (BBTimer _) = True"

text \<open>\<open>Timeouts\<close>, in seconds.\<close>

record timeouts =
  timeout_high :: "64 word"
  timeout_med :: "64 word"
  timeout_low :: "64 word"

fun timeouts_from :: "timeouts \<Rightarrow> wait_time \<Rightarrow> 64 word" where
  "timeouts_from t WaitHigh = timeout_high t"
| "timeouts_from t WaitMed = timeout_med t"
| "timeouts_from t WaitLow = timeout_low t"

definition timeouts_default :: timeouts where
  "timeouts_default = \<lparr>timeout_high = 5 * 60, timeout_med = 1 * 60, timeout_low = 15\<rparr>"

section \<open>Scopes\<close>

datatype scope_grant_kind = SGOr | SGAnd
datatype scope_grant_aspect = AspectPerm permissions | AspectPriv privilege

datatype scope_grant =
  ScopeGrant (sg_on: selector) (sg_kind: scope_grant_kind) (sg_aspect: scope_grant_aspect)

datatype scope = ScopeFull | ScopeNone | ScopeGrants "scope_grant set"

fun has_grant :: "scope \<Rightarrow> scope_grant \<Rightarrow> check" where
  "has_grant ScopeFull grant = pass"
| "has_grant ScopeNone grant = refuse"
| "has_grant (ScopeGrants grants) grant = (if grant \<in> grants then pass else refuse)"

fun enumerated_grants :: "scope \<Rightarrow> scope_grant set" where
  "enumerated_grants ScopeFull = {}"
| "enumerated_grants ScopeNone = {}"
| "enumerated_grants (ScopeGrants grants) = grants"

definition scope_bitand :: "scope \<Rightarrow> scope \<Rightarrow> scope" where
  "scope_bitand self rhs =
     (if self = ScopeFull \<and> rhs = ScopeFull then ScopeFull
      else if self = ScopeNone \<or> rhs = ScopeNone then ScopeNone
      else ScopeGrants {grant \<in> enumerated_grants self. has_grant rhs grant = pass})"

definition scope_bitor :: "scope \<Rightarrow> scope \<Rightarrow> scope" where
  "scope_bitor self rhs =
     (if self = ScopeFull \<or> rhs = ScopeFull then ScopeFull
      else ScopeGrants (enumerated_grants self \<union> enumerated_grants rhs))"

definition scope_default :: scope where
  "scope_default = ScopeNone"

section \<open>Facts: methods\<close>

text \<open>Every family of methods, and the kinds, are read back from the text they print.\<close>

interpretation hyp_method_strum: strum hyp_method_variants hyp_method_to_string
  by unfold_locales (auto simp: hyp_method_variants_def intro: hyp_method.exhaust elim!: hyp_method_to_string.elims)

interpretation cmd_method_strum: strum cmd_method_variants cmd_method_to_string
  by unfold_locales (auto simp: cmd_method_variants_def intro: cmd_method.exhaust elim!: cmd_method_to_string.elims)

interpretation http_method_strum: strum http_method_variants http_method_to_string
  by unfold_locales (auto simp: http_method_variants_def intro: http_method.exhaust elim!: http_method_to_string.elims)

interpretation method_kind_strum: strum method_kind_variants method_kind_to_string
  by unfold_locales (auto simp: method_kind_variants_def intro: method_kind.exhaust elim!: method_kind_to_string.elims)

lemma method_strings_agree: "method_to_deep_string m = method_to_string m"
  by (cases m) simp_all

lemma ext_method_new_iff: "ext_method_new perr s = Inr m \<longleftrightarrow> camel_from_str perr s = Inr (ext_string m)"
  by (cases m) (auto simp: ext_method_new_def res_bind_Inr_iff)

text \<open>A pattern accepts a method exactly when it is the pattern of the method's kind and is open
  or holds that very method.\<close>

lemma method_pattern_is_match_iff:
  "method_pattern_is_match p m = pass \<longleftrightarrow>
     (case (p, m) of
        (MPHyp v, Hyp x) \<Rightarrow> v = VPAny \<or> v = VPPattern x
      | (MPCmd v, Cmd x) \<Rightarrow> v = VPAny \<or> v = VPPattern x
      | (MPHttp v, Http x) \<Rightarrow> v = VPAny \<or> v = VPPattern x
      | (MPExt v, Ext x) \<Rightarrow> v = VPAny \<or> v = VPPattern x
      | _ \<Rightarrow> False)"
proof -
  have vp: "vp_is_match f v x = pass \<longleftrightarrow> v = VPAny \<or> v = VPPattern x"
    if "\<And>a b. f a b = pass \<longleftrightarrow> a = b" for f :: "'a \<Rightarrow> 'a \<Rightarrow> check" and v x
    using that by (cases v) auto
  have "\<And>a b. hyp_is_match a b = pass \<longleftrightarrow> a = b" "\<And>a b. cmd_is_match a b = pass \<longleftrightarrow> a = b"
    "\<And>a b. http_is_match a b = pass \<longleftrightarrow> a = b" "\<And>a b. ext_is_match a b = pass \<longleftrightarrow> a = b"
    by (auto simp: hyp_is_match_def cmd_is_match_def http_is_match_def ext_is_match_def)
  then show ?thesis by (cases p; cases m) (simp_all add: vp)
qed

section \<open>Facts: scopes\<close>

lemma has_grant_bitor:
  "has_grant (scope_bitor a b) g = pass \<longleftrightarrow> has_grant a g = pass \<or> has_grant b g = pass"
  by (cases a; cases b) (auto simp: scope_bitor_def)

lemma scope_bitor_none: "has_grant (scope_bitor a ScopeNone) g = has_grant a g"
  by (cases a) (auto simp: scope_bitor_def)

lemma scope_bitor_comm: "scope_bitor a b = scope_bitor b a"
  by (auto simp: scope_bitor_def)

text \<open>The intersection of scopes is not symmetric: it grants what both grant only when the
  left scope lists its grants or both are full.  A full scope on the left of a list of grants
  leaves nothing, while the same list on the left of a full scope is kept.\<close>

theorem scope_bitand_grants:
  "has_grant (scope_bitand a b) g = pass \<longleftrightarrow>
     has_grant a g = pass \<and> has_grant b g = pass \<and> \<not> (a = ScopeFull \<and> b \<noteq> ScopeFull)"
  by (cases a; cases b) (auto simp: scope_bitand_def)

end
