(* ===== verification/Properties.thy ===== *)
theory Properties
  imports Methods "HOL-Library.AList"
begin

text \<open>
  The properties of particles (\<open>particle/property.rs\<close>, the property part of
  \<open>command.rs\<close>): definitions of properties with their patterns, the configuration of a
  kind and its builder, the checks of a create, an update and a read, the defaults of a create.

  A \<open>HashMap\<close> is its list of entries in iteration order, which the library leaves open: what is
  proved holds for every order.  \<open>insert\<close> is \<open>AList.update\<close>.
\<close>

section \<open>Values\<close>

text \<open>\<open>u64::from_str\<close>: an optional plus, digits, no overflow; a bad digit is reported before an
  overflow at the same place.\<close>

definition is_digit :: "char \<Rightarrow> bool" where
  "is_digit c = (let n = (of_char c :: nat) in 48 \<le> n \<and> n \<le> 57)"

definition u64_step :: "nat \<Rightarrow> char \<Rightarrow> string + nat" where
  "u64_step n c =
     (if \<not> is_digit c then Inl ''invalid digit found in string''
      else let m = n * 10 + (of_char c - 48)
           in if m < 2 ^ 64 then Inr m else Inl ''number too large to fit in target type'')"

definition u64_from_str :: "string \<Rightarrow> string + nat" where
  "u64_from_str s =
     (if s = [] then Inl ''cannot parse integer from empty string''
      else if hd s = CHR ''+'' \<and> tl s \<noteq> [] then res_foldl u64_step 0 (tl s)
      else res_foldl u64_step 0 s)"

definition bool_from_str :: "string \<Rightarrow> string + bool" where
  "bool_from_str s =
     (if s = ''true'' then Inr True else if s = ''false'' then Inr False
      else Inl (''provided string was not '' @ CHR 0x60 # ''true'' @ CHR 0x60 # '' or ''
                @ CHR 0x60 # ''false'' @ [CHR 0x60]))"

text \<open>\<open>SkewerCase::from_str\<close>: lower case letters, then alphanumerics and dashes.\<close>

definition is_lower :: "char \<Rightarrow> bool" where
  "is_lower c = (let n = (of_char c :: nat) in 97 \<le> n \<and> n \<le> 122)"

definition skewer_from_str :: "(string \<Rightarrow> space_err) \<Rightarrow> string \<Rightarrow> space_err + string" where
  "skewer_from_str perr s =
     (if s \<noteq> [] \<and> is_lower (hd s) \<and> list_all (\<lambda>c. is_alphanumeric c \<or> c = CHR ''-'') s
      then Inr s else Inl (perr s))"

section \<open>Definitions of properties\<close>

datatype property_pattern =
    AnythingPattern | PointPattern | U64Pattern | BoolPattern | UsernamePattern | EmailPattern

text \<open>What the patterns call outside the modelled sources: the parser of points, the report of a
  failed parse, the email test of the validator package.\<close>

record parsers =
  parse_point :: "string \<Rightarrow> space_err + point"
  parse_err :: "string \<Rightarrow> space_err"
  validate_email :: "string \<Rightarrow> bool"

definition of_text_err :: "string + 'a \<Rightarrow> space_err + unit" where
  "of_text_err r = (case r of Inl e \<Rightarrow> Inl (err_of_string e) | Inr _ \<Rightarrow> Inr ())"

fun property_pattern_is_match :: "parsers \<Rightarrow> property_pattern \<Rightarrow> string \<Rightarrow> space_err + unit" where
  "property_pattern_is_match ps AnythingPattern value = Inr ()"
| "property_pattern_is_match ps PointPattern value =
     res_bind (parse_point ps value) (\<lambda>_. Inr ())"
| "property_pattern_is_match ps U64Pattern value = of_text_err (u64_from_str value)"
| "property_pattern_is_match ps BoolPattern value = of_text_err (bool_from_str value)"
| "property_pattern_is_match ps UsernamePattern value =
     res_bind (skewer_from_str (parse_err ps) value) (\<lambda>_. Inr ())"
| "property_pattern_is_match ps EmailPattern value =
     (if validate_email ps value then Inr ()
      else Inl (err_of_string (''not a valid email: '' @ quoted value)))"

datatype property_source = SourceShell | SourceCore | SourceCoreReadOnly | SourceCoreSecret
datatype property_permit = PermitRead | PermitWrite

record property_def =
  pd_pattern :: property_pattern
  pd_required :: bool
  pd_mutable :: bool
  pd_source :: property_source
  pd_default :: "string option"
  pd_constant :: bool
  pd_permits :: "property_permit list"

definition property_def_new ::
  "parsers \<Rightarrow> property_pattern \<Rightarrow> bool \<Rightarrow> bool \<Rightarrow> property_source \<Rightarrow> string option \<Rightarrow> bool
   \<Rightarrow> property_permit list \<Rightarrow> space_err + property_def" where
  "property_def_new ps pat required mutable src dflt const permits =
     (let def = \<lparr>pd_pattern = pat, pd_required = required, pd_mutable = mutable, pd_source = src,
                 pd_default = dflt, pd_constant = const, pd_permits = permits\<rparr>
      in case dflt of
           None \<Rightarrow>
             if const then
               Inl (err_of_string ''if PropertyDef is a constant then 'default' value must be set'')
             else Inr def
         | Some value \<Rightarrow>
             (case property_pattern_is_match ps pat value of
                Inr _ \<Rightarrow> Inr def
              | Inl err \<Rightarrow>
                  Inl (err_of_string (''default value does not match pattern: '' @ err_to_string err))))"

section \<open>Changes of properties\<close>

datatype property_mod =
    PropSet (pm_key: string) (pm_value: string) (pm_lock: bool)
  | PropUnSet (pm_key: string)

fun set_or :: "property_mod \<Rightarrow> 'e \<Rightarrow> 'e + string" where
  "set_or (PropSet key value lock) err = Inr value"
| "set_or (PropUnSet _) err = Inl err"

fun mod_opt :: "property_mod \<Rightarrow> string option" where
  "mod_opt (PropSet key value lock) = Some value"
| "mod_opt (PropUnSet _) = None"

type_synonym set_properties = "(string \<times> property_mod) list"

definition set_properties_new :: set_properties where
  "set_properties_new = []"

fun set_properties_push :: "set_properties \<Rightarrow> property_mod \<Rightarrow> set_properties" where
  "set_properties_push m (PropSet key value lock) = AList.update key (PropSet key value lock) m"
| "set_properties_push m (PropUnSet key) = AList.update key (PropUnSet key) m"

definition set_properties_append :: "set_properties \<Rightarrow> set_properties \<Rightarrow> set_properties" where
  "set_properties_append m properties = foldl (\<lambda>m (_, property). set_properties_push m property) m properties"

section \<open>The configuration of a kind\<close>

record properties_config =
  pc_properties :: "(string \<times> property_def) list"
  pc_kind :: kind

definition required_keys :: "properties_config \<Rightarrow> string list" where
  "required_keys c = map fst (filter (\<lambda>(key, def). pd_required def) (pc_properties c))"

definition default_keys :: "properties_config \<Rightarrow> string list" where
  "default_keys c = map fst (filter (\<lambda>(key, def). pd_default def \<noteq> None) (pc_properties c))"

definition has_key :: "(string \<times> 'v) list \<Rightarrow> string \<Rightarrow> bool" where
  "has_key m k = (map_of m k \<noteq> None)"

text \<open>One step of the loops of the checks; \<open>None\<close> is the \<open>unwrap\<close> of a constant without a value.
  The inner \<open>key\<close> of a change shadows the key it is listed under in the messages.\<close>

definition check_create_mod ::
  "parsers \<Rightarrow> properties_config \<Rightarrow> string \<times> property_mod \<Rightarrow> (space_err + unit) option" where
  "check_create_mod ps c e =
     (let (key, propmod) = e; kd = kind_name (pc_kind c)
      in case map_of (pc_properties c) key of
           None \<Rightarrow> Some (Inl (err_of_string (kd @ '' illegal property: '' @ quoted key)))
         | Some def \<Rightarrow>
             (case propmod of
                PropUnSet _ \<Rightarrow>
                  Some (Inl (err_of_string (''cannot unset: '' @ quoted key @ '' during particle create'')))
              | PropSet key value lock \<Rightarrow>
                  (if pd_constant def \<and> pd_default def = None then None
                   else if pd_constant def \<and> pd_default def \<noteq> Some value then
                     Some (Inl (err_of_string
                       (kd @ '' property: '' @ quoted key @ '' is constant and cannot be set'')))
                   else Some (res_bind (property_pattern_is_match ps (pd_pattern def) value) (\<lambda>_.
                     if pd_source def = SourceCoreReadOnly then
                       Inl (err_of_string (kd @ '' property '' @ quoted key @
                         '' is flagged CoreReadOnly and cannot be set within the Mesh''))
                     else Inr ())))))"

text \<open>A loop over entries that stops at the first error or panic.\<close>

fun first_failure :: "('a \<Rightarrow> ('e + unit) option) \<Rightarrow> 'a list \<Rightarrow> ('e + unit) option" where
  "first_failure f [] = Some (Inr ())"
| "first_failure f (x # xs) =
     (case f x of None \<Rightarrow> None | Some (Inl e) \<Rightarrow> Some (Inl e) | Some (Inr _) \<Rightarrow> first_failure f xs)"

definition check_create :: "parsers \<Rightarrow> properties_config \<Rightarrow> set_properties \<Rightarrow> (space_err + unit) option" where
  "check_create ps c props =
     (case List.find (\<lambda>req. \<not> has_key props req) (required_keys c) of
        Some req \<Rightarrow>
          Some (Inl (err_of_string
            (kind_name (pc_kind c) @ '' missing required property: '' @ quoted req)))
      | None \<Rightarrow> first_failure (check_create_mod ps c) props)"

definition check_update_mod ::
  "parsers \<Rightarrow> properties_config \<Rightarrow> string \<times> property_mod \<Rightarrow> space_err + unit" where
  "check_update_mod ps c e =
     (let (key, propmod) = e
      in case map_of (pc_properties c) key of
           None \<Rightarrow> Inl (err_of_string (''illegal property: '' @ quoted key))
         | Some def \<Rightarrow>
             (case propmod of
                PropSet key value lock \<Rightarrow>
                  (if pd_constant def then
                     Inl (err_of_string (''property: '' @ quoted key @ '' is constant and cannot be set''))
                   else res_bind (property_pattern_is_match ps (pd_pattern def) value) (\<lambda>_.
                     if pd_source def = SourceCoreReadOnly then
                       Inl (err_of_string (''property '' @ quoted key @
                         '' is flagged CoreReadOnly and cannot be set within the Mesh''))
                     else Inr ()))
              | PropUnSet _ \<Rightarrow>
                  (if \<not> pd_mutable def then
                     Inl (err_of_string (''property '' @ quoted key @
                       '' is immutable and cannot be changed after particle creation''))
                   else if pd_required def then
                     Inl (err_of_string (''property '' @ quoted key @
                       '' is required and cannot be unset''))
                   else Inr ())))"

definition check_update :: "parsers \<Rightarrow> properties_config \<Rightarrow> set_properties \<Rightarrow> space_err + unit" where
  "check_update ps c props = res_foldl (\<lambda>_. check_update_mod ps c) () props"

definition check_read :: "properties_config \<Rightarrow> string list \<Rightarrow> space_err + unit" where
  "check_read c keys =
     res_foldl (\<lambda>_ key.
       case map_of (pc_properties c) key of
         None \<Rightarrow> Inl (err_of_string (''illegal property: '' @ quoted key))
       | Some def \<Rightarrow>
           (if pd_source def = SourceCoreSecret then
              Inl (err_of_string (''property '' @ quoted key @
                '' is flagged CoreSecret and cannot be read within the Mesh''))
            else Inr ())) () keys"

definition fill_create_defaults :: "properties_config \<Rightarrow> set_properties \<Rightarrow> space_err + set_properties" where
  "fill_create_defaults c props =
     res_foldl (\<lambda>rtn d.
       if has_key rtn d then Inr rtn
       else (case map_of (pc_properties c) d of
               None \<Rightarrow> Inl (err_of_string (''expected default property def: '' @ d))
             | Some def \<Rightarrow>
                 (case pd_default def of
                    None \<Rightarrow> Inl (err_of_string (''expected default property def: '' @ d))
                  | Some value \<Rightarrow> Inr (set_properties_push rtn (PropSet d value False))))) props (default_keys c)"

section \<open>The builder\<close>

record properties_builder =
  pb_kind :: "kind option"
  pb_properties :: "(string \<times> property_def) list"

definition builder_insert :: "properties_builder \<Rightarrow> string \<Rightarrow> property_def \<Rightarrow> properties_builder" where
  "builder_insert b name def = b\<lparr>pb_properties := AList.update name def (pb_properties b)\<rparr>"

definition builder_add ::
  "parsers \<Rightarrow> properties_builder \<Rightarrow> string \<Rightarrow> property_pattern \<Rightarrow> bool \<Rightarrow> bool \<Rightarrow> property_source
   \<Rightarrow> string option \<Rightarrow> bool \<Rightarrow> property_permit list \<Rightarrow> space_err + properties_builder" where
  "builder_add ps b name pat required mutable src dflt const permits =
     res_bind (property_def_new ps pat required mutable src dflt const permits)
       (\<lambda>def. Inr (builder_insert b name def))"

definition add_string :: "parsers \<Rightarrow> properties_builder \<Rightarrow> string \<Rightarrow> space_err + properties_builder" where
  "add_string ps b name =
     res_bind (property_def_new ps AnythingPattern False True SourceShell None False [])
       (\<lambda>def. Inr (builder_insert b name def))"

definition add_point ::
  "parsers \<Rightarrow> properties_builder \<Rightarrow> string \<Rightarrow> bool \<Rightarrow> bool \<Rightarrow> space_err + properties_builder" where
  "add_point ps b name required mutable =
     res_bind (property_def_new ps PointPattern required mutable SourceShell None False [])
       (\<lambda>def. Inr (builder_insert b name def))"

text \<open>\<open>new\<close> unwraps its own \<open>add_point\<close>.\<close>

definition builder_new :: "parsers \<Rightarrow> properties_builder option" where
  "builder_new ps =
     (case add_point ps \<lparr>pb_kind = None, pb_properties = []\<rparr> ''bind'' False True of
        Inl _ \<Rightarrow> None | Inr b \<Rightarrow> Some b)"

definition builder_kind :: "properties_builder \<Rightarrow> kind \<Rightarrow> properties_builder" where
  "builder_kind b k = b\<lparr>pb_kind := Some k\<rparr>"

definition builder_build :: "properties_builder \<Rightarrow> space_err + properties_config" where
  "builder_build b =
     res_bind (ok_or (pb_kind b) (server_error ''kind must be set before PropertiesConfig can be built''))
       (\<lambda>k. Inr \<lparr>pc_properties = pb_properties b, pc_kind = k\<rparr>)"

definition config_new :: "kind \<Rightarrow> properties_config" where
  "config_new k = \<lparr>pc_properties = [], pc_kind = k\<rparr>"

definition config_builder :: properties_builder where
  "config_builder = \<lparr>pb_kind = None, pb_properties = []\<rparr>"

section \<open>Facts: what the checks accept\<close>

lemma has_key_iff: "has_key m k \<longleftrightarrow> k \<in> fst ` set m"
  by (simp add: has_key_def map_of_eq_None_iff)

lemma first_failure_ok: "first_failure f xs = Some (Inr ()) \<longleftrightarrow> list_all (\<lambda>x. f x = Some (Inr ())) xs"
proof (induction xs)
  case (Cons x xs)
  then show ?case by (cases "f x") (auto split: sum.split)
qed simp

lemma first_failure_total:
  "list_all (\<lambda>x. f x \<noteq> None) xs \<Longrightarrow> first_failure f xs \<noteq> None"
proof (induction xs)
  case (Cons x xs)
  then show ?case by (cases "f x") (auto split: sum.split)
qed simp

lemma res_foldl_unit_ok:
  "res_foldl (\<lambda>_. f) () xs = Inr () \<longleftrightarrow> list_all (\<lambda>x. f x = Inr ()) xs"
proof (induction xs)
  case (Cons x xs)
  then show ?case by (cases "f x") auto
qed simp

text \<open>A change a create accepts: it sets a known property that is not read only to a value of the
  pattern, and a constant only to its own value.\<close>

definition creatable :: "parsers \<Rightarrow> properties_config \<Rightarrow> string \<times> property_mod \<Rightarrow> bool" where
  "creatable ps c e =
     (case map_of (pc_properties c) (fst e) of
        None \<Rightarrow> False
      | Some def \<Rightarrow>
          (case snd e of
             PropUnSet _ \<Rightarrow> False
           | PropSet _ value _ \<Rightarrow>
               property_pattern_is_match ps (pd_pattern def) value = Inr ()
               \<and> pd_source def \<noteq> SourceCoreReadOnly
               \<and> (if pd_constant def then pd_default def = Some value else True)))"

lemma check_create_mod_ok: "check_create_mod ps c e = Some (Inr ()) \<longleftrightarrow> creatable ps c e"
  by (cases e)
    (auto simp: check_create_mod_def creatable_def Let_def res_bind_Inr_iff
      split: option.split property_mod.split)

lemma find_None_list_all: "List.find P xs = None \<longleftrightarrow> list_all (\<lambda>x. \<not> P x) xs"
  by (auto simp: find_None_iff list_all_iff)

text \<open>A create is accepted exactly when every required property is among the changes and every
  change sets a known, writable property to a value its pattern accepts (a constant only to its
  fixed value).\<close>

theorem check_create_accepts:
  "check_create ps c props = Some (Inr ()) \<longleftrightarrow>
     list_all (has_key props) (required_keys c) \<and> list_all (creatable ps c) props"
proof (cases "List.find (\<lambda>req. \<not> has_key props req) (required_keys c)")
  case None
  moreover from None have "list_all (has_key props) (required_keys c)"
    using find_None_list_all [of "\<lambda>req. \<not> has_key props req"] by simp
  ultimately show ?thesis
    by (simp add: check_create_def first_failure_ok check_create_mod_ok)
next
  case (Some req)
  then have "\<not> list_all (has_key props) (required_keys c)"
    by (auto simp: find_Some_iff list_all_iff)
  with Some show ?thesis by (simp add: check_create_def)
qed

text \<open>What an update accepts.  The pattern and the source are checked for a new value, but
  mutability only when the property is removed.\<close>

definition updatable :: "parsers \<Rightarrow> properties_config \<Rightarrow> string \<times> property_mod \<Rightarrow> bool" where
  "updatable ps c e =
     (case map_of (pc_properties c) (fst e) of
        None \<Rightarrow> False
      | Some def \<Rightarrow>
          (case snd e of
             PropUnSet _ \<Rightarrow> pd_mutable def \<and> \<not> pd_required def
           | PropSet _ value _ \<Rightarrow>
               property_pattern_is_match ps (pd_pattern def) value = Inr ()
               \<and> pd_source def \<noteq> SourceCoreReadOnly \<and> \<not> pd_constant def))"

lemma check_update_mod_ok: "check_update_mod ps c e = Inr () \<longleftrightarrow> updatable ps c e"
  by (cases e)
    (auto simp: check_update_mod_def updatable_def Let_def res_bind_Inr_iff
      split: option.split property_mod.split)

lemma check_update_ok: "check_update ps c props = Inr () \<longleftrightarrow> list_all (updatable ps c) props"
  by (simp add: check_update_def res_foldl_unit_ok check_update_mod_ok)

definition with_mutability :: "(string \<Rightarrow> bool) \<Rightarrow> properties_config \<Rightarrow> properties_config" where
  "with_mutability m c =
     c\<lparr>pc_properties := map (\<lambda>(k, d). (k, d\<lparr>pd_mutable := m k\<rparr>)) (pc_properties c)\<rparr>"

definition sets_of :: "set_properties \<Rightarrow> set_properties" where
  "sets_of props = filter (\<lambda>(k, p). mod_opt p \<noteq> None) props"

text \<open>An update lets immutable properties change: whether the sets of an update are accepted
  does not depend on the mutability of the properties, which is looked at only when a property is
  removed.\<close>

theorem update_ignores_mutability_of_sets:
  "check_update ps (with_mutability m c) (sets_of props) = Inr () \<longleftrightarrow>
   check_update ps c (sets_of props) = Inr ()"
proof -
  have m: "map_of (map (\<lambda>(k, d). (k, d\<lparr>pd_mutable := m k\<rparr>)) xs) k =
      map_option (\<lambda>d. d\<lparr>pd_mutable := m k\<rparr>) (map_of xs k)" for xs :: "(string \<times> property_def) list" and k
    by (induction xs) auto
  show ?thesis
    unfolding check_update_ok list_all_iff with_mutability_def sets_of_def
    by (intro ball_cong refl) (auto simp: updatable_def m split: option.split property_mod.split)
qed

section \<open>Facts: defaults\<close>

definition fill_step :: "properties_config \<Rightarrow> set_properties \<Rightarrow> string \<Rightarrow> space_err + set_properties" where
  "fill_step c rtn d =
     (if has_key rtn d then Inr rtn
      else (case map_of (pc_properties c) d of
              None \<Rightarrow> Inl (err_of_string (''expected default property def: '' @ d))
            | Some def \<Rightarrow>
                (case pd_default def of
                   None \<Rightarrow> Inl (err_of_string (''expected default property def: '' @ d))
                 | Some value \<Rightarrow> Inr (set_properties_push rtn (PropSet d value False)))))"

lemma fill_create_defaults_steps:
  "fill_create_defaults c props = res_foldl (fill_step c) props (default_keys c)"
  by (simp add: fill_create_defaults_def fill_step_def [abs_def])

text \<open>The default of a key, and what a create gets from it.\<close>

definition default_of :: "properties_config \<Rightarrow> string \<Rightarrow> string option" where
  "default_of c k = Option.bind (map_of (pc_properties c) k) pd_default"

lemma set_properties_push_map:
  "map_of (set_properties_push m p) = (map_of m)(pm_key p \<mapsto> p)"
  by (cases p) (simp_all add: update_conv')

lemma fill_steps:
  "list_all (\<lambda>k. default_of c k \<noteq> None) ks \<Longrightarrow>
   \<exists>out. res_foldl (fill_step c) props ks = Inr out \<and>
     (\<forall>k. map_of out k =
        (case map_of props k of
           Some p \<Rightarrow> Some p
         | None \<Rightarrow> if k \<in> set ks then map_option (\<lambda>v. PropSet k v False) (default_of c k) else None))"
proof (induction ks arbitrary: props)
  case Nil
  then show ?case by (auto split: option.split)
next
  case (Cons d ks)
  then obtain v where v: "default_of c d = Some v" by auto
  then obtain def where def: "map_of (pc_properties c) d = Some def" "pd_default def = Some v"
    by (auto simp: default_of_def bind_eq_Some_conv)
  show ?case
  proof (cases "has_key props d")
    case True
    then have "fill_step c props d = Inr props" by (simp add: fill_step_def)
    moreover obtain p where "map_of props d = Some p" using True by (auto simp: has_key_def)
    ultimately show ?thesis
      using Cons.IH [of props] Cons.prems by (auto split: option.split)
  next
    case False
    let ?props = "set_properties_push props (PropSet d v False)"
    have step: "fill_step c props d = Inr ?props" using False def by (simp add: fill_step_def)
    from False have none: "map_of props d = None" by (simp add: has_key_def)
    from Cons.prems have "list_all (\<lambda>k. default_of c k \<noteq> None) ks" by simp
    from Cons.IH [OF this, of ?props] obtain out where out: "res_foldl (fill_step c) ?props ks = Inr out"
      and lookup: "\<And>k. map_of out k =
        (case map_of ?props k of
           Some p \<Rightarrow> Some p
         | None \<Rightarrow> if k \<in> set ks then map_option (\<lambda>v. PropSet k v False) (default_of c k) else None)"
      by blast
    have "map_of out k =
        (case map_of props k of
           Some p \<Rightarrow> Some p
         | None \<Rightarrow> if k \<in> set (d # ks) then map_option (\<lambda>v. PropSet k v False) (default_of c k) else None)"
      for k
      using lookup [of k] none v by (cases "k = d") (simp_all add: set_properties_push_map del: set_properties_push.simps)
    with out step show ?thesis by simp
  qed
qed

text \<open>The invariant of the maps of definitions: a key occurs once, constants have a value, and a
  default is accepted by its pattern.\<close>

definition good_def :: "parsers \<Rightarrow> property_def \<Rightarrow> bool" where
  "good_def ps d \<longleftrightarrow>
     (pd_constant d \<longrightarrow> pd_default d \<noteq> None) \<and>
     (\<forall>v. pd_default d = Some v \<longrightarrow> property_pattern_is_match ps (pd_pattern d) v = Inr ())"

definition good_defs :: "parsers \<Rightarrow> (string \<times> property_def) list \<Rightarrow> bool" where
  "good_defs ps xs \<longleftrightarrow> distinct (map fst xs) \<and> list_all (\<lambda>(k, d). good_def ps d) xs"

lemma property_def_new_good: "property_def_new ps pat r m s d k pe = Inr def \<Longrightarrow> good_def ps def"
  by (auto simp: property_def_new_def good_def_def Let_def split: option.splits sum.splits if_splits)

lemma good_defs_update:
  assumes "good_defs ps xs" and "good_def ps d"
  shows "good_defs ps (AList.update k d xs)"
proof -
  have "set (AList.update k d xs) \<subseteq> insert (k, d) (set xs)"
    by (induction xs) auto
  with assms show ?thesis
    by (auto simp: good_defs_def list_all_iff distinct_update)
qed

lemma good_defs_lookup: "good_defs ps xs \<Longrightarrow> map_of xs k = Some d \<Longrightarrow> good_def ps d"
  by (auto simp: good_defs_def list_all_iff dest: map_of_SomeD)

lemma default_keys_iff:
  assumes "good_defs ps (pc_properties c)"
  shows "k \<in> set (default_keys c) \<longleftrightarrow> default_of c k \<noteq> None"
proof
  assume "k \<in> set (default_keys c)"
  then obtain d where "(k, d) \<in> set (pc_properties c)" "pd_default d \<noteq> None"
    by (auto simp: default_keys_def)
  with assms show "default_of c k \<noteq> None"
    by (simp add: default_of_def good_defs_def)
next
  assume "default_of c k \<noteq> None"
  then obtain d v where "map_of (pc_properties c) k = Some d" "pd_default d = Some v"
    by (auto simp: default_of_def bind_eq_Some_conv)
  then show "k \<in> set (default_keys c)"
    by (force simp: default_keys_def dest: map_of_SomeD)
qed

lemma filled:
  assumes "good_defs ps (pc_properties c)"
  shows "\<exists>out. fill_create_defaults c props = Inr out \<and>
     (\<forall>k. map_of out k =
        (case map_of props k of
           Some p \<Rightarrow> Some p | None \<Rightarrow> map_option (\<lambda>v. PropSet k v False) (default_of c k)))"
proof -
  have "list_all (\<lambda>k. default_of c k \<noteq> None) (default_keys c)"
    using default_keys_iff [OF assms] by (simp add: list_all_iff)
  from fill_steps [OF this, of props] show ?thesis
    using default_keys_iff [OF assms] by (auto simp: fill_create_defaults_steps split: option.split)
qed

lemma res_foldl_invariant:
  "res_foldl f s xs = Inr s' \<Longrightarrow> P s \<Longrightarrow> (\<And>s x t. P s \<Longrightarrow> f s x = Inr t \<Longrightarrow> P t) \<Longrightarrow> P s'"
  by (induction xs arbitrary: s) (auto simp: res_bind_Inr_iff)

lemma fill_distinct:
  assumes "fill_create_defaults c props = Inr out" and "distinct (map fst props)"
  shows "distinct (map fst out)"
  using assms unfolding fill_create_defaults_steps
  by (rule res_foldl_invariant) (auto simp: fill_step_def distinct_update split: if_splits option.splits)

text \<open>The builders a caller can reach.\<close>

inductive built :: "parsers \<Rightarrow> properties_builder \<Rightarrow> bool" for ps where
  built_new: "builder_new ps = Some b \<Longrightarrow> built ps b"
| built_kind: "built ps b \<Longrightarrow> built ps (builder_kind b k)"
| built_add: "built ps b \<Longrightarrow> builder_add ps b name pat r m s d k pe = Inr b' \<Longrightarrow> built ps b'"
| built_string: "built ps b \<Longrightarrow> add_string ps b name = Inr b' \<Longrightarrow> built ps b'"
| built_point: "built ps b \<Longrightarrow> add_point ps b name r m = Inr b' \<Longrightarrow> built ps b'"

lemma built_good: "built ps b \<Longrightarrow> good_defs ps (pb_properties b)"
proof (induction rule: built.induct)
  case (built_new b)
  then show ?case
    by (auto simp: builder_new_def add_point_def property_def_new_def builder_insert_def good_defs_def
        good_def_def)
next
  case (built_add b name pat r m s d k pe b')
  then show ?case
    by (auto simp: builder_add_def builder_insert_def res_bind_Inr_iff
        intro!: good_defs_update property_def_new_good)
next
  case (built_string b name b')
  then show ?case
    by (auto simp: add_string_def builder_insert_def res_bind_Inr_iff
        intro!: good_defs_update property_def_new_good)
next
  case (built_point b name r m b')
  then show ?case
    by (auto simp: add_point_def builder_insert_def res_bind_Inr_iff
        intro!: good_defs_update property_def_new_good)
qed (simp add: builder_kind_def)

lemma build_good:
  "built ps b \<Longrightarrow> builder_build b = Inr c \<Longrightarrow> good_defs ps (pc_properties c)"
  using built_good by (auto simp: builder_build_def res_bind_Inr_iff)

lemma builder_new_total: "builder_new ps \<noteq> None"
  by (simp add: builder_new_def add_point_def property_def_new_def)

lemma check_create_mod_total:
  "good_defs ps (pc_properties c) \<Longrightarrow> check_create_mod ps c e \<noteq> None"
  by (cases e)
    (auto simp: check_create_mod_def Let_def good_def_def dest: good_defs_lookup
      split: option.split property_mod.split)

lemma check_create_total: "good_defs ps (pc_properties c) \<Longrightarrow> check_create ps c props \<noteq> None"
  using first_failure_total [of "check_create_mod ps c" props] check_create_mod_total [of ps c]
  by (simp add: check_create_def list_all_iff split: option.split)

text \<open>For every configuration a builder produces, filling in the defaults of a create succeeds,
  keeps every given change, adds exactly the default values of the keys that were not given, and
  the check of the result never panics.\<close>

theorem defaults_are_filled_in:
  assumes "built ps b" and "builder_build b = Inr c"
  shows "\<exists>out. fill_create_defaults c props = Inr out \<and> check_create ps c out \<noteq> None \<and>
    map_of out k =
      (case map_of props k of
         Some p \<Rightarrow> Some p | None \<Rightarrow> map_option (\<lambda>v. PropSet k v False) (default_of c k))"
  using filled [OF build_good [OF assms], of props] check_create_total [OF build_good [OF assms]]
  by blast

text \<open>The configuration of a mechtron as \<open>Cosmos::properties_config\<close> builds it, with a parser that
  accepts every text as a point.\<close>

definition lenient :: parsers where
  "lenient = \<lparr>parse_point = (\<lambda>_. Inr hyperuser), parse_err = err_of_string, validate_email = (\<lambda>_. False)\<rparr>"

definition point_def_of :: "bool \<Rightarrow> bool \<Rightarrow> property_def" where
  "point_def_of required mutable =
     \<lparr>pd_pattern = PointPattern, pd_required = required, pd_mutable = mutable, pd_source = SourceShell,
      pd_default = None, pd_constant = False, pd_permits = []\<rparr>"

definition sample_builder :: properties_builder where
  "sample_builder =
     \<lparr>pb_kind = Some KMechtron,
      pb_properties = [(''bind'', point_def_of False True),
        (''level'', \<lparr>pd_pattern = U64Pattern, pd_required = True, pd_mutable = True,
                     pd_source = SourceShell, pd_default = Some ''7'', pd_constant = True,
                     pd_permits = []\<rparr>)]\<rparr>"

definition sample_config :: properties_config where
  "sample_config = \<lparr>pc_properties = pb_properties sample_builder, pc_kind = KMechtron\<rparr>"

lemma sample_built: "built lenient sample_builder" "builder_build sample_builder = Inr sample_config"
proof -
  have 1: "builder_new lenient = Some \<lparr>pb_kind = None, pb_properties = [(''bind'', point_def_of False True)]\<rparr>"
    by (simp add: builder_new_def add_point_def property_def_new_def builder_insert_def point_def_of_def)
  have "builder_add lenient
      (builder_kind \<lparr>pb_kind = None, pb_properties = [(''bind'', point_def_of False True)]\<rparr> KMechtron)
      ''level'' U64Pattern True True SourceShell (Some ''7'') True [] = Inr sample_builder"
    by (simp add: builder_add_def property_def_new_def builder_insert_def builder_kind_def
        sample_builder_def u64_from_str_def u64_step_def is_digit_def of_text_err_def)
  from built_add [OF built_kind [OF built_new [OF 1]] this] show "built lenient sample_builder" .
  show "builder_build sample_builder = Inr sample_config"
    by (simp add: builder_build_def sample_builder_def sample_config_def)
qed

theorem defaults_are_filled_in_witness:
  "\<exists>out. fill_create_defaults sample_config [] = Inr out \<and> check_create lenient sample_config out \<noteq> None \<and>
     map_of out ''level'' = Some (PropSet ''level'' ''7'' False)"
  using defaults_are_filled_in [OF sample_built, of "[]" "''level''"]
  by (simp add: default_of_def sample_config_def sample_builder_def)

text \<open>Filling in defaults never spoils a create: for every configuration a builder produces in
  which no property that is read only in the mesh has a default, changes that are accepted as they
  are stay accepted with the defaults added.\<close>

theorem defaults_keep_create_accepted:
  assumes "built ps b" and "builder_build b = Inr c" and "distinct (map fst props)"
    and "check_create ps c props = Some (Inr ())"
    and "list_all (\<lambda>(k, d). pd_source d \<noteq> SourceCoreReadOnly \<or> pd_default d = None) (pc_properties c)"
  shows "\<exists>out. fill_create_defaults c props = Inr out \<and> check_create ps c out = Some (Inr ())"
proof -
  note good = build_good [OF assms(1,2)]
  obtain out where out: "fill_create_defaults c props = Inr out"
    and lookup: "\<And>k. map_of out k =
      (case map_of props k of
         Some p \<Rightarrow> Some p | None \<Rightarrow> map_option (\<lambda>v. PropSet k v False) (default_of c k))"
    using filled [OF good, of props] by blast
  note dist = fill_distinct [OF out assms(3)]
  from assms(4) have req: "list_all (has_key props) (required_keys c)"
    and ok: "list_all (creatable ps c) props"
    by (simp_all add: check_create_accepts)
  have "has_key out k" if "has_key props k" for k
    using that lookup [of k] by (auto simp: has_key_def)
  with req have "list_all (has_key out) (required_keys c)" by (auto simp: list_all_iff)
  moreover have "creatable ps c (k, p)" if "(k, p) \<in> set out" for k p
  proof (cases "map_of props k")
    case (Some q)
    with that lookup [of k] dist have "p = q" by simp
    with Some ok show ?thesis by (auto simp: list_all_iff dest: map_of_SomeD)
  next
    case None
    with that lookup [of k] dist obtain v where "p = PropSet k v False" "default_of c k = Some v"
      by (cases "default_of c k") auto
    then obtain d where d: "map_of (pc_properties c) k = Some d" "pd_default d = Some v"
      by (auto simp: default_of_def bind_eq_Some_conv)
    with assms(5) have "pd_source d \<noteq> SourceCoreReadOnly"
      by (force simp: list_all_iff dest: map_of_SomeD)
    with d good_defs_lookup [OF good d(1)] \<open>p = _\<close> show ?thesis
      by (simp add: creatable_def good_def_def)
  qed
  ultimately show ?thesis using out by (auto simp: check_create_accepts list_all_iff)
qed

theorem defaults_keep_create_accepted_witness:
  "\<exists>out. fill_create_defaults sample_config [(''level'', PropSet ''level'' ''7'' True)] = Inr out
     \<and> check_create lenient sample_config out = Some (Inr ())"
  by (rule defaults_keep_create_accepted [OF sample_built])
    (simp_all add: check_create_accepts required_keys_def creatable_def has_key_def sample_config_def
      sample_builder_def point_def_of_def u64_from_str_def u64_step_def is_digit_def of_text_err_def)

end
