(* ===== verification/Registry.thy ===== *)
theory Registry
  imports Properties
begin

text \<open>
  The records of particles (\<open>particle.rs\<close>, \<open>hyper.rs\<close>), the errors of the hyperspace crate
  (\<open>cosmic-hyperspace/src/err.rs\<close>), the in-memory registry (\<open>mem/registry.rs\<close>) behind the
  interface \<open>RegistryApi\<close> (\<open>reg.rs\<close>), and the creation of a particle by the global executor
  (\<open>global.rs\<close>, with \<open>select_kind\<close> and \<open>properties_config\<close> of \<open>lib.rs\<close>), which
  relies on that interface only.
\<close>

section \<open>Errors of the hyperspace\<close>

datatype err_kind = ErrDefault | ErrDupe | ErrStatus "16 word"

record cosmic_err =
  ce_kind :: err_kind
  ce_message :: string

definition cosmic_err_new :: "string \<Rightarrow> cosmic_err" where
  "cosmic_err_new m = \<lparr>ce_kind = ErrDefault, ce_message = m\<rparr>"

definition cosmic_err_status_msg :: "16 word \<Rightarrow> string \<Rightarrow> cosmic_err" where
  "cosmic_err_status_msg st m = cosmic_err_new m"

definition cosmic_err_with_kind :: "err_kind \<Rightarrow> string \<Rightarrow> cosmic_err" where
  "cosmic_err_with_kind k m = \<lparr>ce_kind = k, ce_message = m\<rparr>"

definition cosmic_err_not_found :: cosmic_err where
  "cosmic_err_not_found = cosmic_err_status_msg 404 ''Not Found''"

definition cosmic_err_status :: "cosmic_err \<Rightarrow> 16 word" where
  "cosmic_err_status e = (case ce_kind e of ErrStatus c \<Rightarrow> c | _ \<Rightarrow> 500)"

definition cosmic_err_of_space :: "space_err \<Rightarrow> cosmic_err" where
  "cosmic_err_of_space e = cosmic_err_new (err_to_string e)"

definition cosmic_err_to_space :: "cosmic_err \<Rightarrow> space_err option" where
  "cosmic_err_to_space e = err_server_error (ce_message e)"

definition space_res :: "space_err + 'a \<Rightarrow> cosmic_err + 'a" where
  "space_res r = (case r of Inl e \<Rightarrow> Inl (cosmic_err_of_space e) | Inr a \<Rightarrow> Inr a)"

section \<open>Particles\<close>

datatype particle_status =
    StatusUnknown | StatusPending | StatusInit | StatusPanic | StatusFatal | StatusReady
  | StatusPaused | StatusResuming | StatusDone

definition particle_status_variants :: "particle_status list" where
  "particle_status_variants =
     [StatusUnknown, StatusPending, StatusInit, StatusPanic, StatusFatal, StatusReady,
      StatusPaused, StatusResuming, StatusDone]"

fun particle_status_to_string :: "particle_status \<Rightarrow> string" where
  "particle_status_to_string StatusUnknown = ''Unknown''"
| "particle_status_to_string StatusPending = ''Pending''"
| "particle_status_to_string StatusInit = ''Init''"
| "particle_status_to_string StatusPanic = ''Panic''"
| "particle_status_to_string StatusFatal = ''Fatal''"
| "particle_status_to_string StatusReady = ''Ready''"
| "particle_status_to_string StatusPaused = ''Paused''"
| "particle_status_to_string StatusResuming = ''Resuming''"
| "particle_status_to_string StatusDone = ''Done''"

datatype exit_code = CodeOk | CodeError "32 word"

fun exit_code_to_string :: "exit_code \<Rightarrow> string" where
  "exit_code_to_string CodeOk = ''Ok''"
| "exit_code_to_string (CodeError c) = ''Err('' @ int_to_string (sint c) @ '')''"

record progress =
  prog_step :: "16 word"
  prog_total :: "16 word"

definition progress_to_string :: "progress \<Rightarrow> string" where
  "progress_to_string p = u16_to_string (prog_step p) @ ''/'' @ u16_to_string (prog_total p)"

record property =
  prop_key :: string
  prop_value :: string
  prop_locked :: bool

type_synonym properties = "string \<rightharpoonup> property"

record stub =
  stub_point :: point
  stub_kind :: kind
  stub_status :: particle_status

definition stub_default :: stub where
  "stub_default = \<lparr>stub_point = root_point, stub_kind = KRoot, stub_status = StatusUnknown\<rparr>"

record details =
  det_stub :: stub
  det_properties :: properties

definition details_default :: details where
  "details_default = \<lparr>det_stub = stub_default, det_properties = Map.empty\<rparr>"

record point_kind =
  pkd_point :: point
  pkd_kind :: kind

definition point_and_kind :: "stub \<Rightarrow> point_kind" where
  "point_and_kind s = \<lparr>pkd_point = stub_point s, pkd_kind = stub_kind s\<rparr>"

definition point_kind_to_string :: "point_kind \<Rightarrow> string" where
  "point_kind_to_string p = point_to_string (pkd_point p) @ ''<'' @ kind_name (pkd_kind p) @ ''>''"

datatype aspect = AspectLog | AspectState | AspectProperty | AspectChild

record watch =
  watch_point :: point
  watch_aspect :: aspect

text \<open>Where a particle lives; \<open>central\<close> is \<open>Point::central()\<close>.\<close>

datatype location = LocCentral | LocNowhere | LocSomewhere point

fun location_to_string :: "point \<Rightarrow> location \<Rightarrow> string" where
  "location_to_string central LocNowhere = ''Unassigned''"
| "location_to_string central (LocSomewhere p) = point_to_string p"
| "location_to_string central LocCentral = point_to_string central"

fun location_ok_or :: "point \<Rightarrow> location \<Rightarrow> space_err + point" where
  "location_ok_or central LocNowhere = Inl (err_of_string ''Particle is presently nowhere'')"
| "location_ok_or central (LocSomewhere p) = Inr p"
| "location_ok_or central LocCentral = Inr central"

record particle_location =
  loc_star :: "point option"
  loc_host :: "point option"

definition particle_location_default :: particle_location where
  "particle_location_default = \<lparr>loc_star = None, loc_host = None\<rparr>"

record particle_record =
  rec_details :: details
  rec_location :: particle_location

definition particle_record_root :: particle_record where
  "particle_record_root =
     \<lparr>rec_details =
        \<lparr>det_stub = \<lparr>stub_point = root_point, stub_kind = KRoot, stub_status = StatusReady\<rparr>,
         det_properties = Map.empty\<rparr>,
      rec_location = particle_location_default\<rparr>"

section \<open>Computations with a registry\<close>

text \<open>An operation that reads and writes a state: a panic (\<open>None\<close>), or a result and the state it
  leaves, also when it fails.\<close>

type_synonym ('s, 'a) io = "'s \<Rightarrow> ((cosmic_err + 'a) \<times> 's) option"

definition io_return :: "'a \<Rightarrow> ('s, 'a) io" where
  "io_return a s = Some (Inr a, s)"

definition io_fail :: "cosmic_err \<Rightarrow> ('s, 'a) io" where
  "io_fail e s = Some (Inl e, s)"

definition io_panic :: "('s, 'a) io" where
  "io_panic s = None"

definition io_lift :: "cosmic_err + 'a \<Rightarrow> ('s, 'a) io" where
  "io_lift r s = Some (r, s)"

definition io_bind :: "('s, 'a) io \<Rightarrow> ('a \<Rightarrow> ('s, 'b) io) \<Rightarrow> ('s, 'b) io" where
  "io_bind m f s =
     (case m s of
        None \<Rightarrow> None
      | Some (r, s') \<Rightarrow> (case r of Inl e \<Rightarrow> Some (Inl e, s') | Inr a \<Rightarrow> f a s'))"

lemma io_simps [simp]:
  "io_return a s = Some (Inr a, s)" "io_fail e s = Some (Inl e, s)" "io_panic s = None"
  "io_lift r s = Some (r, s)"
  by (simp_all add: io_return_def io_fail_def io_panic_def io_lift_def)

lemma io_bind_ok:
  "io_bind m f s = Some (Inr b, s'') \<longleftrightarrow> (\<exists>a s'. m s = Some (Inr a, s') \<and> f a s' = Some (Inr b, s''))"
  by (auto simp: io_bind_def split: option.split sum.split)

lemma io_bind_pure [simp]:
  "io_bind (io_return a) f s = f a s" "io_bind (io_fail e) f s = Some (Inl e, s)"
  "io_bind io_panic f s = None" "io_bind (io_lift (Inr a)) f s = f a s"
  "io_bind (io_lift (Inl e)) f s = Some (Inl e, s)"
  by (simp_all add: io_bind_def)

section \<open>The registry\<close>

datatype strategy = StrategyCommit | StrategyEnsure | StrategyOverride
datatype set_label = LabelSet string | LabelSetValue string string | LabelUnset string

record registration =
  reg_point :: point
  reg_kind :: kind
  reg_registry :: "set_label list"
  reg_props :: set_properties
  reg_owner :: point
  reg_strategy :: strategy
  reg_status :: particle_status

text \<open>The operations of \<open>RegistryApi\<close> its modelled clients call.\<close>

record 's registry_api =
  api_register :: "registration \<Rightarrow> ('s, unit) io"
  api_set_status :: "point \<Rightarrow> particle_status \<Rightarrow> ('s, unit) io"
  api_set_properties :: "point \<Rightarrow> set_properties \<Rightarrow> ('s, unit) io"
  api_sequence :: "point \<Rightarrow> ('s, 64 word) io"
  api_record :: "point \<Rightarrow> ('s, particle_record) io"

text \<open>\<open>MemRegCtx\<close>: the maps are \<open>DashMap\<close>s, of which no operation uses the order.\<close>

record mem_reg =
  mem_sequence :: "64 word"
  mem_particles :: "point \<rightharpoonup> particle_record"
  mem_properties :: "point \<rightharpoonup> properties"

definition mem_reg_new :: mem_reg where
  "mem_reg_new = \<lparr>mem_sequence = 0, mem_particles = Map.empty, mem_properties = Map.empty\<rparr>"

fun set_property :: "properties \<Rightarrow> string \<times> property_mod \<Rightarrow> properties" where
  "set_property rtn (i, PropSet key value lock) =
     rtn(i \<mapsto> \<lparr>prop_key = key, prop_value = value, prop_locked = lock\<rparr>)"
| "set_property rtn (i, PropUnSet _) = rtn"

definition mem_set_properties :: "point \<Rightarrow> set_properties \<Rightarrow> (mem_reg, unit) io" where
  "mem_set_properties p props s =
     Some (Inr (), s\<lparr>mem_properties := (mem_properties s)(p \<mapsto> foldl set_property Map.empty props)\<rparr>)"

definition mem_get_properties :: "point \<Rightarrow> (mem_reg, properties) io" where
  "mem_get_properties p s =
     Some (Inr (case mem_properties s p of None \<Rightarrow> Map.empty | Some mul \<Rightarrow> mul), s)"

definition mem_register :: "registration \<Rightarrow> (mem_reg, unit) io" where
  "mem_register r =
     io_bind (mem_set_properties (reg_point r) (reg_props r)) (\<lambda>_.
     io_bind (mem_get_properties (reg_point r)) (\<lambda>props s.
       let details = \<lparr>det_stub = \<lparr>stub_point = reg_point r, stub_kind = reg_kind r,
                                 stub_status = StatusPending\<rparr>,
                      det_properties = props\<rparr>;
           rec = \<lparr>rec_details = details, rec_location = particle_location_default\<rparr>
       in Some (Inr (), s\<lparr>mem_particles := (mem_particles s)(reg_point r \<mapsto> rec)\<rparr>)))"

definition mem_assign_star :: "point \<Rightarrow> point \<Rightarrow> (mem_reg, unit) io" where
  "mem_assign_star p star s =
     (case mem_particles s p of
        None \<Rightarrow> None
      | Some r \<Rightarrow>
          Some (Inr (), s\<lparr>mem_particles := (mem_particles s)
            (p \<mapsto> r\<lparr>rec_location := (rec_location r)\<lparr>loc_star := Some star\<rparr>\<rparr>)\<rparr>))"

definition mem_assign_host :: "point \<Rightarrow> point \<Rightarrow> (mem_reg, unit) io" where
  "mem_assign_host p host s =
     (case mem_particles s p of
        None \<Rightarrow> None
      | Some r \<Rightarrow>
          Some (Inr (), s\<lparr>mem_particles := (mem_particles s)
            (p \<mapsto> r\<lparr>rec_location := (rec_location r)\<lparr>loc_host := Some host\<rparr>\<rparr>)\<rparr>))"

definition with_status :: "particle_status \<Rightarrow> particle_record \<Rightarrow> particle_record" where
  "with_status st r =
     r\<lparr>rec_details := (rec_details r)\<lparr>det_stub := (det_stub (rec_details r))\<lparr>stub_status := st\<rparr>\<rparr>\<rparr>"

definition mem_set_status :: "point \<Rightarrow> particle_status \<Rightarrow> (mem_reg, unit) io" where
  "mem_set_status p st s =
     (case mem_particles s p of
        None \<Rightarrow> Some (Inl (cosmic_err_new (''not found: '' @ point_to_string p)), s)
      | Some r \<Rightarrow> Some (Inr (), s\<lparr>mem_particles := (mem_particles s)(p \<mapsto> with_status st r)\<rparr>))"

text \<open>\<open>fetch_add\<close> wraps around.\<close>

definition mem_next_sequence :: "point \<Rightarrow> (mem_reg, 64 word) io" where
  "mem_next_sequence p s = Some (Inr (mem_sequence s), s\<lparr>mem_sequence := mem_sequence s + 1\<rparr>)"

definition mem_record :: "point \<Rightarrow> (mem_reg, particle_record) io" where
  "mem_record p =
     io_bind (mem_get_properties p) (\<lambda>props s.
       case mem_particles s p of
         None \<Rightarrow> Some (Inl (cosmic_err_new ''not found''), s)
       | Some r \<Rightarrow> Some (Inr (r\<lparr>rec_details := (rec_details r)\<lparr>det_properties := props\<rparr>\<rparr>), s))"

definition mem_access :: "point \<Rightarrow> point \<Rightarrow> (mem_reg, access) io" where
  "mem_access to on = io_return AccSuper"

definition mem_api :: "mem_reg registry_api" where
  "mem_api =
     \<lparr>api_register = mem_register, api_set_status = mem_set_status,
      api_set_properties = mem_set_properties, api_sequence = mem_next_sequence,
      api_record = mem_record\<rparr>"

section \<open>Provisioning\<close>

datatype 'b state_src = StateNone | StateSubstance 'b

fun has_substance :: "'b state_src \<Rightarrow> bool" where
  "has_substance StateNone = False"
| "has_substance (StateSubstance _) = True"

fun get_substance :: "'b state_src \<Rightarrow> space_err + 'b" where
  "get_substance StateNone = Inl (server_error ''state has no substance'')"
| "get_substance (StateSubstance b) = Inr b"

text \<open>What comes back from the star that is asked to provision: the status of the pong, and its
  body when that is a location.\<close>

type_synonym provision_pong = "16 word \<times> particle_location option"

text \<open>\<open>SmartLocator\<close>: \<open>ask star (point, state)\<close> is the ping to the star that hosts the
  parent; \<open>parse_sel\<close> the parser of selectors a kind template is made with, which panics when it
  fails.  First the part after the parent has been located.\<close>

definition provision_failed ::
  "(string \<Rightarrow> space_err + specific_selector) \<Rightarrow> 's registry_api \<Rightarrow> point \<Rightarrow> 16 word
   \<Rightarrow> ('s, particle_location) io" where
  "provision_failed parse_sel api p st s =
     (case api_record api p s of
        None \<Rightarrow> None
      | Some (Inl _, s') \<Rightarrow>
          io_fail (cosmic_err_new (''failed to provision '' @ point_to_string p)) s'
      | Some (Inr r, s') \<Rightarrow>
          (case to_template parse_sel (stub_kind (det_stub (rec_details r))) of
             None \<Rightarrow> None
           | Some t \<Rightarrow>
               io_fail (cosmic_err_new (''failed to provision '' @ point_to_string p @ ''<''
                 @ kind_template_to_string t @ ''> status code '' @ u16_to_string st)) s'))"

definition provision_at ::
  "(string \<Rightarrow> space_err + specific_selector) \<Rightarrow> 's registry_api
   \<Rightarrow> (point \<Rightarrow> point \<times> 'b state_src \<Rightarrow> ('s, provision_pong) io) \<Rightarrow> point \<Rightarrow> 'b state_src
   \<Rightarrow> particle_record \<Rightarrow> ('s, particle_location) io" where
  "provision_at parse_sel api ask p state parent_record =
     (case loc_star (rec_location parent_record) of
        None \<Rightarrow> io_panic
      | Some parent_star \<Rightarrow>
          io_bind (ask parent_star (p, state)) (\<lambda>(st, body).
          if st = 200 then
            (case body of
               Some l \<Rightarrow> io_return l
             | None \<Rightarrow> io_fail (cosmic_err_new ''Provision result expected Substance Point''))
          else
            io_bind (api_set_status api p StatusPanic) (\<lambda>_. provision_failed parse_sel api p st)))"

function provision_inner ::
  "(string \<Rightarrow> space_err + specific_selector) \<Rightarrow> 's registry_api
   \<Rightarrow> (point \<Rightarrow> point \<times> 'b state_src \<Rightarrow> ('s, provision_pong) io) \<Rightarrow> point \<Rightarrow> 'b state_src
   \<Rightarrow> ('s, particle_location) io" where
  "provision_inner parse_sel api ask p state =
     (case point_parent p of
        None \<Rightarrow> io_fail (cosmic_err_new ''expected Root to be provisioned'')
      | Some par \<Rightarrow>
          io_bind (api_record api par) (\<lambda>parent_record.
          io_bind (if loc_star (rec_location parent_record) = None then
                     io_bind (provision_inner parse_sel api ask par StateNone) (\<lambda>_. api_record api par)
                   else io_return parent_record)
            (provision_at parse_sel api ask p state)))"
  by pat_completeness auto
termination
  by (relation "measure (\<lambda>(parse_sel, api, ask, p, state). length (segments p))")
    (auto dest: point_parent_length)

declare provision_inner.simps [simp del]

definition locate ::
  "(string \<Rightarrow> space_err + specific_selector) \<Rightarrow> 's registry_api \<Rightarrow> (point \<Rightarrow> point \<times> 'b state_src \<Rightarrow> ('s, provision_pong) io) \<Rightarrow> point
   \<Rightarrow> ('s, particle_location) io" where
  "locate parse_sel api ask p =
     io_bind (api_record api p) (\<lambda>r.
       if loc_star (rec_location r) \<noteq> None then io_return (rec_location r)
       else provision_inner parse_sel api ask p StateNone)"

section \<open>Creation by the global executor\<close>

datatype point_seg_template = SegExact string | SegPattern string | SegRoot

record 'b create =
  cr_parent :: point
  cr_segment :: point_seg_template
  cr_kind :: kind_template
  cr_properties :: set_properties
  cr_strategy :: strategy
  cr_state :: "'b state_src"

text \<open>\<open>Cosmos::select_kind\<close>; \<open>parse_spec\<close> reads the fixed specific of a user base.  \<open>None\<close> is
  \<open>unimplemented!\<close>.\<close>

definition select_kind :: "string \<Rightarrow> (string \<Rightarrow> space_err + specific) \<Rightarrow> kind_template \<Rightarrow> (space_err + kind) option"
where
  "select_kind perr parse_spec t =
     (case strum_from_str perr base_kind_variants base_kind_to_string (base_kind_to_string (kt_base t)) of
        Inl e \<Rightarrow> Some (Inl e)
      | Inr base \<Rightarrow>
          (case base of
             BKRoot \<Rightarrow> Some (Inr KRoot)
           | BKSpace \<Rightarrow> Some (Inr KSpace)
           | BKBase \<Rightarrow> Some (Inr KBase)
           | BKUser \<Rightarrow> Some (Inr KUser)
           | BKApp \<Rightarrow> Some (Inr KApp)
           | BKMechtron \<Rightarrow> Some (Inr KMechtron)
           | BKFileSystem \<Rightarrow> Some (Inr KFileSystem)
           | BKFile \<Rightarrow>
               (case kt_sub t of
                  None \<Rightarrow> Some (Inl (err_of_string ''expected kind for File''))
                | Some sub \<Rightarrow>
                    Some (res_bind (strum_from_str perr file_sub_variants file_sub_to_string sub)
                      (\<lambda>f. Inr (KFile f))))
           | BKDatabase \<Rightarrow> None
           | BKBundleSeries \<Rightarrow> Some (Inr KBundleSeries)
           | BKBundle \<Rightarrow> Some (Inr KBundle)
           | BKArtifact \<Rightarrow>
               (case kt_sub t of
                  None \<Rightarrow> Some (Inl (err_of_string ''expected Sub for Artirtact''))
                | Some sub \<Rightarrow>
                    Some (res_bind (strum_from_str perr artifact_sub_variants artifact_sub_to_string sub)
                      (\<lambda>a. Inr (KArtifact a))))
           | BKControl \<Rightarrow> Some (Inr KControl)
           | BKUserBase \<Rightarrow>
               (case kt_sub t of
                  None \<Rightarrow> Some (Inl (err_of_string ''SubKind must be set for UserBase<?>''))
                | Some sub \<Rightarrow>
                    Some (res_bind (parse_spec ''starlane.io:redhat.com:keycloak:community:18.0.0'')
                      (\<lambda>s. Inr (KUserBase (OAuth s)))))
           | BKRepo \<Rightarrow> Some (Inr KRepo)
           | BKPortal \<Rightarrow> Some (Inr KPortal)
           | BKStar \<Rightarrow> None
           | BKDriver \<Rightarrow> Some (Inr KDriver)
           | BKGlobal \<Rightarrow> Some (Inr KGlobal)
           | BKHost \<Rightarrow> Some (Inr KHost)
           | BKGuest \<Rightarrow> Some (Inr KGuest)
           | BKNative \<Rightarrow> Some (Inr (KNative NativeWeb))))"

text \<open>\<open>Cosmos::properties_config\<close>, with its \<open>unwrap\<close>s.\<close>

definition right :: "'e + 'a \<Rightarrow> 'a option" where
  "right r = (case r of Inl _ \<Rightarrow> None | Inr a \<Rightarrow> Some a)"

definition config_of_kind :: "parsers \<Rightarrow> kind \<Rightarrow> properties_config option" where
  "config_of_kind ps k =
     Option.bind (builder_new ps) (\<lambda>b.
       let b = builder_kind b k
       in case to_base k of
            BKMechtron \<Rightarrow>
              Option.bind (right (add_point ps b ''config'' True True)) (\<lambda>b. right (builder_build b))
          | BKHost \<Rightarrow>
              Option.bind (right (add_point ps b ''bin'' True True)) (\<lambda>b. right (builder_build b))
          | _ \<Rightarrow> right (builder_build b))"

text \<open>\<open>pattern.replace("%", index)\<close>.\<close>

definition substitute_percent :: "string \<Rightarrow> string \<Rightarrow> string" where
  "substitute_percent pat idx = concat (map (\<lambda>c. if c = CHR ''%'' then idx else [c]) pat)"

text \<open>What the executor has besides the registry: the parsers, the locator's exchange with stars.\<close>

record ('s, 'b) executor =
  ex_parsers :: parsers
  ex_strum_err :: string
  ex_parse_spec :: "string \<Rightarrow> space_err + specific"
  ex_parse_sel :: "string \<Rightarrow> space_err + specific_selector"
  ex_ask :: "point \<Rightarrow> point \<times> 'b state_src \<Rightarrow> ('s, provision_pong) io"

text \<open>The three branches on the template of the last segment.\<close>

definition create_exact ::
  "('s, 'b) executor \<Rightarrow> 's registry_api \<Rightarrow> 'b create \<Rightarrow> agent \<Rightarrow> kind \<Rightarrow> string \<Rightarrow> ('s, point) io" where
  "create_exact ex api cr agent child_kind seg =
     io_bind (io_lift (space_res (point_push (parse_point (ex_parsers ex)) (cr_parent cr) seg))) (\<lambda>p.
     case config_of_kind (ex_parsers ex) child_kind of
       None \<Rightarrow> io_panic
     | Some config \<Rightarrow>
         io_bind (io_lift (space_res (fill_create_defaults config (cr_properties cr)))) (\<lambda>props.
         case check_create (ex_parsers ex) config props of
           None \<Rightarrow> io_panic
         | Some checked \<Rightarrow>
             io_bind (io_lift (space_res checked)) (\<lambda>_.
             io_bind (api_register api
               \<lparr>reg_point = p, reg_kind = child_kind, reg_registry = [], reg_props = props,
                reg_owner = agent_to_point agent, reg_strategy = cr_strategy cr,
                reg_status = StatusReady\<rparr>) (\<lambda>_.
             io_return p))))"

definition create_pattern ::
  "('s, 'b) executor \<Rightarrow> 's registry_api \<Rightarrow> 'b create \<Rightarrow> kind \<Rightarrow> string \<Rightarrow> ('s, point) io" where
  "create_pattern ex api cr child_kind pat =
     (if CHR ''%'' \<notin> set pat then
        io_fail (cosmic_err_status_msg 500
          ''AddressSegmentTemplate::Pattern must have at least one '%' char for substitution'')
      else
        io_bind (api_sequence api (cr_parent cr)) (\<lambda>index.
        let child_segment = substitute_percent pat (nat_to_string (unat index))
        in io_bind (io_lift (space_res
             (point_push (parse_point (ex_parsers ex)) (cr_parent cr) child_segment))) (\<lambda>p.
           io_bind (api_register api
             \<lparr>reg_point = p, reg_kind = child_kind, reg_registry = [], reg_props = cr_properties cr,
              reg_owner = root_point, reg_strategy = cr_strategy cr, reg_status = StatusReady\<rparr>) (\<lambda>_.
           io_return p))))"

definition create_particle ::
  "('s, 'b) executor \<Rightarrow> 's registry_api \<Rightarrow> 'b create \<Rightarrow> agent \<Rightarrow> ('s, details) io" where
  "create_particle ex api cr agent =
     (case select_kind (ex_strum_err ex) (ex_parse_spec ex) (cr_kind cr) of
        None \<Rightarrow> io_panic
      | Some (Inl _) \<Rightarrow>
          io_fail (cosmic_err_new
            (''Kind '' @ kind_template_to_string (cr_kind cr) @ '' is not available on this Platform''))
      | Some (Inr child_kind) \<Rightarrow>
          io_bind
            (case cr_segment cr of
               SegExact seg \<Rightarrow> create_exact ex api cr agent child_kind seg
             | SegPattern pat \<Rightarrow> create_pattern ex api cr child_kind pat
             | SegRoot \<Rightarrow> io_return root_point) (\<lambda>p.
          io_bind
            (if has_substance (cr_state cr) \<or> is_auto_provision child_kind then
               io_bind (provision_inner (ex_parse_sel ex) api (ex_ask ex) p (cr_state cr)) (\<lambda>_. io_return ())
             else io_return ()) (\<lambda>_.
          io_bind (api_record api p) (\<lambda>r.
          io_return (rec_details r)))))"

section \<open>The interface of registries\<close>

definition located_in :: "'s registry_api \<Rightarrow> 's \<Rightarrow> point \<Rightarrow> bool" where
  "located_in api s q \<longleftrightarrow> (\<exists>r. api_record api q s = Some (Inr r, s) \<and> loc_star (rec_location r) \<noteq> None)"

text \<open>Every particle with a star has its parent on a star.\<close>

definition parents_located :: "'s registry_api \<Rightarrow> 's \<Rightarrow> bool" where
  "parents_located api s \<longleftrightarrow>
     (\<forall>q par. located_in api s q \<and> point_parent q = Some par \<longrightarrow> located_in api s par)"

lemma provision_failed_fails:
  "provision_failed parse_sel api p st s = Some (a, s') \<Longrightarrow> \<exists>e r. a = Inl e \<and> api_record api p s = Some (r, s')"
  by (auto simp: provision_failed_def split: option.splits sum.splits prod.splits)

locale registry =
  fixes api :: "'s registry_api"
  assumes record_pure: "api_record api p s = Some (rr, s') \<Longrightarrow> s' = s"
    and register_record: "api_register api g s = Some (Inr (), s') \<Longrightarrow>
      \<exists>r. api_record api (reg_point g) s' = Some (Inr r, s') \<and>
          stub_point (det_stub (rec_details r)) = reg_point g \<and>
          stub_kind (det_stub (rec_details r)) = reg_kind g \<and>
          (\<forall>k m. (k, m) \<in> set (reg_props g) \<and> mod_opt m \<noteq> None \<longrightarrow> det_properties (rec_details r) k \<noteq> None)"
    and register_frame: "api_register api g s = Some (x, s') \<Longrightarrow> p \<noteq> reg_point g \<Longrightarrow>
      map_option fst (api_record api p s') = map_option fst (api_record api p s)"
    and sequence_frame: "api_sequence api q s = Some (n, s') \<Longrightarrow>
      map_option fst (api_record api p s') = map_option fst (api_record api p s)"
    and set_status_located: "api_set_status api q st s = Some (u, s') \<Longrightarrow>
      located_in api s' p = located_in api s p"
begin

lemma exact_registers_required:
  assumes "create_exact ex api cr agent k seg s = Some (Inr p, s')"
    and "config_of_kind (ex_parsers ex) k = Some config"
  shows "\<exists>r. api_record api p s' = Some (Inr r, s') \<and>
    stub_kind (det_stub (rec_details r)) = k \<and>
    (\<forall>key \<in> set (required_keys config). det_properties (rec_details r) key \<noteq> None)"
proof -
  from assms obtain props where reg: "api_register api
      \<lparr>reg_point = p, reg_kind = k, reg_registry = [], reg_props = props,
       reg_owner = agent_to_point agent, reg_strategy = cr_strategy cr, reg_status = StatusReady\<rparr> s
      = Some (Inr (), s')"
    and chk: "check_create (ex_parsers ex) config props = Some (Inr ())"
    by (auto simp: create_exact_def io_bind_ok space_res_def split: sum.splits option.splits)
  from register_record [OF reg] obtain r where r: "api_record api p s' = Some (Inr r, s')"
      "stub_kind (det_stub (rec_details r)) = k"
    and stored: "\<And>key m. (key, m) \<in> set props \<Longrightarrow> mod_opt m \<noteq> None \<Longrightarrow>
      det_properties (rec_details r) key \<noteq> None"
    by fastforce
  have "det_properties (rec_details r) key \<noteq> None" if "key \<in> set (required_keys config)" for key
  proof -
    from chk that have "has_key props key" by (auto simp: check_create_accepts list_all_iff)
    then obtain m where m: "(key, m) \<in> set props" by (auto simp: has_key_iff)
    with chk have "creatable (ex_parsers ex) config (key, m)"
      by (auto simp: check_create_accepts list_all_iff)
    then have "mod_opt m \<noteq> None"
      by (auto simp: creatable_def split: option.splits property_mod.splits)
    with m stored show ?thesis by blast
  qed
  with r show ?thesis by blast
qed

lemma pattern_registers_unchecked:
  assumes "CHR ''%'' \<in> set pat" and "api_sequence api (cr_parent cr) s = Some (Inr n, s1)"
    and "point_push (parse_point (ex_parsers ex)) (cr_parent cr)
           (substitute_percent pat (nat_to_string (unat n))) = Inr p"
    and "api_register api
      \<lparr>reg_point = p, reg_kind = k, reg_registry = [], reg_props = cr_properties cr,
       reg_owner = root_point, reg_strategy = cr_strategy cr, reg_status = StatusReady\<rparr> s1 = Some (Inr (), s')"
  shows "create_pattern ex api cr k pat s = Some (Inr p, s')
    \<and> (\<exists>r. api_record api p s' = Some (Inr r, s') \<and> stub_kind (det_stub (rec_details r)) = k)"
  using assms register_record [OF assms(4)]
  by (auto simp: create_pattern_def io_bind_def Let_def space_res_def)

end

text \<open>A star that is asked to provision: it may locate the particle it is asked for, and must have
  done so when it answers 200; it locates and unlocates no other particle.\<close>

locale provisioner = registry +
  fixes ask :: "point \<Rightarrow> point \<times> 'b state_src \<Rightarrow> ('s, provision_pong) io"
  assumes ask_located: "ask star (p, st) s = Some (Inr (200, Some l), s') \<Longrightarrow> located_in api s' p"
    and ask_frame: "ask star (p, st) s = Some (a, s') \<Longrightarrow>
      located_in api s' q \<Longrightarrow> located_in api s q \<or> q = p"
    and ask_keeps: "ask star (p, st) s = Some (a, s') \<Longrightarrow> located_in api s q \<Longrightarrow> located_in api s' q"
begin

lemma ask_parents:
  assumes "ask star (p, st) s = Some (a, s')" and "parents_located api s"
    and "point_parent p = Some par" and "located_in api s par"
  shows "parents_located api s'"
  using assms ask_frame [OF assms(1)] ask_keeps [OF assms(1)]
  unfolding parents_located_def by (metis option.inject)

lemma set_status_parents:
  "api_set_status api q st s = Some (x, s') \<Longrightarrow> parents_located api s \<Longrightarrow> parents_located api s'"
  using set_status_located unfolding parents_located_def by metis

lemma provision_at_parents:
  assumes run: "provision_at parse_sel api ask p state pr s = Some (a, s')"
    and inv: "parents_located api s" and par: "point_parent p = Some par" "located_in api s par"
  shows "parents_located api s' \<and> (\<forall>q. located_in api s q \<longrightarrow> located_in api s' q)
     \<and> (\<forall>l. a = Inr l \<longrightarrow> located_in api s' p)"
proof -
  from run obtain star where star: "loc_star (rec_location pr) = Some star"
    by (auto simp: provision_at_def split: option.splits)
  with run obtain x s1 where ask: "ask star (p, state) s = Some (x, s1)"
    by (auto simp: provision_at_def io_bind_def split: option.splits)
  note inv1 = ask_parents [OF ask inv par] and keep1 = ask_keeps [OF ask]
  show ?thesis
  proof (cases x)
    case (Inl e)
    with run star ask inv1 keep1 show ?thesis by (auto simp: provision_at_def io_bind_def)
  next
    case (Inr y)
    obtain c body where y: "y = (c, body)" by (cases y)
    show ?thesis
    proof (cases "c = 200")
      case True
      with run star ask Inr y inv1 keep1 ask_located show ?thesis
        by (auto simp: provision_at_def io_bind_def split: option.splits)
    next
      case False
      with run star ask Inr y obtain z s2 where st: "api_set_status api p StatusPanic s1 = Some (z, s2)"
        and fails: "\<exists>e. a = Inl e" and s': "s' = s2 \<or> (\<exists>u. api_record api p s2 = Some (u, s'))"
        by (auto simp: provision_at_def io_bind_def split: option.splits sum.splits
            dest!: provision_failed_fails)
      then have "s' = s2" using record_pure by blast
      with set_status_parents [OF st inv1] set_status_located [OF st] keep1 fails show ?thesis by auto
    qed
  qed
qed

lemma provision_inner_locates:
  assumes "provision_inner parse_sel api ask p state s = Some (Inr l, s')"
  shows "located_in api s' p"
proof -
  from assms obtain pr t where "provision_at parse_sel api ask p state pr t = Some (Inr l, s')"
    by (auto simp: provision_inner.simps [of parse_sel api ask p] io_bind_ok split: option.splits)
  then have "\<exists>star l' t. ask star (p, state) t = Some (Inr (200, Some l'), s')"
    by (auto simp: provision_at_def io_bind_ok split: option.splits if_splits
        dest!: provision_failed_fails)
  with ask_located show ?thesis by blast
qed

text \<open>Whether or not provisioning succeeds, it keeps every located particle's parent located, and
  it never unlocates one; when it succeeds the particle is located.\<close>

lemma provision_inner_parents:
  "provision_inner parse_sel api ask p state s = Some (a, s') \<Longrightarrow> parents_located api s \<Longrightarrow>
     parents_located api s' \<and> (\<forall>q. located_in api s q \<longrightarrow> located_in api s' q)
     \<and> (\<forall>l. a = Inr l \<longrightarrow> located_in api s' p)"
proof (induction "length (segments p)" arbitrary: p state a s' rule: less_induct)
  case less
  note run = less.prems(1)[unfolded provision_inner.simps [of parse_sel api ask p]]
  show ?case
  proof (cases "point_parent p")
    case None
    with run less.prems(2) show ?thesis by auto
  next
    case par: (Some par)
    with run obtain rr where rec: "api_record api par s = Some (rr, s)"
      using record_pure by (auto simp: io_bind_def split: option.splits)
    show ?thesis
    proof (cases rr)
      case (Inl e)
      with run par rec less.prems(2) show ?thesis by (auto simp: io_bind_def)
    next
      case (Inr pr)
      show ?thesis
      proof (cases "loc_star (rec_location pr)")
        case (Some star)
        with rec Inr have "located_in api s par" by (auto simp: located_in_def)
        moreover from Some run par rec Inr have "provision_at parse_sel api ask p state pr s = Some (a, s')"
          by (simp add: io_bind_def)
        ultimately show ?thesis using provision_at_parents less.prems(2) par by blast
      next
        case None
        with run par rec Inr obtain b s1 where
          inner: "provision_inner parse_sel api ask par StateNone s = Some (b, s1)"
          by (auto simp: io_bind_def split: option.splits)
        note ih = less.hyps [OF point_parent_length [OF par] inner less.prems(2)]
        show ?thesis
        proof (cases b)
          case (Inl e)
          with run par rec Inr None inner ih show ?thesis by (auto simp: io_bind_def)
        next
          case (Inr l)
          with ih obtain pr1 where rec1: "api_record api par s1 = Some (Inr pr1, s1)"
            by (auto simp: located_in_def)
          with run par rec \<open>rr = Inr pr\<close> None inner Inr
          have "provision_at parse_sel api ask p state pr1 s1 = Some (a, s')"
            by (simp add: io_bind_def)
          with provision_at_parents ih par Inr show ?thesis by blast
        qed
      qed
    qed
  qed
qed

end

section \<open>The in-memory registry implements the interface\<close>

lemma set_property_keeps: "m k \<noteq> None \<Longrightarrow> foldl set_property m xs k \<noteq> None"
proof (induction xs arbitrary: m)
  case (Cons x xs)
  obtain i q where x: "x = (i, q)" by (cases x)
  from Cons.prems have "set_property m x k \<noteq> None" by (cases q) (simp_all add: x)
  with Cons.IH [of "set_property m x"] show ?case by simp
qed simp

lemma set_property_stored:
  "(k, q) \<in> set xs \<Longrightarrow> mod_opt q \<noteq> None \<Longrightarrow> foldl set_property m xs k \<noteq> None"
proof (induction xs arbitrary: m)
  case (Cons x xs)
  show ?case
  proof (cases "x = (k, q)")
    case True
    with Cons.prems have "set_property m x k \<noteq> None" by (cases q) simp_all
    with set_property_keeps [of "set_property m x" k xs] show ?thesis by simp
  next
    case False
    with Cons show ?thesis by simp
  qed
qed simp

lemma mem_api_simps:
  "api_record mem_api = mem_record" "api_register mem_api = mem_register"
  "api_set_status mem_api = mem_set_status" "api_sequence mem_api = mem_next_sequence"
  by (simp_all add: mem_api_def)

lemma mem_record_eq:
  "mem_record p s =
     Some (case mem_particles s p of
             None \<Rightarrow> Inl (cosmic_err_new ''not found'')
           | Some r \<Rightarrow> Inr (r\<lparr>rec_details := (rec_details r)\<lparr>det_properties :=
               (case mem_properties s p of None \<Rightarrow> Map.empty | Some m \<Rightarrow> m)\<rparr>\<rparr>), s)"
  by (simp add: mem_record_def mem_get_properties_def io_bind_def split: option.split)

lemma mem_located: "located_in mem_api s p \<longleftrightarrow>
  (\<exists>r. mem_particles s p = Some r \<and> loc_star (rec_location r) \<noteq> None)"
  by (auto simp: located_in_def mem_api_def mem_record_eq split: option.split)

lemma mem_register_eq:
  "mem_register g s =
     (let props = foldl set_property Map.empty (reg_props g)
      in Some (Inr (), s\<lparr>mem_properties := (mem_properties s)(reg_point g \<mapsto> props),
           mem_particles := (mem_particles s)(reg_point g \<mapsto>
             \<lparr>rec_details = \<lparr>det_stub = \<lparr>stub_point = reg_point g, stub_kind = reg_kind g,
                                          stub_status = StatusPending\<rparr>, det_properties = props\<rparr>,
              rec_location = particle_location_default\<rparr>)\<rparr>))"
  by (simp add: mem_register_def mem_set_properties_def mem_get_properties_def io_bind_def Let_def)

interpretation mem_registry: registry mem_api
proof
  fix p s rr s'
  assume "api_record mem_api p s = Some (rr, s')"
  then show "s' = s" by (simp add: mem_api_def mem_record_eq)
next
  fix g s s'
  assume "api_register mem_api g s = Some (Inr (), s')"
  then show "\<exists>r. api_record mem_api (reg_point g) s' = Some (Inr r, s') \<and>
      stub_point (det_stub (rec_details r)) = reg_point g \<and>
      stub_kind (det_stub (rec_details r)) = reg_kind g \<and>
      (\<forall>k m. (k, m) \<in> set (reg_props g) \<and> mod_opt m \<noteq> None \<longrightarrow> det_properties (rec_details r) k \<noteq> None)"
    using set_property_stored [of _ _ "reg_props g"]
    by (fastforce simp: mem_api_def mem_record_eq mem_register_eq Let_def)
next
  fix g s x s' p
  assume "api_register mem_api g s = Some (x, s')" and "p \<noteq> reg_point g"
  then show "map_option fst (api_record mem_api p s') = map_option fst (api_record mem_api p s)"
    by (auto simp: mem_api_def mem_record_eq mem_register_eq Let_def split: option.split)
next
  fix q s n s' p
  assume "api_sequence mem_api q s = Some (n, s')"
  then show "map_option fst (api_record mem_api p s') = map_option fst (api_record mem_api p s)"
    by (auto simp: mem_api_def mem_record_eq mem_next_sequence_def split: option.split)
next
  fix q st s u s' p
  assume "api_set_status mem_api q st s = Some (u, s')"
  then have st: "mem_set_status q st s = Some (u, s')" by (simp add: mem_api_def)
  show "located_in mem_api s' p = located_in mem_api s p"
    using st by (auto simp: mem_located mem_set_status_def with_status_def split: option.splits if_splits)
qed

text \<open>The registry's side of the provision and assign handlers of a star
  (\<open>driver/star.rs\<close>): the record is looked up, a place for its kind chosen, and the particle
  assigned to it.  \<open>place\<close> is the choice made from the wranglers and drivers of the asked star; a
  handler error comes back as a pong with status 500.\<close>

definition star_provision ::
  "(point \<Rightarrow> kind \<Rightarrow> point option) \<Rightarrow> point \<Rightarrow> point \<times> 'b state_src \<Rightarrow> (mem_reg, provision_pong) io" where
  "star_provision place star e s =
     (case mem_particles s (fst e) of
        None \<Rightarrow> Some (Inr (500, None), s)
      | Some r \<Rightarrow>
          (case place star (stub_kind (det_stub (rec_details r))) of
             None \<Rightarrow> Some (Inr (500, None), s)
           | Some host \<Rightarrow>
               io_bind (mem_assign_star (fst e) host)
                 (\<lambda>_. io_return (200, Some \<lparr>loc_star = Some host, loc_host = None\<rparr>)) s))"

interpretation mem_provisioner: provisioner mem_api "star_provision place"
proof
  fix star p st s l s'
  assume "star_provision place star (p, st) s = Some (Inr (200, Some l), s')"
  then show "located_in mem_api s' p"
    by (auto simp: star_provision_def mem_located mem_assign_star_def io_bind_def split: option.splits)
next
  fix star p st s a s' q
  assume "star_provision place star (p, st) s = Some (a, s')" and "located_in mem_api s' q"
  then show "located_in mem_api s q \<or> q = p"
    by (auto simp: star_provision_def mem_located mem_assign_star_def io_bind_def split: option.splits if_splits)
next
  fix star p st s a s' q
  assume "star_provision place star (p, st) s = Some (a, s')" and "located_in mem_api s q"
  then show "located_in mem_api s' q"
    by (auto simp: star_provision_def mem_located mem_assign_star_def io_bind_def split: option.splits if_splits)
qed

section \<open>Facts: provisioning\<close>

text \<open>C18. Provisioning keeps every located particle's parent located, whether it succeeds or fails
  half way; it never takes a particle off its star, and when it succeeds the particle is on one.\<close>

theorem provisioning_keeps_parents_located:
  assumes "parents_located mem_api s"
    and "provision_inner parse_sel mem_api (star_provision place) p state s = Some (a, s')"
  shows "parents_located mem_api s' \<and> (\<forall>q. located_in mem_api s q \<longrightarrow> located_in mem_api s' q)
     \<and> (\<forall>l. a = Inr l \<longrightarrow> located_in mem_api s' p)"
  using mem_provisioner.provision_inner_parents [OF assms(2,1)] .

lemma provision_inner_invariant:
  assumes "\<And>q s r s'. api_record api q s = Some (r, s') \<Longrightarrow> P s \<Longrightarrow> P s'"
    and "\<And>q st s r s'. api_set_status api q st s = Some (r, s') \<Longrightarrow> P s \<Longrightarrow> P s'"
    and "\<And>star x s r s'. ask star x s = Some (r, s') \<Longrightarrow> P s \<Longrightarrow> P s'"
  shows "provision_inner parse_sel api ask p state s = Some (a, s') \<Longrightarrow> P s \<Longrightarrow> P s'"
proof (induction "length (segments p)" arbitrary: p state s a s' rule: less_induct)
  case less
  have at: "P t'" if "provision_at parse_sel api ask p state pr t = Some (b, t')" "P t" for pr t b t'
    using that assms
    by (auto simp: provision_at_def io_bind_def split: option.splits sum.splits prod.splits if_splits
        dest!: provision_failed_fails)
  show ?case
  proof (cases "point_parent p")
    case None
    with less.prems show ?thesis by (simp add: provision_inner.simps [of parse_sel api ask p])
  next
    case (Some par)
    note ih = less.hyps [OF point_parent_length [OF Some]]
    from less.prems Some ih at assms(1) show ?thesis
      by (auto simp: provision_inner.simps [of parse_sel api ask p] io_bind_def
          split: option.splits sum.splits prod.splits if_splits)
  qed
qed

lemma provision_keeps_properties:
  "provision_inner parse_sel mem_api (star_provision place) p state s = Some (a, s') \<Longrightarrow>
   mem_properties s' = mem_properties s"
  by (rule provision_inner_invariant [where P = "\<lambda>t. mem_properties t = mem_properties s"])
    (auto simp: mem_api_def mem_record_eq mem_set_status_def star_provision_def mem_assign_star_def
      io_bind_def split: option.splits)

lemma provision_keeps_registered:
  "provision_inner parse_sel mem_api (star_provision place) p state s = Some (a, s') \<Longrightarrow>
   mem_particles s q \<noteq> None \<Longrightarrow> mem_particles s' q \<noteq> None"
  by (rule provision_inner_invariant [where P = "\<lambda>t. mem_particles t q \<noteq> None"])
    (auto simp: mem_api_def mem_record_eq mem_set_status_def star_provision_def mem_assign_star_def
      io_bind_def split: option.splits)

lemma provision_reaches:
  assumes "segments p \<noteq> []"
    and "\<And>n. 0 < n \<Longrightarrow> n \<le> length (segments p) \<Longrightarrow>
      mem_particles s \<lparr>route = route p, segments = take n (segments p)\<rparr> \<noteq> None"
    and "located_in mem_api s \<lparr>route = route p, segments = []\<rparr>"
    and "\<And>star k. place star k \<noteq> None"
  shows "\<exists>l s'. provision_inner parse_sel mem_api (star_provision place) p state s = Some (Inr l, s')"
  using assms
proof (induction "length (segments p)" arbitrary: p state rule: less_induct)
  case less
  let ?par = "\<lparr>route = route p, segments = butlast (segments p)\<rparr>"
  from less.prems(1) have par: "point_parent p = Some ?par" by (simp add: point_parent_def)
  have take_n: "mem_particles s \<lparr>route = route p, segments = take n (segments p)\<rparr> \<noteq> None"
    if "n \<le> length (segments p)" for n
    using less.prems(2,3) that by (cases n) (auto simp: mem_located)
  have self: "mem_particles s p \<noteq> None"
    using take_n [of "length (segments p)"] by (cases p) simp
  have ask: "\<exists>l s'. star_provision place star (p, state') t = Some (Inr (200, Some l), s')"
    if "mem_particles t p \<noteq> None" for star t and state' :: "'a state_src"
    using that less.prems(4)
    by (fastforce simp: star_provision_def io_bind_def mem_assign_star_def split: option.split)
  have at: "\<exists>l s'. provision_at parse_sel mem_api (star_provision place) p state pr t = Some (Inr l, s')"
    if "loc_star (rec_location pr) \<noteq> None" "mem_particles t p \<noteq> None" for pr t
  proof -
    from that obtain star where star: "loc_star (rec_location pr) = Some star" by auto
    from ask [OF that(2), of star state] star show ?thesis
      by (auto simp: provision_at_def io_bind_def)
  qed
  have "mem_particles s ?par \<noteq> None"
    using take_n [of "length (segments p) - 1"] by (simp add: butlast_conv_take)
  then obtain pr where rec: "mem_record ?par s = Some (Inr pr, s)"
    by (auto simp: mem_record_eq)
  show ?case
  proof (cases "loc_star (rec_location pr)")
    case (Some star)
    with rec par at [of pr s] self show ?thesis
      by (simp add: provision_inner.simps [of parse_sel mem_api _ p] io_bind_def mem_api_simps)
  next
    case None
    with rec have "\<not> located_in mem_api s ?par"
      by (auto simp: located_in_def mem_api_def)
    with less.prems(3) have "segments ?par \<noteq> []" by auto
    then have "\<exists>l s'. provision_inner parse_sel mem_api (star_provision place) ?par
        (StateNone :: 'a state_src) s = Some (Inr l, s')"
      using less.prems take_n
      by (intro less.hyps) (auto simp: butlast_conv_take take_n)
    then obtain l s1 where inner: "provision_inner parse_sel mem_api (star_provision place) ?par
        (StateNone :: 'a state_src) s = Some (Inr l, s1)"
      by blast
    have "mem_particles s1 p \<noteq> None"
      using provision_keeps_registered [OF inner self] .
    moreover have "located_in mem_api s1 ?par"
      using mem_provisioner.provision_inner_locates [OF inner] .
    then obtain pr1 where "mem_record ?par s1 = Some (Inr pr1, s1)" "loc_star (rec_location pr1) \<noteq> None"
      by (auto simp: located_in_def mem_api_def)
    ultimately show ?thesis
      using at [of pr1 s1] inner rec None par
      by (simp add: provision_inner.simps [of parse_sel mem_api _ p] io_bind_def mem_api_simps)
  qed
qed


section \<open>Facts: creation\<close>

lemma config_of_kind_total: "config_of_kind ps k \<noteq> None"
  by (cases k)
    (simp_all add: config_of_kind_def builder_new_def add_point_def property_def_new_def builder_kind_def
      builder_build_def right_def res_bind_Inr_iff builder_insert_def Let_def)

text \<open>C30. A particle created at an exact segment, provisioned or not, comes back with a value for
  every property its kind requires.\<close>

theorem exact_creation_has_required_properties:
  assumes "create_particle ex mem_api cr agent s = Some (Inr d, s')"
    and "cr_segment cr = SegExact seg" and "ex_ask ex = star_provision place"
    and "select_kind (ex_strum_err ex) (ex_parse_spec ex) (cr_kind cr) = Some (Inr k)"
    and "config_of_kind (ex_parsers ex) k = Some config"
  shows "list_all (\<lambda>key. det_properties d key \<noteq> None) (required_keys config)"
proof -
  from assms obtain p s1 s2 r where made: "create_exact ex mem_api cr agent k seg s = Some (Inr p, s1)"
    and prov: "s2 = s1 \<or> (\<exists>a. provision_inner (ex_parse_sel ex) mem_api (star_provision place) p
                 (cr_state cr) s1 = Some (Inr a, s2))"
    and rec: "mem_record p s2 = Some (Inr r, s')" and d: "d = rec_details r"
    by (auto simp: create_particle_def io_bind_ok mem_api_simps split: if_splits) metis+
  from mem_registry.exact_registers_required [OF made assms(5)] obtain r1
    where rec1: "mem_record p s1 = Some (Inr r1, s1)"
      and req: "\<forall>key \<in> set (required_keys config). det_properties (rec_details r1) key \<noteq> None"
    by (auto simp: mem_api_simps)
  from prov have "mem_properties s2 = mem_properties s1"
    using provision_keeps_properties by blast
  with rec rec1 have "det_properties (rec_details r) = det_properties (rec_details r1)"
    by (auto simp: mem_record_eq split: option.splits)
  with req d show ?thesis by (simp add: list_all_iff)
qed

text \<open>A particle created from a pattern is registered whatever its properties are: none of the
  checks and defaults of an exact creation apply, and its owner is the root, not the agent.\<close>

theorem pattern_creation_checks_nothing:
  assumes "CHR ''%'' \<in> set pat"
    and "point_push (parse_point (ex_parsers ex)) (cr_parent cr)
      (substitute_percent pat (nat_to_string (unat (mem_sequence s)))) = Inr p"
  shows "\<exists>s'. create_pattern ex mem_api cr k pat s = Some (Inr p, s') \<and>
    mem_register
      \<lparr>reg_point = p, reg_kind = k, reg_registry = [], reg_props = cr_properties cr,
       reg_owner = root_point, reg_strategy = cr_strategy cr, reg_status = StatusReady\<rparr>
      (s\<lparr>mem_sequence := mem_sequence s + 1\<rparr>) = Some (Inr (), s') \<and>
    mem_properties s' p = Some (foldl set_property Map.empty (cr_properties cr))"
  using assms
  by (simp add: create_pattern_def mem_api_simps mem_next_sequence_def io_bind_def Let_def
      space_res_def mem_register_eq)

text \<open>Registering a particle again, whatever the strategy asked for, wipes out what was known of
  it: its star, its host and its status; the status given with the registration is not used.\<close>

theorem registering_again_forgets:
  "mem_register g s = Some (Inr (), s') \<Longrightarrow>
     \<not> located_in mem_api s' (reg_point g) \<and>
     map_option (\<lambda>r. stub_status (det_stub (rec_details r))) (mem_particles s' (reg_point g)) = Some StatusPending \<and>
     mem_register (g\<lparr>reg_strategy := x, reg_status := y\<rparr>) s = Some (Inr (), s')"
  by (auto simp: mem_register_eq Let_def mem_located particle_location_default_def)

section \<open>Witnesses\<close>

text \<open>A registry with the root on a star and two particles below it, the second below the first.\<close>

definition sample_rec :: "point \<Rightarrow> point option \<Rightarrow> particle_record" where
  "sample_rec p star =
     \<lparr>rec_details = \<lparr>det_stub = \<lparr>stub_point = p, stub_kind = KSpace, stub_status = StatusPending\<rparr>,
                     det_properties = Map.empty\<rparr>,
      rec_location = \<lparr>loc_star = star, loc_host = None\<rparr>\<rparr>"

abbreviation sample_space :: point where
  "sample_space \<equiv> \<lparr>route = RSThis, segments = [PSSpace ''a'']\<rparr>"

abbreviation sample_base :: point where
  "sample_base \<equiv> \<lparr>route = RSThis, segments = [PSSpace ''a'', PSBase ''b'']\<rparr>"

definition sample_mem :: mem_reg where
  "sample_mem =
     \<lparr>mem_sequence = 0,
      mem_particles = [root_point \<mapsto> sample_rec root_point (Some local_endpoint),
                       sample_space \<mapsto> sample_rec sample_space None,
                       sample_base \<mapsto> sample_rec sample_base None],
      mem_properties = Map.empty\<rparr>"

lemma sample_located: "located_in mem_api sample_mem q \<longleftrightarrow> q = root_point"
  by (auto simp: mem_located sample_mem_def sample_rec_def root_point_def)


theorem provisioning_keeps_parents_located_witness:
  "\<exists>a s'. provision_inner (\<lambda>_. Inl (err_of_string [])) mem_api (star_provision (\<lambda>star k. Some star))
     sample_space (StateNone :: unit state_src) sample_mem = Some (Inr a, s') \<and> parents_located mem_api s'"
proof -
  have inv: "parents_located mem_api sample_mem"
    by (simp add: parents_located_def sample_located root_point_def point_parent_def)
  obtain a s' where "provision_inner (\<lambda>_. Inl (err_of_string [])) mem_api (star_provision (\<lambda>star k. Some star))
     sample_space (StateNone :: unit state_src) sample_mem = Some (Inr a, s')"
    by (simp add: provision_inner.simps point_parent_def io_bind_def mem_api_simps mem_record_eq
        sample_mem_def sample_rec_def root_point_def provision_at_def star_provision_def
        mem_assign_star_def)
  with provisioning_keeps_parents_located [OF inv this] show ?thesis by blast
qed

definition sample_executor :: "(mem_reg, unit) executor" where
  "sample_executor =
     \<lparr>ex_parsers = lenient\<lparr>parse_point := (\<lambda>_. Inr sample_base)\<rparr>, ex_strum_err = [], ex_parse_spec = (\<lambda>_. Inl (err_of_string [])),
      ex_parse_sel = (\<lambda>_. Inl (err_of_string [])), ex_ask = star_provision (\<lambda>star k. Some star)\<rparr>"

definition sample_create :: "point_seg_template \<Rightarrow> unit create" where
  "sample_create t =
     \<lparr>cr_parent = root_point, cr_segment = t,
      cr_kind = \<lparr>kt_base = BKMechtron, kt_sub = None, kt_specific = None\<rparr>,
      cr_properties = [(''config'', PropSet ''config'' ''a:b'' False)],
      cr_strategy = StrategyCommit, cr_state = StateNone\<rparr>"

lemma sample_select_kind: "select_kind [] f (cr_kind (sample_create t)) = Some (Inr KMechtron)"
  unfolding select_kind_def base_kind_strum.from_str_display by (simp add: sample_create_def)

theorem pattern_creation_checks_nothing_witness:
  "\<exists>s'. create_pattern sample_executor mem_api ((sample_create SegRoot)\<lparr>cr_properties := []\<rparr>) KMechtron ''m%''
     sample_mem = Some (Inr sample_base, s') \<and> mem_properties s' sample_base = Some Map.empty"
  using pattern_creation_checks_nothing [of "''m%''" sample_executor
      "(sample_create SegRoot)\<lparr>cr_properties := []\<rparr>" sample_mem sample_base KMechtron]
  by (auto simp: sample_executor_def sample_create_def lenient_def point_push_def root_point_def)

theorem registering_again_forgets_witness:
  "\<exists>s'. located_in mem_api sample_mem root_point \<and> \<not> located_in mem_api s' root_point"
proof -
  let ?g = "\<lparr>reg_point = root_point, reg_kind = KRoot, reg_registry = [], reg_props = [],
             reg_owner = hyperuser, reg_strategy = StrategyEnsure, reg_status = StatusReady\<rparr>"
  obtain s' where "mem_register ?g sample_mem = Some (Inr (), s')"
    by (simp add: mem_register_eq Let_def)
  from registering_again_forgets [OF this] show ?thesis by (auto simp: sample_located)
qed

definition mechtron_config :: properties_config where
  "mechtron_config =
     \<lparr>pc_properties = [(''bind'', point_def_of False True), (''config'', point_def_of True True)],
      pc_kind = KMechtron\<rparr>"

lemma sample_config_of_kind: "config_of_kind (ex_parsers sample_executor) KMechtron = Some mechtron_config"
  by (simp add: config_of_kind_def builder_new_def add_point_def property_def_new_def builder_kind_def
      builder_build_def right_def builder_insert_def Let_def mechtron_config_def point_def_of_def)

lemma sample_exact:
  "\<exists>s'. create_exact sample_executor mem_api (sample_create (SegExact ''b'')) AgentAnonymous KMechtron ''b'' sample_mem
     = Some (Inr sample_base, s') \<and>
     mem_particles s' = (mem_particles sample_mem)(sample_base \<mapsto>
       \<lparr>rec_details = \<lparr>det_stub = \<lparr>stub_point = sample_base, stub_kind = KMechtron,
                                  stub_status = StatusPending\<rparr>,
                      det_properties = [''config'' \<mapsto> \<lparr>prop_key = ''config'', prop_value = ''a:b'', prop_locked = False\<rparr>]\<rparr>,
        rec_location = particle_location_default\<rparr>)"
proof -
  have "fill_create_defaults mechtron_config [(''config'', PropSet ''config'' ''a:b'' False)]
      = Inr [(''config'', PropSet ''config'' ''a:b'' False)]"
    by (simp add: fill_create_defaults_def default_keys_def mechtron_config_def point_def_of_def)
  moreover have "check_create (ex_parsers sample_executor) mechtron_config
      [(''config'', PropSet ''config'' ''a:b'' False)] = Some (Inr ())"
    by (simp add: check_create_accepts required_keys_def creatable_def has_key_def mechtron_config_def
        point_def_of_def sample_executor_def)
  ultimately show ?thesis
    using sample_config_of_kind
    by (simp add: create_exact_def io_bind_def space_res_def sample_create_def point_push_def
        root_point_def mem_api_simps mem_register_eq Let_def)
      (simp add: sample_executor_def io_bind_def space_res_def mem_api_simps mem_register_eq Let_def)
qed

theorem exact_creation_has_required_properties_witness:
  "\<exists>d s'. create_particle sample_executor mem_api (sample_create (SegExact ''b'')) AgentAnonymous sample_mem
     = Some (Inr d, s') \<and> det_properties d ''config'' \<noteq> None"
proof -
  let ?cr = "sample_create (SegExact ''b'')"
  obtain s1 where made: "create_exact sample_executor mem_api ?cr AgentAnonymous KMechtron ''b'' sample_mem
      = Some (Inr sample_base, s1)"
    and parts: "mem_particles s1 = (mem_particles sample_mem)(sample_base \<mapsto>
       \<lparr>rec_details = \<lparr>det_stub = \<lparr>stub_point = sample_base, stub_kind = KMechtron,
                                  stub_status = StatusPending\<rparr>,
                      det_properties = [''config'' \<mapsto> \<lparr>prop_key = ''config'', prop_value = ''a:b'', prop_locked = False\<rparr>]\<rparr>,
        rec_location = particle_location_default\<rparr>)"
    using sample_exact by blast
  have reach: "\<exists>l s2. provision_inner (ex_parse_sel sample_executor) mem_api (star_provision (\<lambda>star k. Some star))
      sample_base (StateNone :: unit state_src) s1 = Some (Inr l, s2)"
  proof (rule provision_reaches)
    fix n :: nat
    assume "0 < n" "n \<le> length (segments sample_base)"
    then have "n = 1 \<or> n = 2" by auto
    then show "mem_particles s1 \<lparr>route = route sample_base, segments = take n (segments sample_base)\<rparr> \<noteq> None"
      using parts by (auto simp: sample_mem_def)
  next
    show "located_in mem_api s1 \<lparr>route = route sample_base, segments = []\<rparr>"
      using parts by (auto simp: mem_located sample_mem_def sample_rec_def root_point_def)
  qed simp_all
  then obtain l s2 where prov: "provision_inner (ex_parse_sel sample_executor) mem_api
      (star_provision (\<lambda>star k. Some star)) sample_base (StateNone :: unit state_src) s1 = Some (Inr l, s2)"
    by blast
  from provision_keeps_registered [OF prov, of sample_base] parts
  obtain r where "mem_record sample_base s2 = Some (Inr r, s2)" by (auto simp: mem_record_eq)
  with made prov have run: "create_particle sample_executor mem_api ?cr AgentAnonymous sample_mem
      = Some (Inr (rec_details r), s2)"
    using sample_select_kind [of "ex_parse_spec sample_executor" "SegExact ''b''"]
    by (simp add: create_particle_def io_bind_def mem_api_simps sample_executor_def) 
       (simp add: sample_create_def mem_api_simps io_bind_def)
  from exact_creation_has_required_properties [OF run, of "''b''" "\<lambda>star k. Some star" KMechtron mechtron_config]
  have "list_all (\<lambda>key. det_properties (rec_details r) key \<noteq> None) (required_keys mechtron_config)"
    using sample_config_of_kind sample_select_kind [of "ex_parse_spec sample_executor" "SegExact ''b''"]
    by (simp add: sample_executor_def sample_create_def)
  then have "det_properties (rec_details r) ''config'' \<noteq> None"
    by (simp add: required_keys_def mechtron_config_def point_def_of_def)
  with run show ?thesis by blast
qed

end
