(* ===== verification/WaveTypes.thy ===== *)
theory WaveTypes
  imports Registry
begin

text \<open>
  The data of the wave layer: the waves of the five kinds with their cores (\<open>wave.rs\<close>,
  \<open>wave/core.rs\<close>), the substances they carry (\<open>substance.rs\<close>) and the hyperspace messages
  among them (\<open>hyper.rs\<close>).  A substance may hold a wave, a core, a knock or a particle, whose
  bodies are substances again; the types of the layer are declared over the type \<open>'b\<close> of
  bodies, and \<open>substance\<close> closes the recursion.  The payloads whose structure no modelled code
  looks into (commands, JSON values, log records, configurations) are the type parameter \<open>'x\<close>.
\<close>

section \<open>Identifiers and addresses of waves\<close>

datatype wave_kind = WKPing | WKPong | WKRipple | WKEcho | WKSignal

definition wave_kind_variants :: "wave_kind list" where
  "wave_kind_variants = [WKPing, WKPong, WKRipple, WKEcho, WKSignal]"

fun wave_kind_to_string :: "wave_kind \<Rightarrow> string" where
  "wave_kind_to_string WKPing = ''Ping''"
| "wave_kind_to_string WKPong = ''Pong''"
| "wave_kind_to_string WKRipple = ''Ripple''"
| "wave_kind_to_string WKEcho = ''Echo''"
| "wave_kind_to_string WKSignal = ''Signal''"

datatype reflected_kind = RKPong | RKEcho
datatype directed_kind = DKPing | DKRipple | DKSignal

fun wave_reflected_kind :: "wave_kind \<Rightarrow> space_err + reflected_kind" where
  "wave_reflected_kind WKPong = Inr RKPong"
| "wave_reflected_kind WKEcho = Inr RKEcho"
| "wave_reflected_kind _ = Inl (bad_request ''expected a reflected WaveKind'')"

text \<open>\<open>WaveId::new\<close> draws a fresh uuid; here it is an argument of the operations that do.\<close>

datatype wave_id = WaveId (wid_uuid: uuid) (wid_kind: wave_kind)

definition wave_id_with_uuid :: "wave_kind \<Rightarrow> uuid \<Rightarrow> wave_id" where
  "wave_id_with_uuid k u = WaveId u k"

definition wave_id_to_string :: "wave_id \<Rightarrow> string" where
  "wave_id_to_string w = ''<Wave<'' @ wave_kind_to_string (wid_kind w) @ ''>>::'' @ uuid_text (wid_uuid w)"

definition wave_id_to_short_string :: "wave_id \<Rightarrow> string" where
  "wave_id_to_short_string w =
     (if length (uuid_text (wid_uuid w)) > 8
      then ''<Wave<'' @ wave_kind_to_string (wid_kind w) @ ''>>::'' @ take 8 (uuid_text (wid_uuid w))
      else wave_id_to_string w)"

datatype origin = OriginIp string | OriginPoint point
datatype 's crypt = Crypt (crypt_payload: 's)
datatype session_id = SessionId (sess_origin: "origin crypt") (sess_uuid: uuid)

datatype recipients = Single surface | Multi "surface list" | Watchers watch | Stars

section \<open>Cores and variants\<close>

datatype 'b directed_core =
  DirectedCore (dc_headers: "string \<rightharpoonup> string") (dc_method: wave_method) (dc_uri: string) (dc_body: 'b)

datatype 'b reflected_core =
  ReflectedCore (rc_headers: "string \<rightharpoonup> string") (rc_status: status_code) (rc_body: 'b)

datatype 'b ping = PingV (ping_to: surface) (ping_core: "'b directed_core")
datatype 'b signal = SignalV (signal_to: surface) (signal_core: "'b directed_core")

datatype ('t, 'b) ripple =
  RippleV (ripple_to: 't) (ripple_core: "'b directed_core") (ripple_bounce_backs: bounce_backs)
          (ripple_history: "point set")

datatype 'b pong =
  PongV (pong_to: surface) (pong_intended: recipients) (pong_core: "'b reflected_core")
        (pong_reflection_of: wave_id)

datatype 'b echo =
  EchoV (echo_to: surface) (echo_intended: recipients) (echo_core: "'b reflected_core")
        (echo_reflection_of: wave_id)

datatype 'v wave =
  Wave (w_id: wave_id) (w_session: "session_id option") (w_variant: 'v) (w_agent: agent)
       (w_handling: handling) (w_scope: scope) (w_from: surface) (w_via: "surface option")
       (w_hops: "16 word") (w_track: bool)

datatype ('t, 'b) ultra_wave =
    Ping "'b ping wave"
  | Pong "'b pong wave"
  | Ripple "('t, 'b) ripple wave"
  | Echo "'b echo wave"
  | Signal "'b signal wave"

datatype ('t, 'b) directed_wave =
    DPing "'b ping wave"
  | DRipple "('t, 'b) ripple wave"
  | DSignal "'b signal wave"

datatype 'b reflected_wave = RPong "'b pong wave" | REcho "'b echo wave"


section \<open>Hyperspace messages\<close>

text \<open>\<open>hyper.rs\<close>.  \<open>'x\<close> is the type of the configurations of hosts and of log records.\<close>

datatype assignment_kind = AssignCreate

datatype 'b provision = Provision (prov_point: point) (prov_state: "'b state_src")

datatype 'b assign =
  Assign (asg_kind: assignment_kind) (asg_details: details) (asg_state: "'b state_src")

datatype ('x, 'b) host_cmd =
  HostCmd (hc_kind: assignment_kind) (hc_details: details) (hc_state: "'b state_src") (hc_config: 'x)

datatype created = Created (cre_point: point) (cre_kind: kind_parts)
datatype hyper_event = EventCreated created

datatype search = SearchStar star_key | SearchStarKind star_sub | SearchKinds

datatype discovery =
  Discovery (dsc_star_kind: star_sub) (dsc_hops: "16 word") (dsc_star_key: star_key)
            (dsc_kinds: "kind_selector set")

datatype ('x, 'b) hyper_substance =
    HsProvision "'b provision"
  | HsAssign "'b assign"
  | HsHost "('x, 'b) host_cmd"
  | HsEvent hyper_event
  | HsLog 'x
  | HsSearch search
  | HsDiscoveries "discovery list"

datatype control_pattern = ControlAny | ControlStar point

datatype interchange_kind =
    IkSingleton | IkDefaultControl | IkControl control_pattern | IkPortal control_pattern
  | IkStar star_key

datatype 'b knock = Knock (kn_kind: interchange_kind) (kn_auth: 'b) (kn_remote: "surface option")

datatype greet =
  Greet (gr_surface: surface) (gr_agent: agent) (gr_hop: surface) (gr_transport: surface)

datatype 'b particle = Particle (ptc_stub: stub) (ptc_state: 'b)

section \<open>Substances\<close>

type_synonym bin = "8 word list"

datatype substance_kind =
    SkEmpty | SkList | SkMap | SkPoint | SkSurface | SkText | SkBoolean | SkInt | SkMeta | SkBin
  | SkStub | SkDetails | SkStatus | SkParticle | SkLocation | SkFormErrs | SkJson | SkMultipartForm
  | SkRawCommand | SkCommand | SkDirectedCore | SkReflectedCore | SkHyp | SkToken | SkUltraWave
  | SkKnock | SkGreet | SkLog | SkErr

datatype 'x substance =
    SEmpty
  | SList "'x substance list"
  | SMap "(string \<times> 'x substance) list"
  | SPoint point
  | SSurface surface
  | SText string
  | SStub stub
  | SDetails details
  | SMeta "string \<rightharpoonup> string"
  | SBin bin
  | SBoolean bool
  | SInt "64 word"
  | SStatus particle_status
  | SParticle "'x substance particle"
  | SLocation particle_location
  | SRawCommand 'x
  | SCommand 'x
  | SFormErrs "(string \<times> string) list"
  | SJson 'x
  | SMultipartForm string
  | SDirectedCore "'x substance directed_core"
  | SReflectedCore "'x substance reflected_core"
  | SHyper "('x, 'x substance) hyper_substance"
  | SToken string
  | SUltraWave "(recipients, 'x substance) ultra_wave"
  | SKnock "'x substance knock"
  | SGreet greet
  | SLog 'x
  | SErr space_err

end
