(* ===== verification/Substances.thy ===== *)
theory Substances
  imports WaveTypes
begin

text \<open>
  The operations on substances (\<open>substance.rs\<close>), on the cores of directed and reflected waves
  (\<open>wave/core.rs\<close>, the conversions of errors in \<open>err.rs\<close>) and on the hyperspace messages
  (\<open>hyper.rs\<close>).  A url is the text it was parsed from; a map that is iterated is the list of its
  entries in iteration order; a panic is \<open>None\<close>.
\<close>

section \<open>Kinds and views of substances\<close>

fun substance_kind_to_string :: "substance_kind \<Rightarrow> string" where
  "substance_kind_to_string SkEmpty = ''Empty''"
| "substance_kind_to_string SkList = ''List''"
| "substance_kind_to_string SkMap = ''Map''"
| "substance_kind_to_string SkPoint = ''Point''"
| "substance_kind_to_string SkSurface = ''Surface''"
| "substance_kind_to_string SkText = ''Text''"
| "substance_kind_to_string SkBoolean = ''Boolean''"
| "substance_kind_to_string SkInt = ''Int''"
| "substance_kind_to_string SkMeta = ''Meta''"
| "substance_kind_to_string SkBin = ''Bin''"
| "substance_kind_to_string SkStub = ''Stub''"
| "substance_kind_to_string SkDetails = ''Details''"
| "substance_kind_to_string SkStatus = ''Status''"
| "substance_kind_to_string SkParticle = ''Particle''"
| "substance_kind_to_string SkLocation = ''Location''"
| "substance_kind_to_string SkFormErrs = ''FormErrs''"
| "substance_kind_to_string SkJson = ''Json''"
| "substance_kind_to_string SkMultipartForm = ''MultipartForm''"
| "substance_kind_to_string SkRawCommand = ''RawCommand''"
| "substance_kind_to_string SkCommand = ''Command''"
| "substance_kind_to_string SkDirectedCore = ''DirectedCore''"
| "substance_kind_to_string SkReflectedCore = ''ReflectedCore''"
| "substance_kind_to_string SkHyp = ''Hyp''"
| "substance_kind_to_string SkToken = ''Token''"
| "substance_kind_to_string SkUltraWave = ''UltraWave''"
| "substance_kind_to_string SkKnock = ''Knock''"
| "substance_kind_to_string SkGreet = ''Greet''"
| "substance_kind_to_string SkLog = ''Log''"
| "substance_kind_to_string SkErr = ''Err''"

fun substance_kind_of :: "'x substance \<Rightarrow> substance_kind" where
  "substance_kind_of SEmpty = SkEmpty"
| "substance_kind_of (SList _) = SkList"
| "substance_kind_of (SMap _) = SkMap"
| "substance_kind_of (SPoint _) = SkPoint"
| "substance_kind_of (SText _) = SkText"
| "substance_kind_of (SStub _) = SkStub"
| "substance_kind_of (SMeta _) = SkMeta"
| "substance_kind_of (SBin _) = SkBin"
| "substance_kind_of (SBoolean _) = SkBoolean"
| "substance_kind_of (SInt _) = SkInt"
| "substance_kind_of (SStatus _) = SkStatus"
| "substance_kind_of (SParticle _) = SkParticle"
| "substance_kind_of (SFormErrs _) = SkFormErrs"
| "substance_kind_of (SJson _) = SkJson"
| "substance_kind_of (SRawCommand _) = SkRawCommand"
| "substance_kind_of (SSurface _) = SkSurface"
| "substance_kind_of (SCommand _) = SkCommand"
| "substance_kind_of (SDirectedCore _) = SkDirectedCore"
| "substance_kind_of (SReflectedCore _) = SkReflectedCore"
| "substance_kind_of (SHyper _) = SkHyp"
| "substance_kind_of (SMultipartForm _) = SkMultipartForm"
| "substance_kind_of (SToken _) = SkToken"
| "substance_kind_of (SUltraWave _) = SkUltraWave"
| "substance_kind_of (SKnock _) = SkKnock"
| "substance_kind_of (SGreet _) = SkGreet"
| "substance_kind_of (SDetails _) = SkDetails"
| "substance_kind_of (SLocation _) = SkLocation"
| "substance_kind_of (SLog _) = SkLog"
| "substance_kind_of (SErr _) = SkErr"

fun ultrawave :: "'x substance \<Rightarrow> (recipients, 'x substance) ultra_wave option" where
  "ultrawave (SUltraWave w) = Some w"
| "ultrawave _ = None"

fun to_text :: "'x substance \<Rightarrow> space_err + string" where
  "to_text (SText t) = Inr t"
| "to_text _ = Inl (err_of_string (''not a '' @ quoted ''Text'' @ '' payload''))"

fun is_some :: "'x substance \<Rightarrow> bool" where
  "is_some SEmpty = False"
| "is_some _ = True"

fun substance_map :: "'x substance \<Rightarrow> space_err + (string \<times> 'x substance) list" where
  "substance_map (SMap m) = Inr m"
| "substance_map _ = Inl (err_of_string ''Substance type must a Map'')"

text \<open>Lists and maps are written by \<open>bincode::serialize\<close>, here the argument.\<close>

fun to_bin :: "('x substance \<Rightarrow> space_err + bin) \<Rightarrow> 'x substance \<Rightarrow> space_err + bin" where
  "to_bin ser SEmpty = Inr []"
| "to_bin ser (SList l) = ser (SList l)"
| "to_bin ser (SMap m) = ser (SMap m)"
| "to_bin ser (SBin b) = Inr b"
| "to_bin ser (SText t) = Inr (map of_char t)"
| "to_bin ser what =
     Inl (err_of_string (substance_kind_to_string (substance_kind_of what) @ ''.to_bin() not supported''))"

section \<open>Form errors and forms\<close>

type_synonym form_errs = "(string \<times> string) list"

definition form_errs_empty :: form_errs where
  "form_errs_empty = []"

definition form_errs_default :: "string \<Rightarrow> form_errs" where
  "form_errs_default message = AList.update ''default'' message []"

text \<open>The values one after the other, a newline after the last only.\<close>

definition form_errs_to_string :: "form_errs \<Rightarrow> string" where
  "form_errs_to_string m =
     fold (\<lambda>(index, (_, value)) rtn.
        rtn @ value @ (if index = length m - 1 then [CHR 0x0A] else ''''))
       (List.enumerate 0 m) ''''"

definition to_cosmic_err :: "form_errs \<Rightarrow> space_err option" where
  "to_cosmic_err m = space_err_new 500 (form_errs_to_string m)"

fun form_errs_of_err :: "space_err \<Rightarrow> form_errs" where
  "form_errs_of_err (Status c message) =
     form_errs_default (u16_to_string c @ '' '' @ message)"
| "form_errs_of_err (ParseErrs _) = form_errs_default ''500: parse error''"

text \<open>\<open>serde_urlencoded\<close> writes and reads the data of a form.\<close>

definition form_fields ::
  "(string \<Rightarrow> space_err + (string \<times> string) list) \<Rightarrow> string \<Rightarrow> space_err + (string \<times> string) list" where
  "form_fields decode data = decode data"

definition form_put :: "(string \<times> string) list \<Rightarrow> string \<Rightarrow> string \<Rightarrow> (string \<times> string) list" where
  "form_put m key val = AList.update key val m"

definition form_get :: "(string \<times> string) list \<Rightarrow> string \<Rightarrow> string option" where
  "form_get m key = map_of m key"

definition form_build ::
  "((string \<times> string) list \<Rightarrow> space_err + string) \<Rightarrow> (string \<times> string) list \<Rightarrow> space_err + string" where
  "form_build encode m = encode m"

section \<open>Directed cores\<close>

type_synonym 'x dcore = "'x substance directed_core"
type_synonym 'x rcore = "'x substance reflected_core"

definition localhost :: string where
  "localhost = ''http://localhost/''"

definition dcore_new :: "wave_method \<Rightarrow> 'x dcore" where
  "dcore_new m = DirectedCore (\<lambda>_. None) m localhost SEmpty"

definition dcore_default :: "'x dcore" where
  "dcore_default = DirectedCore (\<lambda>_. None) (Http HttpGet) localhost SEmpty"

definition dcore_ext :: "ext_method \<Rightarrow> 'x dcore" where "dcore_ext m = dcore_new (Ext m)"
definition dcore_http :: "http_method \<Rightarrow> 'x dcore" where "dcore_http m = dcore_new (Http m)"
definition dcore_cmd :: "cmd_method \<Rightarrow> 'x dcore" where "dcore_cmd m = dcore_new (Cmd m)"

definition dcore_kind :: "'x dcore \<Rightarrow> method_kind" where
  "dcore_kind c = method_kind_of (dc_method c)"

fun dcore_with_body :: "'x dcore \<Rightarrow> 'x substance \<Rightarrow> 'x dcore" where
  "dcore_with_body (DirectedCore h m u _) b = DirectedCore h m u b"

fun dcore_with_method :: "'x dcore \<Rightarrow> wave_method \<Rightarrow> 'x dcore" where
  "dcore_with_method (DirectedCore h _ u b) m = DirectedCore h m u b"

fun dcore_with_uri :: "'x dcore \<Rightarrow> string \<Rightarrow> 'x dcore" where
  "dcore_with_uri (DirectedCore h m _ b) u = DirectedCore h m u b"

definition dcore_substance :: "wave_method \<Rightarrow> 'x substance \<Rightarrow> 'x dcore" where
  "dcore_substance m body = dcore_with_body (dcore_with_method dcore_default m) body"

text \<open>The path of a url is read by the \<open>url\<close> crate.\<close>

definition dcore_to_selection_str :: "(string \<Rightarrow> string) \<Rightarrow> 'x dcore \<Rightarrow> string" where
  "dcore_to_selection_str path c =
     method_to_deep_string (dc_method c) @ path (dc_uri c) @ '' -['' @
     substance_kind_to_string (substance_kind_of (dc_body c)) @ '']->''"

definition dcore_of_command :: "'x \<Rightarrow> 'x dcore" where
  "dcore_of_command c = dcore_substance (Cmd CmdCommand) (SCommand c)"

definition dcore_of_raw_command :: "(string \<Rightarrow> space_err) \<Rightarrow> 'x \<Rightarrow> 'x dcore option" where
  "dcore_of_raw_command perr c =
     (case ext_method_new perr ''ExecCommand'' of
        Inr m \<Rightarrow> Some (dcore_substance (Ext m) (SRawCommand c))
      | Inl _ \<Rightarrow> None)"

text \<open>A form becomes a request to the url \<open>/\<close>, parsed by \<open>Url::parse\<close>.\<close>

definition form_to_request_core :: "(string \<Rightarrow> string option) \<Rightarrow> string \<Rightarrow> 'x dcore option" where
  "form_to_request_core url_parse data =
     (case url_parse ''/'' of
        None \<Rightarrow> None
      | Some uri \<Rightarrow>
          Some (DirectedCore [''Content-Type'' \<mapsto> ''application/x-www-form-urlencoded'']
                 (Http HttpPost) uri (SMultipartForm data)))"

section \<open>Reflected cores\<close>

definition rcore_ok_body :: "'x substance \<Rightarrow> 'x rcore" where
  "rcore_ok_body body = ReflectedCore (\<lambda>_. None) (status 200) body"

definition rcore_new :: "'x rcore" where
  "rcore_new = ReflectedCore (\<lambda>_. None) (status 200) SEmpty"

definition rcore_ok :: "'x rcore" where
  "rcore_ok = rcore_ok_body SEmpty"

definition rcore_ok_html :: "string \<Rightarrow> 'x rcore" where
  "rcore_ok_html html = rcore_ok_body (SBin (map of_char html))"

definition rcore_timeout :: "'x rcore" where
  "rcore_timeout = ReflectedCore (\<lambda>_. None) (status 408) SEmpty"

definition rcore_server_error :: "'x rcore" where
  "rcore_server_error = ReflectedCore (\<lambda>_. None) (status 500) SEmpty"

definition rcore_not_found :: "'x rcore" where
  "rcore_not_found = ReflectedCore (\<lambda>_. None) (status 404) SEmpty"

definition rcore_forbidden :: "'x rcore" where
  "rcore_forbidden = ReflectedCore (\<lambda>_. None) (status 403) SEmpty"

definition rcore_bad_request :: "'x rcore" where
  "rcore_bad_request = ReflectedCore (\<lambda>_. None) (status 400) SEmpty"

definition status_or_500 :: "16 word \<Rightarrow> status_code" where
  "status_or_500 c = (case status_from_u16 c of Inr s \<Rightarrow> s | Inl _ \<Rightarrow> status 500)"

definition rcore_status :: "16 word \<Rightarrow> 'x rcore" where
  "rcore_status c = ReflectedCore (\<lambda>_. None) (status_or_500 c) SEmpty"

definition rcore_fail :: "16 word \<Rightarrow> string \<Rightarrow> 'x rcore" where
  "rcore_fail c message = ReflectedCore (\<lambda>_. None) (status_or_500 c) (SFormErrs (form_errs_default message))"

text \<open>An error becomes a core in four ways: \<open>ReflectedCore::err\<close> and \<open>ReflectedCore::result\<close>
  report its text as a form error, \<open>Into<ReflectedCore>\<close> and \<open>as_reflected_core\<close> carry the
  error itself.\<close>

definition rcore_err :: "space_err \<Rightarrow> 'x rcore" where
  "rcore_err e =
     ReflectedCore (\<lambda>_. None) (status_or_500 (err_status e)) (SFormErrs (form_errs_default (err_to_string e)))"

definition rcore_with_new_substance :: "'x rcore \<Rightarrow> 'x substance \<Rightarrow> 'x rcore" where
  "rcore_with_new_substance c s = ReflectedCore (rc_headers c) (rc_status c) s"

definition rcore_result :: "space_err + 'x rcore \<Rightarrow> 'x rcore" where
  "rcore_result r =
     (case r of
        Inr core \<Rightarrow> core
      | Inl e \<Rightarrow> rcore_with_new_substance (rcore_status (err_status e)) (SFormErrs (form_errs_of_err e)))"

fun rcore_of_err :: "space_err \<Rightarrow> 'x rcore" where
  "rcore_of_err (Status c m) = ReflectedCore (\<lambda>_. None) (status_or_500 c) (SErr (Status c m))"
| "rcore_of_err (ParseErrs p) = ReflectedCore (\<lambda>_. None) (status_or_500 500) (SErr (ParseErrs p))"

definition as_reflected_core :: "space_err \<Rightarrow> 'x rcore option" where
  "as_reflected_core e =
     (case status_from_u16 (err_status e) of
        Inr s \<Rightarrow> Some (ReflectedCore (\<lambda>_. None) s (SErr e))
      | Inl _ \<Rightarrow> None)"

definition rcore_of_result :: "space_err + 'x rcore \<Rightarrow> 'x rcore" where
  "rcore_of_result r = (case r of Inr response \<Rightarrow> response | Inl e \<Rightarrow> rcore_of_err e)"

definition rcore_is_ok :: "'x rcore \<Rightarrow> bool" where
  "rcore_is_ok c = status_is_success (rc_status c)"

definition rcore_to_err :: "'x rcore \<Rightarrow> space_err option" where
  "rcore_to_err c =
     (if status_is_success (rc_status c) then Some (err_of_string ''cannot convert a success into an error'')
      else (case rc_body c of
              SFormErrs errors \<Rightarrow> to_cosmic_err errors
            | _ \<Rightarrow> Some (err_of_string (status_to_string (rc_status c)))))"

text \<open>\<open>as_result\<close> reads the body as a value with \<open>conv\<close>; \<open>mk_err\<close> makes the error from a
  text.\<close>

definition rcore_as_result ::
  "(string \<Rightarrow> 'e) \<Rightarrow> ('x substance \<Rightarrow> 'f + 'p) \<Rightarrow> 'x rcore \<Rightarrow> 'e + 'p" where
  "rcore_as_result mk_err conv c =
     (if status_is_success (rc_status c)
      then (case conv (rc_body c) of Inr substance \<Rightarrow> Inr substance | Inl _ \<Rightarrow> Inl (mk_err ''error''))
      else Inl (mk_err ''error''))"

definition rcore_ok_or :: "'x rcore \<Rightarrow> (space_err + unit) option" where
  "rcore_ok_or c =
     (if rcore_is_ok c then Some (Inr ())
      else map_option Inl (space_err_new (status_as_u16 (rc_status c)) ''error''))"

definition rcore_of_surface :: "surface \<Rightarrow> 'x rcore" where
  "rcore_of_surface s = rcore_ok_body (SSurface s)"

definition rcore_to_surface :: "'x rcore \<Rightarrow> (space_err + surface) option" where
  "rcore_to_surface c =
     (if \<not> status_is_success (rc_status c) then
        map_option Inl (space_err_new (status_as_u16 (rc_status c)) ''error'')
      else Some (case rc_body c of
          SSurface s \<Rightarrow> Inr s
        | substance \<Rightarrow>
            Inl (err_of_string (''expecting Surface received '' @
                   substance_kind_to_string (substance_kind_of substance)))))"

definition rcore_of_location :: "particle_location \<Rightarrow> 'x rcore" where
  "rcore_of_location l = rcore_ok_body (SLocation l)"

text \<open>The answers a directed core gives to itself.\<close>

definition dcore_answer :: "'x dcore \<Rightarrow> 16 word \<Rightarrow> 'x substance \<Rightarrow> 'x rcore" where
  "dcore_answer self c body = ReflectedCore (\<lambda>_. None) (status c) body"

definition dcore_server_error :: "'x dcore \<Rightarrow> 'x rcore" where
  "dcore_server_error c = dcore_answer c 500 SEmpty"

definition dcore_timeout :: "'x dcore \<Rightarrow> 'x rcore" where
  "dcore_timeout c = dcore_answer c 408 SEmpty"

definition dcore_not_found :: "'x dcore \<Rightarrow> 'x rcore" where
  "dcore_not_found c = dcore_answer c 404 SEmpty"

definition dcore_forbidden :: "'x dcore \<Rightarrow> 'x rcore" where
  "dcore_forbidden c = dcore_answer c 403 SEmpty"

definition dcore_bad_request :: "'x dcore \<Rightarrow> 'x rcore" where
  "dcore_bad_request c = dcore_answer c 400 SEmpty"

definition dcore_ok :: "'x dcore \<Rightarrow> 'x rcore" where
  "dcore_ok c = dcore_answer c 200 SEmpty"

definition dcore_ok_body :: "'x dcore \<Rightarrow> 'x substance \<Rightarrow> 'x rcore" where
  "dcore_ok_body c body = dcore_answer c 200 body"

definition dcore_fail :: "'x dcore \<Rightarrow> 16 word \<Rightarrow> string \<Rightarrow> 'x rcore" where
  "dcore_fail self c message =
     ReflectedCore (\<lambda>_. None) (status_or_500 c) (SFormErrs (form_errs_default message))"

text \<open>\<open>err\<close> reports the message of the error, not its status and message as \<open>ReflectedCore::err\<close>
  does.\<close>

definition dcore_err :: "'x dcore \<Rightarrow> space_err \<Rightarrow> 'x rcore" where
  "dcore_err self e =
     ReflectedCore (\<lambda>_. None) (status_or_500 (err_status e)) (SFormErrs (form_errs_default (err_message e)))"


section \<open>Hyperspace messages\<close>

text \<open>The requests read from a ping, and the cores that carry them.  A provision is sent with the
  method \<open>Assign\<close>.\<close>

definition provision_of_ping :: "'x substance ping \<Rightarrow> space_err + 'x substance provision" where
  "provision_of_ping request =
     (case dc_body (ping_core request) of
        SHyper (HsProvision p) \<Rightarrow> Inr p
      | _ \<Rightarrow> Inl (bad_request ''expecting a Provision HyperSubstance''))"

definition assign_of_ping :: "'x substance ping \<Rightarrow> space_err + 'x substance assign" where
  "assign_of_ping request =
     (case dc_body (ping_core request) of
        SHyper (HsAssign a) \<Rightarrow> Inr a
      | _ \<Rightarrow> Inl (bad_request ''expecting an Assign HyperSubstance''))"

definition substance_of_provision :: "'x substance provision \<Rightarrow> 'x substance" where
  "substance_of_provision p = SHyper (HsProvision p)"

definition substance_of_assign :: "'x substance assign \<Rightarrow> 'x substance" where
  "substance_of_assign a = SHyper (HsAssign a)"

definition dcore_of_provision :: "'x substance provision \<Rightarrow> 'x dcore" where
  "dcore_of_provision p = dcore_with_body (dcore_new (Hyp HypAssign)) (SHyper (HsProvision p))"

definition dcore_of_assign :: "'x substance assign \<Rightarrow> 'x dcore" where
  "dcore_of_assign a = dcore_with_body (dcore_new (Hyp HypAssign)) (SHyper (HsAssign a))"

definition assign_kind :: "'b assign \<Rightarrow> kind" where
  "assign_kind a = stub_kind (det_stub (asg_details a))"

definition host_cmd_kind :: "('x, 'b) host_cmd \<Rightarrow> kind" where
  "host_cmd_kind h = stub_kind (det_stub (hc_details h))"

definition assign_to_host_cmd :: "'b assign \<Rightarrow> 'x \<Rightarrow> ('x, 'b) host_cmd" where
  "assign_to_host_cmd a config = HostCmd (asg_kind a) (asg_details a) (asg_state a) config"

definition knock_new :: "interchange_kind \<Rightarrow> surface \<Rightarrow> 'b \<Rightarrow> 'b knock" where
  "knock_new k remote auth = Knock k auth (Some remote)"

definition knock_default :: "'x substance knock" where
  "knock_default = Knock IkDefaultControl SEmpty None"

fun control_pattern_to_string :: "control_pattern \<Rightarrow> string" where
  "control_pattern_to_string ControlAny = ''Any''"
| "control_pattern_to_string (ControlStar _) = ''Star''"

fun interchange_kind_to_string :: "interchange_kind \<Rightarrow> string" where
  "interchange_kind_to_string IkSingleton = ''Singleton''"
| "interchange_kind_to_string IkDefaultControl = ''DefaultControl''"
| "interchange_kind_to_string (IkControl _) = ''Control''"
| "interchange_kind_to_string (IkPortal _) = ''Portal''"
| "interchange_kind_to_string (IkStar _) = ''Star''"

datatype mount_kind = MountControl | MountPortal

fun mount_kind_kind :: "mount_kind \<Rightarrow> kind" where
  "mount_kind_kind MountControl = KControl"
| "mount_kind_kind MountPortal = KPortal"

section \<open>Calls\<close>

text \<open>\<open>'t\<close> is the type of the paths (\<open>Subst<Tw<String>>\<close>), printed by \<open>str\<close>.\<close>

datatype 't call_kind =
    CallCmd cmd_method 't
  | CallHyp hyp_method 't
  | CallExt ext_method 't
  | CallHttp http_method 't

datatype ('p, 't) call = Call (call_point: 'p) (call_kind: "'t call_kind")

fun call_kind_to_string :: "('t \<Rightarrow> string) \<Rightarrow> 't call_kind \<Rightarrow> string" where
  "call_kind_to_string str (CallExt m path) = ''Ext<'' @ ext_string m @ ''>'' @ str path"
| "call_kind_to_string str (CallHttp m path) = ''Http<'' @ http_method_to_string m @ ''>'' @ str path"
| "call_kind_to_string str (CallCmd m path) = ''Cmd<'' @ cmd_method_to_string m @ ''>'' @ str path"
| "call_kind_to_string str (CallHyp m path) = ''Hyp<'' @ hyp_method_to_string m @ ''>'' @ str path"

definition call_to_string :: "('t \<Rightarrow> string) \<Rightarrow> (point, 't) call \<Rightarrow> string" where
  "call_to_string str c = point_to_string (call_point c) @ ''^'' @ call_kind_to_string str (call_kind c)"

text \<open>\<open>to_call\<close> of a directed wave: the method and the path of its core, parsed by \<open>Subst::new\<close>.\<close>

definition core_to_call ::
  "(string \<Rightarrow> string) \<Rightarrow> (string \<Rightarrow> space_err + 't) \<Rightarrow> 'x dcore \<Rightarrow> point \<Rightarrow> space_err + (point, 't) call" where
  "core_to_call path subst_new c p =
     res_bind
       (case dc_method c of
          Cmd m \<Rightarrow> res_bind (subst_new (path (dc_uri c))) (\<lambda>t. Inr (CallCmd m t))
        | Hyp m \<Rightarrow> res_bind (subst_new (path (dc_uri c))) (\<lambda>t. Inr (CallHyp m t))
        | Http m \<Rightarrow> res_bind (subst_new (path (dc_uri c))) (\<lambda>t. Inr (CallHttp m t))
        | Ext m \<Rightarrow> res_bind (subst_new (path (dc_uri c))) (\<lambda>t. Inr (CallExt m t)))
       (\<lambda>k. Inr (Call p k))"

text \<open>Resolving a call resolves its point; \<open>res\<close> is the resolution of points, from variables or
  from the context.\<close>

definition call_to_resolved :: "('p \<Rightarrow> space_err + 'q) \<Rightarrow> ('p, 't) call \<Rightarrow> space_err + ('q, 't) call" where
  "call_to_resolved res c = res_bind (res (call_point c)) (\<lambda>p. Inr (Call p (call_kind c)))"

definition call_var_to_resolved ::
  "('p \<Rightarrow> space_err + 'q) \<Rightarrow> ('q \<Rightarrow> space_err + 'r) \<Rightarrow> ('p, 't) call \<Rightarrow> space_err + ('r, 't) call" where
  "call_var_to_resolved res res' c = res_bind (call_to_resolved res c) (call_to_resolved res')"

text \<open>A call with a configuration: the errors of both points are collected and folded, which
  keeps nothing of them.\<close>

datatype ('p, 't) call_with_config = CallWithConfig (cwc_call: "('p, 't) call") (cwc_config: "'p option")

fun opt_to_resolved :: "('p \<Rightarrow> space_err + 'q) \<Rightarrow> 'p option \<Rightarrow> space_err + 'q option" where
  "opt_to_resolved res None = Inr None"
| "opt_to_resolved res (Some p) = res_bind (res p) (\<lambda>q. Inr (Some q))"

definition both_resolved ::
  "(space_err + 'a) \<Rightarrow> (space_err + 'b) \<Rightarrow> ('a \<Rightarrow> 'b \<Rightarrow> 'c) \<Rightarrow> space_err + 'c" where
  "both_resolved ra rb mk =
     (let errs = (case ra of Inl e \<Rightarrow> [e] | Inr _ \<Rightarrow> []) @ (case rb of Inl e \<Rightarrow> [e] | Inr _ \<Rightarrow> [])
      in case (ra, rb) of
           (Inr a, Inr b) \<Rightarrow> Inr (mk a b)
         | _ \<Rightarrow> Inl (ParseErrs (parse_errs_fold parse_errs_of_space_err errs)))"

definition cwc_to_resolved ::
  "('p \<Rightarrow> space_err + 'q) \<Rightarrow> ('p, 't) call_with_config \<Rightarrow> space_err + ('q, 't) call_with_config" where
  "cwc_to_resolved res c =
     both_resolved (call_to_resolved res (cwc_call c)) (opt_to_resolved res (cwc_config c)) CallWithConfig"

section \<open>Patterns over substances\<close>

datatype num_range = RangeMinMax nat nat | RangeExact nat | RangeAny
datatype list_pattern = ListPattern (lp_primitive: substance_kind) (lp_range: num_range)
datatype substance_format = FormatJson | FormatImage

fun substance_format_to_string :: "substance_format \<Rightarrow> string" where
  "substance_format_to_string FormatJson = ''json''"
| "substance_format_to_string FormatImage = ''image''"

datatype ('p, 't) type_pattern =
    TpEmpty
  | TpPrimitive substance_kind
  | TpList list_pattern
  | TpMap "(string \<times> ('p, 't) substance_pattern value_pattern) list" "('p, 't) substance_pattern value_pattern"
and ('p, 't) substance_pattern =
    SubstancePattern (sp_structure: "('p, 't) type_pattern") (sp_format: "substance_format option")
                     (sp_validator: "('p, 't) call_with_config option")

text \<open>Matching a structure is \<open>unimplemented!()\<close>: it panics on every pattern and every substance.\<close>

definition type_pattern_is_match :: "('p, 't) type_pattern \<Rightarrow> 'x substance \<Rightarrow> check option" where
  "type_pattern_is_match self payload = None"

definition substance_pattern_is_match :: "('p, 't) substance_pattern \<Rightarrow> 'x substance \<Rightarrow> check option" where
  "substance_pattern_is_match self payload =
     (case type_pattern_is_match (sp_structure self) payload of
        None \<Rightarrow> None
      | Some (Inl e) \<Rightarrow> Some (Inl e)
      | Some (Inr _) \<Rightarrow> Some pass)"

definition list_pattern_is_match :: "list_pattern \<Rightarrow> 'x substance list \<Rightarrow> (space_err + unit) option" where
  "list_pattern_is_match self l = None"

text \<open>Only closed patterns resolve: a map pattern is refused.\<close>

fun type_pattern_to_resolved :: "('p, 't) type_pattern \<Rightarrow> space_err + ('q, 't) type_pattern" where
  "type_pattern_to_resolved TpEmpty = Inr TpEmpty"
| "type_pattern_to_resolved (TpPrimitive k) = Inr (TpPrimitive k)"
| "type_pattern_to_resolved (TpList l) = Inr (TpList l)"
| "type_pattern_to_resolved (TpMap _ _) =
     Inl (err_of_string ''MapPatternCtx resolution not supported yet...'')"

definition substance_pattern_to_resolved ::
  "('p \<Rightarrow> space_err + 'q) \<Rightarrow> ('p, 't) substance_pattern \<Rightarrow> space_err + ('q, 't) substance_pattern" where
  "substance_pattern_to_resolved res self =
     both_resolved (type_pattern_to_resolved (sp_structure self))
       (case sp_validator self of
          None \<Rightarrow> Inr None
        | Some v \<Rightarrow> res_bind (cwc_to_resolved res v) (\<lambda>v. Inr (Some v)))
       (\<lambda>structure validator. SubstancePattern structure (sp_format self) validator)"

text \<open>\<open>MapPattern::is_match\<close>: the values whose keys are not required against \<open>allowed\<close>, then
  the required keys with their constraints; \<open>None\<close> is a panic.\<close>

fun vp_is_match_panic :: "('a \<Rightarrow> 'x \<Rightarrow> check option) \<Rightarrow> 'a value_pattern \<Rightarrow> 'x \<Rightarrow> check option" where
  "vp_is_match_panic m VPAny x = Some pass"
| "vp_is_match_panic m (VPPattern exact) x = m exact x"
| "vp_is_match_panic m VPNone x = Some refuse"

fun check_all :: "('a \<Rightarrow> check option) \<Rightarrow> 'a list \<Rightarrow> check option" where
  "check_all f [] = Some pass"
| "check_all f (x # xs) = (case f x of None \<Rightarrow> None | Some (Inl e) \<Rightarrow> Some (Inl e) | Some (Inr _) \<Rightarrow> check_all f xs)"

definition map_pattern_is_match ::
  "(string \<times> ('p, 't) substance_pattern value_pattern) list \<Rightarrow> ('p, 't) substance_pattern value_pattern
   \<Rightarrow> (string \<times> 'x substance) list \<Rightarrow> check option" where
  "map_pattern_is_match required allowed m =
     (case check_all (\<lambda>(key, payload).
             if map_of required key = None
             then vp_is_match_panic substance_pattern_is_match allowed payload
             else Some pass) m of
        None \<Rightarrow> None
      | Some (Inl e) \<Rightarrow> Some (Inl e)
      | Some (Inr _) \<Rightarrow>
          check_all (\<lambda>(key, constraint).
             case map_of m key of
               None \<Rightarrow> Some refuse
             | Some payload \<Rightarrow> vp_is_match_panic substance_pattern_is_match constraint payload) required)"



section \<open>Facts: errors and their reflections\<close>

lemma status_or_500_eq [simp]: "status_or_500 c = status c"
  by (simp add: status_or_500_def status_from_u16_def)

lemma form_errs_fold:
  "fold (\<lambda>(index, (_, value)) rtn. rtn @ value @ (if index = n - 1 then [CHR 0x0A] else ''''))
     (List.enumerate k m) acc =
   acc @ concat (map snd m) @ (if m \<noteq> [] \<and> k \<le> n - 1 \<and> n - 1 < k + length m then [CHR 0x0A] else '''')"
  if "k + length m \<le> n" for m :: form_errs
  using that
proof (induction m arbitrary: k acc)
  case Nil
  then show ?case by simp
next
  case (Cons kv m)
  show ?case
  proof (cases m)
    case Nil
    then show ?thesis using Cons.prems by (cases kv) auto
  next
    case (Cons kv' m')
    then show ?thesis
      using Cons.prems Cons.IH[of "Suc k"] by (cases kv) auto
  qed
qed

lemma form_errs_to_string_eq:
  "form_errs_to_string m = concat (map snd m) @ (if m = [] then '''' else [CHR 0x0A])"
  using form_errs_fold[of 0 m "length m" "''''"] by (cases m) (simp_all add: form_errs_to_string_def)

lemma to_cosmic_err_eq: "to_cosmic_err m = Some (Status 500 (form_errs_to_string m))"
proof -
  have "form_errs_to_string m \<noteq> ''500''"
  proof
    assume "form_errs_to_string m = ''500''"
    then have "m \<noteq> []" "last (form_errs_to_string m) = CHR ''0''"
      by (auto simp: form_errs_to_string_eq split: if_splits)
    then show False by (simp add: form_errs_to_string_eq)
  qed
  then show ?thesis by (simp add: to_cosmic_err_def space_err_new_def)
qed

lemma form_errs_default_text: "form_errs_to_string (form_errs_default t) = t @ [CHR 0x0A]"
  by (simp add: form_errs_to_string_eq form_errs_default_def)

text \<open>The four conversions of an error agree on the status and differ in the body.\<close>

lemma error_cores_agree:
  "rc_status (rcore_err e) = status (err_status e)"
  "rc_status (rcore_result (Inl e)) = status (err_status e)"
  "rc_status (rcore_of_err e) = status (err_status e)"
  "as_reflected_core e = Some (rcore_of_err e)"
  by (cases e; simp add: rcore_err_def rcore_result_def rcore_with_new_substance_def rcore_status_def
        as_reflected_core_def status_from_u16_def)+

text \<open>An error that becomes a reflected core and is read back with \<open>to_err\<close> keeps neither its
  status nor its structure: whatever it was, the result has status 500, and its message is the
  number of the status when the core carries the error itself, the printed error and a newline
  when it carries a form error.  Only an error with a success status is refused.\<close>

theorem errors_lose_their_status:
  assumes "\<not> status_is_success (status (err_status e))"
  shows "rcore_to_err (rcore_of_err e) = Some (Status 500 (u16_to_string (err_status e))) \<and>
         rcore_to_err (rcore_err e) = Some (Status 500 (err_to_string e @ [CHR 0x0A]))"
  using assms
  by (cases e; simp add: rcore_to_err_def status_to_string_def err_of_string_def rcore_err_def
        to_cosmic_err_eq form_errs_default_text)+

lemma errors_lose_their_status_witness:
  "rcore_to_err (rcore_of_err (not_found ''x'') :: unit rcore) = Some (Status 500 ''404'')
   \<and> rcore_to_err (rcore_err (not_found ''x'') :: unit rcore) =
       Some (Status 500 (''404: Not Found: x'' @ [CHR 0x0A]))"
proof -
  have h: "\<not> status_is_success (status (err_status (not_found ''x'')))"
    by (simp add: status_is_success_def)
  have n: "nat_to_string 404 = ''404''" by code_simp
  show ?thesis
    using errors_lose_their_status[OF h, where ?'a = unit and ?'b = unit]
    by (simp add: u16_to_string_def n)
qed

section \<open>Facts: resolution and matching\<close>

lemma both_resolved_Inr_iff:
  "both_resolved ra rb mk = Inr c \<longleftrightarrow> (\<exists>a b. ra = Inr a \<and> rb = Inr b \<and> c = mk a b)"
  by (auto simp: both_resolved_def Let_def split: sum.splits)

text \<open>Every failure of a resolution that folds its errors is the same empty report.\<close>

lemma both_resolved_Inl:
  "both_resolved ra rb mk = Inl e \<Longrightarrow> e = ParseErrs \<lparr>pe_report = [], pe_source = None, pe_ctx = ''''\<rparr>"
  by (auto simp: both_resolved_def fold_of_space_errs Let_def split: sum.splits)

lemma cwc_to_resolved_Inr_iff:
  "cwc_to_resolved res c = Inr d \<longleftrightarrow>
     (\<exists>p. res (call_point (cwc_call c)) = Inr p \<and> opt_to_resolved res (cwc_config c) = Inr (cwc_config d)
        \<and> cwc_call d = Call p (call_kind (cwc_call c)))"
  by (cases d) (auto simp: cwc_to_resolved_def both_resolved_Inr_iff call_to_resolved_def res_bind_Inr_iff)

lemma check_all_pass_iff: "check_all f xs = Some pass \<longleftrightarrow> list_all (\<lambda>x. f x = Some pass) xs"
  by (induction xs) (auto split: option.splits sum.splits)

lemma vp_is_match_panic_pass_iff:
  "vp_is_match_panic substance_pattern_is_match v x = Some pass \<longleftrightarrow> v = VPAny"
  by (cases v) (auto simp: substance_pattern_is_match_def type_pattern_is_match_def)

text \<open>A map pattern accepts a map exactly when every required key is present with an open
  constraint and either every key is allowed or every key is required: a pattern with any structure
  in a place that is looked at makes the match panic or fail, never pass.\<close>

theorem map_pattern_accepts_only_open:
  "map_pattern_is_match required allowed m = Some pass \<longleftrightarrow>
     list_all (\<lambda>(k, c). map_of m k \<noteq> None \<and> c = VPAny) required \<and>
     (allowed = VPAny \<or> list_all (\<lambda>(k, _). map_of required k \<noteq> None) m)"
proof -
  have keys: "check_all (\<lambda>(key, payload). if map_of required key = None
                 then vp_is_match_panic substance_pattern_is_match allowed payload else Some pass) m = Some pass \<longleftrightarrow>
      allowed = VPAny \<or> list_all (\<lambda>(k, _). map_of required k \<noteq> None) m"
    by (fastforce simp: check_all_pass_iff list_all_iff vp_is_match_panic_pass_iff split: if_splits)
  have req: "check_all (\<lambda>(key, constraint). case map_of m key of None \<Rightarrow> Some refuse
               | Some payload \<Rightarrow> vp_is_match_panic substance_pattern_is_match constraint payload) required = Some pass \<longleftrightarrow>
      list_all (\<lambda>(k, c). map_of m k \<noteq> None \<and> c = VPAny) required"
    by (auto simp: check_all_pass_iff list_all_iff vp_is_match_panic_pass_iff split: option.splits)
  show ?thesis
    unfolding keys[symmetric] req[symmetric] map_pattern_is_match_def
    by (auto split: option.splits sum.splits)
qed

lemma form_to_request_core_panics:
  "url_parse ''/'' = None \<Longrightarrow> form_to_request_core url_parse data = None"
  by (simp add: form_to_request_core_def)

end
