(* ===== verification/Waves.thy ===== *)
theory Waves
  imports Substances
begin

text \<open>
  Waves (\<open>wave.rs\<close>): the accessors and changes of the five kinds, of directed, reflected and
  singular waves; the transport of a wave inside a signal and the count of its hops; the reflection
  of a directed wave; the aggregates an exchange returns and the recipients of a wave.  The fresh
  uuid of \<open>WaveId::new\<close> is an argument.
\<close>

type_synonym 'x ultrawave = "(recipients, 'x substance) ultra_wave"
type_synonym 'x singular_ultra = "(surface, 'x substance) ultra_wave"
type_synonym 'x directed = "(recipients, 'x substance) directed_wave"
type_synonym 'x singular_directed = "(surface, 'x substance) directed_wave"
type_synonym 'x reflected = "'x substance reflected_wave"

section \<open>Waves\<close>

fun wave_set_variant :: "'u \<Rightarrow> 'v wave \<Rightarrow> 'u wave" where
  "wave_set_variant y (Wave i se _ a h sc f vi ho t) = Wave i se y a h sc f vi ho t"

fun wave_set_agent :: "agent \<Rightarrow> 'v wave \<Rightarrow> 'v wave" where
  "wave_set_agent y (Wave i se v _ h sc f vi ho t) = Wave i se v y h sc f vi ho t"

fun wave_set_handling :: "handling \<Rightarrow> 'v wave \<Rightarrow> 'v wave" where
  "wave_set_handling y (Wave i se v a _ sc f vi ho t) = Wave i se v a y sc f vi ho t"

fun wave_set_scope :: "scope \<Rightarrow> 'v wave \<Rightarrow> 'v wave" where
  "wave_set_scope y (Wave i se v a h _ f vi ho t) = Wave i se v a h y f vi ho t"

fun wave_set_from :: "surface \<Rightarrow> 'v wave \<Rightarrow> 'v wave" where
  "wave_set_from y (Wave i se v a h sc _ vi ho t) = Wave i se v a h sc y vi ho t"

fun wave_set_via :: "surface option \<Rightarrow> 'v wave \<Rightarrow> 'v wave" where
  "wave_set_via y (Wave i se v a h sc f _ ho t) = Wave i se v a h sc f y ho t"

fun wave_set_hops :: "16 word \<Rightarrow> 'v wave \<Rightarrow> 'v wave" where
  "wave_set_hops y (Wave i se v a h sc f vi _ t) = Wave i se v a h sc f vi y t"

fun wave_set_track :: "bool \<Rightarrow> 'v wave \<Rightarrow> 'v wave" where
  "wave_set_track y (Wave i se v a h sc f vi ho _) = Wave i se v a h sc f vi ho y"

definition wave_new :: "uuid \<Rightarrow> wave_kind \<Rightarrow> 'v \<Rightarrow> surface \<Rightarrow> 'v wave" where
  "wave_new u k v from =
     Wave (wave_id_with_uuid k u) None v AgentAnonymous handling_default scope_default from None 0 False"

text \<open>A wave whose variant is replaced is no longer tracked.\<close>

definition wave_replace :: "'v wave \<Rightarrow> 'u \<Rightarrow> 'u wave" where
  "wave_replace w v =
     Wave (w_id w) (w_session w) v (w_agent w) (w_handling w) (w_scope w) (w_from w) (w_via w)
       (w_hops w) False"

definition wave_inc_hops :: "'v wave \<Rightarrow> 'v wave" where
  "wave_inc_hops w = wave_set_hops (w_hops w + 1) w"

text \<open>The changes of a variant.\<close>

fun ping_set_to :: "surface \<Rightarrow> 'b ping \<Rightarrow> 'b ping" where "ping_set_to t (PingV _ c) = PingV t c"
fun signal_set_to :: "surface \<Rightarrow> 'b signal \<Rightarrow> 'b signal" where "signal_set_to t (SignalV _ c) = SignalV t c"
fun pong_set_to :: "surface \<Rightarrow> 'b pong \<Rightarrow> 'b pong" where "pong_set_to t (PongV _ i c r) = PongV t i c r"
fun echo_set_to :: "surface \<Rightarrow> 'b echo \<Rightarrow> 'b echo" where "echo_set_to t (EchoV _ i c r) = EchoV t i c r"

fun ripple_replace_to :: "('t, 'b) ripple \<Rightarrow> 'u \<Rightarrow> ('u, 'b) ripple" where
  "ripple_replace_to (RippleV _ c b h) t = RippleV t c b h"

fun ripple_set_bounce_backs :: "bounce_backs \<Rightarrow> ('t, 'b) ripple \<Rightarrow> ('t, 'b) ripple" where
  "ripple_set_bounce_backs b (RippleV t c _ h) = RippleV t c b h"

fun ripple_add_history :: "point \<Rightarrow> ('t, 'b) ripple \<Rightarrow> ('t, 'b) ripple" where
  "ripple_add_history p (RippleV t c b h) = RippleV t c b (insert p h)"

definition ripple_new :: "'b directed_core \<Rightarrow> recipients \<Rightarrow> bounce_backs \<Rightarrow> (recipients, 'b) ripple" where
  "ripple_new core to bounce_backs = RippleV to core bounce_backs {}"

text \<open>\<open>with_core\<close>, for the three directed variants.\<close>

fun ping_with_core :: "'b ping wave \<Rightarrow> 'b directed_core \<Rightarrow> 'b ping wave" where
  "ping_with_core w c = wave_set_variant (PingV (ping_to (w_variant w)) c) w"

fun ripple_with_core :: "('t, 'b) ripple wave \<Rightarrow> 'b directed_core \<Rightarrow> ('t, 'b) ripple wave" where
  "ripple_with_core w c =
     wave_set_variant (RippleV (ripple_to (w_variant w)) c (ripple_bounce_backs (w_variant w))
       (ripple_history (w_variant w))) w"

fun signal_with_core :: "'b signal wave \<Rightarrow> 'b directed_core \<Rightarrow> 'b signal wave" where
  "signal_with_core w c = wave_set_variant (SignalV (signal_to (w_variant w)) c) w"

definition ripple_as_multi :: "(surface, 'b) ripple wave \<Rightarrow> recipients \<Rightarrow> (recipients, 'b) ripple wave" where
  "ripple_as_multi w r = wave_replace w (ripple_replace_to (w_variant w) r)"

definition ripple_to_multiple :: "(surface, 'b) ripple wave \<Rightarrow> (recipients, 'b) ripple wave" where
  "ripple_to_multiple w = wave_replace w (ripple_replace_to (w_variant w) (Single (ripple_to (w_variant w))))"

definition ripple_as_single :: "(recipients, 'b) ripple wave \<Rightarrow> surface \<Rightarrow> (surface, 'b) ripple wave" where
  "ripple_as_single w s = wave_replace w (ripple_replace_to (w_variant w) s)"

section \<open>Waves of any kind\<close>

fun uw_id :: "('t, 'b) ultra_wave \<Rightarrow> wave_id" where
  "uw_id (Ping w) = w_id w"
| "uw_id (Pong w) = w_id w"
| "uw_id (Ripple w) = w_id w"
| "uw_id (Echo w) = w_id w"
| "uw_id (Signal w) = w_id w"

fun uw_agent :: "('t, 'b) ultra_wave \<Rightarrow> agent" where
  "uw_agent (Ping w) = w_agent w"
| "uw_agent (Pong w) = w_agent w"
| "uw_agent (Ripple w) = w_agent w"
| "uw_agent (Echo w) = w_agent w"
| "uw_agent (Signal w) = w_agent w"

fun uw_handling :: "('t, 'b) ultra_wave \<Rightarrow> handling" where
  "uw_handling (Ping w) = w_handling w"
| "uw_handling (Pong w) = w_handling w"
| "uw_handling (Ripple w) = w_handling w"
| "uw_handling (Echo w) = w_handling w"
| "uw_handling (Signal w) = w_handling w"

fun uw_scope :: "('t, 'b) ultra_wave \<Rightarrow> scope" where
  "uw_scope (Ping w) = w_scope w"
| "uw_scope (Pong w) = w_scope w"
| "uw_scope (Ripple w) = w_scope w"
| "uw_scope (Echo w) = w_scope w"
| "uw_scope (Signal w) = w_scope w"

fun uw_from :: "('t, 'b) ultra_wave \<Rightarrow> surface" where
  "uw_from (Ping w) = w_from w"
| "uw_from (Pong w) = w_from w"
| "uw_from (Ripple w) = w_from w"
| "uw_from (Echo w) = w_from w"
| "uw_from (Signal w) = w_from w"

fun uw_via :: "('t, 'b) ultra_wave \<Rightarrow> surface option" where
  "uw_via (Ping w) = w_via w"
| "uw_via (Pong w) = w_via w"
| "uw_via (Ripple w) = w_via w"
| "uw_via (Echo w) = w_via w"
| "uw_via (Signal w) = w_via w"

fun uw_hops :: "('t, 'b) ultra_wave \<Rightarrow> 16 word" where
  "uw_hops (Ping w) = w_hops w"
| "uw_hops (Pong w) = w_hops w"
| "uw_hops (Ripple w) = w_hops w"
| "uw_hops (Echo w) = w_hops w"
| "uw_hops (Signal w) = w_hops w"

fun uw_track :: "('t, 'b) ultra_wave \<Rightarrow> bool" where
  "uw_track (Ping w) = w_track w"
| "uw_track (Pong w) = w_track w"
| "uw_track (Ripple w) = w_track w"
| "uw_track (Echo w) = w_track w"
| "uw_track (Signal w) = w_track w"

definition uw_via_desc :: "('t, 'b) ultra_wave \<Rightarrow> string" where
  "uw_via_desc w = (case uw_via w of None \<Rightarrow> ''None'' | Some v \<Rightarrow> surface_to_string v)"

fun uw_has_visited :: "('t, 'b) ultra_wave \<Rightarrow> point \<Rightarrow> bool" where
  "uw_has_visited (Ripple w) star \<longleftrightarrow> star \<in> ripple_history (w_variant w)"
| "uw_has_visited _ star \<longleftrightarrow> False"

fun uw_add_history :: "('t, 'b) ultra_wave \<Rightarrow> point \<Rightarrow> ('t, 'b) ultra_wave" where
  "uw_add_history (Ping w) p = Ping w"
| "uw_add_history (Pong w) p = Pong w"
| "uw_add_history (Ripple w) p = Ripple (wave_set_variant (ripple_add_history p (w_variant w)) w)"
| "uw_add_history (Echo w) p = Echo w"
| "uw_add_history (Signal w) p = Signal w"

fun uw_history :: "('t, 'b) ultra_wave \<Rightarrow> point set" where
  "uw_history (Ping w) = {}"
| "uw_history (Pong w) = {}"
| "uw_history (Ripple w) = ripple_history (w_variant w)"
| "uw_history (Echo w) = {}"
| "uw_history (Signal w) = {}"

fun uw_body :: "('t, 'b) ultra_wave \<Rightarrow> 'b" where
  "uw_body (Ping w) = dc_body (ping_core (w_variant w))"
| "uw_body (Pong w) = rc_body (pong_core (w_variant w))"
| "uw_body (Ripple w) = dc_body (ripple_core (w_variant w))"
| "uw_body (Echo w) = rc_body (echo_core (w_variant w))"
| "uw_body (Signal w) = dc_body (signal_core (w_variant w))"

definition uw_payload :: "('t, 'x substance) ultra_wave \<Rightarrow> 'x ultrawave option" where
  "uw_payload w = ultrawave (uw_body w)"

text \<open>Writing through \<open>ultrawave_mut\<close> puts a new body into the core.\<close>

fun dcore_set_body :: "'b \<Rightarrow> 'b directed_core \<Rightarrow> 'b directed_core" where
  "dcore_set_body b (DirectedCore h m u _) = DirectedCore h m u b"

fun rcore_set_body :: "'b \<Rightarrow> 'b reflected_core \<Rightarrow> 'b reflected_core" where
  "rcore_set_body b (ReflectedCore h s _) = ReflectedCore h s b"

fun uw_set_body :: "'b \<Rightarrow> ('t, 'b) ultra_wave \<Rightarrow> ('t, 'b) ultra_wave" where
  "uw_set_body b (Ping w) = Ping (ping_with_core w (dcore_set_body b (ping_core (w_variant w))))"
| "uw_set_body b (Ripple w) = Ripple (ripple_with_core w (dcore_set_body b (ripple_core (w_variant w))))"
| "uw_set_body b (Signal w) = Signal (signal_with_core w (dcore_set_body b (signal_core (w_variant w))))"
| "uw_set_body b (Pong w) =
     Pong (wave_set_variant (PongV (pong_to (w_variant w)) (pong_intended (w_variant w))
       (rcore_set_body b (pong_core (w_variant w))) (pong_reflection_of (w_variant w))) w)"
| "uw_set_body b (Echo w) =
     Echo (wave_set_variant (EchoV (echo_to (w_variant w)) (echo_intended (w_variant w))
       (rcore_set_body b (echo_core (w_variant w))) (echo_reflection_of (w_variant w))) w)"

fun uw_kind :: "('t, 'b) ultra_wave \<Rightarrow> wave_kind" where
  "uw_kind (Ping _) = WKPing"
| "uw_kind (Pong _) = WKPong"
| "uw_kind (Ripple _) = WKRipple"
| "uw_kind (Echo _) = WKEcho"
| "uw_kind (Signal _) = WKSignal"

fun uw_is_directed :: "('t, 'b) ultra_wave \<Rightarrow> bool" where
  "uw_is_directed (Ping _) = True"
| "uw_is_directed (Pong _) = False"
| "uw_is_directed (Ripple _) = True"
| "uw_is_directed (Echo _) = False"
| "uw_is_directed (Signal _) = True"

fun uw_is_reflected :: "('t, 'b) ultra_wave \<Rightarrow> bool" where
  "uw_is_reflected (Ping _) = False"
| "uw_is_reflected (Pong _) = True"
| "uw_is_reflected (Ripple _) = False"
| "uw_is_reflected (Echo _) = True"
| "uw_is_reflected (Signal _) = False"

fun uw_can_shard :: "('t, 'b) ultra_wave \<Rightarrow> bool" where
  "uw_can_shard (Ripple _) = True"
| "uw_can_shard _ = False"

fun uw_to :: "(recipients, 'b) ultra_wave \<Rightarrow> recipients" where
  "uw_to (Ping w) = Single (ping_to (w_variant w))"
| "uw_to (Pong w) = Single (pong_to (w_variant w))"
| "uw_to (Ripple w) = ripple_to (w_variant w)"
| "uw_to (Echo w) = Single (echo_to (w_variant w))"
| "uw_to (Signal w) = Single (signal_to (w_variant w))"

fun uw_method :: "('t, 'b) ultra_wave \<Rightarrow> wave_method option" where
  "uw_method (Ping w) = Some (dc_method (ping_core (w_variant w)))"
| "uw_method (Pong w) = None"
| "uw_method (Ripple w) = Some (dc_method (ripple_core (w_variant w)))"
| "uw_method (Echo w) = None"
| "uw_method (Signal w) = Some (dc_method (signal_core (w_variant w)))"

fun uw_set_agent :: "agent \<Rightarrow> ('t, 'b) ultra_wave \<Rightarrow> ('t, 'b) ultra_wave" where
  "uw_set_agent y (Ping w) = Ping (wave_set_agent y w)"
| "uw_set_agent y (Pong w) = Pong (wave_set_agent y w)"
| "uw_set_agent y (Ripple w) = Ripple (wave_set_agent y w)"
| "uw_set_agent y (Echo w) = Echo (wave_set_agent y w)"
| "uw_set_agent y (Signal w) = Signal (wave_set_agent y w)"

fun uw_set_from :: "surface \<Rightarrow> ('t, 'b) ultra_wave \<Rightarrow> ('t, 'b) ultra_wave" where
  "uw_set_from y (Ping w) = Ping (wave_set_from y w)"
| "uw_set_from y (Pong w) = Pong (wave_set_from y w)"
| "uw_set_from y (Ripple w) = Ripple (wave_set_from y w)"
| "uw_set_from y (Echo w) = Echo (wave_set_from y w)"
| "uw_set_from y (Signal w) = Signal (wave_set_from y w)"

fun uw_set_track :: "bool \<Rightarrow> ('t, 'b) ultra_wave \<Rightarrow> ('t, 'b) ultra_wave" where
  "uw_set_track y (Ping w) = Ping (wave_set_track y w)"
| "uw_set_track y (Pong w) = Pong (wave_set_track y w)"
| "uw_set_track y (Ripple w) = Ripple (wave_set_track y w)"
| "uw_set_track y (Echo w) = Echo (wave_set_track y w)"
| "uw_set_track y (Signal w) = Signal (wave_set_track y w)"

fun uw_set_hops :: "16 word \<Rightarrow> ('t, 'b) ultra_wave \<Rightarrow> ('t, 'b) ultra_wave" where
  "uw_set_hops y (Ping w) = Ping (wave_set_hops y w)"
| "uw_set_hops y (Pong w) = Pong (wave_set_hops y w)"
| "uw_set_hops y (Ripple w) = Ripple (wave_set_hops y w)"
| "uw_set_hops y (Echo w) = Echo (wave_set_hops y w)"
| "uw_set_hops y (Signal w) = Signal (wave_set_hops y w)"

fun uw_set_to :: "surface \<Rightarrow> (recipients, 'b) ultra_wave \<Rightarrow> (recipients, 'b) ultra_wave" where
  "uw_set_to t (Ping w) = Ping (wave_set_variant (ping_set_to t (w_variant w)) w)"
| "uw_set_to t (Pong w) = Pong (wave_set_variant (pong_set_to t (w_variant w)) w)"
| "uw_set_to t (Ripple w) = Ripple (wave_set_variant (ripple_replace_to (w_variant w) (Single t)) w)"
| "uw_set_to t (Echo w) = Echo (wave_set_variant (echo_set_to t (w_variant w)) w)"
| "uw_set_to t (Signal w) = Signal (wave_set_variant (signal_set_to t (w_variant w)) w)"

text \<open>Conversions.  A ripple has no single recipient to give.\<close>

fun uw_to_singular :: "(recipients, 'b) ultra_wave \<Rightarrow> space_err + (surface, 'b) ultra_wave" where
  "uw_to_singular (Ping w) = Inr (Ping w)"
| "uw_to_singular (Pong w) = Inr (Pong w)"
| "uw_to_singular (Echo w) = Inr (Echo w)"
| "uw_to_singular (Signal w) = Inr (Signal w)"
| "uw_to_singular (Ripple w) = Inl (server_error ''cannot change Ripple into a singular'')"

fun singular_to_ultra :: "(surface, 'b) ultra_wave \<Rightarrow> space_err + (recipients, 'b) ultra_wave" where
  "singular_to_ultra (Ping w) = Inr (Ping w)"
| "singular_to_ultra (Pong w) = Inr (Pong w)"
| "singular_to_ultra (Echo w) = Inr (Echo w)"
| "singular_to_ultra (Signal w) = Inr (Signal w)"
| "singular_to_ultra (Ripple w) = Inr (Ripple (ripple_to_multiple w))"

fun uw_to_directed :: "('t, 'b) ultra_wave \<Rightarrow> space_err + ('t, 'b) directed_wave" where
  "uw_to_directed (Ping w) = Inr (DPing w)"
| "uw_to_directed (Ripple w) = Inr (DRipple w)"
| "uw_to_directed (Signal w) = Inr (DSignal w)"
| "uw_to_directed _ = Inl (bad_request ''expected a DirectedWave'')"

fun uw_to_signal :: "('t, 'b) ultra_wave \<Rightarrow> space_err + 'b signal wave" where
  "uw_to_signal (Signal w) = Inr w"
| "uw_to_signal w =
     Inl (bad_request (''expecting: Wave<Signal> encountered: Wave<'' @ wave_kind_to_string (uw_kind w) @ ''>''))"

fun uw_to_ripple :: "('t, 'b) ultra_wave \<Rightarrow> space_err + ('t, 'b) ripple wave" where
  "uw_to_ripple (Ripple w) = Inr w"
| "uw_to_ripple _ = Inl (err_of_string ''not a ripple'')"

section \<open>Directed waves\<close>

fun dw_id :: "('t, 'b) directed_wave \<Rightarrow> wave_id" where
  "dw_id (DPing w) = w_id w"
| "dw_id (DRipple w) = w_id w"
| "dw_id (DSignal w) = w_id w"

fun dw_agent :: "('t, 'b) directed_wave \<Rightarrow> agent" where
  "dw_agent (DPing w) = w_agent w"
| "dw_agent (DRipple w) = w_agent w"
| "dw_agent (DSignal w) = w_agent w"

fun dw_scope :: "('t, 'b) directed_wave \<Rightarrow> scope" where
  "dw_scope (DPing w) = w_scope w"
| "dw_scope (DRipple w) = w_scope w"
| "dw_scope (DSignal w) = w_scope w"

fun dw_handling :: "('t, 'b) directed_wave \<Rightarrow> handling" where
  "dw_handling (DPing w) = w_handling w"
| "dw_handling (DRipple w) = w_handling w"
| "dw_handling (DSignal w) = w_handling w"

fun dw_from :: "('t, 'b) directed_wave \<Rightarrow> surface" where
  "dw_from (DPing w) = w_from w"
| "dw_from (DRipple w) = w_from w"
| "dw_from (DSignal w) = w_from w"

fun dw_via :: "('t, 'b) directed_wave \<Rightarrow> surface option" where
  "dw_via (DPing w) = w_via w"
| "dw_via (DRipple w) = w_via w"
| "dw_via (DSignal w) = w_via w"

fun dw_track :: "('t, 'b) directed_wave \<Rightarrow> bool" where
  "dw_track (DPing w) = w_track w"
| "dw_track (DRipple w) = w_track w"
| "dw_track (DSignal w) = w_track w"

fun dw_hops :: "('t, 'b) directed_wave \<Rightarrow> 16 word" where
  "dw_hops (DPing w) = w_hops w"
| "dw_hops (DRipple w) = w_hops w"
| "dw_hops (DSignal w) = w_hops w"

fun dw_kind :: "('t, 'b) directed_wave \<Rightarrow> wave_kind" where
  "dw_kind (DPing _) = WKPing"
| "dw_kind (DRipple _) = WKRipple"
| "dw_kind (DSignal _) = WKSignal"

fun dw_directed_kind :: "('t, 'b) directed_wave \<Rightarrow> directed_kind" where
  "dw_directed_kind (DPing _) = DKPing"
| "dw_directed_kind (DRipple _) = DKRipple"
| "dw_directed_kind (DSignal _) = DKSignal"

fun dw_has_visited :: "('t, 'b) directed_wave \<Rightarrow> point \<Rightarrow> bool" where
  "dw_has_visited (DRipple w) star \<longleftrightarrow> star \<in> ripple_history (w_variant w)"
| "dw_has_visited _ star \<longleftrightarrow> False"

fun dw_add_history :: "('t, 'b) directed_wave \<Rightarrow> point \<Rightarrow> ('t, 'b) directed_wave" where
  "dw_add_history (DPing w) p = DPing w"
| "dw_add_history (DRipple w) p = DRipple (wave_set_variant (ripple_add_history p (w_variant w)) w)"
| "dw_add_history (DSignal w) p = DSignal w"

fun dw_history :: "('t, 'b) directed_wave \<Rightarrow> point set" where
  "dw_history (DPing w) = {}"
| "dw_history (DRipple w) = ripple_history (w_variant w)"
| "dw_history (DSignal w) = {}"

fun dw_core :: "('t, 'b) directed_wave \<Rightarrow> 'b directed_core" where
  "dw_core (DPing w) = ping_core (w_variant w)"
| "dw_core (DRipple w) = ripple_core (w_variant w)"
| "dw_core (DSignal w) = signal_core (w_variant w)"

fun dw_set_core :: "('t, 'b) directed_wave \<Rightarrow> 'b directed_core \<Rightarrow> ('t, 'b) directed_wave" where
  "dw_set_core (DPing w) c = DPing (ping_with_core w c)"
| "dw_set_core (DRipple w) c = DRipple (ripple_with_core w c)"
| "dw_set_core (DSignal w) c = DSignal (signal_with_core w c)"

fun dw_body :: "('t, 'b) directed_wave \<Rightarrow> 'b" where
  "dw_body (DPing w) = dc_body (ping_core (w_variant w))"
| "dw_body (DRipple w) = dc_body (ripple_core (w_variant w))"
| "dw_body (DSignal w) = dc_body (signal_core (w_variant w))"

fun dw_to :: "(recipients, 'b) directed_wave \<Rightarrow> recipients" where
  "dw_to (DPing w) = Single (ping_to (w_variant w))"
| "dw_to (DRipple w) = ripple_to (w_variant w)"
| "dw_to (DSignal w) = Single (signal_to (w_variant w))"

fun sdw_to :: "(surface, 'b) directed_wave \<Rightarrow> surface" where
  "sdw_to (DPing w) = ping_to (w_variant w)"
| "sdw_to (DRipple w) = ripple_to (w_variant w)"
| "sdw_to (DSignal w) = signal_to (w_variant w)"

fun dw_set_via :: "surface option \<Rightarrow> ('t, 'b) directed_wave \<Rightarrow> ('t, 'b) directed_wave" where
  "dw_set_via y (DPing w) = DPing (wave_set_via y w)"
| "dw_set_via y (DRipple w) = DRipple (wave_set_via y w)"
| "dw_set_via y (DSignal w) = DSignal (wave_set_via y w)"

fun dw_to_ultra :: "('t, 'b) directed_wave \<Rightarrow> ('t, 'b) ultra_wave" where
  "dw_to_ultra (DPing w) = Ping w"
| "dw_to_ultra (DRipple w) = Ripple w"
| "dw_to_ultra (DSignal w) = Signal w"

fun sdw_to_ultra :: "(surface, 'b) directed_wave \<Rightarrow> (recipients, 'b) ultra_wave" where
  "sdw_to_ultra (DPing w) = Ping w"
| "sdw_to_ultra (DSignal w) = Signal w"
| "sdw_to_ultra (DRipple w) = Ripple (ripple_to_multiple w)"

fun dw_is_signal :: "('t, 'b) directed_wave \<Rightarrow> bool" where
  "dw_is_signal (DSignal _) = True"
| "dw_is_signal _ = False"

fun dw_to_signal :: "('t, 'b) directed_wave \<Rightarrow> space_err + 'b signal wave" where
  "dw_to_signal (DSignal w) = Inr w"
| "dw_to_signal _ = Inl (err_of_string ''not a signal wave'')"

fun dw_bounce_backs :: "('t, 'b) directed_wave \<Rightarrow> bounce_backs" where
  "dw_bounce_backs (DPing w) = BBSingle"
| "dw_bounce_backs (DRipple w) = ripple_bounce_backs (w_variant w)"
| "dw_bounce_backs (DSignal w) = BBNone"

fun dw_set_bounce_backs :: "bounce_backs \<Rightarrow> ('t, 'b) directed_wave \<Rightarrow> space_err + ('t, 'b) directed_wave" where
  "dw_set_bounce_backs b (DRipple w) =
     Inr (DRipple (wave_set_variant (ripple_set_bounce_backs b (w_variant w)) w))"
| "dw_set_bounce_backs b _ = Inl (server_error ''can only set bouncebacks for Ripple'')"

text \<open>The answer goes to \<open>via\<close> when there is one; \<open>take_via\<close> and \<open>replace_via\<close> give the old one.\<close>

definition reflect_to :: "('t, 'b) directed_wave \<Rightarrow> surface" where
  "reflect_to w = (case dw_via w of Some v \<Rightarrow> v | None \<Rightarrow> dw_from w)"

definition take_via :: "('t, 'b) directed_wave \<Rightarrow> surface option \<times> ('t, 'b) directed_wave" where
  "take_via w = (dw_via w, dw_set_via None w)"

definition replace_via :: "surface \<Rightarrow> ('t, 'b) directed_wave \<Rightarrow> surface option \<times> ('t, 'b) directed_wave" where
  "replace_via s w = (dw_via w, dw_set_via (Some s) w)"

definition dw_to_call ::
  "(string \<Rightarrow> string) \<Rightarrow> (string \<Rightarrow> space_err + 't) \<Rightarrow> 'x directed \<Rightarrow> surface \<Rightarrow> space_err + (point, 't) call" where
  "dw_to_call path subst_new w to = core_to_call path subst_new (dw_core w) (surf_point to)"

definition sdw_to_call ::
  "(string \<Rightarrow> string) \<Rightarrow> (string \<Rightarrow> space_err + 't) \<Rightarrow> 'x singular_directed \<Rightarrow> space_err + (point, 't) call" where
  "sdw_to_call path subst_new w = core_to_call path subst_new (dw_core w) (surf_point (sdw_to w))"

definition require_method :: "wave_method \<Rightarrow> string \<Rightarrow> 'b directed_core \<Rightarrow> 'v \<Rightarrow> (space_err + 'v) option" where
  "require_method m name core self =
     (if dc_method core = m then Some (Inr self)
      else map_option Inl (space_err_new 400 (''Bad Request: expecting method: '' @ name)))"

section \<open>Reflected waves\<close>

fun rw_from :: "'b reflected_wave \<Rightarrow> surface" where
  "rw_from (RPong w) = w_from w"
| "rw_from (REcho w) = w_from w"

fun rw_id :: "'b reflected_wave \<Rightarrow> wave_id" where
  "rw_id (RPong w) = w_id w"
| "rw_id (REcho w) = w_id w"

fun rw_track :: "'b reflected_wave \<Rightarrow> bool" where
  "rw_track (RPong w) = w_track w"
| "rw_track (REcho w) = w_track w"

fun rw_to :: "'b reflected_wave \<Rightarrow> surface" where
  "rw_to (RPong w) = pong_to (w_variant w)"
| "rw_to (REcho w) = echo_to (w_variant w)"

fun rw_core :: "'b reflected_wave \<Rightarrow> 'b reflected_core" where
  "rw_core (RPong w) = pong_core (w_variant w)"
| "rw_core (REcho w) = echo_core (w_variant w)"

fun rw_reflection_of :: "'b reflected_wave \<Rightarrow> wave_id" where
  "rw_reflection_of (RPong w) = pong_reflection_of (w_variant w)"
| "rw_reflection_of (REcho w) = echo_reflection_of (w_variant w)"

fun rw_to_ultra :: "'b reflected_wave \<Rightarrow> (recipients, 'b) ultra_wave" where
  "rw_to_ultra (RPong w) = Pong w"
| "rw_to_ultra (REcho w) = Echo w"

fun rw_is_success :: "'b reflected_wave \<Rightarrow> bool" where
  "rw_is_success (RPong w) = status_is_success (rc_status (pong_core (w_variant w)))"
| "rw_is_success (REcho w) = status_is_success (rc_status (echo_core (w_variant w)))"

definition rw_success_or :: "'b reflected_wave \<Rightarrow> space_err + unit" where
  "rw_success_or w =
     (if rw_is_success w then Inr () else Inl (Status (status_as_u16 (rc_status (rw_core w))) ''error''))"

fun rw_to_echo :: "'b reflected_wave \<Rightarrow> space_err + 'b echo wave" where
  "rw_to_echo (REcho w) = Inr w"
| "rw_to_echo _ = Inl (bad_request ''expected Wave to be an Echo'')"

fun rw_to_pong :: "'b reflected_wave \<Rightarrow> space_err + 'b pong wave" where
  "rw_to_pong (RPong w) = Inr w"
| "rw_to_pong _ = Inl (bad_request ''expecrted wave to be a Pong'')"

text \<open>\<open>desc\<close> goes through the directed or the reflected view of the wave; it unwraps the conversion.\<close>

fun uw_to_reflected :: "(recipients, 'x substance) ultra_wave \<Rightarrow> space_err + 'x reflected" where
  "uw_to_reflected (Pong w) = Inr (RPong w)"
| "uw_to_reflected (Echo w) = Inr (REcho w)"
| "uw_to_reflected w =
     Inl (bad_request (''expected: ReflectedWave; encountered: '' @
       wave_kind_to_string (uw_kind w) @ ''<'' @
       (case uw_method w of Some m \<Rightarrow> method_to_string m | None \<Rightarrow> '''') @ ''>['' @
       substance_kind_to_string (substance_kind_of (uw_body w)) @ '']''))"

definition uw_desc :: "'x ultrawave \<Rightarrow> string option" where
  "uw_desc w =
     (if uw_is_directed w then
        (case uw_to_directed w of
           Inr d \<Rightarrow> Some (wave_kind_to_string (uw_kind w) @ ''<'' @ method_to_string (dc_method (dw_core d)) @
                      ''>['' @ substance_kind_to_string (substance_kind_of (dc_body (dw_core d))) @ '']'')
         | Inl _ \<Rightarrow> None)
      else
        (case uw_to_reflected w of
           Inr r \<Rightarrow> Some (wave_kind_to_string (uw_kind w) @ ''<'' @ status_to_string (rc_status (rw_core r)) @
                      ''>['' @ substance_kind_to_string (substance_kind_of (rc_body (rw_core r))) @ '']'')
         | Inl _ \<Rightarrow> None))"

definition pong_is_ok :: "'x substance pong \<Rightarrow> bool" where
  "pong_is_ok p = rcore_is_ok (pong_core p)"

definition echo_is_ok :: "'x substance echo \<Rightarrow> bool" where
  "echo_is_ok e = rcore_is_ok (echo_core e)"

definition pong_core_of :: "'e + 'x substance pong wave \<Rightarrow> 'x rcore" where
  "pong_core_of r = (case r of Inr reflected \<Rightarrow> pong_core (w_variant reflected) | Inl _ \<Rightarrow> rcore_server_error)"

definition pong_ok_or :: "'x substance pong \<Rightarrow> space_err + unit" where
  "pong_ok_or p =
     (if pong_is_ok p then Inr ()
      else (case rc_body (pong_core p) of
          SFormErrs errs \<Rightarrow>
            Inl (err_of_string (status_to_string (rc_status (pong_core p)) @ '' : '' @ form_errs_to_string errs))
        | SErr err \<Rightarrow> Inl err
        | _ \<Rightarrow> Inl (err_of_string (status_to_string (rc_status (pong_core p))))))"

definition echo_ok_or :: "'x substance echo \<Rightarrow> space_err + 'x substance echo" where
  "echo_ok_or e =
     (if status_is_success (rc_status (echo_core e)) then Inr e
      else (case rc_body (echo_core e) of
          SText error \<Rightarrow> Inl (err_of_string error)
        | _ \<Rightarrow> Inl (err_of_string (''error code: '' @ status_to_string (rc_status (echo_core e))))))"

definition pong_to_bin :: "'x substance pong \<Rightarrow> space_err + bin" where
  "pong_to_bin p = (case rc_body (pong_core p) of SBin b \<Rightarrow> Inr b | _ \<Rightarrow> Inl (bad_request ''expected Bin''))"

section \<open>Waves inside waves\<close>

text \<open>A wave may carry a wave in its body, so hops are counted through every level.\<close>

abbreviation carried :: "'x ultrawave \<Rightarrow> nat" where
  "carried w \<equiv> size_ultra_wave (\<lambda>_. 0) size w"

lemma body_is_smaller: "size b < size_ultra_wave (\<lambda>_. 0) size w" if "b = uw_body w" for w :: "('t, 'x substance) ultra_wave"
proof (cases w)
  case (Ping x)
  then show ?thesis
    using that by (cases x; cases "w_variant x"; cases "ping_core (w_variant x)") auto
next
  case (Pong x)
  then show ?thesis
    using that by (cases x; cases "w_variant x"; cases "pong_core (w_variant x)") auto
next
  case (Ripple x)
  then show ?thesis
    using that by (cases x; cases "w_variant x"; cases "ripple_core (w_variant x)") auto
next
  case (Echo x)
  then show ?thesis
    using that by (cases x; cases "w_variant x"; cases "echo_core (w_variant x)") auto
next
  case (Signal x)
  then show ?thesis
    using that by (cases x; cases "w_variant x"; cases "signal_core (w_variant x)") auto
qed

lemma carried_decreases: "ultrawave (uw_body w) = Some t \<Longrightarrow> carried t < carried w"
  using body_is_smaller[OF refl, of w] by (cases "uw_body w") auto

function uw_max_hops :: "'x ultrawave \<Rightarrow> 16 word" where
  "uw_max_hops w =
     (case ultrawave (uw_body w) of
        Some t \<Rightarrow> (let child = uw_max_hops t in if child > uw_hops w then child else uw_hops w)
      | None \<Rightarrow> uw_hops w)"
  by pat_completeness auto
termination
  by (relation "measure carried") (auto simp: carried_decreases)

function uw_inc_hops :: "'x ultrawave \<Rightarrow> 'x ultrawave" where
  "uw_inc_hops w =
     (let w' = uw_set_hops (uw_hops w + 1) w
      in case ultrawave (uw_body w) of
           Some t \<Rightarrow> uw_set_body (SUltraWave (uw_inc_hops t)) w'
         | None \<Rightarrow> w')"
  by pat_completeness auto
termination
  by (relation "measure carried") (auto simp: carried_decreases)

declare uw_max_hops.simps [simp del] uw_inc_hops.simps [simp del]

text \<open>\<open>unwrap_from_hop\<close> and \<open>unwrap_from_transport\<close> of a signal and of a wave.\<close>

definition signal_unwrap_from_transport :: "'x substance signal wave \<Rightarrow> space_err + 'x ultrawave" where
  "signal_unwrap_from_transport w =
     (let core = signal_core (w_variant w)
      in if dc_method core \<noteq> Hyp HypTransport
         then Inl (server_error ''expected signal wave to have method Transport'')
         else (case dc_body core of
                 SUltraWave t \<Rightarrow> Inr t
               | _ \<Rightarrow> Inl (server_error ''expected body substance to be of type UltraWave for a transport signal'')))"

definition signal_unwrap_from_hop :: "'x substance signal wave \<Rightarrow> space_err + 'x substance signal wave" where
  "signal_unwrap_from_hop w =
     (let core = signal_core (w_variant w)
      in if dc_method core \<noteq> Hyp HypHop
         then Inl (server_error ''expected signal wave to have method Hop'')
         else (case dc_body core of
                 SUltraWave t \<Rightarrow> uw_to_signal t
               | _ \<Rightarrow> Inl (server_error ''expected body substance to be of type UltraWave for a transport signal'')))"

definition uw_unwrap_from_transport :: "'x ultrawave \<Rightarrow> space_err + 'x ultrawave" where
  "uw_unwrap_from_transport w = res_bind (uw_to_signal w) signal_unwrap_from_transport"

definition uw_unwrap_from_hop :: "'x ultrawave \<Rightarrow> space_err + 'x substance signal wave" where
  "uw_unwrap_from_hop w = res_bind (uw_to_signal w) signal_unwrap_from_hop"

section \<open>Reflection\<close>

datatype reflection =
  Reflection (rfl_kind: reflected_kind) (rfl_to: surface) (rfl_intended: recipients)
             (rfl_reflection_of: wave_id) (rfl_track: bool)

fun dw_reflection :: "'x directed \<Rightarrow> space_err + reflection" where
  "dw_reflection (DSignal w) = Inl (err_of_string ''signals do not have a reflected'')"
| "dw_reflection d =
     Inr (Reflection (case d of DPing _ \<Rightarrow> RKPong | _ \<Rightarrow> RKEcho)
            (reflect_to d) (dw_to d) (dw_id d) (dw_track d))"

text \<open>The singular wave answers its sender even when the wave came through another surface.\<close>

fun sdw_reflection :: "'x singular_directed \<Rightarrow> space_err + reflection" where
  "sdw_reflection (DSignal w) = Inl (err_of_string ''signals do not have a reflected'')"
| "sdw_reflection d =
     Inr (Reflection (case d of DPing _ \<Rightarrow> RKPong | _ \<Rightarrow> RKEcho)
            (dw_from d) (Single (sdw_to d)) (dw_id d) (dw_track d))"

definition pong_new :: "'b reflected_core \<Rightarrow> surface \<Rightarrow> recipients \<Rightarrow> wave_id \<Rightarrow> 'b pong" where
  "pong_new core to intended reflection_of = PongV to intended core reflection_of"

definition echo_new :: "'b reflected_core \<Rightarrow> surface \<Rightarrow> recipients \<Rightarrow> wave_id \<Rightarrow> 'b echo" where
  "echo_new core to intended reflection_of = EchoV to intended core reflection_of"

definition reflection_make :: "uuid \<Rightarrow> reflection \<Rightarrow> 'x rcore \<Rightarrow> surface \<Rightarrow> 'x reflected" where
  "reflection_make u r core from =
     (case rfl_kind r of
        RKPong \<Rightarrow>
          RPong (wave_set_track (rfl_track r)
            (wave_new u WKPong (pong_new core (rfl_to r) (rfl_intended r) (rfl_reflection_of r)) from))
      | RKEcho \<Rightarrow>
          REcho (wave_set_track (rfl_track r)
            (wave_new u WKEcho (echo_new core (rfl_to r) (rfl_intended r) (rfl_reflection_of r)) from)))"

definition rcore_into_reflection :: "'x rcore \<Rightarrow> surface \<Rightarrow> surface \<Rightarrow> wave_id \<Rightarrow> 'x substance pong" where
  "rcore_into_reflection core intended to reflection_of = PongV to (Single intended) core reflection_of"

datatype 'w bounce = Absorbed | Reflected 'w

text \<open>\<open>err\<close> of a ping, a ripple and a directed wave; \<open>to_rec\<close> is \<open>to_recipients\<close>.\<close>

definition ping_err :: "uuid \<Rightarrow> 'x substance ping wave \<Rightarrow> space_err \<Rightarrow> surface \<Rightarrow> 'x substance pong wave" where
  "ping_err u w e responder =
     wave_new u WKPong
       (pong_new (dcore_err (ping_core (w_variant w)) e) (w_from w) (Single (ping_to (w_variant w))) (w_id w))
       responder"

definition ripple_err ::
  "uuid \<Rightarrow> ('t \<Rightarrow> recipients) \<Rightarrow> ('t, 'x substance) ripple wave \<Rightarrow> space_err \<Rightarrow> surface
   \<Rightarrow> 'x substance echo wave" where
  "ripple_err u to_rec w e responder =
     wave_new u WKEcho
       (echo_new (dcore_err (ripple_core (w_variant w)) e) (w_from w) (to_rec (ripple_to (w_variant w))) (w_id w))
       responder"

fun dw_err ::
  "uuid \<Rightarrow> ('t \<Rightarrow> recipients) \<Rightarrow> ('t, 'x substance) directed_wave \<Rightarrow> space_err \<Rightarrow> surface
   \<Rightarrow> 'x reflected bounce" where
  "dw_err u to_rec (DPing w) e responder = Reflected (RPong (ping_err u w e responder))"
| "dw_err u to_rec (DRipple w) e responder = Reflected (REcho (ripple_err u to_rec w e responder))"
| "dw_err u to_rec (DSignal w) e responder = Absorbed"

text \<open>\<open>Into<CoreBounce>\<close> and \<open>to_core_bounce\<close>, whose conversion \<open>conv\<close> may fail.\<close>

fun bounce_core :: "'x reflected bounce \<Rightarrow> 'x rcore bounce" where
  "bounce_core Absorbed = Absorbed"
| "bounce_core (Reflected r) = Reflected (rw_core r)"

fun to_core_bounce :: "('w \<Rightarrow> space_err + 'x rcore) \<Rightarrow> 'w bounce \<Rightarrow> 'x rcore bounce option" where
  "to_core_bounce conv Absorbed = Some Absorbed"
| "to_core_bounce conv (Reflected r) =
     (case conv r of Inr core \<Rightarrow> Some (Reflected core) | Inl e \<Rightarrow> map_option Reflected (as_reflected_core e))"

text \<open>\<open>Reflectable::result\<close>: the core of a result, given to \<open>mk\<close>.\<close>

definition reflect_result :: "('x rcore \<Rightarrow> 'r) \<Rightarrow> ('c \<Rightarrow> 'x rcore) \<Rightarrow> space_err + 'c \<Rightarrow> 'r" where
  "reflect_result mk into r = (case r of Inr core \<Rightarrow> mk (into core) | Inl e \<Rightarrow> mk (rcore_of_err e))"

section \<open>Aggregates of reflections\<close>

datatype 'x reflected_aggregate = AggNone | AggSingle "'x reflected" | AggMulti "'x reflected list"

fun agg_to_unit :: "'x reflected_aggregate \<Rightarrow> space_err + unit" where
  "agg_to_unit AggNone = Inr ()"
| "agg_to_unit _ = Inl (bad_request ''expected a ReflectedAggregate of None'')"

fun agg_to_echoes :: "'x reflected_aggregate \<Rightarrow> space_err + 'x substance echo wave list" where
  "agg_to_echoes (AggMulti reflected) = res_map rw_to_echo reflected"
| "agg_to_echoes _ = Inl (bad_request ''expecting a ReflectedAggregate of Multi'')"

fun agg_to_pong :: "'x reflected_aggregate \<Rightarrow> space_err + 'x substance pong wave" where
  "agg_to_pong (AggSingle (RPong w)) = Inr w"
| "agg_to_pong (AggSingle _) = Inl (bad_request ''expected a Pong Reflected'')"
| "agg_to_pong AggNone = Inl (bad_request ''expected a Single Reflected, encountered: None'')"
| "agg_to_pong (AggMulti _) = Inl (bad_request ''expected a Single Reflected, encountered: Multi'')"

text \<open>The two \<open>TryInto\<close>.\<close>

fun agg_try_pong :: "'x reflected_aggregate \<Rightarrow> space_err + 'x substance pong wave" where
  "agg_try_pong (AggSingle (RPong w)) = Inr w"
| "agg_try_pong (AggSingle _) = Inl (bad_request ''Expected ReflectedAggregate to be for a Pong'')"
| "agg_try_pong _ = Inl (bad_request ''Expected ReflectedAggregate to be a Single'')"

fun agg_try_echoes :: "'x reflected_aggregate \<Rightarrow> space_err + 'x substance echo wave list" where
  "agg_try_echoes (AggSingle (REcho w)) = Inr [w]"
| "agg_try_echoes (AggSingle _) = Inl (bad_request ''Expected Reflected to be a Single Echo'')"
| "agg_try_echoes AggNone = Inr []"
| "agg_try_echoes (AggMulti waves) = res_map rw_to_echo waves"

section \<open>Recipients\<close>

fun recipients_to_string :: "recipients \<Rightarrow> string" where
  "recipients_to_string (Single s) = surface_to_string s"
| "recipients_to_string (Multi _) = ''Multi''"
| "recipients_to_string (Watchers _) = ''Watchers''"
| "recipients_to_string Stars = ''Stars''"

fun to_single :: "recipients \<Rightarrow> space_err + surface" where
  "to_single (Single s) = Inr s"
| "to_single _ = Inl (server_error ''cannot convert a multiple recipient into a single'')"

fun single_or :: "recipients \<Rightarrow> space_err + surface" where
  "single_or (Single s) = Inr s"
| "single_or _ = Inl (err_of_string ''not a single'')"

definition unwrap_single :: "recipients \<Rightarrow> surface option" where
  "unwrap_single r = (case single_or r of Inr s \<Rightarrow> Some s | Inl _ \<Rightarrow> None)"

fun any_port :: "point \<Rightarrow> surface list \<Rightarrow> bool" where
  "any_port p [] = False"
| "any_port p (port # ports) = (if surf_point port = p then True else any_port p ports)"

fun recipients_is_match :: "recipients \<Rightarrow> point \<Rightarrow> bool" where
  "recipients_is_match (Single s) p = (surf_point s = p)"
| "recipients_is_match (Multi ports) p = any_port p ports"
| "recipients_is_match (Watchers _) p = False"
| "recipients_is_match Stars p =
     (case route p of
        RSStar _ \<Rightarrow> length (segments p) = 1 \<and> hd (segments p) = PSSpace ''star''
      | _ \<Rightarrow> False)"

fun select_ports :: "recipients \<Rightarrow> point \<Rightarrow> surface list" where
  "select_ports (Single s) p = (if surf_point s = p then [s] else [])"
| "select_ports (Multi surfaces) p = filter (\<lambda>s. surf_point s = p) surfaces"
| "select_ports (Watchers _) p = []"
| "select_ports Stars p = []"

fun recipients_is_single :: "recipients \<Rightarrow> bool" where
  "recipients_is_single (Single _) = True"
| "recipients_is_single (Multi _) = False"
| "recipients_is_single (Watchers _) = False"
| "recipients_is_single Stars = False"

fun recipients_is_multi :: "recipients \<Rightarrow> bool" where
  "recipients_is_multi (Single _) = False"
| "recipients_is_multi (Multi _) = True"
| "recipients_is_multi (Watchers _) = False"
| "recipients_is_multi Stars = False"

fun recipients_is_stars :: "recipients \<Rightarrow> bool" where
  "recipients_is_stars (Single _) = False"
| "recipients_is_stars (Multi _) = False"
| "recipients_is_stars (Watchers _) = False"
| "recipients_is_stars Stars = True"

fun recipients_is_watch :: "recipients \<Rightarrow> bool" where
  "recipients_is_watch (Single _) = False"
| "recipients_is_watch (Multi _) = False"
| "recipients_is_watch (Watchers _) = True"
| "recipients_is_watch Stars = False"

definition recipients_split :: "(point \<rightharpoonup> surface list) \<Rightarrow> (point \<rightharpoonup> recipients)" where
  "recipients_split m = (\<lambda>p. map_option Multi (m p))"


section \<open>Facts: reading what was written\<close>

lemma wave_set_variant_sel [simp]:
  "w_id (wave_set_variant y w) = w_id w"
  "w_session (wave_set_variant y w) = w_session w"
  "w_variant (wave_set_variant y w) = y"
  "w_agent (wave_set_variant y w) = w_agent w"
  "w_handling (wave_set_variant y w) = w_handling w"
  "w_scope (wave_set_variant y w) = w_scope w"
  "w_from (wave_set_variant y w) = w_from w"
  "w_via (wave_set_variant y w) = w_via w"
  "w_hops (wave_set_variant y w) = w_hops w"
  "w_track (wave_set_variant y w) = w_track w"
  by (cases w; simp)+

lemma wave_set_agent_sel [simp]:
  "w_id (wave_set_agent y w) = w_id w"
  "w_session (wave_set_agent y w) = w_session w"
  "w_variant (wave_set_agent y w) = w_variant w"
  "w_agent (wave_set_agent y w) = y"
  "w_handling (wave_set_agent y w) = w_handling w"
  "w_scope (wave_set_agent y w) = w_scope w"
  "w_from (wave_set_agent y w) = w_from w"
  "w_via (wave_set_agent y w) = w_via w"
  "w_hops (wave_set_agent y w) = w_hops w"
  "w_track (wave_set_agent y w) = w_track w"
  by (cases w; simp)+

lemma wave_set_handling_sel [simp]:
  "w_id (wave_set_handling y w) = w_id w"
  "w_session (wave_set_handling y w) = w_session w"
  "w_variant (wave_set_handling y w) = w_variant w"
  "w_agent (wave_set_handling y w) = w_agent w"
  "w_handling (wave_set_handling y w) = y"
  "w_scope (wave_set_handling y w) = w_scope w"
  "w_from (wave_set_handling y w) = w_from w"
  "w_via (wave_set_handling y w) = w_via w"
  "w_hops (wave_set_handling y w) = w_hops w"
  "w_track (wave_set_handling y w) = w_track w"
  by (cases w; simp)+

lemma wave_set_scope_sel [simp]:
  "w_id (wave_set_scope y w) = w_id w"
  "w_session (wave_set_scope y w) = w_session w"
  "w_variant (wave_set_scope y w) = w_variant w"
  "w_agent (wave_set_scope y w) = w_agent w"
  "w_handling (wave_set_scope y w) = w_handling w"
  "w_scope (wave_set_scope y w) = y"
  "w_from (wave_set_scope y w) = w_from w"
  "w_via (wave_set_scope y w) = w_via w"
  "w_hops (wave_set_scope y w) = w_hops w"
  "w_track (wave_set_scope y w) = w_track w"
  by (cases w; simp)+

lemma wave_set_from_sel [simp]:
  "w_id (wave_set_from y w) = w_id w"
  "w_session (wave_set_from y w) = w_session w"
  "w_variant (wave_set_from y w) = w_variant w"
  "w_agent (wave_set_from y w) = w_agent w"
  "w_handling (wave_set_from y w) = w_handling w"
  "w_scope (wave_set_from y w) = w_scope w"
  "w_from (wave_set_from y w) = y"
  "w_via (wave_set_from y w) = w_via w"
  "w_hops (wave_set_from y w) = w_hops w"
  "w_track (wave_set_from y w) = w_track w"
  by (cases w; simp)+

lemma wave_set_via_sel [simp]:
  "w_id (wave_set_via y w) = w_id w"
  "w_session (wave_set_via y w) = w_session w"
  "w_variant (wave_set_via y w) = w_variant w"
  "w_agent (wave_set_via y w) = w_agent w"
  "w_handling (wave_set_via y w) = w_handling w"
  "w_scope (wave_set_via y w) = w_scope w"
  "w_from (wave_set_via y w) = w_from w"
  "w_via (wave_set_via y w) = y"
  "w_hops (wave_set_via y w) = w_hops w"
  "w_track (wave_set_via y w) = w_track w"
  by (cases w; simp)+

lemma wave_set_hops_sel [simp]:
  "w_id (wave_set_hops y w) = w_id w"
  "w_session (wave_set_hops y w) = w_session w"
  "w_variant (wave_set_hops y w) = w_variant w"
  "w_agent (wave_set_hops y w) = w_agent w"
  "w_handling (wave_set_hops y w) = w_handling w"
  "w_scope (wave_set_hops y w) = w_scope w"
  "w_from (wave_set_hops y w) = w_from w"
  "w_via (wave_set_hops y w) = w_via w"
  "w_hops (wave_set_hops y w) = y"
  "w_track (wave_set_hops y w) = w_track w"
  by (cases w; simp)+

lemma wave_set_track_sel [simp]:
  "w_id (wave_set_track y w) = w_id w"
  "w_session (wave_set_track y w) = w_session w"
  "w_variant (wave_set_track y w) = w_variant w"
  "w_agent (wave_set_track y w) = w_agent w"
  "w_handling (wave_set_track y w) = w_handling w"
  "w_scope (wave_set_track y w) = w_scope w"
  "w_from (wave_set_track y w) = w_from w"
  "w_via (wave_set_track y w) = w_via w"
  "w_hops (wave_set_track y w) = w_hops w"
  "w_track (wave_set_track y w) = y"
  by (cases w; simp)+

lemma wave_new_sel [simp]:
  "w_id (wave_new u k v from) = WaveId u k" "w_session (wave_new u k v from) = None"
  "w_variant (wave_new u k v from) = v" "w_agent (wave_new u k v from) = AgentAnonymous"
  "w_handling (wave_new u k v from) = handling_default" "w_scope (wave_new u k v from) = ScopeNone"
  "w_from (wave_new u k v from) = from" "w_via (wave_new u k v from) = None"
  "w_hops (wave_new u k v from) = 0" "w_track (wave_new u k v from) = False"
  by (simp_all add: wave_new_def wave_id_with_uuid_def scope_default_def)

lemma core_set_body_sel [simp]:
  "dc_body (dcore_set_body b c) = b" "dc_method (dcore_set_body b c) = dc_method c"
  "rc_body (rcore_set_body b d) = b" "rc_status (rcore_set_body b d) = rc_status d"
  by (cases c; cases d; simp)+

section \<open>Facts: hops\<close>

text \<open>The hops of a wave and of the waves it carries, from the outside in.\<close>

function hops_of :: "'x ultrawave \<Rightarrow> 16 word list" where
  "hops_of w = uw_hops w # (case ultrawave (uw_body w) of Some t \<Rightarrow> hops_of t | None \<Rightarrow> [])"
  by pat_completeness auto
termination
  by (relation "measure carried") (auto simp: carried_decreases)

declare hops_of.simps [simp del]

lemma hops_of_ne [simp]: "hops_of w \<noteq> []"
  by (subst hops_of.simps) simp

lemma set_hops_simps [simp]:
  "uw_hops (uw_set_hops h w) = h" "uw_body (uw_set_hops h w) = uw_body w"
  by (cases w; simp)+

lemma set_body_simps [simp]:
  "uw_hops (uw_set_body b w) = uw_hops w" "uw_body (uw_set_body b w) = b"
  by (cases w; simp)+

lemma uw_max_hops_eq: "uw_max_hops w = Max (set (hops_of w))"
proof (induction w rule: uw_max_hops.induct)
  case (1 w)
  show ?case
  proof (cases "ultrawave (uw_body w)")
    case None
    then show ?thesis by (simp add: uw_max_hops.simps[of w] hops_of.simps[of w])
  next
    case (Some t)
    have "uw_max_hops w = max (uw_hops w) (Max (set (hops_of t)))"
      using 1[OF Some] Some by (auto simp: uw_max_hops.simps[of w] Let_def max_def dest: less_imp_le)
    then show ?thesis
      using Some by (simp add: hops_of.simps[of w])
  qed
qed

lemma hops_of_inc: "hops_of (uw_inc_hops w) = map (\<lambda>h. h + 1) (hops_of w)"
proof (induction w rule: uw_inc_hops.induct)
  case (1 w)
  show ?case
  proof (cases "ultrawave (uw_body w)")
    case None
    then show ?thesis by (simp add: uw_inc_hops.simps[of w] hops_of.simps[of w] hops_of.simps[of "uw_set_hops _ _"])
  next
    case (Some t)
    then show ?thesis
      using 1[OF refl Some]
      by (simp add: uw_inc_hops.simps[of w] hops_of.simps[of w] hops_of.simps[of "uw_set_body _ _"])
  qed
qed


lemma unat_inc: "unat (M + 1) = Suc (unat M)" if "M \<noteq> - 1" for M :: "'a :: len word"
proof -
  have m: "unat (M + 1) = Suc (unat M) mod 2 ^ LENGTH('a)"
    by (simp add: unat_word_ariths)
  have "Suc (unat M) \<noteq> 2 ^ LENGTH('a)"
  proof
    assume "Suc (unat M) = 2 ^ LENGTH('a)"
    then have "M + 1 = 0" using m by (simp add: unat_eq_0)
    then show False using that by (simp add: eq_neg_iff_add_eq_0)
  qed
  moreover have "unat M < 2 ^ LENGTH('a)" by (rule unsigned_less)
  ultimately show ?thesis unfolding m by (intro mod_less Suc_lessI)
qed

lemma word_inc_mono: "h \<le> M \<Longrightarrow> M \<noteq> - 1 \<Longrightarrow> h + 1 \<le> M + (1 :: 'a :: len word)"
  by (cases "h = - 1") (auto simp: word_le_nat_alt unat_inc)

text \<open>Counting a hop counts it on every level: as long as no level has used up its sixteen
  bits, the largest count of a wave and of the waves it carries grows by exactly one.\<close>

theorem inc_hops_raises_max_hops:
  assumes "uw_max_hops w \<noteq> - 1"
  shows "unat (uw_max_hops (uw_inc_hops w)) = unat (uw_max_hops w) + 1"
proof -
  let ?S = "set (hops_of w)"
  have fin: "finite ?S" and ne: "?S \<noteq> {}" by auto
  have "Max ((\<lambda>h. h + 1) ` ?S) = Max ?S + 1"
  proof (rule Max_eqI)
    show "h \<le> Max ?S + 1" if h: "h \<in> (\<lambda>h. h + 1) ` ?S" for h
      using h fin assms by (auto simp: uw_max_hops_eq intro!: word_inc_mono)
    show "Max ?S + 1 \<in> (\<lambda>h. h + 1) ` ?S"
      using fin ne by (intro imageI Max_in) auto
  qed (use fin in auto)
  then have "uw_max_hops (uw_inc_hops w) = uw_max_hops w + 1"
    by (simp add: uw_max_hops_eq hops_of_inc)
  then show ?thesis
    using assms by (simp add: unat_inc)
qed

lemma inc_hops_raises_max_hops_witness:
  "unat (uw_max_hops (uw_inc_hops (Ping (wave_new (Uuid ''u'') WKPing
     (PingV (Surface root_point Core TopicNone) (dcore_new (Cmd CmdInit)))
     (Surface root_point Core TopicNone)) :: unit ultrawave))) = 1"
proof -
  let ?w = "Ping (wave_new (Uuid ''u'') WKPing
     (PingV (Surface root_point Core TopicNone) (dcore_new (Cmd CmdInit)))
     (Surface root_point Core TopicNone)) :: unit ultrawave"
  have h: "uw_max_hops ?w = 0"
    by (subst uw_max_hops.simps) (simp add: dcore_new_def)
  show ?thesis
    using inc_hops_raises_max_hops[of ?w] h by simp
qed

section \<open>Facts: reflection\<close>

text \<open>The answer made from the reflection of a directed wave is a pong to a ping and an echo to a
  ripple; it refers to the wave, is tracked when the wave is, comes from the responder and goes to
  the surface the wave came through, the sender only when there is none.  Signals have none.\<close>

theorem reflection_answers_the_wave:
  assumes "dw_reflection d = Inr r"
  shows "uw_kind (rw_to_ultra (reflection_make u r core from)) = (if dw_kind d = WKPing then WKPong else WKEcho)
       \<and> dw_kind d \<noteq> WKSignal
       \<and> rw_reflection_of (reflection_make u r core from) = dw_id d
       \<and> rw_to (reflection_make u r core from) = (case dw_via d of Some v \<Rightarrow> v | None \<Rightarrow> dw_from d)
       \<and> rw_from (reflection_make u r core from) = from
       \<and> rw_core (reflection_make u r core from) = core
       \<and> rw_track (reflection_make u r core from) = dw_track d"
  using assms by (cases d) (auto simp: reflection_make_def reflect_to_def pong_new_def echo_new_def)

lemma reflection_answers_the_wave_witness:
  "rw_reflection_of (reflection_make (Uuid ''v'')
     (Reflection RKPong (Surface root_point Core TopicNone) (Single (Surface root_point Core TopicNone))
        (WaveId (Uuid ''u'') WKPing) False) (rcore_ok :: unit rcore) (Surface root_point Field TopicNone)) =
   WaveId (Uuid ''u'') WKPing"
proof -
  let ?s = "Surface root_point Core TopicNone"
  let ?d = "DPing (wave_new (Uuid ''u'') WKPing (PingV ?s (dcore_new (Cmd CmdInit))) ?s) :: unit directed"
  have h: "dw_reflection ?d = Inr (Reflection RKPong ?s (Single ?s) (WaveId (Uuid ''u'') WKPing) False)"
    by (simp add: reflect_to_def)
  have "rw_reflection_of (reflection_make (Uuid ''v'') (Reflection RKPong ?s (Single ?s) (WaveId (Uuid ''u'') WKPing) False)
          (rcore_ok :: unit rcore) (Surface root_point Field TopicNone)) = dw_id ?d"
    using reflection_answers_the_wave[OF h] by blast
  then show ?thesis by simp
qed

lemma dw_err_to: "dw_err u to_rec d e responder = Reflected r \<Longrightarrow> rw_to r = dw_from d"
  by (cases d) (auto simp: ping_err_def ripple_err_def pong_new_def echo_new_def)

text \<open>The reflection of the singular form of a wave is addressed to its sender, also when the
  wave came through another surface: it is not the reflection of the wave itself.\<close>

theorem singular_reflection_ignores_via:
  assumes "w_via w = Some v" "v \<noteq> w_from w"
  shows "\<exists>r r'. dw_reflection (DPing w) = Inr r \<and> sdw_reflection (DPing w) = Inr r' \<and>
           rfl_to r = v \<and> rfl_to r' = w_from w \<and> rfl_to r \<noteq> rfl_to r'"
  using assms by (simp add: reflect_to_def)

lemma singular_reflection_ignores_via_witness:
  "\<exists>r r'. dw_reflection (DPing (wave_set_via (Some (Surface root_point Field TopicNone))
       (wave_new (Uuid ''u'') WKPing (PingV (Surface root_point Core TopicNone) (dcore_new (Cmd CmdInit)))
          (Surface root_point Core TopicNone))) :: unit directed) = Inr r \<and>
     sdw_reflection (DPing (wave_set_via (Some (Surface root_point Field TopicNone))
       (wave_new (Uuid ''u'') WKPing (PingV (Surface root_point Core TopicNone) (dcore_new (Cmd CmdInit)))
          (Surface root_point Core TopicNone))) :: unit singular_directed) = Inr r' \<and> rfl_to r \<noteq> rfl_to r'"
  using singular_reflection_ignores_via[of
      "wave_set_via (Some (Surface root_point Field TopicNone))
       (wave_new (Uuid ''u'') WKPing (PingV (Surface root_point Core TopicNone) (dcore_new (Cmd CmdInit) :: unit dcore))
          (Surface root_point Core TopicNone))" "Surface root_point Field TopicNone"]
  by (auto simp: reflect_to_def)

section \<open>Facts: conversions and recipients\<close>

lemma singular_roundtrip: "uw_to_singular w = Inr v \<Longrightarrow> singular_to_ultra v = Inr w"
  by (cases w) auto

lemma directed_roundtrip: "uw_to_directed w = Inr d \<Longrightarrow> dw_to_ultra d = w"
  by (cases w) auto

lemma reflected_roundtrip: "uw_to_reflected w = Inr r \<Longrightarrow> rw_to_ultra r = w"
  by (cases w) auto

lemma uw_is_reflected_iff: "uw_is_reflected w \<longleftrightarrow> \<not> uw_is_directed w"
  by (cases w) auto

lemma uw_desc_total: "uw_desc w \<noteq> None"
  by (cases w) (auto simp: uw_desc_def)

text \<open>Giving a ripple one recipient keeps everything but the track.\<close>

lemma as_single_sel:
  "ripple_to (w_variant (ripple_as_single w s)) = s"
  "ripple_core (w_variant (ripple_as_single w s)) = ripple_core (w_variant w)"
  "ripple_history (w_variant (ripple_as_single w s)) = ripple_history (w_variant w)"
  "w_id (ripple_as_single w s) = w_id w" "w_from (ripple_as_single w s) = w_from w"
  "w_hops (ripple_as_single w s) = w_hops w" "w_via (ripple_as_single w s) = w_via w"
  "\<not> w_track (ripple_as_single w s)"
  by (cases w; cases "w_variant w"; simp add: ripple_as_single_def wave_replace_def)+

lemma any_port_iff: "any_port p ports \<longleftrightarrow> (\<exists>s \<in> set ports. surf_point s = p)"
  by (induction ports) auto

lemma select_ports_matches: "select_ports r p \<noteq> [] \<Longrightarrow> recipients_is_match r p"
  by (cases r) (auto simp: any_port_iff filter_empty_conv split: if_splits)

text \<open>A conversion to pongs that succeeds in one way succeeds in the other.\<close>

lemma agg_pong_agree: "agg_to_pong a = Inr w \<longleftrightarrow> agg_try_pong a = Inr w"
  by (cases a rule: agg_to_pong.cases) auto

end
