(* ===== verification/Protos.thy ===== *)
theory Protos
  imports Waves
begin

text \<open>
  The prototypes waves are built from (\<open>DirectedProto\<close>, \<open>ReflectedProto\<close> of \<open>wave.rs\<close>): their
  setters and the \<open>fill\<close> operations that only set what is missing, the builders with their errors,
  the signals that transport a wave over a hop, the answers and the waves of a knock and a greeting
  (\<open>hyper.rs\<close>), and the texts waves are tracked by.
\<close>

section \<open>Directed prototypes\<close>

record 'x directed_proto =
  dp_id :: wave_id
  dp_from :: "surface option"
  dp_to :: "recipients option"
  dp_core :: "'x dcore"
  dp_method :: "wave_method option"
  dp_handling :: "handling option"
  dp_scope :: "scope option"
  dp_agent :: "agent option"
  dp_kind :: "directed_kind option"
  dp_bounce_backs :: "bounce_backs option"
  dp_via :: "surface option"
  dp_track :: bool
  dp_history :: "point set"

definition dp_default :: "uuid \<Rightarrow> 'x directed_proto" where
  "dp_default u =
     \<lparr>dp_id = WaveId u WKPing, dp_from = None, dp_to = None, dp_core = dcore_default, dp_method = None,
      dp_handling = None, dp_scope = None, dp_agent = None, dp_kind = None, dp_bounce_backs = None,
      dp_via = None, dp_track = False, dp_history = {}\<rparr>"

definition dp_ping :: "uuid \<Rightarrow> 'x directed_proto" where
  "dp_ping u = (dp_default u)\<lparr>dp_id := WaveId u WKPing, dp_kind := Some DKPing, dp_bounce_backs := Some BBSingle\<rparr>"

definition dp_signal :: "uuid \<Rightarrow> 'x directed_proto" where
  "dp_signal u = (dp_default u)\<lparr>dp_id := WaveId u WKSignal, dp_kind := Some DKSignal, dp_bounce_backs := Some BBNone\<rparr>"

definition dp_ripple :: "uuid \<Rightarrow> 'x directed_proto" where
  "dp_ripple u = (dp_default u)\<lparr>dp_id := WaveId u WKRipple, dp_kind := Some DKRipple\<rparr>"

fun dp_of_kind :: "uuid \<Rightarrow> directed_kind \<Rightarrow> 'x directed_proto" where
  "dp_of_kind u DKPing = dp_ping u"
| "dp_of_kind u DKRipple = dp_ripple u"
| "dp_of_kind u DKSignal = dp_signal u"

definition dp_to_with_method :: "uuid \<Rightarrow> recipients \<Rightarrow> wave_method \<Rightarrow> 'x directed_proto" where
  "dp_to_with_method u to m =
     (dp_default u)\<lparr>dp_id := WaveId u WKPing, dp_to := Some to, dp_kind := Some DKPing, dp_core := dcore_new m\<rparr>"

definition dp_from_core :: "uuid \<Rightarrow> 'x dcore \<Rightarrow> 'x directed_proto" where
  "dp_from_core u core = (dp_default u)\<lparr>dp_id := WaveId u WKPing, dp_kind := Some DKPing, dp_core := core\<rparr>"

definition dp_sys :: "uuid \<Rightarrow> recipients \<Rightarrow> hyp_method \<Rightarrow> 'x directed_proto" where
  "dp_sys u to m = dp_to_with_method u to (Hyp m)"

definition dp_msg :: "uuid \<Rightarrow> recipients \<Rightarrow> ext_method \<Rightarrow> 'x directed_proto" where
  "dp_msg u to m = dp_to_with_method u to (Ext m)"

definition dp_http :: "uuid \<Rightarrow> recipients \<Rightarrow> http_method \<Rightarrow> 'x directed_proto" where
  "dp_http u to m = dp_to_with_method u to (Http m)"

definition dp_cmd :: "uuid \<Rightarrow> recipients \<Rightarrow> cmd_method \<Rightarrow> 'x directed_proto" where
  "dp_cmd u to m = dp_to_with_method u to (Cmd m)"

text \<open>\<open>fill_*\<close> set what is missing.\<close>

definition fill_opt :: "'a \<Rightarrow> 'a option \<Rightarrow> 'a option" where
  "fill_opt y v = (if v = None then Some y else v)"

definition dp_fill_kind :: "directed_kind \<Rightarrow> 'x directed_proto \<Rightarrow> 'x directed_proto" where
  "dp_fill_kind k p = p\<lparr>dp_kind := fill_opt k (dp_kind p)\<rparr>"

definition dp_fill_to :: "recipients \<Rightarrow> 'x directed_proto \<Rightarrow> 'x directed_proto" where
  "dp_fill_to t p = p\<lparr>dp_to := fill_opt t (dp_to p)\<rparr>"

definition dp_fill_from :: "surface \<Rightarrow> 'x directed_proto \<Rightarrow> 'x directed_proto" where
  "dp_fill_from f p = p\<lparr>dp_from := fill_opt f (dp_from p)\<rparr>"

definition dp_fill_scope :: "scope \<Rightarrow> 'x directed_proto \<Rightarrow> 'x directed_proto" where
  "dp_fill_scope s p = p\<lparr>dp_scope := fill_opt s (dp_scope p)\<rparr>"

definition dp_fill_agent :: "agent \<Rightarrow> 'x directed_proto \<Rightarrow> 'x directed_proto" where
  "dp_fill_agent a p = p\<lparr>dp_agent := fill_opt a (dp_agent p)\<rparr>"

definition dp_fill_handling :: "handling \<Rightarrow> 'x directed_proto \<Rightarrow> 'x directed_proto" where
  "dp_fill_handling h p = p\<lparr>dp_handling := fill_opt h (dp_handling p)\<rparr>"

definition dp_fill_method :: "wave_method \<Rightarrow> 'x directed_proto \<Rightarrow> 'x directed_proto" where
  "dp_fill_method m p = p\<lparr>dp_method := fill_opt m (dp_method p)\<rparr>"

definition dp_fill_via :: "surface \<Rightarrow> 'x directed_proto \<Rightarrow> 'x directed_proto" where
  "dp_fill_via v p = p\<lparr>dp_via := fill_opt v (dp_via p)\<rparr>"

definition dp_fill :: "'x ultrawave \<Rightarrow> 'x directed_proto \<Rightarrow> 'x directed_proto" where
  "dp_fill w p = dp_fill_agent (uw_agent w) (dp_fill_scope (uw_scope w) (dp_fill_handling (uw_handling w) p))"

text \<open>The setters; \<open>method\<close> sets the method twice.\<close>

definition dp_set_agent :: "agent \<Rightarrow> 'x directed_proto \<Rightarrow> 'x directed_proto" where
  "dp_set_agent a p = p\<lparr>dp_agent := Some a\<rparr>"

definition dp_set_bounce_backs :: "bounce_backs \<Rightarrow> 'x directed_proto \<Rightarrow> 'x directed_proto" where
  "dp_set_bounce_backs b p = p\<lparr>dp_bounce_backs := Some b\<rparr>"

definition dp_set_scope :: "scope \<Rightarrow> 'x directed_proto \<Rightarrow> 'x directed_proto" where
  "dp_set_scope s p = p\<lparr>dp_scope := Some s\<rparr>"

definition dp_set_handling :: "handling \<Rightarrow> 'x directed_proto \<Rightarrow> 'x directed_proto" where
  "dp_set_handling h p = p\<lparr>dp_handling := Some h\<rparr>"

definition dp_set_body :: "'x substance \<Rightarrow> 'x directed_proto \<Rightarrow> 'x directed_proto" where
  "dp_set_body b p = p\<lparr>dp_core := dcore_set_body b (dp_core p)\<rparr>"

definition dp_set_history :: "point set \<Rightarrow> 'x directed_proto \<Rightarrow> 'x directed_proto" where
  "dp_set_history h p = p\<lparr>dp_history := h\<rparr>"

definition dp_set_uri :: "string \<Rightarrow> 'x directed_proto \<Rightarrow> 'x directed_proto" where
  "dp_set_uri u p = p\<lparr>dp_core := dcore_with_uri (dp_core p) u\<rparr>"

definition dp_set_core :: "'x dcore \<Rightarrow> 'x directed_proto \<Rightarrow> space_err + 'x directed_proto" where
  "dp_set_core c p = Inr (p\<lparr>dp_core := c\<rparr>)"

definition dp_set_method :: "wave_method \<Rightarrow> 'x directed_proto \<Rightarrow> 'x directed_proto" where
  "dp_set_method m p = p\<lparr>dp_method := Some m, dp_core := dcore_with_method (dp_core p) m\<rparr>"

definition dp_set_to :: "recipients \<Rightarrow> 'x directed_proto \<Rightarrow> 'x directed_proto" where
  "dp_set_to t p = p\<lparr>dp_to := Some t\<rparr>"

definition dp_set_from :: "surface \<Rightarrow> 'x directed_proto \<Rightarrow> 'x directed_proto" where
  "dp_set_from f p = p\<lparr>dp_from := Some f\<rparr>"

definition dp_set_via :: "surface \<Rightarrow> 'x directed_proto \<Rightarrow> 'x directed_proto" where
  "dp_set_via v p = p\<lparr>dp_via := Some v\<rparr>"

text \<open>\<open>build\<close>: the wave gets a new id from \<open>Wave::new\<close> (the uuid \<open>u\<close>), whatever the id of the
  prototype.  Errors come in the order the fields are read.\<close>

definition unwrap_or :: "'a option \<Rightarrow> 'a \<Rightarrow> 'a" where
  "unwrap_or v d = (case v of Some y \<Rightarrow> y | None \<Rightarrow> d)"

definition dp_dress :: "'x directed_proto \<Rightarrow> 'v wave \<Rightarrow> 'v wave" where
  "dp_dress p w =
     wave_set_track (dp_track p) (wave_set_via (dp_via p)
       (wave_set_scope (unwrap_or (dp_scope p) ScopeNone)
         (wave_set_handling (unwrap_or (dp_handling p) handling_default)
           (wave_set_agent (unwrap_or (dp_agent p) AgentAnonymous) w))))"

definition dp_build :: "uuid \<Rightarrow> 'x directed_proto \<Rightarrow> space_err + 'x directed" where
  "dp_build u p =
     res_bind (ok_or (dp_kind p) (err_of_string ''kind must be set for DirectedProto to create the proper DirectedWave'')) (\<lambda>kind.
       let core = (case dp_method p of Some m \<Rightarrow> dcore_with_method (dp_core p) m | None \<Rightarrow> dp_core p)
       in case kind of
            DKPing \<Rightarrow>
              res_bind (ok_or (dp_to p) (Status 500 (''must set '' @ quoted ''to''))) (\<lambda>to.
              res_bind (single_or to) (\<lambda>to.
              res_bind (ok_or (dp_from p) (Status 500 (''must set '' @ quoted ''from''))) (\<lambda>from.
                Inr (DPing (dp_dress p (wave_new u WKPing (PingV to core) from))))))
          | DKRipple \<Rightarrow>
              res_bind (ok_or (dp_to p) (Status 500 (''must set '' @ quoted ''to''))) (\<lambda>to.
              res_bind (ok_or (dp_bounce_backs p) (err_of_string ''BounceBacks must be set'')) (\<lambda>bb.
              res_bind (ok_or (dp_from p) (Status 500 (''must set '' @ quoted ''from''))) (\<lambda>from.
                Inr (DRipple (dp_dress p (wave_new u WKRipple (RippleV to core bb (dp_history p)) from))))))
          | DKSignal \<Rightarrow>
              res_bind (ok_or (dp_to p) (Status 500 (''must set '' @ quoted ''to''))) (\<lambda>to.
              res_bind (single_or to) (\<lambda>to.
              res_bind (ok_or (dp_from p) (Status 500 (''must set '' @ quoted ''from''))) (\<lambda>from.
                Inr (DSignal (dp_dress p (wave_new u WKSignal (SignalV to core) from)))))))"

text \<open>A prototype made from a wave: from a ping (without a kind), or from a directed wave (without
  its history).\<close>

definition dp_of_ping :: "'x substance ping wave \<Rightarrow> 'x directed_proto" where
  "dp_of_ping w =
     \<lparr>dp_id = w_id w, dp_from = Some (w_from w), dp_to = Some (Single (ping_to (w_variant w))),
      dp_core = ping_core (w_variant w), dp_method = None, dp_handling = Some (w_handling w),
      dp_scope = Some (w_scope w), dp_agent = Some (w_agent w), dp_kind = None, dp_bounce_backs = None,
      dp_via = w_via w, dp_track = w_track w, dp_history = {}\<rparr>"

definition dp_of_directed :: "uuid \<Rightarrow> 'x directed \<Rightarrow> 'x directed_proto" where
  "dp_of_directed u d =
     (let p = (dp_default u)\<lparr>dp_id := dw_id d, dp_kind := Some (dw_directed_kind d)\<rparr>;
          p = p\<lparr>dp_core := dw_core d\<rparr>;
          p = dp_set_to (dw_to d) p;
          p = dp_set_from (dw_from d) p;
          p = dp_set_agent (dw_agent d) p;
          p = dp_set_scope (dw_scope d) p;
          p = dp_set_handling (dw_handling d) p;
          p = p\<lparr>dp_track := dw_track d\<rparr>;
          p = dp_set_bounce_backs (dw_bounce_backs d) p;
          p = dp_set_agent (dw_agent d) p
      in case dw_via d of Some v \<Rightarrow> dp_set_via v p | None \<Rightarrow> p)"

section \<open>Transports and hops\<close>

text \<open>\<open>wrap_in_transport\<close> does not hand the track of the wave to the signal, \<open>wrap_in_hop\<close> does; the
  hop has no scope.\<close>

definition wrap_in_transport :: "uuid \<Rightarrow> 'x ultrawave \<Rightarrow> surface \<Rightarrow> surface \<Rightarrow> 'x directed_proto" where
  "wrap_in_transport u self from to =
     (let signal = dp_signal u;
          signal = dp_fill self signal;
          signal = dp_set_from from signal;
          signal = dp_set_agent (uw_agent self) signal;
          signal = dp_set_handling (uw_handling self) signal;
          signal = dp_set_method (Hyp HypTransport) signal;
          signal = dp_set_body (SUltraWave self) signal
      in dp_set_to (Single to) signal)"

definition wrap_in_hop :: "uuid \<Rightarrow> 'x substance signal wave \<Rightarrow> surface \<Rightarrow> surface \<Rightarrow> 'x directed_proto" where
  "wrap_in_hop u self from to =
     (let signal = dp_signal u;
          signal = dp_set_from from signal;
          signal = dp_set_agent (w_agent self) signal;
          signal = dp_set_handling (w_handling self) signal;
          signal = dp_set_method (Hyp HypHop) signal;
          signal = signal\<lparr>dp_track := w_track self\<rparr>;
          signal = dp_set_body (SUltraWave (Signal self)) signal
      in dp_set_to (Single to) signal)"

section \<open>Reflected prototypes\<close>

record 'x reflected_proto =
  rp_id :: wave_id
  rp_intended :: "recipients option"
  rp_from :: "surface option"
  rp_to :: "surface option"
  rp_body :: "'x substance option"
  rp_status :: "status_code option"
  rp_handling :: "handling option"
  rp_scope :: "scope option"
  rp_agent :: "agent option"
  rp_reflection_of :: "wave_id option"
  rp_kind :: "reflected_kind option"
  rp_track :: bool

definition rp_new :: "uuid \<Rightarrow> 'x reflected_proto" where
  "rp_new u =
     \<lparr>rp_id = WaveId u WKEcho, rp_intended = None, rp_from = None, rp_to = None, rp_body = None,
      rp_status = None, rp_handling = None, rp_scope = None, rp_agent = None, rp_reflection_of = None,
      rp_kind = None, rp_track = False\<rparr>"

definition rp_set_kind :: "reflected_kind \<Rightarrow> 'x reflected_proto \<Rightarrow> 'x reflected_proto" where
  "rp_set_kind k p = p\<lparr>rp_kind := Some k\<rparr>"

definition rp_set_body :: "'x substance \<Rightarrow> 'x reflected_proto \<Rightarrow> 'x reflected_proto" where
  "rp_set_body b p = p\<lparr>rp_body := Some b\<rparr>"

definition rp_set_intended :: "recipients \<Rightarrow> 'x reflected_proto \<Rightarrow> 'x reflected_proto" where
  "rp_set_intended i p = p\<lparr>rp_intended := Some i\<rparr>"

definition rp_set_reflection_of :: "wave_id \<Rightarrow> 'x reflected_proto \<Rightarrow> 'x reflected_proto" where
  "rp_set_reflection_of i p = p\<lparr>rp_reflection_of := Some i\<rparr>"

definition rp_set_status :: "16 word \<Rightarrow> 'x reflected_proto \<Rightarrow> 'x reflected_proto" where
  "rp_set_status c p = p\<lparr>rp_status := Some (status_or_500 c)\<rparr>"

definition rp_set_to :: "surface \<Rightarrow> 'x reflected_proto \<Rightarrow> 'x reflected_proto" where
  "rp_set_to t p = p\<lparr>rp_to := Some t\<rparr>"

definition rp_set_scope :: "scope \<Rightarrow> 'x reflected_proto \<Rightarrow> 'x reflected_proto" where
  "rp_set_scope s p = p\<lparr>rp_scope := Some s\<rparr>"

definition rp_set_agent :: "agent \<Rightarrow> 'x reflected_proto \<Rightarrow> 'x reflected_proto" where
  "rp_set_agent a p = p\<lparr>rp_agent := Some a\<rparr>"

definition rp_set_handling :: "handling \<Rightarrow> 'x reflected_proto \<Rightarrow> 'x reflected_proto" where
  "rp_set_handling h p = p\<lparr>rp_handling := Some h\<rparr>"

definition rp_set_from :: "surface \<Rightarrow> 'x reflected_proto \<Rightarrow> 'x reflected_proto" where
  "rp_set_from f p = p\<lparr>rp_from := Some f\<rparr>"

definition rp_fill_kind :: "reflected_kind \<Rightarrow> 'x reflected_proto \<Rightarrow> 'x reflected_proto" where
  "rp_fill_kind k p = p\<lparr>rp_kind := fill_opt k (rp_kind p)\<rparr>"

definition rp_fill_intended :: "recipients \<Rightarrow> 'x reflected_proto \<Rightarrow> 'x reflected_proto" where
  "rp_fill_intended i p = p\<lparr>rp_intended := fill_opt i (rp_intended p)\<rparr>"

definition rp_fill_to :: "surface \<Rightarrow> 'x reflected_proto \<Rightarrow> 'x reflected_proto" where
  "rp_fill_to t p = p\<lparr>rp_to := fill_opt t (rp_to p)\<rparr>"

definition rp_fill_from :: "surface \<Rightarrow> 'x reflected_proto \<Rightarrow> 'x reflected_proto" where
  "rp_fill_from f p = p\<lparr>rp_from := fill_opt f (rp_from p)\<rparr>"

definition rp_fill_scope :: "scope \<Rightarrow> 'x reflected_proto \<Rightarrow> 'x reflected_proto" where
  "rp_fill_scope s p = p\<lparr>rp_scope := fill_opt s (rp_scope p)\<rparr>"

definition rp_fill_agent :: "agent \<Rightarrow> 'x reflected_proto \<Rightarrow> 'x reflected_proto" where
  "rp_fill_agent a p = p\<lparr>rp_agent := fill_opt a (rp_agent p)\<rparr>"

definition rp_fill_handling :: "handling \<Rightarrow> 'x reflected_proto \<Rightarrow> 'x reflected_proto" where
  "rp_fill_handling h p = p\<lparr>rp_handling := fill_opt h (rp_handling p)\<rparr>"

definition rp_fill_status :: "status_code \<Rightarrow> 'x reflected_proto \<Rightarrow> 'x reflected_proto" where
  "rp_fill_status s p = p\<lparr>rp_status := fill_opt s (rp_status p)\<rparr>"

definition rp_fill :: "'v wave \<Rightarrow> 'x reflected_proto \<Rightarrow> 'x reflected_proto" where
  "rp_fill w p =
     (let p = p\<lparr>rp_reflection_of := Some (w_id w)\<rparr>;
          p = rp_fill_to (w_from w) p;
          p = rp_fill_handling (w_handling w) p;
          p = rp_fill_scope (w_scope w) p;
          p = rp_fill_agent (w_agent w) p
      in p\<lparr>rp_reflection_of := Some (w_id w)\<rparr>)"

text \<open>\<open>build\<close> uses neither the id nor the handling, scope and agent of the prototype.\<close>

definition rp_build :: "uuid \<Rightarrow> 'x reflected_proto \<Rightarrow> space_err + 'x reflected" where
  "rp_build u p =
     (let core = rcore_with_new_substance rcore_new (unwrap_or (rp_body p) SEmpty);
          core = ReflectedCore (rc_headers core) (unwrap_or (rp_status p) (status 200)) (rc_body core)
      in res_bind (ok_or (rp_kind p) (err_of_string ''missing ReflectedWave Kind'')) (\<lambda>kind.
         res_bind (ok_or (rp_to p) (err_of_string ''ReflectedProto missing to'')) (\<lambda>to.
         res_bind (ok_or (rp_intended p) (err_of_string ''Reflected Proto Missing intended'')) (\<lambda>intended.
         res_bind (ok_or (rp_reflection_of p) (err_of_string ''response to expected'')) (\<lambda>reflection_of.
         res_bind (ok_or (rp_from p) (err_of_string ''expected from'')) (\<lambda>from.
           Inr (case kind of
             RKPong \<Rightarrow>
               RPong (wave_set_track (rp_track p) (wave_new u WKPong (pong_new core to intended reflection_of) from))
           | RKEcho \<Rightarrow>
               REcho (wave_set_track (rp_track p) (wave_new u WKEcho (echo_new core to intended reflection_of) from)))))))))"

text \<open>The prototype of the answer to a wave.\<close>

definition ping_pong :: "uuid \<Rightarrow> 'x substance ping wave \<Rightarrow> 'x reflected_proto" where
  "ping_pong u w = rp_fill w (rp_set_kind RKPong (rp_new u))"

definition ripple_echo :: "uuid \<Rightarrow> ('t, 'x substance) ripple wave \<Rightarrow> 'x reflected_proto" where
  "ripple_echo u w = rp_fill w (rp_set_kind RKEcho (rp_new u))"

fun reflected_proto_of :: "uuid \<Rightarrow> 'x directed \<Rightarrow> 'x reflected_proto bounce" where
  "reflected_proto_of u (DPing w) = Reflected (ping_pong u w)"
| "reflected_proto_of u (DRipple w) = Reflected (ripple_echo u w)"
| "reflected_proto_of u (DSignal _) = Absorbed"

section \<open>Knocks and greetings\<close>

text \<open>\<open>local_endpoint\<close> and \<open>remote_endpoint\<close> of a hyperway, as surfaces, are arguments here.\<close>

definition knock_wave :: "uuid \<Rightarrow> surface \<Rightarrow> surface \<Rightarrow> 'x substance knock \<Rightarrow> 'x substance ping wave" where
  "knock_wave u local_end remote_end k =
     wave_new u WKPing
       (PingV local_end (dcore_set_body (SKnock k) (dcore_new (Hyp HypKnock)))) remote_end"

text \<open>The greeting unwraps its build; \<open>u\<close>, \<open>u'\<close> and \<open>v\<close> are the uuids of the prototype, of the
  ping it pretends to answer and of the wave.\<close>

definition greet_wave :: "uuid \<Rightarrow> uuid \<Rightarrow> uuid \<Rightarrow> greet \<Rightarrow> 'x ultrawave option" where
  "greet_wave u u' v g =
     (let p = rp_set_kind RKPong (rp_new u);
          p = rp_set_agent AgentHyperUser p;
          p = rp_set_from (gr_transport g) p;
          p = rp_set_to (gr_surface g) p;
          p = rp_set_intended (Single (gr_hop g)) p;
          p = rp_set_reflection_of (WaveId u' WKPing) p;
          p = rp_set_status 200 p;
          p = rp_set_body (SGreet g) p
      in case rp_build v p of Inr r \<Rightarrow> Some (rw_to_ultra r) | Inl _ \<Rightarrow> None)"

section \<open>Tracking\<close>

text \<open>\<open>Trackable\<close> (\<open>log.rs\<close>) of waves: the id, the method or status, and the kind of the body; a
  ping or a signal that carries a wave shows the key of that wave.\<close>

fun uw_track_method :: "'x ultrawave \<Rightarrow> string" where
  "uw_track_method (Ping w) = method_to_deep_string (dc_method (ping_core (w_variant w)))"
| "uw_track_method (Pong w) = status_to_string (rc_status (pong_core (w_variant w)))"
| "uw_track_method (Ripple w) = method_to_deep_string (dc_method (ripple_core (w_variant w)))"
| "uw_track_method (Echo w) = status_to_string (rc_status (echo_core (w_variant w)))"
| "uw_track_method (Signal w) = method_to_deep_string (dc_method (signal_core (w_variant w)))"

definition uw_track_id :: "'x ultrawave \<Rightarrow> string" where
  "uw_track_id w = wave_id_to_short_string (uw_id w)"

definition uw_track_payload :: "'x ultrawave \<Rightarrow> string" where
  "uw_track_payload w = substance_kind_to_string (substance_kind_of (uw_body w))"

definition uw_track_from :: "'x ultrawave \<Rightarrow> string" where
  "uw_track_from w = surface_to_string (uw_from w)"

definition uw_track_to :: "'x ultrawave \<Rightarrow> string" where
  "uw_track_to w = recipients_to_string (uw_to w)"

definition track_key :: "string \<Rightarrow> string \<Rightarrow> string \<Rightarrow> string" where
  "track_key i m p = i @ ''::<'' @ m @ ''>::['' @ p @ '']''"

function uw_track_payload_fmt :: "'x ultrawave \<Rightarrow> string" where
  "uw_track_payload_fmt w =
     (case w of
        Signal _ \<Rightarrow>
          (case ultrawave (uw_body w) of
             Some t \<Rightarrow>
               ''UltraWave('' @ track_key (uw_track_id t) (uw_track_method t) (uw_track_payload_fmt t) @ '')''
           | None \<Rightarrow> uw_track_payload w)
      | _ \<Rightarrow> uw_track_payload w)"
  by pat_completeness auto
termination
  by (relation "measure carried") (auto dest!: carried_decreases[of "Signal w" for w, simplified])

declare uw_track_payload_fmt.simps [simp del]

definition uw_track_key_fmt :: "'x ultrawave \<Rightarrow> string" where
  "uw_track_key_fmt w = track_key (uw_track_id w) (uw_track_method w) (uw_track_payload_fmt w)"

text \<open>A tracker has a parsec and an action.\<close>

definition uw_track_fmt :: "string \<Rightarrow> string \<Rightarrow> 'x ultrawave \<Rightarrow> string" where
  "uw_track_fmt parsec action w =
     parsec @ ''<'' @ action @ ''> : '' @ uw_track_key_fmt w @ '' : ('' @ uw_track_from w @ '' -> '' @
     uw_track_to w @ '')''"

text \<open>A directed wave shows the wave a ping or a signal of its carries; a reflected wave is tracked
  by its full id.\<close>

fun dw_track_payload_fmt :: "'x directed \<Rightarrow> string" where
  "dw_track_payload_fmt (DRipple w) = uw_track_payload (Ripple w)"
| "dw_track_payload_fmt d =
     (case ultrawave (dw_body d) of
        Some t \<Rightarrow> ''UltraWave('' @ uw_track_key_fmt t @ '')''
      | None \<Rightarrow> substance_kind_to_string (substance_kind_of (dw_body d)))"

definition rw_track_key_fmt :: "'x reflected \<Rightarrow> string" where
  "rw_track_key_fmt r =
     track_key (wave_id_to_string (rw_id r)) (status_to_string (rc_status (rw_core r)))
       (substance_kind_to_string (substance_kind_of (rc_body (rw_core r))))"

section \<open>Facts: building\<close>

lemmas dp_simps =
  dp_default_def dp_ping_def dp_signal_def dp_ripple_def dp_fill_def dp_fill_agent_def dp_fill_scope_def
  dp_fill_handling_def dp_set_agent_def dp_set_bounce_backs_def dp_set_scope_def dp_set_handling_def
  dp_set_body_def dp_set_method_def dp_set_to_def dp_set_from_def dp_set_via_def fill_opt_def

lemmas rp_simps =
  rp_new_def rp_set_kind_def rp_set_body_def rp_set_intended_def rp_set_reflection_of_def
  rp_set_status_def rp_set_to_def rp_set_agent_def rp_set_from_def rp_fill_def rp_fill_to_def
  rp_fill_handling_def rp_fill_scope_def rp_fill_agent_def fill_opt_def Let_def

lemma unwrap_or_simps [simp]: "unwrap_or None d = d" "unwrap_or (Some y) d = y"
  by (simp_all add: unwrap_or_def)

lemma single_or_Inr_iff [simp]: "single_or t = Inr s \<longleftrightarrow> t = Single s"
  by (cases t) auto

lemma dcore_with_method_sel [simp]:
  "dc_method (dcore_with_method c m) = m" "dc_body (dcore_with_method c m) = dc_body c"
  "dcore_set_body b (dcore_with_method c m) = dcore_with_method (dcore_set_body b c) m"
  "dcore_with_method (dcore_with_method c m) m = dcore_with_method c m"
  by (cases c; simp)+

lemma dp_dress_sel [simp]:
  "w_id (dp_dress p w) = w_id w" "w_variant (dp_dress p w) = w_variant w"
  "w_session (dp_dress p w) = w_session w" "w_from (dp_dress p w) = w_from w"
  "w_hops (dp_dress p w) = w_hops w" "w_track (dp_dress p w) = dp_track p" "w_via (dp_dress p w) = dp_via p"
  "w_agent (dp_dress p w) = unwrap_or (dp_agent p) AgentAnonymous"
  "w_handling (dp_dress p w) = unwrap_or (dp_handling p) handling_default"
  "w_scope (dp_dress p w) = unwrap_or (dp_scope p) ScopeNone"
  by (simp_all add: dp_dress_def)

text \<open>A directed wave is built exactly when its kind, its recipients and its sender are set, the
  recipients are one surface unless it is a ripple, and a ripple says how many answers it expects.\<close>

theorem dp_build_succeeds_iff:
  "is_ok (dp_build u p) \<longleftrightarrow>
     (dp_from p \<noteq> None \<and>
      (case dp_kind p of
         None \<Rightarrow> False
       | Some DKRipple \<Rightarrow> dp_to p \<noteq> None \<and> dp_bounce_backs p \<noteq> None
       | Some _ \<Rightarrow> (\<exists>s. dp_to p = Some (Single s))))"
proof -
  have s: "(\<exists>s. single_or t = Inr s) \<longleftrightarrow> (\<exists>s. t = Single s)" for t by simp
  show ?thesis
    by (cases "dp_from p"; cases "dp_to p"; cases "dp_bounce_backs p"; cases "dp_kind p")
      (auto simp: dp_build_def is_ok_iff res_bind_Inr_iff Let_def split: directed_kind.splits)
qed

lemma dp_build_id: "dp_build u p = Inr d \<Longrightarrow> dw_id d = WaveId u (dw_kind d)"
  by (cases "the (dp_kind p)") (auto simp: dp_build_def res_bind_Inr_iff Let_def)

text \<open>A wave rebuilt from its prototype keeps its kind, core, addresses, agent, scope, handling,
  bounce backs and track, and loses its identity: it has a new id, no hops, no history and no
  session, so that the answer to it does not refer to the original.\<close>

theorem rebuilding_makes_a_new_wave:
  "\<exists>d'. dp_build v (dp_of_directed u d) = Inr d' \<and>
     dw_directed_kind d' = dw_directed_kind d \<and> dw_core d' = dw_core d \<and> dw_to d' = dw_to d \<and>
     dw_from d' = dw_from d \<and> dw_via d' = dw_via d \<and> dw_agent d' = dw_agent d \<and> dw_scope d' = dw_scope d \<and>
     dw_handling d' = dw_handling d \<and> dw_bounce_backs d' = dw_bounce_backs d \<and> dw_track d' = dw_track d \<and>
     dw_id d' = WaveId v (dw_kind d) \<and> dw_hops d' = 0 \<and> dw_history d' = {}"
  by (cases d; cases "dw_via d")
    (auto simp: dp_of_directed_def dp_build_def dp_simps Let_def)

section \<open>Facts: transports\<close>

lemma build_transport:
  "\<exists>s. dp_build v (wrap_in_transport u w from to) = Inr (DSignal s) \<and> signal_unwrap_from_transport s = Inr w \<and>
     w_from s = from \<and> signal_to (w_variant s) = to \<and> w_agent s = uw_agent w \<and> w_handling s = uw_handling w \<and>
     w_scope s = uw_scope w \<and> w_hops s = 0 \<and> \<not> w_track s \<and> w_id s = WaveId v WKSignal"
  by (simp add: wrap_in_transport_def dp_build_def dp_simps Let_def signal_unwrap_from_transport_def)

lemma build_hop:
  "\<exists>h. dp_build v (wrap_in_hop u s from to) = Inr (DSignal h) \<and> signal_unwrap_from_hop h = Inr s \<and>
     w_from h = from \<and> signal_to (w_variant h) = to \<and> w_agent h = w_agent s \<and> w_handling h = w_handling s \<and>
     w_scope h = ScopeNone \<and> w_track h = w_track s \<and> w_id h = WaveId v WKSignal"
  by (simp add: wrap_in_hop_def dp_build_def dp_simps Let_def signal_unwrap_from_hop_def)

text \<open>C27. A wave put into a transport, and the transport into a hop, is taken out of them unchanged.\<close>

theorem transport_over_hop_roundtrip:
  "res_bind (dp_build v (wrap_in_transport u w from to)) (\<lambda>d.
     res_bind (dw_to_signal d) (\<lambda>s.
     res_bind (dp_build v' (wrap_in_hop u' s hop_from hop_to)) (\<lambda>h.
     res_bind (uw_unwrap_from_hop (dw_to_ultra h)) signal_unwrap_from_transport))) = Inr w"
proof -
  obtain s where s: "dp_build v (wrap_in_transport u w from to) = Inr (DSignal s)"
    "signal_unwrap_from_transport s = Inr w" using build_transport by blast
  obtain h where h: "dp_build v' (wrap_in_hop u' s hop_from hop_to) = Inr (DSignal h)"
    "signal_unwrap_from_hop h = Inr s" using build_hop by blast
  show ?thesis by (simp add: s h uw_unwrap_from_hop_def)
qed

text \<open>The signal that transports a wave carries the agent, handling and scope of the wave, but
  not its track; it starts with no hops while the wave inside keeps its count.\<close>

theorem transport_signal_fields:
  assumes "dp_build v (wrap_in_transport u w from to) = Inr d"
  shows "dw_agent d = uw_agent w \<and> dw_handling d = uw_handling w \<and> dw_scope d = uw_scope w \<and>
         dw_from d = from \<and> dw_to d = Single to \<and> dw_hops d = 0 \<and> dw_track d = False \<and>
         hops_of (dw_to_ultra d) = 0 # hops_of w"
proof -
  have "uw_body (dw_to_ultra d) = SUltraWave w" "uw_hops (dw_to_ultra d) = 0"
    using assms by (auto simp: wrap_in_transport_def dp_build_def dp_simps Let_def)
  then have "hops_of (dw_to_ultra d) = 0 # hops_of w" by (subst hops_of.simps) simp
  then show ?thesis
    using assms by (auto simp: wrap_in_transport_def dp_build_def dp_simps Let_def)
qed

section \<open>Facts: answers\<close>

text \<open>The prototype of the answer to a ping lacks what only the responder knows, and cannot be
  built without it; with it the answer is a pong to the sender of the ping that refers to the ping.
  The handling, scope and agent copied into the prototype do not reach the answer.\<close>

theorem pong_answers_the_ping:
  "\<not> is_ok (rp_build v (ping_pong u w)) \<and>
   (\<exists>r. rp_build v (rp_set_from f (rp_set_intended i (ping_pong u w))) = Inr (RPong r) \<and>
      pong_to (w_variant r) = w_from w \<and> pong_reflection_of (w_variant r) = w_id w \<and>
      pong_intended (w_variant r) = i \<and> w_from r = f \<and> rcore_is_ok (pong_core (w_variant r)) \<and>
      w_handling r = handling_default \<and> w_scope r = ScopeNone \<and> w_agent r = AgentAnonymous)"
  by (simp add: rp_build_def ping_pong_def rp_simps pong_new_def rcore_is_ok_def status_is_success_def)

lemma greet_wave_total:
  "\<exists>r. greet_wave u u' v g = Some (Pong r) \<and> pong_to (w_variant r) = gr_surface g \<and>
       rc_body (pong_core (w_variant r)) = SGreet g \<and> w_from r = gr_transport g \<and> w_agent r = AgentAnonymous"
  by (simp add: greet_wave_def rp_build_def rp_simps pong_new_def rcore_with_new_substance_def)

lemma transport_signal_fields_witness:
  "\<exists>d. dp_build (Uuid ''v'') (wrap_in_transport (Uuid ''u'')
      (Ping (wave_set_track True (wave_new (Uuid ''w'') WKPing
         (PingV (Surface root_point Core TopicNone) (dcore_new (Cmd CmdInit))) (Surface root_point Core TopicNone)))
       :: unit ultrawave) (Surface root_point Field TopicNone) (Surface root_point Gravity TopicNone)) = Inr d
     \<and> \<not> dw_track d \<and> dw_to d = Single (Surface root_point Gravity TopicNone)"
proof -
  let ?w = "Ping (wave_set_track True (wave_new (Uuid ''w'') WKPing
         (PingV (Surface root_point Core TopicNone) (dcore_new (Cmd CmdInit))) (Surface root_point Core TopicNone)))
       :: unit ultrawave"
  obtain s where s: "dp_build (Uuid ''v'') (wrap_in_transport (Uuid ''u'') ?w
      (Surface root_point Field TopicNone) (Surface root_point Gravity TopicNone)) = Inr (DSignal s)"
    using build_transport by blast
  show ?thesis
    using transport_signal_fields[OF s] s by blast
qed

end
