(* ===== verification/Exchange.thy ===== *)
theory Exchange
  imports Protos
begin

text \<open>
  Requests and their answers (\<open>wave/exchange.rs\<close>, \<open>wave/exchange/asynch.rs\<close>): the transmitter that
  completes and sends a prototype, the context a handler answers from, and the exchanger that pairs
  answers with the requests that wait for them.  The tasks the exchanger spawns (the timers and the
  collectors of several answers) run between its calls; they are the steps of a relation on its
  state.
\<close>

section \<open>Transmitters\<close>

datatype 'a set_strategy = StratNone | Fill 'a | Override 'a

fun strategy_unwrap :: "'a set_strategy \<Rightarrow> space_err + 'a" where
  "strategy_unwrap StratNone = Inl (err_of_string ''cannot unwrap a SetStrategy::None'')"
| "strategy_unwrap (Fill t) = Inr t"
| "strategy_unwrap (Override t) = Inr t"

definition surface_with_topic :: "surface \<Rightarrow> topic \<Rightarrow> surface" where
  "surface_with_topic s t = Surface (surf_point s) (surf_layer s) t"

fun strategy_with_topic :: "surface set_strategy \<Rightarrow> topic \<Rightarrow> space_err + surface set_strategy" where
  "strategy_with_topic StratNone t = Inl (err_of_string ''cannot set topic if Strategy is None'')"
| "strategy_with_topic (Fill s) t = Inr (Fill (surface_with_topic s t))"
| "strategy_with_topic (Override s) t = Inr (Override (surface_with_topic s t))"

record transmitter =
  tr_agent :: "agent set_strategy"
  tr_scope :: "scope set_strategy"
  tr_handling :: "handling set_strategy"
  tr_method :: "wave_method set_strategy"
  tr_from :: "surface set_strategy"
  tr_to :: "recipients set_strategy"
  tr_via :: "surface set_strategy"

definition transmitter_new :: transmitter where
  "transmitter_new =
     \<lparr>tr_agent = Fill AgentAnonymous, tr_scope = Fill ScopeNone, tr_handling = Fill handling_default,
      tr_method = StratNone, tr_from = StratNone, tr_to = StratNone, tr_via = StratNone\<rparr>"

definition traversal_transmitter_new :: transmitter where
  "traversal_transmitter_new =
     \<lparr>tr_agent = StratNone, tr_scope = StratNone, tr_handling = StratNone,
      tr_method = StratNone, tr_from = StratNone, tr_to = StratNone, tr_via = StratNone\<rparr>"

definition transmitter_from_topic :: "transmitter \<Rightarrow> topic \<Rightarrow> space_err + transmitter" where
  "transmitter_from_topic tr t =
     (case tr_from tr of
        StratNone \<Rightarrow> Inl (server_error ''cannot set Topic without first setting Surface'')
      | Fill f \<Rightarrow> Inr (tr\<lparr>tr_from := Fill (surface_with_topic f t)\<rparr>)
      | Override f \<Rightarrow> Inr (tr\<lparr>tr_from := Override (surface_with_topic f t)\<rparr>))"

definition push_from :: "surface \<Rightarrow> transmitter \<Rightarrow> transmitter" where
  "push_from f tr = tr\<lparr>tr_from := Override f\<rparr>"

fun apply_strategy :: "('a \<Rightarrow> 'p \<Rightarrow> 'p) \<Rightarrow> ('a \<Rightarrow> 'p \<Rightarrow> 'p) \<Rightarrow> 'a set_strategy \<Rightarrow> 'p \<Rightarrow> 'p" where
  "apply_strategy fill over StratNone p = p"
| "apply_strategy fill over (Fill y) p = fill y p"
| "apply_strategy fill over (Override y) p = over y p"

definition prep_direct :: "transmitter \<Rightarrow> 'x directed_proto \<Rightarrow> 'x directed_proto" where
  "prep_direct tr p =
     (let p = apply_strategy dp_fill_from dp_set_from (tr_from tr) p;
          p = apply_strategy dp_fill_to dp_set_to (tr_to tr) p;
          p = apply_strategy dp_fill_via dp_set_via (tr_via tr) p;
          p = apply_strategy dp_fill_agent dp_set_agent (tr_agent tr) p;
          p = apply_strategy dp_fill_scope dp_set_scope (tr_scope tr) p;
          p = apply_strategy dp_fill_handling dp_set_handling (tr_handling tr) p
      in apply_strategy dp_fill_method dp_set_method (tr_method tr) p)"

definition prep_reflect :: "transmitter \<Rightarrow> 'x reflected_proto \<Rightarrow> 'x reflected_proto" where
  "prep_reflect tr p =
     (let p = apply_strategy rp_fill_from rp_set_from (tr_from tr) p;
          p = apply_strategy rp_fill_agent rp_set_agent (tr_agent tr) p;
          p = apply_strategy rp_fill_scope rp_set_scope (tr_scope tr) p
      in apply_strategy rp_fill_handling rp_set_handling (tr_handling tr) p)"

text \<open>\<open>direct\<close> up to the point where it waits: the wave it routes, and whether an exchange is opened
  for it.  \<open>direct_finish\<close> reads what the exchange delivered: \<open>None\<close> when its sender was dropped,
  with the error of the channel.\<close>

definition direct_start :: "uuid \<Rightarrow> transmitter \<Rightarrow> 'x directed_proto \<Rightarrow> space_err + 'x directed \<times> bool" where
  "direct_start u tr p =
     res_bind (dp_build u (prep_direct tr p)) (\<lambda>d. Inr (d, dw_bounce_backs d \<noteq> BBNone))"

definition direct_finish ::
  "space_err \<Rightarrow> ('x reflected_aggregate \<Rightarrow> space_err + 'w) \<Rightarrow> bool \<Rightarrow> 'x reflected_aggregate option
   \<Rightarrow> space_err + 'w" where
  "direct_finish recv_err from_agg waits delivered =
     (if \<not> waits then from_agg AggNone
      else (case delivered of None \<Rightarrow> Inl recv_err | Some agg \<Rightarrow> from_agg agg))"

definition ping_start :: "uuid \<Rightarrow> transmitter \<Rightarrow> 'x directed_proto \<Rightarrow> space_err + 'x directed \<times> bool" where
  "ping_start u tr p =
     (if dp_kind p = Some DKPing then direct_start u tr p
      else Inl (server_error ''expected DirectedKind::Ping''))"

definition ripple_start :: "uuid \<Rightarrow> transmitter \<Rightarrow> 'x directed_proto \<Rightarrow> space_err + 'x directed \<times> bool" where
  "ripple_start u tr p =
     (if dp_kind p = Some DKRipple then direct_start u tr p
      else Inl (server_error ''expected DirectedKind::Ping''))"

definition signal_start :: "uuid \<Rightarrow> transmitter \<Rightarrow> 'x directed_proto \<Rightarrow> space_err + 'x directed \<times> bool" where
  "signal_start u tr p =
     (if dp_kind p = Some DKSignal then direct_start u tr p
      else Inl (server_error ''expected DirectedKind::Ping''))"

definition bounce_proto :: "uuid \<Rightarrow> surface \<Rightarrow> 'x directed_proto" where
  "bounce_proto u to = dp_set_method (Cmd CmdBounce) (dp_set_to (Single to) (dp_ping u))"

definition bounce_from_proto :: "uuid \<Rightarrow> surface \<Rightarrow> surface \<Rightarrow> 'x directed_proto" where
  "bounce_from_proto u to from =
     dp_set_method (Cmd CmdBounce) (dp_set_to (Single to) (dp_set_from from (dp_ping u)))"

text \<open>\<open>bounce\<close>: the outcome of \<open>direct\<close> as a boolean.\<close>

definition bounce_result :: "space_err + 'x substance pong wave \<Rightarrow> bool" where
  "bounce_result r = (case r of Inr pong \<Rightarrow> pong_is_ok (w_variant pong) | Inl _ \<Rightarrow> False)"

definition reflect_wave :: "uuid \<Rightarrow> transmitter \<Rightarrow> 'x reflected_proto \<Rightarrow> space_err + 'x ultrawave" where
  "reflect_wave u tr p = res_bind (rp_build u (prep_reflect tr p)) (\<lambda>r. Inr (rw_to_ultra r))"

section \<open>The context of a handler\<close>

text \<open>\<open>RootInCtx\<close>: the wave and the surface it was delivered to.\<close>

record 'x root_ctx =
  ctx_to :: surface
  ctx_wave :: "'x directed"

definition ctx_answer :: "uuid \<Rightarrow> 'x root_ctx \<Rightarrow> 'x rcore \<Rightarrow> surface \<Rightarrow> 'x reflected bounce" where
  "ctx_answer u c core from =
     (case ctx_wave c of
        DPing ping \<Rightarrow>
          Reflected (RPong (wave_new u WKPong (pong_new core (w_from ping) (Single (ctx_to c)) (w_id ping)) from))
      | DRipple ripple \<Rightarrow>
          Reflected (REcho (wave_new u WKEcho
            (echo_new core (w_from ripple) (ripple_to (w_variant ripple)) (w_id ripple)) from))
      | DSignal _ \<Rightarrow> Absorbed)"

definition ctx_status :: "uuid \<Rightarrow> 'x root_ctx \<Rightarrow> 16 word \<Rightarrow> surface \<Rightarrow> 'x reflected bounce" where
  "ctx_status u c s from = ctx_answer u c (rcore_status s) from"

definition ctx_err :: "uuid \<Rightarrow> 'x root_ctx \<Rightarrow> 16 word \<Rightarrow> surface \<Rightarrow> string \<Rightarrow> 'x reflected bounce" where
  "ctx_err u c s from msg = ctx_answer u c (rcore_fail s msg) from"

definition ctx_timeout :: "uuid \<Rightarrow> 'x root_ctx \<Rightarrow> 'x reflected bounce" where
  "ctx_timeout u c = ctx_status u c 408 (ctx_to c)"

definition ctx_server_error :: "uuid \<Rightarrow> 'x root_ctx \<Rightarrow> 'x reflected bounce" where
  "ctx_server_error u c = ctx_status u c 500 (ctx_to c)"

definition ctx_unavailable :: "uuid \<Rightarrow> 'x root_ctx \<Rightarrow> 'x reflected bounce" where
  "ctx_unavailable u c = ctx_status u c 503 (ctx_to c)"

text \<open>\<open>unauthorized\<close> answers 403 and \<open>forbidden\<close> 401.\<close>

definition ctx_unauthorized :: "uuid \<Rightarrow> 'x root_ctx \<Rightarrow> 'x reflected bounce" where
  "ctx_unauthorized u c = ctx_status u c 403 (ctx_to c)"

definition ctx_request_text :: "(string \<Rightarrow> string) \<Rightarrow> 'x root_ctx \<Rightarrow> string" where
  "ctx_request_text path c =
     (let core = dw_core (ctx_wave c)
      in ''<'' @ method_to_string (dc_method core) @ ''>'' @ path (dc_uri core) @ '' -[ '' @
         substance_kind_to_string (substance_kind_of (dc_body core)) @ '' ]->'')"

definition ctx_not_found :: "uuid \<Rightarrow> (string \<Rightarrow> string) \<Rightarrow> 'x root_ctx \<Rightarrow> 'x reflected bounce" where
  "ctx_not_found u path c =
     (let core = dw_core (ctx_wave c)
      in ctx_err u c 404 (ctx_to c) (''<'' @ method_to_string (dc_method core) @ ''>'' @ path (dc_uri core)))"

definition ctx_bad_request :: "uuid \<Rightarrow> (string \<Rightarrow> string) \<Rightarrow> 'x root_ctx \<Rightarrow> 'x reflected bounce" where
  "ctx_bad_request u path c = ctx_err u c 400 (ctx_to c) (ctx_request_text path c)"

definition ctx_forbidden :: "uuid \<Rightarrow> (string \<Rightarrow> string) \<Rightarrow> 'x root_ctx \<Rightarrow> 'x reflected bounce" where
  "ctx_forbidden u path c = ctx_err u c 401 (ctx_to c) (ctx_request_text path c)"

text \<open>\<open>DirectedHandlerShell::handle\<close>: the answer of the handler, made with the reflection taken
  beforehand and sent from the surface of the shell.  Unwrapping the reflection of a signal panics.\<close>

definition shell_handle ::
  "uuid \<Rightarrow> surface \<Rightarrow> ('x root_ctx \<Rightarrow> 'x rcore bounce) \<Rightarrow> 'x directed \<Rightarrow> 'x ultrawave option option" where
  "shell_handle u surf handler w =
     (let reflection = dw_reflection w
      in case handler \<lparr>ctx_to = surf, ctx_wave = w\<rparr> of
           Absorbed \<Rightarrow> Some None
         | Reflected core \<Rightarrow>
             (case reflection of
                Inr r \<Rightarrow> Some (Some (rw_to_ultra (reflection_make u r core surf)))
              | Inl _ \<Rightarrow> None))"

section \<open>The exchanger\<close>

text \<open>
  A request that waits has an entry in \<open>singles\<close> (the sender of its result).  A request for several
  answers also has an entry in \<open>multis\<close> (the sender of the channel of its collector) and a collector
  task: the answers queued in its channel, those it has taken, and whether its loop has ended.  A
  timer is \<open>TimerSingle\<close> (answers for the other side) or \<open>TimerMulti\<close> (closes the channel).
  \<open>ex_received\<close> is what the receivers of the results have got.
\<close>

record 'x collector =
  col_limit :: "nat option"
  col_capacity :: nat
  col_queue :: "'x reflected list"
  col_agg :: "'x reflected list"
  col_done :: bool
  col_proto :: "'x reflected_proto"
  col_reflection :: reflection

datatype 'x timer =
    TimerSingle (timer_secs: "64 word") (timer_proto: "'x reflected_proto") (timer_reflection: reflection)
  | TimerMulti (timer_secs: "64 word")

record 'x exchanger =
  ex_surface :: surface
  ex_timeouts :: timeouts
  ex_singles :: "wave_id set"
  ex_multis :: "wave_id set"
  ex_collectors :: "wave_id \<rightharpoonup> 'x collector"
  ex_timers :: "wave_id \<rightharpoonup> 'x timer"
  ex_received :: "wave_id \<rightharpoonup> 'x reflected_aggregate"

definition exchanger_new :: "surface \<Rightarrow> timeouts \<Rightarrow> 'x exchanger" where
  "exchanger_new s t =
     \<lparr>ex_surface = s, ex_timeouts = t, ex_singles = {}, ex_multis = {}, ex_collectors = (\<lambda>_. None),
      ex_timers = (\<lambda>_. None), ex_received = (\<lambda>_. None)\<rparr>"

definition with_surface :: "surface \<Rightarrow> 'x exchanger \<Rightarrow> 'x exchanger" where
  "with_surface s e = e\<lparr>ex_surface := s\<rparr>"

text \<open>\<open>exchange\<close> for a directed wave; \<open>None\<close> is a panic: a wave that expects no answers, or a channel
  of no capacity.  Without a reflection the result is never sent.\<close>

definition open_collector ::
  "wave_id \<Rightarrow> nat option \<Rightarrow> nat \<Rightarrow> 64 word \<Rightarrow> 'x reflected_proto \<Rightarrow> reflection \<Rightarrow> 'x exchanger \<Rightarrow> 'x exchanger" where
  "open_collector i limit cap secs p r e =
     e\<lparr>ex_multis := insert i (ex_multis e),
       ex_collectors := (ex_collectors e)(i \<mapsto>
         \<lparr>col_limit = limit, col_capacity = cap, col_queue = [], col_agg = [], col_done = False,
          col_proto = p, col_reflection = r\<rparr>),
       ex_timers := (ex_timers e)(i \<mapsto> TimerMulti secs)\<rparr>"

definition exchange :: "uuid \<Rightarrow> 'x directed \<Rightarrow> 'x exchanger \<Rightarrow> 'x exchanger option" where
  "exchange u d e =
     (case reflected_proto_of u d of
        Absorbed \<Rightarrow> Some e
      | Reflected p \<Rightarrow>
          (case dw_reflection d of
             Inl _ \<Rightarrow> None
           | Inr r \<Rightarrow>
               (let p = rp_set_from (ex_surface e) p;
                    secs = timeouts_from (ex_timeouts e) (handling_wait (dw_handling d));
                    i = dw_id d;
                    e = e\<lparr>ex_singles := insert i (ex_singles e)\<rparr>
                in case dw_bounce_backs d of
                     BBNone \<Rightarrow> None
                   | BBSingle \<Rightarrow> Some (e\<lparr>ex_timers := (ex_timers e)(i \<mapsto> TimerSingle secs p r)\<rparr>)
                   | BBCount n \<Rightarrow> if n = 0 then None else Some (open_collector i (Some n) n secs p r e)
                   | BBTimer wait \<Rightarrow>
                       Some (open_collector i None 32 (timeouts_from (ex_timeouts e) wait) p r e))))"

definition deliver :: "wave_id \<Rightarrow> 'x reflected_aggregate \<Rightarrow> 'x exchanger \<Rightarrow> 'x exchanger" where
  "deliver i agg e = e\<lparr>ex_singles := ex_singles e - {i}, ex_received := (ex_received e)(i \<mapsto> agg)\<rparr>"

text \<open>\<open>reflected\<close>: the answer goes to the channel when there is one, otherwise to the request itself.
  Sending waits while the channel is full (\<open>None\<close>), and is without effect when the collector has
  ended.\<close>

definition not_expecting :: "'x reflected \<Rightarrow> space_err" where
  "not_expecting r =
     server_error (''Not expecting reflected message for '' @ wave_id_to_short_string (rw_reflection_of r) @
       '' from: '' @ surface_to_string (rw_from r) @ '' to: '' @ surface_to_string (rw_to r) @ '' KIND: '' @
       wave_kind_to_string (uw_kind (rw_to_ultra r :: 'x ultrawave)) @ '' STATUS: '' @ status_to_string (rc_status (rw_core r)))"

definition ex_reflected :: "'x reflected \<Rightarrow> 'x exchanger \<Rightarrow> ((space_err + unit) \<times> 'x exchanger) option" where
  "ex_reflected r e =
     (let i = rw_reflection_of r
      in if i \<in> ex_multis e then
           (case ex_collectors e i of
              None \<Rightarrow> Some (Inr (), e)
            | Some c \<Rightarrow>
                if col_done c then Some (Inr (), e)
                else if length (col_queue c) < col_capacity c then
                  Some (Inr (), e\<lparr>ex_collectors := (ex_collectors e)(i \<mapsto> c\<lparr>col_queue := col_queue c @ [r]\<rparr>)\<rparr>)
                else None)
         else if i \<in> ex_singles e then Some (Inr (), deliver i (AggSingle r) e)
         else Some (Inl (not_expecting r), e))"

text \<open>The answer a timeout gives: status 408, with a fresh uuid \<open>v\<close>; \<open>None\<close> is a panic of \<open>unwrap\<close>.\<close>

definition timeout_answer :: "uuid \<Rightarrow> 'x reflected_proto \<Rightarrow> reflection \<Rightarrow> 'x reflected option" where
  "timeout_answer v p r =
     (case rp_build v (p\<lparr>rp_status := Some (status 408), rp_body := Some SEmpty,
                         rp_intended := Some (rfl_intended r)\<rparr>) of
        Inr a \<Rightarrow> Some a
      | Inl _ \<Rightarrow> None)"

text \<open>A timer fires.\<close>

definition timer_fires :: "uuid \<Rightarrow> wave_id \<Rightarrow> 'x exchanger \<Rightarrow> 'x exchanger option" where
  "timer_fires v i e =
     (let e' = e\<lparr>ex_timers := (ex_timers e)(i := None)\<rparr>
      in case ex_timers e i of
           None \<Rightarrow> Some e
         | Some (TimerMulti _) \<Rightarrow> Some (e'\<lparr>ex_multis := ex_multis e - {i}\<rparr>)
         | Some (TimerSingle _ p r) \<Rightarrow>
             if i \<in> ex_singles e
             then (case timeout_answer v p r of Some a \<Rightarrow> Some (deliver i (AggSingle a) e') | None \<Rightarrow> None)
             else Some e')"

text \<open>One turn of the loop of a collector.  It waits (\<open>None\<close> in the second component of the result)
  while its channel is empty and open.\<close>

definition collector_turn :: "uuid \<Rightarrow> wave_id \<Rightarrow> 'x exchanger \<Rightarrow> 'x exchanger option" where
  "collector_turn v i e =
     (case ex_collectors e i of
        None \<Rightarrow> Some e
      | Some c \<Rightarrow>
          if col_done c then Some e
          else case col_queue c of
            q # qs \<Rightarrow>
              (let agg = col_agg c @ [q];
                   c' = c\<lparr>col_queue := qs, col_agg := agg\<rparr>
               in if col_limit c = Some (length agg) \<and> i \<in> ex_singles e
                  then Some (deliver i (AggMulti agg)
                    (e\<lparr>ex_collectors := (ex_collectors e)(i \<mapsto> c'\<lparr>col_done := True\<rparr>)\<rparr>))
                  else Some (e\<lparr>ex_collectors := (ex_collectors e)(i \<mapsto> c')\<rparr>))
          | [] \<Rightarrow>
              if i \<in> ex_multis e then Some e
              else if i \<in> ex_singles e then
                (let e' = e\<lparr>ex_collectors := (ex_collectors e)(i \<mapsto> c\<lparr>col_done := True\<rparr>)\<rparr>
                 in case col_limit c of
                      None \<Rightarrow> Some (deliver i (AggMulti (col_agg c)) e')
                    | Some _ \<Rightarrow>
                        (case timeout_answer v (col_proto c) (col_reflection c) of
                           Some a \<Rightarrow> Some (deliver i (AggMulti [a]) e')
                         | None \<Rightarrow> None))
              else Some e)"

section \<open>The exchanger as a transition system\<close>

datatype 'x ex_event =
    EvExchange uuid "'x directed"
  | EvReflected "'x reflected"
  | EvTimer uuid wave_id
  | EvCollect uuid wave_id

text \<open>The ids of waves are uuids, new in every wave: a wave that is exchanged has an id the exchanger
  has not seen.\<close>

definition fresh :: "'x exchanger \<Rightarrow> wave_id \<Rightarrow> bool" where
  "fresh e i \<longleftrightarrow> i \<notin> ex_singles e \<and> i \<notin> ex_multis e \<and> ex_collectors e i = None \<and>
     ex_timers e i = None \<and> ex_received e i = None"

text \<open>A collector runs when its channel holds an answer or is closed.\<close>

definition collector_runs :: "'x exchanger \<Rightarrow> wave_id \<Rightarrow> bool" where
  "collector_runs e i \<longleftrightarrow>
     (\<exists>c. ex_collectors e i = Some c \<and> \<not> col_done c \<and> (col_queue c \<noteq> [] \<or> i \<notin> ex_multis e))"

inductive ex_step :: "'x exchanger \<Rightarrow> 'x ex_event \<Rightarrow> 'x exchanger \<Rightarrow> bool" where
  step_exchange: "fresh e (dw_id d) \<Longrightarrow> exchange u d e = Some e' \<Longrightarrow> ex_step e (EvExchange u d) e'"
| step_reflected: "ex_reflected r e = Some (res, e') \<Longrightarrow> ex_step e (EvReflected r) e'"
| step_timer: "ex_timers e i = Some t \<Longrightarrow> timer_fires v i e = Some e' \<Longrightarrow> ex_step e (EvTimer v i) e'"
| step_collect: "collector_runs e i \<Longrightarrow> collector_turn v i e = Some e' \<Longrightarrow> ex_step e (EvCollect v i) e'"

inductive_cases ex_step_exchangeE: "ex_step e (EvExchange u d) e'"
inductive_cases ex_step_reflectedE: "ex_step e (EvReflected r) e'"
inductive_cases ex_step_timerE: "ex_step e (EvTimer v i) e'"
inductive_cases ex_step_collectE: "ex_step e (EvCollect v i) e'"

inductive ex_steps :: "'x exchanger \<Rightarrow> 'x ex_event list \<Rightarrow> 'x exchanger \<Rightarrow> bool" where
  steps_nil: "ex_steps e [] e"
| steps_cons: "ex_step e ev e' \<Longrightarrow> ex_steps e' evs e'' \<Longrightarrow> ex_steps e (ev # evs) e''"

definition ex_reachable :: "'x exchanger \<Rightarrow> bool" where
  "ex_reachable e \<longleftrightarrow> (\<exists>s t evs. ex_steps (exchanger_new s t) evs e)"

section \<open>Facts: the slots of the exchanger\<close>

lemma ex_steps_trans: "ex_steps e evs e' \<Longrightarrow> ex_steps e' evs' e'' \<Longrightarrow> ex_steps e (evs @ evs') e''"
  by (induction rule: ex_steps.induct) (auto intro: ex_steps.intros)

lemma ex_reachable_steps: "ex_reachable e \<Longrightarrow> ex_steps e evs e' \<Longrightarrow> ex_reachable e'"
  unfolding ex_reachable_def using ex_steps_trans by blast

definition buildable :: "wave_id \<Rightarrow> 'x reflected_proto \<Rightarrow> bool" where
  "buildable i p \<longleftrightarrow> rp_kind p \<noteq> None \<and> rp_to p \<noteq> None \<and> rp_from p \<noteq> None \<and> rp_reflection_of p = Some i"

fun agg_waves :: "'x reflected_aggregate \<Rightarrow> 'x reflected list" where
  "agg_waves AggNone = []"
| "agg_waves (AggSingle r) = [r]"
| "agg_waves (AggMulti rs) = rs"

lemma timeout_answer_ok:
  assumes "buildable i p"
  obtains a where "timeout_answer v p r = Some a" "rw_reflection_of a = i" "rc_status (rw_core a) = status 408"
  using assms
  by (auto simp: timeout_answer_def rp_build_def buildable_def pong_new_def echo_new_def Let_def
      split: reflected_kind.splits)

lemma reflected_proto_buildable:
  "reflected_proto_of u d = Reflected p \<Longrightarrow> buildable (dw_id d) (rp_set_from s p)"
  by (cases d) (auto simp: ping_pong_def ripple_echo_def rp_simps buildable_def)

text \<open>What holds of the slot of every id: whether it waits, has a channel, its collector, its timer
  and what it received.\<close>

definition collector_ok :: "wave_id \<Rightarrow> 'x collector \<Rightarrow> bool" where
  "collector_ok i c \<longleftrightarrow> buildable i (col_proto c) \<and> length (col_queue c) \<le> col_capacity c \<and>
     list_all (\<lambda>r. rw_reflection_of r = i) (col_queue c @ col_agg c)"

definition answers_ok :: "wave_id \<Rightarrow> 'x reflected_aggregate \<Rightarrow> bool" where
  "answers_ok i agg \<longleftrightarrow> list_all (\<lambda>r. rw_reflection_of r = i) (agg_waves agg)"

fun waiting_ok :: "'x collector option \<Rightarrow> 'x timer option \<Rightarrow> bool" where
  "waiting_ok (Some c) t \<longleftrightarrow> \<not> col_done c"
| "waiting_ok None (Some (TimerSingle s p r)) \<longleftrightarrow> True"
| "waiting_ok None _ \<longleftrightarrow> False"

fun timer_ok :: "wave_id \<Rightarrow> 'x timer option \<Rightarrow> 'x collector option \<Rightarrow> bool" where
  "timer_ok i (Some (TimerSingle s p r)) c \<longleftrightarrow> buildable i p \<and> c = None"
| "timer_ok i _ c \<longleftrightarrow> True"

fun channel_ok :: "'x collector option \<Rightarrow> 'x timer option \<Rightarrow> bool" where
  "channel_ok (Some c) (Some (TimerMulti s)) \<longleftrightarrow> True"
| "channel_ok _ _ \<longleftrightarrow> False"

definition slot_inv ::
  "wave_id \<Rightarrow> bool \<Rightarrow> bool \<Rightarrow> 'x collector option \<Rightarrow> 'x timer option \<Rightarrow> 'x reflected_aggregate option \<Rightarrow> bool" where
  "slot_inv i waits opened c t got \<longleftrightarrow>
     (waits \<longrightarrow> got = None \<and> waiting_ok c t) \<and> (opened \<longrightarrow> channel_ok c t) \<and> timer_ok i t c \<and>
     pred_option (collector_ok i) c \<and> pred_option (answers_ok i) got"

definition slot_ok :: "'x exchanger \<Rightarrow> wave_id \<Rightarrow> bool" where
  "slot_ok e i \<longleftrightarrow>
     slot_inv i (i \<in> ex_singles e) (i \<in> ex_multis e) (ex_collectors e i) (ex_timers e i) (ex_received e i)"

definition same_slot :: "'x exchanger \<Rightarrow> 'x exchanger \<Rightarrow> wave_id \<Rightarrow> bool" where
  "same_slot e e' j \<longleftrightarrow> (j \<in> ex_singles e' \<longleftrightarrow> j \<in> ex_singles e) \<and> (j \<in> ex_multis e' \<longleftrightarrow> j \<in> ex_multis e) \<and>
     ex_collectors e' j = ex_collectors e j \<and> ex_timers e' j = ex_timers e j \<and> ex_received e' j = ex_received e j"

lemma slot_ok_same: "same_slot e e' j \<Longrightarrow> slot_ok e j \<Longrightarrow> slot_ok e' j"
  by (simp add: same_slot_def slot_ok_def)

text \<open>The forms a step can take.\<close>

lemma exchange_forms:
  assumes "exchange u d e = Some e'"
  obtains "reflected_proto_of u d = Absorbed" "e' = e"
  | p r secs where "reflected_proto_of u d = Reflected p" "dw_bounce_backs d = BBSingle"
      "e' = e\<lparr>ex_singles := insert (dw_id d) (ex_singles e),
              ex_timers := (ex_timers e)(dw_id d \<mapsto> TimerSingle secs (rp_set_from (ex_surface e) p) r)\<rparr>"
  | p r secs limit cap where "reflected_proto_of u d = Reflected p"
      "limit = (case dw_bounce_backs d of BBCount n \<Rightarrow> Some n | _ \<Rightarrow> None)"
      "e' = open_collector (dw_id d) limit cap secs (rp_set_from (ex_surface e) p) r
              (e\<lparr>ex_singles := insert (dw_id d) (ex_singles e)\<rparr>)"
proof (cases "reflected_proto_of u d")
  case Absorbed
  then show ?thesis using assms that(1) by (simp add: exchange_def)
next
  case (Reflected p)
  show ?thesis
  proof (cases "dw_reflection d")
    case (Inl e)
    then show ?thesis using assms Reflected by (simp add: exchange_def)
  next
    case (Inr r)
    show ?thesis
      using assms Reflected Inr that(2,3)[OF Reflected]
      by (cases "dw_bounce_backs d") (auto simp: exchange_def Let_def split: if_splits)
  qed
qed

lemma reflected_forms:
  assumes "ex_reflected r e = Some (res, e')"
  obtains "e' = e"
  | c where "ex_collectors e (rw_reflection_of r) = Some c" "length (col_queue c) < col_capacity c"
      "rw_reflection_of r \<in> ex_multis e" "\<not> col_done c"
      "e' = e\<lparr>ex_collectors := (ex_collectors e)(rw_reflection_of r \<mapsto> c\<lparr>col_queue := col_queue c @ [r]\<rparr>)\<rparr>"
  | "rw_reflection_of r \<notin> ex_multis e" "rw_reflection_of r \<in> ex_singles e"
      "e' = deliver (rw_reflection_of r) (AggSingle r) e"
  using assms by (auto simp: ex_reflected_def Let_def split: if_splits option.splits)

lemma collector_forms:
  assumes "collector_turn v i e = Some e'"
  obtains "e' = e"
  | c q qs where "ex_collectors e i = Some c" "\<not> col_done c" "col_queue c = q # qs"
      "e' = e\<lparr>ex_collectors := (ex_collectors e)(i \<mapsto> c\<lparr>col_queue := qs, col_agg := col_agg c @ [q]\<rparr>)\<rparr>"
  | c qs agg agg' where "ex_collectors e i = Some c" "\<not> col_done c" "i \<in> ex_singles e"
      "list_all (\<lambda>r. r \<in> set (col_queue c @ col_agg c) \<or>
                      timeout_answer v (col_proto c) (col_reflection c) = Some r) agg"
      "length qs \<le> length (col_queue c)" "set (qs @ agg') \<subseteq> set (col_queue c @ col_agg c)"
      "e' = deliver i (AggMulti agg)
         (e\<lparr>ex_collectors := (ex_collectors e)(i \<mapsto> c\<lparr>col_queue := qs, col_agg := agg', col_done := True\<rparr>)\<rparr>)"
proof (cases "ex_collectors e i")
  case None
  then show ?thesis using assms that(1) by (simp add: collector_turn_def)
next
  case (Some c)
  show ?thesis
  proof (cases "col_done c")
    case True
    then show ?thesis using assms Some that(1) by (simp add: collector_turn_def)
  next
    case False
    show ?thesis
    proof (cases "col_queue c")
      case (Cons q qs)
      show ?thesis
      proof (cases "col_limit c = Some (Suc (length (col_agg c))) \<and> i \<in> ex_singles e")
        case True
        then show ?thesis
          using assms Some False Cons that(3)[of c "col_agg c @ [q]" qs "col_agg c @ [q]"]
          by (auto simp: collector_turn_def Let_def list_all_iff)
      next
        case False': False
        then show ?thesis
          using assms Some False Cons that(2)[OF Some False Cons] by (auto simp: collector_turn_def Let_def)
      qed
    next
      case Nil
      have dn: "c\<lparr>col_done := True\<rparr> = c\<lparr>col_queue := [], col_agg := col_agg c, col_done := True\<rparr>"
        using Nil by simp
      show ?thesis
      proof (cases "i \<in> ex_singles e \<and> i \<notin> ex_multis e")
        case False': False
        then show ?thesis
          using assms Some False Nil that(1) by (auto simp: collector_turn_def split: if_splits)
      next
        case True
        then obtain agg where agg: "e' = deliver i (AggMulti agg)
            (e\<lparr>ex_collectors := (ex_collectors e)(i \<mapsto> c\<lparr>col_done := True\<rparr>)\<rparr>)"
          "list_all (\<lambda>r. r \<in> set (col_agg c) \<or> timeout_answer v (col_proto c) (col_reflection c) = Some r) agg"
          using assms Some False Nil
          by (auto simp: collector_turn_def Let_def list_all_iff split: option.splits)
        show ?thesis
          using that(3)[OF Some False, of agg "[]" "col_agg c"] True agg dn Nil by simp
      qed
    qed
  qed
qed

lemma exchange_frame: "exchange u d e = Some e' \<Longrightarrow> j \<noteq> dw_id d \<Longrightarrow> same_slot e e' j"
  by (erule exchange_forms) (auto simp: same_slot_def open_collector_def)

lemma reflected_frame: "ex_reflected r e = Some (res, e') \<Longrightarrow> j \<noteq> rw_reflection_of r \<Longrightarrow> same_slot e e' j"
  by (erule reflected_forms) (auto simp: same_slot_def deliver_def)

lemma timer_frame: "timer_fires v i e = Some e' \<Longrightarrow> j \<noteq> i \<Longrightarrow> same_slot e e' j"
  by (auto simp: timer_fires_def same_slot_def deliver_def Let_def split: option.splits timer.splits if_splits)

lemma collect_frame: "collector_turn v i e = Some e' \<Longrightarrow> j \<noteq> i \<Longrightarrow> same_slot e e' j"
  by (erule collector_forms) (auto simp: same_slot_def deliver_def)

lemma exchange_slot:
  assumes "exchange u d e = Some e'" "fresh e (dw_id d)"
  shows "slot_ok e' (dw_id d)"
  using assms(1)
proof (cases rule: exchange_forms)
  case 1
  then show ?thesis using assms by (simp add: slot_ok_def slot_inv_def fresh_def)
next
  case (2 p r secs)
  then show ?thesis
    using assms reflected_proto_buildable[OF 2(1)] by (simp add: slot_ok_def slot_inv_def fresh_def)
next
  case (3 p r secs limit cap)
  then show ?thesis
    using assms reflected_proto_buildable[OF 3(1)]
    by (simp add: slot_ok_def slot_inv_def fresh_def open_collector_def collector_ok_def)
qed

lemma reflected_slot:
  assumes "ex_reflected r e = Some (res, e')" "slot_ok e (rw_reflection_of r)"
  shows "slot_ok e' (rw_reflection_of r)"
  using assms(1)
proof (cases rule: reflected_forms)
  case 1
  then show ?thesis using assms by simp
next
  case (2 c)
  then show ?thesis
    using assms
    by (cases "ex_timers e (rw_reflection_of r)")
      (auto simp: slot_ok_def slot_inv_def collector_ok_def elim: timer_ok.elims channel_ok.elims)
next
  case 3
  then show ?thesis using assms by (simp add: slot_ok_def slot_inv_def deliver_def answers_ok_def)
qed

lemma timer_slot:
  assumes "timer_fires v i e = Some e'" "slot_ok e i"
  shows "slot_ok e' i"
proof (cases "ex_timers e i")
  case None
  then show ?thesis using assms by (simp add: timer_fires_def)
next
  case (Some t)
  show ?thesis
  proof (cases t)
    case (TimerSingle s p r)
    then have "buildable i p" using assms Some by (simp add: slot_ok_def slot_inv_def)
    then obtain a where "timeout_answer v p r = Some a" "rw_reflection_of a = i" by (rule timeout_answer_ok)
    then show ?thesis
      using assms Some TimerSingle
      by (auto simp: timer_fires_def slot_ok_def slot_inv_def deliver_def answers_ok_def Let_def split: if_splits)
  next
    case (TimerMulti s)
    then show ?thesis
      using assms Some
      by (cases "ex_collectors e i") (auto simp: timer_fires_def slot_ok_def slot_inv_def Let_def)
  qed
qed

lemma collect_slot:
  assumes "collector_turn v i e = Some e'" "slot_ok e i"
  shows "slot_ok e' i"
  using assms(1)
proof (cases rule: collector_forms)
  case 1
  then show ?thesis using assms by simp
next
  case (2 c q qs)
  then show ?thesis
    using assms
    by (cases "ex_timers e i")
      (auto simp: slot_ok_def slot_inv_def collector_ok_def elim: timer_ok.elims channel_ok.elims)
next
  case (3 c qs agg agg')
  have b: "buildable i (col_proto c)" and
    rs: "\<And>r. r \<in> set (col_queue c @ col_agg c) \<Longrightarrow> rw_reflection_of r = i"
    using assms 3(1) by (auto simp: slot_ok_def slot_inv_def collector_ok_def list_all_iff)
  obtain a where "timeout_answer v (col_proto c) (col_reflection c) = Some a" "rw_reflection_of a = i"
    using b by (rule timeout_answer_ok)
  then have ans: "answers_ok i (AggMulti agg)"
    using 3(4) rs by (auto simp: answers_ok_def list_all_iff)
  have left: "list_all (\<lambda>r. rw_reflection_of r = i) (qs @ agg')"
    using 3(6) rs by (auto simp: list_all_iff)
  show ?thesis
    using assms(2) 3(1-3,5,7) ans left
    by (cases "ex_timers e i")
      (auto simp: slot_ok_def slot_inv_def deliver_def collector_ok_def elim: timer_ok.elims channel_ok.elims)
qed

lemma slot_ok_step:
  assumes "ex_step e ev e'" "\<And>i. slot_ok e i"
  shows "slot_ok e' j"
  using assms(1)
proof cases
  case (step_exchange d u)
  then show ?thesis using exchange_frame exchange_slot slot_ok_same assms(2) by metis
next
  case (step_reflected r res)
  then show ?thesis using reflected_frame reflected_slot slot_ok_same assms(2) by metis
next
  case (step_timer i t v)
  then show ?thesis using timer_frame timer_slot slot_ok_same assms(2) by metis
next
  case (step_collect i v)
  then show ?thesis using collect_frame collect_slot slot_ok_same assms(2) by metis
qed

lemma slot_ok_steps: "ex_steps e evs e' \<Longrightarrow> (\<And>i. slot_ok e i) \<Longrightarrow> slot_ok e' j"
  by (induction arbitrary: j rule: ex_steps.induct) (blast intro: slot_ok_step)+

lemma slot_ok_new: "slot_ok (exchanger_new s t) i"
  by (simp add: slot_ok_def slot_inv_def exchanger_new_def)

lemma reachable_slot_ok: "ex_reachable e \<Longrightarrow> slot_ok e i"
  unfolding ex_reachable_def using slot_ok_steps slot_ok_new by blast

section \<open>Facts: what the requester gets\<close>

lemma received_stays_step:
  assumes "ex_step e ev e'" "slot_ok e i" "ex_received e i = Some agg"
  shows "ex_received e' i = Some agg"
proof -
  have waits: "i \<notin> ex_singles e" using assms(2,3) by (auto simp: slot_ok_def slot_inv_def)
  show ?thesis
    using assms(1)
  proof cases
    case (step_exchange d u)
    then have "i \<noteq> dw_id d" using assms(3) by (auto simp: fresh_def)
    then show ?thesis using exchange_frame step_exchange assms(3) by (metis same_slot_def)
  next
    case (step_reflected r res)
    show ?thesis
      using step_reflected(2)
      by (cases rule: reflected_forms) (use waits assms(3) in \<open>auto simp: deliver_def\<close>)
  next
    case (step_timer j t v)
    then show ?thesis
      using waits assms(3)
      by (auto simp: timer_fires_def deliver_def Let_def split: timer.splits if_splits option.splits)
  next
    case (step_collect j v)
    show ?thesis
      using step_collect(3)
      by (cases rule: collector_forms) (use waits assms(3) in \<open>auto simp: deliver_def\<close>)
  qed
qed

lemma received_stays:
  "ex_steps e evs e' \<Longrightarrow> (\<And>i. slot_ok e i) \<Longrightarrow> ex_received e i = Some agg \<Longrightarrow> ex_received e' i = Some agg"
  by (induction rule: ex_steps.induct) (blast intro: slot_ok_step received_stays_step)+

text \<open>C3. A request is answered at most once, and only with answers to it: in every state the
  exchanger reaches, what the requester of a wave got consists of reflections of that wave, the
  request no longer waits, and nothing that happens later changes what it got.\<close>

theorem answers_are_final_and_belong:
  assumes "ex_reachable e" "ex_received e i = Some agg"
  shows "list_all (\<lambda>r. rw_reflection_of r = i) (agg_waves agg) \<and> i \<notin> ex_singles e \<and>
         (ex_steps e evs e' \<longrightarrow> ex_received e' i = Some agg)"
  using reachable_slot_ok[OF assms(1), of i] assms(2)
    received_stays[of e evs e' i agg, OF _ reachable_slot_ok[OF assms(1)] assms(2)]
  by (auto simp: slot_ok_def slot_inv_def answers_ok_def)

lemma collector_drains:
  assumes "slot_ok e i" "i \<in> ex_singles e" "i \<notin> ex_multis e" "ex_collectors e i = Some c"
  shows "\<exists>n e'. ex_steps e (replicate n (EvCollect v i)) e' \<and> ex_received e' i \<noteq> None \<and>
           n \<le> Suc (length (col_queue c))"
  using assms
proof (induction "col_queue c" arbitrary: e c)
  case Nil
  have b: "buildable i (col_proto c)" "\<not> col_done c"
    using Nil by (auto simp: slot_ok_def slot_inv_def collector_ok_def)
  then obtain a where a: "timeout_answer v (col_proto c) (col_reflection c) = Some a"
    using timeout_answer_ok by blast
  have runs: "collector_runs e i" using Nil b by (simp add: collector_runs_def)
  obtain e' where e': "collector_turn v i e = Some e'" "ex_received e' i \<noteq> None"
    using Nil b a by (cases "col_limit c") (auto simp: collector_turn_def deliver_def Let_def)
  have "ex_steps e (replicate 1 (EvCollect v i)) e'"
    using runs e' by (auto intro!: ex_steps.intros step_collect)
  then show ?case using e' by (intro exI[of _ "1::nat"]) auto
next
  case (Cons q qs)
  have b: "\<not> col_done c" using Cons.prems by (auto simp: slot_ok_def slot_inv_def)
  have runs: "collector_runs e i" using Cons b by (auto simp: collector_runs_def)
  let ?c = "c\<lparr>col_queue := qs, col_agg := col_agg c @ [q]\<rparr>"
  show ?case
  proof (cases "col_limit c = Some (Suc (length (col_agg c)))")
    case True
    obtain e' where e': "collector_turn v i e = Some e'" "ex_received e' i \<noteq> None"
      using Cons.prems Cons.hyps(2)[symmetric] b True by (auto simp: collector_turn_def deliver_def Let_def)
    have "ex_steps e (replicate 1 (EvCollect v i)) e'"
      using runs e' by (auto intro!: ex_steps.intros step_collect)
    then show ?thesis using e' by (intro exI[of _ "1::nat"]) auto
  next
    case False
    let ?e = "e\<lparr>ex_collectors := (ex_collectors e)(i \<mapsto> ?c)\<rparr>"
    have turn: "collector_turn v i e = Some ?e"
      using Cons.prems Cons.hyps(2)[symmetric] b False by (simp add: collector_turn_def Let_def)
    have ok: "slot_ok ?e i" using collect_slot[OF turn] Cons.prems by simp
    obtain n e' where n: "ex_steps ?e (replicate n (EvCollect v i)) e'" "ex_received e' i \<noteq> None" "n \<le> Suc (length qs)"
      using Cons.hyps(1)[of ?c ?e] ok Cons.prems by auto
    have "ex_steps e (replicate (Suc n) (EvCollect v i)) e'"
      using runs turn n(1) by (auto intro!: ex_steps.intros step_collect)
    then show ?thesis using n Cons.hyps(2)[symmetric] by (intro exI[of _ "Suc n"]) auto
  qed
qed

text \<open>C15. No request waits for ever: from every state the exchanger reaches, the timer of a request
  that waits and the turns of its collector, without any further answer from the other side, bring
  the requester a result.\<close>

theorem every_request_is_answered:
  assumes "ex_reachable e" "i \<in> ex_singles e"
  shows "\<exists>evs e'. ex_steps e evs e' \<and> ex_received e' i \<noteq> None \<and>
           list_all (\<lambda>ev. ev = EvTimer v i \<or> ev = EvCollect v i) evs"
proof -
  have ok: "slot_ok e i" by (rule reachable_slot_ok[OF assms(1)])
  have drain: ?thesis
    if d: "slot_ok f i" "i \<in> ex_singles f" "i \<notin> ex_multis f" "ex_collectors f i = Some c"
      "ex_steps e pre f" "list_all (\<lambda>ev. ev = EvTimer v i \<or> ev = EvCollect v i) pre" for f c pre
  proof -
    obtain n e' where "ex_steps f (replicate n (EvCollect v i)) e'" "ex_received e' i \<noteq> None"
      using collector_drains[OF d(1-4)] by blast
    then show ?thesis
      using ex_steps_trans[OF d(5)] d(6)
      by (intro exI[of _ "pre @ replicate n (EvCollect v i)"] exI[of _ e']) (auto simp: list_all_iff)
  qed
  show ?thesis
  proof (cases "ex_collectors e i")
    case None
    then obtain s p r where t: "ex_timers e i = Some (TimerSingle s p r)" and b: "buildable i p"
      using ok assms(2) by (auto simp: slot_ok_def slot_inv_def elim: waiting_ok.elims)
    from b obtain a where a: "timeout_answer v p r = Some a" by (rule timeout_answer_ok)
    obtain e' where e': "timer_fires v i e = Some e'" "ex_received e' i \<noteq> None"
      using t a assms(2) by (auto simp: timer_fires_def deliver_def Let_def)
    have "ex_steps e [EvTimer v i] e'" using t e' by (auto intro!: ex_steps.intros step_timer)
    then show ?thesis using e' by (intro exI[of _ "[EvTimer v i]"] exI[of _ e']) auto
  next
    case (Some c)
    show ?thesis
    proof (cases "i \<in> ex_multis e")
      case False
      then show ?thesis using drain[of e c "[]"] ok assms(2) Some by (auto intro: ex_steps.intros)
    next
      case True
      then obtain s where t: "ex_timers e i = Some (TimerMulti s)"
        using ok Some by (auto simp: slot_ok_def slot_inv_def elim: channel_ok.elims)
      let ?f = "e\<lparr>ex_timers := (ex_timers e)(i := None), ex_multis := ex_multis e - {i}\<rparr>"
      have f: "timer_fires v i e = Some ?f" using t by (simp add: timer_fires_def Let_def)
      have "ex_steps e [EvTimer v i] ?f" using t f by (auto intro!: ex_steps.intros step_timer)
      then show ?thesis
        using drain[of ?f c "[EvTimer v i]"] timer_slot[OF f ok] assms(2) Some by auto
    qed
  qed
qed

text \<open>A collector spins when its loop can neither take an answer nor end: its channel is closed and
  empty, and its request has been answered by someone else.\<close>

definition spinning :: "'x exchanger \<Rightarrow> wave_id \<Rightarrow> bool" where
  "spinning e i \<longleftrightarrow>
     (\<exists>c. ex_collectors e i = Some c \<and> \<not> col_done c \<and> col_queue c = []) \<and>
     i \<notin> ex_multis e \<and> i \<notin> ex_singles e"

lemma spinning_turn: "spinning e i \<Longrightarrow> collector_runs e i \<and> collector_turn v i e = Some e"
  by (auto simp: spinning_def collector_runs_def collector_turn_def)

lemma spinning_frame: "same_slot e e' i \<Longrightarrow> spinning e i \<Longrightarrow> spinning e' i"
  by (simp add: spinning_def same_slot_def)

lemma spinning_step:
  assumes "ex_step e ev e'" "spinning e i"
  shows "spinning e' i"
  using assms(1)
proof cases
  case (step_exchange d u)
  then have "i \<noteq> dw_id d" using assms(2) by (auto simp: fresh_def spinning_def)
  then show ?thesis using exchange_frame step_exchange spinning_frame assms(2) by blast
next
  case (step_reflected r res)
  show ?thesis
    using step_reflected(2)
  proof (cases rule: reflected_forms)
    case (2 c)
    then have "i \<noteq> rw_reflection_of r" using assms(2) by (auto simp: spinning_def)
    then show ?thesis using 2 assms(2) by (simp add: spinning_def)
  qed (use assms(2) in \<open>auto simp: spinning_def deliver_def\<close>)
next
  case (step_timer j t v)
  then show ?thesis
    using assms(2)
    by (auto simp: spinning_def timer_fires_def deliver_def Let_def split: timer.splits if_splits option.splits)
next
  case (step_collect j v)
  show ?thesis
    using step_collect(3)
    by (cases rule: collector_forms) (use assms(2) in \<open>auto simp: spinning_def deliver_def\<close>)
qed

lemma spinning_steps: "ex_steps e evs e' \<Longrightarrow> spinning e i \<Longrightarrow> spinning e' i"
  by (induction rule: ex_steps.induct) (auto intro: spinning_step)


text \<open>\<open>exchange\<close> panics exactly on a ripple that expects no answers or counts to zero; pings always
  wait for one answer and signals are never exchanged.\<close>

theorem exchange_panics_iff:
  "exchange u d e = None \<longleftrightarrow>
     (case d of DRipple w \<Rightarrow> ripple_bounce_backs (w_variant w) \<in> {BBNone, BBCount 0} | _ \<Rightarrow> False)"
  by (cases d; cases "dw_bounce_backs d") (auto simp: exchange_def Let_def)

lemma opened_request_witness:
  "\<exists>e :: unit exchanger. ex_reachable e \<and> WaveId (Uuid ''u'') WKPing \<in> ex_singles e"
proof -
  let ?s = "Surface root_point Core TopicNone"
  let ?d = "DPing (wave_new (Uuid ''u'') WKPing (PingV ?s (dcore_new (Cmd CmdInit))) ?s) :: unit directed"
  let ?n = "exchanger_new ?s timeouts_default :: unit exchanger"
  obtain e where e: "exchange (Uuid ''v'') ?d ?n = Some e" and i: "WaveId (Uuid ''u'') WKPing \<in> ex_singles e"
    by (simp add: exchange_def Let_def)
  have "ex_step ?n (EvExchange (Uuid ''v'') ?d) e"
    using e by (intro step_exchange) (simp_all add: fresh_def exchanger_new_def)
  then have "ex_reachable e" unfolding ex_reachable_def by (blast intro: ex_steps.intros)
  then show ?thesis using i by blast
qed

lemma every_request_is_answered_witness:
  "\<exists>(e :: unit exchanger) evs e'. ex_reachable e \<and> ex_steps e evs e' \<and>
     ex_received e' (WaveId (Uuid ''u'') WKPing) \<noteq> None"
proof -
  obtain e :: "unit exchanger" where e: "ex_reachable e" "WaveId (Uuid ''u'') WKPing \<in> ex_singles e"
    using opened_request_witness by blast
  show ?thesis using every_request_is_answered[OF e, of "Uuid ''w''"] e(1) by blast
qed

lemma answered_request_witness:
  "\<exists>(e :: unit exchanger) agg. ex_reachable e \<and> ex_received e (WaveId (Uuid ''u'') WKPing) = Some agg"
proof -
  let ?s = "Surface root_point Core TopicNone"
  let ?i = "WaveId (Uuid ''u'') WKPing"
  obtain e :: "unit exchanger" where e: "ex_reachable e" "?i \<in> ex_singles e"
    using opened_request_witness by blast
  obtain r :: "unit reflected" where r: "rw_reflection_of r = ?i"
    using that[of "RPong (wave_new (Uuid ''a'') WKPong (pong_new rcore_ok ?s (Single ?s) ?i) ?s)"]
    by (simp add: pong_new_def)
  have st: "slot_ok e ?i" by (rule reachable_slot_ok[OF e(1)])
  show ?thesis
  proof (cases "?i \<in> ex_multis e")
    case False
    then have "ex_step e (EvReflected r) (deliver ?i (AggSingle r) e)"
      using e r by (intro step_reflected) (simp add: ex_reflected_def Let_def)
    then have "ex_reachable (deliver ?i (AggSingle r) e)"
      using ex_reachable_steps[OF e(1)] by (blast intro: ex_steps.intros)
    then show ?thesis by (auto simp: deliver_def intro!: exI[of _ "deliver ?i (AggSingle r) e"])
  next
    case True
    then obtain c s where c: "ex_collectors e ?i = Some c" and t: "ex_timers e ?i = Some (TimerMulti s)"
      using st by (auto simp: slot_ok_def slot_inv_def elim: channel_ok.elims)
    let ?f = "e\<lparr>ex_timers := (ex_timers e)(?i := None), ex_multis := ex_multis e - {?i}\<rparr>"
    have f: "timer_fires (Uuid ''w'') ?i e = Some ?f" using t by (simp add: timer_fires_def Let_def)
    have "ex_step e (EvTimer (Uuid ''w'') ?i) ?f" using t f by (rule step_timer)
    moreover have "ex_step ?f (EvReflected r) (deliver ?i (AggSingle r) ?f)"
      using e r by (intro step_reflected) (simp add: ex_reflected_def Let_def)
    ultimately have "ex_reachable (deliver ?i (AggSingle r) ?f)"
      using ex_reachable_steps[OF e(1)] by (blast intro: ex_steps.intros)
    then show ?thesis by (auto simp: deliver_def intro!: exI[of _ "deliver ?i (AggSingle r) ?f"])
  qed
qed

lemma answers_are_final_and_belong_witness:
  "\<exists>(e :: unit exchanger) agg. ex_received e (WaveId (Uuid ''u'') WKPing) = Some agg \<and>
     list_all (\<lambda>r. rw_reflection_of r = WaveId (Uuid ''u'') WKPing) (agg_waves agg)"
proof -
  obtain e :: "unit exchanger" and agg
    where e: "ex_reachable e" "ex_received e (WaveId (Uuid ''u'') WKPing) = Some agg"
    using answered_request_witness by blast
  show ?thesis using answers_are_final_and_belong[OF e, of "[]" e] e(2) by blast
qed


section \<open>Facts: transmitters and contexts\<close>

text \<open>A strategy decides a field of the prototype: not at all, when it is missing, or always.\<close>

fun decided :: "'a set_strategy \<Rightarrow> 'a option \<Rightarrow> 'a option" where
  "decided StratNone v = v"
| "decided (Fill y) v = (case v of None \<Rightarrow> Some y | Some w \<Rightarrow> Some w)"
| "decided (Override y) v = Some y"

lemma apply_strategies:
  "apply_strategy dp_fill_from dp_set_from st_from p = p\<lparr>dp_from := decided st_from (dp_from p)\<rparr>"
  "apply_strategy dp_fill_to dp_set_to st_to p = p\<lparr>dp_to := decided st_to (dp_to p)\<rparr>"
  "apply_strategy dp_fill_via dp_set_via st_via p = p\<lparr>dp_via := decided st_via (dp_via p)\<rparr>"
  "apply_strategy dp_fill_agent dp_set_agent st_agent p = p\<lparr>dp_agent := decided st_agent (dp_agent p)\<rparr>"
  "apply_strategy dp_fill_scope dp_set_scope st_scope p = p\<lparr>dp_scope := decided st_scope (dp_scope p)\<rparr>"
  "apply_strategy dp_fill_handling dp_set_handling st_handling p = p\<lparr>dp_handling := decided st_handling (dp_handling p)\<rparr>"
  "apply_strategy dp_fill_method dp_set_method st_m p =
     p\<lparr>dp_method := decided st_m (dp_method p),
       dp_core := (case st_m of Override m \<Rightarrow> dcore_with_method (dp_core p) m | _ \<Rightarrow> dp_core p)\<rparr>"
  subgoal by (cases st_from) (auto simp: dp_simps dp_fill_from_def split: option.splits)
  subgoal by (cases st_to) (auto simp: dp_simps dp_fill_to_def split: option.splits)
  subgoal by (cases st_via) (auto simp: dp_simps dp_fill_via_def split: option.splits)
  subgoal by (cases st_agent) (auto simp: dp_simps dp_fill_agent_def split: option.splits)
  subgoal by (cases st_scope) (auto simp: dp_simps dp_fill_scope_def split: option.splits)
  subgoal by (cases st_handling) (auto simp: dp_simps dp_fill_handling_def split: option.splits)
  subgoal by (cases st_m) (auto simp: dp_simps dp_fill_method_def split: option.splits)
  done

lemma prep_direct_fields:
  "dp_from (prep_direct tr p) = decided (tr_from tr) (dp_from p)"
  "dp_to (prep_direct tr p) = decided (tr_to tr) (dp_to p)"
  "dp_via (prep_direct tr p) = decided (tr_via tr) (dp_via p)"
  "dp_agent (prep_direct tr p) = decided (tr_agent tr) (dp_agent p)"
  "dp_scope (prep_direct tr p) = decided (tr_scope tr) (dp_scope p)"
  "dp_handling (prep_direct tr p) = decided (tr_handling tr) (dp_handling p)"
  "dp_method (prep_direct tr p) = decided (tr_method tr) (dp_method p)"
  "dp_kind (prep_direct tr p) = dp_kind p" "dp_track (prep_direct tr p) = dp_track p"
  "dp_bounce_backs (prep_direct tr p) = dp_bounce_backs p"
  by (simp_all add: prep_direct_def apply_strategies Let_def)

lemma ping_start_waits:
  "ping_start u tr p = Inr (d, waits) \<Longrightarrow> waits \<and> dw_directed_kind d = DKPing"
  by (auto simp: ping_start_def direct_start_def dp_build_def prep_direct_fields res_bind_Inr_iff Let_def
      split: if_splits)

lemma ctx_answer_to: "ctx_answer u c core f = Reflected r \<Longrightarrow> rw_to r = dw_from (ctx_wave c)"
  by (cases "ctx_wave c") (auto simp: ctx_answer_def pong_new_def echo_new_def)

text \<open>A shell panics exactly when its handler answers a signal; any other answer goes to the surface
  the wave came through and refers to the wave.\<close>

theorem shell_panics_on_answered_signals:
  "shell_handle u s h w = None \<longleftrightarrow> dw_is_signal w \<and> h \<lparr>ctx_to = s, ctx_wave = w\<rparr> \<noteq> Absorbed"
  by (cases w; cases "h \<lparr>ctx_to = s, ctx_wave = w\<rparr>") (auto simp: shell_handle_def Let_def)

end
