(* ===== verification/Traversals.thy ===== *)
theory Traversals
  imports Exchange
begin

text \<open>
  The traversal of the layers of a particle (\<open>particle/traversal.rs\<close>): the traversal of a wave, its
  steps along the plan of the particle's kind, the default handling of a layer; and the layer
  traversal engine of a star (\<open>LayerTraversalEngine\<close> of \<open>star.rs\<close>), which starts traversals for
  injected waves, moves them between field and shell and lets them leave up to gravity or down to the
  drivers.  What the engine sends to other tasks is the list of its actions.
\<close>

section \<open>Traversals\<close>

text \<open>The logger of a traversal is the point it logs for.\<close>

datatype 'w traversal =
  Traversal (tv_point: point) (tv_payload: 'w) (tv_record: particle_record) (tv_layer: layer)
            (tv_dest: "layer option") (tv_logger: point) (tv_dir: traversal_direction) (tv_to: surface)

fun traversal_with :: "'w traversal \<Rightarrow> 'v \<Rightarrow> 'v traversal" where
  "traversal_with (Traversal p _ r l d g dr t) payload = Traversal p payload r l d g dr t"

fun traversal_at :: "'w traversal \<Rightarrow> layer \<Rightarrow> 'w traversal" where
  "traversal_at (Traversal p w r _ d g dr t) l = Traversal p w r l d g dr t"

fun traversal_reverse :: "'w traversal \<Rightarrow> 'w traversal" where
  "traversal_reverse (Traversal p w r l d g dr t) = Traversal p w r l d g (dir_reverse dr) t"

definition traversal_plan_of :: "'w traversal \<Rightarrow> traversal_plan" where
  "traversal_plan_of t = wave_traversal_plan (stub_kind (det_stub (rec_details (tv_record t))))"

text \<open>\<open>next\<close>: the next layer of the plan in the direction of the traversal, which moves there; the
  outer \<open>None\<close> is a panic of \<open>towards_fabric\<close>.\<close>

definition traversal_next :: "'w traversal \<Rightarrow> (layer option \<times> 'w traversal) option" where
  "traversal_next t =
     (case (case tv_dir t of
              ToFabric \<Rightarrow> towards_fabric (traversal_plan_of t) (tv_layer t)
            | ToCore \<Rightarrow> Some (towards_core (traversal_plan_of t) (tv_layer t))) of
        None \<Rightarrow> None
      | Some None \<Rightarrow> Some (None, t)
      | Some (Some l) \<Rightarrow> Some (Some l, traversal_at t l))"

definition is_inter_layer :: "'w traversal \<Rightarrow> bool" where
  "is_inter_layer t \<longleftrightarrow> surf_point (tv_to t) = tv_logger t"

definition tv_is_directed :: "'x ultrawave traversal \<Rightarrow> bool" where
  "tv_is_directed t = uw_is_directed (tv_payload t)"

definition tv_is_reflected :: "'x ultrawave traversal \<Rightarrow> bool" where
  "tv_is_reflected t \<longleftrightarrow> \<not> tv_is_directed t"

fun tv_is_ping :: "'x ultrawave traversal \<Rightarrow> bool" where
  "tv_is_ping t = (case tv_payload t of Ping _ \<Rightarrow> True | _ \<Rightarrow> False)"

fun tv_is_pong :: "'x ultrawave traversal \<Rightarrow> bool" where
  "tv_is_pong t = (case tv_payload t of Pong _ \<Rightarrow> True | _ \<Rightarrow> False)"

text \<open>The unwrapping conversions panic on the other kinds of wave.\<close>

definition unwrap_directed :: "'x ultrawave traversal \<Rightarrow> 'x directed traversal option" where
  "unwrap_directed t =
     (case tv_payload t of
        Ping w \<Rightarrow> Some (traversal_with t (DPing w))
      | Ripple w \<Rightarrow> Some (traversal_with t (DRipple w))
      | Signal w \<Rightarrow> Some (traversal_with t (DSignal w))
      | _ \<Rightarrow> None)"

definition unwrap_singular_directed :: "'x ultrawave traversal \<Rightarrow> 'x singular_directed traversal option" where
  "unwrap_singular_directed t =
     (case tv_payload t of
        Ping w \<Rightarrow> Some (traversal_with t (DPing w))
      | Ripple w \<Rightarrow>
          (case to_single (ripple_to (w_variant w)) of
             Inr s \<Rightarrow> Some (traversal_with t (DRipple (ripple_as_single w s)))
           | Inl _ \<Rightarrow> None)
      | Signal w \<Rightarrow> Some (traversal_with t (DSignal w))
      | _ \<Rightarrow> None)"

definition unwrap_reflected :: "'x ultrawave traversal \<Rightarrow> 'x reflected traversal option" where
  "unwrap_reflected t =
     (case tv_payload t of
        Pong w \<Rightarrow> Some (traversal_with t (RPong w))
      | Echo w \<Rightarrow> Some (traversal_with t (REcho w))
      | _ \<Rightarrow> None)"

definition unwrap_ping :: "'x ultrawave traversal \<Rightarrow> 'x substance ping wave traversal option" where
  "unwrap_ping t = (case tv_payload t of Ping w \<Rightarrow> Some (traversal_with t w) | _ \<Rightarrow> None)"

definition unwrap_pong :: "'x ultrawave traversal \<Rightarrow> 'x substance pong wave traversal option" where
  "unwrap_pong t = (case tv_payload t of Pong w \<Rightarrow> Some (traversal_with t w) | _ \<Rightarrow> None)"

definition wrap_directed :: "'x directed traversal \<Rightarrow> 'x ultrawave traversal" where
  "wrap_directed t = traversal_with t (dw_to_ultra (tv_payload t))"

definition wrap_reflected :: "'x reflected traversal \<Rightarrow> 'x ultrawave traversal" where
  "wrap_reflected t = traversal_with t (rw_to_ultra (tv_payload t))"

definition wrap_singular :: "'x singular_directed traversal \<Rightarrow> 'x ultrawave traversal" where
  "wrap_singular t = traversal_with t (sdw_to_ultra (tv_payload t))"

section \<open>Visiting a layer\<close>

text \<open>\<open>TraversalLayer::visit\<close> of the layer \<open>l\<close>: the operation of the layer it calls.  \<open>None\<close> is a panic
  of an unwrapping.\<close>

datatype 'x visit =
    DeliverDirected "'x directed traversal"
  | DeliverReflected "'x reflected traversal"
  | DirectedFabricBound "'x directed traversal"
  | ReflectedCoreBound "'x reflected traversal"
  | DirectedCoreBound "'x directed traversal"
  | ReflectedFabricBound "'x reflected traversal"
  | VisitNothing

definition layer_visit :: "layer \<Rightarrow> 'x ultrawave traversal \<Rightarrow> 'x visit option" where
  "layer_visit l t =
     (if tv_dest t = Some l then
        (if tv_is_directed t then map_option DeliverDirected (unwrap_directed t)
         else map_option DeliverReflected (unwrap_reflected t))
      else if tv_is_directed t \<and> tv_dir t = ToFabric then map_option DirectedFabricBound (unwrap_directed t)
      else if tv_is_reflected t \<and> tv_dir t = ToCore then map_option ReflectedCoreBound (unwrap_reflected t)
      else if tv_is_directed t \<and> tv_dir t = ToCore then map_option DirectedCoreBound (unwrap_directed t)
      else if tv_is_reflected t \<and> tv_dir t = ToFabric then map_option ReflectedFabricBound (unwrap_reflected t)
      else Some VisitNothing)"

text \<open>Unless a layer overrides them, the bound operations hand the traversal on.\<close>

fun default_next :: "'x visit \<Rightarrow> 'x ultrawave traversal option" where
  "default_next (DirectedFabricBound t) = Some (wrap_directed t)"
| "default_next (DirectedCoreBound t) = Some (wrap_directed t)"
| "default_next (ReflectedCoreBound t) = Some (wrap_reflected t)"
| "default_next (ReflectedFabricBound t) = Some (wrap_reflected t)"
| "default_next _ = None"

section \<open>The layer traversal engine\<close>

record 'x injection =
  inj_surface :: surface
  inj_wave :: "'x ultrawave"
  inj_from_gravity :: bool
  inj_dir :: "traversal_direction option"

definition injection_new :: "surface \<Rightarrow> 'x ultrawave \<Rightarrow> 'x injection" where
  "injection_new injector w = \<lparr>inj_surface = injector, inj_wave = w, inj_from_gravity = False, inj_dir = None\<rparr>"

text \<open>What a star knows: its point and kind, the records of the registry and the particles it keeps the
  state of a shell for.\<close>

record star_env =
  se_point :: point
  se_kind :: star_sub
  se_record :: "point \<Rightarrow> cosmic_err + particle_record"
  se_shell :: "point \<Rightarrow> bool"
  se_adjacents :: "(point \<times> star_stub) list"

datatype 'x layer_action =
    ToField "'x ultrawave traversal"
  | ToShell "'x ultrawave traversal"
  | ExitUp "'x ultrawave traversal"
  | ExitDown "'x ultrawave traversal"

definition engine_has_layer :: "layer \<Rightarrow> bool" where
  "engine_has_layer l \<longleftrightarrow> l = Shell \<or> l = Field"

definition engine_exit :: "'x ultrawave traversal \<Rightarrow> 'x layer_action" where
  "engine_exit t = (case tv_dir t of ToFabric \<Rightarrow> ExitUp t | ToCore \<Rightarrow> ExitDown t)"

definition visit_layer :: "star_env \<Rightarrow> 'x ultrawave traversal \<Rightarrow> space_err + 'x layer_action" where
  "visit_layer e t =
     (case tv_layer t of
        Field \<Rightarrow> Inr (ToField t)
      | Shell \<Rightarrow>
          if se_shell e (tv_point t) then Inr (ToShell t)
          else Inl (err_of_string (''expected shell state for point: '' @ point_to_string (tv_point t)))
      | _ \<Rightarrow> Inr (engine_exit t))"

text \<open>\<open>traverse_to_next_layer\<close>: errors are only logged; the outer \<open>None\<close> is a panic.\<close>

definition traverse_to_next_layer :: "star_env \<Rightarrow> 'x ultrawave traversal \<Rightarrow> 'x layer_action option option" where
  "traverse_to_next_layer e t =
     (if tv_dest t = Some (tv_layer t) then
        Some (case visit_layer e t of Inr a \<Rightarrow> Some a | Inl _ \<Rightarrow> None)
      else
        (case traversal_next t of
           None \<Rightarrow> None
         | Some (None, t') \<Rightarrow> Some (case tv_dir t' of ToFabric \<Rightarrow> Some (ExitUp t') | ToCore \<Rightarrow> None)
         | Some (Some _, t') \<Rightarrow> Some (case visit_layer e t' of Inr a \<Rightarrow> Some a | Inl _ \<Rightarrow> None)))"

text \<open>The recipients an injected wave has at this star.\<close>

fun located_ports :: "star_env \<Rightarrow> surface list \<Rightarrow> cosmic_err + surface list" where
  "located_ports e [] = Inr []"
| "located_ports e (port # ports) =
     res_bind (se_record e (surf_point port)) (\<lambda>r.
     res_bind (ok_or (loc_star (rec_location r))
         (cosmic_err_new ''multi port ripple has recipient that is not located, this should have been provisioned when the ripple was sent'')) (\<lambda>loc.
     res_bind (located_ports e ports) (\<lambda>rest.
       Inr (if loc = se_point e then port # rest else rest))))"

definition injection_targets :: "star_env \<Rightarrow> 'x ultrawave \<Rightarrow> (cosmic_err + surface list) option" where
  "injection_targets e w =
     (case uw_kind w of
        WKRipple \<Rightarrow>
          Some (case uw_to w of
             Single s \<Rightarrow> Inr [s]
           | Multi ports \<Rightarrow> located_ports e ports
           | Watchers _ \<Rightarrow> Inr []
           | Stars \<Rightarrow>
               if se_point e = surf_point (uw_from w)
               then Inr [with_layer (to_surface (se_point e)) Gravity]
               else Inr [with_layer (to_surface (se_point e)) Core])
      | _ \<Rightarrow> map_option (\<lambda>s. Inr [s]) (unwrap_single (uw_to w)))"

text \<open>Direction and destination of the traversal to one recipient.\<close>

definition choose_route ::
  "'x injection \<Rightarrow> surface \<Rightarrow> particle_record \<Rightarrow> cosmic_err + traversal_direction \<times> layer option" where
  "choose_route i to record =
     (case inj_dir i of
        Some d \<Rightarrow> Inr (d, None)
      | None \<Rightarrow>
          if inj_from_gravity i then Inr (ToCore, Some (surf_layer to))
          else if point_is_global (surf_point to) then Inr (ToFabric, None)
          else if surf_point to = surf_point (uw_from (inj_wave i)) then
            (let k = stub_kind (det_stub (rec_details record))
             in if surf_layer to \<noteq> Gravity \<and> \<not> has_layer (wave_traversal_plan k) (surf_layer to)
                then Inl (cosmic_err_new (''attempt to send wave '' @ wave_id_to_string (uw_id (inj_wave i)) @
                       '' to layer '' @ layer_to_string (surf_layer to) @ '' that the recipient Kind '' @
                       kind_name k @ '' does not have in its traversal plan''))
                else Inr (case direction_new (surf_layer (inj_surface i)) (surf_layer to) of
                            Inr d \<Rightarrow> d | Inl _ \<Rightarrow> ToFabric, Some (surf_layer to)))
          else Inr (ToFabric, None))"

definition start_one :: "star_env \<Rightarrow> 'x injection \<Rightarrow> surface \<Rightarrow> (cosmic_err + 'x layer_action) option" where
  "start_one e i to =
     (case se_record e (surf_point to) of
        Inl _ \<Rightarrow>
          Some (Inl (cosmic_err_of_space (not_found (''could not locate record for surface '' @
            surface_to_string to @ '' from '' @ surface_to_string (uw_from (inj_wave i))))))
      | Inr record \<Rightarrow>
          (case choose_route i to record of
             Inl err \<Rightarrow> Some (Inl err)
           | Inr (dir, dest) \<Rightarrow>
               (let p = (if dir = ToCore then surf_point to else surf_point (uw_from (inj_wave i)));
                    t = Traversal p (inj_wave i) record (surf_layer (inj_surface i)) dest (surf_point to) dir to
                in if \<not> engine_has_layer (tv_layer t) then
                     (case traversal_next t of
                        None \<Rightarrow> None
                      | Some (None, t') \<Rightarrow> Some (Inr (engine_exit t'))
                      | Some (Some _, t') \<Rightarrow> Some (space_res (visit_layer e t')))
                   else Some (space_res (visit_layer e t)))))"

fun start_all :: "star_env \<Rightarrow> 'x injection \<Rightarrow> surface list \<Rightarrow> ('x layer_action list \<times> (cosmic_err + unit)) option" where
  "start_all e i [] = Some ([], Inr ())"
| "start_all e i (to # tos) =
     (case start_one e i to of
        None \<Rightarrow> None
      | Some (Inl err) \<Rightarrow> Some ([], Inl err)
      | Some (Inr a) \<Rightarrow> map_option (\<lambda>(as, r). (a # as, r)) (start_all e i tos))"

definition start_layer_traversal :: "star_env \<Rightarrow> 'x injection \<Rightarrow> ('x layer_action list \<times> (cosmic_err + unit)) option" where
  "start_layer_traversal e i =
     (case injection_targets e (inj_wave i) of
        None \<Rightarrow> None
      | Some (Inl err) \<Rightarrow> Some ([], Inl err)
      | Some (Inr tos) \<Rightarrow> start_all e i tos)"

text \<open>\<open>inject\<close>: an error of a directed wave goes back as its reflection, injected in turn.\<close>

definition inject :: "uuid \<Rightarrow> star_env \<Rightarrow> 'x injection \<Rightarrow> 'x layer_action list option" where
  "inject u e i =
     (if uw_is_directed (inj_wave i) then
        (case uw_to_directed (inj_wave i) of
           Inl _ \<Rightarrow> None
         | Inr d \<Rightarrow>
             (case start_layer_traversal e i of
                None \<Rightarrow> None
              | Some (as, Inr _) \<Rightarrow> Some as
              | Some (as, Inl err) \<Rightarrow>
                  (case dw_reflection d of
                     Inl _ \<Rightarrow> Some as
                   | Inr r \<Rightarrow>
                       (case cosmic_err_to_space err of
                          None \<Rightarrow> None
                        | Some serr \<Rightarrow>
                            map_option (\<lambda>(bs, _). as @ bs)
                              (start_layer_traversal e
                                \<lparr>inj_surface = inj_surface i,
                                 inj_wave = rw_to_ultra (reflection_make u r (rcore_of_err serr) (to_surface (se_point e))),
                                 inj_from_gravity = False, inj_dir = None\<rparr>)))))
      else map_option fst (start_layer_traversal e i))"

section \<open>Facts: the layers of a traversal\<close>

lemma unwrap_wrap:
  "unwrap_directed t = Some d \<Longrightarrow> wrap_directed d = t"
  "unwrap_reflected t = Some r \<Longrightarrow> wrap_reflected r = t"
  by (cases t; cases "tv_payload t"; auto simp: unwrap_directed_def wrap_directed_def unwrap_reflected_def
      wrap_reflected_def)+

lemma unwrap_total:
  "tv_is_directed t \<Longrightarrow> unwrap_directed t \<noteq> None" "tv_is_reflected t \<Longrightarrow> unwrap_reflected t \<noteq> None"
  by (cases "tv_payload t"; simp add: tv_is_directed_def tv_is_reflected_def unwrap_directed_def unwrap_reflected_def)+

lemma layer_visit_total: "\<exists>v. layer_visit l t = Some v \<and> v \<noteq> VisitNothing"
  using unwrap_total[of t]
  by (cases "tv_is_directed t"; cases "tv_dir t")
    (auto simp: layer_visit_def tv_is_reflected_def split: option.splits)

lemma layer_visit_elsewhere:
  assumes "tv_dest t \<noteq> Some l" "layer_visit l t = Some v"
  shows "default_next v = Some t"
  using assms
  by (cases "tv_dir t") (auto simp: layer_visit_def tv_is_reflected_def split: if_splits dest!: unwrap_wrap)

lemma layer_visit_dest:
  assumes "tv_dest t = Some l" "layer_visit l t = Some v"
  shows "default_next v = None \<and>
         (if tv_is_directed t then \<exists>d. v = DeliverDirected d else \<exists>r. v = DeliverReflected r)"
  using assms by (auto simp: layer_visit_def tv_is_reflected_def split: if_splits)

text \<open>A layer always does something with a traversal that visits it, without a panic: at its
  destination it delivers the wave, and there the default handling hands nothing on; at any other
  layer the default handling hands on exactly the traversal that came in.\<close>

theorem visit_delivers_or_hands_on:
  "\<exists>v. layer_visit l t = Some v \<and> v \<noteq> VisitNothing \<and>
     (if tv_dest t = Some l
      then default_next v = None \<and>
           ((\<exists>d. v = DeliverDirected d \<and> wrap_directed d = t) \<or> (\<exists>r. v = DeliverReflected r \<and> wrap_reflected r = t))
      else default_next v = Some t)"
proof -
  obtain v where v: "layer_visit l t = Some v" "v \<noteq> VisitNothing"
    using layer_visit_total by blast
  show ?thesis
  proof (cases "tv_dest t = Some l")
    case True
    then show ?thesis
      using v by (auto simp: layer_visit_def split: if_splits dest: unwrap_wrap)
  next
    case False
    then show ?thesis using v layer_visit_elsewhere by auto
  qed
qed

lemma traversal_sel [simp]:
  "tv_point (traversal_at t l) = tv_point t" "tv_payload (traversal_at t l) = tv_payload t"
  "tv_record (traversal_at t l) = tv_record t" "tv_layer (traversal_at t l) = l"
  "tv_dest (traversal_at t l) = tv_dest t" "tv_logger (traversal_at t l) = tv_logger t"
  "tv_dir (traversal_at t l) = tv_dir t" "tv_to (traversal_at t l) = tv_to t"
  by (cases t; simp)+

lemma plan_of_at [simp]: "traversal_plan_of (traversal_at t l) = traversal_plan_of t"
  by (simp add: traversal_plan_of_def)

lemma traversal_next_no_panic: "traversal_next t \<noteq> None"
  using towards_fabric_no_panic[of "traversal_plan_of t" "tv_layer t"]
  by (auto simp: traversal_next_def split: traversal_direction.splits option.splits)

lemma plan_core_steps:
  "towards_core (wave_traversal_plan k) Gravity = Some Field"
  "towards_core (wave_traversal_plan k) Field = Some Shell"
  "towards_core (wave_traversal_plan k) Shell = Some (if has_layer (wave_traversal_plan k) Portal then Portal else Core)"
  by (cases k; simp add: towards_core_def has_layer_def towards_core_from.simps from_ordinal_def layer_variants_def
      std_wave_traversal_plan_def mechtron_wave_traversal_plan_def portal_wave_traversal_plan_def
      control_wave_traversal_plan_def star_wave_traversal_plan_def plan_new_def)+


text \<open>The traversal of an injection from gravity to \<open>to\<close>, at the layer \<open>l\<close>.\<close>

definition descent :: "'x injection \<Rightarrow> particle_record \<Rightarrow> surface \<Rightarrow> layer \<Rightarrow> 'x ultrawave traversal" where
  "descent i r to l = Traversal (surf_point to) (inj_wave i) r l (Some (surf_layer to)) (surf_point to) ToCore to"

lemma descent_sel [simp]:
  "tv_dir (descent i r to l) = ToCore" "tv_layer (descent i r to l) = l"
  "tv_dest (descent i r to l) = Some (surf_layer to)" "tv_point (descent i r to l) = surf_point to"
  "traversal_at (descent i r to l) m = descent i r to m"
  by (simp_all add: descent_def)

lemma plan_of_descent [simp]:
  "traversal_plan_of (descent i r to l) = wave_traversal_plan (stub_kind (det_stub (rec_details r)))"
  by (simp add: traversal_plan_of_def descent_def)

lemma descent_next:
  "traversal_next (descent i r to Gravity) = Some (Some Field, descent i r to Field)"
  "traversal_next (descent i r to Field) = Some (Some Shell, descent i r to Shell)"
  "traversal_next (descent i r to Shell) =
     (let l = (if has_layer (traversal_plan_of (descent i r to Shell)) Portal then Portal else Core)
      in Some (Some l, descent i r to l))"
  by (simp_all add: traversal_next_def plan_core_steps)


text \<open>A star that knows the records of a space.\<close>

definition sample_star :: "kind \<Rightarrow> star_env" where
  "sample_star k =
     \<lparr>se_point = local_endpoint, se_kind = StarFold,
      se_record = (\<lambda>p. Inr \<lparr>rec_details = \<lparr>det_stub = \<lparr>stub_point = p, stub_kind = k, stub_status = StatusReady\<rparr>,
                                           det_properties = Map.empty\<rparr>,
                          rec_location = \<lparr>loc_star = Some local_endpoint, loc_host = None\<rparr>\<rparr>),
      se_shell = (\<lambda>_. True), se_adjacents = []\<rparr>"

abbreviation sample_ping :: "point \<Rightarrow> point \<Rightarrow> unit ultrawave" where
  "sample_ping from to \<equiv>
     Ping (wave_new (Uuid ''u'') WKPing (PingV (Surface to Core TopicNone) (dcore_new (Cmd CmdInit)))
       (Surface from Core TopicNone))"


lemma plan_fabric_step_core:
  "towards_fabric (wave_traversal_plan k) Core =
     Some (Some (if has_layer (wave_traversal_plan k) Guest then Guest else Shell))"
  by (cases k; simp add: towards_fabric_def has_layer_def towards_fabric_from.simps from_ordinal_def layer_variants_def
      std_wave_traversal_plan_def mechtron_wave_traversal_plan_def portal_wave_traversal_plan_def
      control_wave_traversal_plan_def star_wave_traversal_plan_def plan_new_def eval_nat_numeral)

text \<open>The plan a wave follows out of the core of its sender is the plan of its recipient.  So a
  wave for another particle passes the shell of its sender, which must exist, when the kind of the
  recipient has no guest layer; otherwise it leaves for gravity at once, past the shell and the field
  of the sender.\<close>

theorem core_injection_follows_the_recipients_plan:
  assumes "\<not> inj_from_gravity i" "inj_dir i = None" "surf_layer (inj_surface i) = Core"
    "se_record e (surf_point to) = Inr r" "\<not> point_is_global (surf_point to)"
    "surf_point to \<noteq> surf_point (uw_from (inj_wave i))"
  shows "start_one e i to =
     (if has_layer (wave_traversal_plan (stub_kind (det_stub (rec_details r)))) Guest
      then Some (Inr (ExitUp (Traversal (surf_point (uw_from (inj_wave i))) (inj_wave i) r Guest None (surf_point to) ToFabric to)))
      else if se_shell e (surf_point (uw_from (inj_wave i)))
      then Some (Inr (ToShell (Traversal (surf_point (uw_from (inj_wave i))) (inj_wave i) r Shell None (surf_point to) ToFabric to)))
      else Some (Inl (cosmic_err_of_space
             (err_of_string (''expected shell state for point: '' @ point_to_string (surf_point (uw_from (inj_wave i))))))))"
  using assms
  by (simp add: start_one_def choose_route_def engine_has_layer_def traversal_next_def traversal_plan_of_def
      plan_fabric_step_core visit_layer_def engine_exit_def space_res_def)

lemma core_injection_follows_the_recipients_plan_witness:
  "\<exists>t. start_one (sample_star KMechtron) (injection_new (Surface root_point Core TopicNone)
         (sample_ping root_point sample_space)) (Surface sample_space Core TopicNone) = Some (Inr (ExitUp t))"
  using core_injection_follows_the_recipients_plan
    [of "injection_new (Surface root_point Core TopicNone) (sample_ping root_point sample_space)"
        "sample_star KMechtron" "Surface sample_space Core TopicNone"]
  by (simp add: sample_star_def injection_new_def root_point_def point_is_global_def has_layer_def
      mechtron_wave_traversal_plan_def plan_new_def)

section \<open>Facts: injections\<close>

lemma injection_targets_total: "injection_targets e w \<noteq> None"
  by (cases w) (auto simp: injection_targets_def unwrap_single_def)

lemma start_one_total: "start_one e i to \<noteq> None"
  by (auto simp: start_one_def Let_def traversal_next_no_panic split: sum.splits option.splits)

lemma start_all_total: "start_all e i tos \<noteq> None"
proof (induction tos)
  case (Cons to tos)
  then show ?case
    using start_one_total[of e i to] by (auto split: sum.splits option.splits)
qed simp

lemma start_layer_traversal_total: "start_layer_traversal e i \<noteq> None"
  using injection_targets_total[of e "inj_wave i"] start_all_total[of e i]
  unfolding start_layer_traversal_def by (auto split: sum.splits option.splits simp del: not_None_eq)

lemma uw_is_directed_iff: "uw_is_directed w \<longleftrightarrow> (\<exists>d. uw_to_directed w = Inr d)"
  by (cases w) auto

lemma cosmic_err_to_space_eq: "cosmic_err_to_space e = Some (server_error (ce_message e))"
  by (simp add: cosmic_err_to_space_def err_server_error_def space_err_new_def)

text \<open>The reflection an undeliverable wave comes back as, and the injection that starts it.\<close>

definition bounced :: "uuid \<Rightarrow> star_env \<Rightarrow> cosmic_err \<Rightarrow> reflection \<Rightarrow> 'x reflected" where
  "bounced u e err r =
     reflection_make u r (rcore_of_err (server_error (ce_message err))) (to_surface (se_point e))"

definition bounce_injection :: "surface \<Rightarrow> 'x reflected \<Rightarrow> 'x injection" where
  "bounce_injection s w = \<lparr>inj_surface = s, inj_wave = rw_to_ultra w, inj_from_gravity = False, inj_dir = None\<rparr>"

lemma inject_total: "inject u e i \<noteq> None"
  using start_layer_traversal_total[of e]
  by (auto simp: inject_def uw_is_directed_iff cosmic_err_to_space_eq simp del: not_None_eq
      split: sum.splits option.splits)

text \<open>What an injection could start stays started when a later recipient fails.  Then a ping or a
  ripple comes back to the surface it came through as a reflection with status 500, whatever the
  error was, itself injected at the same surface; a signal is lost.\<close>

theorem undeliverable_waves_come_back_with_500:
  fixes i :: "'x injection"
  assumes "uw_to_directed (inj_wave i) = Inr d" "start_layer_traversal e i = Some (as, Inl err)"
  shows "case dw_reflection d of
           Inl _ \<Rightarrow> dw_is_signal d \<and> inject u e i = Some as
         | Inr r \<Rightarrow>
             (let b = (bounced u e err r :: 'x reflected)
              in rw_reflection_of b = dw_id d \<and> rw_to b = reflect_to d \<and> status_as_u16 (rc_status (rw_core b)) = 500 \<and>
                 (\<exists>bs res. start_layer_traversal e (bounce_injection (inj_surface i) b) = Some (bs, res) \<and>
                    inject u e i = Some (as @ bs)))"
proof (cases "dw_reflection d")
  case (Inl x)
  then have "dw_is_signal d" by (cases d) auto
  then show ?thesis using Inl assms by (auto simp: inject_def uw_is_directed_iff)
next
  case (Inr r)
  let ?b = "bounced u e err r :: 'x reflected"
  obtain bs res where
    bs: "start_layer_traversal e (bounce_injection (inj_surface i) ?b) = Some (bs, res)"
    using start_layer_traversal_total[of e] by fast
  then have "inject u e i = Some (as @ bs)"
    using assms Inr
    by (auto simp: inject_def uw_is_directed_iff cosmic_err_to_space_eq bounced_def bounce_injection_def)
  moreover have "rw_reflection_of ?b = dw_id d" "rw_to ?b = reflect_to d"
    using Inr by (cases d; auto simp: bounced_def reflection_make_def pong_new_def echo_new_def)+
  moreover have "status_as_u16 (rc_status (rw_core ?b)) = 500"
    by (cases "rfl_kind r"; simp add: bounced_def reflection_make_def pong_new_def echo_new_def status_as_u16_def)
  ultimately show ?thesis using bs Inr by (auto simp: Let_def)
qed

lemma undeliverable_waves_come_back_with_500_witness:
  "\<exists>b as. rw_reflection_of (b :: unit reflected) = WaveId (Uuid ''u'') WKPing \<and> status_as_u16 (rc_status (rw_core b)) = 500 \<and>
     inject (Uuid ''v'') (sample_star KSpace\<lparr>se_record := \<lambda>_. Inl (cosmic_err_new ''none'')\<rparr>)
       (injection_new (Surface root_point Shell TopicNone) (sample_ping root_point sample_space)) = Some as"
proof -
  let ?i = "injection_new (Surface root_point Shell TopicNone) (sample_ping root_point sample_space)"
  let ?e = "sample_star KSpace\<lparr>se_record := \<lambda>_. Inl (cosmic_err_new ''none'')\<rparr>"
  obtain err where err: "start_layer_traversal ?e ?i = Some ([], Inl err)"
    by (simp add: injection_new_def start_layer_traversal_def injection_targets_def unwrap_single_def start_one_def)
  obtain d where d: "uw_to_directed (inj_wave ?i) = Inr d" "dw_id d = WaveId (Uuid ''u'') WKPing" "dw_kind d = WKPing"
    by (simp add: injection_new_def)
  then obtain r where r: "dw_reflection d = Inr r" by (cases d) auto
  show ?thesis
    using undeliverable_waves_come_back_with_500[OF d(1) err, of "Uuid ''v''"] r d(2) by (auto simp: Let_def)
qed

end
