(* ===== verification/Stars.thy ===== *)
theory Stars
  imports Traversals
begin

text \<open>
  The routing of a star (\<open>star.rs\<close>): templates and connections of stars, the waves that come from
  the hyperway and from gravity, sharding by location, and sending transports into the hyperway.
  A handler gives the actions it takes, an error that is logged, or \<open>None\<close> where it panics.
\<close>

section \<open>Templates\<close>

datatype star_con = Receiver star_stub | Connector star_stub

fun is_connector :: "star_con \<Rightarrow> bool" where
  "is_connector (Receiver _) = False"
| "is_connector (Connector _) = True"

fun is_receiver :: "star_con \<Rightarrow> bool" where
  "is_receiver (Receiver _) = True"
| "is_receiver (Connector _) = False"

fun con_stub :: "star_con \<Rightarrow> star_stub" where
  "con_stub (Receiver stub) = stub"
| "con_stub (Connector stub) = stub"

definition con_key :: "star_con \<Rightarrow> star_key" where "con_key c = stub_key (con_stub c)"
definition con_kind :: "star_con \<Rightarrow> star_sub" where "con_kind c = star_stub.stub_kind (con_stub c)"

record star_template =
  tpl_key :: star_key
  tpl_kind :: star_sub
  tpl_connections :: "star_con list"

definition template_new :: "star_key \<Rightarrow> star_sub \<Rightarrow> star_template" where
  "template_new key kind = \<lparr>tpl_key = key, tpl_kind = kind, tpl_connections = []\<rparr>"

definition template_to_stub :: "star_template \<Rightarrow> star_stub" where
  "template_to_stub t = \<lparr>stub_key = tpl_key t, star_stub.stub_kind = tpl_kind t\<rparr>"

definition template_receive :: "star_stub \<Rightarrow> star_template \<Rightarrow> star_template" where
  "template_receive stub t = t\<lparr>tpl_connections := tpl_connections t @ [Receiver stub]\<rparr>"

definition template_connect :: "star_stub \<Rightarrow> star_template \<Rightarrow> star_template" where
  "template_connect stub t = t\<lparr>tpl_connections := tpl_connections t @ [Connector stub]\<rparr>"

text \<open>\<open>HyperStarSkel::new\<close> collects the adjacent stars of the template; \<open>to_pt\<close> is \<open>to_point\<close> of the
  keys.  A later connection to the same point replaces the earlier one.\<close>

definition adjacents_of :: "(star_key \<Rightarrow> point) \<Rightarrow> star_template \<Rightarrow> (point \<times> star_stub) list" where
  "adjacents_of to_pt t =
     foldl (\<lambda>m c. AList.update (to_pt (con_key c)) (con_stub c) m) [] (tpl_connections t)"

section \<open>The transmitters of a star\<close>

definition gravity_transmitter :: "star_env \<Rightarrow> transmitter" where
  "gravity_transmitter e =
     transmitter_new\<lparr>tr_from := Override (to_surface (se_point e)),
       tr_handling := Fill (Handling HandlingImmediate PriorityHigh RetriesNone WaitLow),
       tr_agent := Fill AgentHyperUser, tr_scope := Fill ScopeFull\<rparr>"

definition star_transmitter :: "star_env \<Rightarrow> transmitter" where
  "star_transmitter e =
     transmitter_new\<lparr>tr_from := Override (with_layer (to_surface (se_point e)) Core),
       tr_agent := Override AgentHyperUser\<rparr>"

definition hyperway_transmitter :: transmitter where
  "hyperway_transmitter = transmitter_new\<lparr>tr_agent := Override AgentHyperUser, tr_scope := Override ScopeFull\<rparr>"

definition star_gravity :: "star_env \<Rightarrow> surface" where
  "star_gravity e = with_layer (to_surface (se_point e)) Gravity"

definition forwarders :: "star_env \<Rightarrow> point list" where
  "forwarders e = map fst (filter (\<lambda>(p, stub). is_forwarder (star_stub.stub_kind stub)) (se_adjacents e))"

definition is_adjacent :: "star_env \<Rightarrow> point \<Rightarrow> bool" where
  "is_adjacent e p \<longleftrightarrow> map_of (se_adjacents e) p \<noteq> None"

section \<open>Into the hyperway\<close>

text \<open>A transport goes out in a hop to one adjacent star, or to this one; \<open>u\<close> and \<open>v\<close> are the uuids of
  the prototype and of the hop.  More than one forwarder is \<open>unimplemented!\<close>.\<close>

definition send_hop ::
  "uuid \<Rightarrow> uuid \<Rightarrow> star_env \<Rightarrow> 'x substance signal wave \<Rightarrow> surface \<Rightarrow> cosmic_err + 'x ultrawave" where
  "send_hop u v e transport to =
     (case direct_start v hyperway_transmitter (wrap_in_hop u transport (star_gravity e) to) of
        Inl err \<Rightarrow> Inl (cosmic_err_of_space err)
      | Inr (d, _) \<Rightarrow> Inr (dw_to_ultra d))"

definition star_to_hyperway ::
  "uuid \<Rightarrow> uuid \<Rightarrow> star_env \<Rightarrow> 'x substance signal wave \<Rightarrow> (cosmic_err + 'x ultrawave) option" where
  "star_to_hyperway u v e transport =
     (let to = signal_to (w_variant transport)
      in if se_point e = surf_point to then Some (send_hop u v e transport (to_surface (se_point e)))
         else if is_adjacent e (surf_point to) then Some (send_hop u v e transport to)
         else if length (forwarders e) = 1 then Some (send_hop u v e transport (to_surface (hd (forwarders e))))
         else if forwarders e = [] then
           Some (Inl (cosmic_err_new ''this star needs to send a transport to a non-adjacent star yet does not have any adjacent forwarders''))
         else None)"

definition star_forward ::
  "uuid \<Rightarrow> uuid \<Rightarrow> star_env \<Rightarrow> 'x substance signal wave \<Rightarrow> (cosmic_err + 'x ultrawave) option" where
  "star_forward u v e transport =
     (if is_forwarder (se_kind e) then star_to_hyperway u v e transport
      else Some (Inl (cosmic_err_new (''attempt to forward a transport on a non forwarding Star Kind: '' @
             star_sub_to_string (se_kind e)))))"

section \<open>From the hyperway\<close>

text \<open>A transport for this star is injected from gravity at the injector surface; any other is
  forwarded.\<close>

datatype 'x star_action = InjectWave "'x injection" | IntoHyperway "'x ultrawave"

definition from_hyperway ::
  "uuid \<Rightarrow> uuid \<Rightarrow> star_env \<Rightarrow> surface \<Rightarrow> 'x ultrawave \<Rightarrow> (cosmic_err + 'x star_action) option" where
  "from_hyperway u v e injector w =
     (case uw_unwrap_from_hop w of
        Inl err \<Rightarrow> Some (Inl (cosmic_err_of_space err))
      | Inr transport \<Rightarrow>
          (let transport = wave_inc_hops transport
           in if w_hops transport > 255 then
                Some (Inl (cosmic_err_new ''transport signal exceeded max hops''))
              else if surf_point (signal_to (w_variant transport)) = se_point e then
                Some (Inr (InjectWave \<lparr>inj_surface = injector, inj_wave = Signal transport,
                                       inj_from_gravity = True, inj_dir = None\<rparr>))
              else (case star_forward u v e transport of
                      None \<Rightarrow> None
                    | Some (Inl err) \<Rightarrow> Some (Inl err)
                    | Some (Inr hop) \<Rightarrow> Some (Inr (IntoHyperway hop)))))"

text \<open>The handler \<open>Hyp<Transport>\<close> of the star takes the wave out and injects it from gravity.\<close>

definition star_transport :: "star_env \<Rightarrow> 'x ultrawave \<Rightarrow> 'x injection" where
  "star_transport e w = (injection_new (star_gravity e) w)\<lparr>inj_from_gravity := True\<rparr>"

section \<open>Sharding\<close>

text \<open>\<open>shard_by_location\<close>, as the list of stars with the recipients there.\<close>

fun shard_by_location :: "recipients \<Rightarrow> (point \<times> star_stub) list \<Rightarrow> cosmic_err + (point \<times> recipients) list" where
  "shard_by_location (Single _) adjacent = Inl (cosmic_err_new ''unimplemented'')"
| "shard_by_location (Multi _) adjacent = Inl (cosmic_err_new ''unimplemented'')"
| "shard_by_location (Watchers _) adjacent = Inr []"
| "shard_by_location Stars adjacent = Inr (map (\<lambda>(star, _). (star, Stars)) adjacent)"

definition ripple_set_to :: "recipients \<Rightarrow> (recipients, 'b) ripple wave \<Rightarrow> (recipients, 'b) ripple wave" where
  "ripple_set_to r w = wave_set_variant (ripple_replace_to (w_variant w) r) w"

definition shard_ripple_by_location ::
  "(recipients, 'b) ripple wave \<Rightarrow> (point \<times> star_stub) list \<Rightarrow> cosmic_err + (point \<times> (recipients, 'b) ripple wave) list" where
  "shard_ripple_by_location ripple adjacent =
     res_bind (shard_by_location (ripple_to (w_variant ripple)) adjacent) (\<lambda>shards.
       Inr (map (\<lambda>(star, rs). (star, ripple_set_to rs ripple))
         (filter (\<lambda>(star, _). star \<notin> ripple_history (w_variant ripple)) shards)))"

text \<open>\<open>to_ports\<close>: recipients that are watchers are \<open>unimplemented!\<close>.\<close>

fun to_ports :: "recipients \<Rightarrow> point list \<Rightarrow> surface list option" where
  "to_ports (Single s) adjacent = Some [s]"
| "to_ports (Multi ss) adjacent = Some ss"
| "to_ports (Watchers _) adjacent = None"
| "to_ports Stars adjacent = Some (map to_surface adjacent)"

definition ripple_to_singulars ::
  "(recipients, 'b) ripple wave \<Rightarrow> point list \<Rightarrow> (surface, 'b) ripple wave list option" where
  "ripple_to_singulars ripple adjacent =
     map_option (map (ripple_as_single ripple)) (to_ports (ripple_to (w_variant ripple)) adjacent)"

text \<open>A wave for another star leaves in a transport from this star to the core of the other;
  \<open>direct\<close> is not involved.\<close>

definition transport_to ::
  "uuid \<Rightarrow> uuid \<Rightarrow> star_env \<Rightarrow> 'x ultrawave \<Rightarrow> point \<Rightarrow> cosmic_err + 'x substance signal wave" where
  "transport_to u v e w star =
     space_res (res_bind
       (dp_build v (dp_set_from (to_surface (se_point e))
          (wrap_in_transport u w (star_gravity e) (with_layer (to_surface star) Core))))
       dw_to_signal)"

datatype 'x shard_action = ShardInject "'x injection" | ShardTransport "'x substance signal wave"

definition shard_one :: "uuid \<Rightarrow> uuid \<Rightarrow> star_env \<Rightarrow> 'x ultrawave \<Rightarrow> point \<Rightarrow> cosmic_err + 'x shard_action" where
  "shard_one u v e w star =
     (if star = se_point e then Inr (ShardInject (star_transport e w))
      else res_bind (transport_to u v e w star) (\<lambda>t. Inr (ShardTransport t)))"

text \<open>A ripple is sharded over the adjacent stars that it has not visited, with this star added to its
  history; any other wave goes to the star \<open>located\<close> for its recipient (\<open>SmartLocator::locate\<close>).\<close>

definition shard ::
  "uuid \<Rightarrow> uuid \<Rightarrow> star_env \<Rightarrow> (cosmic_err + particle_location) \<Rightarrow> 'x ultrawave
   \<Rightarrow> (cosmic_err + 'x shard_action list) option" where
  "shard u v e located w =
     (case w of
        Ripple ripple \<Rightarrow>
          Some (res_bind (shard_ripple_by_location ripple (se_adjacents e))
            (res_map (\<lambda>(star, r). shard_one u v e
               (Ripple (wave_set_variant (ripple_add_history (se_point e) (w_variant r)) r)) star)))
      | _ \<Rightarrow>
          (case located of
             Inl err \<Rightarrow> Some (Inl err)
           | Inr location \<Rightarrow>
               (case loc_star location of
                  None \<Rightarrow> None
                | Some star \<Rightarrow> Some (res_map (shard_one u v e w) [star]))))"

section \<open>From gravity\<close>

datatype 'x gravity_action = ToGlobalHandler "'x directed" | ToShard "'x ultrawave"

definition to_gravity :: "star_env \<Rightarrow> 'x ultrawave \<Rightarrow> 'x gravity_action option" where
  "to_gravity e wave =
     (let w = uw_add_history wave (se_point e)
      in if uw_is_directed w \<and> recipients_is_single (uw_to w) then
           (case to_single (uw_to w) of
              Inl _ \<Rightarrow> None
            | Inr to \<Rightarrow>
                if surf_point to = global_exec
                then (case uw_to_directed w of Inl _ \<Rightarrow> None | Inr d \<Rightarrow> Some (ToGlobalHandler d))
                else Some (ToShard w))
         else Some (ToShard w))"

section \<open>The particles of a star\<close>

definition find_shell :: "star_env \<Rightarrow> point \<Rightarrow> space_err + point" where
  "find_shell e p =
     (if se_shell e p then Inr p else Inl (err_of_string (''expected shell state for point: '' @ point_to_string p)))"

definition create_shell :: "point \<Rightarrow> star_env \<Rightarrow> star_env" where
  "create_shell p e = e\<lparr>se_shell := (se_shell e)(p := True)\<rparr>"

text \<open>A topic handler answers only to the sources its selector matches.\<close>

definition find_topic ::
  "(surface \<rightharpoonup> surface_selector \<times> 'h) \<Rightarrow> surface \<Rightarrow> surface \<Rightarrow> (space_err + 'h) option" where
  "find_topic topics port source =
     (case topics port of
        None \<Rightarrow> None
      | Some (selector, handler) \<Rightarrow>
          Some (if is_ok (surface_selector_is_match selector source) then Inr handler
                else Inl (Status 404 ''Not Found: topic'')))"

definition star_stub_of :: "star_key \<Rightarrow> star_env \<Rightarrow> star_stub" where
  "star_stub_of key e = \<lparr>stub_key = key, star_stub.stub_kind = se_kind e\<rparr>"

section \<open>Facts: hops between stars\<close>

lemma surf_to_surface [simp]: "surf_point (to_surface p) = p" "surf_point (with_layer s l) = surf_point s"
  "surf_layer (with_layer s l) = l"
  by (simp_all add: to_surface_def with_layer_def)

lemma send_hop_ok:
  "\<exists>h. send_hop u v e t to = Inr (Signal h) \<and> signal_unwrap_from_hop h = Inr t \<and> signal_to (w_variant h) = to \<and>
     w_agent h = AgentHyperUser \<and> w_scope h = ScopeFull \<and> w_from h = star_gravity e \<and> w_track h = w_track t"
  by (simp add: send_hop_def direct_start_def prep_direct_def hyperway_transmitter_def transmitter_new_def
      wrap_in_hop_def dp_build_def dp_simps Let_def signal_unwrap_from_hop_def)

lemma send_hop_iff:
  assumes "send_hop u v e t to = Inr hop"
  shows "uw_unwrap_from_hop hop = Inr t \<and> uw_to hop = Single to"
proof -
  obtain h where "hop = Signal h" "signal_unwrap_from_hop h = Inr t" "signal_to (w_variant h) = to"
    using send_hop_ok[of u v e t to] assms by auto
  then show ?thesis by (simp add: uw_unwrap_from_hop_def)
qed

text \<open>The star a transport is sent to next: its destination if it is this star or adjacent, and the only
  forwarder otherwise.\<close>

definition next_star :: "star_env \<Rightarrow> point \<Rightarrow> point option" where
  "next_star e dest =
     (if se_point e = dest \<or> is_adjacent e dest then Some dest
      else if length (forwarders e) = 1 then Some (hd (forwarders e)) else None)"

lemma to_hyperway_sends:
  assumes "star_to_hyperway u v e t = Some (Inr hop)"
  shows "uw_unwrap_from_hop hop = Inr t \<and>
         (\<exists>s. uw_to hop = Single s \<and> next_star e (surf_point (signal_to (w_variant t))) = Some (surf_point s))"
  using assms
  by (auto simp: star_to_hyperway_def next_star_def Let_def split: if_splits dest!: send_hop_iff)

lemma to_hyperway_next:
  assumes "next_star e (surf_point (signal_to (w_variant t))) = Some q"
  obtains to where "star_to_hyperway u v e t = Some (send_hop u v e t to)" "surf_point to = q"
proof (cases "se_point e = surf_point (signal_to (w_variant t))")
  case True
  then show ?thesis
    using assms that[of "to_surface (se_point e)"] by (simp add: star_to_hyperway_def next_star_def)
next
  case False
  then show ?thesis
    using assms that[of "signal_to (w_variant t)"] that[of "to_surface (hd (forwarders e))"]
    by (auto simp: star_to_hyperway_def next_star_def Let_def split: if_splits)
qed

lemma to_hyperway_ok:
  assumes "next_star e (surf_point (signal_to (w_variant t))) = Some q"
  shows "\<exists>hop s. star_to_hyperway u v e t = Some (Inr hop) \<and> uw_unwrap_from_hop hop = Inr t \<and>
           uw_to hop = Single s \<and> surf_point s = q"
proof -
  obtain to where "star_to_hyperway u v e t = Some (send_hop u v e t to)" "surf_point to = q"
    using assms by (rule to_hyperway_next)
  then show ?thesis using send_hop_ok[of u v e t to] send_hop_iff[of u v e t to] by auto
qed

text \<open>A transport leaves for exactly one star: the destination itself when it is this star or an
  adjacent one, else the only adjacent forwarder.  With no forwarder it is an error, with several the
  star panics; nothing else fails.  The hop carries the transport unchanged, with the agent of the
  hyperuser and full scope.\<close>

theorem to_hyperway_cases:
  "case star_to_hyperway u v e t of
     None \<Rightarrow> next_star e (surf_point (signal_to (w_variant t))) = None \<and> 2 \<le> length (forwarders e)
   | Some (Inl err) \<Rightarrow> next_star e (surf_point (signal_to (w_variant t))) = None \<and> forwarders e = []
   | Some (Inr hop) \<Rightarrow>
       uw_unwrap_from_hop hop = Inr t \<and> uw_agent hop = AgentHyperUser \<and> uw_scope hop = ScopeFull \<and>
       (\<exists>s. uw_to hop = Single s \<and> next_star e (surf_point (signal_to (w_variant t))) = Some (surf_point s))"
proof (cases "next_star e (surf_point (signal_to (w_variant t)))")
  case None
  then have "length (forwarders e) \<noteq> 1" "se_point e \<noteq> surf_point (signal_to (w_variant t))"
    "\<not> is_adjacent e (surf_point (signal_to (w_variant t)))"
    by (auto simp: next_star_def split: if_splits)
  moreover have "forwarders e \<noteq> [] \<Longrightarrow> length (forwarders e) \<noteq> 1 \<Longrightarrow> 2 \<le> length (forwarders e)"
    by (cases "length (forwarders e)") auto
  ultimately show ?thesis
    using None by (auto simp: star_to_hyperway_def Let_def)
next
  case (Some q)
  then obtain to where to: "star_to_hyperway u v e t = Some (send_hop u v e t to)" "surf_point to = q"
    by (rule to_hyperway_next)
  obtain h where h: "send_hop u v e t to = Inr (Signal h)" "w_agent h = AgentHyperUser" "w_scope h = ScopeFull"
    using send_hop_ok by blast
  then show ?thesis using to h send_hop_iff[OF h(1)] Some by auto
qed

section \<open>Facts: the network\<close>

text \<open>A hop that a star of the network relays to the next one.\<close>

inductive relays ::
  "(point \<rightharpoonup> star_env) \<Rightarrow> nat \<Rightarrow> point \<times> 'x ultrawave \<Rightarrow> point \<times> 'x ultrawave \<Rightarrow> bool" for net where
  relay_0: "relays net 0 x x"
| relay_Suc: "net p = Some e \<Longrightarrow> from_hyperway u v e injector w = Some (Inr (IntoHyperway hop)) \<Longrightarrow>
     uw_to hop = Single s \<Longrightarrow> relays net n (surf_point s, hop) y \<Longrightarrow> relays net (Suc n) (p, w) y"

lemma from_hyperway_relay:
  assumes "from_hyperway u v e injector w = Some (Inr (IntoHyperway hop))" "uw_unwrap_from_hop w = Inr t"
  shows "uw_unwrap_from_hop hop = Inr (wave_inc_hops t) \<and> w_hops t + 1 \<le> 255"
  using assms to_hyperway_sends[of u v e "wave_inc_hops t"]
  by (auto simp: from_hyperway_def star_forward_def Let_def wave_inc_hops_def linorder_not_less
      split: if_splits option.splits sum.splits)

lemma set_hops_set_hops [simp]: "wave_set_hops h (wave_set_hops h' w) = wave_set_hops h w"
  by (cases w) simp

lemma set_hops_self [simp]: "wave_set_hops (w_hops w) w = w"
  by (cases w) simp


lemma unat_max_16: "unat (- 1 :: 16 word) = 65535"
  by (simp add: unsigned_minus_1_eq_mask mask_eq_exp_minus_1)


text \<open>A network routes a point to a destination in a number of relays.\<close>

inductive routed :: "(point \<rightharpoonup> star_env) \<Rightarrow> point \<Rightarrow> nat \<Rightarrow> point \<Rightarrow> bool" for net dest where
  routed_0: "net dest = Some e \<Longrightarrow> se_point e = dest \<Longrightarrow> routed net dest 0 dest"
| routed_Suc: "net p = Some e \<Longrightarrow> se_point e = p \<Longrightarrow> p \<noteq> dest \<Longrightarrow> is_forwarder (se_kind e) \<Longrightarrow>
     next_star e dest = Some q \<Longrightarrow> routed net dest n q \<Longrightarrow> routed net dest (Suc n) p"

text \<open>What happens to a hop in the network, with the same uuids for every hop: the star it ends at and
  what that star injects.  The fuel bounds the number of stars.\<close>

fun run_hop :: "nat \<Rightarrow> uuid \<Rightarrow> uuid \<Rightarrow> (point \<rightharpoonup> star_env) \<Rightarrow> point \<Rightarrow> 'x ultrawave \<Rightarrow> (point \<times> 'x injection) option" where
  "run_hop 0 u v net p w = None"
| "run_hop (Suc n) u v net p w =
     (case net p of
        None \<Rightarrow> None
      | Some e \<Rightarrow>
          (case from_hyperway u v e (star_gravity e) w of
             Some (Inr (InjectWave i)) \<Rightarrow> Some (p, i)
           | Some (Inr (IntoHyperway hop)) \<Rightarrow>
               (case uw_to hop of Single s \<Rightarrow> run_hop n u v net (surf_point s) hop | _ \<Rightarrow> None)
           | _ \<Rightarrow> None))"

lemma unat_inc_le: "unat (w_hops t) + Suc n \<le> 255 \<Longrightarrow> unat (w_hops (wave_inc_hops t)) = Suc (unat (w_hops t))"
  by (cases "w_hops t = - 1") (auto simp: wave_inc_hops_def unat_inc unat_max_16)

lemma signal_to_inc [simp]: "w_variant (wave_inc_hops t) = w_variant t"
  by (simp add: wave_inc_hops_def)



text \<open>A network of two stars: a nexus next to a fold.\<close>

definition sample_star_point :: "string \<Rightarrow> point" where
  "sample_star_point s = \<lparr>route = RSStar s, segments = [PSSpace ''star'']\<rparr>"

definition sample_nexus :: star_env where
  "sample_nexus = sample_star KSpace\<lparr>se_point := sample_star_point ''a'', se_kind := StarNexus,
     se_adjacents := [(sample_star_point ''b'', \<lparr>stub_key = star_key_new ''c'' (star_handle_name ''b''),
                                              star_stub.stub_kind = StarFold\<rparr>)]\<rparr>"

definition sample_fold :: star_env where
  "sample_fold = sample_star KSpace\<lparr>se_point := sample_star_point ''b''\<rparr>"

definition sample_net :: "point \<rightharpoonup> star_env" where
  "sample_net = [sample_star_point ''a'' \<mapsto> sample_nexus, sample_star_point ''b'' \<mapsto> sample_fold]"

lemma sample_points [simp]: "sample_star_point s = sample_star_point s' \<longleftrightarrow> s = s'"
  by (simp add: sample_star_point_def)

lemma sample_routed: "routed sample_net (sample_star_point ''b'') 1 (sample_star_point ''a'')"
proof -
  have "routed sample_net (sample_star_point ''b'') 0 (sample_star_point ''b'')"
    by (rule routed_0[of _ _ sample_fold]) (simp_all add: sample_net_def sample_fold_def)
  then have "routed sample_net (sample_star_point ''b'') (Suc 0) (sample_star_point ''a'')"
    by (intro routed_Suc[where e = sample_nexus and q = "sample_star_point ''b''"])
      (simp_all add: sample_net_def sample_nexus_def next_star_def is_adjacent_def)
  then show ?thesis by simp
qed

abbreviation sample_transport :: "unit substance signal wave" where
  "sample_transport \<equiv> wave_new (Uuid ''t'') WKSignal
     (SignalV (Surface (sample_star_point ''b'') Core TopicNone)
        (dcore_set_body (SUltraWave (sample_ping root_point sample_space)) (dcore_new (Hyp HypTransport))))
     (Surface (sample_star_point ''c'') Gravity TopicNone)"

abbreviation sample_hop :: "unit ultrawave" where
  "sample_hop \<equiv> Signal (wave_new (Uuid ''h'') WKSignal
     (SignalV (Surface (sample_star_point ''a'') Core TopicNone)
        (dcore_set_body (SUltraWave (Signal sample_transport)) (dcore_new (Hyp HypHop))))
     (Surface (sample_star_point ''c'') Gravity TopicNone))"

lemma sample_hop_unwraps: "uw_unwrap_from_hop sample_hop = Inr sample_transport"
  by (simp add: uw_unwrap_from_hop_def signal_unwrap_from_hop_def dcore_new_def)


lemma sample_relay:
  "\<exists>hop s. from_hyperway (Uuid ''u'') (Uuid ''v'') sample_nexus (star_gravity sample_nexus) sample_hop =
      Some (Inr (IntoHyperway hop)) \<and> uw_to hop = Single s"
proof -
  have "next_star sample_nexus (surf_point (signal_to (w_variant (wave_inc_hops sample_transport)))) =
      Some (sample_star_point ''b'')"
    by (simp add: next_star_def is_adjacent_def sample_nexus_def)
  then obtain hop s where "star_to_hyperway (Uuid ''u'') (Uuid ''v'') sample_nexus (wave_inc_hops sample_transport) =
      Some (Inr hop)" "uw_to hop = Single s"
    using to_hyperway_ok by blast
  moreover have "is_forwarder (se_kind sample_nexus)" "sample_star_point ''b'' \<noteq> se_point sample_nexus"
    by (simp_all add: sample_nexus_def)
  ultimately show ?thesis
    using sample_hop_unwraps by (simp add: from_hyperway_def Let_def star_forward_def) (simp add: wave_inc_hops_def)
qed


section \<open>Facts: sharding\<close>

lemma transport_to_ok:
  "\<exists>t. transport_to u v e w star = Inr t \<and> signal_unwrap_from_transport t = Inr w \<and>
     signal_to (w_variant t) = with_layer (to_surface star) Core \<and> w_hops t = 0 \<and>
     w_from t = to_surface (se_point e) \<and> w_agent t = uw_agent w \<and> w_handling t = uw_handling w"
  by (simp add: transport_to_def wrap_in_transport_def dp_build_def dp_simps Let_def space_res_def
      signal_unwrap_from_transport_def)

text \<open>What a sharding action carries, and the star it is for.\<close>

fun shard_dest :: "star_env \<Rightarrow> 'x shard_action \<Rightarrow> point" where
  "shard_dest e (ShardInject i) = se_point e"
| "shard_dest e (ShardTransport t) = surf_point (signal_to (w_variant t))"

fun shard_wave :: "'x shard_action \<Rightarrow> 'x ultrawave option" where
  "shard_wave (ShardInject i) = Some (inj_wave i)"
| "shard_wave (ShardTransport t) = (case signal_unwrap_from_transport t of Inr w \<Rightarrow> Some w | Inl _ \<Rightarrow> None)"

lemma shard_one_ok:
  "\<exists>a. shard_one u v e w star = Inr a \<and> shard_dest e a = star \<and> shard_wave a = Some w"
  using transport_to_ok[of u v e w star] by (auto simp: shard_one_def star_transport_def injection_new_def)

lemma shard_ones_ok:
  "\<exists>as. res_map (\<lambda>(star, r). shard_one u v e (f r) star) xs = Inr as \<and>
        map (shard_dest e) as = map fst xs \<and> map shard_wave as = map (\<lambda>(star, r). Some (f r)) xs"
proof (induction xs)
  case (Cons x xs)
  obtain star r where x: "x = (star, r)" by (cases x)
  obtain a where "shard_one u v e (f r) star = Inr a" "shard_dest e a = star" "shard_wave a = Some (f r)"
    using shard_one_ok by blast
  with Cons x show ?case by auto
qed simp

text \<open>A ripple to the stars goes once to every adjacent star it has not visited and to no other,
  with its recipients kept and this star added to its history; a ripple to watchers goes nowhere, and
  one addressed to surfaces fails.\<close>

theorem ripples_go_to_unvisited_stars:
  "case ripple_to (w_variant r) of
     Stars \<Rightarrow> (\<exists>as. shard u v e located (Ripple r) = Some (Inr as) \<and>
        map (shard_dest e) as = filter (\<lambda>s. s \<notin> ripple_history (w_variant r)) (map fst (se_adjacents e)) \<and>
        (\<forall>a \<in> set as. \<exists>r'. shard_wave a = Some (Ripple r') \<and> w_id r' = w_id r \<and> ripple_to (w_variant r') = Stars \<and>
           ripple_history (w_variant r') = insert (se_point e) (ripple_history (w_variant r))))
   | Watchers _ \<Rightarrow> shard u v e located (Ripple r) = Some (Inr [])
   | _ \<Rightarrow> \<exists>err. shard u v e located (Ripple r) = Some (Inl err)"
proof (cases "ripple_to (w_variant r)")
  case Stars
  let ?f = "\<lambda>r :: (recipients, 'a substance) ripple wave.
    Ripple (wave_set_variant (ripple_add_history (se_point e) (w_variant r)) r)"
  let ?xs = "map (\<lambda>(star, rs). (star, ripple_set_to rs r))
     (filter (\<lambda>(star, _). star \<notin> ripple_history (w_variant r)) (map (\<lambda>(star, _). (star, Stars)) (se_adjacents e)))"
  obtain as where as: "res_map (\<lambda>(star, r). shard_one u v e (?f r) star) ?xs = Inr as"
    "map (shard_dest e) as = map fst ?xs" "map shard_wave as = map (\<lambda>(star, r). Some (?f r)) ?xs"
    using shard_ones_ok[of u v e ?f ?xs] by blast
  have "shard u v e located (Ripple r) = Some (Inr as)"
    using as(1) Stars by (simp add: shard_def shard_ripple_by_location_def)
  moreover have "map fst ?xs = filter (\<lambda>s. s \<notin> ripple_history (w_variant r)) (map fst (se_adjacents e))"
    by (induction "se_adjacents e") (auto simp: filter_map comp_def case_prod_beta)
  moreover have "\<exists>r'. shard_wave a = Some (Ripple r') \<and> w_id r' = w_id r \<and> ripple_to (w_variant r') = Stars \<and>
           ripple_history (w_variant r') = insert (se_point e) (ripple_history (w_variant r))" if "a \<in> set as" for a
  proof -
    have "shard_wave a \<in> set (map (\<lambda>(star, r). Some (?f r)) ?xs)"
      using that by (subst as(3)[symmetric]) simp
    then have "shard_wave a = Some (?f (ripple_set_to Stars r))" by auto
    then show ?thesis
      by (cases "w_variant r") (simp add: ripple_set_to_def)
  qed
  ultimately show ?thesis using as(2) Stars by (auto simp del: map_map)
qed (simp_all add: shard_def shard_ripple_by_location_def)

abbreviation sample_ripple :: "(recipients, unit substance) ripple wave" where
  "sample_ripple \<equiv> wave_new (Uuid ''r'') WKRipple (RippleV Stars (dcore_new (Hyp HypSearch)) BBNone {})
     (Surface (sample_star_point ''a'') Core TopicNone)"

lemma ripples_go_to_unvisited_stars_witness:
  "\<exists>as. shard (Uuid ''u'') (Uuid ''v'') sample_nexus (Inr \<lparr>loc_star = None, loc_host = None\<rparr>) (Ripple sample_ripple) =
      Some (Inr as) \<and> map (shard_dest sample_nexus) as = [sample_star_point ''b'']"
  using ripples_go_to_unvisited_stars[where r = sample_ripple and u = "Uuid ''u''" and v = "Uuid ''v''"
      and e = sample_nexus and located = "Inr \<lparr>loc_star = None, loc_host = None\<rparr>"]
  by (auto simp: sample_nexus_def)

end
