(* ===== verification/FieldLayer.thy ===== *)
theory FieldLayer
  imports Stars
begin

text \<open>
  Bind configurations (\<open>config/bind.rs\<close>, \<open>parse.rs\<close>), which select a pipeline for a directed wave, and
  the field layer (\<open>layer/field.rs\<close>), which runs it.  The matching of regular expressions \<open>rx\<close>, their
  captures \<open>cap\<close> and the path \<open>path\<close> of a uri belong to other packages and are arguments.
\<close>

section \<open>Bind configurations\<close>

datatype wave_direction = DirDirect | DirReflect

datatype ('p, 't) payload_block =
    DirectPattern "('p, 't) substance_pattern value_pattern"
  | ReflectPattern "('p, 't) substance_pattern value_pattern"

record ('p, 't) pipeline_step =
  step_entry :: wave_direction
  step_exit :: wave_direction
  step_blocks :: "('p, 't) payload_block list"

definition step_direct :: "('p, 't) pipeline_step" where
  "step_direct = \<lparr>step_entry = DirDirect, step_exit = DirDirect, step_blocks = []\<rparr>"

definition step_rtn :: "('p, 't) pipeline_step" where
  "step_rtn = \<lparr>step_entry = DirReflect, step_exit = DirReflect, step_blocks = []\<rparr>"

definition step_new :: "wave_direction \<Rightarrow> wave_direction \<Rightarrow> ('p, 't) pipeline_step" where
  "step_new entry ex = \<lparr>step_entry = entry, step_exit = ex, step_blocks = []\<rparr>"

datatype ('p, 't) pipeline_stop =
    StopCore
  | StopCall "('p, 't) call"
  | StopReflect
  | StopPoint 'p
  | StopErr "16 word" string

record ('p, 't) pipeline_segment =
  seg_step :: "('p, 't) pipeline_step"
  seg_stop :: "('p, 't) pipeline_stop"

type_synonym ('p, 't) pipeline = "('p, 't) pipeline_segment list"

fun pipeline_consume :: "('p, 't) pipeline \<Rightarrow> ('p, 't) pipeline_segment option \<times> ('p, 't) pipeline" where
  "pipeline_consume [] = (None, [])"
| "pipeline_consume (s # ss) = (Some s, ss)"

text \<open>Resolving, with \<open>res\<close> for the points: from variables to the context, or from the context.\<close>

fun block_to_resolved ::
  "('p \<Rightarrow> space_err + 'q) \<Rightarrow> ('p, 't) payload_block \<Rightarrow> space_err + ('q, 't) payload_block" where
  "block_to_resolved res (DirectPattern b) =
     res_bind (vp_modify (substance_pattern_to_resolved res) b) (\<lambda>b. Inr (DirectPattern b))"
| "block_to_resolved res (ReflectPattern b) =
     res_bind (vp_modify (substance_pattern_to_resolved res) b) (\<lambda>b. Inr (ReflectPattern b))"

definition block_var_to_resolved ::
  "('p \<Rightarrow> space_err + 'q) \<Rightarrow> ('q \<Rightarrow> space_err + 'r) \<Rightarrow> ('p, 't) payload_block \<Rightarrow> space_err + ('r, 't) payload_block" where
  "block_var_to_resolved res res' b = res_bind (block_to_resolved res b) (block_to_resolved res')"

definition step_to_resolved ::
  "('p \<Rightarrow> space_err + 'q) \<Rightarrow> ('p, 't) pipeline_step \<Rightarrow> space_err + ('q, 't) pipeline_step" where
  "step_to_resolved res s =
     res_bind (res_map (block_to_resolved res) (step_blocks s)) (\<lambda>blocks.
       Inr \<lparr>step_entry = step_entry s, step_exit = step_exit s, step_blocks = blocks\<rparr>)"

fun stop_to_resolved ::
  "('p \<Rightarrow> space_err + 'q) \<Rightarrow> ('p, 't) pipeline_stop \<Rightarrow> space_err + ('q, 't) pipeline_stop" where
  "stop_to_resolved res StopCore = Inr StopCore"
| "stop_to_resolved res (StopCall c) = res_bind (call_to_resolved res c) (\<lambda>c. Inr (StopCall c))"
| "stop_to_resolved res StopReflect = Inr StopReflect"
| "stop_to_resolved res (StopPoint p) = res_bind (res p) (\<lambda>p. Inr (StopPoint p))"
| "stop_to_resolved res (StopErr st msg) = Inr (StopErr st msg)"

definition segment_to_resolved ::
  "('p \<Rightarrow> space_err + 'q) \<Rightarrow> ('p, 't) pipeline_segment \<Rightarrow> space_err + ('q, 't) pipeline_segment" where
  "segment_to_resolved res s =
     res_bind (step_to_resolved res (seg_step s)) (\<lambda>st.
     res_bind (stop_to_resolved res (seg_stop s)) (\<lambda>sp. Inr \<lparr>seg_step = st, seg_stop = sp\<rparr>))"

definition pipeline_to_resolved ::
  "('p \<Rightarrow> space_err + 'q) \<Rightarrow> ('p, 't) pipeline \<Rightarrow> space_err + ('q, 't) pipeline" where
  "pipeline_to_resolved res p = res_map (segment_to_resolved res) p"

text \<open>Scopes: a selector, whose path is a regular expression, and a block.  The filters of a selector
  are not consulted when it matches.\<close>

record scope_filter =
  sf_name :: string
  sf_args :: "string option"

record 'n scope_selector =
  ss_name :: 'n
  ss_path :: string
  ss_filters :: "scope_filter list"

record ('n, 'b) scope_def =
  sc_selector :: "'n scope_selector"
  sc_block :: 'b

type_synonym ('p, 't) method_scope = "(wave_method value_pattern, ('p, 't) pipeline) scope_def"
type_synonym ('p, 't) wave_scope = "(method_kind value_pattern, ('p, 't) method_scope list) scope_def"
type_synonym ('p, 't) route_scope = "(string, ('p, 't) wave_scope list) scope_def"
type_synonym ('p, 't) bind_config = "('p, 't) route_scope list"

definition method_kind_is_match :: "method_kind \<Rightarrow> method_kind \<Rightarrow> check" where
  "method_kind_is_match self x = (if self = x then pass else refuse)"

definition route_scope_is_match ::
  "(string \<Rightarrow> string \<Rightarrow> bool) \<Rightarrow> (string \<Rightarrow> string) \<Rightarrow> string scope_selector \<Rightarrow> 'x directed \<Rightarrow> check" where
  "route_scope_is_match rx path s d =
     (if ss_name s \<noteq> ''Route'' then refuse
      else if rx (ss_path s) (path (dc_uri (dw_core d))) then pass else refuse)"

definition message_scope_is_match ::
  "(string \<Rightarrow> string \<Rightarrow> bool) \<Rightarrow> (string \<Rightarrow> string) \<Rightarrow> method_kind value_pattern scope_selector \<Rightarrow> 'x directed \<Rightarrow> check" where
  "message_scope_is_match rx path s d =
     res_bind (vp_is_match method_kind_is_match (ss_name s) (method_kind_of (dc_method (dw_core d)))) (\<lambda>_.
       if rx (ss_path s) (path (dc_uri (dw_core d))) then pass else refuse)"

definition method_scope_is_match ::
  "(string \<Rightarrow> string \<Rightarrow> bool) \<Rightarrow> (string \<Rightarrow> string) \<Rightarrow> wave_method value_pattern scope_selector \<Rightarrow> 'x directed \<Rightarrow> check" where
  "method_scope_is_match rx path s d =
     res_bind (vp_is_match method_is_match (ss_name s) (dc_method (dw_core d))) (\<lambda>_.
       if rx (ss_path s) (path (dc_uri (dw_core d))) then pass else refuse)"

definition route_scope_select ::
  "(string \<Rightarrow> string \<Rightarrow> bool) \<Rightarrow> (string \<Rightarrow> string) \<Rightarrow> ('p, 't) route_scope \<Rightarrow> 'x directed \<Rightarrow> ('p, 't) wave_scope list" where
  "route_scope_select rx path s d = filter (\<lambda>w. is_ok (message_scope_is_match rx path (sc_selector w) d)) (sc_block s)"

definition wave_scope_select ::
  "(string \<Rightarrow> string \<Rightarrow> bool) \<Rightarrow> (string \<Rightarrow> string) \<Rightarrow> ('p, 't) wave_scope \<Rightarrow> 'x directed \<Rightarrow> ('p, 't) method_scope list" where
  "wave_scope_select rx path s d = filter (\<lambda>m. is_ok (method_scope_is_match rx path (sc_selector m) d)) (sc_block s)"

text \<open>\<open>BindConfig::select\<close>: three nested loops that return at the first match.\<close>

fun select_method ::
  "(string \<Rightarrow> string \<Rightarrow> bool) \<Rightarrow> (string \<Rightarrow> string) \<Rightarrow> 'x directed \<Rightarrow> ('p, 't) method_scope list \<Rightarrow> ('p, 't) method_scope option" where
  "select_method rx path d [] = None"
| "select_method rx path d (m # ms) =
     (if is_ok (method_scope_is_match rx path (sc_selector m) d) then Some m else select_method rx path d ms)"

fun select_message ::
  "(string \<Rightarrow> string \<Rightarrow> bool) \<Rightarrow> (string \<Rightarrow> string) \<Rightarrow> 'x directed \<Rightarrow> ('p, 't) wave_scope list \<Rightarrow> ('p, 't) method_scope option" where
  "select_message rx path d [] = None"
| "select_message rx path d (w # ws) =
     (case (if is_ok (message_scope_is_match rx path (sc_selector w) d)
            then select_method rx path d (sc_block w) else None) of
        Some m \<Rightarrow> Some m
      | None \<Rightarrow> select_message rx path d ws)"

fun select_route ::
  "(string \<Rightarrow> string \<Rightarrow> bool) \<Rightarrow> (string \<Rightarrow> string) \<Rightarrow> 'x directed \<Rightarrow> ('p, 't) route_scope list \<Rightarrow> ('p, 't) method_scope option" where
  "select_route rx path d [] = None"
| "select_route rx path d (r # rs) =
     (case (if is_ok (route_scope_is_match rx path (sc_selector r) d)
            then select_message rx path d (sc_block r) else None) of
        Some m \<Rightarrow> Some m
      | None \<Rightarrow> select_route rx path d rs)"

definition bind_select ::
  "(string \<Rightarrow> string \<Rightarrow> bool) \<Rightarrow> (string \<Rightarrow> string) \<Rightarrow> ('p, 't) bind_config \<Rightarrow> 'x directed \<Rightarrow> space_err + ('p, 't) method_scope" where
  "bind_select rx path config d =
     (case select_route rx path d config of
        Some m \<Rightarrow> Inr m
      | None \<Rightarrow>
          Inl (Status 404 (''no route matches '' @ wave_kind_to_string (dw_kind d) @ ''<'' @
            method_to_string (dc_method (dw_core d)) @ ''>'' @ path (dc_uri (dw_core d)))))"

text \<open>\<open>RouteSelector\<close> looks at the method only; its topic and path are not consulted.\<close>

record route_selector =
  rs_topic :: "topic value_pattern option"
  rs_method :: "method_pattern value_pattern"
  rs_path :: string
  rs_filters :: "scope_filter list"

definition route_selector_any :: route_selector where
  "route_selector_any = \<lparr>rs_topic = None, rs_method = VPAny, rs_path = ''/.*'', rs_filters = []\<rparr>"

definition route_selector_from_method :: "method_pattern value_pattern \<Rightarrow> route_selector" where
  "route_selector_from_method m = \<lparr>rs_topic = None, rs_method = m, rs_path = ''/.*'', rs_filters = []\<rparr>"

definition route_selector_with_topic :: "topic \<Rightarrow> route_selector \<Rightarrow> route_selector" where
  "route_selector_with_topic t s = s\<lparr>rs_topic := Some (VPPattern t)\<rparr>"

definition route_selector_is_match :: "route_selector \<Rightarrow> 'x directed \<Rightarrow> check" where
  "route_selector_is_match s d = vp_is_match method_pattern_is_match (rs_method s) (dc_method (dw_core d))"

definition route_selector_to_string :: "route_selector \<Rightarrow> string" where
  "route_selector_to_string s = vp_to_string method_pattern_to_string (rs_method s)"

section \<open>Pipelines\<close>

text \<open>
  A running pipeline, what surrounds it, and what it sends: traversals to the next layer and waves to
  gravity.  \<open>pw_core\<close> and \<open>pw_gravity\<close> say what the exchange of a wave sent delivers (\<open>None\<close>: its
  sender was dropped); \<open>pw_res\<close>, \<open>pw_res'\<close> resolve the points of the pipeline; \<open>pw_uuid\<close> gives the
  uuid of the wave built with so many segments left.
\<close>

record ('p, 't, 'x) pipex =
  px_surface :: surface
  px_reflection :: "space_err + reflection"
  px_pipeline :: "('p, 't) pipeline"
  px_traversal :: "'x directed traversal"
  px_kind :: directed_kind
  px_method :: wave_method
  px_uri :: string
  px_body :: "'x substance"
  px_status :: "16 word"

record ('p, 'q, 'x) px_world =
  pw_star :: star_env
  pw_res :: "'p \<Rightarrow> space_err + 'q"
  pw_res' :: "'q \<Rightarrow> space_err + point"
  pw_core :: "'x directed traversal \<Rightarrow> 'x reflected_aggregate option"
  pw_gravity :: "'x directed \<Rightarrow> 'x reflected_aggregate option"
  pw_recv_err :: space_err
  pw_uuid :: "nat \<Rightarrow> uuid"

datatype 'x px_effect = PxTraverse "'x directed traversal" | PxGravity "'x ultrawave"
datatype 's px_outcome = PxOk 's | PxErr space_err | PxPanic

definition pipex_new :: "surface \<Rightarrow> 'x directed traversal \<Rightarrow> ('p, 't) pipeline \<Rightarrow> ('p, 't, 'x) pipex" where
  "pipex_new port t pipeline =
     (let d = tv_payload t
      in \<lparr>px_surface = port, px_reflection = dw_reflection d, px_pipeline = pipeline, px_traversal = t,
          px_kind = dw_directed_kind d, px_method = dc_method (dw_core d), px_uri = dc_uri (dw_core d),
          px_body = dc_body (dw_core d), px_status = 200\<rparr>)"

definition px_proto :: "uuid \<Rightarrow> ('p, 't, 'x) pipex \<Rightarrow> 'x directed_proto" where
  "px_proto u px =
     (let d = tv_payload (px_traversal px);
          p = (dp_of_kind u (px_kind px))\<lparr>dp_id := dw_id d\<rparr>;
          p = dp_set_via (px_surface px) p;
          p = dp_set_method (px_method px) p;
          p = dp_set_body (px_body px) p;
          p = dp_set_uri (px_uri px) p;
          p = dp_set_handling (dw_handling d) p;
          p = dp_set_agent (dw_agent d) p;
          p = dp_set_bounce_backs (dw_bounce_backs d) p;
          p = dp_set_scope (dw_scope d) p;
          p = dp_set_from (dw_from d) p;
          p = dp_set_history (dw_history d) p
      in p\<lparr>dp_track := dw_track d\<rparr>)"

text \<open>Reading an answer: the status is kept, the body only of a success.\<close>

definition px_answer :: "'x rcore \<Rightarrow> ('p, 't, 'x) pipex \<Rightarrow> ('p, 't, 'x) pipex px_outcome" where
  "px_answer core px =
     (let px = px\<lparr>px_status := status_as_u16 (rc_status core)\<rparr>
      in if status_is_success (rc_status core) then PxOk (px\<lparr>px_body := rc_body core\<rparr>)
         else (case rcore_to_err core of Some err \<Rightarrow> PxErr err | None \<Rightarrow> PxPanic))"

fun px_pong :: "space_err + 'x substance pong wave \<Rightarrow> ('p, 't, 'x) pipex \<Rightarrow> ('p, 't, 'x) pipex px_outcome" where
  "px_pong (Inl err) px = PxErr err"
| "px_pong (Inr pong) px = px_answer (pong_core (w_variant pong)) px"

fun px_echoes :: "space_err + 'x substance echo wave list \<Rightarrow> ('p, 't, 'x) pipex \<Rightarrow> ('p, 't, 'x) pipex px_outcome" where
  "px_echoes (Inl err) px = PxErr err"
| "px_echoes (Inr []) px = PxOk px"
| "px_echoes (Inr (echo # _)) px = px_answer (echo_core (w_variant echo)) px"

fun px_unit :: "space_err + unit \<Rightarrow> ('p, 't, 'x) pipex \<Rightarrow> ('p, 't, 'x) pipex px_outcome" where
  "px_unit (Inl err) px = PxErr err"
| "px_unit (Inr _) px = PxOk px"

text \<open>\<open>direct\<close>, through gravity, and \<open>traverse_to_next\<close>, to the next layer of the particle.\<close>

definition px_direct ::
  "uuid \<Rightarrow> ('p, 'q, 'x) px_world \<Rightarrow> 'x directed_proto \<Rightarrow> ('p, 't, 'x) pipex
   \<Rightarrow> 'x px_effect list \<times> ('p, 't, 'x) pipex px_outcome" where
  "px_direct v pw proto px =
     (let send = (\<lambda>proto (done :: (bool \<times> 'x reflected_aggregate option) \<Rightarrow> ('p, 't, 'x) pipex px_outcome).
            (case direct_start v (gravity_transmitter (pw_star pw)) proto of
               Inl err \<Rightarrow> ([], PxErr err)
             | Inr (d, waits) \<Rightarrow> ([PxGravity (dw_to_ultra d)], done (waits, pw_gravity pw d))))
      in case dp_kind proto of
           None \<Rightarrow> ([], PxPanic)
         | Some DKPing \<Rightarrow>
             send proto (\<lambda>(waits, a). px_pong (direct_finish (pw_recv_err pw) agg_to_pong waits a) px)
         | Some DKRipple \<Rightarrow>
             send (if dp_bounce_backs proto \<noteq> None then dp_set_bounce_backs (BBCount 1) proto else proto)
               (\<lambda>(waits, a). px_echoes (direct_finish (pw_recv_err pw) agg_to_echoes waits a) px)
         | Some DKSignal \<Rightarrow>
             send proto (\<lambda>(waits, a). px_unit (direct_finish (pw_recv_err pw) agg_to_unit waits a) px))"

definition px_traverse ::
  "('p, 'q, 'x) px_world \<Rightarrow> 'x directed traversal \<Rightarrow> ('p, 't, 'x) pipex
   \<Rightarrow> 'x px_effect list \<times> ('p, 't, 'x) pipex px_outcome" where
  "px_traverse pw t px =
     (let waits = (\<lambda>t :: 'x directed traversal. dw_bounce_backs (tv_payload t) \<noteq> BBNone)
      in case dw_directed_kind (tv_payload t) of
           DKPing \<Rightarrow>
             ([PxTraverse t], px_pong (direct_finish (pw_recv_err pw) agg_to_pong (waits t) (pw_core pw t)) px)
         | DKRipple \<Rightarrow>
             (let t = (case dw_set_bounce_backs (BBCount 1) (tv_payload t) of
                         Inr d \<Rightarrow> traversal_with t d | Inl _ \<Rightarrow> t)
              in ([PxTraverse t], px_echoes (direct_finish (pw_recv_err pw) agg_to_echoes (waits t) (pw_core pw t)) px))
         | DKSignal \<Rightarrow>
             ([PxTraverse t], px_unit (direct_finish (pw_recv_err pw) agg_to_unit (waits t) (pw_core pw t)) px))"

text \<open>\<open>execute_step\<close>: the patterns of the step on the body; matching a pattern panics.\<close>

fun px_blocks :: "('p, 'q, 'x) px_world \<Rightarrow> 'x substance \<Rightarrow> ('p, 't) payload_block list \<Rightarrow> unit px_outcome" where
  "px_blocks pw body [] = PxOk ()"
| "px_blocks pw body (b # bs) =
     (case block_var_to_resolved (pw_res pw) (pw_res' pw) b of
        Inl err \<Rightarrow> PxErr err
      | Inr b' \<Rightarrow>
          (case vp_is_match_panic substance_pattern_is_match
                  (case b' of DirectPattern p \<Rightarrow> p | ReflectPattern p \<Rightarrow> p) body of
             None \<Rightarrow> PxPanic
           | Some (Inl _) \<Rightarrow> PxErr (Status 500 ''Empty Error'')
           | Some (Inr _) \<Rightarrow> px_blocks pw body bs))"

definition execute_stop ::
  "uuid \<Rightarrow> ('p, 'q, 'x) px_world \<Rightarrow> ('p, 't) pipeline_stop \<Rightarrow> ('p, 't, 'x) pipex
   \<Rightarrow> 'x px_effect list \<times> ('p, 't, 'x) pipex px_outcome" where
  "execute_stop v pw stop px =
     (case stop of
        StopCore \<Rightarrow>
          (case dp_build v (dp_set_to (Single (with_layer (px_surface px) Core)) (px_proto v px)) of
             Inl err \<Rightarrow> ([], PxErr err)
           | Inr d \<Rightarrow> px_traverse pw (traversal_with (px_traversal px) d) px)
      | StopReflect \<Rightarrow>
          (case px_reflection px of
             Inl err \<Rightarrow> ([], PxErr err)
           | Inr r \<Rightarrow>
               ([PxGravity (rw_to_ultra (reflection_make v r
                   (rcore_set_body (px_body px) (rcore_status (px_status px))) (tv_to (px_traversal px))))], PxOk px))
      | StopCall _ \<Rightarrow> ([], PxPanic)
      | StopPoint p \<Rightarrow>
          (case res_bind (pw_res pw p) (pw_res' pw) of
             Inl err \<Rightarrow> ([], PxErr err)
           | Inr q \<Rightarrow> px_direct v pw (dp_set_to (Single (with_layer (to_surface q) Core)) (px_proto v px)) px)
      | StopErr _ _ \<Rightarrow> ([], PxPanic))"

text \<open>\<open>execute\<close> runs the segments in turn; \<open>start\<close> answers an error, when the wave can be answered.\<close>

function px_execute ::
  "('p, 'q, 'x) px_world \<Rightarrow> ('p, 't, 'x) pipex \<Rightarrow> 'x px_effect list \<times> ('p, 't, 'x) pipex px_outcome" where
  "px_execute pw px =
     (case px_pipeline px of
        [] \<Rightarrow> ([], PxOk px)
      | s # ss \<Rightarrow>
          (case px_blocks pw (px_body px) (step_blocks (seg_step s)) of
             PxPanic \<Rightarrow> ([], PxPanic)
           | PxErr err \<Rightarrow> ([], PxErr err)
           | PxOk _ \<Rightarrow>
               (case execute_stop (pw_uuid pw (length ss)) pw (seg_stop s) (px\<lparr>px_pipeline := ss\<rparr>) of
                  (es, PxOk px') \<Rightarrow>
                    (case px_execute pw (px'\<lparr>px_pipeline := ss\<rparr>) of (es', out) \<Rightarrow> (es @ es', out))
                | (es, PxErr err) \<Rightarrow> (es, PxErr err)
                | (es, PxPanic) \<Rightarrow> (es, PxPanic))))"
  by pat_completeness auto
termination by (relation "measure (\<lambda>(pw, px). length (px_pipeline px))") auto

declare px_execute.simps [simp del]

definition px_start ::
  "uuid \<Rightarrow> ('p, 'q, 'x) px_world \<Rightarrow> ('p, 't, 'x) pipex \<Rightarrow> 'x px_effect list \<times> unit px_outcome" where
  "px_start v pw px =
     (case px_execute pw px of
        (es, PxOk _) \<Rightarrow> (es, PxOk ())
      | (es, PxPanic) \<Rightarrow> (es, PxPanic)
      | (es, PxErr err) \<Rightarrow>
          (case px_reflection px of
             Inl _ \<Rightarrow> (es, PxOk ())
           | Inr r \<Rightarrow>
               (case as_reflected_core err of
                  None \<Rightarrow> (es, PxPanic)
                | Some core \<Rightarrow> (es @ [PxGravity (rw_to_ultra (reflection_make v r core (px_surface px)))], PxOk ()))))"

section \<open>The field layer\<close>

record ('p, 't) field_bind =
  fb_config :: "('p, 't) bind_config"
  fb_point :: point

text \<open>\<open>Field::bind\<close>: the bind of the property of the addressee, or that of the driver for the kind of
  this particle; \<open>get_props\<close>, \<open>driver_bind\<close> and \<open>art_bind\<close> are the registry, the drivers and the
  artifacts.\<close>

definition field_bind_of ::
  "star_env \<Rightarrow> (point \<Rightarrow> cosmic_err + properties) \<Rightarrow> (kind \<Rightarrow> point \<Rightarrow> space_err + ('p, 't) field_bind)
   \<Rightarrow> (string \<Rightarrow> space_err + point) \<Rightarrow> (point \<Rightarrow> space_err + ('p, 't) field_bind) \<Rightarrow> point \<Rightarrow> point
   \<Rightarrow> (space_err + ('p, 't) field_bind) option" where
  "field_bind_of e get_props driver_bind from_str art_bind port to =
     (case se_record e port of
        Inl err \<Rightarrow> map_option Inl (cosmic_err_to_space err)
      | Inr record \<Rightarrow>
          (case get_props to of
             Inl err \<Rightarrow> map_option Inl (cosmic_err_to_space err)
           | Inr properties \<Rightarrow>
               Some (case properties ''bind'' of
                 None \<Rightarrow> driver_bind (stub_kind (det_stub (rec_details record))) to
               | Some bind \<Rightarrow> res_bind (from_str (prop_value bind)) art_bind)))"

definition default_pipeline :: "('p, 't) pipeline" where
  "default_pipeline =
     [\<lparr>seg_step = step_direct, seg_stop = StopCore\<rparr>, \<lparr>seg_step = step_rtn, seg_stop = StopReflect\<rparr>]"

text \<open>The environment of a pipeline: the captures of the route, if it has one, and the bind itself.\<close>

definition field_env ::
  "point \<Rightarrow> (string \<rightharpoonup> string) option \<Rightarrow> point \<Rightarrow> (('x substance, 'b) env \<Rightarrow> 'r) \<Rightarrow> (space_err + 'r) option" where
  "field_env port captures bind k =
     (case to_bundle bind of
        Some (Inr bundle) \<Rightarrow>
          (let e = env_new port;
               e = (case captures of
                      Some m \<Rightarrow> env_add_var_resolver e
                        (\<lambda>i. case m i of Some text \<Rightarrow> Inr (SText text) | None \<Rightarrow> Inl NotFound)
                    | None \<Rightarrow> e)
           in Some (Inr (k (env_set_var (env_set_var e ''doc.bundle'' (SPoint bundle)) ''doc'' (SPoint bind)))))
      | _ \<Rightarrow> None)"

text \<open>\<open>directed_core_bound\<close>: the pipeline the wave is put through, with its environment.\<close>

definition field_core_bound ::
  "(string \<Rightarrow> string \<Rightarrow> bool) \<Rightarrow> (string \<Rightarrow> string \<Rightarrow> (string \<rightharpoonup> string) option) \<Rightarrow> (string \<Rightarrow> string)
   \<Rightarrow> ('p, 't) field_bind \<Rightarrow> surface \<Rightarrow> 'x directed traversal
   \<Rightarrow> (space_err + ('p, 't, 'x) pipex \<times> ('x substance, 'b) env) option" where
  "field_core_bound rx cap path bind port t =
     (let d = tv_payload t
      in case bind_select rx path (fb_config bind) d of
           Inr rt \<Rightarrow>
             (case cap (ss_path (sc_selector rt)) (path (dc_uri (dw_core d))) of
                None \<Rightarrow> Some (Inl (err_of_string ''no regex captures''))
              | Some captures \<Rightarrow>
                  field_env (surf_point port) (Some captures) (fb_point bind)
                    (\<lambda>env. (pipex_new port t (sc_block rt), env)))
         | Inl err \<Rightarrow>
             (case dc_method (dw_core d) of
                Cmd _ \<Rightarrow>
                  field_env (surf_point port) None (fb_point bind) (\<lambda>env. (pipex_new port t default_pipeline, env))
              | _ \<Rightarrow>
                  if err_status err = 404 then
                    map_option Inl (space_err_new 404 (''no route matches: '' @ dcore_to_selection_str path (dw_core d) @
                      '' on surface '' @ surface_to_string (tv_to t) @ '' and bind '' @ point_to_string (fb_point bind) @
                      '' from '' @ surface_to_string (dw_from d)))
                  else Some (Inl err)))"

datatype ('p, 't, 'x, 'b) field_out =
    FieldPipe "('p, 't, 'x) pipex" "('x substance, 'b) env"
  | FieldNext "'x ultrawave traversal"
  | FieldReflected "'x reflected"
  | FieldErr space_err

text \<open>The visit of the field layer: it only overrides the way of a directed wave to the core.\<close>

definition field_visit ::
  "(string \<Rightarrow> string \<Rightarrow> bool) \<Rightarrow> (string \<Rightarrow> string \<Rightarrow> (string \<rightharpoonup> string) option) \<Rightarrow> (string \<Rightarrow> string)
   \<Rightarrow> (point \<Rightarrow> (space_err + ('p, 't) field_bind) option) \<Rightarrow> surface \<Rightarrow> 'x ultrawave traversal
   \<Rightarrow> ('p, 't, 'x, 'b) field_out option" where
  "field_visit rx cap path bind port t =
     (case layer_visit Field t of
        None \<Rightarrow> None
      | Some (DirectedCoreBound d) \<Rightarrow>
          (case bind (surf_point (tv_to d)) of
             None \<Rightarrow> None
           | Some (Inl err) \<Rightarrow> Some (FieldErr err)
           | Some (Inr b) \<Rightarrow>
               (case field_core_bound rx cap path b port d of
                  None \<Rightarrow> None
                | Some (Inl err) \<Rightarrow> Some (FieldErr err)
                | Some (Inr (px, env)) \<Rightarrow> Some (FieldPipe px env)))
      | Some (DeliverDirected _) \<Rightarrow>
          Some (FieldErr (server_error ''this layer does not handle directed messages''))
      | Some (DeliverReflected r) \<Rightarrow> Some (FieldReflected (tv_payload r))
      | Some v \<Rightarrow> map_option FieldNext (default_next v))"

section \<open>Facts: selecting a route\<close>

definition bind_methods :: "('p, 't) bind_config \<Rightarrow> (('p, 't) route_scope \<times> ('p, 't) wave_scope \<times> ('p, 't) method_scope) list" where
  "bind_methods config =
     concat (map (\<lambda>r. concat (map (\<lambda>w. map (\<lambda>m. (r, w, m)) (sc_block w)) (sc_block r))) config)"

definition scopes_match ::
  "(string \<Rightarrow> string \<Rightarrow> bool) \<Rightarrow> (string \<Rightarrow> string) \<Rightarrow> 'x directed
   \<Rightarrow> ('p, 't) route_scope \<times> ('p, 't) wave_scope \<times> ('p, 't) method_scope \<Rightarrow> bool" where
  "scopes_match rx path d = (\<lambda>(r, w, m).
     is_ok (route_scope_is_match rx path (sc_selector r) d) \<and>
     is_ok (message_scope_is_match rx path (sc_selector w) d) \<and>
     is_ok (method_scope_is_match rx path (sc_selector m) d))"

lemma find_append: "List.find P (xs @ ys) = (case List.find P xs of Some x \<Rightarrow> Some x | None \<Rightarrow> List.find P ys)"
  by (induction xs) auto

lemma find_none: "(\<And>x. x \<in> set xs \<Longrightarrow> \<not> P x) \<Longrightarrow> List.find P xs = None"
  by (simp add: find_None_iff)

lemma select_method_find:
  "is_ok (route_scope_is_match rx path (sc_selector r) d) \<Longrightarrow>
   is_ok (message_scope_is_match rx path (sc_selector w) d) \<Longrightarrow>
   select_method rx path d ms = map_option (snd \<circ> snd) (List.find (scopes_match rx path d) (map (\<lambda>m. (r, w, m)) ms))"
  by (induction ms) (auto simp: scopes_match_def)

lemma select_message_find:
  "is_ok (route_scope_is_match rx path (sc_selector r) d) \<Longrightarrow>
   select_message rx path d ws =
     map_option (snd \<circ> snd) (List.find (scopes_match rx path d) (concat (map (\<lambda>w. map (\<lambda>m. (r, w, m)) (sc_block w)) ws)))"
proof (induction ws)
  case (Cons w ws)
  show ?case
  proof (cases "is_ok (message_scope_is_match rx path (sc_selector w) d)")
    case True
    then show ?thesis
      using Cons select_method_find[of rx path r d w "sc_block w"]
      by (auto simp: find_append split: option.splits)
  next
    case False
    then have "List.find (scopes_match rx path d) (map (\<lambda>m. (r, w, m)) (sc_block w)) = None"
      by (intro find_none) (auto simp: scopes_match_def)
    with False Cons show ?thesis by (simp add: find_append)
  qed
qed simp

lemma select_route_find:
  "select_route rx path d config = map_option (snd \<circ> snd) (List.find (scopes_match rx path d) (bind_methods config))"
proof (induction config)
  case (Cons r rs)
  show ?case
  proof (cases "is_ok (route_scope_is_match rx path (sc_selector r) d)")
    case True
    then show ?thesis
      using Cons select_message_find[OF True, of "sc_block r"]
      by (auto simp: find_append bind_methods_def split: option.splits)
  next
    case False
    then have "List.find (scopes_match rx path d)
        (concat (map (\<lambda>w. map (\<lambda>m. (r, w, m)) (sc_block w)) (sc_block r))) = None"
      by (intro find_none) (auto simp: scopes_match_def)
    with False Cons show ?thesis by (simp add: find_append bind_methods_def)
  qed
qed (simp add: bind_methods_def)

text \<open>C26. A bind configuration selects, of its methods in the order it lists them, the first whose
  route, message kind and method all match the wave; when there is none the wave is not found.\<close>

theorem bind_select_takes_the_first_match:
  "bind_select rx path config d =
     (case List.find (scopes_match rx path d) (bind_methods config) of
        Some (r, w, m) \<Rightarrow> Inr m
      | None \<Rightarrow> Inl (Status 404 (''no route matches '' @ wave_kind_to_string (dw_kind d) @ ''<'' @
            method_to_string (dc_method (dw_core d)) @ ''>'' @ path (dc_uri (dw_core d)))))"
  by (auto simp: bind_select_def select_route_find split: option.splits)


section \<open>Facts: what a pipeline sends\<close>

fun px_answers :: "'x px_effect list \<Rightarrow> 'x ultrawave list" where
  "px_answers [] = []"
| "px_answers (PxGravity w # es) = (if uw_is_reflected w then w # px_answers es else px_answers es)"
| "px_answers (PxTraverse _ # es) = px_answers es"

lemma px_answers_append [simp]: "px_answers (es @ es') = px_answers es @ px_answers es'"
  by (induction es rule: px_answers.induct) auto

text \<open>An answer made with a reflection.\<close>

definition made_with :: "reflection \<Rightarrow> 'x ultrawave \<Rightarrow> bool" where
  "made_with r w \<longleftrightarrow> (\<exists>u core from. w = rw_to_ultra (reflection_make u r core from))"

lemma made_withI [simp]: "made_with r (rw_to_ultra (reflection_make u r core from))"
  by (auto simp: made_with_def)

lemma made_is_reflected [simp]: "uw_is_reflected (rw_to_ultra r)"
  by (cases r) auto

lemma directed_not_reflected [simp]: "\<not> uw_is_reflected (dw_to_ultra d)"
  by (cases d) auto

text \<open>Running a stop leaves the traversal and the reflection of a pipeline alone.\<close>

definition keeps :: "('p, 't, 'x) pipex \<Rightarrow> ('p, 't, 'x) pipex px_outcome \<Rightarrow> bool" where
  "keeps px out \<longleftrightarrow>
     (\<forall>px'. out = PxOk px' \<longrightarrow> px_reflection px' = px_reflection px \<and> px_traversal px' = px_traversal px \<and>
        px_surface px' = px_surface px \<and> px_pipeline px' = px_pipeline px)"

lemma keeps_answer: "keeps px (px_answer core px)" "keeps px (px_pong r px)" "keeps px (px_echoes r' px)" "keeps px (px_unit r'' px)"
proof -
  show a: "keeps px (px_answer core px)" for core
    by (auto simp: keeps_def px_answer_def Let_def split: if_splits option.splits)
  show "keeps px (px_pong r px)" using a by (cases r) (auto simp: keeps_def)
  show "keeps px (px_echoes r' px)"
    using a by (cases "(r', px)" rule: px_echoes.cases) (auto simp: keeps_def)
  show "keeps px (px_unit r'' px)" by (cases r'') (auto simp: keeps_def)
qed

lemma keeps_trivial [simp]: "keeps px (PxErr err)" "keeps px PxPanic" "keeps px (PxOk px)"
  by (simp_all add: keeps_def)

lemma keeps_sent: "keeps px out \<Longrightarrow> out = PxOk px' \<Longrightarrow>
    px_reflection px' = px_reflection px \<and> px_traversal px' = px_traversal px \<and>
    px_surface px' = px_surface px \<and> px_pipeline px' = px_pipeline px"
  by (simp add: keeps_def)

lemma px_direct_facts:
  "px_answers (fst (px_direct v pw proto px)) = [] \<and> keeps px (snd (px_direct v pw proto px))"
  by (auto simp: px_direct_def Let_def keeps_answer
      split: option.splits directed_kind.splits sum.splits)

lemma px_traverse_facts:
  "px_answers (fst (px_traverse pw t px)) = [] \<and> keeps px (snd (px_traverse pw t px))"
  by (auto simp: px_traverse_def Let_def keeps_answer split: directed_kind.splits sum.splits)

lemma execute_stop_facts:
  "keeps px (snd (execute_stop v pw stop px)) \<and>
   (case px_answers (fst (execute_stop v pw stop px)) of
      [] \<Rightarrow> True
    | [w] \<Rightarrow> stop = StopReflect \<and> (\<exists>r. px_reflection px = Inr r \<and> made_with r w)
    | _ \<Rightarrow> False)"
proof (cases stop)
  case StopCore
  then show ?thesis
    by (auto simp: execute_stop_def px_traverse_facts split: sum.splits)
next
  case StopReflect
  then show ?thesis by (auto simp: execute_stop_def made_with_def split: sum.splits)
next
  case (StopPoint p)
  then show ?thesis
    by (auto simp: execute_stop_def px_direct_facts split: sum.splits)
qed (simp_all add: execute_stop_def)

fun reflect_stops :: "('p, 't) pipeline \<Rightarrow> nat" where
  "reflect_stops [] = 0"
| "reflect_stops (s # ss) = (if seg_stop s = StopReflect then Suc (reflect_stops ss) else reflect_stops ss)"

lemma px_execute_facts:
  "px_execute pw px = (es, out) \<Longrightarrow>
     (\<forall>w \<in> set (px_answers es). \<exists>r. px_reflection px = Inr r \<and> made_with r w) \<and>
     length (px_answers es) \<le> reflect_stops (px_pipeline px) \<and>
     (\<forall>px'. out = PxOk px' \<longrightarrow> px_reflection px' = px_reflection px)"
proof (induction pw px arbitrary: es out rule: px_execute.induct)
  case (1 pw px)
  show ?case
  proof (cases "px_pipeline px")
    case Nil
    then show ?thesis using 1(2) by (auto simp: px_execute.simps[of pw px])
  next
    case (Cons s ss)
    let ?blocks = "px_blocks pw (px_body px) (step_blocks (seg_step s))"
    let ?stop = "execute_stop (pw_uuid pw (length ss)) pw (seg_stop s) (px\<lparr>px_pipeline := ss\<rparr>)"
    show ?thesis
    proof (cases ?blocks)
      case (PxOk u)
      obtain es1 out1 where st: "?stop = (es1, out1)" by (cases ?stop)
      have f: "keeps (px\<lparr>px_pipeline := ss\<rparr>) out1"
        "case px_answers es1 of [] \<Rightarrow> True
           | [w] \<Rightarrow> seg_stop s = StopReflect \<and> (\<exists>r. px_reflection px = Inr r \<and> made_with r w) | _ \<Rightarrow> False"
        using execute_stop_facts[of "px\<lparr>px_pipeline := ss\<rparr>" "pw_uuid pw (length ss)" pw "seg_stop s"] st by (auto split: list.splits)
      then have a1: "\<forall>w \<in> set (px_answers es1). \<exists>r. px_reflection px = Inr r \<and> made_with r w"
        and l1: "length (px_answers es1) + reflect_stops ss \<le> reflect_stops (s # ss)"
        by (auto split: list.splits)
      show ?thesis
      proof (cases out1)
        case ok: (PxOk px')
        obtain es2 out2 where e2: "px_execute pw (px'\<lparr>px_pipeline := ss\<rparr>) = (es2, out2)"
          by (cases "px_execute pw (px'\<lparr>px_pipeline := ss\<rparr>)")
        have IH: "(\<forall>w \<in> set (px_answers es2). \<exists>r. px_reflection px' = Inr r \<and> made_with r w) \<and>
            length (px_answers es2) \<le> reflect_stops ss \<and> (\<forall>px''. out2 = PxOk px'' \<longrightarrow> px_reflection px'' = px_reflection px')"
          using 1(1)[OF Cons PxOk st[symmetric] ok e2] by simp
        have r: "px_reflection px' = px_reflection px"
          using keeps_sent[OF f(1) ok] by simp
        have "es = es1 @ es2" "out = out2"
          using 1(2) Cons PxOk st ok e2 by (simp_all add: px_execute.simps[of pw px])
        then show ?thesis using IH r a1 l1 Cons by auto
      qed (use 1(2) Cons PxOk st a1 l1 in \<open>auto simp: px_execute.simps[of pw px]\<close>)
    qed (use 1(2) Cons in \<open>auto simp: px_execute.simps[of pw px]\<close>)
  qed
qed

lemma made_with_reflection:
  "dw_reflection d = Inr r \<Longrightarrow> made_with r w \<Longrightarrow>
   \<exists>a. w = rw_to_ultra a \<and> rw_reflection_of a = dw_id d \<and> rw_to a = reflect_to d"
  by (cases d) (auto simp: made_with_def reflection_make_def pong_new_def echo_new_def)

text \<open>C16. Whatever a pipeline runs into, every reflection it sends answers the wave it was started for
  and goes to the surface that wave came through, and there is at most one for each reflect stop and
  one more for an error; a signal is never answered.\<close>

theorem pipelines_answer_their_wave:
  assumes "px_start v pw (pipex_new port t pl) = (es, out)"
  shows "length (px_answers es) \<le> reflect_stops pl + 1 \<and>
         (\<forall>w \<in> set (px_answers es). \<not> dw_is_signal (tv_payload t) \<and>
            (\<exists>a. w = rw_to_ultra a \<and> rw_reflection_of a = dw_id (tv_payload t) \<and> rw_to a = reflect_to (tv_payload t)))"
proof -
  let ?px = "pipex_new port t pl"
  obtain es1 out1 where e: "px_execute pw ?px = (es1, out1)" by (cases "px_execute pw ?px")
  have r: "px_reflection ?px = dw_reflection (tv_payload t)" by (simp add: pipex_new_def Let_def)
  have f: "(\<forall>w \<in> set (px_answers es1). \<exists>r. dw_reflection (tv_payload t) = Inr r \<and> made_with r w)"
    "length (px_answers es1) \<le> reflect_stops pl"
    using px_execute_facts[OF e] by (simp_all add: pipex_new_def Let_def)
  have "(\<forall>w \<in> set (px_answers es). \<exists>r. dw_reflection (tv_payload t) = Inr r \<and> made_with r w) \<and>
        length (px_answers es) \<le> length (px_answers es1) + 1"
    using assms f(1) r
    by (auto simp: px_start_def e split: px_outcome.splits sum.splits option.splits)
  moreover have "dw_reflection (tv_payload t) = Inr r \<Longrightarrow> \<not> dw_is_signal (tv_payload t)" for r
    by (cases "tv_payload t") auto
  ultimately show ?thesis
    using f(2) made_with_reflection[of "tv_payload t"] by fastforce
qed


lemma rcore_to_err_500: "\<not> status_is_success (rc_status c) \<Longrightarrow> \<exists>m. rcore_to_err c = Some (Status 500 m)"
  by (cases "rc_body c") (auto simp: rcore_to_err_def to_cosmic_err_eq err_of_string_def)

lemma pipex_new_sel [simp]:
  "px_surface (pipex_new port t pl) = port" "px_traversal (pipex_new port t pl) = t"
  "px_reflection (pipex_new port t pl) = dw_reflection (tv_payload t)" "px_pipeline (pipex_new port t pl) = pl"
  "px_kind (pipex_new port t pl) = dw_directed_kind (tv_payload t)" "px_status (pipex_new port t pl) = 200"
  by (simp_all add: pipex_new_def Let_def)

lemma traversal_with_payload [simp]: "tv_payload (traversal_with t w) = w"
  by (cases t) simp

lemma px_proto_ping:
  assumes "px_kind px = DKPing"
  shows "\<exists>d. dp_build v (dp_set_to (Single s) (px_proto u px)) = Inr (DPing d) \<and> ping_to (w_variant d) = s \<and>
     w_via d = Some (px_surface px) \<and> w_from d = dw_from (tv_payload (px_traversal px)) \<and> w_id d = WaveId v WKPing \<and>
     w_agent d = dw_agent (tv_payload (px_traversal px)) \<and> w_scope d = dw_scope (tv_payload (px_traversal px))"
  using assms by (simp add: px_proto_def dp_build_def dp_simps dp_set_uri_def dp_set_history_def Let_def)

text \<open>A ping put through the default pipeline goes to the core of the particle once, as a new wave
  that comes from the sender and returns through the field, and is answered once: with the status and
  body of the answer of the core when that is a success, and with status 500 whatever else it is.\<close>

theorem default_pipeline_answers_a_ping:
  fixes pw :: "('p, 'q, 'x) px_world" and t :: "'x directed traversal"
  assumes "tv_payload t = DPing w" "\<And>t'. pw_core pw t' = Some (AggSingle (RPong p))"
  shows "\<exists>d a. px_start v pw (pipex_new port t (default_pipeline :: ('p, 't) pipeline)) =
           ([PxTraverse (traversal_with t (DPing d)), PxGravity (rw_to_ultra a)], PxOk ()) \<and>
         ping_to (w_variant d) = with_layer port Core \<and> w_from d = w_from w \<and> w_via d = Some port \<and>
         w_id d = WaveId (pw_uuid pw 1) WKPing \<and>
         rw_reflection_of a = w_id w \<and> rw_to a = reflect_to (tv_payload t) \<and>
         (if status_is_success (rc_status (pong_core (w_variant p)))
          then rc_status (rw_core a) = rc_status (pong_core (w_variant p)) \<and>
               rc_body (rw_core a) = rc_body (pong_core (w_variant p)) \<and> rw_from a = tv_to t
          else rc_status (rw_core a) = status 500 \<and> rw_from a = port)"
proof -
  let ?px = "(pipex_new port t default_pipeline)\<lparr>px_pipeline := tl default_pipeline\<rparr> :: ('p, 't, 'x) pipex"
  have k: "px_kind ?px = DKPing" "px_surface ?px = port" "px_traversal ?px = t"
    "px_reflection ?px = Inr (Reflection RKPong (reflect_to (tv_payload t)) (Single (ping_to (w_variant w))) (w_id w) (w_track w))"
    using assms(1) by simp_all
  obtain d where d: "dp_build (pw_uuid pw 1) (dp_set_to (Single (with_layer port Core)) (px_proto (pw_uuid pw 1) ?px)) =
      Inr (DPing d)" "ping_to (w_variant d) = with_layer port Core" "w_via d = Some port" "w_from d = w_from w"
    "w_id d = WaveId (pw_uuid pw 1) WKPing"
    using px_proto_ping[OF k(1), of "pw_uuid pw 1" "with_layer port Core" "pw_uuid pw 1"] k(2,3) assms(1) by auto
  let ?core = "pong_core (w_variant p)"
  have stop: "execute_stop (pw_uuid pw 1) pw StopCore ?px =
      ([PxTraverse (traversal_with t (DPing d))], px_answer ?core ?px)"
    using d(1) k(2,3) assms(2) by (simp add: execute_stop_def px_traverse_def direct_finish_def)
  show ?thesis
  proof (cases "status_is_success (rc_status ?core)")
    case True
    let ?px' = "?px\<lparr>px_status := status_as_u16 (rc_status ?core), px_body := rc_body ?core\<rparr>"
    let ?a = "reflection_make (pw_uuid pw 0) (Reflection RKPong (reflect_to (tv_payload t)) (Single (ping_to (w_variant w)))
       (w_id w) (w_track w)) (rcore_set_body (rc_body ?core) (rcore_status (status_as_u16 (rc_status ?core)))) (tv_to t) :: 'x reflected"
    have "px_start v pw (pipex_new port t (default_pipeline :: ('p, 't) pipeline)) =
        ([PxTraverse (traversal_with t (DPing d)), PxGravity (rw_to_ultra ?a)], PxOk ())"
      using stop True k
      by (simp add: px_start_def px_execute.simps default_pipeline_def step_direct_def step_rtn_def
          px_answer_def Let_def execute_stop_def[of _ _ StopReflect])
    moreover have "rc_status (rw_core ?a) = rc_status ?core"
      by (simp add: reflection_make_def pong_new_def rcore_status_def status_as_u16_def)
    moreover have "rc_body (rw_core ?a) = rc_body ?core \<and> rw_from ?a = tv_to t \<and> rw_to ?a = reflect_to (tv_payload t) \<and>
        rw_reflection_of ?a = w_id w"
      by (simp add: reflection_make_def pong_new_def)
    ultimately show ?thesis using True d(2-) by (intro exI[of _ d] exI[of _ ?a]) simp
  next
    case False
    then obtain m where m: "rcore_to_err ?core = Some (Status 500 m)" using rcore_to_err_500 by blast
    let ?a = "reflection_make v (Reflection RKPong (reflect_to (tv_payload t)) (Single (ping_to (w_variant w)))
       (w_id w) (w_track w)) (rcore_of_err (Status 500 m)) port :: 'x reflected"
    have "px_start v pw (pipex_new port t (default_pipeline :: ('p, 't) pipeline)) =
        ([PxTraverse (traversal_with t (DPing d)), PxGravity (rw_to_ultra ?a)], PxOk ())"
      using stop False m k
      by (simp add: error_cores_agree(4) px_start_def px_execute.simps default_pipeline_def step_direct_def step_rtn_def
          px_answer_def Let_def)
    moreover have "rc_status (rw_core ?a) = status 500 \<and> rw_from ?a = port \<and> rw_to ?a = reflect_to (tv_payload t) \<and>
        rw_reflection_of ?a = w_id w"
      by (simp add: reflection_make_def pong_new_def)
    ultimately show ?thesis using False d(2-) by (intro exI[of _ d] exI[of _ ?a]) simp
  qed
qed


definition sample_world :: "16 word \<Rightarrow> (point, point, unit) px_world" where
  "sample_world st =
     \<lparr>pw_star = sample_star KSpace, pw_res = Inr, pw_res' = Inr,
      pw_core = (\<lambda>_. Some (AggSingle (RPong (wave_new (Uuid ''p'') WKPong
         (PongV (Surface root_point Core TopicNone) Stars (rcore_status st) (WaveId (Uuid ''u'') WKPing))
         (Surface root_point Core TopicNone))))),
      pw_gravity = (\<lambda>_. None), pw_recv_err = Status 500 '''', pw_uuid = (\<lambda>n. Uuid (nat_to_string n))\<rparr>"

abbreviation sample_core_bound :: "wave_method \<Rightarrow> unit directed traversal" where
  "sample_core_bound m \<equiv> Traversal sample_space
     (DPing (wave_new (Uuid ''u'') WKPing (PingV (Surface sample_space Core TopicNone) (dcore_new m))
        (Surface root_point Core TopicNone)))
     (sample_rec sample_space None) Field (Some Core) sample_space ToCore (Surface sample_space Core TopicNone)"

lemma default_pipeline_answers_a_ping_witness:
  "\<exists>es a. px_start (Uuid ''v'') (sample_world 404)
     (pipex_new (Surface sample_space Field TopicNone) (sample_core_bound (Cmd CmdInit))
        (default_pipeline :: (point, unit) pipeline)) = (es @ [PxGravity (rw_to_ultra a)], PxOk ()) \<and>
     rc_status (rw_core a) = status 500"
proof -
  let ?t = "sample_core_bound (Cmd CmdInit)"
  obtain w where w: "tv_payload ?t = DPing w" by simp
  obtain p where p: "pw_core (sample_world 404) t' = Some (AggSingle (RPong p))" "rc_status (pong_core (w_variant p)) = status 404"
    for t' by (simp add: sample_world_def rcore_status_def)
  have f: "\<not> status_is_success (status 404)" by (simp add: status_is_success_def)
  obtain d a where "px_start (Uuid ''v'') (sample_world 404)
     (pipex_new (Surface sample_space Field TopicNone) ?t (default_pipeline :: (point, unit) pipeline)) =
       ([PxTraverse (traversal_with ?t (DPing d)), PxGravity (rw_to_ultra a)], PxOk ())"
     "rc_status (rw_core a) = status 500"
    using default_pipeline_answers_a_ping[OF w p(1), of "Uuid ''v''" "Surface sample_space Field TopicNone",
        where ?'t = unit] f p(2) by auto
  then show ?thesis by (intro exI[of _ "[PxTraverse (traversal_with ?t (DPing d))]"] exI[of _ a]) simp
qed

lemma vp_modify_any_iff: "vp_modify f p = Inr VPAny \<longleftrightarrow> p = VPAny"
  by (cases p) (auto simp: res_bind_Inr_iff)

lemma px_blocks_ok_iff:
  "px_blocks pw body bs = PxOk () \<longleftrightarrow> list_all (\<lambda>b. b = DirectPattern VPAny \<or> b = ReflectPattern VPAny) bs"
proof (induction bs)
  case (Cons b bs)
  show ?case
    using Cons
    by (cases b)
      (auto simp: block_var_to_resolved_def res_bind_Inr_iff vp_is_match_panic_pass_iff vp_modify_any_iff
        split: sum.splits option.splits payload_block.splits)
qed simp

text \<open>A segment is only left through a stop that is implemented: when its step carries a pattern, or
  its stop is a call or an error, nothing is sent from it on, and when its stop is a call or an error
  behind an open step the run panics, so that the wave gets no answer at all.\<close>

theorem unimplemented_segments_send_nothing:
  assumes "seg_stop s = StopCall c \<or> seg_stop s = StopErr st m \<or>
     \<not> list_all (\<lambda>b. b = DirectPattern VPAny \<or> b = ReflectPattern VPAny) (step_blocks (seg_step s))"
  shows "(let (es, out) = px_execute pw (pipex_new port t (s # ss)) in es = [] \<and> (\<forall>px. out \<noteq> PxOk px)) \<and>
     (list_all (\<lambda>b. b = DirectPattern VPAny \<or> b = ReflectPattern VPAny) (step_blocks (seg_step s)) \<longrightarrow>
        px_start v pw (pipex_new port t (s # ss)) = ([], PxPanic))"
proof -
  let ?px = "pipex_new port t (s # ss)"
  let ?open = "list_all (\<lambda>b. b = DirectPattern VPAny \<or> b = ReflectPattern VPAny) (step_blocks (seg_step s))"
  show ?thesis
  proof (cases ?open)
    case True
    then have "px_execute pw ?px = ([], PxPanic)"
      using assms px_blocks_ok_iff[of pw "px_body ?px" "step_blocks (seg_step s)"]
      by (auto simp: px_execute.simps[of pw ?px] execute_stop_def)
    then show ?thesis using True by (simp add: px_start_def)
  next
    case False
    then have "px_blocks pw (px_body ?px) (step_blocks (seg_step s)) \<noteq> PxOk ()"
      using px_blocks_ok_iff by blast
    then show ?thesis
      using False by (cases "px_blocks pw (px_body ?px) (step_blocks (seg_step s))")
        (auto simp: px_execute.simps[of pw ?px])
  qed
qed

lemma unimplemented_segments_send_nothing_witness:
  "px_start (Uuid ''v'') (sample_world 200) (pipex_new (Surface sample_space Field TopicNone) (sample_core_bound (Cmd CmdInit))
     [\<lparr>seg_step = step_direct, seg_stop = StopErr 404 ''gone''\<rparr> :: (point, unit) pipeline_segment]) = ([], PxPanic)"
  using unimplemented_segments_send_nothing[of "\<lparr>seg_step = step_direct, seg_stop = StopErr 404 ''gone''\<rparr> :: (point, unit) pipeline_segment" _ 404 "''gone''"
      "sample_world 200" "Surface sample_space Field TopicNone" "sample_core_bound (Cmd CmdInit)" "[]" "Uuid ''v''"]
  by (simp add: step_direct_def)

section \<open>Facts: the field layer\<close>

text \<open>A wave on its way to the core for which the bind has no route is put through the default
  pipeline when its method is a command; otherwise the visit of the field ends in an error with status
  404 and nothing is sent, the sender included.\<close>

theorem unrouted_waves_are_dropped_unless_commands:
  assumes "layer_visit Field t = Some (DirectedCoreBound d)" "bind (surf_point (tv_to d)) = Some (Inr b)"
    "select_route rx path (tv_payload d) (fb_config b) = None" "to_bundle (fb_point b) = Some (Inr bundle)"
  shows "case dc_method (dw_core (tv_payload d)) of
           Cmd _ \<Rightarrow> \<exists>env. field_visit rx cap path bind port t = Some (FieldPipe (pipex_new port d default_pipeline) env)
         | _ \<Rightarrow> \<exists>m. field_visit rx cap path bind port t = Some (FieldErr (Status 404 m))"
  using assms
  by (auto simp: field_visit_def field_core_bound_def bind_select_def field_env_def space_err_new_def Let_def
      split: wave_method.splits)

abbreviation sample_bind :: "(point, unit) field_bind" where
  "sample_bind \<equiv> \<lparr>fb_config = [], fb_point = \<lparr>route = RSThis, segments = [PSVersion (Version ''1.0.0'')]\<rparr>\<rparr>"

lemma unrouted_waves_are_dropped_unless_commands_witness:
  "\<exists>m. (field_visit (\<lambda>_ _. True) (\<lambda>_ _. None) (\<lambda>s. s) (\<lambda>_. Some (Inr sample_bind))
      (Surface sample_space Field TopicNone) (wrap_directed (sample_core_bound (Http HttpGet)))
      :: (point, unit, unit, unit) field_out option) = Some (FieldErr (Status 404 m))"
proof -
  have v: "layer_visit Field (wrap_directed (sample_core_bound (Http HttpGet))) =
      Some (DirectedCoreBound (sample_core_bound (Http HttpGet)))"
    by (simp add: layer_visit_def wrap_directed_def tv_is_directed_def tv_is_reflected_def unwrap_directed_def)
  have b: "to_bundle (fb_point sample_bind) = Some (Inr (fb_point sample_bind))"
    by (simp add: to_bundle.simps)
  show ?thesis
    using unrouted_waves_are_dropped_unless_commands[OF v, of "\<lambda>_. Some (Inr sample_bind)" sample_bind "\<lambda>_ _. True"
        "\<lambda>s. s" "fb_point sample_bind" "\<lambda>_ _. None" "Surface sample_space Field TopicNone", where ?'d = unit] b
    by (simp add: dcore_new_def)
qed

lemma pipelines_answer_their_wave_witness:
  "\<exists>es out. px_start (Uuid ''v'') (sample_world 404)
     (pipex_new (Surface sample_space Field TopicNone) (sample_core_bound (Cmd CmdInit))
        (default_pipeline :: (point, unit) pipeline)) = (es, out) \<and> length (px_answers es) \<le> 2 \<and>
     (\<forall>w \<in> set (px_answers es). \<exists>a. w = rw_to_ultra a \<and> rw_reflection_of a = WaveId (Uuid ''u'') WKPing)"
proof -
  let ?p = "pipex_new (Surface sample_space Field TopicNone) (sample_core_bound (Cmd CmdInit))
        (default_pipeline :: (point, unit) pipeline)"
  obtain es out where e: "px_start (Uuid ''v'') (sample_world 404) ?p = (es, out)" by (cases "px_start (Uuid ''v'') (sample_world 404) ?p")
  have "reflect_stops (default_pipeline :: (point, unit) pipeline) = 1"
    by (simp add: default_pipeline_def)
  then show ?thesis using pipelines_answer_their_wave[OF e] e by auto
qed

end
