(* ===== verification/Shells.thy ===== *)
theory Shells
  imports FieldLayer
begin

text \<open>
  The handlers the macros generate from the routes of an implementation (\<open>cosmic-macros\<close>), and the shell
  layer (\<open>layer/shell.rs\<close>): the requests of a particle, the command line sessions it opens under topics
  of their own, and the execution of raw commands.
\<close>

section \<open>Generated handlers\<close>

text \<open>One route: the input is read from the body; the result goes back as a core, an error as the core
  that carries it.  \<open>None\<close> is the panic of a status that is none.\<close>

definition result_bounce :: "('r \<Rightarrow> 'x rcore) \<Rightarrow> space_err + 'r \<Rightarrow> 'x rcore bounce option" where
  "result_bounce into r =
     (case r of Inr a \<Rightarrow> Some (Reflected (into a)) | Inl err \<Rightarrow> map_option Reflected (as_reflected_core err))"

definition route_call ::
  "('x substance \<Rightarrow> space_err + 'i) \<Rightarrow> ('x root_ctx \<Rightarrow> 'i \<Rightarrow> 'x rcore bounce option) \<Rightarrow> 'x root_ctx \<Rightarrow> 'x rcore bounce option" where
  "route_call read call ctx =
     (case read (dc_body (dw_core (ctx_wave ctx))) of
        Inr i \<Rightarrow> call ctx i
      | Inl err \<Rightarrow>
          (case ctx_wave ctx of
             DSignal _ \<Rightarrow> Some Absorbed
           | _ \<Rightarrow> Some (Reflected (rcore_of_err err))))"

type_synonym 'x route_table = "(route_selector \<times> ('x root_ctx \<Rightarrow> 'x rcore bounce option)) list"

text \<open>\<open>handle\<close>: the first route whose selector matches; a bounce is answered when no route is.\<close>

fun handler_handle :: "uuid \<Rightarrow> (string \<Rightarrow> string) \<Rightarrow> 'x route_table \<Rightarrow> 'x root_ctx \<Rightarrow> 'x rcore bounce option" where
  "handler_handle u path [] ctx =
     (if dc_method (dw_core (ctx_wave ctx)) = Cmd CmdBounce then Some (Reflected rcore_ok)
      else Some (bounce_core (ctx_not_found u path ctx)))"
| "handler_handle u path ((sel, call) # routes) ctx =
     (if is_ok (route_selector_is_match sel (ctx_wave ctx)) then call ctx else handler_handle u path routes ctx)"

definition handler_select :: "'x route_table \<Rightarrow> 'x directed \<Rightarrow> bool" where
  "handler_select routes d \<longleftrightarrow>
     dc_method (dw_core d) = Cmd CmdBounce \<or> (\<exists>(sel, _) \<in> set routes. is_ok (route_selector_is_match sel d))"

section \<open>Sessions\<close>

text \<open>A session, under its port; it answers to the surface it was made for.\<close>

datatype ('v, 'b) cli_session =
  CliSession (cli_source: surface_selector) (cli_env: "('v, 'b) env") (cli_port: surface)

type_synonym ('v, 'b) topics = "surface \<rightharpoonup> surface_selector \<times> ('v, 'b) cli_session"

definition new_session ::
  "uuid \<Rightarrow> 'x root_ctx \<Rightarrow> ('v, 'b) topics \<Rightarrow> (space_err + surface) \<times> ('v, 'b) topics" where
  "new_session u ctx topics =
     (let from = dw_from (ctx_wave ctx); to = ctx_to ctx
      in if surf_point from \<noteq> surf_point to then
           (Inl (forbidden ''cli sessions can only be created from within the same Point''), topics)
         else (let port = with_layer (with_topic to (TopicUuid u)) Shell;
                   session = CliSession (surface_into_selector from) (env_new (surf_point to)) port
               in (Inr port, topics(port \<mapsto> (cli_source session, session)))))"

section \<open>Commands\<close>

text \<open>A raw command is a line and the files transferred with it.  \<open>parse\<close> and \<open>resolve\<close> read the line
  and its variables; \<open>with_state\<close> sets the state of a command that creates, and is \<open>None\<close> for others;
  \<open>wrap\<close> makes a command part of a substance.  The files are put into a copy of the environment which is not used.\<close>

record 'b transfer =
  tf_id :: string
  tf_content :: 'b

record 'b raw_command =
  rc_line :: string
  rc_transfers :: "'b transfer list"

definition command_env :: "'b transfer list \<Rightarrow> ('v, 'b) env \<Rightarrow> ('v, 'b) env" where
  "command_env transfers env = foldl (\<lambda>env t. env_set_file env (tf_id t) (tf_content t)) env transfers"

definition execute_start ::
  "uuid \<Rightarrow> (string \<Rightarrow> space_err + 'c) \<Rightarrow> ('c \<Rightarrow> ('v, 8 word list) env \<Rightarrow> space_err + 'd)
   \<Rightarrow> ('d \<Rightarrow> ('x substance state_src \<Rightarrow> 'd) option) \<Rightarrow> ('d \<Rightarrow> 'x)
   \<Rightarrow> ('v, 8 word list) env \<Rightarrow> 8 word list raw_command \<Rightarrow> space_err + 'x directed_proto" where
  "execute_start u parse resolve with_state wrap env raw =
     res_bind (parse (rc_line raw)) (\<lambda>command.
     res_bind (resolve command env) (\<lambda>command.
     res_bind
       (case with_state command of
          Some put \<Rightarrow>
            (case rc_transfers raw of
               [] \<Rightarrow> Inr command
             | [t] \<Rightarrow> Inr (put (StateSubstance (SBin (tf_content t))))
             | _ \<Rightarrow> Inl (err_of_string ''create cannot handle more than one state transfer''))
        | None \<Rightarrow> Inr command) (\<lambda>command.
       Inr (dp_set_to (Single (to_surface global_exec)) (dp_from_core u (dcore_of_command (wrap command)))))))"

definition execute_finish :: "space_err + 'x substance pong wave \<Rightarrow> space_err + 'x rcore" where
  "execute_finish answer = res_bind answer (\<lambda>pong. Inr (pong_core (w_variant pong)))"

text \<open>\<open>exec\<close> runs a command under a topic of its own, with the environment of the session: what is sent
  is sent from that port by the transmitter of the shell.\<close>

definition exec_port :: "uuid \<Rightarrow> ('v, 'b) cli_session \<Rightarrow> surface" where
  "exec_port u session = with_topic (cli_port session) (TopicUuid u)"

definition exec_transmitter :: "surface \<Rightarrow> transmitter \<Rightarrow> transmitter" where
  "exec_transmitter port tx = push_from port tx"

section \<open>The shell layer\<close>

record shell =
  sh_point :: point
  sh_fabric :: "wave_id \<rightharpoonup> 16 word"

definition shell_new :: "point \<Rightarrow> shell" where
  "shell_new p = \<lparr>sh_point = p, sh_fabric = Map.empty\<rparr>"

definition shell_surface :: "shell \<Rightarrow> surface" where
  "shell_surface sh = with_layer (to_surface (sh_point sh)) Shell"

text \<open>A request from within the particle, at the shell or inside it, is noted.\<close>

definition shell_note :: "'x directed \<Rightarrow> shell \<Rightarrow> shell" where
  "shell_note d sh =
     (if surf_point (dw_from d) = surf_point (shell_surface sh) \<and>
         ordinal (surf_layer (dw_from d)) \<ge> ordinal (surf_layer (shell_surface sh))
      then sh\<lparr>sh_fabric := (sh_fabric sh)(dw_id d \<mapsto> 1)\<rparr> else sh)"

definition shell_transmitter :: "'x directed traversal \<Rightarrow> transmitter" where
  "shell_transmitter t =
     transmitter_new\<lparr>tr_from := Fill (with_topic (with_layer (dw_from (tv_payload t)) Shell) (surf_topic (tv_to t)))\<rparr>"

text \<open>A wave without a topic is for the shell itself, any other for the handler of its topic.  What comes
  back is injected at the shell; unwrapping the reflection of a signal panics.\<close>

definition shell_deliver_directed ::
  "uuid \<Rightarrow> ('x root_ctx \<Rightarrow> 'x rcore bounce option) \<Rightarrow> (('v, 'b) cli_session \<Rightarrow> 'x root_ctx \<Rightarrow> 'x rcore bounce option)
   \<Rightarrow> ('v, 'b) topics \<Rightarrow> 'x directed traversal \<Rightarrow> shell \<Rightarrow> ((space_err + 'x injection option) \<times> shell) option" where
  "shell_deliver_directed u own session topics t sh =
     (let d = tv_payload t;
          sh = shell_note d sh;
          ctx = \<lparr>ctx_to = shell_surface sh, ctx_wave = d\<rparr>;
          bounce =
            (if surf_topic (tv_to t) = TopicNone then map_option Inr (own ctx)
             else (case find_topic topics (tv_to t) (dw_from d) of
                     None \<Rightarrow> Some (Inl (err_of_string ''expecting topic''))
                   | Some (Inl err) \<Rightarrow> Some (Inl err)
                   | Some (Inr s) \<Rightarrow> map_option Inr (session s ctx)))
      in case bounce of
           None \<Rightarrow> None
         | Some (Inl err) \<Rightarrow> Some (Inl err, sh)
         | Some (Inr Absorbed) \<Rightarrow> Some (Inr None, sh)
         | Some (Inr (Reflected core)) \<Rightarrow>
             (case dw_reflection d of
                Inl _ \<Rightarrow> None
              | Inr reflection \<Rightarrow>
                  Some (Inr (Some (injection_new (shell_surface sh)
                    (rw_to_ultra (reflection_make u reflection core (shell_surface sh))))), sh)))"

section \<open>Facts\<close>

lemma no_route_handles:
  assumes "\<forall>r \<in> set routes. \<not> is_ok (route_selector_is_match (fst r) (ctx_wave ctx))"
  shows "handler_handle u path routes ctx =
    (if dc_method (dw_core (ctx_wave ctx)) = Cmd CmdBounce then Some (Reflected rcore_ok)
     else Some (bounce_core (ctx_not_found u path ctx)))"
  using assms by (induction routes) auto

text \<open>A generated handler answers every ping and ripple none of its routes is for: a bounce with
  success, and anything else with 404.\<close>

theorem unrouted_requests_are_answered:
  assumes "\<forall>r \<in> set routes. \<not> is_ok (route_selector_is_match (fst r) d)"
    "dw_reflection d = Inr reflection"
  shows "\<exists>core. handler_handle u path routes \<lparr>ctx_to = to, ctx_wave = d\<rparr> = Some (Reflected core) \<and>
    status_as_u16 (rc_status core) = (if dc_method (dw_core d) = Cmd CmdBounce then 200 else 404) \<and>
    handler_select routes d = (dc_method (dw_core d) = Cmd CmdBounce)"
proof -
  have s: "handler_select routes d = (dc_method (dw_core d) = Cmd CmdBounce)"
    using assms(1) by (auto simp: handler_select_def)
  have "\<exists>core. bounce_core (ctx_not_found u path \<lparr>ctx_to = to, ctx_wave = d\<rparr>) = Reflected core \<and>
      status_as_u16 (rc_status core) = 404"
    using assms(2)
    by (cases d) (auto simp: ctx_not_found_def ctx_err_def ctx_answer_def Let_def rcore_fail_def status_or_500_def
        status_from_u16_def status_as_u16_def pong_new_def echo_new_def)
  then show ?thesis
    using s no_route_handles[of routes "\<lparr>ctx_to = to, ctx_wave = d\<rparr>" u path] assms(1)
    by (auto simp: rcore_ok_def rcore_ok_body_def rcore_new_def status_as_u16_def status_default_def)
qed

definition may_use_session :: "surface \<Rightarrow> surface \<Rightarrow> bool" where
  "may_use_session owner source \<longleftrightarrow>
     surf_point source = surf_point owner \<and> surf_layer source = surf_layer owner \<and> surf_topic owner \<noteq> TopicNot \<and>
     (surf_topic source = surf_topic owner \<or> surf_topic owner = TopicNone \<or> surf_topic owner = TopicAny)"


text \<open>Files transferred with a command that creates nothing never matter: whatever files come with the
  same line, the same request is sent.\<close>

theorem transferred_files_do_not_matter:
  assumes "rc_line raw = rc_line raw'"
    "\<And>c d. parse (rc_line raw) = Inr c \<Longrightarrow> resolve c env = Inr d \<Longrightarrow> with_state d = None"
  shows "execute_start u parse resolve with_state wrap env raw = execute_start u parse resolve with_state wrap env raw'"
proof (cases "parse (rc_line raw)")
  case (Inr c)
  then show ?thesis using assms by (cases "resolve c env") (auto simp: execute_start_def)
qed (use assms(1) in \<open>simp add: execute_start_def\<close>)

abbreviation sample_bounce :: "point \<Rightarrow> unit directed" where
  "sample_bounce p \<equiv> DPing (wave_new (Uuid ''u'') WKPing (PingV (Surface p Shell TopicNone) (dcore_new (Cmd CmdBounce)))
     (Surface p Core TopicNone))"

lemma unrouted_requests_are_answered_witness:
  "\<exists>core. handler_handle (Uuid ''v'') (\<lambda>p. p) [] \<lparr>ctx_to = Surface root_point Shell TopicNone, ctx_wave = sample_bounce root_point\<rparr> =
     Some (Reflected core) \<and> status_as_u16 (rc_status core) = 200"
proof -
  obtain r where r: "dw_reflection (sample_bounce root_point) = Inr r" by (simp add: reflect_to_def)
  show ?thesis
    using unrouted_requests_are_answered[OF _ r, of "[]" "Uuid ''v''" "\<lambda>p. p" "Surface root_point Shell TopicNone"]
    by (auto simp: dcore_new_def)
qed


lemma transferred_files_do_not_matter_witness:
  "execute_start (Uuid ''u'') Inr (\<lambda>c _. Inr c) (\<lambda>_. None) (\<lambda>_. ()) (env_new root_point :: (unit, 8 word list) env)
     \<lparr>rc_line = ''ls'', rc_transfers = [\<lparr>tf_id = ''a'', tf_content = []\<rparr>]\<rparr> =
   (execute_start (Uuid ''u'') Inr (\<lambda>c _. Inr c) (\<lambda>_. None) (\<lambda>_. ()) (env_new root_point :: (unit, 8 word list) env)
     \<lparr>rc_line = ''ls'', rc_transfers = []\<rparr> :: space_err + unit directed_proto)"
  by (rule transferred_files_do_not_matter) simp_all

end
