(* ===== verification/Wrangles.thy ===== *)
theory Wrangles
  imports Stars "HOL-Library.Multiset"
begin

text \<open>
  How stars find each other and share out particles (\<open>driver/star.rs\<close>, \<open>star.rs\<close>): discoveries, the
  round-robin selector over the nearest stars, the wrangles of a star, the search that floods the
  forwarders, and the handlers of a star for searches, provisions and assignments.
\<close>

section \<open>Discoveries in order\<close>

datatype star_pair = StarPair (sp_a: star_key) (sp_b: star_key)

definition star_pair_new :: "star_key \<Rightarrow> star_key \<Rightarrow> star_pair" where
  "star_pair_new a b = (if a < b then StarPair a b else StarPair b a)"

text \<open>\<open>not\<close>: the other star of the pair.\<close>

definition star_pair_not :: "star_pair \<Rightarrow> star_key \<Rightarrow> star_key" where
  "star_pair_not p this = (if sp_a p = this then sp_b p else sp_a p)"

datatype star_discovery = StarDiscovery (sd_pair: star_pair) (sd_discovery: discovery)

definition sd_hops :: "star_discovery \<Rightarrow> 16 word" where "sd_hops d = dsc_hops (sd_discovery d)"
definition sd_key :: "star_discovery \<Rightarrow> star_key" where "sd_key d = dsc_star_key (sd_discovery d)"

text \<open>The order of discoveries: by hops, then by the pair, whose order is derived.\<close>

definition sd_rank :: "star_discovery \<Rightarrow> 16 word \<times> star_key \<times> star_key" where
  "sd_rank d = (sd_hops d, sp_a (sd_pair d), sp_b (sd_pair d))"

datatype ordering = OrdLess | OrdEqual | OrdGreater

definition ord_cmp :: "'a::linorder \<Rightarrow> 'a \<Rightarrow> ordering" where
  "ord_cmp x y = (if x < y then OrdLess else if x = y then OrdEqual else OrdGreater)"

definition star_pair_cmp :: "star_pair \<Rightarrow> star_pair \<Rightarrow> ordering" where
  "star_pair_cmp p q =
     (if sp_a p \<noteq> sp_a q then ord_cmp (sp_a p) (sp_a q) else ord_cmp (sp_b p) (sp_b q))"

definition star_discovery_cmp :: "star_discovery \<Rightarrow> star_discovery \<Rightarrow> ordering" where
  "star_discovery_cmp d e =
     (if sd_hops d \<noteq> sd_hops e then ord_cmp (sd_hops d) (sd_hops e)
      else star_pair_cmp (sd_pair d) (sd_pair e))"

definition sort_discoveries :: "star_discovery list \<Rightarrow> star_discovery list" where
  "sort_discoveries ds = sort_key sd_rank ds"

section \<open>The round-robin selector\<close>

text \<open>The index is a \<open>usize\<close>, of 64 bits.\<close>

record round_robin =
  rr_kind :: kind_selector
  rr_stars :: "star_discovery list"
  rr_index :: "64 word"
  rr_step :: nat

definition rr_new :: "kind_selector \<Rightarrow> round_robin" where
  "rr_new kind = \<lparr>rr_kind = kind, rr_stars = [], rr_index = 0, rr_step = 0\<rparr>"

text \<open>The loop of \<open>sort\<close> counts the stars before the hops grow; it starts with hops \<open>-1\<close>.\<close>

fun step_loop :: "star_discovery list \<Rightarrow> int \<Rightarrow> nat \<Rightarrow> nat" where
  "step_loop [] far step = step"
| "step_loop (d # ds) far step =
     (if far < 0 then step_loop ds (uint (sd_hops d)) (step + 1)
      else if uint (sd_hops d) > far then step
      else step_loop ds far (step + 1))"

definition rr_sort :: "round_robin \<Rightarrow> round_robin" where
  "rr_sort r =
     (let stars = sort_discoveries (rr_stars r)
      in r\<lparr>rr_stars := stars, rr_step := step_loop stars (-1) 0\<rparr>)"

text \<open>\<open>wrangle\<close>; \<open>None\<close> is the panic of a remainder by zero, or of the text of a selector.\<close>

definition rr_wrangle :: "round_robin \<Rightarrow> ((space_err + star_key) \<times> round_robin) option" where
  "rr_wrangle r =
     (let err = map_option (\<lambda>text. err_of_string (''cannot find wrangle for kind: '' @ text)) (kind_selector_to_string (rr_kind r))
      in if rr_stars r = [] then map_option (\<lambda>err. (Inl err, r)) err
         else (let r = r\<lparr>rr_index := rr_index r + 1\<rparr>
               in if rr_step r = 0 then None
                  else (let index = unat (rr_index r) mod rr_step r
                        in if index < length (rr_stars r) then Some (Inr (sd_key (rr_stars r ! index)), r)
                           else map_option (\<lambda>err. (Inl err, r)) err)))"

section \<open>The wrangles of a star\<close>

text \<open>A concurrent map from selectors; the order in which it is walked is an argument of \<open>find\<close>.\<close>

type_synonym wrangles = "kind_selector \<rightharpoonup> round_robin"

definition wrangles_find :: "kind_selector list \<Rightarrow> wrangles \<Rightarrow> kind \<Rightarrow> kind_selector option" where
  "wrangles_find order ws kind = List.find (\<lambda>sel. ws sel \<noteq> None \<and> kind_selector_matches sel kind) order"

definition add_discovery :: "star_discovery \<Rightarrow> wrangles \<Rightarrow> wrangles" where
  "add_discovery d ws =
     (\<lambda>kind. if kind \<in> dsc_kinds (sd_discovery d) then
               Some (case ws kind of
                       None \<Rightarrow> rr_sort ((rr_new kind)\<lparr>rr_stars := [d]\<rparr>)
                     | Some r \<Rightarrow> rr_sort (r\<lparr>rr_stars := rr_stars r @ [d]\<rparr>))
             else ws kind)"

definition wrangles_add :: "star_discovery list \<Rightarrow> wrangles \<Rightarrow> wrangles" where
  "wrangles_add ds ws = foldl (\<lambda>ws d. add_discovery d ws) ws ds"

fun wrangles_verify :: "kind_selector list \<Rightarrow> wrangles \<Rightarrow> kind list \<Rightarrow> space_err + unit" where
  "wrangles_verify order ws [] = Inr ()"
| "wrangles_verify order ws (kind # kinds) =
     (if wrangles_find order ws kind = None then
        Inl (err_of_string (''star must be able to wrangle at least one '' @ kind_name kind))
      else wrangles_verify order ws kinds)"

definition wrangles_wrangle ::
  "kind_selector list \<Rightarrow> wrangles \<Rightarrow> kind \<Rightarrow> ((space_err + star_key) \<times> wrangles) option" where
  "wrangles_wrangle order ws kind =
     (case wrangles_find order ws kind of
        None \<Rightarrow> Some (Inl (err_of_string (''could not find wrangles for kind '' @ kind_name kind)), ws)
      | Some sel \<Rightarrow>
          (case ws sel of
             None \<Rightarrow> None
           | Some r \<Rightarrow> map_option (\<lambda>(k, r). (k, ws(sel \<mapsto> r))) (rr_wrangle r)))"

text \<open>\<open>HyperStar::wrangle\<close>: the discoveries of a search, paired with this star, go to the wrangles; a key
  is printed as its point and read back, with \<open>expect\<close>.\<close>

definition coalate ::
  "(star_key \<Rightarrow> space_err + star_key) \<Rightarrow> star_key \<Rightarrow> discovery list \<Rightarrow> star_discovery list option" where
  "coalate reread key ds =
     (case res_map (\<lambda>d. res_bind (reread (dsc_star_key d)) (\<lambda>k. Inr (StarDiscovery (star_pair_new key k) d))) ds of
        Inr sds \<Rightarrow> Some (sort_discoveries sds)
      | Inl _ \<Rightarrow> None)"

definition star_wrangle ::
  "(star_key \<Rightarrow> space_err + star_key) \<Rightarrow> star_key \<Rightarrow> space_err + discovery list \<Rightarrow> wrangles
   \<Rightarrow> ((space_err + unit) \<times> wrangles) option" where
  "star_wrangle reread key found ws =
     (case found of
        Inl err \<Rightarrow> Some (Inl err, ws)
      | Inr ds \<Rightarrow> map_option (\<lambda>sds. (Inr (), wrangles_add sds ws)) (coalate reread key ds))"

section \<open>Facts: sharing out\<close>

lemma ord_cmp_less [simp]: "ord_cmp x y = OrdLess \<longleftrightarrow> x < y" "ord_cmp x y = OrdEqual \<longleftrightarrow> x = y"
  by (auto simp: ord_cmp_def)

text \<open>The comparison is the order of the ranks.\<close>

lemma star_discovery_cmp_rank:
  "star_discovery_cmp d e = OrdLess \<longleftrightarrow> sd_rank d < sd_rank e"
  "star_discovery_cmp d e = OrdEqual \<longleftrightarrow> sd_rank d = sd_rank e"
  by (auto simp: star_discovery_cmp_def star_pair_cmp_def sd_rank_def less_prod_def')

lemma step_loop_counts:
  "0 \<le> far \<Longrightarrow> step_loop ds far step = step + length (takeWhile (\<lambda>d. uint (sd_hops d) \<le> far) ds)"
  by (induction ds arbitrary: step) auto

definition nearest :: "star_discovery list \<Rightarrow> star_discovery list" where
  "nearest ds = takeWhile (\<lambda>d. sd_hops d = sd_hops (hd ds)) ds"

lemma sorted_hops: "sorted (map sd_hops (sort_discoveries ds))"
proof -
  have "sorted (map sd_rank (sort_discoveries ds))" by (simp add: sort_discoveries_def)
  then show ?thesis
    by (auto simp: sorted_iff_nth_mono sd_rank_def less_eq_prod_def intro: order.strict_implies_order)
qed

lemma sort_discoveries_ne [simp]: "sort_discoveries ds = [] \<longleftrightarrow> ds = []"
  by (metis length_0_conv length_sort sort_discoveries_def)

lemma step_loop_nearest:
  assumes "sorted (map sd_hops ds)"
  shows "step_loop ds (-1) 0 = length (nearest ds)"
proof (cases ds)
  case (Cons d ds')
  have "(\<lambda>e. uint (sd_hops e) \<le> uint (sd_hops d)) e = (sd_hops e = sd_hops d)" if "e \<in> set ds'" for e
    using assms that by (auto simp: Cons word_le_def intro: antisym)
  then have "takeWhile (\<lambda>e. uint (sd_hops e) \<le> uint (sd_hops d)) ds' = takeWhile (\<lambda>e. sd_hops e = sd_hops d) ds'"
    by (rule takeWhile_cong[OF refl])
  then show ?thesis by (simp add: Cons nearest_def step_loop_counts)
qed (simp add: nearest_def)

lemma nearest_prefix: "nearest ds = take (length (nearest ds)) ds"
  unfolding nearest_def by (rule takeWhile_eq_take)

lemma nearest_ne: "ds \<noteq> [] \<Longrightarrow> nearest ds \<noteq> []"
  by (cases ds) (simp_all add: nearest_def)

definition rr_ready :: "round_robin \<Rightarrow> bool" where
  "rr_ready r \<longleftrightarrow> rr_stars r \<noteq> [] \<and> rr_step r = length (nearest (rr_stars r))"

lemma rr_sort_ready: "rr_stars r \<noteq> [] \<Longrightarrow> rr_ready (rr_sort r)"
  by (simp add: rr_ready_def rr_sort_def Let_def step_loop_nearest sorted_hops sort_discoveries_ne)

lemma rr_wrangle_ready:
  assumes "rr_ready r"
  shows "rr_wrangle r =
    Some (Inr (sd_key (nearest (rr_stars r) ! (unat (rr_index r + 1) mod length (nearest (rr_stars r))))),
          r\<lparr>rr_index := rr_index r + 1\<rparr>)"
proof -
  let ?n = "length (nearest (rr_stars r))"
  have pos: "0 < ?n" using assms nearest_ne by (auto simp: rr_ready_def)
  have "?n \<le> length (rr_stars r)" by (simp add: nearest_def length_takeWhile_le)
  then have lt: "i mod ?n < length (rr_stars r)" for i using pos by (meson mod_less_divisor order_less_le_trans)
  have "nearest (rr_stars r) ! (i mod ?n) = rr_stars r ! (i mod ?n)" for i
    using pos by (subst nearest_prefix) simp
  then show ?thesis using assms pos lt by (auto simp: rr_wrangle_def rr_ready_def Let_def)
qed

fun rr_wrangles :: "nat \<Rightarrow> round_robin \<Rightarrow> (star_key list \<times> round_robin) option" where
  "rr_wrangles 0 r = Some ([], r)"
| "rr_wrangles (Suc n) r =
     (case rr_wrangle r of
        Some (Inr key, r) \<Rightarrow> map_option (\<lambda>(keys, r). (key # keys, r)) (rr_wrangles n r)
      | _ \<Rightarrow> None)"

lemma rr_wrangles_ready:
  assumes "rr_ready r" "unat (rr_index r) + n < 2 ^ 64"
  shows "rr_wrangles n r =
    Some (map (\<lambda>i. sd_key (nearest (rr_stars r) ! ((unat (rr_index r) + 1 + i) mod length (nearest (rr_stars r))))) [0..<n],
          r\<lparr>rr_index := rr_index r + of_nat n\<rparr>)"
  using assms
proof (induction n arbitrary: r)
  case (Suc n)
  let ?r = "r\<lparr>rr_index := rr_index r + 1\<rparr>"
  have u: "unat (rr_index r + 1) = Suc (unat (rr_index r))"
    using Suc.prems(2) by (subst unat_add_lem[THEN iffD1]) simp_all
  have "rr_ready ?r" "unat (rr_index ?r) + n < 2 ^ 64"
    using Suc.prems u by (simp_all add: rr_ready_def)
  note IH = Suc.IH[OF this]
  show ?case
    using IH u
    by (simp add: rr_wrangle_ready[OF Suc.prems(1)] upt_conv_Cons map_Suc_upt[symmetric] del: upt_Suc)
qed simp

lemma mset_rotate1: "mset (rotate1 xs) = mset xs"
  by (cases xs) simp_all

lemma mset_rotate: "mset (rotate k xs) = mset xs"
  by (induction k) (simp_all add: mset_rotate1)

lemma mset_rotation: "mset (map (\<lambda>i. xs ! ((k + i) mod length xs)) [0..<length xs]) = mset xs"
proof -
  have "map (\<lambda>i. xs ! ((k + i) mod length xs)) [0..<length xs] = rotate k xs"
    by (rule nth_equalityI) (simp_all add: nth_rotate)
  then show ?thesis by (simp only: mset_rotate)
qed

text \<open>Particles are shared out fairly: in as many turns as there are nearest stars, each of them is
  chosen exactly once, as long as the index does not use up its 64 bits.\<close>

theorem wrangling_is_fair:
  assumes "rr_ready r" "unat (rr_index r) + length (nearest (rr_stars r)) < 2 ^ 64"
  shows "\<exists>keys r'. rr_wrangles (length (nearest (rr_stars r))) r = Some (keys, r') \<and> rr_ready r' \<and>
           mset keys = mset (map sd_key (nearest (rr_stars r)))"
proof -
  let ?n = "nearest (rr_stars r)"
  let ?f = "\<lambda>i. ?n ! ((unat (rr_index r) + 1 + i) mod length ?n)"
  have "map (\<lambda>i. sd_key (?f i)) [0..<length ?n] = map sd_key (map ?f [0..<length ?n])" by simp
  then have "mset (map (\<lambda>i. sd_key (?f i)) [0..<length ?n]) = image_mset sd_key (mset (map ?f [0..<length ?n]))"
    by (metis mset_map)
  then have "mset (map (\<lambda>i. sd_key (?f i)) [0..<length ?n]) = mset (map sd_key ?n)"
    unfolding mset_rotation by simp
  moreover have "rr_ready (r\<lparr>rr_index := rr_index r + of_nat (length ?n)\<rparr>)"
    using assms(1) by (simp add: rr_ready_def)
  ultimately show ?thesis
    using rr_wrangles_ready[OF assms] by blast
qed

text \<open>What the wrangles hold for a selector after discoveries were added to none.\<close>

definition discovered :: "star_discovery list \<Rightarrow> kind_selector \<Rightarrow> star_discovery list" where
  "discovered ds sel = filter (\<lambda>d. sel \<in> dsc_kinds (sd_discovery d)) ds"

definition holds_discovered :: "star_discovery list \<Rightarrow> wrangles \<Rightarrow> bool" where
  "holds_discovered ds ws \<longleftrightarrow>
     (\<forall>sel. case ws sel of
              None \<Rightarrow> discovered ds sel = []
            | Some r \<Rightarrow> discovered ds sel \<noteq> [] \<and> mset (rr_stars r) = mset (discovered ds sel) \<and>
                        sorted (map sd_hops (rr_stars r)) \<and> rr_ready r)"

lemma rr_sort_sel [simp]:
  "mset (rr_stars (rr_sort r)) = mset (rr_stars r)" "sorted (map sd_hops (rr_stars (rr_sort r)))"
  "rr_kind (rr_sort r) = rr_kind r"
  by (simp_all add: rr_sort_def Let_def sorted_hops) (simp add: sort_discoveries_def)

lemma add_discovery_holds:
  assumes "holds_discovered ds ws"
  shows "holds_discovered (ds @ [d]) (add_discovery d ws)"
proof -
  have "case add_discovery d ws sel of None \<Rightarrow> discovered (ds @ [d]) sel = []
      | Some r \<Rightarrow> discovered (ds @ [d]) sel \<noteq> [] \<and> mset (rr_stars r) = mset (discovered (ds @ [d]) sel) \<and>
                  sorted (map sd_hops (rr_stars r)) \<and> rr_ready r" for sel
  proof (cases "sel \<in> dsc_kinds (sd_discovery d)")
    case True
    have "case ws sel of None \<Rightarrow> discovered ds sel = []
        | Some r \<Rightarrow> mset (rr_stars r) = mset (discovered ds sel)"
      using assms by (auto simp: holds_discovered_def split: option.split dest: spec[of _ sel])
    then show ?thesis
      using True
      by (auto simp: add_discovery_def discovered_def rr_new_def filter_empty_conv split: option.splits intro!: rr_sort_ready)
  next
    case False
    have "case ws sel of None \<Rightarrow> discovered ds sel = []
        | Some r \<Rightarrow> discovered ds sel \<noteq> [] \<and> mset (rr_stars r) = mset (discovered ds sel) \<and>
                    sorted (map sd_hops (rr_stars r)) \<and> rr_ready r"
      using assms by (simp add: holds_discovered_def)
    moreover have "discovered (ds @ [d]) sel = discovered ds sel" "add_discovery d ws sel = ws sel"
      using False by (simp_all add: add_discovery_def discovered_def)
    ultimately show ?thesis by (simp only:)
  qed
  then show ?thesis by (simp add: holds_discovered_def)
qed

lemma wrangles_add_holds: "holds_discovered ds (wrangles_add ds Map.empty)"
proof -
  have "holds_discovered (ds0 @ ds) (wrangles_add ds ws)" if "holds_discovered ds0 ws" for ds0 ws
    using that
  proof (induction ds arbitrary: ds0 ws)
    case (Cons d ds)
    from Cons.IH[OF add_discovery_holds[OF Cons.prems]] show ?case by (simp add: wrangles_add_def)
  qed (simp add: wrangles_add_def)
  from this[of "[]"] show ?thesis by (simp add: holds_discovered_def discovered_def)
qed

lemma nearest_least:
  assumes "sorted (map sd_hops ds)" "d \<in> set (nearest ds)"
  shows "d \<in> set ds \<and> (\<forall>e \<in> set ds. sd_hops d \<le> sd_hops e)"
proof -
  have "d \<in> set ds \<and> sd_hops d = sd_hops (hd ds)"
    using assms(2) by (auto simp: nearest_def dest: set_takeWhileD)
  moreover have "\<forall>e \<in> set ds. sd_hops (hd ds) \<le> sd_hops e"
    using assms(1) by (cases ds) auto
  ultimately show ?thesis by auto
qed

lemma wrangles_find_iff:
  assumes "set order = dom (wrangles_add ds Map.empty)"
  shows "wrangles_find order (wrangles_add ds Map.empty) kind \<noteq> None \<longleftrightarrow>
    (\<exists>d \<in> set ds. \<exists>sel \<in> dsc_kinds (sd_discovery d). kind_selector_matches sel kind)"
proof -
  have "wrangles_add ds Map.empty sel \<noteq> None \<longleftrightarrow> discovered ds sel \<noteq> []" for sel
    using wrangles_add_holds[of ds]
    by (auto simp: holds_discovered_def split: option.splits dest: spec[of _ sel])
  then have "wrangles_find order (wrangles_add ds Map.empty) kind \<noteq> None \<longleftrightarrow>
      (\<exists>sel. discovered ds sel \<noteq> [] \<and> kind_selector_matches sel kind)"
    using assms by (simp add: wrangles_find_def find_None_iff dom_def)
  then show ?thesis by (auto simp: discovered_def filter_empty_conv)
qed


section \<open>Searching\<close>

definition wrangler_transmitter :: "star_env \<Rightarrow> transmitter" where
  "wrangler_transmitter e =
     transmitter_new\<lparr>tr_from := Override (with_layer (to_surface (se_point e)) Core),
       tr_agent := Override AgentHyperUser,
       tr_handling := Override (Handling HandlingImmediate PriorityHyper RetriesMax WaitHigh)\<rparr>"

text \<open>The ripple of a wrangler, unless it has visited all adjacent stars.\<close>

definition wrangler_ripple :: "uuid \<Rightarrow> star_env \<Rightarrow> search \<Rightarrow> point set \<Rightarrow> bool \<Rightarrow> 'x directed_proto option" where
  "wrangler_ripple u e search history track =
     (let adjacents = filter (\<lambda>(p, _). p \<notin> history) (se_adjacents e);
          ripple = dp_ripple u;
          ripple = ripple\<lparr>dp_track := track\<rparr>;
          ripple = dp_set_method (Hyp HypSearch) ripple;
          ripple = dp_set_body (SHyper (HsSearch search)) ripple;
          ripple = dp_set_history history ripple;
          ripple = dp_set_bounce_backs (BBCount (length adjacents)) ripple
      in if adjacents = [] then None else Some (dp_set_to Stars ripple))"

text \<open>The discoveries of the echoes; failures and other answers are only logged.\<close>

definition core_discoveries :: "'x rcore \<Rightarrow> discovery list" where
  "core_discoveries core =
     (if status_is_success (rc_status core) then
        (case rc_body core of SHyper (HsDiscoveries ds) \<Rightarrow> ds | _ \<Rightarrow> [])
      else [])"

definition wrangler_wrangle ::
  "('x directed_proto \<Rightarrow> space_err + 'x substance echo wave list) \<Rightarrow> uuid \<Rightarrow> star_env \<Rightarrow> search \<Rightarrow> point set \<Rightarrow> bool
   \<Rightarrow> space_err + discovery list" where
  "wrangler_wrangle direct u e search history track =
     (case wrangler_ripple u e search history track of
        None \<Rightarrow> Inr []
      | Some ripple \<Rightarrow>
          res_bind (direct ripple) (\<lambda>echoes.
            Inr (concat (map (\<lambda>echo. core_discoveries (echo_core (w_variant echo))) echoes))))"

text \<open>The handler of a search: \<open>sub\<close> is a wrangler of this star with the search and the history,
  \<open>kinds\<close> what the drivers answer for the external kinds.\<close>

definition core_of_discoveries :: "discovery list \<Rightarrow> 'x rcore" where
  "core_of_discoveries ds = ReflectedCore (\<lambda>_. None) (status 200) (SHyper (HsDiscoveries ds))"

definition sub_search ::
  "star_env \<Rightarrow> star_key \<Rightarrow> space_err + kind_selector set \<Rightarrow> (search \<Rightarrow> point set \<Rightarrow> space_err + discovery list)
   \<Rightarrow> 16 word \<Rightarrow> point set \<Rightarrow> search \<Rightarrow> space_err + 'x rcore" where
  "sub_search e key kinds sub hop_count history search =
     res_bind (if is_forwarder (se_kind e) then sub search (insert (se_point e) history) else Inr []) (\<lambda>ds.
     res_bind (if can_be_wrangled (se_kind e)
               then res_bind kinds (\<lambda>ks. Inr (ds @ [Discovery (se_kind e) hop_count key ks])) else Inr ds) (\<lambda>ds.
       Inr (core_of_discoveries ds)))"

text \<open>A search for a kind of star is absorbed, also by a star of the kind.  The panic of
  \<open>as_reflected_core\<close> is \<open>None\<close>.\<close>

definition handle_search ::
  "star_env \<Rightarrow> star_key \<Rightarrow> space_err + kind_selector set \<Rightarrow> (search \<Rightarrow> point set \<Rightarrow> space_err + discovery list)
   \<Rightarrow> 16 word \<Rightarrow> point set \<Rightarrow> ('x, 'x substance) hyper_substance \<Rightarrow> 'x rcore bounce option" where
  "handle_search e key kinds sub hop_count history input =
     (case input of
        HsSearch search \<Rightarrow>
          (case search of
             SearchStar star \<Rightarrow>
               if key = star then
                 (case kinds of
                    Inr ks \<Rightarrow> Some (Reflected (core_of_discoveries [Discovery (se_kind e) hop_count key ks]))
                  | Inl err \<Rightarrow> map_option Reflected (as_reflected_core err))
               else Some (Reflected (rcore_result (sub_search e key kinds sub hop_count history search)))
           | SearchStarKind _ \<Rightarrow> Some Absorbed
           | SearchKinds \<Rightarrow> Some (Reflected (rcore_result (sub_search e key kinds sub hop_count history SearchKinds))))
      | _ \<Rightarrow> Some (Reflected rcore_bad_request))"

section \<open>Provisions and assignments\<close>

text \<open>What a star does with a provision: assign the particle to itself, or ask another star.  \<open>external\<close>
  says whether an external driver for a kind is there; the star of a wrangled particle is asked without
  the state of the provision.\<close>

datatype 'x provision_plan =
    AssignHere "'x substance assign"
  | AskStar star_key "'x directed_proto"

definition star_place ::
  "uuid \<Rightarrow> (star_key \<Rightarrow> surface) \<Rightarrow> (kind \<Rightarrow> space_err + bool) \<Rightarrow> star_env \<Rightarrow> kind_selector list \<Rightarrow> wrangles
   \<Rightarrow> ('x, 'x substance) hyper_substance \<Rightarrow> ((cosmic_err + 'x provision_plan) \<times> wrangles) option" where
  "star_place u surface_of external e order ws input =
     (case input of
        HsProvision provision \<Rightarrow>
          (case se_record e (prov_point provision) of
             Inl err \<Rightarrow> Some (Inl err, ws)
           | Inr record \<Rightarrow>
               (let details = rec_details record; kind = stub_kind (det_stub details)
                in case wrangles_find order ws kind of
                     None \<Rightarrow>
                       (case external kind of
                          Inl err \<Rightarrow> Some (Inl (cosmic_err_of_space err), ws)
                        | Inr True \<Rightarrow> Some (Inr (AssignHere (Assign AssignCreate details (prov_state provision))), ws)
                        | Inr False \<Rightarrow>
                            Some (Inl (cosmic_err_new (''could not find a place to provision kind '' @ kind_name kind)), ws))
                   | Some _ \<Rightarrow>
                       (case wrangles_wrangle order ws kind of
                          None \<Rightarrow> None
                        | Some (Inl err, ws) \<Rightarrow> Some (Inl (cosmic_err_of_space err), ws)
                        | Some (Inr key, ws) \<Rightarrow>
                            (let proto = (dp_ping u)\<lparr>dp_core := dcore_of_assign (Assign AssignCreate details StateNone)\<rparr>
                             in Some (Inr (AskStar key (dp_set_to (Single (surface_of key)) proto)), ws)))))
      | _ \<Rightarrow> Some (Inl (cosmic_err_new ''expected Hyp<Provision>''), ws))"

text \<open>The location once the assignment to this star, or the other star, has answered.\<close>

definition provisioned_here :: "star_env \<Rightarrow> kind \<Rightarrow> cosmic_err + 'x rcore \<Rightarrow> cosmic_err + particle_location" where
  "provisioned_here e kind assigned =
     res_bind assigned (\<lambda>core.
       if rcore_is_ok core then Inr \<lparr>loc_star = Some (se_point e), loc_host = None\<rparr>
       else Inl (cosmic_err_new (''could not find assign kind '' @ kind_name kind @ '' to self'')))"

definition provisioned_at ::
  "(star_key \<Rightarrow> point) \<Rightarrow> star_key \<Rightarrow> space_err + 'x substance pong wave \<Rightarrow> cosmic_err + particle_location" where
  "provisioned_at point_of key answer =
     space_res (res_bind answer (\<lambda>pong.
       res_bind (pong_ok_or (w_variant pong)) (\<lambda>_.
         Inr \<lparr>loc_star = Some (point_of key), loc_host = None\<rparr>)))"

text \<open>An assignment creates the shell of the particle and goes on to the driver; \<open>finds\<close> and \<open>lookup\<close> are
  what the drivers of the star answer.\<close>

definition star_assign ::
  "uuid \<Rightarrow> (kind \<Rightarrow> space_err + bool) \<Rightarrow> (kind \<Rightarrow> space_err + point option) \<Rightarrow> bool \<Rightarrow> star_env
   \<Rightarrow> ('x, 'x substance) hyper_substance \<Rightarrow> (cosmic_err + 'x directed_proto) \<times> star_env" where
  "star_assign u finds lookup track e input =
     (case input of
        HsAssign assign \<Rightarrow>
          (let stub = det_stub (asg_details assign); kind = stub_kind stub
           in case finds kind of
                Inl err \<Rightarrow> (Inl (cosmic_err_of_space err), e)
              | Inr False \<Rightarrow>
                  (Inl (cosmic_err_of_space (server_error (''Star '' @ star_sub_to_string (se_kind e) @
                     '' does not have a driver for kind: '' @ kind_name kind))), e)
              | Inr True \<Rightarrow>
                  (let e = create_shell (stub_point stub) e
                   in case lookup kind of
                        Inl err \<Rightarrow> (Inl (cosmic_err_of_space err), e)
                      | Inr None \<Rightarrow> (Inl (cosmic_err_new (''Star does not have  driver for '' @ kind_name kind)), e)
                      | Inr (Some driver) \<Rightarrow>
                          (let p = dp_ping u;
                               p = dp_set_method (Hyp HypAssign) p;
                               p = dp_set_from (to_surface (se_point e)) p;
                               p = dp_set_to (Single (to_surface driver)) p;
                               p = dp_set_body (SHyper (HsAssign assign)) p
                           in (Inr (p\<lparr>dp_track := track\<rparr>), e))))
      | _ \<Rightarrow> (Inl (cosmic_err_new ''expected Hyp<Assign>''), e))"

text \<open>Once the driver has answered, the particle is located at this star: \<open>assign_star\<close> is the call of
  the registry.\<close>

definition assigned ::
  "(point \<Rightarrow> point \<Rightarrow> cosmic_err + unit) \<Rightarrow> star_env \<Rightarrow> point \<Rightarrow> space_err + 'x substance pong wave
   \<Rightarrow> cosmic_err + 'x rcore" where
  "assigned assign_star e p answer =
     res_bind (space_res (res_bind answer (\<lambda>pong. pong_ok_or (w_variant pong)))) (\<lambda>_.
     res_bind (assign_star p (se_point e)) (\<lambda>_. Inr rcore_ok))"

section \<open>Facts: the flood of a search\<close>

text \<open>The stars of a network with what their searches need.  A search for kinds goes from a star to the
  stars it has not visited, and each of them answers with its handler; as the hops of a search are not
  counted, they are the zero the wave starts with.  The first argument bounds the depth.\<close>

record search_node =
  sn_env :: star_env
  sn_key :: star_key
  sn_kinds :: "kind_selector set"

definition node_answer :: "(search \<Rightarrow> point set \<Rightarrow> space_err + discovery list) \<Rightarrow> search_node \<Rightarrow> point set \<Rightarrow> discovery list" where
  "node_answer sub m h =
     (case handle_search (sn_env m) (sn_key m) (Inr (sn_kinds m)) sub 0 h (HsSearch SearchKinds :: (unit, unit substance) hyper_substance) of
        Some (Reflected core) \<Rightarrow> core_discoveries core
      | _ \<Rightarrow> [])"

definition unvisited :: "search_node \<Rightarrow> point set \<Rightarrow> point list" where
  "unvisited node h = filter (\<lambda>p. p \<notin> h) (map fst (se_adjacents (sn_env node)))"

fun flood :: "nat \<Rightarrow> (point \<rightharpoonup> search_node) \<Rightarrow> point \<Rightarrow> point set \<Rightarrow> discovery list" where
  "flood 0 net p h = []"
| "flood (Suc n) net p h =
     (case net p of
        None \<Rightarrow> []
      | Some node \<Rightarrow>
          concat (map (\<lambda>a. case net a of
                             None \<Rightarrow> []
                           | Some m \<Rightarrow> node_answer (\<lambda>_ h. Inr (flood n net a h)) m h) (unvisited node h)))"

definition own_discovery :: "search_node \<Rightarrow> discovery" where
  "own_discovery m = Discovery (se_kind (sn_env m)) 0 (sn_key m) (sn_kinds m)"

lemma node_answer_eq:
  "node_answer (\<lambda>_ h. Inr (f h)) m h =
     (if is_forwarder (se_kind (sn_env m)) then f (insert (se_point (sn_env m)) h) else []) @
     (if can_be_wrangled (se_kind (sn_env m)) then [own_discovery m] else [])"
  by (simp add: node_answer_def handle_search_def sub_search_def core_of_discoveries_def core_discoveries_def
      rcore_result_def own_discovery_def status_is_success_def)

text \<open>Stars are kept under their points.\<close>

definition placed :: "(point \<rightharpoonup> search_node) \<Rightarrow> bool" where
  "placed net \<longleftrightarrow> finite (dom net) \<and> (\<forall>p m. net p = Some m \<longrightarrow> se_point (sn_env m) = p)"

lemma placedD [dest]: "placed net \<Longrightarrow> net p = Some m \<Longrightarrow> se_point (sn_env m) = p"
  by (simp add: placed_def)

text \<open>A walk from a star over adjacent stars, all but the last of which forward.\<close>

definition links :: "(point \<rightharpoonup> search_node) \<Rightarrow> point \<Rightarrow> point \<Rightarrow> bool" where
  "links net p a \<longleftrightarrow> (\<exists>node. net p = Some node \<and> a \<in> set (map fst (se_adjacents (sn_env node)))) \<and> a \<in> dom net"

definition forwarding :: "(point \<rightharpoonup> search_node) \<Rightarrow> point \<Rightarrow> bool" where
  "forwarding net a \<longleftrightarrow> (\<exists>m. net a = Some m \<and> is_forwarder (se_kind (sn_env m)))"

fun walk :: "(point \<rightharpoonup> search_node) \<Rightarrow> point \<Rightarrow> point list \<Rightarrow> bool" where
  "walk net p [] = False"
| "walk net p (a # as) = (links net p a \<and> (as = [] \<or> forwarding net a \<and> walk net a as))"

definition finds :: "(point \<rightharpoonup> search_node) \<Rightarrow> point \<Rightarrow> discovery \<Rightarrow> bool" where
  "finds net q d \<longleftrightarrow> (\<exists>m. net q = Some m \<and> can_be_wrangled (se_kind (sn_env m)) \<and> d = own_discovery m)"

lemma flood_Suc_iff:
  "d \<in> set (flood (Suc n) net p h) \<longleftrightarrow>
     (\<exists>node a m. net p = Some node \<and> a \<in> set (unvisited node h) \<and> net a = Some m \<and>
        d \<in> set (node_answer (\<lambda>_ h. Inr (flood n net a h)) m h))"
proof (cases "net p")
  case (Some node)
  have "d \<in> set (case net a of None \<Rightarrow> [] | Some m \<Rightarrow> node_answer (\<lambda>_ h. Inr (flood n net a h)) m h) \<longleftrightarrow>
      (\<exists>m. net a = Some m \<and> d \<in> set (node_answer (\<lambda>_ h. Inr (flood n net a h)) m h))" for a
    by (cases "net a") simp_all
  then show ?thesis by (auto simp: Some simp del: split_paired_Ex)
qed simp

lemma flood_sound:
  assumes "placed net" "d \<in> set (flood n net p h)"
  shows "\<exists>as. walk net p as \<and> set as \<inter> h = {} \<and> finds net (last as) d"
  using assms(2)
proof (induction n arbitrary: p h)
  case (Suc n)
  then obtain node a m where n: "net p = Some node" "a \<in> set (unvisited node h)" "net a = Some m"
    "d \<in> set (node_answer (\<lambda>_ h. Inr (flood n net a h)) m h)"
    unfolding flood_Suc_iff by blast
  then have l: "links net p a" "a \<notin> h" by (auto simp: links_def unvisited_def)
  have a: "se_point (sn_env m) = a" using assms(1) n(3) by auto
  consider "can_be_wrangled (se_kind (sn_env m))" "d = own_discovery m"
    | "is_forwarder (se_kind (sn_env m))" "d \<in> set (flood n net a (insert a h))"
    using n(4) a by (auto simp: node_answer_eq split: if_splits)
  then show ?case
  proof cases
    case 1
    then show ?thesis using l n(3) by (intro exI[of _ "[a]"]) (auto simp: finds_def)
  next
    case 2
    from Suc.IH[OF 2(2)] obtain as where "walk net a as" "set as \<inter> insert a h = {}" "finds net (last as) d"
      by blast
    then show ?thesis
      using l n(3) 2(1) by (intro exI[of _ "a # as"]) (auto simp: forwarding_def split: if_splits)
  qed
qed simp

lemma walk_suffix: "walk net p (us @ a # as) \<Longrightarrow> as \<noteq> [] \<Longrightarrow> walk net a as \<and> forwarding net a"
  by (induction us arbitrary: p) auto

lemma flood_complete:
  assumes "placed net" "walk net p as" "set as \<inter> h = {}" "finds net (last as) d" "card (dom net - h) \<le> n"
  shows "d \<in> set (flood n net p h)"
  using assms(2-)
proof (induction "length as" arbitrary: as p h n rule: less_induct)
  case less
  obtain a bs where as: "as = a # bs" using less.prems(1) by (cases as) auto
  have l: "links net p a" "a \<notin> h" using less.prems as by auto
  then obtain node m where nd: "net p = Some node" "a \<in> set (unvisited node h)" "net a = Some m"
    by (auto simp: links_def unvisited_def)
  have a: "se_point (sn_env m) = a" using assms(1) nd(3) by auto
  have "a \<in> dom net - h" using nd(3) l(2) by auto
  then have c: "card (dom net - insert a h) < card (dom net - h)"
    using assms(1) by (intro psubset_card_mono) (auto simp: placed_def)
  then obtain k where k: "n = Suc k" "card (dom net - insert a h) \<le> k"
    using less.prems(4) by (cases n) auto
  have step: ?case if "d \<in> set (node_answer (\<lambda>_ h. Inr (flood k net a h)) m h)"
    using that nd unfolding k(1) flood_Suc_iff by blast
  show ?case
  proof (cases "bs = []")
    case True
    then have "can_be_wrangled (se_kind (sn_env m)) \<and> d = own_discovery m"
      using less.prems(3) as nd(3) by (auto simp: finds_def)
    then show ?thesis by (intro step) (simp add: node_answer_eq)
  next
    case False
    then have f: "forwarding net a" "walk net a bs" using less.prems(1) as by auto
    have fw: "is_forwarder (se_kind (sn_env m))" using f(1) nd(3) by (auto simp: forwarding_def)
    show ?thesis
    proof (cases "a \<in> set bs")
      case False
      have "d \<in> set (flood k net a (insert a h))"
        using less.prems as \<open>bs \<noteq> []\<close> False f(2) k(2) by (intro less.hyps[of bs]) auto
      then show ?thesis by (intro step) (simp add: node_answer_eq a fw)
    next
      case True
      then obtain us vs where bs: "bs = us @ a # vs" "a \<notin> set vs" by (meson split_list_last)
      have "walk net p (a # vs)" using l(1) walk_suffix[of net a us a vs] f(2) bs by (cases vs) auto
      then show ?thesis
        using less.prems as bs by (intro less.hyps[of "a # vs"]) auto
    qed
  qed
qed

lemma flood_iff:
  assumes "placed net" "card (dom net) \<le> n"
  shows "d \<in> set (flood n net p {p}) \<longleftrightarrow> (\<exists>as. walk net p as \<and> p \<notin> set as \<and> finds net (last as) d)"
proof -
  have "card (dom net - {p}) \<le> n"
    using assms by (meson Diff_subset card_mono le_trans placed_def)
  then show ?thesis
    using flood_sound[OF assms(1), of d n p "{p}"] flood_complete[OF assms(1), of p _ "{p}" d n] by auto
qed


section \<open>Facts: provisions\<close>

text \<open>A provision goes to the star the wrangles choose whenever one is known for the kind, whatever
  drivers this star has, and the state of the provision stays behind; only without wrangles the particle
  is assigned to this star, with its state, and only where an external driver is there.\<close>

theorem provisions_prefer_wrangles:
  assumes "star_place u surface_of external e order ws (HsProvision p) = Some (Inr plan, ws')"
  shows "\<exists>rec. se_record e (prov_point p) = Inr rec \<and>
    (let kind = stub_kind (det_stub (rec_details rec))
     in case plan of
          AssignHere a \<Rightarrow>
            wrangles_find order ws kind = None \<and> external kind = Inr True \<and> ws' = ws \<and>
            a = Assign AssignCreate (rec_details rec) (prov_state p)
        | AskStar key proto \<Rightarrow>
            wrangles_find order ws kind \<noteq> None \<and>
            wrangles_wrangle order ws kind = Some (Inr key, ws') \<and>
            dp_to proto = Some (Single (surface_of key)) \<and>
            dc_body (dp_core proto) = SHyper (HsAssign (Assign AssignCreate (rec_details rec) StateNone)))"
proof (cases "se_record e (prov_point p)")
  case (Inr rec)
  let ?kind = "stub_kind (det_stub (rec_details rec))"
  show ?thesis
  proof (cases "wrangles_find order ws ?kind")
    case None
    then show ?thesis
      using assms Inr by (auto simp: star_place_def Let_def split: sum.splits bool.splits)
  next
    case (Some sel)
    then show ?thesis
      using assms Inr
      by (auto simp: star_place_def Let_def dcore_of_assign_def dcore_new_def dp_set_to_def split: sum.splits option.splits prod.splits)
  qed
next
  case (Inl err)
  then show ?thesis using assms by (simp add: star_place_def)
qed

section \<open>Two stars of equal distance, and their network\<close>

definition sample_discovery :: "string \<Rightarrow> star_discovery" where
  "sample_discovery s =
     StarDiscovery (star_pair_new (star_key_new ''c'' (star_handle_name ''a'')) (star_key_new ''c'' (star_handle_name s)))
       (Discovery StarFold 0 (star_key_new ''c'' (star_handle_name s)) {kind_selector_any})"

lemma wrangling_is_fair_witness:
  "let r = rr_sort ((rr_new kind_selector_any)\<lparr>rr_stars := [sample_discovery ''d'', sample_discovery ''b'']\<rparr>)
   in \<exists>keys r'. rr_wrangles (length (nearest (rr_stars r))) r = Some (keys, r') \<and>
        mset keys = mset (map sd_key (nearest (rr_stars r)))"
proof -
  let ?r = "rr_sort ((rr_new kind_selector_any)\<lparr>rr_stars := [sample_discovery ''d'', sample_discovery ''b'']\<rparr>)"
  have "length (nearest (rr_stars ?r)) \<le> length (rr_stars ?r)" by (simp add: nearest_def length_takeWhile_le)
  also have "\<dots> = 2" by (simp add: rr_sort_def Let_def sort_discoveries_def rr_new_def)
  finally have "length (nearest (rr_stars ?r)) < 2 ^ 63" by simp
  then show ?thesis
    unfolding Let_def using wrangling_is_fair[of ?r] rr_sort_ready[of "(rr_new kind_selector_any)\<lparr>rr_stars := [sample_discovery ''d'', sample_discovery ''b'']\<rparr>"]
    by (auto simp: rr_sort_def rr_new_def Let_def)
qed


definition sample_flood_net :: "point \<rightharpoonup> search_node" where
  "sample_flood_net =
     [sample_star_point ''a'' \<mapsto> \<lparr>sn_env = sample_nexus, sn_key = star_key_new ''c'' (star_handle_name ''a''), sn_kinds = {}\<rparr>,
      sample_star_point ''b'' \<mapsto> \<lparr>sn_env = sample_fold, sn_key = star_key_new ''c'' (star_handle_name ''b''),
                                 sn_kinds = {kind_selector_any}\<rparr>]"

lemma sample_flood_placed: "placed sample_flood_net" "card (dom sample_flood_net) \<le> 2"
  by (auto simp: placed_def sample_flood_net_def sample_nexus_def sample_fold_def split: if_splits)


lemma provisions_prefer_wrangles_witness:
  "\<exists>key proto. (\<exists>ws'. star_place (Uuid ''u'') (\<lambda>_. to_surface local_endpoint) (\<lambda>_. Inr False) sample_fold
      [kind_selector_any] (wrangles_add [sample_discovery ''b''] Map.empty)
      (HsProvision (Provision root_point StateNone) :: (unit, unit substance) hyper_substance) = Some (Inr (AskStar key proto), ws')) \<and>
    dp_to proto = Some (Single (to_surface local_endpoint))"
proof -
  let ?ds = "[sample_discovery ''b'']" and ?ws = "wrangles_add [sample_discovery ''b''] Map.empty"
  have d: "set [kind_selector_any] = dom ?ws"
    by (auto simp: wrangles_add_def add_discovery_def sample_discovery_def split: if_splits)
  have "wrangles_find [kind_selector_any] ?ws KSpace = Some kind_selector_any"
    by (simp add: wrangles_find_def wrangles_add_def add_discovery_def sample_discovery_def kind_selector_matches_def
        kind_selector_any_def)
  moreover obtain r where "?ws kind_selector_any = Some r" using d by auto
  ultimately have "\<exists>key ws'. wrangles_wrangle [kind_selector_any] ?ws KSpace = Some (Inr key, ws')"
    using wrangles_add_holds[of ?ds]
    by (auto simp: wrangles_wrangle_def holds_discovered_def rr_wrangle_ready dest: spec[of _ kind_selector_any])
  then obtain key ws' plan where p: "star_place (Uuid ''u'') (\<lambda>_. to_surface local_endpoint) (\<lambda>_. Inr False) sample_fold
      [kind_selector_any] ?ws (HsProvision (Provision root_point StateNone) :: (unit, unit substance) hyper_substance) =
        Some (Inr plan, ws')" "plan = AskStar key (dp_set_to (Single (to_surface local_endpoint))
          ((dp_ping (Uuid ''u''))\<lparr>dp_core := dcore_of_assign (Assign AssignCreate \<lparr>det_stub = \<lparr>stub_point = root_point,
             stub_kind = KSpace, stub_status = StatusReady\<rparr>, det_properties = Map.empty\<rparr> StateNone)\<rparr>))"
    using \<open>wrangles_find [kind_selector_any] ?ws KSpace = Some kind_selector_any\<close>
    by (auto simp: star_place_def sample_fold_def sample_star_def Let_def)
  from provisions_prefer_wrangles[OF p(1)] show ?thesis using p by (auto simp: Let_def)
qed

end
