(* ===== verification/Drivers.thy ===== *)
theory Drivers
  imports Wrangles
begin

text \<open>
  The drivers of a star (\<open>driver/mod.rs\<close>): the builder that collects their factories, the actor that
  creates them one after the other and finds the one for a kind, the statuses on the way, and the
  runner that hands traversals to the item of a driver.
\<close>

section \<open>Factories and the builder\<close>

datatype driver_avail = AvailInternal | AvailExternal

datatype driver_status =
    DsUnknown | DsPending | DsInit | DsReady | DsRetrying string | DsFatal string

definition driver_status_of_result :: "string + driver_status \<Rightarrow> driver_status" where
  "driver_status_of_result r = (case r of Inr st \<Rightarrow> st | Inl err \<Rightarrow> DsFatal err)"

text \<open>What the builder asks of a factory; what its driver does is an argument of the operations below.\<close>

record driver_factory =
  df_kind :: kind_selector
  df_avail :: driver_avail

definition driver_driver_factory :: driver_factory where
  "driver_driver_factory = \<lparr>df_kind = kind_selector_from_base BKDriver, df_avail = AvailInternal\<rparr>"

definition star_driver_factory :: "star_sub \<Rightarrow> driver_factory" where
  "star_driver_factory sub =
     \<lparr>df_kind = KindSelector (PExact BKStar) (PExact (Some (star_sub_to_string sub))) VPAny, df_avail = AvailInternal\<rparr>"

record drivers_builder =
  db_factories :: "driver_factory list"
  db_kinds :: "kind_selector list"
  db_external :: "kind_selector list"

definition drivers_builder_new :: "star_sub \<Rightarrow> drivers_builder" where
  "drivers_builder_new kind =
     \<lparr>db_factories = [driver_driver_factory, star_driver_factory kind],
      db_kinds = [df_kind driver_driver_factory, star_sub_to_selector kind],
      db_external = (if df_avail driver_driver_factory = AvailExternal then [df_kind driver_driver_factory] else [])\<rparr>"

definition builder_add_post :: "driver_factory \<Rightarrow> drivers_builder \<Rightarrow> drivers_builder" where
  "builder_add_post f b =
     b\<lparr>db_kinds := db_kinds b @ [df_kind f],
       db_external := (if df_avail f = AvailExternal then db_external b @ [df_kind f] else db_external b),
       db_factories := db_factories b @ [f]\<rparr>"

definition builder_add_pre :: "driver_factory \<Rightarrow> drivers_builder \<Rightarrow> drivers_builder" where
  "builder_add_pre f b =
     b\<lparr>db_kinds := df_kind f # db_kinds b,
       db_external := (if df_avail f = AvailExternal then df_kind f # db_external b else db_external b),
       db_factories := f # db_factories b\<rparr>"

section \<open>The actor\<close>

text \<open>A driver is known by the channel to its runner, named by the point of the driver.\<close>

record driver_api =
  da_kind :: kind_selector
  da_point :: point

record drivers =
  dr_factories :: "driver_factory list"
  dr_by_kind :: "kind_selector \<rightharpoonup> driver_api"
  dr_by_point :: "point \<rightharpoonup> driver_api"
  dr_statuses :: "kind_selector \<rightharpoonup> driver_status"
  dr_kinds :: "kind_selector list"
  dr_external :: "kind_selector list"

definition drivers_new :: "drivers_builder \<Rightarrow> drivers" where
  "drivers_new b =
     \<lparr>dr_factories = db_factories b, dr_by_kind = Map.empty, dr_by_point = Map.empty, dr_statuses = Map.empty,
      dr_kinds = db_kinds b, dr_external = db_external b\<rparr>"

definition find_internal :: "drivers \<Rightarrow> kind \<Rightarrow> driver_api option" where
  "find_internal dr kind =
     (case List.find (\<lambda>sel. kind_selector_matches sel kind) (dr_kinds dr) of
        Some sel \<Rightarrow> dr_by_kind dr sel
      | None \<Rightarrow> None)"

definition find_external :: "drivers \<Rightarrow> kind \<Rightarrow> driver_api option" where
  "find_external dr kind =
     (case List.find (\<lambda>sel. kind_selector_matches sel kind) (dr_external dr) of
        Some sel \<Rightarrow> dr_by_kind dr sel
      | None \<Rightarrow> None)"

definition find_driver :: "drivers \<Rightarrow> kind \<Rightarrow> driver_api option" where
  "find_driver dr kind =
     (case List.find (\<lambda>sel. kind_selector_matches sel kind) (dr_kinds dr) of
        Some sel \<Rightarrow> dr_by_kind dr sel
      | None \<Rightarrow>
          (case List.find (\<lambda>sel. kind_selector_matches sel kind) (dr_external dr) of
             Some sel \<Rightarrow> dr_by_kind dr sel
           | None \<Rightarrow> None))"

text \<open>The point of a driver, below the point \<open>drivers\<close> of the star: \<open>skewer\<close> is the name of a base kind
  in kebab case.  Both \<open>unwrap\<close>s are panics.\<close>

definition as_point_segments :: "(base_kind \<Rightarrow> string) \<Rightarrow> kind_selector \<Rightarrow> space_err + string" where
  "as_point_segments skewer sel =
     (case ks_base sel of
        PAny \<Rightarrow> Inl (server_error ''cannot turn a base wildcard kind into point segments'')
      | PExact base \<Rightarrow> Inr (skewer base))"

definition driver_point ::
  "(base_kind \<Rightarrow> string) \<Rightarrow> (string \<Rightarrow> space_err + point) \<Rightarrow> point \<Rightarrow> kind_selector \<Rightarrow> point option" where
  "driver_point skewer from_str star sel =
     (case res_bind (point_push from_str star ''drivers'') (\<lambda>p.
             res_bind (as_point_segments skewer sel) (\<lambda>seg. point_push from_str p seg)) of
        Inr p \<Rightarrow> Some p
      | Inl _ \<Rightarrow> None)"

definition driver_registration :: "point \<Rightarrow> registration" where
  "driver_registration p =
     \<lparr>reg_point = p, reg_kind = KDriver, reg_registry = [], reg_props = set_properties_new, reg_owner = hyperuser,
      reg_strategy = StrategyEnsure, reg_status = StatusInit\<rparr>"

datatype 'x drivers_call =
    CallInit0
  | CallAddDriver driver_api
  | CallVisit "'x ultrawave traversal"
  | CallInternalKinds
  | CallExternalKinds
  | CallFind kind
  | CallFindExternal kind
  | CallFindInternal kind
  | CallDrivers
  | CallGet kind
  | CallLookup kind
  | CallStatus kind_selector
  | CallByPoint point

text \<open>The code has two more calls: \<open>Init1\<close>, which nobody sends, and the request for the receiver of the
  statuses.  What a call brings about: answers, the listener of the statuses (which begins the next
  initialisation when it is asked to), the task that creates a driver, and messages to runners.\<close>

datatype 'x drivers_out =
    OutUnit
  | OutKinds "kind_selector list"
  | OutDriver "driver_api option"
  | OutDrivers "kind_selector \<rightharpoonup> driver_api"
  | OutGet "space_err + driver_api"
  | OutPoint "point option"
  | OutStatus "space_err + driver_status"
  | StatusListen bool
  | CreateDriver point driver_factory
  | TellDriverDriver driver_api driver_api
  | ToRunner driver_api "'x ultrawave traversal"
  | TraverseNext "'x ultrawave traversal"
  | WarnNoDriver kind

text \<open>\<open>create\<close>: the point, the registration with its states and location (\<open>registers\<close>), the factory.\<close>

definition drivers_create ::
  "(kind_selector \<Rightarrow> point option) \<Rightarrow> (registration \<Rightarrow> bool) \<Rightarrow> driver_factory \<Rightarrow> drivers
   \<Rightarrow> ('x drivers_out list \<times> drivers) option" where
  "drivers_create at registers f dr =
     (case at (df_kind f) of
        None \<Rightarrow> None
      | Some p \<Rightarrow>
          if registers (driver_registration p) then Some ([CreateDriver p f], dr)
          else Some ([], dr\<lparr>dr_statuses := (dr_statuses dr)(kind_selector_from_base BKDriver \<mapsto>
                 DsFatal ''Driver registration failed'')\<rparr>))"

text \<open>\<open>init0\<close>: the status of every factory is kept under the selector of the driver of drivers.\<close>

definition drivers_init0 ::
  "(kind_selector \<Rightarrow> point option) \<Rightarrow> (registration \<Rightarrow> bool) \<Rightarrow> drivers \<Rightarrow> ('x drivers_out list \<times> drivers) option" where
  "drivers_init0 at registers dr =
     (case dr_factories dr of
        [] \<Rightarrow> Some ([StatusListen False], dr)
      | f # fs \<Rightarrow>
          (let dr = dr\<lparr>dr_factories := fs,
                       dr_statuses := (dr_statuses dr)(kind_selector_from_base BKDriver \<mapsto> DsPending)\<rparr>
           in map_option (\<lambda>(out, dr). (out @ [StatusListen True], dr)) (drivers_create at registers f dr)))"

definition drivers_add :: "driver_api \<Rightarrow> drivers \<Rightarrow> ('x drivers_out list \<times> drivers) option" where
  "drivers_add d dr =
     (let dr = dr\<lparr>dr_by_point := (dr_by_point dr)(da_point d \<mapsto> d),
                  dr_by_kind := (dr_by_kind dr)(da_kind d \<mapsto> d)\<rparr>
      in if kind_selector_matches (da_kind d) KDriver then Some ([OutUnit], dr)
         else map_option (\<lambda>dd. ([TellDriverDriver dd d, OutUnit], dr)) (find_driver dr KDriver))"

definition drivers_visit :: "'x ultrawave traversal \<Rightarrow> drivers \<Rightarrow> 'x drivers_out list" where
  "drivers_visit t dr =
     (if tv_dir t = ToCore then
        (let kind = stub_kind (det_stub (rec_details (tv_record t)))
         in case find_driver dr kind of
              None \<Rightarrow> [WarnNoDriver kind]
            | Some d \<Rightarrow> [ToRunner d t])
      else [TraverseNext t])"

definition drivers_handle ::
  "(kind_selector \<Rightarrow> point option) \<Rightarrow> (registration \<Rightarrow> bool) \<Rightarrow> 'x drivers_call \<Rightarrow> drivers
   \<Rightarrow> ('x drivers_out list \<times> drivers) option" where
  "drivers_handle at registers call dr =
     (case call of
        CallInit0 \<Rightarrow> drivers_init0 at registers dr
      | CallAddDriver d \<Rightarrow> drivers_add d dr
      | CallVisit t \<Rightarrow> Some (drivers_visit t dr, dr)
      | CallInternalKinds \<Rightarrow> Some ([OutKinds (dr_kinds dr)], dr)
      | CallExternalKinds \<Rightarrow> Some ([OutKinds (dr_external dr)], dr)
      | CallFind k \<Rightarrow> Some ([OutDriver (find_driver dr k)], dr)
      | CallFindExternal k \<Rightarrow> Some ([OutDriver (find_external dr k)], dr)
      | CallFindInternal k \<Rightarrow> Some ([OutDriver (find_internal dr k)], dr)
      | CallDrivers \<Rightarrow> Some ([OutDrivers (dr_by_kind dr)], dr)
      | CallGet k \<Rightarrow>
          Some ([OutGet (ok_or (find_driver dr k)
                   (err_of_string (''star does not have driver for kind: '' @ kind_name k)))], dr)
      | CallLookup k \<Rightarrow> Some ([OutPoint (map_option da_point (find_driver dr k))], dr)
      | CallStatus sel \<Rightarrow> Some ([OutStatus (ok_or (dr_statuses dr sel) (not_found ''status_rx''))], dr)
      | CallByPoint p \<Rightarrow> Some ([OutDriver (dr_by_point dr p)], dr))"

section \<open>Statuses\<close>

text \<open>One round of \<open>status_listen\<close> over the statuses of the drivers.  Whoever listens for completion is
  told, and then the loop ends; so it does on a fatal status.  A retry is reported as fatal.\<close>

datatype status_round =
    RoundComplete
  | RoundSend driver_status
  | RoundFatal driver_status

definition is_retrying :: "driver_status \<Rightarrow> bool" where
  "is_retrying st = (case st of DsRetrying _ \<Rightarrow> True | _ \<Rightarrow> False)"

definition is_fatal :: "driver_status \<Rightarrow> bool" where
  "is_fatal st = (case st of DsFatal _ \<Rightarrow> True | _ \<Rightarrow> False)"

definition status_round :: "bool \<Rightarrow> driver_status list \<Rightarrow> status_round" where
  "status_round on_complete sts =
     (let readies = length (filter (\<lambda>st. st = DsReady) sts);
          fatals = length (filter is_fatal sts);
          retries = length (filter is_retrying sts);
          inits = length (filter (\<lambda>st. st = DsInit) sts)
      in if readies = length sts then (if on_complete then RoundComplete else RoundSend DsReady)
         else if fatals > 0 then RoundFatal (DsFatal ''One or more Drivers have a Fatal condition'')
         else if retries > 0 then RoundSend (DsFatal ''One or more Drivers is Retrying initialization'')
         else if inits > 0 then RoundSend DsInit
         else RoundSend DsUnknown)"

text \<open>What the rounds send, and whether completion was told.\<close>

fun status_rounds :: "bool \<Rightarrow> driver_status list list \<Rightarrow> driver_status list \<times> bool" where
  "status_rounds on_complete [] = ([], False)"
| "status_rounds on_complete (sts # rounds) =
     (if sts = [] then ([], False)
      else (case status_round on_complete sts of
              RoundComplete \<Rightarrow> ([], True)
            | RoundFatal st \<Rightarrow> ([st], False)
            | RoundSend st \<Rightarrow> (case status_rounds on_complete rounds of (out, c) \<Rightarrow> (st # out, c))))"

text \<open>The task that carries statuses on ends with the first fatal one; the last one carried stays.\<close>

fun carry_statuses :: "driver_status \<Rightarrow> driver_status list \<Rightarrow> driver_status" where
  "carry_statuses seen [] = seen"
| "carry_statuses seen (st # sts) = (if is_fatal st then st else carry_statuses st sts)"

text \<open>The status a star takes from its drivers; on \<open>Ready\<close> it first initialises and wrangles.\<close>

fun star_status_of_drivers :: "driver_status \<Rightarrow> particle_status" where
  "star_status_of_drivers DsUnknown = StatusUnknown"
| "star_status_of_drivers DsPending = StatusPending"
| "star_status_of_drivers DsInit = StatusInit"
| "star_status_of_drivers DsReady = StatusReady"
| "star_status_of_drivers (DsRetrying _) = StatusPanic"
| "star_status_of_drivers (DsFatal _) = StatusFatal"

section \<open>Facts: coming up\<close>

text \<open>Initialising one driver after the other, when each of them reports that it is ready.\<close>

fun bring_up ::
  "(kind_selector \<Rightarrow> point option) \<Rightarrow> (registration \<Rightarrow> bool) \<Rightarrow> nat \<Rightarrow> drivers \<Rightarrow> drivers option" where
  "bring_up at registers 0 dr = Some dr"
| "bring_up at registers (Suc n) dr =
     (case (drivers_init0 at registers dr :: (unit drivers_out list \<times> drivers) option) of
        None \<Rightarrow> None
      | Some (CreateDriver p f # _, dr) \<Rightarrow>
          (case (drivers_add \<lparr>da_kind = df_kind f, da_point = p\<rparr> dr :: (unit drivers_out list \<times> drivers) option) of
             None \<Rightarrow> None
           | Some (_, dr) \<Rightarrow> bring_up at registers n dr)
      | Some (_, dr) \<Rightarrow> Some dr)"

definition built :: "star_sub \<Rightarrow> driver_factory list \<Rightarrow> drivers_builder" where
  "built sub fs = foldl (\<lambda>b f. builder_add_post f b) (drivers_builder_new sub) fs"

definition external_of :: "driver_factory list \<Rightarrow> kind_selector list" where
  "external_of fs = map df_kind (filter (\<lambda>f. df_avail f = AvailExternal) fs)"

lemma built_eq:
  "db_factories (built sub fs) = driver_driver_factory # star_driver_factory sub # fs"
  "db_kinds (built sub fs) = map df_kind (driver_driver_factory # star_driver_factory sub # fs)"
  "db_external (built sub fs) = external_of fs"
proof -
  have "db_factories (foldl (\<lambda>b f. builder_add_post f b) b fs) = db_factories b @ fs \<and>
        db_kinds (foldl (\<lambda>b f. builder_add_post f b) b fs) = db_kinds b @ map df_kind fs \<and>
        db_external (foldl (\<lambda>b f. builder_add_post f b) b fs) = db_external b @ external_of fs" for b
    by (induction fs arbitrary: b) (simp_all add: builder_add_post_def external_of_def)
  then show "db_factories (built sub fs) = driver_driver_factory # star_driver_factory sub # fs"
    "db_kinds (built sub fs) = map df_kind (driver_driver_factory # star_driver_factory sub # fs)"
    "db_external (built sub fs) = external_of fs"
    by (simp_all add: built_def drivers_builder_new_def driver_driver_factory_def star_driver_factory_def star_sub_to_selector_def)
qed

text \<open>The drivers known are those of the factories gone through, at their points.\<close>

definition known :: "(kind_selector \<Rightarrow> point option) \<Rightarrow> driver_factory list \<Rightarrow> drivers \<Rightarrow> bool" where
  "known at fs dr \<longleftrightarrow>
     dom (dr_by_kind dr) = set (map df_kind fs) \<and>
     (\<forall>sel d. dr_by_kind dr sel = Some d \<longrightarrow> da_kind d = sel \<and> at sel = Some (da_point d))"

lemma find_driver_known:
  assumes "known at fs dr" "set (dr_external dr) \<subseteq> set (dr_kinds dr)"
  shows "find_driver dr kind =
     (case List.find (\<lambda>sel. kind_selector_matches sel kind) (dr_kinds dr) of Some sel \<Rightarrow> dr_by_kind dr sel | None \<Rightarrow> None)"
proof (cases "List.find (\<lambda>sel. kind_selector_matches sel kind) (dr_kinds dr)")
  case None
  then have "List.find (\<lambda>sel. kind_selector_matches sel kind) (dr_external dr) = None"
    using assms(2) by (auto simp: find_None_iff)
  then show ?thesis by (simp add: find_driver_def None)
qed (simp add: find_driver_def)

lemma drivers_add_known:
  assumes "known at fs dr" "at (df_kind f) = Some p"
    "kind_selector_matches (df_kind f) KDriver \<or> find_driver dr KDriver \<noteq> None"
    "dr_kinds dr = df_kind driver_driver_factory # sels"
  shows "\<exists>out. (drivers_add \<lparr>da_kind = df_kind f, da_point = p\<rparr> dr :: ('x drivers_out list \<times> drivers) option) =
     Some (out, dr\<lparr>dr_by_point := (dr_by_point dr)(p \<mapsto> \<lparr>da_kind = df_kind f, da_point = p\<rparr>),
                   dr_by_kind := (dr_by_kind dr)(df_kind f \<mapsto> \<lparr>da_kind = df_kind f, da_point = p\<rparr>)\<rparr>)"
  using assms(3,4)
  by (auto simp: drivers_add_def Let_def find_driver_def driver_driver_factory_def kind_selector_matches_def
      kind_selector_from_base_def split: option.splits if_splits)

lemma bring_up_known:
  assumes "known at done dr" "dr_kinds dr = map df_kind (done @ dr_factories dr)" "set (dr_external dr) \<subseteq> set (dr_kinds dr)"
    "hd (done @ dr_factories dr) = driver_driver_factory" "done @ dr_factories dr \<noteq> []"
    "\<And>r. registers r" "\<And>f. f \<in> set (dr_factories dr) \<Longrightarrow> at (df_kind f) \<noteq> None"
    "length (dr_factories dr) \<le> n"
  shows "\<exists>dr'. bring_up at registers n dr = Some dr' \<and> known at (done @ dr_factories dr) dr' \<and>
     dr_kinds dr' = dr_kinds dr \<and> dr_external dr' = dr_external dr \<and> dr_factories dr' = []"
  using assms
proof (induction n arbitrary: dr "done")
  case (Suc n)
  show ?case
  proof (cases "dr_factories dr")
    case Nil
    then show ?thesis using Suc.prems by (auto simp: drivers_init0_def)
  next
    case (Cons f fs)
    obtain p where p: "at (df_kind f) = Some p" using Suc.prems(7)[of f] Cons by auto
    let ?dr = "dr\<lparr>dr_factories := fs, dr_statuses := (dr_statuses dr)(kind_selector_from_base BKDriver \<mapsto> DsPending)\<rparr>"
    let ?d = "\<lparr>da_kind = df_kind f, da_point = p\<rparr>"
    let ?dr' = "?dr\<lparr>dr_by_point := (dr_by_point ?dr)(p \<mapsto> ?d), dr_by_kind := (dr_by_kind ?dr)(df_kind f \<mapsto> ?d)\<rparr>"
    have i: "drivers_init0 at registers dr = Some ([CreateDriver p f, StatusListen True] :: unit drivers_out list, ?dr)"
      using Cons p Suc.prems(6) by (simp add: drivers_init0_def drivers_create_def)
    obtain sels where sels: "dr_kinds dr = df_kind driver_driver_factory # sels"
      using Suc.prems(2,4,5) by (cases "done @ dr_factories dr") auto
    have "kind_selector_matches (df_kind f) KDriver \<or> find_driver ?dr KDriver \<noteq> None"
    proof (cases "done")
      case Nil
      then show ?thesis
        using Suc.prems(4) Cons
        by (simp add: driver_driver_factory_def kind_selector_matches_def kind_selector_from_base_def)
    next
      case (Cons g gs)
      then have "df_kind driver_driver_factory \<in> dom (dr_by_kind dr)"
        using Suc.prems(1,4) by (simp add: known_def)
      then show ?thesis
        by (auto simp: find_driver_def sels driver_driver_factory_def kind_selector_matches_def kind_selector_from_base_def)
    qed
    moreover have "known at done ?dr" using Suc.prems(1) by (simp add: known_def)
    ultimately obtain out where a: "drivers_add ?d ?dr = Some (out :: unit drivers_out list, ?dr')"
      using drivers_add_known[of at "done" ?dr f p sels] p sels by auto
    have k: "known at (done @ [f]) ?dr'"
      using Suc.prems(1) p by (auto simp: known_def)
    have "\<exists>dr'. bring_up at registers n ?dr' = Some dr' \<and> known at ((done @ [f]) @ dr_factories ?dr') dr' \<and>
        dr_kinds dr' = dr_kinds ?dr' \<and> dr_external dr' = dr_external ?dr' \<and> dr_factories dr' = []"
      using Suc.prems Cons k by (intro Suc.IH) auto
    then show ?thesis using i a Cons by simp
  qed
qed auto

text \<open>A star whose builder only adds drivers after its own two brings all of them up, whatever the
  kinds are: afterwards it finds a driver for a kind exactly when a factory offers the kind, and an
  external one exactly when an external factory does; and the driver it finds is of a selector that
  matches and at its point.\<close>

theorem drivers_come_up:
  assumes "\<And>f. f \<in> set (db_factories (built sub fs)) \<Longrightarrow> at (df_kind f) \<noteq> None"
  shows "\<exists>dr. bring_up at (\<lambda>_. True) (length (db_factories (built sub fs))) (drivers_new (built sub fs)) = Some dr \<and>
    (\<forall>kind. (find_driver dr kind \<noteq> None) = (\<exists>f \<in> set (db_factories (built sub fs)). kind_selector_matches (df_kind f) kind)) \<and>
    (\<forall>kind. (find_external dr kind \<noteq> None) =
       (\<exists>f \<in> set fs. df_avail f = AvailExternal \<and> kind_selector_matches (df_kind f) kind)) \<and>
    (\<forall>kind d. find_driver dr kind = Some d \<longrightarrow>
       kind_selector_matches (da_kind d) kind \<and> at (da_kind d) = Some (da_point d))"
proof -
  let ?fs = "db_factories (built sub fs)" and ?b = "built sub fs"
  have sub: "set (external_of fs) \<subseteq> set (map df_kind ?fs)"
    unfolding built_eq by (auto simp: external_of_def)
  obtain dr where dr: "bring_up at (\<lambda>_. True) (length ?fs) (drivers_new ?b) = Some dr" "known at ?fs dr"
    "dr_kinds dr = map df_kind ?fs" "dr_external dr = external_of fs"
    using bring_up_known[of at "[]" "drivers_new ?b" "\<lambda>_. True" "length ?fs"] assms sub
    by (auto simp: drivers_new_def built_eq known_def)
  have ex: "set (dr_external dr) \<subseteq> set (dr_kinds dr)" using sub dr by simp
  have dom: "dr_by_kind dr sel \<noteq> None \<longleftrightarrow> sel \<in> df_kind ` set ?fs" for sel
    using dr(2) by (auto simp: known_def)
  have at: "da_kind d = sel \<and> at sel = Some (da_point d)" if "dr_by_kind dr sel = Some d" for sel d
    using dr(2) that by (simp add: known_def)
  have f: "find_driver dr kind =
      (case List.find (\<lambda>sel. kind_selector_matches sel kind) (map df_kind ?fs) of Some sel \<Rightarrow> dr_by_kind dr sel | None \<Rightarrow> None)"
    for kind using find_driver_known[OF dr(2) ex] dr(3) by simp
  have 1: "(find_driver dr kind \<noteq> None) = (\<exists>f \<in> set ?fs. kind_selector_matches (df_kind f) kind)" for kind
  proof (cases "List.find (\<lambda>sel. kind_selector_matches sel kind) (map df_kind ?fs)")
    case None
    then have "\<forall>g \<in> set ?fs. \<not> kind_selector_matches (df_kind g) kind" by (auto simp: find_None_iff)
    then show ?thesis by (simp add: f None)
  next
    case (Some sel)
    then have "sel \<in> set (map df_kind ?fs)" "kind_selector_matches sel kind" by (auto simp: find_Some_iff)
    then show ?thesis using Some dom by (auto simp: f)
  qed
  have 2: "(find_external dr kind \<noteq> None) =
      (\<exists>f \<in> set fs. df_avail f = AvailExternal \<and> kind_selector_matches (df_kind f) kind)" for kind
  proof (cases "List.find (\<lambda>sel. kind_selector_matches sel kind) (external_of fs)")
    case None
    then have "\<forall>g \<in> set fs. df_avail g = AvailExternal \<longrightarrow> \<not> kind_selector_matches (df_kind g) kind"
      by (auto simp: find_None_iff external_of_def)
    then show ?thesis using None by (auto simp: find_external_def dr(4))
  next
    case (Some sel)
    then have s: "sel \<in> set (external_of fs)" "kind_selector_matches sel kind"
      by (auto simp: find_Some_iff)
    then have "dr_by_kind dr sel \<noteq> None" using dom sub by auto
    then show ?thesis using Some s by (auto simp: find_external_def dr(4) external_of_def)
  qed
  have 3: "kind_selector_matches (da_kind d) kind \<and> at (da_kind d) = Some (da_point d)"
    if "find_driver dr kind = Some d" for kind d
    using that at by (auto simp: f find_Some_iff split: option.splits)
  show ?thesis using dr(1) 1 2 3 by blast
qed

text \<open>A driver added before the star's own two makes its drivers panic, unless it is itself for
  drivers: the driver of drivers it is to be told to is not there yet.\<close>

theorem drivers_added_first_panic:
  assumes "\<not> kind_selector_matches (df_kind f) KDriver" "at (df_kind f) \<noteq> None"
  shows "bring_up at (\<lambda>_. True) (Suc n) (drivers_new (builder_add_pre f (built sub fs))) = None"
proof -
  obtain p where "at (df_kind f) = Some p" using assms(2) by auto
  moreover have "KindSelector (PExact BKDriver) PAny VPAny \<noteq> df_kind f"
    using assms(1) by (auto simp: kind_selector_matches_def dest!: sym[of _ "df_kind f"])
  ultimately show ?thesis
    using assms(1)
    by (auto simp: drivers_init0_def drivers_create_def drivers_new_def builder_add_pre_def built_eq drivers_add_def
        find_driver_def driver_driver_factory_def kind_selector_matches_def kind_selector_from_base_def)
qed

lemma status_round_ready:
  "status_round c sts = (if c then RoundComplete else RoundSend DsReady) \<longleftrightarrow> (\<forall>st \<in> set sts. st = DsReady)"
  "status_round True sts = RoundComplete \<longleftrightarrow> (\<forall>st \<in> set sts. st = DsReady)"
proof -
  have "length (filter (\<lambda>st. st = DsReady) sts) = length sts \<longleftrightarrow> (\<forall>st \<in> set sts. st = DsReady)"
    by (metis (mono_tags, lifting) filter_True filter_id_conv length_filter_less less_irrefl)
  then show "status_round c sts = (if c then RoundComplete else RoundSend DsReady) \<longleftrightarrow> (\<forall>st \<in> set sts. st = DsReady)"
    "status_round True sts = RoundComplete \<longleftrightarrow> (\<forall>st \<in> set sts. st = DsReady)"
    by (auto simp: status_round_def Let_def)
qed

lemma carry_fatal: "is_fatal st \<Longrightarrow> st \<in> set sts \<Longrightarrow> is_fatal (carry_statuses seen sts)"
  by (induction sts arbitrary: seen) auto

lemma round_with_retry:
  assumes "DsRetrying msg \<in> set sts"
  shows "\<exists>st. is_fatal st \<and> (status_round c sts = RoundSend st \<or> status_round c sts = RoundFatal st)"
proof -
  have "length (filter (\<lambda>st. st = DsReady) sts) < length sts"
    using assms by (intro length_filter_less[of "DsRetrying msg"]) auto
  moreover have "0 < length (filter is_retrying sts)"
    using assms by (auto simp: filter_empty_conv is_retrying_def intro!: bexI[of _ "DsRetrying msg"])
  ultimately show ?thesis by (auto simp: status_round_def Let_def is_fatal_def)
qed

text \<open>A driver that tries again makes its star fatal for good, even when it becomes ready later: the
  retry is reported as a fatal status, and the statuses after a fatal one are not carried on.  The
  rounds before it must not have been fatal or complete.\<close>

theorem retrying_drivers_stay_fatal:
  assumes "DsRetrying msg \<in> set sts"
    and "\<And>r. r \<in> set before \<Longrightarrow> r \<noteq> [] \<and> (\<exists>st. status_round on_complete r = RoundSend st)"
  shows "star_status_of_drivers (carry_statuses seen (fst (status_rounds on_complete (before @ sts # after)))) = StatusFatal"
proof -
  let ?out = "\<lambda>rs. fst (status_rounds on_complete rs)"
  have "\<exists>st \<in> set (?out (before @ sts # after)). is_fatal st"
    using assms(2)
  proof (induction before)
    case Nil
    obtain st where st: "is_fatal st" "status_round on_complete sts = RoundSend st \<or> status_round on_complete sts = RoundFatal st"
      using round_with_retry[OF assms(1)] by blast
    moreover have "sts \<noteq> []" using assms(1) by auto
    ultimately show ?case by (auto split: prod.splits)
  next
    case (Cons r before)
    then obtain st where "r \<noteq> []" "status_round on_complete r = RoundSend st" by auto
    moreover have "\<exists>st \<in> set (?out (before @ sts # after)). is_fatal st" using Cons by auto
    ultimately show ?case by (auto split: prod.splits)
  qed
  then have "is_fatal (carry_statuses seen (?out (before @ sts # after)))" using carry_fatal by blast
  then show ?thesis by (auto simp: is_fatal_def split: driver_status.splits)
qed

lemma retrying_drivers_stay_fatal_witness:
  "star_status_of_drivers (carry_statuses DsPending
     (fst (status_rounds True ([[DsInit]] @ [DsRetrying ''again''] # [[DsReady]])))) = StatusFatal"
  by (rule retrying_drivers_stay_fatal[of "''again''"]) (auto simp: status_round_def is_fatal_def is_retrying_def)

section \<open>Items\<close>

text \<open>What a driver keeps for a particle: a handler, with what its \<open>init\<close> and its handling answer, or a
  router.\<close>

datatype 'x item_sphere =
    ItemHandler "space_err + particle_status" "'x root_ctx \<Rightarrow> 'x rcore bounce"
  | ItemRouter

definition item_init :: "'x item_sphere \<Rightarrow> space_err + particle_status" where
  "item_init item = (case item of ItemHandler st _ \<Rightarrow> st | ItemRouter \<Rightarrow> Inr StatusReady)"

datatype 'x item_out =
    SetStatus point particle_status
  | RouteWave "'x ultrawave"
  | InjectItem "'x injection"
  | RouterTraverse "'x ultrawave traversal"
  | ExchangerReflected "'x reflected"

text \<open>\<open>ItemOuter\<close>, at the surface of the item: its waves go in at the layer \<open>Guest\<close>.\<close>

definition item_inject :: "surface \<Rightarrow> 'x ultrawave \<Rightarrow> 'x item_out" where
  "item_inject surf w = InjectItem (injection_new (with_layer surf Guest) w)"

definition item_deliver_directed ::
  "uuid \<Rightarrow> surface \<Rightarrow> 'x item_sphere \<Rightarrow> 'x directed traversal \<Rightarrow> space_err + 'x item_out list" where
  "item_deliver_directed u surf item t =
     (let d = tv_payload t
      in case item of
           ItemHandler st handle \<Rightarrow>
             if dc_method (dw_core d) = Cmd CmdInit then
               res_bind (dw_reflection d) (\<lambda>reflection.
                 case st of
                   Inr ready \<Rightarrow>
                     Inr [SetStatus (surf_point surf) ready,
                          RouteWave (rw_to_ultra (reflection_make u reflection rcore_ok surf))]
                 | Inl err \<Rightarrow>
                     Inr [SetStatus (surf_point surf) StatusPanic,
                          RouteWave (rw_to_ultra (reflection_make u reflection (rcore_err err) surf))])
             else (case handle \<lparr>ctx_to = tv_to t, ctx_wave = d\<rparr> of
                     Absorbed \<Rightarrow> Inr []
                   | Reflected core \<Rightarrow>
                       res_bind (dw_reflection d) (\<lambda>reflection.
                         Inr [item_inject surf (rw_to_ultra (reflection_make u reflection core surf))]))
         | ItemRouter \<Rightarrow> Inr [RouterTraverse (wrap_directed t)])"

definition item_deliver_reflected ::
  "surface \<Rightarrow> 'x item_sphere \<Rightarrow> 'x reflected traversal \<Rightarrow> space_err + 'x item_out list" where
  "item_deliver_reflected surf item t =
     (if surf_layer (rw_to (tv_payload t)) = surf_layer surf then Inr [ExchangerReflected (tv_payload t)]
      else (case item of
              ItemRouter \<Rightarrow> Inr [RouterTraverse (wrap_reflected t)]
            | ItemHandler _ _ \<Rightarrow>
                Inl (err_of_string (''cannot deliver a reflected to an ItemHandler::Handler, it must be an '' @
                  ''ItemHandler::Router''))))"

section \<open>The runner of a driver\<close>

text \<open>\<open>traverse\<close>: the item of the recipient, at the layer of the driver.  The tasks' errors are logged;
  \<open>None\<close> is a panic of an unwrapping.\<close>

definition runner_traverse ::
  "uuid \<Rightarrow> (point \<Rightarrow> cosmic_err + 'x item_sphere) \<Rightarrow> layer \<Rightarrow> 'x ultrawave traversal \<Rightarrow> (cosmic_err + 'x item_out list) option" where
  "runner_traverse u item_of layer t =
     (case item_of (surf_point (tv_to t)) of
        Inl err \<Rightarrow> Some (Inl err)
      | Inr item \<Rightarrow>
          (let surf = with_layer (to_surface (surf_point (tv_to t))) layer;
               logged = (\<lambda>r. case r of Inr out \<Rightarrow> Inr out | Inl _ \<Rightarrow> Inr [])
           in if tv_is_directed t
              then map_option (\<lambda>d. logged (item_deliver_directed u surf item d)) (unwrap_directed t)
              else map_option (\<lambda>r. logged (item_deliver_reflected surf item r)) (unwrap_reflected t)))"

text \<open>\<open>Handle\<close>: a wave for the driver itself.\<close>

definition runner_handle ::
  "uuid \<Rightarrow> ('x root_ctx \<Rightarrow> 'x rcore bounce) \<Rightarrow> point \<Rightarrow> 'x ultrawave traversal \<Rightarrow> 'x item_out list option" where
  "runner_handle u handle driver t =
     (case uw_to_directed (tv_payload t) of
        Inr d \<Rightarrow>
          (case unwrap_single (dw_to d) of
             None \<Rightarrow> None
           | Some port \<Rightarrow>
               (case handle \<lparr>ctx_to = port, ctx_wave = d\<rparr> of
                  Absorbed \<Rightarrow> Some []
                | Reflected core \<Rightarrow>
                    (case dw_reflection d of
                       Inr reflection \<Rightarrow>
                         Some [RouteWave (rw_to_ultra (reflection_make u reflection core
                                 (with_layer (to_surface driver) Core)))]
                     | Inl _ \<Rightarrow> None)))
      | Inl _ \<Rightarrow>
          (case uw_to_reflected (tv_payload t) of
             Inr r \<Rightarrow> Some [ExchangerReflected r]
           | Inl _ \<Rightarrow> None))"

text \<open>The driver of drivers keeps the drivers it is told of; its items route to them.\<close>

definition driver_driver_add :: "driver_api \<Rightarrow> (point \<rightharpoonup> driver_api) \<Rightarrow> (point \<rightharpoonup> driver_api)" where
  "driver_driver_add d m = m(da_point d \<mapsto> d)"

definition driver_driver_item :: "(point \<rightharpoonup> driver_api) \<Rightarrow> point \<Rightarrow> cosmic_err + driver_api" where
  "driver_driver_item m p =
     ok_or (m p) (cosmic_err_new (''DriverApi is not associated with point: '' @ point_to_string p @ '' ''))"

section \<open>A star starts\<close>

definition local_star :: point where
  "local_star = \<lparr>route = RSLocal, segments = [PSSpace ''star'']\<rparr>"

definition ensure_registration :: "point \<Rightarrow> kind \<Rightarrow> registration" where
  "ensure_registration p kind =
     \<lparr>reg_point = p, reg_kind = kind, reg_registry = [], reg_props = set_properties_new, reg_owner = hyperuser,
      reg_strategy = StrategyEnsure, reg_status = StatusReady\<rparr>"

text \<open>Steps on the registry, in memory, and on what the star keeps.\<close>

type_synonym 'a star_io = "(mem_reg \<times> star_env, 'a) io"

definition on_registry :: "(mem_reg, 'a) io \<Rightarrow> 'a star_io" where
  "on_registry m = (\<lambda>(s, e). map_option (\<lambda>(r, s). (r, (s, e))) (m s))"

definition on_states :: "(star_env \<Rightarrow> star_env) \<Rightarrow> unit star_io" where
  "on_states f = (\<lambda>(s, e). Some (Inr (), (s, f e)))"

text \<open>\<open>StarDriver::init\<close>: the star is a particle located at itself.\<close>

definition star_driver_init :: "point \<Rightarrow> star_sub \<Rightarrow> unit star_io" where
  "star_driver_init p sub =
     io_bind (on_states (create_shell p)) (\<lambda>_.
     io_bind (on_registry (mem_register (ensure_registration p (KStar sub)))) (\<lambda>_.
       on_registry (mem_assign_star p p)))"

text \<open>The item of the central star registers the root and the global executor when it is initialised;
  the executor is located at whichever star is asked.\<close>

definition star_bring_here :: "point \<Rightarrow> kind \<Rightarrow> point \<Rightarrow> unit star_io" where
  "star_bring_here p kind star =
     io_bind (on_registry (mem_register (ensure_registration p kind))) (\<lambda>_.
     io_bind (on_registry (mem_record p)) (\<lambda>record.
     io_bind (on_states (create_shell (stub_point (det_stub (rec_details record))))) (\<lambda>_.
       on_registry (mem_assign_star p star))))"

definition star_item_start :: "point \<Rightarrow> star_sub \<Rightarrow> particle_status star_io" where
  "star_item_start p sub =
     (case sub of
        StarCentral \<Rightarrow>
          io_bind (star_bring_here root_point KRoot p) (\<lambda>_.
          io_bind (star_bring_here global_exec KGlobal local_star) (\<lambda>_. io_return StatusReady))
      | _ \<Rightarrow> io_return StatusReady)"

lemma on_registry_bind [simp]:
  "io_bind (on_registry m) f (s, e) =
     (case m s of None \<Rightarrow> None | Some (Inl err, s) \<Rightarrow> Some (Inl err, (s, e)) | Some (Inr a, s) \<Rightarrow> f a (s, e))"
  by (auto simp: io_bind_def on_registry_def split: option.split sum.split)

lemma on_states_bind [simp]: "io_bind (on_states g) f (s, e) = f () (s, g e)"
  by (simp add: io_bind_def on_states_def)

lemma mem_register_there:
  "\<exists>rec. mem_register r s = Some (Inr (), s\<lparr>mem_properties := (mem_properties s)(reg_point r \<mapsto>
       foldl set_property Map.empty (reg_props r)), mem_particles := (mem_particles s)(reg_point r \<mapsto> rec)\<rparr>) \<and>
     stub_point (det_stub (rec_details rec)) = reg_point r \<and> stub_kind (det_stub (rec_details rec)) = reg_kind r \<and>
     rec_location rec = particle_location_default"
  by (simp add: mem_register_def io_bind_def mem_set_properties_def mem_get_properties_def)
    (rule exI, rule conjI, rule refl, simp)

lemma star_bring_here_eq:
  "\<exists>s'. star_bring_here p kind star (s, e) = Some (Inr (), (s', create_shell p e)) \<and>
     (\<exists>rec. mem_particles s' = (mem_particles s)(p \<mapsto> rec) \<and> loc_star (rec_location rec) = Some star \<and>
        stub_kind (det_stub (rec_details rec)) = kind)"
proof -
  obtain rec where r: "mem_register (ensure_registration p kind) s =
      Some (Inr (), s\<lparr>mem_properties := (mem_properties s)(p \<mapsto> Map.empty), mem_particles := (mem_particles s)(p \<mapsto> rec)\<rparr>)"
    "stub_point (det_stub (rec_details rec)) = p" "stub_kind (det_stub (rec_details rec)) = kind"
    using mem_register_there[of "ensure_registration p kind" s]
    by (auto simp: ensure_registration_def set_properties_new_def)
  then show ?thesis
    by (simp add: star_bring_here_def mem_record_def io_bind_def[of "mem_get_properties p"] mem_get_properties_def
        on_registry_def[of "mem_assign_star p star"] mem_assign_star_def)
      (rule exI, rule conjI, rule refl, simp)
qed

text \<open>However the registry looks, the central star comes up without an error: the root is a particle
  of its own, located at it, the global executor is located at the local star, and it keeps the shells
  of both; no other particle changes.\<close>

theorem central_star_starts:
  "\<exists>s' e'. star_item_start p StarCentral (s, e) = Some (Inr StatusReady, (s', e')) \<and>
     se_shell e' root_point \<and> se_shell e' global_exec \<and>
     (\<exists>r. mem_particles s' root_point = Some r \<and> loc_star (rec_location r) = Some p \<and>
        stub_kind (det_stub (rec_details r)) = KRoot) \<and>
     (\<exists>r. mem_particles s' global_exec = Some r \<and> loc_star (rec_location r) = Some local_star \<and>
        stub_kind (det_stub (rec_details r)) = KGlobal) \<and>
     (\<forall>q. q \<noteq> root_point \<longrightarrow> q \<noteq> global_exec \<longrightarrow> mem_particles s' q = mem_particles s q)"
proof -
  obtain s1 r1 where 1: "star_bring_here root_point KRoot p (s, e) = Some (Inr (), (s1, create_shell root_point e))"
    "mem_particles s1 = (mem_particles s)(root_point \<mapsto> r1)" "loc_star (rec_location r1) = Some p"
    "stub_kind (det_stub (rec_details r1)) = KRoot"
    using star_bring_here_eq by blast
  obtain s2 r2 where 2: "star_bring_here global_exec KGlobal local_star (s1, create_shell root_point e) =
      Some (Inr (), (s2, create_shell global_exec (create_shell root_point e)))"
    "mem_particles s2 = (mem_particles s1)(global_exec \<mapsto> r2)" "loc_star (rec_location r2) = Some local_star"
    "stub_kind (det_stub (rec_details r2)) = KGlobal"
    using star_bring_here_eq by blast
  have "root_point \<noteq> global_exec" by (simp add: root_point_def global_exec_def)
  then show ?thesis
    using 1 2 by (auto simp: star_item_start_def io_bind_def create_shell_def)
qed

lemma central_star_starts_witness:
  "\<exists>s' e'. star_item_start local_star StarCentral (mem_reg_new, sample_fold) = Some (Inr StatusReady, (s', e')) \<and>
     mem_particles s' hyperuser = None"
proof -
  have "hyperuser \<noteq> root_point" "hyperuser \<noteq> global_exec"
    by (simp_all add: hyperuser_def root_point_def global_exec_def)
  then show ?thesis
    using central_star_starts[of local_star mem_reg_new sample_fold] by (auto simp: mem_reg_new_def)
qed

end
