(* ===== verification/Lanes.thy ===== *)
theory Lanes
  imports Exchange
begin

text \<open>
  Hyperlanes, hyperways and the interchange that joins them (\<open>cosmic-hyperlane/src/lib.rs\<close>).  A lane is
  a task with a channel of calls, a queue and a listener; a hyperway has two of them.  Tasks are
  records of what they own, and a turn of a task handles one call of its channel.
\<close>

section \<open>Transforms\<close>

datatype transform =
    AgentTransform agent
  | LayerTransform layer
  | TransportTransform surface
  | HopTransform surface
  | ToTransform surface
  | FromTransform surface

text \<open>The filter of a transform, where \<open>u\<close> and \<open>v\<close> are the uuids of a wave it wraps; \<open>None\<close> is a panic
  of \<open>unwrap\<close>.\<close>

fun transform_filter :: "uuid \<Rightarrow> uuid \<Rightarrow> transform \<Rightarrow> 'x ultrawave \<Rightarrow> 'x ultrawave option" where
  "transform_filter u v (AgentTransform agent) w = Some (uw_set_agent agent w)"
| "transform_filter u v (LayerTransform layer) w =
     (case to_single (uw_to w) of
        Inr to \<Rightarrow> Some (uw_set_to (with_layer to layer) w)
      | Inl _ \<Rightarrow> None)"
| "transform_filter u v (TransportTransform to) w =
     (case dp_build v (wrap_in_transport u w (uw_from w) to) of
        Inr d \<Rightarrow> Some (dw_to_ultra d)
      | Inl _ \<Rightarrow> None)"
| "transform_filter u v (HopTransform to) w =
     (case uw_to_signal w of
        Inr signal \<Rightarrow>
          (case dp_build v (wrap_in_hop u signal (w_from signal) to) of
             Inr d \<Rightarrow> Some (dw_to_ultra d)
           | Inl _ \<Rightarrow> None)
      | Inl _ \<Rightarrow> None)"
| "transform_filter u v (ToTransform to) w = Some (uw_set_to to w)"
| "transform_filter u v (FromTransform from) w = Some (uw_set_from from w)"

text \<open>All transforms of a lane in turn, with a supply \<open>ids\<close> of uuids.\<close>

fun filter_all :: "(nat \<Rightarrow> uuid) \<Rightarrow> transform list \<Rightarrow> 'x ultrawave \<Rightarrow> 'x ultrawave option" where
  "filter_all ids [] w = Some w"
| "filter_all ids (t # ts) w =
     (case transform_filter (ids 0) (ids 1) t w of
        None \<Rightarrow> None
      | Some w \<Rightarrow> filter_all (\<lambda>n. ids (n + 2)) ts w)"

section \<open>A lane\<close>

datatype ('x, 'e) lane_call =
    LaneDrain
  | LaneExt 'e
  | LaneResetExt
  | LaneWave "'x ultrawave"
  | LaneTransform transform

record ('x, 'e) lane =
  ln_calls :: "('x, 'e) lane_call list"
  ln_ext :: "'e option"
  ln_queue :: "'x ultrawave list"
  ln_transforms :: "transform list"

definition lane_new :: "('x, 'e) lane" where
  "lane_new = \<lparr>ln_calls = [], ln_ext = None, ln_queue = [], ln_transforms = []\<rparr>"

text \<open>The channel of calls holds 1024 of them: \<open>try_send\<close> drops a call that finds it full.\<close>

definition lane_full :: "('x, 'e) lane \<Rightarrow> bool" where
  "lane_full l \<longleftrightarrow> length (ln_calls l) \<ge> 1024"

definition lane_post :: "('x, 'e) lane_call \<Rightarrow> ('x, 'e) lane \<Rightarrow> ('x, 'e) lane" where
  "lane_post c l = (if lane_full l then l else l\<lparr>ln_calls := ln_calls l @ [c]\<rparr>)"

text \<open>\<open>while queue.len() > 1024\<close>: the oldest waves are dropped.\<close>

function trim_queue :: "'w list \<Rightarrow> 'w list" where
  "trim_queue q = (if length q > 1024 then trim_queue (tl q) else q)"
  by auto
termination by (relation "measure length") auto

declare trim_queue.simps [simp del]

definition lane_apply :: "(nat \<Rightarrow> uuid) \<Rightarrow> ('x, 'e) lane_call \<Rightarrow> ('x, 'e) lane \<Rightarrow> ('x, 'e) lane option" where
  "lane_apply ids c l =
     (case c of
        LaneExt ext \<Rightarrow> Some (l\<lparr>ln_ext := Some ext\<rparr>)
      | LaneTransform t \<Rightarrow> Some (l\<lparr>ln_transforms := ln_transforms l @ [t]\<rparr>)
      | LaneWave w \<Rightarrow>
          (case filter_all ids (ln_transforms l) w of
             None \<Rightarrow> None
           | Some w \<Rightarrow> Some (l\<lparr>ln_queue := trim_queue (ln_queue l) @ [w]\<rparr>))
      | LaneDrain \<Rightarrow> Some l
      | LaneResetExt \<Rightarrow> Some (l\<lparr>ln_ext := None\<rparr>))"

text \<open>A wave the listener does not take resets the listener and is sent to the lane again: the reset
  waits for room in the channel, which only this task can make; the wave is dropped when there is no
  room for it.\<close>

fun repost :: "'x ultrawave list \<Rightarrow> ('x, 'e) lane \<Rightarrow> ('x, 'e) lane option" where
  "repost [] l = Some l"
| "repost (w # ws) l =
     (if lane_full l then None
      else repost ws (lane_post (LaneWave w) (lane_post LaneResetExt l)))"

datatype ('x, 'e) lane_result =
    LaneOn "('e \<times> 'x ultrawave) list" "('x, 'e) lane"
  | LaneStuck "('e \<times> 'x ultrawave) list"
  | LanePanic

text \<open>The queue goes to the listener, which takes \<open>acc\<close> waves before its end is dropped.\<close>

definition lane_flush :: "('e \<Rightarrow> nat) \<Rightarrow> ('x, 'e) lane \<Rightarrow> ('x, 'e) lane_result" where
  "lane_flush acc l =
     (case ln_ext l of
        Some ext \<Rightarrow>
          (let sent = map (Pair ext) (take (acc ext) (ln_queue l))
           in case repost (drop (acc ext) (ln_queue l)) (l\<lparr>ln_queue := []\<rparr>) of
                None \<Rightarrow> LaneStuck sent
              | Some l \<Rightarrow> LaneOn sent l)
      | None \<Rightarrow> LaneOn [] l)"

definition lane_turn :: "(nat \<Rightarrow> uuid) \<Rightarrow> ('e \<Rightarrow> nat) \<Rightarrow> ('x, 'e) lane \<Rightarrow> ('x, 'e) lane_result" where
  "lane_turn ids acc l =
     (case ln_calls l of
        [] \<Rightarrow> LaneOn [] l
      | c # cs \<Rightarrow>
          (case lane_apply ids c (l\<lparr>ln_calls := cs\<rparr>) of
             None \<Rightarrow> LanePanic
           | Some l \<Rightarrow> lane_flush acc l))"

text \<open>\<open>k\<close> turns of the task.\<close>

fun lane_turns :: "(nat \<Rightarrow> nat \<Rightarrow> uuid) \<Rightarrow> ('e \<Rightarrow> nat) \<Rightarrow> nat \<Rightarrow> ('x, 'e) lane \<Rightarrow> ('x, 'e) lane_result" where
  "lane_turns ids acc 0 l = LaneOn [] l"
| "lane_turns ids acc (Suc k) l =
     (case lane_turn (ids k) acc l of
        LaneOn ds l \<Rightarrow>
          (case lane_turns ids acc k l of
             LaneOn ds' l \<Rightarrow> LaneOn (ds @ ds') l
           | LaneStuck ds' \<Rightarrow> LaneStuck (ds @ ds')
           | LanePanic \<Rightarrow> LanePanic)
      | LaneStuck ds \<Rightarrow> LaneStuck ds
      | LanePanic \<Rightarrow> LanePanic)"

section \<open>Hyperways\<close>

text \<open>Who listens to a lane: the interchange, or an endpoint that was handed out.\<close>

datatype listener = Interchange | Endpoint nat

type_synonym 'x hyperlane = "('x, listener) lane"

record 'x hyperway =
  hw_remote :: surface
  hw_outbound :: "'x hyperlane"
  hw_inbound :: "'x hyperlane"

definition hyperway_new :: "surface \<Rightarrow> agent \<Rightarrow> 'x hyperway" where
  "hyperway_new remote agent =
     \<lparr>hw_remote = remote, hw_outbound = lane_new,
      hw_inbound = lane_post (LaneTransform (AgentTransform agent))
                     (lane_post (LaneTransform (FromTransform remote)) lane_new)\<rparr>"

definition transform_inbound :: "transform \<Rightarrow> 'x hyperway \<Rightarrow> 'x hyperway" where
  "transform_inbound t h = h\<lparr>hw_inbound := lane_post (LaneTransform t) (hw_inbound h)\<rparr>"

definition transform_to :: "surface \<Rightarrow> 'x hyperway \<Rightarrow> 'x hyperway" where
  "transform_to to h = transform_inbound (ToTransform to) h"

text \<open>A send that waits is queued behind the calls of the channel.\<close>

definition lane_send :: "('x, 'e) lane_call \<Rightarrow> ('x, 'e) lane \<Rightarrow> ('x, 'e) lane" where
  "lane_send c l = l\<lparr>ln_calls := ln_calls l @ [c]\<rparr>"

text \<open>\<open>Hyperlane::send\<close> gives up after five seconds: \<open>late\<close> says whether a full channel takes longer.\<close>

definition lane_send_timeout :: "bool \<Rightarrow> 'x ultrawave \<Rightarrow> ('x, 'e) lane \<Rightarrow> ('x, 'e) lane" where
  "lane_send_timeout late w l = (if late \<and> lane_full l then l else lane_send (LaneWave w) l)"

text \<open>\<open>Hyperlane::rx\<close>: a new end, which first gets the initial wave.\<close>

definition lane_rx ::
  "'e \<Rightarrow> 'x ultrawave option \<Rightarrow> ('x, 'e) lane \<Rightarrow> ('e \<times> 'x ultrawave) list \<times> ('x, 'e) lane" where
  "lane_rx ext init l = (map (Pair ext) (case init of Some w \<Rightarrow> [w] | None \<Rightarrow> []), lane_send (LaneExt ext) l)"

definition endpoint_near ::
  "nat \<Rightarrow> 'x ultrawave option \<Rightarrow> 'x hyperway \<Rightarrow> (listener \<times> 'x ultrawave) list \<times> 'x hyperway" where
  "endpoint_near n init h =
     (case lane_rx (Endpoint n) init (hw_inbound h) of (ds, l) \<Rightarrow> (ds, h\<lparr>hw_inbound := l\<rparr>))"

definition endpoint_far ::
  "nat \<Rightarrow> 'x ultrawave option \<Rightarrow> 'x hyperway \<Rightarrow> (listener \<times> 'x ultrawave) list \<times> 'x hyperway" where
  "endpoint_far n init h =
     (case lane_rx (Endpoint n) init (hw_outbound h) of (ds, l) \<Rightarrow> (ds, h\<lparr>hw_outbound := l\<rparr>))"

section \<open>The interchange\<close>

record hyperway_stub =
  hs_agent :: agent
  hs_remote :: surface

definition stub_of_greet :: "greet \<Rightarrow> hyperway_stub" where
  "stub_of_greet g = \<lparr>hs_agent = gr_agent g, hs_remote = gr_surface g\<rparr>"

definition stub_from_port :: "surface \<Rightarrow> hyperway_stub" where
  "stub_from_port remote = \<lparr>hs_agent = to_agent (surf_point remote), hs_remote = remote\<rparr>"

definition hyperway_stub_new :: "surface \<Rightarrow> agent \<Rightarrow> hyperway_stub" where
  "hyperway_stub_new remote agent = \<lparr>hs_agent = agent, hs_remote = remote\<rparr>"

record 'x hub =
  hub_ways :: "surface \<rightharpoonup> 'x hyperway"
  hub_singular :: "surface option"

definition hub_new :: "'x hub" where
  "hub_new = \<lparr>hub_ways = Map.empty, hub_singular = None\<rparr>"

definition singular_to :: "surface \<Rightarrow> 'x hub \<Rightarrow> 'x hub" where
  "singular_to to hub = hub\<lparr>hub_singular := Some to\<rparr>"

datatype 'x hub_call =
    HubWave "'x ultrawave"
  | HubInternal "'x hyperway"
  | HubRemove surface
  | HubMount hyperway_stub "'x ultrawave option" nat

text \<open>What the interchange does with a call: the waves it hands to a new endpoint, and the error that a
  mount is answered with.  Waves it cannot route are only logged.\<close>

definition hub_handle ::
  "bool \<Rightarrow> 'x hub_call \<Rightarrow> 'x hub \<Rightarrow> (space_err + (listener \<times> 'x ultrawave) list) \<times> 'x hub" where
  "hub_handle late c hub =
     (case c of
        HubInternal h \<Rightarrow>
          (let h = h\<lparr>hw_inbound := lane_send (LaneExt Interchange) (hw_inbound h)\<rparr>
           in (Inr [], hub\<lparr>hub_ways := (hub_ways hub)(hw_remote h \<mapsto> h)\<rparr>))
      | HubRemove p \<Rightarrow> (Inr [], hub\<lparr>hub_ways := (hub_ways hub)(p := None)\<rparr>)
      | HubWave w \<Rightarrow>
          (case single_or (uw_to w) of
             Inl _ \<Rightarrow> (Inr [], hub)
           | Inr to \<Rightarrow>
               (case hub_ways hub to of
                  None \<Rightarrow> (Inr [], hub)
                | Some h \<Rightarrow>
                    (Inr [], hub\<lparr>hub_ways := (hub_ways hub)(to \<mapsto>
                       h\<lparr>hw_outbound := lane_send_timeout late w (hw_outbound h)\<rparr>)\<rparr>)))
      | HubMount stub init n \<Rightarrow>
          (case hub_ways hub (hs_remote stub) of
             None \<Rightarrow> (Inl (err_of_string (''hyperway '' @ surface_to_string (hs_remote stub) @ '' not found'')), hub)
           | Some h \<Rightarrow>
               (case endpoint_far n init h of
                  (ds, h) \<Rightarrow> (Inr ds, hub\<lparr>hub_ways := (hub_ways hub)(hs_remote stub \<mapsto> h)\<rparr>))))"

definition hub_add :: "'x hyperway \<Rightarrow> 'x hub \<Rightarrow> 'x hub" where
  "hub_add h hub =
     (let h = (case hub_singular hub of Some to \<Rightarrow> transform_to to h | None \<Rightarrow> h)
      in snd (hub_handle False (HubInternal h) hub))"

definition hub_mount ::
  "hyperway_stub \<Rightarrow> 'x ultrawave option \<Rightarrow> nat \<Rightarrow> 'x hub
   \<Rightarrow> (space_err + (listener \<times> 'x ultrawave) list) \<times> 'x hub" where
  "hub_mount stub init n hub = hub_handle False (HubMount stub init n) hub"

definition hub_route :: "bool \<Rightarrow> 'x ultrawave \<Rightarrow> 'x hub \<Rightarrow> 'x hub" where
  "hub_route late w hub = snd (hub_handle late (HubWave w) hub)"

definition hub_remove :: "surface \<Rightarrow> 'x hub \<Rightarrow> 'x hub" where
  "hub_remove p hub = snd (hub_handle False (HubRemove p) hub)"

section \<open>Facts: the queue of a lane\<close>

lemma trim_queue_eq: "trim_queue q = drop (length q - 1024) q"
proof (induction q rule: trim_queue.induct)
  case (1 q)
  show ?case
  proof (cases "length q > 1024")
    case True
    then have "trim_queue q = drop (length q - 1 - 1024) (tl q)"
      using 1 by (subst trim_queue.simps) simp
    also have "\<dots> = drop (Suc (length q - 1 - 1024)) q" by (simp add: drop_Suc)
    also have "Suc (length q - 1 - 1024) = length q - 1024" using True by arith
    finally show ?thesis .
  qed (subst trim_queue.simps, simp)
qed

lemma trim_queue_Nil [simp]: "trim_queue [] = []"
  by (simp add: trim_queue_eq)

lemma length_trim_queue [simp]: "length (trim_queue q) = min (length q) 1024"
  by (simp add: trim_queue_eq)

lemma lane_post_sel [simp]:
  "ln_queue (lane_post c l) = ln_queue l" "ln_ext (lane_post c l) = ln_ext l"
  "ln_transforms (lane_post c l) = ln_transforms l"
  "ln_queue (lane_send c l) = ln_queue l" "ln_ext (lane_send c l) = ln_ext l"
  "ln_transforms (lane_send c l) = ln_transforms l"
  by (simp_all add: lane_post_def lane_send_def)

lemma repost_sel:
  "repost ws l = Some l' \<Longrightarrow> ln_queue l' = ln_queue l \<and> ln_ext l' = ln_ext l \<and> ln_transforms l' = ln_transforms l"
  by (induction ws arbitrary: l) (auto split: if_splits)

text \<open>A wave for the examples.\<close>

abbreviation sample_lane_wave :: "'x ultrawave" where
  "sample_lane_wave \<equiv> Ping (wave_new (Uuid ''w'') WKPing
     (PingV (Surface root_point Core TopicNone) (dcore_new (Cmd CmdInit))) (Surface root_point Gravity TopicNone))"

text \<open>What can happen to a lane: calls arrive, on either way, and its task takes turns.  The relation
  collects what is delivered.\<close>

inductive lane_run ::
  "(transform \<Rightarrow> bool) \<Rightarrow> ('x, 'e) lane \<Rightarrow> ('e \<times> 'x ultrawave) list \<Rightarrow> ('x, 'e) lane \<Rightarrow> bool" for ok where
  run_start: "lane_run ok l [] l"
| run_post: "lane_run ok l ds l' \<Longrightarrow> (\<And>t. c = LaneTransform t \<Longrightarrow> ok t) \<Longrightarrow> lane_run ok l ds (lane_post c l')"
| run_send: "lane_run ok l ds l' \<Longrightarrow> (\<And>t. c = LaneTransform t \<Longrightarrow> ok t) \<Longrightarrow> lane_run ok l ds (lane_send c l')"
| run_turn: "lane_run ok l ds l' \<Longrightarrow> lane_turn ids acc l' = LaneOn ds' l'' \<Longrightarrow> lane_run ok l (ds @ ds') l''"

inductive_cases lane_runE: "lane_run ok l ds l'"

text \<open>A turn in its parts.\<close>

lemma lane_turn_cases:
  assumes "lane_turn ids acc l = LaneOn ds l'"
  obtains "ln_calls l = []" "ds = []" "l' = l"
  | c cs m where "ln_calls l = c # cs" "lane_apply ids c (l\<lparr>ln_calls := cs\<rparr>) = Some m"
    "ln_ext m = None" "ds = []" "l' = m"
  | c cs m ext where "ln_calls l = c # cs" "lane_apply ids c (l\<lparr>ln_calls := cs\<rparr>) = Some m"
    "ln_ext m = Some ext" "ds = map (Pair ext) (take (acc ext) (ln_queue m))"
    "repost (drop (acc ext) (ln_queue m)) (m\<lparr>ln_queue := []\<rparr>) = Some l'"
  using assms
  by (auto simp: lane_turn_def lane_flush_def Let_def split: list.splits option.splits)

lemma lane_apply_queue:
  "lane_apply ids c l = Some l' \<Longrightarrow> length (ln_queue l) \<le> 1025 \<Longrightarrow> length (ln_queue l') \<le> 1025"
  by (auto simp: lane_apply_def split: lane_call.splits option.splits)

text \<open>A lane keeps at most 1025 waves for a listener that is not there, one more than the bound of
  its loop says, whatever calls arrive.\<close>

theorem lane_queue_is_bounded:
  assumes "lane_run ok lane_new ds l"
  shows "length (ln_queue l) \<le> 1025"
proof -
  have "length (ln_queue l0) \<le> 1025 \<Longrightarrow> lane_run ok l0 ds l \<Longrightarrow> length (ln_queue l) \<le> 1025" for l0
  proof (rotate_tac, induction rule: lane_run.induct)
    case (run_turn l ds l' ids acc ds' l'')
    from run_turn.hyps(2) show ?case
    proof (cases rule: lane_turn_cases)
      case 3
      then show ?thesis by (auto dest: repost_sel)
    qed (use run_turn in \<open>auto dest: lane_apply_queue\<close>)
  qed auto
  from this[of lane_new] assms show ?thesis by (simp add: lane_new_def)
qed

lemma lane_queue_is_bounded_witness:
  "\<exists>l. lane_run (\<lambda>_. True) (lane_new :: ('x, nat) lane) [] l \<and> ln_calls l = [LaneWave sample_lane_wave] \<and> length (ln_queue l) \<le> 1025"
proof -
  have r: "lane_run (\<lambda>_. True) (lane_new :: ('x, nat) lane) [] (lane_post (LaneWave sample_lane_wave) lane_new)"
    by (intro run_post run_start) simp
  from lane_queue_is_bounded[OF r] r show ?thesis
    by (intro exI[of _ "lane_post (LaneWave sample_lane_wave) lane_new"]) (simp add: lane_post_def lane_new_def lane_full_def)
qed

section \<open>Facts: what a listener gets\<close>

lemma lane_turn_wave_unheard:
  assumes "ln_calls l = LaneWave w # cs" "ln_ext l = None" "filter_all ids (ln_transforms l) w = Some w'"
  shows "lane_turn ids acc l = LaneOn [] (l\<lparr>ln_calls := cs, ln_queue := trim_queue (ln_queue l) @ [w']\<rparr>)"
  using assms by (simp add: lane_turn_def lane_apply_def lane_flush_def)

lemma lane_turn_ext:
  assumes "ln_calls l = LaneExt ext # cs"
  shows "lane_turn ids acc l = lane_flush acc (l\<lparr>ln_calls := cs, ln_ext := Some ext\<rparr>)"
  using assms by (simp add: lane_turn_def lane_apply_def)

lemma backlog_collects:
  assumes "ln_ext l = None" "ln_calls l = map LaneWave ws @ [LaneExt ext]"
    "\<And>k w. filter_all (ids k) (ln_transforms l) w = Some (f w)" "acc ext \<ge> 1025" "length (ln_queue l) \<le> 1025"
  shows "\<exists>l'. lane_turns ids acc (length ws + 1) l =
            LaneOn (map (Pair ext) (drop (length (ln_queue l) + length ws - 1025) (ln_queue l @ map f ws))) l' \<and>
          ln_queue l' = [] \<and> ln_calls l' = [] \<and> ln_ext l' = Some ext"
  using assms
proof (induction ws arbitrary: l)
  case Nil
  then show ?case by (simp add: lane_turn_ext lane_flush_def Let_def)
next
  case (Cons w ws)
  let ?l = "l\<lparr>ln_calls := map LaneWave ws @ [LaneExt ext], ln_queue := trim_queue (ln_queue l) @ [f w]\<rparr>"
  have t: "lane_turn (ids (Suc (length ws))) acc l = LaneOn [] ?l"
    using Cons.prems by (intro lane_turn_wave_unheard) simp_all
  have q: "drop (length (ln_queue ?l) + length ws - 1025) (ln_queue ?l @ map f ws) =
      drop (length (ln_queue l) + length (w # ws) - 1025) (ln_queue l @ map f (w # ws))"
    using Cons.prems(5)
    by (cases "length (ln_queue l) = 1025") (simp_all add: trim_queue_eq drop_append)
  have "ln_ext ?l = None" "ln_calls ?l = map LaneWave ws @ [LaneExt ext]" "ln_transforms ?l = ln_transforms l"
    "length (ln_queue ?l) \<le> 1025"
    using Cons.prems by simp_all
  from Cons.IH[OF this(1,2) _ Cons.prems(4) this(4)] Cons.prems(3) this(3) t q
  show ?case by auto
qed

text \<open>A listener that comes late gets, in order and through all transforms, the last 1025 of the
  waves the lane was sent before; the older ones are gone.\<close>

theorem late_listener_gets_the_backlog:
  assumes "ln_ext l = None" "ln_queue l = []" "ln_calls l = map LaneWave ws @ [LaneExt ext]"
    "\<And>k w. filter_all (ids k) (ln_transforms l) w = Some (f w)" "acc ext \<ge> 1025"
  shows "\<exists>l'. lane_turns ids acc (length ws + 1) l =
            LaneOn (map (Pair ext) (drop (length ws - 1025) (map f ws))) l' \<and>
          ln_queue l' = [] \<and> ln_calls l' = [] \<and> ln_ext l' = Some ext"
  using backlog_collects[of l ws ext ids f acc] assms by simp

lemma late_listener_gets_the_backlog_witness:
  "\<exists>l'. lane_turns (\<lambda>_ _. Uuid ''u'') (\<lambda>_. 2000) 3
      ((lane_new :: ('x, nat) lane)\<lparr>ln_transforms := [AgentTransform AgentHyperUser], ln_calls := [LaneWave sample_lane_wave, LaneWave (uw_set_track True sample_lane_wave), LaneExt 7]\<rparr>) =
      LaneOn [(7, uw_set_agent AgentHyperUser sample_lane_wave), (7, uw_set_agent AgentHyperUser (uw_set_track True sample_lane_wave))] l'"
proof -
  let ?l = "(lane_new :: ('x, nat) lane)\<lparr>ln_transforms := [AgentTransform AgentHyperUser], ln_calls := [LaneWave sample_lane_wave, LaneWave (uw_set_track True sample_lane_wave), LaneExt 7]\<rparr>"
  have "ln_ext ?l = None" "ln_queue ?l = []" "ln_calls ?l = map LaneWave [sample_lane_wave, uw_set_track True sample_lane_wave] @ [LaneExt 7]"
    "filter_all ((\<lambda>_ _. Uuid ''u'') k) (ln_transforms ?l) x = Some (uw_set_agent AgentHyperUser x)" for k :: nat and x
    by (simp_all add: lane_new_def)
  from late_listener_gets_the_backlog[where acc = "\<lambda>_. 2000", OF this] show ?thesis
    by (auto simp: numeral_3_eq_3 simp del: lane_turns.simps)
qed

text \<open>When the listener of a lane has gone unnoticed and a new one is already waiting in the channel,
  the next wave makes the lane forget the new one as well: the reset for the old listener comes after
  the call that brings the new one.  The wave stays in the queue, through the transforms twice, and
  nobody is told that a listener is missing.\<close>

theorem new_listener_is_reset:
  assumes "ln_ext l = Some old" "acc old = 0" "ln_queue l = []" "ln_calls l = [LaneWave w, LaneExt new]"
    "\<And>k w. filter_all (ids k) (ln_transforms l) w = Some (f w)"
  shows "lane_turns ids acc 4 l =
           LaneOn [] (l\<lparr>ln_calls := [], ln_ext := None, ln_queue := [f (f w)]\<rparr>)"
  using assms
  by (simp add: eval_nat_numeral lane_turn_def lane_apply_def lane_flush_def Let_def lane_post_def lane_full_def)

lemma new_listener_is_reset_witness:
  "\<exists>l. lane_turns (\<lambda>_ _. Uuid ''u'') (\<lambda>e. if e = 1 then 0 else 100) 4
      ((lane_new :: ('x, nat) lane)\<lparr>ln_ext := Some 1, ln_calls := [LaneWave sample_lane_wave, LaneExt 2]\<rparr>) = LaneOn [] l \<and>
      ln_ext l = None \<and> ln_queue l = [sample_lane_wave]"
proof -
  let ?l = "(lane_new :: ('x, nat) lane)\<lparr>ln_ext := Some 1, ln_calls := [LaneWave sample_lane_wave, LaneExt 2]\<rparr>"
  have "ln_ext ?l = Some 1" "ln_queue ?l = []" "ln_calls ?l = [LaneWave sample_lane_wave, LaneExt 2]"
    "filter_all ((\<lambda>_ _. Uuid ''u'') k) (ln_transforms ?l) x = Some x" for k :: nat and x
    by (simp_all add: lane_new_def)
  from new_listener_is_reset[where acc = "\<lambda>e. if e = 1 then 0 else 100", OF this(1) _ this(2-4)]
  show ?thesis by simp
qed

section \<open>Facts: the identity of a hyperway\<close>

fun readdresses :: "transform \<Rightarrow> bool" where
  "readdresses (LayerTransform _) = True"
| "readdresses (ToTransform _) = True"
| "readdresses _ = False"

definition stamp :: "surface \<Rightarrow> agent \<Rightarrow> transform \<Rightarrow> bool" where
  "stamp r a t \<longleftrightarrow> readdresses t \<or> t = FromTransform r \<or> t = AgentTransform a"

definition stamped :: "surface \<Rightarrow> agent \<Rightarrow> 'x ultrawave \<Rightarrow> bool" where
  "stamped r a w \<longleftrightarrow> uw_from w = r \<and> uw_agent w = a"

lemma uw_setters [simp]:
  "uw_from (uw_set_from s w) = s" "uw_agent (uw_set_from s w) = uw_agent w"
  "uw_agent (uw_set_agent a w) = a" "uw_from (uw_set_agent a w) = uw_from w"
  "uw_from (uw_set_to s w') = uw_from w'" "uw_agent (uw_set_to s w') = uw_agent w'"
  by (cases w; simp)+ (cases w'; simp)+

lemma stamp_filter:
  assumes "stamp r a t" "transform_filter u v t w = Some w'"
  shows "uw_from w' = (if t = FromTransform r then r else uw_from w)"
    "uw_agent w' = (if t = AgentTransform a then a else uw_agent w)"
  using assms by (cases t; auto simp: stamp_def split: sum.splits)+

lemma filter_all_stamps:
  assumes "filter_all ids ts w = Some w'" "list_all (stamp r a) ts"
  shows "FromTransform r \<in> set ts \<or> uw_from w = r \<Longrightarrow> uw_from w' = r"
    "AgentTransform a \<in> set ts \<or> uw_agent w = a \<Longrightarrow> uw_agent w' = a"
  using assms
proof (induction ts arbitrary: w ids)
  case (Cons t ts)
  { case 1
    from 1(2) obtain m where m: "transform_filter (ids 0) (ids 1) t w = Some m"
      "filter_all (\<lambda>n. ids (n + 2)) ts m = Some w'" by (auto split: option.splits)
    show ?case using Cons.IH(1)[OF _ m(2)] stamp_filter(1)[OF _ m(1)] 1 by auto }
  { case 2
    from 2(2) obtain m where m: "transform_filter (ids 0) (ids 1) t w = Some m"
      "filter_all (\<lambda>n. ids (n + 2)) ts m = Some w'" by (auto split: option.splits)
    show ?case using Cons.IH(2)[OF _ m(2)] stamp_filter(2)[OF _ m(1)] 2 by auto }
qed auto

text \<open>The transforms that are in the channel before the first wave.\<close>

fun pending :: "('x, 'e) lane_call list \<Rightarrow> transform list" where
  "pending [] = []"
| "pending (LaneTransform t # cs) = t # pending cs"
| "pending (LaneWave _ # cs) = []"
| "pending (_ # cs) = pending cs"

lemma pending_append: "set (pending cs) \<subseteq> set (pending (cs @ ds))"
  by (induction cs rule: pending.induct) auto

definition lane_stamps :: "surface \<Rightarrow> agent \<Rightarrow> ('x, 'e) lane \<Rightarrow> bool" where
  "lane_stamps r a l \<longleftrightarrow>
     list_all (stamped r a) (ln_queue l) \<and> list_all (stamp r a) (ln_transforms l) \<and>
     (\<forall>t. LaneTransform t \<in> set (ln_calls l) \<longrightarrow> stamp r a t) \<and>
     {FromTransform r, AgentTransform a} \<subseteq> set (ln_transforms l) \<union> set (pending (ln_calls l))"

lemma lane_stamps_append:
  assumes "lane_stamps r a l" "\<And>t. c = LaneTransform t \<Longrightarrow> stamp r a t"
  shows "lane_stamps r a (l\<lparr>ln_calls := ln_calls l @ [c]\<rparr>)"
  using assms pending_append[of "ln_calls l" "[c]"] by (auto simp: lane_stamps_def)

lemma lane_post_stamps:
  assumes "lane_stamps r a l" "\<And>t. c = LaneTransform t \<Longrightarrow> stamp r a t"
  shows "lane_stamps r a (lane_post c l)" "lane_stamps r a (lane_send c l)"
  using lane_stamps_append[OF assms] assms(1) by (simp_all add: lane_post_def lane_send_def)

lemma repost_stamps:
  "repost ws l = Some l' \<Longrightarrow> lane_stamps r a l \<Longrightarrow> lane_stamps r a l'"
  by (induction ws arbitrary: l) (auto intro!: lane_post_stamps split: if_splits)

lemma lane_apply_stamps:
  assumes "ln_calls l = c # cs" "lane_apply ids c (l\<lparr>ln_calls := cs\<rparr>) = Some m" "lane_stamps r a l"
  shows "lane_stamps r a m"
proof (cases c)
  case (LaneWave w)
  then obtain w' where w: "filter_all ids (ln_transforms l) w = Some w'"
    "m = l\<lparr>ln_calls := cs, ln_queue := trim_queue (ln_queue l) @ [w']\<rparr>"
    using assms(2) by (auto simp: lane_apply_def split: option.splits)
  have "stamped r a w'"
    using filter_all_stamps[OF w(1)] assms(1,3) LaneWave by (auto simp: stamped_def lane_stamps_def)
  moreover have "list_all (stamped r a) (trim_queue (ln_queue l))"
    using assms(3) by (auto simp: lane_stamps_def trim_queue_eq list_all_iff dest: in_set_dropD)
  ultimately show ?thesis using assms(1,3) LaneWave w(2) by (auto simp: lane_stamps_def)
next
  case (LaneTransform t)
  then have "m = l\<lparr>ln_calls := cs, ln_transforms := ln_transforms l @ [t]\<rparr>"
    using assms(2) by (simp add: lane_apply_def)
  then show ?thesis using assms(1,3) LaneTransform by (auto simp: lane_stamps_def)
qed (use assms(1,3) assms(2)[symmetric] in \<open>simp_all add: lane_apply_def lane_stamps_def\<close>)

lemma lane_turn_stamps:
  assumes "lane_turn ids acc l = LaneOn ds l'" "lane_stamps r a l"
  shows "lane_stamps r a l' \<and> list_all (stamped r a) (map snd ds)"
  using assms(1)
proof (cases rule: lane_turn_cases)
  case (3 c cs m ext)
  have m: "lane_stamps r a m" by (rule lane_apply_stamps[OF 3(1,2) assms(2)])
  then have "lane_stamps r a (m\<lparr>ln_queue := []\<rparr>)" by (simp add: lane_stamps_def)
  moreover have "list_all (stamped r a) (ln_queue m)" using m by (simp add: lane_stamps_def)
  ultimately show ?thesis
    using repost_stamps[OF 3(5)] 3(4) by (auto simp: list_all_iff dest: in_set_takeD)
next
  case (2 c cs m)
  then show ?thesis using lane_apply_stamps[OF 2(1,2) assms(2)] by simp
qed (use assms(2) in simp)

lemma hyperway_new_stamps: "lane_stamps r a (hw_inbound (hyperway_new r a))"
  by (simp add: hyperway_new_def lane_post_def lane_new_def lane_full_def lane_stamps_def stamp_def)

text \<open>C37. Nobody on the other end of a hyperway can speak for somebody else: whatever it sends, and
  however often its connection breaks, every wave that comes in has the remote of the hyperway as its
  sender and the agent it was greeted with, when the transforms added later only readdress.\<close>

theorem inbound_waves_carry_their_identity:
  assumes "lane_run readdresses (hw_inbound (hyperway_new r a)) ds l" "(e, w) \<in> set ds"
  shows "uw_from w = r \<and> uw_agent w = a"
proof -
  have "lane_run readdresses l0 ds l \<Longrightarrow> lane_stamps r a l0 \<Longrightarrow>
      lane_stamps r a l \<and> list_all (stamped r a) (map snd ds)" for l0
  proof (induction rule: lane_run.induct)
    case (run_turn l ds l' ids acc ds' l'')
    then show ?case using lane_turn_stamps[OF run_turn.hyps(2), of r a] by simp
  next
    case (run_post l ds l' c)
    then show ?case by (auto simp: stamp_def intro!: lane_post_stamps)
  next
    case (run_send l ds l' c)
    then show ?case by (auto simp: stamp_def intro!: lane_post_stamps)
  qed simp
  from this[OF assms(1) hyperway_new_stamps] assms(2) show ?thesis by (force simp: stamped_def list_all_iff)
qed

definition sample_remote :: surface where
  "sample_remote = Surface root_point Gravity TopicNone"

lemma inbound_waves_carry_their_identity_witness:
  "\<exists>ds l. lane_run readdresses (hw_inbound (hyperway_new sample_remote AgentAnonymous)) ds l \<and>
    ds = [(Interchange, uw_set_agent AgentAnonymous (uw_set_from sample_remote (sample_lane_wave :: 'x ultrawave)))] \<and>
    uw_agent (snd (hd ds)) = AgentAnonymous"
proof -
  let ?l = "lane_send (LaneWave sample_lane_wave) (lane_send (LaneExt Interchange) (hw_inbound (hyperway_new sample_remote AgentAnonymous)))"
  let ?ds = "[(Interchange, uw_set_agent AgentAnonymous (uw_set_from sample_remote (sample_lane_wave :: 'x ultrawave)))]"
  have start: "lane_run readdresses (hw_inbound (hyperway_new sample_remote AgentAnonymous)) [] ?l"
    by (intro run_send run_start) simp_all
  have "\<exists>l1 l2 l3 l4. lane_turn (\<lambda>_. Uuid ''u'') (\<lambda>_. 1) ?l = LaneOn [] l1 \<and>
      lane_turn (\<lambda>_. Uuid ''u'') (\<lambda>_. 1) l1 = LaneOn [] l2 \<and>
      lane_turn (\<lambda>_. Uuid ''u'') (\<lambda>_. 1) l2 = LaneOn [] l3 \<and>
      lane_turn (\<lambda>_. Uuid ''u'') (\<lambda>_. 1) l3 = LaneOn ?ds l4"
    by (simp add: lane_turn_def lane_apply_def lane_flush_def Let_def lane_post_def lane_send_def lane_full_def
        hyperway_new_def lane_new_def trim_queue_eq)
  then obtain l4 where "lane_run readdresses (hw_inbound (hyperway_new sample_remote AgentAnonymous)) ?ds l4"
    using run_turn[OF run_turn[OF run_turn[OF run_turn[OF start]]]] by (metis append_Nil append_Nil2)
  from this inbound_waves_carry_their_identity[OF this, of Interchange] show ?thesis
    by (intro exI[of _ ?ds] exI[of _ l4]) simp
qed

end
