(* ===== verification/Gates.thy ===== *)
theory Gates
  imports Lanes
begin

text \<open>
  Who may connect to an interchange (\<open>cosmic-hyperlane/src/lib.rs\<close>): authenticators, the greeter, the
  gates and their selector, the tokens that are handed out, and the version gate.  Points are made by
  the parser \<open>from_str\<close>, an argument.
\<close>

section \<open>Authenticators\<close>

definition token_auth :: "agent \<Rightarrow> string \<Rightarrow> 'x substance knock \<Rightarrow> space_err + hyperway_stub" where
  "token_auth agent token knock =
     (case kn_auth knock of
        SToken t \<Rightarrow>
          if t = token then
            res_bind (ok_or (kn_remote knock) (err_of_string ''expected a remote entry selection'')) (\<lambda>remote.
              Inr (hyperway_stub_new remote agent))
          else Inl (Status 500 ''invalid token'')
      | _ \<Rightarrow> Inl (Status 500 ''expected Subtance: Token''))"

text \<open>The whitelist is one of points: layer and topic of the remote are not looked at.\<close>

definition whitelist_auth :: "agent \<Rightarrow> string \<Rightarrow> point set \<Rightarrow> 'x substance knock \<Rightarrow> space_err + hyperway_stub" where
  "whitelist_auth agent token whitelist knock =
     (case kn_auth knock of
        SToken t \<Rightarrow>
          if t = token then
            res_bind (ok_or (kn_remote knock) (Status 500 ''expected a remote entry selection'')) (\<lambda>remote.
              if surf_point remote \<in> whitelist then Inr (hyperway_stub_new remote agent)
              else Inl (Status 500 ''remote is not part of the whitelist''))
          else Inl (Status 500 ''invalid token'')
      | _ \<Rightarrow> Inl (Status 500 ''expecting Substance: Token''))"

definition anon_auth :: "'x substance knock \<Rightarrow> space_err + hyperway_stub" where
  "anon_auth knock =
     res_bind (ok_or (kn_remote knock) (Status 500 ''required remote point request'')) (\<lambda>remote.
       Inr (hyperway_stub_new remote AgentAnonymous))"

text \<open>\<open>PointFactoryU64\<close>: a counter, which also counts the points it could not make.\<close>

record point_factory =
  pf_parent :: point
  pf_prefix :: string
  pf_next :: "64 word"

definition point_factory_new :: "point \<Rightarrow> string \<Rightarrow> point_factory" where
  "point_factory_new parent pre = \<lparr>pf_parent = parent, pf_prefix = pre, pf_next = 0\<rparr>"

definition factory_create ::
  "(string \<Rightarrow> space_err + point) \<Rightarrow> point_factory \<Rightarrow> (space_err + point) \<times> point_factory" where
  "factory_create from_str f =
     (point_push from_str (pf_parent f) (pf_prefix f @ nat_to_string (unat (pf_next f))),
      f\<lparr>pf_next := pf_next f + 1\<rparr>)"

definition anon_assign_auth ::
  "(string \<Rightarrow> space_err + point) \<Rightarrow> point_factory \<Rightarrow> (space_err + hyperway_stub) \<times> point_factory" where
  "anon_assign_auth from_str f =
     (case factory_create from_str f of
        (r, f) \<Rightarrow> (res_bind r (\<lambda>p. Inr (hyperway_stub_new (to_surface p) AgentAnonymous)), f))"

text \<open>A token from heaven is taken out of the store by the knock that shows it.\<close>

type_synonym token_store = "string \<rightharpoonup> hyperway_stub"

definition heaven_auth :: "'x substance knock \<Rightarrow> token_store \<Rightarrow> (space_err + hyperway_stub) \<times> token_store" where
  "heaven_auth knock tokens =
     (case kn_auth knock of
        SToken token \<Rightarrow>
          (case tokens token of
             Some stub \<Rightarrow> (Inr stub, tokens(token := None))
           | None \<Rightarrow> (Inl (Status 500 ''invalid token''), tokens))
      | _ \<Rightarrow> (Inl (Status 500 ''expected Substance: Token''), tokens))"

record dispenser =
  dsp_agent :: agent
  dsp_tokens :: token_store
  dsp_remotes :: point_factory
  dsp_lanes :: point_factory

text \<open>\<open>dispense\<close>, with the new token; the point of the lane only names a logger.\<close>

definition dispense ::
  "(string \<Rightarrow> space_err + point) \<Rightarrow> string \<Rightarrow> dispenser \<Rightarrow> (space_err + string \<times> hyperway_stub) \<times> dispenser" where
  "dispense from_str token d =
     (case factory_create from_str (dsp_remotes d) of
        (Inl err, f) \<Rightarrow> (Inl err, d\<lparr>dsp_remotes := f\<rparr>)
      | (Inr remote, f) \<Rightarrow>
          (case factory_create from_str (dsp_lanes d) of
             (Inl err, f') \<Rightarrow> (Inl err, d\<lparr>dsp_remotes := f, dsp_lanes := f'\<rparr>)
           | (Inr _, f') \<Rightarrow>
               (let stub = hyperway_stub_new (to_surface remote) (dsp_agent d)
                in (Inr (token, stub),
                    d\<lparr>dsp_remotes := f, dsp_lanes := f', dsp_tokens := (dsp_tokens d)(token \<mapsto> stub)\<rparr>))))"

section \<open>Gates\<close>

definition simple_greet :: "surface \<Rightarrow> surface \<Rightarrow> hyperway_stub \<Rightarrow> space_err + greet" where
  "simple_greet hop transport stub = Inr (Greet (hs_remote stub) (hs_agent stub) hop transport)"

definition version_unlock :: "'v \<Rightarrow> 'g \<Rightarrow> 'v \<Rightarrow> string + 'g" where
  "version_unlock this selector version = (if version = this then Inr selector else Inl ''version mismatch'')"

text \<open>A new endpoint: the waves it already holds and the interchange with its hyperway.\<close>

type_synonym 'x entered = "(space_err + (listener \<times> 'x ultrawave) list) \<times> 'x hub"

text \<open>\<open>InterchangeGate::enter\<close> makes the hyperway; \<open>config\<close> is the configurator and \<open>u\<close>, \<open>u'\<close>, \<open>v\<close> are
  the uuids of the greeting; the outer \<open>None\<close> is a panic of the greeting.  When the endpoint is
  dropped, \<open>endpoint_dropped\<close> removes what the interchange then has for its surface.\<close>

definition interchange_enter ::
  "(greet \<Rightarrow> 'x hyperway \<Rightarrow> 'x hyperway) \<Rightarrow> uuid \<Rightarrow> uuid \<Rightarrow> uuid \<Rightarrow> nat \<Rightarrow> greet \<Rightarrow> 'x hub \<Rightarrow> 'x entered option" where
  "interchange_enter config u u' v n greet hub =
     (let hub = hub_add (config greet (hyperway_new (gr_surface greet) (gr_agent greet))) hub;
          stub = hyperway_stub_new (gr_surface greet) (gr_agent greet)
      in case greet_wave u u' v greet of
           None \<Rightarrow> None
         | Some w \<Rightarrow> Some (hub_mount stub (Some w) n hub))"

definition endpoint_dropped :: "greet \<Rightarrow> 'x hub \<Rightarrow> 'x hub" where
  "endpoint_dropped greet hub = hub_remove (gr_surface greet) hub"

definition mount_enter :: "uuid \<Rightarrow> uuid \<Rightarrow> uuid \<Rightarrow> nat \<Rightarrow> greet \<Rightarrow> 'x hub \<Rightarrow> 'x entered option" where
  "mount_enter u u' v n greet hub =
     (let stub = hyperway_stub_new (gr_surface greet) (gr_agent greet)
      in case greet_wave u u' v greet of
           None \<Rightarrow> None
         | Some w \<Rightarrow> Some (hub_mount stub (Some w) n hub))"

text \<open>\<open>jump\<close> and \<open>knock\<close> of both gates.\<close>

definition gate_jump ::
  "(hyperway_stub \<Rightarrow> space_err + greet) \<Rightarrow> (greet \<Rightarrow> 'x hub \<Rightarrow> 'x entered option) \<Rightarrow> hyperway_stub
   \<Rightarrow> 'x hub \<Rightarrow> 'x entered option" where
  "gate_jump greeter enter stub hub =
     (case greeter stub of
        Inl err \<Rightarrow> Some (Inl err, hub)
      | Inr greet \<Rightarrow> enter greet hub)"

definition gate_knock ::
  "('x substance knock \<Rightarrow> space_err + hyperway_stub) \<Rightarrow> (hyperway_stub \<Rightarrow> space_err + greet)
   \<Rightarrow> (greet \<Rightarrow> 'x hub \<Rightarrow> 'x entered option) \<Rightarrow> 'x substance knock \<Rightarrow> 'x hub \<Rightarrow> 'x entered option" where
  "gate_knock auth greeter enter knock hub =
     (case auth knock of
        Inl err \<Rightarrow> Some (Inl err, hub)
      | Inr stub \<Rightarrow> gate_jump greeter enter stub hub)"

text \<open>The selector of gates by the kind of interchange.\<close>

type_synonym 'g gate_selector = "interchange_kind \<rightharpoonup> 'g"

definition selector_add :: "interchange_kind \<Rightarrow> 'g \<Rightarrow> 'g gate_selector \<Rightarrow> (space_err + unit) \<times> 'g gate_selector" where
  "selector_add kind gate sel =
     (if sel kind \<noteq> None then
        (Inl (err_of_string (''already have an interchange of kind: '' @ interchange_kind_to_string kind)), sel)
      else (Inr (), sel(kind \<mapsto> gate)))"

definition selector_knock :: "('g \<Rightarrow> space_err + 'r) \<Rightarrow> 'x substance knock \<Rightarrow> 'g gate_selector \<Rightarrow> space_err + 'r" where
  "selector_knock at knock sel =
     (case sel (kn_kind knock) of
        Some gate \<Rightarrow> at gate
      | None \<Rightarrow> Inl (Status 500 (''interchange not available: '' @ interchange_kind_to_string (kn_kind knock))))"

definition selector_jump :: "('g \<Rightarrow> space_err + 'r) \<Rightarrow> interchange_kind \<Rightarrow> 'g gate_selector \<Rightarrow> space_err + 'r" where
  "selector_jump at kind sel =
     (case sel kind of
        Some gate \<Rightarrow> at gate
      | None \<Rightarrow> Inl (Status 500 (''interchange kind not available: '' @ interchange_kind_to_string kind)))"

section \<open>Facts: tokens\<close>

text \<open>How many of a sequence of knocks a token lets in.\<close>

fun admitted :: "string \<Rightarrow> 'x substance knock list \<Rightarrow> token_store \<Rightarrow> nat" where
  "admitted token [] tokens = 0"
| "admitted token (knock # knocks) tokens =
     (case heaven_auth knock tokens of
        (r, tokens) \<Rightarrow>
          (if kn_auth knock = SToken token \<and> is_ok r then 1 else 0) + admitted token knocks tokens)"

lemma heaven_auth_cases:
  "heaven_auth knock tokens =
     (case kn_auth knock of
        SToken t \<Rightarrow> (ok_or (tokens t) (Status 500 ''invalid token''), tokens(t := None))
      | _ \<Rightarrow> (Inl (Status 500 ''expected Substance: Token''), tokens))"
  by (auto simp: heaven_auth_def fun_eq_iff split: substance.split option.split)

text \<open>C35. A token that was handed out lets exactly the first knock that shows it in, and a token that was
  not lets none in, whatever knocks come and in whatever order.\<close>

theorem tokens_are_used_once:
  "admitted token knocks tokens =
     (if tokens token \<noteq> None \<and> (\<exists>knock \<in> set knocks. kn_auth knock = SToken token) then 1 else 0)"
proof (induction knocks arbitrary: tokens)
  case (Cons knock knocks)
  show ?case
  proof (cases "kn_auth knock")
    case (SToken t)
    then show ?thesis
      by (cases "tokens t") (auto simp: heaven_auth_cases Cons.IH)
  qed (simp_all add: heaven_auth_cases Cons.IH)
qed simp

section \<open>Facts: entering through a gate\<close>

lemma lane_turn_wave_heard:
  assumes "ln_calls l = LaneWave w # cs" "ln_ext l = Some e" "ln_queue l = []" "ln_transforms l = []" "acc e \<ge> 1"
  shows "lane_turn ids acc l = LaneOn [(e, w)] (l\<lparr>ln_calls := cs\<rparr>)"
  using assms by (simp add: lane_turn_def lane_apply_def lane_flush_def Let_def trim_queue_eq)

lemma lane_forwards:
  assumes "ln_calls l = map LaneWave ws" "ln_ext l = Some e" "ln_queue l = []" "ln_transforms l = []" "acc e \<ge> 1"
  shows "lane_turns ids acc (length ws) l = LaneOn (map (Pair e) ws) (l\<lparr>ln_calls := []\<rparr>)"
  using assms
proof (induction ws arbitrary: l)
  case (Cons w ws)
  let ?l = "l\<lparr>ln_calls := map LaneWave ws\<rparr>"
  have "lane_turn (ids (length ws)) acc l = LaneOn [(e, w)] ?l"
    using Cons.prems by (intro lane_turn_wave_heard) auto
  moreover have "lane_turns ids acc (length ws) ?l = LaneOn (map (Pair e) ws) (?l\<lparr>ln_calls := []\<rparr>)"
    using Cons.prems by (intro Cons.IH) auto
  ultimately show ?case by simp
qed simp

lemma hub_route_to:
  assumes "hub_ways hub s = Some h" "uw_to w = Single s"
  shows "hub_route False w hub =
           hub\<lparr>hub_ways := (hub_ways hub)(s \<mapsto> h\<lparr>hw_outbound := lane_send (LaneWave w) (hw_outbound h)\<rparr>)\<rparr>"
  using assms by (simp add: hub_route_def hub_handle_def lane_send_timeout_def)

lemma hub_routes_to:
  assumes "hub_ways hub s = Some h" "list_all (\<lambda>w. uw_to w = Single s) ws"
  shows "\<exists>h'. hub_ways (foldl (\<lambda>hub w. hub_route False w hub) hub ws) s = Some h' \<and>
          hw_inbound h' = hw_inbound h \<and>
          hw_outbound h' = (hw_outbound h)\<lparr>ln_calls := ln_calls (hw_outbound h) @ map LaneWave ws\<rparr>"
  using assms
proof (induction ws arbitrary: hub h)
  case (Cons w ws)
  let ?h = "h\<lparr>hw_outbound := lane_send (LaneWave w) (hw_outbound h)\<rparr>"
  let ?hub = "hub_route False w hub"
  have "hub_ways ?hub s = Some ?h" using Cons.prems by (simp add: hub_route_to)
  from Cons.IH[OF this] Cons.prems show ?case by (auto simp: lane_send_def)
qed (auto simp: lane.defs)

lemma interchange_enter_ways:
  assumes "hub_singular hub = None"
  shows "\<exists>w h. interchange_enter (\<lambda>_ h. h) u u' v n greet hub =
            Some (Inr [(Endpoint n, w)], hub\<lparr>hub_ways := (hub_ways hub)(gr_surface greet \<mapsto> h)\<rparr>) \<and>
          greet_wave u u' v greet = Some w \<and> lane_stamps (gr_surface greet) (gr_agent greet) (hw_inbound h) \<and>
          hw_outbound h = lane_send (LaneExt (Endpoint n)) lane_new"
proof -
  obtain r where "greet_wave u u' v greet = Some (Pong r :: 'a ultrawave)" using greet_wave_total by blast
  moreover have "lane_stamps r a (lane_send (LaneExt Interchange) (hw_inbound (hyperway_new r a) :: 'a hyperlane))" for r a
    by (intro lane_post_stamps(2) hyperway_new_stamps) simp
  ultimately show ?thesis
    using assms
    by (auto simp: interchange_enter_def hub_add_def hub_mount_def hub_handle_def Let_def endpoint_far_def lane_rx_def
        hyperway_stub_new_def hyperway_new_def
        intro!: exI[of _ "\<lparr>hw_remote = gr_surface greet, hw_outbound = lane_send (LaneExt (Endpoint n)) lane_new,
          hw_inbound = lane_send (LaneExt Interchange) (hw_inbound (hyperway_new (gr_surface greet) (gr_agent greet)))\<rparr>"])
qed


definition sample_greet :: greet where
  "sample_greet = Greet (Surface root_point Core TopicNone) AgentAnonymous
     (Surface root_point Gravity TopicNone) (Surface root_point Core TopicNone)"


text \<open>A client that connects again before its old endpoint is dropped has a new hyperway, and loses
  it when that happens: the interchange removes what it has for the surface, and waves to it are
  dropped.\<close>

theorem old_endpoint_removes_the_new_hyperway:
  assumes "hub_singular hub = None" "uw_to w = Single (gr_surface greet)"
  shows "\<exists>g hub' g' hub'' h.
           interchange_enter (\<lambda>_ h. h) u u' v n greet hub = Some (Inr [(Endpoint n, g)], hub') \<and>
           interchange_enter (\<lambda>_ h. h) u2 u2' v2 m greet hub' = Some (Inr [(Endpoint m, g')], hub'') \<and>
           hub_ways hub'' (gr_surface greet) = Some h \<and> ln_calls (hw_outbound h) = [LaneExt (Endpoint m)] \<and>
           hub_ways (endpoint_dropped greet hub'') (gr_surface greet) = None \<and>
           hub_route late w (endpoint_dropped greet hub'') = endpoint_dropped greet hub''"
proof -
  obtain g h where e: "interchange_enter (\<lambda>_ h. h) u u' v n greet hub =
      Some (Inr [(Endpoint n, g)], hub\<lparr>hub_ways := (hub_ways hub)(gr_surface greet \<mapsto> h)\<rparr>)"
    using interchange_enter_ways[OF assms(1)] by blast
  let ?hub = "hub\<lparr>hub_ways := (hub_ways hub)(gr_surface greet \<mapsto> h)\<rparr>"
  have "hub_singular ?hub = None" using assms(1) by simp
  then obtain g' h' where e': "interchange_enter (\<lambda>_ h. h) u2 u2' v2 m greet ?hub =
      Some (Inr [(Endpoint m, g')], ?hub\<lparr>hub_ways := (hub_ways ?hub)(gr_surface greet \<mapsto> h')\<rparr>)"
    "hw_outbound h' = lane_send (LaneExt (Endpoint m)) lane_new"
    using interchange_enter_ways by blast
  show ?thesis
    using e e' assms(2)
    by (auto simp: endpoint_dropped_def hub_remove_def hub_route_def hub_handle_def lane_send_def lane_new_def)
qed

lemma old_endpoint_removes_the_new_hyperway_witness:
  "\<exists>g hub g' hub'. interchange_enter (\<lambda>_ h. h) (Uuid ''u'') (Uuid ''x'') (Uuid ''v'') 1 sample_greet
       (hub_new :: 'x hub) = Some (Inr [(Endpoint 1, g)], hub) \<and>
     interchange_enter (\<lambda>_ h. h) (Uuid ''u2'') (Uuid ''x2'') (Uuid ''v2'') 2 sample_greet hub =
       Some (Inr [(Endpoint 2, g')], hub') \<and>
     hub_ways (endpoint_dropped sample_greet hub') (Surface root_point Core TopicNone) = None"
proof -
  have "hub_singular (hub_new :: 'x hub) = None"
    "uw_to (sample_lane_wave :: 'x ultrawave) = Single (gr_surface sample_greet)"
    by (simp_all add: hub_new_def sample_greet_def)
  from old_endpoint_removes_the_new_hyperway[OF this, of "Uuid ''u''" "Uuid ''x''" "Uuid ''v''" 1
      "Uuid ''u2''" "Uuid ''x2''" "Uuid ''v2''" 2 False]
  show ?thesis by (auto simp: sample_greet_def)
qed

end
