(* ===== verification/Clients.thy ===== *)
theory Clients
  imports Gates
begin

text \<open>
  The far end of a hyperway (\<open>cosmic-hyperlane/src/lib.rs\<close>): the router that wraps what a client sends,
  the client with its listener and exchanger, and the runner that keeps the connection.  The runner is a
  machine that takes one event at a time.
\<close>

section \<open>Routing over a hop\<close>

text \<open>\<open>HopRouter::to_hop\<close>, with uuids for the two wrappings.\<close>

definition to_hop :: "(nat \<Rightarrow> uuid) \<Rightarrow> greet \<Rightarrow> 'x ultrawave \<Rightarrow> space_err + 'x ultrawave" where
  "to_hop ids greet w =
     (let w = uw_set_agent (gr_agent greet) w
      in res_bind (dp_build (ids 1) (wrap_in_transport (ids 0) w (gr_surface greet) (gr_transport greet))) (\<lambda>d.
         res_bind (dw_to_signal d) (\<lambda>transport.
         res_bind (dp_build (ids 3) (wrap_in_hop (ids 2) transport (to_surface local_portal) (gr_hop greet))) (\<lambda>hop.
           Inr (dw_to_ultra hop)))))"

text \<open>\<open>HopRouter::route\<close>: a wave that cannot be wrapped is only printed.\<close>

definition hop_route :: "(nat \<Rightarrow> uuid) \<Rightarrow> greet \<Rightarrow> 'x ultrawave \<Rightarrow> 'x ultrawave list" where
  "hop_route ids greet w = (case to_hop ids greet w of Inr hop \<Rightarrow> [hop] | Inl _ \<Rightarrow> [])"

definition hyper_api_transmitter :: "greet \<Rightarrow> transmitter" where
  "hyper_api_transmitter greet = transmitter_new\<lparr>tr_agent := Override (gr_agent greet)\<rparr>"

section \<open>The client\<close>

datatype conn_status =
    ConnUnknown | ConnPending | ConnConnecting | ConnHandshake | ConnAuth | ConnReady | ConnPanic | ConnFatal | ConnClosed

text \<open>The first wave must be a greeting: otherwise a status, and the error that ends the relay.\<close>

definition client_greeting :: "'x ultrawave \<Rightarrow> (conn_status \<times> space_err) + greet" where
  "client_greeting w =
     (case uw_to_reflected w of
        Inl err \<Rightarrow>
          Inl (ConnFatal, err_of_string (''HyperClient expected first wave Substance to be a reflected Greeting. Instead when attempting to convert to a reflected wave err occured: '' @ err_to_string err))
      | Inr reflected \<Rightarrow>
          (let st = rc_status (rw_core reflected); c = status_as_u16 st
           in if status_is_success st then
                (case rc_body (rw_core reflected) of
                   SGreet greet \<Rightarrow> Inr greet
                 | _ \<Rightarrow> Inl (ConnFatal, err_of_string ''HyperClient expected first wave Substance to be a reflected Greeting''))
              else if c = 400 then
                Inl (ConnFatal, err_of_string ''400: Bad Request: FATAL: something in the knock was incorrect'')
              else if c = 401 then
                Inl (ConnFatal, err_of_string ''401: Unauthorized: FATAL: authentication failed (bad credentials?)'')
              else if c = 403 then
                Inl (ConnFatal, err_of_string ''403: Forbidden: FATAL: authentication succeeded however the authenticated agent does not have permission to connect to this service'')
              else if c = 408 then Inl (ConnPanic, err_of_string ''408: Request Timeout: PANIC'')
              else if c = 301 then
                Inl (ConnFatal, err_of_string ''301: Moved Permanently: FATAL: please update to new connection address'')
              else if c = 503 then
                Inl (ConnPanic, err_of_string ''503: Service Unavailable: PANIC: try again later'')
              else
                Inl (ConnPanic, err_of_string (u16_to_string c @ '': '' @ status_to_string st @ '': PANIC: expected 200''))))"

datatype relay_phase = RelayFirst | Relaying | RelayEnded

record 'x client =
  cl_phase :: relay_phase
  cl_greet :: "greet option"
  cl_exchanger :: "'x exchanger option"
  cl_statuses :: "conn_status list"

definition client_new :: "'x exchanger option \<Rightarrow> 'x client" where
  "client_new exchanger =
     \<lparr>cl_phase = RelayFirst, cl_greet = None, cl_exchanger = exchanger, cl_statuses = []\<rparr>"

text \<open>A wave from the runner: the wave for the listeners, if any, and the client after it.  \<open>heard\<close> says
  whether anybody listens; any error ends the relay, whose end nobody looks at; \<open>None\<close> when handing an
  answer to the exchanger does not return.\<close>

definition client_receive :: "bool \<Rightarrow> 'x ultrawave \<Rightarrow> 'x client \<Rightarrow> ('x ultrawave list \<times> 'x client) option" where
  "client_receive heard w cl =
     (let listeners = (if heard then ([w], cl) else ([], cl\<lparr>cl_phase := RelayEnded\<rparr>))
      in case cl_phase cl of
           RelayEnded \<Rightarrow> Some ([], cl)
         | RelayFirst \<Rightarrow>
             (case client_greeting w of
                Inr greet \<Rightarrow> Some ([], cl\<lparr>cl_phase := Relaying, cl_greet := Some greet\<rparr>)
              | Inl (st, _) \<Rightarrow>
                  Some ([], cl\<lparr>cl_phase := RelayEnded, cl_statuses := cl_statuses cl @ [st]\<rparr>))
         | Relaying \<Rightarrow>
             (case cl_exchanger cl of
                None \<Rightarrow> Some listeners
              | Some e \<Rightarrow>
                  if uw_is_directed w then Some listeners
                  else (case uw_to_reflected w of
                          Inl _ \<Rightarrow> Some ([], cl\<lparr>cl_phase := RelayEnded\<rparr>)
                        | Inr r \<Rightarrow>
                            (case ex_reflected r e of
                               None \<Rightarrow> None
                             | Some (Inr _, e) \<Rightarrow> Some ([], cl\<lparr>cl_exchanger := Some e\<rparr>)
                             | Some (Inl _, e) \<Rightarrow>
                                 Some ([], cl\<lparr>cl_phase := RelayEnded, cl_exchanger := Some e\<rparr>)))))"

fun client_receives :: "bool \<Rightarrow> 'x ultrawave list \<Rightarrow> 'x client \<Rightarrow> ('x ultrawave list \<times> 'x client) option" where
  "client_receives heard [] cl = Some ([], cl)"
| "client_receives heard (w # ws) cl =
     (case client_receive heard w cl of
        None \<Rightarrow> None
      | Some (out, cl) \<Rightarrow> map_option (\<lambda>(out', cl). (out @ out', cl)) (client_receives heard ws cl))"

text \<open>\<open>transmitter_builder\<close>, once \<open>wait_for_ready\<close> returned \<open>ready\<close>.\<close>

definition client_transmitter :: "space_err + unit \<Rightarrow> 'x client \<Rightarrow> space_err + transmitter" where
  "client_transmitter ready cl =
     res_bind ready (\<lambda>_.
       res_bind (ok_or (cl_exchanger cl)
           (server_error ''cannot create a transmitter on a client that does not have an exchanger'')) (\<lambda>_.
         res_bind (ok_or (cl_greet cl) (err_of_string ''expected greeting to already be set in HyperClient'')) (\<lambda>greet.
           Inr (transmitter_new\<lparr>tr_agent := Fill (gr_agent greet), tr_from := Fill (gr_surface greet)\<rparr>))))"

text \<open>What \<open>wait_for_ready\<close> answers at a status; \<open>None\<close>: it looks again.\<close>

fun ready_answer :: "conn_status \<Rightarrow> (space_err + unit) option" where
  "ready_answer ConnReady = Some (Inr ())"
| "ready_answer ConnFatal = Some (Inl (server_error ''Fatal status from HyperClient while waiting for Ready''))"
| "ready_answer _ = None"

section \<open>Signals to the runner\<close>

definition local_client :: point where
  "local_client = \<lparr>route = RSLocal, segments = [PSSpace ''client'']\<rparr>"

definition local_client_runner :: point where
  "local_client_runner = \<lparr>route = RSLocal, segments = [PSSpace ''client'', PSBase ''runner'']\<rparr>"

text \<open>\<open>reset\<close> and \<open>close\<close>, with their unwraps: \<open>None\<close> is a panic.\<close>

definition client_reset :: "(string \<Rightarrow> space_err) \<Rightarrow> uuid \<Rightarrow> uuid \<Rightarrow> 'x ultrawave option" where
  "client_reset perr u v =
     (case ext_method_new perr ''Reset'' of
        Inl _ \<Rightarrow> None
      | Inr m \<Rightarrow>
          (let wave = dp_signal u;
               wave = dp_set_to (Single (to_surface local_client_runner)) wave;
               wave = dp_set_method (Ext m) wave
           in case dp_build v wave of Inr d \<Rightarrow> Some (dw_to_ultra d) | Inl _ \<Rightarrow> None))"

definition client_close :: "(string \<Rightarrow> space_err) \<Rightarrow> uuid \<Rightarrow> uuid \<Rightarrow> 'x ultrawave option" where
  "client_close perr u v =
     (case ext_method_new perr ''Close'' of
        Inl _ \<Rightarrow> None
      | Inr m \<Rightarrow>
          (let wave = dp_signal u;
               wave = dp_set_from (to_surface local_client) wave;
               wave = dp_set_to (Single (to_surface local_client_runner)) wave;
               wave = dp_set_method (Ext m) wave
           in case dp_build v wave of Inr d \<Rightarrow> Some (dw_to_ultra d) | Inl _ \<Rightarrow> None))"

section \<open>The runner\<close>

datatype runner_phase = RunnerConnect | RunnerRelay | RunnerEnded

datatype 'x runner_event =
    Created
  | CreateFailed
  | FromClient "'x ultrawave option"
  | FromExt "'x ultrawave option"

datatype 'x runner_out = RunStatus conn_status | ToExt "'x ultrawave" | ToClient "'x ultrawave"

text \<open>\<open>watched\<close> says whether the channel of statuses still has a receiver, \<open>alive\<close> whether the endpoint
  takes waves.  \<open>connect\<close> starts with a status, and its failure ends the runner.\<close>

definition runner_connect :: "bool \<Rightarrow> runner_phase \<times> 'x runner_out list" where
  "runner_connect watched =
     (if watched then (RunnerConnect, [RunStatus ConnConnecting]) else (RunnerEnded, []))"

definition to_runner :: "'x ultrawave \<Rightarrow> bool" where
  "to_runner w \<longleftrightarrow>
     uw_is_directed w \<and> recipients_is_single (uw_to w) \<and>
     (case uw_to w of Single s \<Rightarrow> surf_point s = local_client_runner | _ \<Rightarrow> False)"

text \<open>One event; \<open>None\<close> is the panic on a wave to the runner whose method is not an \<open>Ext\<close> one.  A relay
  that ends without an error leaves the inner loop of \<open>start\<close>, and the outer one connects again.\<close>

definition runner_turn ::
  "bool \<Rightarrow> bool \<Rightarrow> 'x runner_event \<Rightarrow> runner_phase \<Rightarrow> (runner_phase \<times> 'x runner_out list) option" where
  "runner_turn watched alive ev p =
     (case p of
        RunnerEnded \<Rightarrow> Some (RunnerEnded, [])
      | RunnerConnect \<Rightarrow>
          (case ev of
             Created \<Rightarrow> Some (if watched then (RunnerRelay, [RunStatus ConnReady]) else (RunnerEnded, []))
           | _ \<Rightarrow> Some (RunnerConnect, []))
      | RunnerRelay \<Rightarrow>
          (case ev of
             FromClient (Some w) \<Rightarrow>
               if to_runner w then
                 (case uw_method w of
                    Some (Ext m) \<Rightarrow>
                      if ext_string m = ''Reset'' then Some (runner_connect watched)
                      else if ext_string m = ''Close'' then
                        Some (case runner_connect watched of (p, out) \<Rightarrow> (p, (if watched then [RunStatus ConnClosed] else []) @ out))
                      else Some (RunnerRelay, [])
                  | _ \<Rightarrow> None)
               else if alive then Some (RunnerRelay, [ToExt w]) else Some (runner_connect watched)
           | FromClient None \<Rightarrow> Some (runner_connect watched)
           | FromExt (Some w) \<Rightarrow> Some (RunnerRelay, [ToClient w])
           | FromExt None \<Rightarrow> Some (runner_connect watched)
           | _ \<Rightarrow> Some (RunnerRelay, [])))"

fun runner_run ::
  "bool \<Rightarrow> bool \<Rightarrow> 'x runner_event list \<Rightarrow> runner_phase \<Rightarrow> (runner_phase \<times> 'x runner_out list) option" where
  "runner_run watched alive [] p = Some (p, [])"
| "runner_run watched alive (ev # evs) p =
     (case runner_turn watched alive ev p of
        None \<Rightarrow> None
      | Some (p, out) \<Rightarrow> map_option (\<lambda>(p, out'). (p, out @ out')) (runner_run watched alive evs p))"

section \<open>Facts\<close>

text \<open>What is routed over a hop always arrives whole: taken out of the hop and out of the transport it
  is the wave with the agent of the greeting, and both wrappings go where the greeting says.\<close>

theorem to_hop_roundtrip:
  "\<exists>hop t. to_hop ids greet w = Inr hop \<and> uw_to hop = Single (gr_hop greet) \<and> uw_from hop = to_surface local_portal \<and>
     uw_unwrap_from_hop hop = Inr t \<and> signal_to (w_variant t) = gr_transport greet \<and> w_from t = gr_surface greet \<and>
     signal_unwrap_from_transport t = Inr (uw_set_agent (gr_agent greet) w) \<and>
     uw_agent hop = gr_agent greet \<and> w_agent t = gr_agent greet"
proof -
  let ?w = "uw_set_agent (gr_agent greet) w"
  obtain t where t: "dp_build (ids 1) (wrap_in_transport (ids 0) ?w (gr_surface greet) (gr_transport greet)) = Inr (DSignal t)"
    "signal_unwrap_from_transport t = Inr ?w" "w_from t = gr_surface greet" "signal_to (w_variant t) = gr_transport greet"
    "w_agent t = uw_agent ?w"
    using build_transport[of "ids 1" "ids 0" ?w "gr_surface greet" "gr_transport greet"] by blast
  obtain h where h: "dp_build (ids 3) (wrap_in_hop (ids 2) t (to_surface local_portal) (gr_hop greet)) = Inr (DSignal h)"
    "signal_unwrap_from_hop h = Inr t" "w_from h = to_surface local_portal" "signal_to (w_variant h) = gr_hop greet"
    "w_agent h = w_agent t"
    using build_hop[of "ids 3" "ids 2" t "to_surface local_portal" "gr_hop greet"] by blast
  show ?thesis
    using t h by (simp add: to_hop_def Let_def uw_unwrap_from_hop_def)
qed

lemma ext_method_names [simp]:
  "ext_method_new perr ''Reset'' = Inr (ExtMethod ''Reset'')" "ext_method_new perr ''Close'' = Inr (ExtMethod ''Close'')"
  by (simp_all add: ext_method_new_def camel_unfold)

text \<open>Closing a client sends its runner a signal; resetting one panics, since the signal is built
  without a sender.\<close>

theorem resetting_a_client_panics:
  "client_reset perr u v = None \<and>
   (\<exists>w. client_close perr u v = Some w \<and> to_runner w \<and> uw_method w = Some (Ext (ExtMethod ''Close'')))"
  by (simp add: client_reset_def client_close_def Let_def dp_build_def dp_simps to_runner_def to_surface_def
      dcore_with_method_sel)

lemma runner_turn_open: "runner_turn True alive ev p = Some (p', out) \<Longrightarrow> p \<noteq> RunnerEnded \<Longrightarrow> p' \<noteq> RunnerEnded"
  by (auto simp: runner_turn_def runner_connect_def split: runner_phase.splits runner_event.splits option.splits
      wave_method.splits if_splits)

lemma runner_run_open: "runner_run True alive evs p = Some (p', out) \<Longrightarrow> p \<noteq> RunnerEnded \<Longrightarrow> p' \<noteq> RunnerEnded"
proof (induction evs arbitrary: p out)
  case (Cons ev evs)
  then show ?case by (auto split: option.splits dest: runner_turn_open)
qed simp

text \<open>While its channel of statuses has a receiver a runner never ends, not even when its client is
  closed or gone: a gone client makes it connect again and again.\<close>

theorem runners_reconnect_for_ever:
  "(case runner_run True alive evs RunnerConnect of Some (p, _) \<Rightarrow> p \<noteq> RunnerEnded | None \<Rightarrow> True) \<and>
   runner_run True alive (concat (replicate n [FromClient None, Created])) RunnerRelay =
     Some (RunnerRelay, concat (replicate n [RunStatus ConnConnecting, RunStatus ConnReady]))"
proof (intro conjI)
  show "case runner_run True alive evs RunnerConnect of Some (p, _) \<Rightarrow> p \<noteq> RunnerEnded | None \<Rightarrow> True"
    by (auto split: option.splits dest: runner_run_open)
  show "runner_run True alive (concat (replicate n [FromClient None, Created])) RunnerRelay =
     Some (RunnerRelay, concat (replicate n [RunStatus ConnConnecting, RunStatus ConnReady]))"
    by (induction n) (simp_all add: runner_turn_def runner_connect_def)
qed

text \<open>A client takes a greeting for what it is: the wave an interchange greets with makes it relay,
  with that greeting.\<close>

theorem greetings_are_understood:
  "\<exists>w. greet_wave u u' v greet = Some w \<and>
     client_receive heard w (client_new exchanger) =
       Some ([], (client_new exchanger)\<lparr>cl_phase := Relaying, cl_greet := Some greet\<rparr>)"
  by (simp add: greet_wave_def rp_build_def rp_simps pong_new_def rcore_with_new_substance_def client_receive_def
      client_new_def client_greeting_def Let_def status_is_success_def)

lemma client_receives_ended:
  "cl_phase cl = RelayEnded \<Longrightarrow> client_receives heard ws cl = Some ([], cl)"
  by (induction ws) (simp_all add: client_receive_def)

text \<open>One answer its exchanger does not wait for, such as one that comes after the timeout, ends the
  relay of a client for good: it and everything that arrives later reaches nobody.\<close>

theorem unexpected_answers_end_the_client:
  assumes "cl_phase cl = Relaying" "cl_exchanger cl = Some e" "uw_to_reflected w = Inr r"
    "rw_reflection_of r \<notin> ex_multis e" "rw_reflection_of r \<notin> ex_singles e"
  shows "client_receives heard (w # ws) cl = Some ([], cl\<lparr>cl_phase := RelayEnded, cl_exchanger := Some e\<rparr>)"
proof -
  have "\<not> uw_is_directed w" using assms(3) by (cases w) simp_all
  then show ?thesis
    using assms by (simp add: client_receive_def ex_reflected_def Let_def client_receives_ended)
qed

lemma unexpected_answers_end_the_client_witness:
  "\<forall>t. client_receives True
      [Pong (wave_new (Uuid ''p'') WKPong (PongV (Surface root_point Core TopicNone) Stars (rcore_status 200)
         (WaveId (Uuid ''u'') WKPing)) (Surface root_point Core TopicNone)), sample_lane_wave]
      ((client_new (Some (exchanger_new (Surface root_point Core TopicNone) t)) :: 'x client)\<lparr>cl_phase := Relaying\<rparr>) =
    Some ([], (client_new (Some (exchanger_new (Surface root_point Core TopicNone) t)))\<lparr>cl_phase := RelayEnded\<rparr>)"
proof
  fix t
  let ?e = "exchanger_new (Surface root_point Core TopicNone) t :: 'x exchanger"
  let ?cl = "(client_new (Some ?e))\<lparr>cl_phase := Relaying\<rparr>"
  let ?p = "wave_new (Uuid ''p'') WKPong (PongV (Surface root_point Core TopicNone) Stars (rcore_status 200)
         (WaveId (Uuid ''u'') WKPing)) (Surface root_point Core TopicNone)"
  have "cl_phase ?cl = Relaying" "cl_exchanger ?cl = Some ?e" "uw_to_reflected (Pong ?p) = Inr (RPong ?p)"
    "rw_reflection_of (RPong ?p) \<notin> ex_multis ?e" "rw_reflection_of (RPong ?p) \<notin> ex_singles ?e"
    by (simp_all add: client_new_def exchanger_new_def)
  from unexpected_answers_end_the_client[OF this, of True "[sample_lane_wave]"]
  show "client_receives True [Pong ?p, sample_lane_wave] ?cl = Some ([], (client_new (Some ?e))\<lparr>cl_phase := RelayEnded\<rparr>)"
    by (simp add: client_new_def)
qed

end
