(* ===== verification/Machines.thy ===== *)
theory Machines
  imports Drivers Clients
begin

text \<open>
  The machine (\<open>machine.rs\<close>): the templates of its stars, the drivers each star of a machine in memory
  has (\<open>mem/cosmos.rs\<close>), the interchange around a star, the status of the machine and its actor.
\<close>

section \<open>Templates\<close>

definition star_set :: "star_template list \<Rightarrow> star_key set" where
  "star_set stars = set (map tpl_key stars)"

text \<open>The machine star is connected to every star.\<close>

definition with_machine_star :: "string \<Rightarrow> star_template list \<Rightarrow> star_template list" where
  "with_machine_star name stars =
     (let machine = template_new (star_key_machine name) StarMachine;
          connected = map (template_connect (template_to_stub machine)) stars;
          machine = foldl (\<lambda>m star. template_receive (template_to_stub star) m) machine connected
      in connected @ [machine])"

definition central_key :: "string \<Rightarrow> star_key" where
  "central_key name = star_key_new ''central'' (star_handle_name name)"

definition default_machine :: "star_template list" where
  "default_machine =
     (let central = template_new star_key_central StarCentral;
          nexus = template_new (central_key ''nexus'') StarNexus;
          supe = template_new (central_key ''super'') StarSuper;
          maelstrom = template_new (central_key ''maelstrom'') StarMaelstrom;
          scribe = template_new (central_key ''scribe'') StarScribe;
          jump = template_new (central_key ''jump'') StarJump;
          fold = template_new (central_key ''fold'') StarFold;
          nexus = template_receive (template_to_stub central) nexus;
          nexus = template_receive (template_to_stub supe) nexus;
          nexus = template_receive (template_to_stub maelstrom) nexus;
          nexus = template_receive (template_to_stub scribe) nexus;
          nexus = template_receive (template_to_stub jump) nexus;
          nexus = template_receive (template_to_stub fold) nexus;
          central = template_connect (template_to_stub nexus) central;
          supe = template_connect (template_to_stub nexus) supe;
          maelstrom = template_connect (template_to_stub nexus) maelstrom;
          scribe = template_connect (template_to_stub nexus) scribe;
          jump = template_connect (template_to_stub nexus) jump;
          fold = template_connect (template_to_stub nexus) fold
      in [central, nexus, supe, maelstrom, scribe, jump, fold])"

section \<open>The drivers of a machine in memory\<close>

text \<open>Unless a factory says otherwise it is external; the one for \<open>Base\<close> does not, whatever it was
  built with.\<close>

definition factory_of :: "base_kind \<Rightarrow> driver_factory" where
  "factory_of base = \<lparr>df_kind = kind_selector_from_base base, df_avail = AvailExternal\<rparr>"

definition base_driver_factory :: "driver_avail \<Rightarrow> driver_factory" where
  "base_driver_factory avail = \<lparr>df_kind = kind_selector_from_base BKBase, df_avail = AvailExternal\<rparr>"

definition control_driver_factory :: driver_factory where
  "control_driver_factory = \<lparr>df_kind = kind_selector_from_base BKControl, df_avail = AvailInternal\<rparr>"

definition web_driver_factory :: driver_factory where
  "web_driver_factory = \<lparr>df_kind = KindSelector (PExact BKNative) (PExact (Some ''Web'')) VPAny, df_avail = AvailExternal\<rparr>"

definition mem_drivers_builder :: "star_sub \<Rightarrow> drivers_builder" where
  "mem_drivers_builder kind =
     (let b = drivers_builder_new kind;
          b = builder_add_post (base_driver_factory (if kind = StarSuper then AvailExternal else AvailInternal)) b
      in case kind of
           StarCentral \<Rightarrow> builder_add_post (factory_of BKRoot) b
         | StarSuper \<Rightarrow> builder_add_post (factory_of BKSpace) b
         | StarNexus \<Rightarrow> b
         | StarMaelstrom \<Rightarrow> builder_add_post (factory_of BKMechtron) (builder_add_post (factory_of BKHost) b)
         | StarScribe \<Rightarrow>
             builder_add_post (factory_of BKArtifact) (builder_add_post (factory_of BKBundle)
               (builder_add_post (factory_of BKBundleSeries) (builder_add_post (factory_of BKRepo) b)))
         | StarJump \<Rightarrow> builder_add_post web_driver_factory b
         | StarFold \<Rightarrow> b
         | StarMachine \<Rightarrow> builder_add_post control_driver_factory b)"

section \<open>The interchange around a star\<close>

text \<open>The star's own hyperway is added before the interchange is made to send everything that comes in
  to it, those of the connected stars after.\<close>

definition star_hub :: "(star_key \<Rightarrow> surface) \<Rightarrow> nat \<Rightarrow> star_template \<Rightarrow> 'x hub" where
  "star_hub gravity_of n t =
     (let hop = gravity_of (tpl_key t);
          own = transform_inbound (LayerTransform Gravity) (hyperway_new hop AgentHyperUser);
          own = snd (endpoint_far n None own);
          hub = singular_to hop (hub_add own hub_new)
      in foldl (\<lambda>hub con. hub_add (hyperway_new (gravity_of (con_key con)) AgentHyperUser) hub) hub (tpl_connections t))"

section \<open>The status of the machine\<close>

datatype machine_status = MachPending | MachInit | MachReady | MachPanic | MachFatal

definition machine_round :: "particle_status list \<Rightarrow> machine_status option" where
  "machine_round sts =
     (let readies = length (filter (\<lambda>st. st = StatusReady) sts);
          fatals = length (filter (\<lambda>st. st = StatusFatal) sts);
          panics = length (filter (\<lambda>st. st = StatusPanic) sts);
          inits = length (filter (\<lambda>st. st = StatusInit) sts)
      in if readies = length sts then Some MachReady
         else if fatals > 0 then Some MachFatal
         else if panics > 0 then Some MachPanic
         else if inits > 0 then Some MachInit
         else None)"

section \<open>The actor of the machine\<close>

text \<open>Who waits for the end subscribes to a broadcast channel that keeps one message.  \<open>ma_subscribed\<close>
  holds, for each subscriber, the results sent since.\<close>

datatype 'g machine_call =
    McInit
  | McTerminate
  | McAwaitTermination nat
  | McWaitForReady nat
  | McAddGate interchange_kind 'g
  | McKnock "unit substance knock"
  | McEndpointFactory star_key star_key

record 'g machine =
  ma_gates :: "'g gate_selector"
  ma_subscribed :: "nat \<rightharpoonup> (cosmic_err + unit) list"

datatype 'r machine_out =
    InitStars
  | ReadyListener nat
  | GateAdded "space_err + unit"
  | Knocked "space_err + 'r"
  | FactoryMade star_key star_key

definition broadcast :: "cosmic_err + unit \<Rightarrow> 'g machine \<Rightarrow> 'g machine" where
  "broadcast r m = m\<lparr>ma_subscribed := map_option (\<lambda>rs. rs @ [r]) \<circ> ma_subscribed m\<rparr>"

text \<open>A call, and after it the result sent to all who wait; the Boolean says whether the loop goes on.\<close>

definition machine_handle ::
  "('g \<Rightarrow> space_err + 'r) \<Rightarrow> 'g machine_call \<Rightarrow> 'g machine \<Rightarrow> 'r machine_out list \<times> 'g machine \<times> bool" where
  "machine_handle at call m =
     (let go_on = (\<lambda>(out, m). (out, broadcast (Inl (cosmic_err_new ''machine quit unexpectedly.'')) m, True))
      in case call of
           McInit \<Rightarrow> go_on ([InitStars], m)
         | McTerminate \<Rightarrow> ([], broadcast (Inr ()) m, False)
         | McAwaitTermination n \<Rightarrow> go_on ([], m\<lparr>ma_subscribed := (ma_subscribed m)(n \<mapsto> [])\<rparr>)
         | McWaitForReady n \<Rightarrow> go_on ([ReadyListener n], m)
         | McAddGate kind gate \<Rightarrow>
             (case selector_add kind gate (ma_gates m) of
                (r, gates) \<Rightarrow> go_on ([GateAdded r], m\<lparr>ma_gates := gates\<rparr>))
         | McKnock knock \<Rightarrow> go_on ([Knocked (selector_knock at knock (ma_gates m))], m)
         | McEndpointFactory from to \<Rightarrow> go_on ([FactoryMade from to], m))"

fun machine_run :: "('g \<Rightarrow> space_err + 'r) \<Rightarrow> 'g machine_call list \<Rightarrow> 'g machine \<Rightarrow> 'g machine" where
  "machine_run at [] m = m"
| "machine_run at (c # cs) m =
     (case machine_handle at c m of (_, m, on) \<Rightarrow> if on then machine_run at cs m else m)"

text \<open>What a subscriber is told, once something was sent: the channel keeps the last message only, and
  says so to who missed one.\<close>

definition awaited :: "(cosmic_err + unit) list \<Rightarrow> (cosmic_err + unit) option" where
  "awaited rs =
     (case rs of [] \<Rightarrow> None | [r] \<Rightarrow> Some r | _ \<Rightarrow> Some (Inl (cosmic_err_new ''channel lagged'')))"

text \<open>The knock by which a star connects to another.\<close>

definition star_knock :: "(star_key \<Rightarrow> surface) \<Rightarrow> star_key \<Rightarrow> star_key \<Rightarrow> unit substance knock" where
  "star_knock gravity_of from to = Knock (IkStar to) SEmpty (Some (gravity_of from))"

definition artifact_knock :: "unit substance knock" where
  "artifact_knock = Knock IkDefaultControl SEmpty None"

text \<open>Fetching an artifact, and what is read from the answer.\<close>

definition fetch_proto :: "uuid \<Rightarrow> point \<Rightarrow> 'x directed_proto" where
  "fetch_proto u p = dp_set_to (Single (with_layer (to_surface p) Core)) (dp_set_method (Cmd CmdRead) (dp_ping u))"

definition fetched :: "space_err + 'x substance pong wave \<Rightarrow> space_err + 8 word list" where
  "fetched answer =
     res_bind answer (\<lambda>pong.
     res_bind (pong_ok_or (w_variant pong)) (\<lambda>_.
       case rc_body (pong_core (w_variant pong)) of
         SBin bin \<Rightarrow> Inr bin
       | _ \<Rightarrow> Inl (err_of_string ''expecting Bin encountered some other substance when fetching artifact'')))"

section \<open>Facts: the stars of the default machine\<close>

text \<open>The star a template gives, with \<open>to_pt\<close> the points of the keys and \<open>records\<close> the registry.\<close>

definition template_star ::
  "(star_key \<Rightarrow> point) \<Rightarrow> (point \<Rightarrow> cosmic_err + particle_record) \<Rightarrow> star_template \<Rightarrow> star_env" where
  "template_star to_pt records t =
     \<lparr>se_point = to_pt (tpl_key t), se_kind = tpl_kind t, se_record = records, se_shell = (\<lambda>_. False),
      se_adjacents = adjacents_of to_pt t\<rparr>"

definition template_node ::
  "(star_key \<Rightarrow> point) \<Rightarrow> (point \<Rightarrow> cosmic_err + particle_record) \<Rightarrow> star_template \<Rightarrow> search_node" where
  "template_node to_pt records t =
     \<lparr>sn_env = template_star to_pt records t, sn_key = tpl_key t,
      sn_kinds = set (db_external (mem_drivers_builder (tpl_kind t)))\<rparr>"

definition machine_stars :: "string \<Rightarrow> star_template list" where
  "machine_stars name = with_machine_star name default_machine"

definition machine_net ::
  "(star_key \<Rightarrow> point) \<Rightarrow> (point \<Rightarrow> cosmic_err + particle_record) \<Rightarrow> string \<Rightarrow> point \<rightharpoonup> search_node" where
  "machine_net to_pt records name =
     map_of (map (\<lambda>t. (to_pt (tpl_key t), template_node to_pt records t)) (machine_stars name))"

lemmas template_simps = template_new_def template_to_stub_def template_receive_def template_connect_def
  con_key_def central_key_def star_key_new_def star_key_central_def star_key_machine_def star_handle_name_def

lemma machine_stars_eq:
  "machine_stars name =
     (let stub = (\<lambda>n k. \<lparr>stub_key = StarKey ''central'' n 0, star_stub.stub_kind = k\<rparr>);
          mstub = \<lparr>stub_key = StarKey ''machine'' name 0, star_stub.stub_kind = StarMachine\<rparr>;
          outer = [(''central'', StarCentral), (''super'', StarSuper), (''maelstrom'', StarMaelstrom),
                   (''scribe'', StarScribe), (''jump'', StarJump), (''fold'', StarFold)];
          arm = (\<lambda>(n, k). \<lparr>tpl_key = StarKey ''central'' n 0, tpl_kind = k,
                            tpl_connections = [Connector (stub ''nexus'' StarNexus), Connector mstub]\<rparr>)
      in [arm (''central'', StarCentral),
          \<lparr>tpl_key = StarKey ''central'' ''nexus'' 0, tpl_kind = StarNexus,
           tpl_connections = map (\<lambda>(n, k). Receiver (stub n k)) outer @ [Connector mstub]\<rparr>] @
         map arm (tl outer) @
         [\<lparr>tpl_key = StarKey ''machine'' name 0, tpl_kind = StarMachine,
           tpl_connections = [Receiver (stub ''central'' StarCentral), Receiver (stub ''nexus'' StarNexus)] @
                             map (\<lambda>(n, k). Receiver (stub n k)) (tl outer)\<rparr>])"
  by (simp add: machine_stars_def with_machine_star_def default_machine_def template_simps Let_def)

lemma machine_keys_distinct: "distinct (map tpl_key (machine_stars name))"
  by (simp add: machine_stars_eq Let_def)

lemma adjacents_of_keys: "fst ` set (adjacents_of to_pt t) = to_pt ` con_key ` set (tpl_connections t)"
proof -
  have "fst ` set (foldl (\<lambda>m c. AList.update (to_pt (con_key c)) (con_stub c) m) m cs) =
      fst ` set m \<union> to_pt ` con_key ` set cs" for m cs
    by (induction cs arbitrary: m) (auto simp: dom_update[unfolded dom_map_of_conv_image_fst])
  from this[of "[]" "tpl_connections t"] show ?thesis by (simp add: adjacents_of_def)
qed

lemma machine_net_at:
  assumes "inj to_pt" "t \<in> set (machine_stars name)"
  shows "machine_net to_pt records name (to_pt (tpl_key t)) = Some (template_node to_pt records t)"
proof -
  have "distinct (map (\<lambda>t. to_pt (tpl_key t)) (machine_stars name))"
    using machine_keys_distinct[of name] assms(1) by (simp add: distinct_map comp_inj_on inj_on_subset comp_def inj_on_def inj_def)
  then have "distinct (map fst (map (\<lambda>t. (to_pt (tpl_key t), template_node to_pt records t)) (machine_stars name)))"
    by (simp add: comp_def)
  then show ?thesis
    unfolding machine_net_def using assms(2) by (intro map_of_is_SomeI) auto
qed

lemma machine_net_dom: "dom (machine_net to_pt records name) = (\<lambda>t. to_pt (tpl_key t)) ` set (machine_stars name)"
  by (simp add: machine_net_def dom_map_of_conv_image_fst image_image)

definition con_keys :: "star_template \<Rightarrow> star_key set" where
  "con_keys t = con_key ` set (tpl_connections t)"

lemma machine_links:
  assumes "inj to_pt" "t \<in> set (machine_stars name)" "q \<in> set (machine_stars name)"
  shows "links (machine_net to_pt records name) (to_pt (tpl_key t)) (to_pt (tpl_key q)) \<longleftrightarrow> tpl_key q \<in> con_keys t"
proof -
  have "to_pt (tpl_key q) \<in> set (map fst (adjacents_of to_pt t)) \<longleftrightarrow> tpl_key q \<in> con_keys t"
    using assms(1) by (auto simp: adjacents_of_keys con_keys_def inj_eq)
  then show ?thesis
    using assms
    by (simp add: links_def machine_net_at template_node_def template_star_def machine_net_dom)
qed

text \<open>Every star is connected to every other, or both are connected to the nexus.\<close>

definition nexus_key :: star_key where "nexus_key = StarKey ''central'' ''nexus'' 0"

lemma machine_arm:
  "t \<in> set (machine_stars name) \<Longrightarrow> tpl_key t \<noteq> nexus_key \<Longrightarrow> tpl_kind t \<noteq> StarMachine \<Longrightarrow>
   tpl_connections t = [Connector \<lparr>stub_key = nexus_key, star_stub.stub_kind = StarNexus\<rparr>,
                        Connector \<lparr>stub_key = StarKey ''machine'' name 0, star_stub.stub_kind = StarMachine\<rparr>]"
  by (auto simp: machine_stars_eq Let_def nexus_key_def)

lemma machine_hub_connected:
  "t \<in> set (machine_stars name) \<Longrightarrow> q \<in> set (machine_stars name) \<Longrightarrow> tpl_kind t = StarMachine \<Longrightarrow>
   tpl_key q \<noteq> tpl_key t \<Longrightarrow> tpl_key q \<in> con_keys t"
  by (auto simp: machine_stars_eq Let_def con_keys_def con_key_def)

lemma machine_nexus_connected:
  "t \<in> set (machine_stars name) \<Longrightarrow> q \<in> set (machine_stars name) \<Longrightarrow> tpl_key t = nexus_key \<Longrightarrow>
   tpl_key q \<noteq> tpl_key t \<Longrightarrow> tpl_key q \<in> con_keys t"
  by (auto simp: machine_stars_eq Let_def con_keys_def con_key_def nexus_key_def)

lemma machine_nexus:
  "\<exists>n \<in> set (machine_stars name). tpl_key n = nexus_key \<and> tpl_kind n = StarNexus"
  by (simp add: machine_stars_eq Let_def nexus_key_def)

lemma machine_connected:
  "\<exists>n \<in> set (machine_stars name). tpl_key n = nexus_key \<and> tpl_kind n = StarNexus \<and>
     (\<forall>t \<in> set (machine_stars name). \<forall>q \<in> set (machine_stars name). tpl_key q \<noteq> tpl_key t \<longrightarrow>
        tpl_key q \<in> con_keys t \<or>
        tpl_key t \<noteq> nexus_key \<and> tpl_key q \<noteq> nexus_key \<and> nexus_key \<in> con_keys t \<and> tpl_key q \<in> con_keys n)"
proof -
  obtain n where n: "n \<in> set (machine_stars name)" "tpl_key n = nexus_key" "tpl_kind n = StarNexus"
    using machine_nexus by blast
  have "tpl_key q \<in> con_keys t \<or>
      tpl_key t \<noteq> nexus_key \<and> tpl_key q \<noteq> nexus_key \<and> nexus_key \<in> con_keys t \<and> tpl_key q \<in> con_keys n"
    if tq: "t \<in> set (machine_stars name)" "q \<in> set (machine_stars name)" "tpl_key q \<noteq> tpl_key t" for t q
  proof (cases "tpl_key t = nexus_key \<or> tpl_kind t = StarMachine")
    case True
    then show ?thesis using machine_nexus_connected machine_hub_connected tq by blast
  next
    case False
    then have "con_keys t = {nexus_key, StarKey ''machine'' name 0}"
      using machine_arm[OF tq(1)] by (simp add: con_keys_def con_key_def)
    then show ?thesis
      using machine_nexus_connected[OF n(1) tq(2) n(2)] n(2) False by auto
  qed
  then show ?thesis using n by blast
qed

lemma machine_placed:
  assumes "inj to_pt"
  shows "placed (machine_net to_pt records name)" "card (dom (machine_net to_pt records name)) \<le> 8"
proof -
  have "se_point (sn_env m) = p" if "machine_net to_pt records name p = Some m" for p m
  proof -
    have "p \<in> dom (machine_net to_pt records name)" using that by (simp add: dom_def)
    then obtain t where "t \<in> set (machine_stars name)" "p = to_pt (tpl_key t)" unfolding machine_net_dom by blast
    note t = this
    then have "m = template_node to_pt records t" using machine_net_at[OF assms t(1)] that by simp
    then show ?thesis using t(2) by (simp add: template_node_def template_star_def)
  qed
  then show "placed (machine_net to_pt records name)"
    by (simp add: placed_def machine_net_def finite_dom_map_of)
  have "card ((\<lambda>t. to_pt (tpl_key t)) ` set (machine_stars name)) \<le> length (machine_stars name)"
    by (rule order_trans[OF card_image_le card_length]) simp
  then show "card (dom (machine_net to_pt records name)) \<le> 8"
    by (simp add: machine_net_dom) (simp add: machine_stars_eq Let_def)
qed

definition wrangled_stars :: "string \<Rightarrow> star_template \<Rightarrow> star_template set" where
  "wrangled_stars name t =
     {q \<in> set (machine_stars name). can_be_wrangled (tpl_kind q) \<and> tpl_key q \<noteq> tpl_key t}"

lemma machine_flood:
  assumes "inj to_pt" "t \<in> set (machine_stars name)"
  shows "set (flood 8 (machine_net to_pt records name) (to_pt (tpl_key t)) {to_pt (tpl_key t)}) =
    (\<lambda>q. own_discovery (template_node to_pt records q)) ` wrangled_stars name t"
    (is "set ?F = ?D ` _")
proof (intro set_eqI iffI)
  let ?net = "machine_net to_pt records name" and ?p = "to_pt (tpl_key t)"
  note iff = flood_iff[OF machine_placed[OF assms(1), of records name], of _ ?p]
  { fix d assume "d \<in> set ?F"
    then obtain as where as: "walk ?net ?p as" "?p \<notin> set as" "finds ?net (last as) d" using iff by blast
    then obtain m where m: "?net (last as) = Some m" "can_be_wrangled (se_kind (sn_env m))" "d = own_discovery m"
      by (auto simp: finds_def)
    have "last as \<in> dom ?net" using m(1) by (simp add: dom_def)
    then obtain q where q: "q \<in> set (machine_stars name)" "last as = to_pt (tpl_key q)"
      unfolding machine_net_dom by blast
    have "as \<noteq> []" using as(1) by (cases as) auto
    then have "tpl_key q \<noteq> tpl_key t" using as(2) q(2) by (metis last_in_set)
    then have "q \<in> wrangled_stars name t"
      using q m machine_net_at[OF assms(1) q(1), of records]
      by (auto simp: wrangled_stars_def template_node_def template_star_def)
    then show "d \<in> ?D ` wrangled_stars name t"
      using m q machine_net_at[OF assms(1) q(1), of records] by auto }
  { fix d assume "d \<in> ?D ` wrangled_stars name t"
    then obtain q where q: "q \<in> set (machine_stars name)" "can_be_wrangled (tpl_kind q)" "tpl_key q \<noteq> tpl_key t" "d = ?D q"
      by (auto simp: wrangled_stars_def)
    have f: "finds ?net (to_pt (tpl_key q)) d"
      using q machine_net_at[OF assms(1) q(1), of records]
      by (auto simp: finds_def template_node_def template_star_def)
    have ne: "to_pt (tpl_key q) \<noteq> ?p" using q(3) assms(1) by (auto simp: inj_eq)
    obtain n where n: "n \<in> set (machine_stars name)" "tpl_key n = nexus_key" "tpl_kind n = StarNexus"
      "tpl_key q \<in> con_keys t \<or> tpl_key t \<noteq> nexus_key \<and> nexus_key \<in> con_keys t \<and> tpl_key q \<in> con_keys n"
      using machine_connected[of name] assms(2) q by blast
    show "d \<in> set ?F"
    proof (cases "tpl_key q \<in> con_keys t")
      case True
      then have "walk ?net ?p [to_pt (tpl_key q)]" using machine_links[OF assms q(1)] by simp
      then show ?thesis using iff f ne by (intro iff[THEN iffD2] exI[of _ "[to_pt (tpl_key q)]"]) auto
    next
      case False
      then have k: "tpl_key t \<noteq> nexus_key" "nexus_key \<in> con_keys t" "tpl_key q \<in> con_keys n" using n by auto
      have "walk ?net ?p [to_pt (tpl_key n), to_pt (tpl_key q)]"
        using machine_links[OF assms n(1), of records] machine_links[OF assms(1) n(1) q(1), of records] k n
          machine_net_at[OF assms(1) n(1), of records]
        by (auto simp: forwarding_def template_node_def template_star_def)
      moreover have "to_pt (tpl_key n) \<noteq> ?p" using k n assms(1) by (auto simp: inj_eq)
      ultimately show ?thesis
        using f ne by (intro iff[THEN iffD2] exI[of _ "[to_pt (tpl_key n), to_pt (tpl_key q)]"]) auto
    qed }
qed

text \<open>What a search answers goes to the wrangles of the star, paired with its key.\<close>

definition machine_discoveries ::
  "(star_key \<Rightarrow> point) \<Rightarrow> (point \<Rightarrow> cosmic_err + particle_record) \<Rightarrow> string \<Rightarrow> star_template \<Rightarrow> star_discovery list" where
  "machine_discoveries to_pt records name t =
     sort_discoveries (map (\<lambda>d. StarDiscovery (star_pair_new (tpl_key t) (dsc_star_key d)) d)
       (flood 8 (machine_net to_pt records name) (to_pt (tpl_key t)) {to_pt (tpl_key t)}))"

lemma coalate_total:
  assumes "\<And>k. reread k = Inr k"
  shows "coalate reread key ds = Some (sort_discoveries (map (\<lambda>d. StarDiscovery (star_pair_new key (dsc_star_key d)) d) ds))"
proof -
  have "res_map (\<lambda>d. res_bind (reread (dsc_star_key d)) (\<lambda>k. Inr (StarDiscovery (star_pair_new key k) d))) ds =
      Inr (map (\<lambda>d. StarDiscovery (star_pair_new key (dsc_star_key d)) d) ds)"
    by (induction ds) (simp_all add: assms)
  then show ?thesis by (simp add: coalate_def)
qed

definition offered_kinds :: "base_kind set" where
  "offered_kinds = {BKBase, BKRoot, BKSpace, BKHost, BKMechtron, BKRepo, BKBundleSeries, BKBundle, BKArtifact, BKNative}"

definition external_here :: "star_template \<Rightarrow> kind \<Rightarrow> bool" where
  "external_here t kind \<longleftrightarrow> (\<exists>sel \<in> set (db_external (mem_drivers_builder (tpl_kind t))). kind_selector_matches sel kind)"

lemma mem_external:
  "db_external (mem_drivers_builder kind) =
     kind_selector_from_base BKBase #
     (case kind of
        StarCentral \<Rightarrow> [kind_selector_from_base BKRoot]
      | StarSuper \<Rightarrow> [kind_selector_from_base BKSpace]
      | StarMaelstrom \<Rightarrow> [kind_selector_from_base BKHost, kind_selector_from_base BKMechtron]
      | StarScribe \<Rightarrow> [kind_selector_from_base BKRepo, kind_selector_from_base BKBundleSeries,
                      kind_selector_from_base BKBundle, kind_selector_from_base BKArtifact]
      | StarJump \<Rightarrow> [KindSelector (PExact BKNative) (PExact (Some ''Web'')) VPAny]
      | _ \<Rightarrow> [])"
  by (cases kind)
    (simp_all add: mem_drivers_builder_def drivers_builder_new_def builder_add_post_def driver_driver_factory_def
      base_driver_factory_def factory_of_def web_driver_factory_def control_driver_factory_def Let_def)

lemma external_here_iff:
  "external_here t kind \<longleftrightarrow> to_base kind = BKBase \<or>
     (case tpl_kind t of
        StarCentral \<Rightarrow> to_base kind = BKRoot
      | StarSuper \<Rightarrow> to_base kind = BKSpace
      | StarMaelstrom \<Rightarrow> to_base kind \<in> {BKHost, BKMechtron}
      | StarScribe \<Rightarrow> to_base kind \<in> {BKRepo, BKBundleSeries, BKBundle, BKArtifact}
      | StarJump \<Rightarrow> to_base kind = BKNative
      | _ \<Rightarrow> False)"
  by (auto simp: external_here_def mem_external kind_selector_matches_def kind_selector_from_base_def
      split: star_sub.split)

lemma offered_somewhere:
  "to_base kind \<in> offered_kinds \<longleftrightarrow>
     (\<exists>q \<in> set (machine_stars name). can_be_wrangled (tpl_kind q) \<and> external_here q kind)"
  by (auto simp: offered_kinds_def external_here_iff machine_stars_eq Let_def)

text \<open>C38. In a default machine of memory drivers every star, once it has searched and wrangled, can place
  exactly the particles of the kinds some star has an external driver for: on another star, or on
  itself; none of the other kinds can be placed anywhere.\<close>

theorem default_machine_places_offered_kinds:
  assumes "inj to_pt" "t \<in> set (machine_stars name)" "\<And>k. reread k = Inr k"
    "star_wrangle reread (tpl_key t)
       (Inr (flood 8 (machine_net to_pt records name) (to_pt (tpl_key t)) {to_pt (tpl_key t)})) Map.empty = Some (r, ws)"
    "set order = dom ws"
  shows "r = Inr () \<and> ((wrangles_find order ws kind \<noteq> None \<or> external_here t kind) = (to_base kind \<in> offered_kinds))"
proof -
  let ?flood = "flood 8 (machine_net to_pt records name) (to_pt (tpl_key t)) {to_pt (tpl_key t)}"
  have ws: "ws = wrangles_add (machine_discoveries to_pt records name t) Map.empty" "r = Inr ()"
    using assms(4) coalate_total[of reread "tpl_key t" ?flood, OF assms(3)]
    by (auto simp: star_wrangle_def machine_discoveries_def)
  have "set (map sd_discovery (machine_discoveries to_pt records name t)) = set ?flood"
    by (simp add: machine_discoveries_def sort_discoveries_def image_image)
  then have d: "sd_discovery ` set (machine_discoveries to_pt records name t) =
      (\<lambda>q. own_discovery (template_node to_pt records q)) ` wrangled_stars name t"
    using machine_flood[OF assms(1,2), of records] by simp
  have "wrangles_find order ws kind \<noteq> None \<longleftrightarrow>
      (\<exists>d \<in> sd_discovery ` set (machine_discoveries to_pt records name t). \<exists>sel \<in> dsc_kinds d. kind_selector_matches sel kind)"
    using wrangles_find_iff[of order "machine_discoveries to_pt records name t" kind] assms(5) ws(1) by auto
  also have "\<dots> \<longleftrightarrow> (\<exists>q \<in> wrangled_stars name t. external_here q kind)"
    unfolding d by (simp add: own_discovery_def template_node_def external_here_def)
  finally have f: "wrangles_find order ws kind \<noteq> None \<longleftrightarrow> (\<exists>q \<in> wrangled_stars name t. external_here q kind)" .
  have "\<not> can_be_wrangled (tpl_kind t) \<Longrightarrow> external_here t kind \<Longrightarrow> to_base kind = BKBase"
    by (cases "tpl_kind t") (simp_all add: external_here_iff)
  moreover have "to_base kind = BKBase \<Longrightarrow> to_base kind \<in> offered_kinds" by (simp add: offered_kinds_def)
  moreover have "tpl_key q = tpl_key t \<Longrightarrow> q \<in> set (machine_stars name) \<Longrightarrow> q = t" for q
    using machine_keys_distinct[of name] assms(2) by (auto simp: distinct_map inj_on_def)
  ultimately show ?thesis
    unfolding f ws(2) offered_somewhere[of kind name] using assms(2) by (auto simp: wrangled_stars_def)
qed

text \<open>Points for the keys, one for each.\<close>

definition sample_key_point :: "star_key \<Rightarrow> point" where
  "sample_key_point k =
     \<lparr>route = RSThis, segments = [PSSpace (constellation k), PSBase (star_name k),
                                  PSBase (replicate (unat (star_index k)) CHR ''i'')]\<rparr>"

lemma sample_key_point_inj: "inj sample_key_point"
proof (rule injI)
  fix j k assume "sample_key_point j = sample_key_point k"
  then have "constellation j = constellation k" "star_name j = star_name k"
    "length (replicate (unat (star_index j)) CHR ''i'') = length (replicate (unat (star_index k)) CHR ''i'')"
    by (simp_all add: sample_key_point_def)
  then show "j = k" by (cases j; cases k) (simp add: word_unat_eq_iff)
qed

definition machine_template_of :: "string \<Rightarrow> star_template" where
  "machine_template_of name = last (machine_stars name)"

lemma machine_template_in: "machine_template_of name \<in> set (machine_stars name)"
  by (simp add: machine_template_of_def machine_stars_eq Let_def)

lemma default_machine_places_offered_kinds_witness:
  "\<exists>ws order. star_wrangle Inr (tpl_key (machine_template_of ''mem''))
       (Inr (flood 8 (machine_net sample_key_point (\<lambda>_. Inl (cosmic_err_new ''none'')) ''mem'')
          (sample_key_point (tpl_key (machine_template_of ''mem'')))
          {sample_key_point (tpl_key (machine_template_of ''mem''))})) Map.empty = Some (Inr (), ws) \<and>
     wrangles_find order ws KSpace \<noteq> None"
proof -
  let ?t = "machine_template_of ''mem''" and ?none = "\<lambda>_. Inl (cosmic_err_new ''none'')"
  let ?ds = "machine_discoveries sample_key_point ?none ''mem'' ?t"
  let ?F = "flood 8 (machine_net sample_key_point ?none ''mem'') (sample_key_point (tpl_key ?t)) {sample_key_point (tpl_key ?t)}"
  have w: "star_wrangle Inr (tpl_key ?t) (Inr ?F) Map.empty = Some (Inr (), wrangles_add ?ds Map.empty)"
    using coalate_total[of Inr "tpl_key ?t" ?F] by (simp add: star_wrangle_def machine_discoveries_def)
  have fin: "finite (dsc_kinds (sd_discovery d))" if "d \<in> set ?ds" for d
  proof -
    have "sd_discovery d \<in> set ?F" using that by (auto simp: machine_discoveries_def sort_discoveries_def)
    then show ?thesis
      unfolding machine_flood[OF sample_key_point_inj machine_template_in]
      by (auto simp: own_discovery_def template_node_def)
  qed
  have "dom (wrangles_add ?ds Map.empty) \<subseteq> (\<Union>d \<in> set ?ds. dsc_kinds (sd_discovery d))"
  proof
    fix sel assume "sel \<in> dom (wrangles_add ?ds Map.empty)"
    then have "discovered ?ds sel \<noteq> []"
      using wrangles_add_holds[of ?ds] by (auto simp: holds_discovered_def dest: spec[of _ sel])
    then show "sel \<in> (\<Union>d \<in> set ?ds. dsc_kinds (sd_discovery d))"
      by (auto simp: discovered_def filter_empty_conv)
  qed
  then have "finite (dom (wrangles_add ?ds Map.empty))" by (rule finite_subset) (use fin in blast)
  from finite_list[OF this] obtain order where "set order = dom (wrangles_add ?ds Map.empty)" ..
  note p = default_machine_places_offered_kinds[OF sample_key_point_inj machine_template_in refl w this, of KSpace]
  have "to_base KSpace \<in> offered_kinds" by (simp add: offered_kinds_def)
  moreover have "\<not> external_here ?t KSpace"
    by (simp add: external_here_iff machine_template_of_def machine_stars_eq Let_def)
  ultimately show ?thesis using p w by blast
qed

text \<open>In the default machine a transport gets from every star to every other in at most two relays,
  through the nexus where the two are not adjacent, and never reaches the case of several forwarders.\<close>

theorem default_machine_is_routed:
  assumes "inj to_pt" "t \<in> set (machine_stars name)" "q \<in> set (machine_stars name)" "tpl_key t \<noteq> tpl_key q"
  shows "\<exists>r n. next_star (template_star to_pt records t) (to_pt (tpl_key q)) = Some r \<and> n \<le> 1 \<and>
     routed (map_option sn_env \<circ> machine_net to_pt records name) (to_pt (tpl_key q)) n r"
proof -
  let ?net = "map_option sn_env \<circ> machine_net to_pt records name" and ?d = "to_pt (tpl_key q)"
  have at: "?net (to_pt (tpl_key s)) = Some (template_star to_pt records s)" if "s \<in> set (machine_stars name)" for s
    using machine_net_at[OF assms(1) that] by (simp add: template_node_def)
  have adj: "is_adjacent (template_star to_pt records s) (to_pt k) \<longleftrightarrow> k \<in> con_keys s" for s k
  proof -
    have "to_pt k \<in> fst ` set (adjacents_of to_pt s) \<longleftrightarrow> k \<in> con_keys s"
      using assms(1) by (auto simp: adjacents_of_keys con_keys_def inj_eq)
    then show ?thesis by (simp add: is_adjacent_def template_star_def map_of_eq_None_iff)
  qed
  have r0: "routed ?net ?d 0 ?d"
    using at[OF assms(3)] by (rule routed_0) (simp add: template_star_def)
  obtain n where n: "n \<in> set (machine_stars name)" "tpl_key n = nexus_key" "tpl_kind n = StarNexus"
    "tpl_key q \<in> con_keys t \<or> tpl_key t \<noteq> nexus_key \<and> tpl_key q \<noteq> nexus_key \<and> nexus_key \<in> con_keys t \<and> tpl_key q \<in> con_keys n"
    using machine_connected[of name] assms by metis
  show ?thesis
  proof (cases "tpl_key q \<in> con_keys t")
    case True
    then have "next_star (template_star to_pt records t) ?d = Some ?d" by (simp add: next_star_def adj)
    then show ?thesis using r0 by (intro exI[of _ ?d] exI[of _ 0]) simp
  next
    case False
    then have k: "tpl_key t \<noteq> nexus_key" "tpl_key q \<noteq> nexus_key" "nexus_key \<in> con_keys t" "tpl_key q \<in> con_keys n"
      using n(4) by auto
    have "tpl_kind t \<noteq> StarMachine" using machine_hub_connected[OF assms(2,3)] assms(4) False by auto
    note arm = machine_arm[OF assms(2) k(1) this]
    have "forwarders (template_star to_pt records t) = [to_pt nexus_key]"
      by (simp add: forwarders_def template_star_def adjacents_of_def arm con_key_def nexus_key_def inj_eq[OF assms(1)])
    then have "next_star (template_star to_pt records t) ?d = Some (to_pt nexus_key)"
      using False assms(4) by (simp add: next_star_def adj) (simp add: template_star_def inj_eq[OF assms(1)])
    moreover have "next_star (template_star to_pt records n) ?d = Some ?d"
      using k(4) by (simp add: next_star_def adj)
    then have "routed ?net ?d (Suc 0) (to_pt nexus_key)"
      using r0 at[OF n(1)] k(2) n(2,3)
      by (intro routed_Suc[where e = "template_star to_pt records n" and q = ?d])
        (simp_all add: template_star_def inj_eq[OF assms(1)])
    ultimately show ?thesis by (intro exI[of _ "to_pt nexus_key"] exI[of _ 1]) simp
  qed
qed

lemma default_machine_is_routed_witness:
  "\<exists>r n. next_star (template_star sample_key_point (\<lambda>_. Inl (cosmic_err_new ''none'')) (hd (machine_stars ''mem'')))
         (sample_key_point (tpl_key (machine_template_of ''mem''))) = Some r \<and> n \<le> 1 \<and>
       routed (map_option sn_env \<circ> machine_net sample_key_point (\<lambda>_. Inl (cosmic_err_new ''none'')) ''mem'')
         (sample_key_point (tpl_key (machine_template_of ''mem''))) n r"
  by (rule default_machine_is_routed[OF sample_key_point_inj])
    (simp_all add: machine_template_in, simp_all add: machine_template_of_def machine_stars_eq Let_def)

section \<open>Facts: the actor\<close>

lemma broadcast_subs [simp]:
  "ma_subscribed (broadcast r m) = map_option (\<lambda>rs. rs @ [r]) \<circ> ma_subscribed m"
  "ma_gates (broadcast r m) = ma_gates m"
  by (simp_all add: broadcast_def)

text \<open>Every subscriber has already been sent that the machine quit, by the call it subscribed with.\<close>

definition all_told_quit :: "'g machine \<Rightarrow> bool" where
  "all_told_quit m \<longleftrightarrow>
     (\<forall>n rs. ma_subscribed m n = Some rs \<longrightarrow>
        rs \<noteq> [] \<and> hd rs = Inl (cosmic_err_new ''machine quit unexpectedly.''))"

lemma machine_handle_told:
  assumes "all_told_quit m" "machine_handle at c m = (out, m', on)"
  shows "all_told_quit m' \<and> (\<forall>n. ma_subscribed m n \<noteq> None \<longrightarrow> ma_subscribed m' n \<noteq> None)"
  using assms
  by (cases c) (auto simp: machine_handle_def all_told_quit_def Let_def split: prod.splits if_splits)

lemma machine_run_told:
  assumes "all_told_quit m"
  shows "all_told_quit (machine_run at cs m) \<and>
     (\<forall>n. ma_subscribed m n \<noteq> None \<longrightarrow> ma_subscribed (machine_run at cs m) n \<noteq> None)"
  using assms
proof (induction cs arbitrary: m)
  case (Cons c cs)
  obtain out m' on where h: "machine_handle at c m = (out, m', on)" by (metis prod_cases3)
  show ?case
    using machine_handle_told[OF Cons.prems h] Cons.IH[of m'] h by (cases on) auto
qed simp

text \<open>Waiting for the end of a machine does not wait: whoever asks is told that the machine quit
  unexpectedly as soon as the call is handled, while the machine goes on; and no wait, whatever calls
  follow, the one to terminate included, ever reports success.\<close>

theorem awaiting_termination_fails_at_once:
  assumes "all_told_quit m"
  shows "\<exists>m'. machine_handle at (McAwaitTermination n) m = ([], m', True) \<and>
     map_option awaited (ma_subscribed m' n) = Some (Some (Inl (cosmic_err_new ''machine quit unexpectedly.''))) \<and>
     (\<forall>cs. \<exists>err. map_option awaited (ma_subscribed (machine_run at cs m') n) = Some (Some (Inl err)))"
proof -
  let ?m = "broadcast (Inl (cosmic_err_new ''machine quit unexpectedly.'')) (m\<lparr>ma_subscribed := (ma_subscribed m)(n \<mapsto> [])\<rparr>)"
  have h: "machine_handle at (McAwaitTermination n) m = ([], ?m, True)"
    by (simp add: machine_handle_def)
  have told: "all_told_quit ?m" using machine_handle_told[OF assms h] by simp
  have "\<exists>err. map_option awaited (ma_subscribed (machine_run at cs ?m) n) = Some (Some (Inl err))" for cs
  proof -
    have "ma_subscribed ?m n \<noteq> None" by simp
    then obtain rs where rs: "ma_subscribed (machine_run at cs ?m) n = Some rs"
      using machine_run_told[OF told] by blast
    then have "rs \<noteq> []" "hd rs = Inl (cosmic_err_new ''machine quit unexpectedly.'')"
      using machine_run_told[OF told, of at cs] by (auto simp: all_told_quit_def)
    then show ?thesis using rs by (auto simp: awaited_def split: list.split)
  qed
  then show ?thesis using h by (simp add: awaited_def)
qed

lemma awaiting_termination_fails_at_once_witness:
  "\<exists>m' err. machine_handle (\<lambda>g. Inr g) (McAwaitTermination 0) \<lparr>ma_gates = Map.empty, ma_subscribed = Map.empty\<rparr> =
       ([] :: unit machine_out list, m', True) \<and>
     map_option awaited (ma_subscribed (machine_run (\<lambda>g. Inr g :: space_err + unit) [McTerminate] m') 0) = Some (Some (Inl err))"
proof -
  have "all_told_quit \<lparr>ma_gates = Map.empty, ma_subscribed = Map.empty\<rparr>" by (simp add: all_told_quit_def)
  from awaiting_termination_fails_at_once[OF this, of "\<lambda>g. Inr g :: space_err + unit" 0] show ?thesis by blast
qed

text \<open>A machine is reported ready exactly when all its stars are; otherwise a fatal star outweighs a
  panicking one, and that one an initialising one, and nothing is reported when there is none of them.\<close>

theorem machine_status_is_the_worst:
  "machine_round sts =
     (if \<forall>st \<in> set sts. st = StatusReady then Some MachReady
      else if StatusFatal \<in> set sts then Some MachFatal
      else if StatusPanic \<in> set sts then Some MachPanic
      else if StatusInit \<in> set sts then Some MachInit
      else None)"
proof -
  have "length (filter (\<lambda>st. st = StatusReady) sts) = length sts \<longleftrightarrow> (\<forall>st \<in> set sts. st = StatusReady)"
    by (metis (mono_tags, lifting) filter_True filter_id_conv length_filter_less less_irrefl)
  moreover have "0 < length (filter (\<lambda>st. st = x) sts) \<longleftrightarrow> x \<in> set sts" for x :: particle_status
    by (auto simp: filter_empty_conv)
  ultimately show ?thesis by (simp add: machine_round_def Let_def)
qed

section \<open>Facts: the interchange of a star\<close>

lemma hub_add_ways:
  "hub_ways (hub_add h hub) = (hub_ways hub)(hw_remote h \<mapsto> h\<lparr>hw_inbound := hw_inbound (the (hub_ways (hub_add h hub) (hw_remote h)))\<rparr>)"
  "hub_singular (hub_add h hub) = hub_singular hub"
  by (auto simp: hub_add_def hub_handle_def Let_def transform_to_def transform_inbound_def split: option.split)

text \<open>The interchange of a star has a hyperway for the star and for every star its template connects
  it to, and for no other surface, and everything that comes in is for the star itself.\<close>

theorem stars_have_hyperways:
  "dom (hub_ways (star_hub gravity_of n t :: 'a hub)) = insert (gravity_of (tpl_key t)) (gravity_of ` con_keys t) \<and>
   hub_singular (star_hub gravity_of n t :: 'a hub) = Some (gravity_of (tpl_key t))"
proof -
  let ?add = "\<lambda>hub con. hub_add (hyperway_new (gravity_of (con_key con)) AgentHyperUser) hub"
  have "dom (hub_ways (foldl ?add hub cs)) = dom (hub_ways hub) \<union> gravity_of ` con_key ` set cs \<and>
      hub_singular (foldl ?add hub cs) = hub_singular hub" for cs and hub :: "'a hub"
  proof (induction cs arbitrary: hub)
    case (Cons c cs)
    have "dom (hub_ways (?add hub c)) = insert (gravity_of (con_key c)) (dom (hub_ways hub))"
      by (subst hub_add_ways(1)) (simp add: hyperway_new_def)
    then show ?case using Cons by (auto simp: hub_add_ways(2))
  qed simp
  moreover have "dom (hub_ways (hub_add h hub_new)) = {hw_remote h}" for h :: "'a hyperway"
    by (subst hub_add_ways(1)) (simp add: hub_new_def)
  moreover have "hw_remote (snd (endpoint_far m init h)) = hw_remote h" for m init and h :: "'a hyperway"
    by (simp add: endpoint_far_def split: prod.split)
  moreover have "hw_remote (transform_inbound tf (hyperway_new s a) :: 'a hyperway) = s" for tf s a
    by (simp add: transform_inbound_def hyperway_new_def)
  ultimately show ?thesis
    by (simp add: star_hub_def Let_def singular_to_def con_keys_def)
qed

end
