(* ===== verification/Tables.thy ===== *)
theory Tables
  imports WaveTypes
begin

text \<open>
  The registry on Postgres (\<open>cosmic-registry-postgres/src/lib.rs\<close>).  The tables \<open>particles\<close>,
  \<open>properties\<close> and \<open>access_grants\<close> are lists of rows, the columns are texts, as in the schema the
  registry sets up; a query is the filter its \<open>WHERE\<close> clause writes down.  Most statements are
  transactions: when one step fails, the tables stay as they were.

  What the code relies on and does not define is a field of \<open>server\<close>: the parsers of the texts in
  the columns (built with nom), the parts of a version (crate \<open>semver\<close>), the messages of the
  database driver, what the server does with the literals given for the boolean column \<open>lock\<close>, and
  with a statement in which a value that is pasted between quotes holds a quote itself.
\<close>

section \<open>The tables\<close>

record pg_particle =
  pp_id :: nat
  pp_point :: string
  pp_segment :: string
  pp_parent :: string
  pp_base :: string
  pp_sub :: "string option"
  pp_provider :: "string option"
  pp_vendor :: "string option"
  pp_product :: "string option"
  pp_variant :: "string option"
  pp_version :: "string option"
  pp_version_variant :: "string option"
  pp_star :: "string option"
  pp_host :: "string option"
  pp_status :: string
  pp_sequence :: "32 word"
  pp_owner :: string

record pg_property =
  pr_resource :: nat
  pr_key :: string
  pr_value :: string
  pr_lock :: bool

record grant_row =
  pg_id :: nat
  pg_kind :: string
  pg_data :: "string option"
  pg_query_root :: string
  pg_on_point :: string
  pg_to_point :: string
  pg_by_particle :: nat

record pg =
  pg_particles :: "pg_particle list"
  pg_properties :: "pg_property list"
  pg_grants :: "grant_row list"
  pg_particle_serial :: nat
  pg_grant_serial :: nat

definition pg_empty :: pg where
  "pg_empty = \<lparr>pg_particles = [], pg_properties = [], pg_grants = [],
     pg_particle_serial = 1, pg_grant_serial = 1\<rparr>"

text \<open>A literal for a column of type \<open>BOOLEAN\<close>: written as a number, or as a quoted text.\<close>

datatype sql_literal = SqlNumber nat | SqlText string

record server =
  sv_point :: "string \<Rightarrow> space_err + point"
  sv_version :: "string \<Rightarrow> space_err + version"
  sv_domain :: "string \<Rightarrow> space_err + string"
  sv_selector :: "string \<Rightarrow> space_err + selector"
  sv_privilege :: "string \<Rightarrow> space_err + privilege"
  sv_parse_err :: "string \<Rightarrow> space_err"
  sv_strum_err :: string
  sv_version_core :: "version \<Rightarrow> string"
  sv_version_pre :: "version \<Rightarrow> string"
  sv_req :: "version_req \<Rightarrow> version \<Rightarrow> bool"
  sv_err :: "string \<Rightarrow> cosmic_err"
  sv_insert_property :: "nat option \<Rightarrow> string \<Rightarrow> string \<Rightarrow> sql_literal
    \<Rightarrow> pg_property list \<Rightarrow> cosmic_err + pg_property list"
  sv_upsert_property :: "nat option \<Rightarrow> string \<Rightarrow> string \<Rightarrow> sql_literal \<Rightarrow> string
    \<Rightarrow> pg_property list \<Rightarrow> cosmic_err + pg_property list"
  sv_other :: "string \<Rightarrow> pg \<Rightarrow> cosmic_err + pg"

text \<open>A statement pasted together from texts is the one that was meant only when no text closes the
  quotes it is put in.\<close>

definition quotable :: "string \<Rightarrow> bool" where
  "quotable v \<longleftrightarrow> CHR 0x27 \<notin> set v"

definition pasted :: "server \<Rightarrow> string \<Rightarrow> string list \<Rightarrow> (pg \<Rightarrow> cosmic_err + pg) \<Rightarrow> pg \<Rightarrow> cosmic_err + pg" where
  "pasted sv statement values meant s = (if list_all quotable values then meant s else sv_other sv statement s)"

text \<open>A transaction that fails is rolled back.\<close>

definition transaction :: "(pg \<Rightarrow> cosmic_err + pg) \<Rightarrow> (pg, unit) io" where
  "transaction body s = (case body s of Inl e \<Rightarrow> Some (Inl e, s) | Inr s' \<Rightarrow> Some (Inr (), s'))"

definition sql_opt :: "string option \<Rightarrow> string" where
  "sql_opt v = (case v of None \<Rightarrow> ''null'' | Some value \<Rightarrow> quoted value)"

text \<open>The rows of a particle are found by the texts of its parent and of its last segment.\<close>

definition row_at :: "string \<Rightarrow> string \<Rightarrow> pg_particle \<Rightarrow> bool" where
  "row_at parent segment r \<longleftrightarrow> pp_parent r = parent \<and> pp_segment r = segment"

definition resource_id :: "string \<Rightarrow> string \<Rightarrow> pg \<Rightarrow> nat option" where
  "resource_id parent segment s = map_option pp_id (List.find (row_at parent segment) (pg_particles s))"

text \<open>\<open>nuke\<close> drops the tables and sets them up again.\<close>

definition pg_nuke :: "(pg, unit) io" where
  "pg_nuke s = Some (Inr (), pg_empty)"

section \<open>Registering\<close>

record registry_params =
  rp_point :: string
  rp_segment :: string
  rp_base :: string
  rp_sub :: "string option"
  rp_provider :: "string option"
  rp_vendor :: "string option"
  rp_product :: "string option"
  rp_variant :: "string option"
  rp_version :: "string option"
  rp_version_variant :: "string option"
  rp_parent :: string
  rp_owner :: point

definition params_from_registration :: "server \<Rightarrow> registration \<Rightarrow> registry_params" where
  "params_from_registration sv r =
     (let spec = kind_specific (reg_kind r)
      in \<lparr>rp_point = point_to_string (reg_point r),
          rp_segment = (case last_segment (reg_point r) of None \<Rightarrow> '''' | Some segment \<Rightarrow> seg_to_string segment),
          rp_base = base_kind_to_string (to_base (reg_kind r)),
          rp_sub = sub_into_string (kind_sub (reg_kind r)),
          rp_provider = map_option provider spec,
          rp_vendor = map_option vendor spec,
          rp_product = map_option product spec,
          rp_variant = map_option variant spec,
          rp_version = map_option (\<lambda>x. sv_version_core sv (spec_version x)) spec,
          rp_version_variant =
            (case spec of
               None \<Rightarrow> None
             | Some x \<Rightarrow> if sv_version_pre sv (spec_version x) \<noteq> '''' then Some (sv_version_pre sv (spec_version x))
                         else None),
          rp_parent = (case point_parent (reg_point r) of None \<Rightarrow> '''' | Some parent \<Rightarrow> point_to_string parent),
          rp_owner = reg_owner r\<rparr>)"

definition params_texts :: "registry_params \<Rightarrow> string list" where
  "params_texts ps =
     [rp_point ps, rp_segment ps, rp_base ps, rp_parent ps, point_to_string (rp_owner ps)] @
     List.map_filter (\<lambda>x. x)
       [rp_sub ps, rp_provider ps, rp_vendor ps, rp_product ps, rp_variant ps, rp_version ps,
        rp_version_variant ps]"

definition insert_particle_text :: "registry_params \<Rightarrow> string" where
  "insert_particle_text ps =
     ''INSERT INTO particles (point,point_segment,base,sub,provider,vendor,product,variant,version,version_variant,parent,owner,status) VALUES ('' @
     join '',''
       [quoted (rp_point ps), quoted (rp_segment ps), quoted (rp_base ps), sql_opt (rp_sub ps),
        sql_opt (rp_provider ps), sql_opt (rp_vendor ps), sql_opt (rp_product ps),
        sql_opt (rp_variant ps), sql_opt (rp_version ps), sql_opt (rp_version_variant ps),
        quoted (rp_parent ps), quoted (point_to_string (rp_owner ps)), quoted ''Pending''] @ '')''"

definition new_row :: "registry_params \<Rightarrow> nat \<Rightarrow> pg_particle" where
  "new_row ps n =
     \<lparr>pp_id = n, pp_point = rp_point ps, pp_segment = rp_segment ps, pp_parent = rp_parent ps,
      pp_base = rp_base ps, pp_sub = rp_sub ps, pp_provider = rp_provider ps, pp_vendor = rp_vendor ps,
      pp_product = rp_product ps, pp_variant = rp_variant ps, pp_version = rp_version ps,
      pp_version_variant = rp_version_variant ps, pp_star = None, pp_host = None, pp_status = ''Pending'',
      pp_sequence = 0, pp_owner = point_to_string (rp_owner ps)\<rparr>"

text \<open>The insertion, with the constraint \<open>UNIQUE(parent,point_segment)\<close>; \<open>UNIQUE(point)\<close> is
  checked by the code before.\<close>

definition insert_particle :: "server \<Rightarrow> registry_params \<Rightarrow> pg \<Rightarrow> cosmic_err + pg" where
  "insert_particle sv ps =
     pasted sv (insert_particle_text ps) (params_texts ps) (\<lambda>s.
       if list_ex (row_at (rp_parent ps) (rp_segment ps)) (pg_particles s)
       then Inl (sv_err sv ''unique violation'')
       else Inr (s\<lparr>pg_particles := pg_particles s @ [new_row ps (pg_particle_serial s)],
                   pg_particle_serial := Suc (pg_particle_serial s)\<rparr>))"

definition select_id_text :: "string \<Rightarrow> string \<Rightarrow> string" where
  "select_id_text parent segment =
     ''(SELECT id FROM particles WHERE parent='' @ quoted parent @ '' AND point_segment='' @ quoted segment @ '')''"

definition delete_property :: "server \<Rightarrow> string \<Rightarrow> string \<Rightarrow> string \<Rightarrow> pg \<Rightarrow> cosmic_err + pg" where
  "delete_property sv parent segment key =
     pasted sv
       (''DELETE FROM properties WHERE resource_id='' @ select_id_text parent segment @ '' AND key='' @
        quoted key @ '' AND lock=false'')
       [parent, segment, key]
       (\<lambda>s. Inr (s\<lparr>pg_properties :=
          filter (\<lambda>p. \<not> (Some (pr_resource p) = resource_id parent segment s \<and> pr_key p = key \<and> \<not> pr_lock p))
            (pg_properties s)\<rparr>))"

text \<open>The properties of a new particle: the lock is written as a number.\<close>

fun register_property :: "server \<Rightarrow> string \<Rightarrow> string \<Rightarrow> property_mod \<Rightarrow> pg \<Rightarrow> cosmic_err + pg" where
  "register_property sv parent segment (PropSet key value lock) s =
     (let n = (if lock then 1 else 0)
      in pasted sv
           (''INSERT INTO properties (resource_id,key,value,lock) VALUES ('' @ select_id_text parent segment @
            '','' @ quoted key @ '','' @ quoted value @ '','' @ nat_to_string n @ '')'')
           [parent, segment, key, value]
           (\<lambda>s. res_bind (sv_insert_property sv (resource_id parent segment s) key value (SqlNumber n) (pg_properties s))
             (\<lambda>ps. Inr (s\<lparr>pg_properties := ps\<rparr>))) s)"
| "register_property sv parent segment (PropUnSet key) s = delete_property sv parent segment key s"

fun all_properties :: "(property_mod \<Rightarrow> pg \<Rightarrow> cosmic_err + pg) \<Rightarrow> set_properties \<Rightarrow> pg \<Rightarrow> cosmic_err + pg" where
  "all_properties f [] s = Inr s"
| "all_properties f ((i, m) # ms) s = res_bind (f m s) (all_properties f ms)"

definition pg_dupe :: cosmic_err where
  "pg_dupe = cosmic_err_with_kind ErrDupe ''Dupe''"

definition pg_register :: "server \<Rightarrow> registration \<Rightarrow> (pg, unit) io" where
  "pg_register sv r s =
     (let ps = params_from_registration sv r
      in if list_ex (\<lambda>row. pp_point row = rp_point ps) (pg_particles s) then
           (if reg_strategy r = StrategyEnsure \<or> reg_strategy r = StrategyOverride then Some (Inr (), s)
            else Some (Inl pg_dupe, s))
         else
           transaction (\<lambda>s. res_bind (insert_particle sv ps s)
             (all_properties (register_property sv (rp_parent ps) (rp_segment ps)) (reg_props r))) s)"

section \<open>Updates of a particle\<close>

definition at_point :: "point \<Rightarrow> string \<Rightarrow> string \<Rightarrow> (string \<Rightarrow> string \<Rightarrow> (pg, 'a) io) \<Rightarrow> (pg, 'a) io" where
  "at_point p no_parent no_segment f =
     (case point_parent p of
        None \<Rightarrow> io_fail (cosmic_err_new no_parent)
      | Some parent \<Rightarrow>
          (case last_segment p of
             None \<Rightarrow> io_fail (cosmic_err_new no_segment)
           | Some segment \<Rightarrow> f (point_to_string parent) (seg_to_string segment)))"

text \<open>The text of \<open>assign_star\<close> and \<open>assign_host\<close> has a comma before \<open>WHERE\<close>, which is no SQL: the
  server refuses the statement.\<close>

definition assign_text :: "string \<Rightarrow> string" where
  "assign_text column = ''UPDATE particles SET '' @ column @ ''=$1, WHERE parent=$2 AND point_segment=$3''"

definition pg_assign :: "server \<Rightarrow> string \<Rightarrow> point \<Rightarrow> point \<Rightarrow> (pg, unit) io" where
  "pg_assign sv column p target =
     at_point p (''expecting parent ('' @ point_to_string p @ '')'') ''expecting a last_segment'' (\<lambda>parent segment.
       io_fail (sv_err sv (''syntax error: '' @ assign_text column)))"

definition pg_assign_star :: "server \<Rightarrow> point \<Rightarrow> point \<Rightarrow> (pg, unit) io" where
  "pg_assign_star sv = pg_assign sv ''star''"

definition pg_assign_host :: "server \<Rightarrow> point \<Rightarrow> point \<Rightarrow> (pg, unit) io" where
  "pg_assign_host sv = pg_assign sv ''host''"

definition update_rows :: "string \<Rightarrow> string \<Rightarrow> (pg_particle \<Rightarrow> pg_particle) \<Rightarrow> pg \<Rightarrow> pg" where
  "update_rows parent segment f s =
     s\<lparr>pg_particles := map (\<lambda>r. if row_at parent segment r then f r else r) (pg_particles s)\<rparr>"

definition pg_set_status :: "server \<Rightarrow> point \<Rightarrow> particle_status \<Rightarrow> (pg, unit) io" where
  "pg_set_status sv p st =
     at_point p ''particle must have a parent'' ''particle must have a last segment'' (\<lambda>parent segment.
       transaction (pasted sv
         (''UPDATE particles SET status='' @ quoted (particle_status_to_string st) @ '' WHERE parent='' @
          quoted parent @ '' AND point_segment='' @ quoted segment)
         [parent, segment]
         (\<lambda>s. Inr (update_rows parent segment (\<lambda>r. r\<lparr>pp_status := particle_status_to_string st\<rparr>) s))))"

text \<open>The upsert of \<open>set_properties\<close>: the arguments of \<open>format!\<close> give the value for the column
  \<open>lock\<close>, and the lock as the value an existing property is updated to.\<close>

fun upsert_property :: "server \<Rightarrow> string \<Rightarrow> string \<Rightarrow> property_mod \<Rightarrow> pg \<Rightarrow> cosmic_err + pg" where
  "upsert_property sv parent segment (PropSet key value lock) s =
     (let n = nat_to_string (if lock then 1 else 0)
      in pasted sv
           (''INSERT INTO properties (resource_id,key,value,lock) VALUES ('' @ select_id_text parent segment @
            '','' @ quoted key @ '' ,'' @ quoted value @ '','' @ quoted value @
            '') ON CONFLICT(resource_id,key) DO UPDATE SET value='' @ quoted n @ '' WHERE lock=false'')
           [parent, segment, key, value]
           (\<lambda>s. res_bind
             (sv_upsert_property sv (resource_id parent segment s) key value (SqlText value) n (pg_properties s))
             (\<lambda>ps. Inr (s\<lparr>pg_properties := ps\<rparr>))) s)"
| "upsert_property sv parent segment (PropUnSet key) s = delete_property sv parent segment key s"

definition pg_set_properties :: "server \<Rightarrow> point \<Rightarrow> set_properties \<Rightarrow> (pg, unit) io" where
  "pg_set_properties sv p props =
     at_point p ''particle must have a parent'' ''particle must have a last segment'' (\<lambda>parent segment.
       transaction (all_properties (upsert_property sv parent segment) props))"

text \<open>The sequence is an \<open>i32\<close>, read as a \<open>u64\<close>; adding one to the largest is an error of the server,
  and no row is an error of \<open>fetch_one\<close>.\<close>

definition pg_sequence :: "server \<Rightarrow> point \<Rightarrow> (pg, 64 word) io" where
  "pg_sequence sv p =
     at_point p ''expecting parent since we have already established the segments are >= 2''
       ''expecting a last_segment since we know segments are >= 2'' (\<lambda>parent segment s.
       case transaction (pasted sv
              (''UPDATE particles SET sequence=sequence+1 WHERE parent='' @ quoted parent @
               '' AND point_segment='' @ quoted segment)
              [parent, segment]
              (\<lambda>s. if list_ex (\<lambda>r. row_at parent segment r \<and> sint (pp_sequence r) = 2 ^ 31 - 1) (pg_particles s)
                    then Inl (sv_err sv ''integer out of range'')
                    else Inr (update_rows parent segment (\<lambda>r. r\<lparr>pp_sequence := pp_sequence r + 1\<rparr>) s))) s of
         None \<Rightarrow> None
       | Some (Inl e, s') \<Rightarrow> Some (Inl e, s')
       | Some (Inr _, s') \<Rightarrow>
           (case List.find (row_at parent segment) (pg_particles s') of
              None \<Rightarrow> Some (Inl (sv_err sv ''no rows''), s)
            | Some r \<Rightarrow> Some (Inr (scast (pp_sequence r)), s')))"

section \<open>Reading particles\<close>

text \<open>\<open>PostgresParticleRecord::from_row\<close>: the specific is there when all its columns but the variant
  of the version are.\<close>

definition read_specific :: "server \<Rightarrow> pg_particle \<Rightarrow> space_err + specific option" where
  "read_specific sv r =
     (case (pp_provider r, pp_vendor r, pp_product r, pp_variant r, pp_version r) of
        (Some pro, Some ven, Some prd, Some var, Some ver) \<Rightarrow>
          res_bind (sv_version sv (case pp_version_variant r of None \<Rightarrow> ver | Some vv \<Rightarrow> ver @ ''-'' @ vv)) (\<lambda>v.
          res_bind (sv_domain sv pro) (\<lambda>pro.
          res_bind (sv_domain sv ven) (\<lambda>ven.
          res_bind (skewer_from_str (sv_parse_err sv) prd) (\<lambda>prd.
          res_bind (skewer_from_str (sv_parse_err sv) var) (\<lambda>var.
            Inr (Some (Specific pro ven prd var v)))))))
      | _ \<Rightarrow> Inr None)"

definition read_point_opt :: "server \<Rightarrow> string option \<Rightarrow> space_err + point option" where
  "read_point_opt sv v =
     (case v of None \<Rightarrow> Inr None | Some t \<Rightarrow> res_bind (sv_point sv t) (\<lambda>p. Inr (Some p)))"

definition read_row :: "server \<Rightarrow> pg_particle \<Rightarrow> space_err + particle_record" where
  "read_row sv r =
     res_bind (case pp_sub r of
                 None \<Rightarrow> Inr None
               | Some sub \<Rightarrow> res_bind (camel_from_str (sv_parse_err sv) sub) (\<lambda>c. Inr (Some c))) (\<lambda>sub.
     res_bind (sv_point sv (pp_parent r)) (\<lambda>parent.
     res_bind (point_push (sv_point sv) parent (pp_segment r)) (\<lambda>p.
     res_bind (strum_from_str (sv_strum_err sv) base_kind_variants base_kind_to_string (pp_base r)) (\<lambda>base.
     res_bind (read_specific sv r) (\<lambda>spec.
     res_bind (kind_try_from (sv_strum_err sv) (kind_parts_new base sub spec)) (\<lambda>k.
     res_bind (read_point_opt sv (pp_star r)) (\<lambda>star.
     res_bind (read_point_opt sv (pp_host r)) (\<lambda>host.
     res_bind (strum_from_str (sv_strum_err sv) particle_status_variants particle_status_to_string (pp_status r)) (\<lambda>st.
       Inr \<lparr>rec_details = \<lparr>det_stub = \<lparr>stub_point = p, stub_kind = k, stub_status = st\<rparr>,
                            det_properties = Map.empty\<rparr>,
            rec_location = \<lparr>loc_star = star, loc_host = host\<rparr>\<rparr>)))))))))"

text \<open>A row that cannot be read is an error of the driver.\<close>

definition decode_row :: "server \<Rightarrow> pg_particle \<Rightarrow> cosmic_err + particle_record" where
  "decode_row sv r =
     (case read_row sv r of
        Inl e \<Rightarrow> Inl (sv_err sv (''particle record: '' @ err_to_string e))
      | Inr rec \<Rightarrow> Inr rec)"

definition properties_of :: "nat option \<Rightarrow> pg \<Rightarrow> properties" where
  "properties_of res s =
     foldl (\<lambda>m p. m(pr_key p \<mapsto> \<lparr>prop_key = pr_key p, prop_value = pr_value p, prop_locked = pr_lock p\<rparr>))
       Map.empty (filter (\<lambda>p. Some (pr_resource p) = res) (pg_properties s))"

definition pg_get_properties :: "point \<Rightarrow> (pg, properties) io" where
  "pg_get_properties p =
     at_point p ''expected a parent'' ''expected last point_segment'' (\<lambda>parent segment s.
       Some (Inr (properties_of (resource_id parent segment s) s), s))"

definition pg_record :: "server \<Rightarrow> point \<Rightarrow> pg \<Rightarrow> cosmic_err + particle_record" where
  "pg_record sv p s =
     (if is_local_root p then Inr particle_record_root
      else
        (case point_parent p of
           None \<Rightarrow> Inl (cosmic_err_new ''expected a parent'')
         | Some parent \<Rightarrow>
             (case last_segment p of
                None \<Rightarrow> Inl (cosmic_err_new ''expected last point_segment'')
              | Some segment \<Rightarrow>
                  (case List.find (row_at (point_to_string parent) (seg_to_string segment)) (pg_particles s) of
                     None \<Rightarrow> Inl (sv_err sv ''no rows'')
                   | Some r \<Rightarrow>
                       res_bind (decode_row sv r) (\<lambda>rec.
                         Inr (rec\<lparr>rec_details := (rec_details rec)
                           \<lparr>det_properties := properties_of
                              (resource_id (point_to_string parent) (seg_to_string segment) s) s\<rparr>\<rparr>))))))"

text \<open>\<open>query\<close> walks down the prefixes of a point and reads each of them.\<close>

fun query_path :: "server \<Rightarrow> pg \<Rightarrow> route_seg \<Rightarrow> point_hierarchy \<Rightarrow> point_seg list \<Rightarrow> point_seg list
    \<Rightarrow> cosmic_err + point_hierarchy" where
  "query_path sv s rt path walked [] = Inr path"
| "query_path sv s rt path walked (seg # segs) =
     res_bind (pg_record sv \<lparr>route = rt, segments = walked @ [seg]\<rparr> s) (\<lambda>rec.
     res_bind (ok_or (last_segment (stub_point (det_stub (rec_details rec))))
                (cosmic_err_new ''expected at least one segment'')) (\<lambda>last.
       query_path sv s rt
         (hierarchy_push path (PointKindSeg last (stub_kind (det_stub (rec_details rec)))))
         (walked @ [seg]) segs))"

definition pg_query :: "server \<Rightarrow> point \<Rightarrow> pg \<Rightarrow> cosmic_err + point_hierarchy" where
  "pg_query sv p s =
     query_path sv s (route p) \<lparr>hier_route = route p, hier_segments = []\<rparr> [] (segments p)"

section \<open>Selecting particles\<close>

datatype select_into = IntoStubs | IntoPoints

datatype select_kind_of =
    SelectInitial
  | SelectSub point "hop list" point_hierarchy

text \<open>\<open>'m\<close> is the type of the pattern for the properties, which no operation looks at.\<close>

record 'm select =
  sl_pattern :: selector
  sl_properties :: 'm
  sl_into :: select_into
  sl_kind :: select_kind_of

record 'm sub_select =
  ss_point :: point
  ss_pattern :: selector
  ss_properties :: 'm
  ss_into :: select_into
  ss_hops :: "hop list"
  ss_hierarchy :: point_hierarchy

fun to_primitive :: "select_into \<Rightarrow> stub list \<Rightarrow> 'x substance list" where
  "to_primitive IntoStubs stubs = map SStub stubs"
| "to_primitive IntoPoints stubs = map (\<lambda>st. SPoint (stub_point st)) stubs"

definition select_new :: "'m \<Rightarrow> selector \<Rightarrow> 'm select" where
  "select_new any pattern =
     \<lparr>sl_pattern = pattern, sl_properties = any, sl_into = IntoStubs, sl_kind = SelectInitial\<rparr>"

definition select_sub_select :: "'m select \<Rightarrow> point \<Rightarrow> hop list \<Rightarrow> point_hierarchy \<Rightarrow> 'm sub_select" where
  "select_sub_select sel p hs hier =
     \<lparr>ss_point = p, ss_pattern = sl_pattern sel, ss_properties = sl_properties sel, ss_into = sl_into sel,
      ss_hops = hs, ss_hierarchy = hier\<rparr>"

definition select_try_into_sub :: "'m select \<Rightarrow> space_err + 'm sub_select" where
  "select_try_into_sub sel =
     (case sl_kind sel of
        SelectSub p hs hier \<Rightarrow> Inr (select_sub_select sel p hs hier)
      | SelectInitial \<Rightarrow> Inl (err_of_string ''Not of kind SubSelector''))"

definition sub_select_into :: "'m sub_select \<Rightarrow> 'm select" where
  "sub_select_into sub =
     \<lparr>sl_pattern = ss_pattern sub, sl_properties = ss_properties sub, sl_into = ss_into sub,
      sl_kind = SelectSub (ss_point sub) (ss_hops sub) (ss_hierarchy sub)\<rparr>"

definition sub_sub_select :: "'m sub_select \<Rightarrow> point \<Rightarrow> hop list \<Rightarrow> point_hierarchy \<Rightarrow> 'm sub_select" where
  "sub_sub_select sub p hs hier = sub\<lparr>ss_point := p, ss_hops := hs, ss_hierarchy := hier\<rparr>"

text \<open>The conditions of the \<open>WHERE\<close> clause: each is a column and the text it is compared with.\<close>

fun column :: "string \<Rightarrow> pg_particle \<Rightarrow> string option" where
  "column c r =
     (if c = ''parent'' then Some (pp_parent r)
      else if c = ''point_segment'' then Some (pp_segment r)
      else if c = ''base'' then Some (pp_base r)
      else if c = ''sub'' then pp_sub r
      else if c = ''provider'' then pp_provider r
      else if c = ''vendor'' then pp_vendor r
      else if c = ''product'' then pp_product r
      else if c = ''variant'' then pp_variant r
      else None)"

fun exactly :: "string \<Rightarrow> ('p \<Rightarrow> string) \<Rightarrow> 'p pattern \<Rightarrow> (string \<times> string) list" where
  "exactly c str PAny = []"
| "exactly c str (PExact x) = [(c, str x)]"

definition hop_conditions :: "hop \<Rightarrow> (string \<times> string) list" where
  "hop_conditions h =
     (case hop_segment h of SSExact exact \<Rightarrow> [(''point_segment'', exact_seg_to_string exact)] | _ \<Rightarrow> []) @
     exactly ''base'' base_kind_to_string (ks_base (hop_kind h)) @
     (case (ks_base (hop_kind h), ks_sub (hop_kind h)) of
        (PExact _, PExact (Some sub)) \<Rightarrow> [(''sub'', sub)]
      | _ \<Rightarrow> []) @
     (case ks_specific (hop_kind h) of
        VPPattern x \<Rightarrow>
          exactly ''provider'' (\<lambda>v. v) (sel_provider x) @ exactly ''vendor'' (\<lambda>v. v) (sel_vendor x) @
          exactly ''product'' (\<lambda>v. v) (sel_product x) @ exactly ''variant'' (\<lambda>v. v) (sel_variant x)
      | _ \<Rightarrow> [])"

definition conditions :: "'m sub_select \<Rightarrow> (string \<times> string) list" where
  "conditions sub =
     (''parent'', point_to_string (ss_point sub)) #
     (case ss_hops sub of [] \<Rightarrow> [] | h # _ \<Rightarrow> hop_conditions h)"

fun where_clause :: "nat \<Rightarrow> (string \<times> string) list \<Rightarrow> string" where
  "where_clause i [] = ''''"
| "where_clause i ((c, v) # cs) =
     (if i = 1 then '''' else '' AND '') @ c @ ''=$'' @ nat_to_string i @ where_clause (Suc i) cs"

definition satisfies :: "(string \<times> string) list \<Rightarrow> pg_particle \<Rightarrow> bool" where
  "satisfies cs r = list_all (\<lambda>(c, v). column c r = Some v) cs"

fun decode_stubs :: "server \<Rightarrow> pg_particle list \<Rightarrow> cosmic_err + stub list" where
  "decode_stubs sv [] = Inr []"
| "decode_stubs sv (r # rs) =
     res_bind (decode_row sv r) (\<lambda>rec.
     res_bind (decode_stubs sv rs) (\<lambda>sts. Inr (det_stub (rec_details rec) # sts)))"

text \<open>\<open>None\<close> is a panic, or that the calls allowed were not enough.\<close>

type_synonym 'a run = "(cosmic_err + 'a) option"

text \<open>The searches below the rows that matched so far: each goes one segment down.\<close>

fun select_below ::
  "('m sub_select \<Rightarrow> stub list run) \<Rightarrow> 'm sub_select \<Rightarrow> hop list \<Rightarrow> stub list \<Rightarrow> stub list run" where
  "select_below rec sub hs [] = Some (Inr [])"
| "select_below rec sub hs (st # sts) =
     (case last_segment (stub_point st) of
        None \<Rightarrow> select_below rec sub hs sts
      | Some seg \<Rightarrow>
          (case push_segment (ss_point sub) seg of
             Inl e \<Rightarrow> Some (Inl (cosmic_err_of_space e))
           | Inr p \<Rightarrow>
               (case rec (sub_sub_select sub p hs (hierarchy_push (ss_hierarchy sub) (PointKindSeg seg (stub_kind st)))) of
                  None \<Rightarrow> None
                | Some (Inl e) \<Rightarrow> Some (Inl e)
                | Some (Inr deeper) \<Rightarrow> map_option (map_sum id ((@) deeper)) (select_below rec sub hs sts))))"

fun retain_matching :: "server \<Rightarrow> 'm sub_select \<Rightarrow> stub list \<Rightarrow> stub list option" where
  "retain_matching sv sub [] = Some []"
| "retain_matching sv sub (st # sts) =
     (case last_segment (stub_point st) of
        None \<Rightarrow> None
      | Some seg \<Rightarrow>
          (case selector_matches (sv_req sv) (ss_pattern sub)
                  (hierarchy_push (ss_hierarchy sub) (PointKindSeg seg (stub_kind st))) of
             None \<Rightarrow> None
           | Some m \<Rightarrow> map_option (\<lambda>kept. if m then st # kept else kept) (retain_matching sv sub sts)))"

fun pg_sub_select :: "nat \<Rightarrow> server \<Rightarrow> pg \<Rightarrow> 'm sub_select \<Rightarrow> stub list run" where
  "pg_sub_select 0 sv s sub = None"
| "pg_sub_select (Suc n) sv s sub =
     (case decode_stubs sv (filter (satisfies (conditions sub)) (pg_particles s)) of
        Inl e \<Rightarrow> Some (Inl e)
      | Inr so_far \<Rightarrow>
          (case ss_hops sub of
             [] \<Rightarrow> Some (Inr so_far)
           | h # hs \<Rightarrow>
               (case select_below (pg_sub_select n sv s) sub
                       (case hop_segment h of SSRecursive \<Rightarrow> h # hs | _ \<Rightarrow> hs) so_far of
                  None \<Rightarrow> None
                | Some (Inl e) \<Rightarrow> Some (Inl e)
                | Some (Inr below) \<Rightarrow>
                    map_option (\<lambda>kept. Inr (kept @ below)) (retain_matching sv sub so_far))))"

definition root_stub :: stub where
  "root_stub = \<lparr>stub_point = root_point, stub_kind = KRoot, stub_status = StatusReady\<rparr>"

definition pg_select_stubs :: "nat \<Rightarrow> server \<Rightarrow> 'm select \<Rightarrow> pg \<Rightarrow> stub list run" where
  "pg_select_stubs n sv sel s =
     (let p = query_root (sl_pattern sel)
      in case pg_query sv p s of
           Inl e \<Rightarrow> Some (Inl e)
         | Inr hierarchy \<Rightarrow>
             (case sub_select_hops (sl_pattern sel) of
                None \<Rightarrow> None
              | Some hs \<Rightarrow>
                  map_option
                    (map_sum id (\<lambda>list. list @ (if matches_root (sl_pattern sel) then [root_stub] else [])))
                    (pg_sub_select n sv s (select_sub_select sel p hs hierarchy))))"

definition pg_select :: "nat \<Rightarrow> server \<Rightarrow> 'm select \<Rightarrow> pg \<Rightarrow> 'x substance list run" where
  "pg_select n sv sel s = map_option (map_sum id (to_primitive (sl_into sel))) (pg_select_stubs n sv sel s)"

text \<open>\<open>delete\<close> selects points and deletes them; the list in its statement is in brackets, which is
  no SQL either.\<close>

definition delete_into_select :: "'m \<Rightarrow> selector \<Rightarrow> 'm select" where
  "delete_into_select any sel = (select_new any sel)\<lparr>sl_into := IntoPoints\<rparr>"

fun points_text :: "nat \<Rightarrow> nat \<Rightarrow> 'x substance list \<Rightarrow> string" where
  "points_text len index [] = ''''"
| "points_text len index (p # ps) =
     (case p of SPoint q \<Rightarrow> quoted (point_to_string q) @ (if index < len - 1 then '', '' else '''') | _ \<Rightarrow> '''') @
     points_text len (Suc index) ps"

definition pg_delete :: "nat \<Rightarrow> server \<Rightarrow> 'm \<Rightarrow> selector \<Rightarrow> pg \<Rightarrow> ((cosmic_err + 'x substance list) \<times> pg) option" where
  "pg_delete n sv any selector s =
     (case pg_select n sv (delete_into_select any selector) s of
        None \<Rightarrow> None
      | Some (Inl e) \<Rightarrow> Some (Inl e, s)
      | Some (Inr list) \<Rightarrow>
          if list \<noteq> [] then
            Some (Inl (sv_err sv (''syntax error: DELETE FROM particles WHERE point IN ['' @
                                    points_text (length list) 0 list @ '']'')), s)
          else Some (Inr list, s))"

section \<open>Grants\<close>

fun grant_data :: "grant_kind \<Rightarrow> string option" where
  "grant_data GrantSuper = None"
| "grant_data (GrantPrivilege p) = Some (privilege_to_string p)"
| "grant_data (GrantMask m) = Some (mask_to_string m)"

fun grant_tag :: "grant_kind \<Rightarrow> string" where
  "grant_tag GrantSuper = ''super''"
| "grant_tag (GrantPrivilege _) = ''priv''"
| "grant_tag (GrantMask _) = ''perm''"

text \<open>A selector is stored by its text, whose rendering may panic; the giver must be registered,
  since the column is \<open>NOT NULL\<close>.\<close>

definition pg_grant :: "server \<Rightarrow> access_grant \<Rightarrow> (pg, unit) io" where
  "pg_grant sv g s =
     (case (selector_to_string (on_point g), selector_to_string (to_point g)) of
        (Some on, Some to) \<Rightarrow>
          (case List.find (\<lambda>r. pp_point r = point_to_string (by_particle g)) (pg_particles s) of
             None \<Rightarrow> Some (Inl (sv_err sv ''null value in column by_particle''), s)
           | Some r \<Rightarrow>
               Some (Inr (), s\<lparr>pg_grants := pg_grants s @
                 [\<lparr>pg_id = pg_grant_serial s, pg_kind = grant_tag (grant_kind g), pg_data = grant_data (grant_kind g),
                   pg_query_root = point_to_string (query_root (on_point g)), pg_on_point = on, pg_to_point = to,
                   pg_by_particle = pp_id r\<rparr>],
                 pg_grant_serial := Suc (pg_grant_serial s)\<rparr>))
      | _ \<Rightarrow> None)"

text \<open>\<open>WrappedIndexedAccessGrant::from_row\<close>, with the point of the giver from the join; \<open>None\<close> is
  the panic on a kind it does not know or on data that is missing.\<close>

definition read_grant_kind :: "server \<Rightarrow> grant_row \<Rightarrow> (space_err + grant_kind) option" where
  "read_grant_kind sv g =
     (if pg_kind g = ''super'' then Some (Inr GrantSuper)
      else if pg_kind g = ''priv'' then
        map_option (\<lambda>d. res_bind (sv_privilege sv d) (\<lambda>p. Inr (GrantPrivilege p))) (pg_data g)
      else if pg_kind g = ''perm'' then
        map_option (\<lambda>d. res_bind (mask_from_str (sv_parse_err sv d) d) (\<lambda>m. Inr (GrantMask m))) (pg_data g)
      else None)"

definition read_grant :: "server \<Rightarrow> grant_row \<Rightarrow> string \<Rightarrow> (space_err + indexed_grant) option" where
  "read_grant sv g giver =
     map_option (\<lambda>k.
       res_bind k (\<lambda>k.
       res_bind (sv_selector sv (pg_on_point g)) (\<lambda>on.
       res_bind (sv_selector sv (pg_to_point g)) (\<lambda>to.
       res_bind (sv_point sv giver) (\<lambda>by.
         Inr (IndexedGrant (of_nat (pg_id g))
           \<lparr>grant_kind = k, on_point = on, to_point = to, by_particle = by\<rparr>))))))
       (read_grant_kind sv g)"

definition joined :: "pg \<Rightarrow> (grant_row \<times> string) list" where
  "joined s = List.map_filter
     (\<lambda>g. map_option (\<lambda>r. (g, pp_point r)) (List.find (\<lambda>r. pp_id r = pg_by_particle g) (pg_particles s)))
     (pg_grants s)"

fun decode_grants :: "server \<Rightarrow> (grant_row \<times> string) list \<Rightarrow> indexed_grant list run" where
  "decode_grants sv [] = Some (Inr [])"
| "decode_grants sv ((g, giver) # gs) =
     (case read_grant sv g giver of
        None \<Rightarrow> None
      | Some (Inl _) \<Rightarrow> Some (Inl (sv_err sv ''pool closed''))
      | Some (Inr i) \<Rightarrow> map_option (map_sum id ((#) i)) (decode_grants sv gs))"

text \<open>What \<open>access\<close> (theory Access) sees of the tables, once every stored grant can be read.\<close>

definition pg_access_db :: "server \<Rightarrow> pg \<Rightarrow> access_db run" where
  "pg_access_db sv s =
     map_option (map_sum id (\<lambda>grants.
       \<lparr>db_owners = map (\<lambda>r. (pp_point r, pp_owner r)) (pg_particles s),
        db_grants = grants,
        db_hierarchy = \<lambda>p. (case pg_query sv p s of
           Inl e \<Rightarrow> Inl (err_of_string (ce_message e)) | Inr h \<Rightarrow> Inr h)\<rparr>))
       (decode_grants sv (joined s))"

definition pg_access :: "nat \<Rightarrow> server \<Rightarrow> point \<Rightarrow> point \<Rightarrow> pg \<Rightarrow> access run" where
  "pg_access n sv to on s =
     (case pg_access_db sv s of
        None \<Rightarrow> None
      | Some (Inl e) \<Rightarrow> Some (Inl e)
      | Some (Inr db) \<Rightarrow> map_option space_res (access_within n (sv_req sv) db to on))"

text \<open>\<open>chown\<close> runs in one transaction; the accesses are computed over another connection, which sees
  the tables as they were.\<close>

fun chown_all :: "nat \<Rightarrow> server \<Rightarrow> pg \<Rightarrow> point \<Rightarrow> point \<Rightarrow> 'x substance list \<Rightarrow> pg \<Rightarrow> pg run" where
  "chown_all n sv before owner by [] s = Some (Inr s)"
| "chown_all n sv before owner by (x # xs) s =
     (case x of
        SPoint on \<Rightarrow>
          (case pg_access n sv by on before of
             None \<Rightarrow> None
           | Some (Inl e) \<Rightarrow> Some (Inl e)
           | Some (Inr access) \<Rightarrow>
               if \<not> has_super access then Some (Inl (cosmic_err_new ''only a super can change owners''))
               else chown_all n sv before owner by xs
                 (s\<lparr>pg_particles := map (\<lambda>r. if pp_point r = point_to_string on
                                              then r\<lparr>pp_owner := point_to_string owner\<rparr> else r) (pg_particles s)\<rparr>))
      | _ \<Rightarrow> Some (Inl (cosmic_err_new ''expected a point'')))"

definition points_select :: "'m \<Rightarrow> selector \<Rightarrow> 'm select" where
  "points_select any on = \<lparr>sl_pattern = on, sl_properties = any, sl_into = IntoPoints, sl_kind = SelectInitial\<rparr>"

definition pg_chown :: "nat \<Rightarrow> server \<Rightarrow> 'm \<Rightarrow> selector \<Rightarrow> point \<Rightarrow> point \<Rightarrow> (pg, unit) io" where
  "pg_chown n sv any on owner by s =
     (case pg_select n sv (points_select any on) s :: unit substance list run of
        None \<Rightarrow> None
      | Some (Inl e) \<Rightarrow> Some (Inl e, s)
      | Some (Inr selection) \<Rightarrow>
          (case chown_all n sv s owner by selection s of
             None \<Rightarrow> None
           | Some (Inl e) \<Rightarrow> Some (Inl e, s)
           | Some (Inr s') \<Rightarrow> Some (Inr (), s')))"

text \<open>\<open>list_access\<close> collects in a map by id; its values come in any order, and the order they are
  sorted by (\<open>indexed_grant_cmp\<close>) is none, so the result is that map.\<close>

fun grants_of_points :: "server \<Rightarrow> pg \<Rightarrow> point_hierarchy option \<Rightarrow> 'x substance list
    \<Rightarrow> (32 word \<rightharpoonup> indexed_grant) \<Rightarrow> (32 word \<rightharpoonup> indexed_grant) run" where
  "grants_of_points sv s to [] acc = Some (Inr acc)"
| "grants_of_points sv s to (x # xs) acc =
     (case x of
        SPoint on \<Rightarrow>
          (case decode_grants sv (filter (\<lambda>(g, _). pg_query_root g = point_to_string on) (joined s)) of
             None \<Rightarrow> None
           | Some (Inl e) \<Rightarrow> Some (Inl e)
           | Some (Inr gs) \<Rightarrow>
               grants_of_points sv s to xs
                 (foldl (\<lambda>m i. m(grant_id i \<mapsto> i)) acc
                   (filter (\<lambda>i. case to of None \<Rightarrow> True
                      | Some h \<Rightarrow> selector_matches (sv_req sv) (to_point (indexed_access_grant i)) h = Some True) gs)))
      | _ \<Rightarrow> Some (Inl (cosmic_err_new ''expected a point'')))"

definition pg_list_access ::
  "nat \<Rightarrow> server \<Rightarrow> 'm \<Rightarrow> point option \<Rightarrow> selector \<Rightarrow> pg \<Rightarrow> (32 word \<rightharpoonup> indexed_grant) run" where
  "pg_list_access n sv any to on s =
     (case (case to of None \<Rightarrow> Inr None | Some p \<Rightarrow> res_bind (pg_query sv p s) (\<lambda>h. Inr (Some h))) of
        Inl e \<Rightarrow> Some (Inl e)
      | Inr to_path \<Rightarrow>
          (case pg_select n sv (points_select any on) s :: unit substance list run of
             None \<Rightarrow> None
           | Some (Inl e) \<Rightarrow> Some (Inl e)
           | Some (Inr selection) \<Rightarrow> grants_of_points sv s to_path selection Map.empty))"

definition pg_remove_access :: "nat \<Rightarrow> server \<Rightarrow> 32 word \<Rightarrow> point \<Rightarrow> (pg, unit) io" where
  "pg_remove_access n sv gid to s =
     (case List.find (\<lambda>(g, _). of_nat (pg_id g) = gid) (joined s) of
        None \<Rightarrow> Some (Inl (sv_err sv ''no rows''), s)
      | Some (g, giver) \<Rightarrow>
          (case decode_grants sv [(g, giver)] of
             None \<Rightarrow> None
           | Some (Inl e) \<Rightarrow> Some (Inl e, s)
           | Some (Inr i) \<Rightarrow>
               (let by = by_particle (indexed_access_grant (hd i))
                in case pg_access n sv to by s of
                     None \<Rightarrow> None
                   | Some (Inl e) \<Rightarrow> Some (Inl e, s)
                   | Some (Inr access) \<Rightarrow>
                       if has_full access then
                         Some (Inr (), s\<lparr>pg_grants := filter (\<lambda>g. of_nat (pg_id g) \<noteq> gid) (pg_grants s)\<rparr>)
                       else Some (Inl (cosmic_err_new
                         (quoted (point_to_string to) @ '' could not revoked grant '' @ int_to_string (sint gid) @
                          '' because it does not have full access (super or owner) on '' @ point_to_string by)), s))))"

section \<open>Commands\<close>

datatype get_op = GetState | GetProperties "string list"

definition pg_set :: "server \<Rightarrow> point \<times> set_properties \<Rightarrow> (pg, unit) io" where
  "pg_set sv st = pg_set_properties sv (fst st) (snd st)"

text \<open>The keys asked for are not looked at: all properties are returned.  A \<open>SubstanceMap\<close> is a hash
  map, here the function.\<close>

definition pg_get :: "point \<times> get_op \<Rightarrow> (pg, string \<rightharpoonup> 'x substance) io" where
  "pg_get g =
     (case snd g of
        GetState \<Rightarrow> io_fail (cosmic_err_new ''Registry does not handle GetOp::State operations'')
      | GetProperties keys \<Rightarrow>
          io_bind (pg_get_properties (fst g)) (\<lambda>props.
            io_return (\<lambda>k. map_option (\<lambda>p. SText (prop_value p)) (props k))))"

definition pg_cmd_select :: "nat \<Rightarrow> server \<Rightarrow> 'm select \<Rightarrow> pg \<Rightarrow> 'x substance run" where
  "pg_cmd_select n sv sel s = map_option (map_sum id SList) (pg_select n sv sel s)"

definition pg_cmd_query :: "server \<Rightarrow> point \<Rightarrow> pg \<Rightarrow> cosmic_err + 'x substance" where
  "pg_cmd_query sv to s = res_bind (pg_query sv to s) (\<lambda>h. Inr (SText (hierarchy_to_string h)))"

text \<open>The connection pools are found by url, user and database.\<close>

record pg_db_info =
  dbi_url :: string
  dbi_user :: string
  dbi_password :: string
  dbi_database :: string
  dbi_schema :: string

record pg_db_key =
  dbk_url :: string
  dbk_user :: string
  dbk_database :: string

definition db_info_new :: "string \<Rightarrow> string \<Rightarrow> string \<Rightarrow> string \<Rightarrow> pg_db_info" where
  "db_info_new url user password database =
     \<lparr>dbi_url = url, dbi_user = user, dbi_password = password, dbi_database = database,
      dbi_schema = ''PUBLIC''\<rparr>"

definition db_to_key :: "pg_db_info \<Rightarrow> pg_db_key" where
  "db_to_key i = \<lparr>dbk_url = dbi_url i, dbk_user = dbi_user i, dbk_database = dbi_database i\<rparr>"

definition db_to_uri :: "pg_db_info \<Rightarrow> string" where
  "db_to_uri i =
     ''postgres://'' @ dbi_user i @ '':'' @ dbi_password i @ ''@'' @ dbi_url i @ ''/'' @ dbi_database i"

definition pools_new :: "(string \<Rightarrow> cosmic_err + 'pool) \<Rightarrow> pg_db_info list \<Rightarrow> cosmic_err + (pg_db_key \<times> 'pool) list" where
  "pools_new connect dbs =
     res_map (\<lambda>db. res_bind (connect (db_to_uri db)) (\<lambda>pool. Inr (db_to_key db, pool))) dbs"

definition pools_acquire :: "('pool \<Rightarrow> cosmic_err + 'conn) \<Rightarrow> (pg_db_key \<times> 'pool) list \<Rightarrow> pg_db_key \<Rightarrow> cosmic_err + 'conn" where
  "pools_acquire acquire pools key =
     res_bind (ok_or (map_of (rev pools) key) (cosmic_err_new ''could not acquire db connection'')) acquire"

definition pools_begin :: "('pool \<Rightarrow> cosmic_err + 'tx) \<Rightarrow> (pg_db_key \<times> 'pool) list \<Rightarrow> pg_db_key \<Rightarrow> cosmic_err + 'tx" where
  "pools_begin begin_tx pools key =
     res_bind (ok_or (map_of (rev pools) key) (cosmic_err_new ''could not begin db transaction'')) begin_tx"

section \<open>Facts: registering\<close>

text \<open>What a registration writes is quoted safely.\<close>

definition quotable_mod :: "property_mod \<Rightarrow> bool" where
  "quotable_mod m = (case m of PropSet key value lock \<Rightarrow> quotable key \<and> quotable value | PropUnSet key \<Rightarrow> quotable key)"

definition quotable_registration :: "server \<Rightarrow> registration \<Rightarrow> bool" where
  "quotable_registration sv r \<longleftrightarrow>
     list_all quotable (params_texts (params_from_registration sv r)) \<and>
     list_all (\<lambda>(_, m). quotable_mod m) (reg_props r)"

lemma register_property_particles:
  assumes "register_property sv par seg m s = Inr s'" "quotable par" "quotable seg" "quotable_mod m"
  shows "pg_particles s' = pg_particles s"
  using assms
  by (cases m) (auto simp: pasted_def quotable_mod_def delete_property_def Let_def split: if_splits sum.splits
      dest!: res_bind_Inr_iff[THEN iffD1])

lemma all_properties_particles:
  assumes "\<And>m s s'. m \<in> snd ` set ms \<Longrightarrow> f m s = Inr s' \<Longrightarrow> pg_particles s' = pg_particles s"
  shows "all_properties f ms s = Inr s' \<Longrightarrow> pg_particles s' = pg_particles s"
  using assms
proof (induction ms arbitrary: s)
  case (Cons x ms)
  obtain i m where x: "x = (i, m)" by (cases x)
  with Cons.prems obtain s1 where "f m s = Inr s1" "all_properties f ms s1 = Inr s'"
    by (auto simp: res_bind_Inr_iff)
  moreover from this have "pg_particles s1 = pg_particles s"
    using Cons.prems(2)[of m s s1] x by simp
  moreover have "pg_particles s' = pg_particles s1"
    using Cons.IH[OF calculation(2)] Cons.prems(2) by (metis image_insert insertCI list.simps(15))
  ultimately show ?case by simp
qed simp

lemma find_new: "\<not> list_ex P xs \<Longrightarrow> P y \<Longrightarrow> List.find P (xs @ [y]) = Some y"
  by (induction xs) auto

lemma register_adds_row:
  assumes "pg_register sv r s = Some (Inr (), s')" "quotable_registration sv r"
    "\<not> list_ex (\<lambda>row. pp_point row = point_to_string (reg_point r)) (pg_particles s)"
  shows "pg_particles s' = pg_particles s @ [new_row (params_from_registration sv r) (pg_particle_serial s)]"
    "\<not> list_ex (row_at (rp_parent (params_from_registration sv r)) (rp_segment (params_from_registration sv r))) (pg_particles s)"
proof -
  let ?ps = "params_from_registration sv r"
  have pt: "rp_point ?ps = point_to_string (reg_point r)"
    by (simp add: params_from_registration_def Let_def)
  from assms(1,3) obtain s1 where ins: "insert_particle sv ?ps s = Inr s1"
    and ps: "all_properties (register_property sv (rp_parent ?ps) (rp_segment ?ps)) (reg_props r) s1 = Inr s'"
    by (auto simp: pg_register_def pt transaction_def Let_def res_bind_Inr_iff split: if_splits sum.splits)
  have q: "list_all quotable (params_texts ?ps)" "quotable (rp_parent ?ps)" "quotable (rp_segment ?ps)"
    "\<And>m. m \<in> snd ` set (reg_props r) \<Longrightarrow> quotable_mod m"
    using assms(2) by (auto simp: quotable_registration_def params_texts_def list_all_iff)
  have "pg_particles s' = pg_particles s1"
    using all_properties_particles[OF _ ps] register_property_particles q(2-4) by metis
  then show "pg_particles s' = pg_particles s @ [new_row ?ps (pg_particle_serial s)]"
    "\<not> list_ex (row_at (rp_parent ?ps) (rp_segment ?ps)) (pg_particles s)"
    using ins q(1) by (auto simp: insert_particle_def pasted_def split: if_splits)
qed

text \<open>What the parsers must do for a particle to be read back: they read the text of its parent,
  that text with the segment pushed, and the columns of its specific.\<close>

definition readable_point :: "server \<Rightarrow> point \<Rightarrow> bool" where
  "readable_point sv p \<longleftrightarrow>
     (\<exists>q. point_parent p = Some q \<and> sv_point sv (point_to_string q) = Inr q \<and>
          point_push (sv_point sv) q (seg_to_string (last (segments p))) = Inr p)"

definition readable_kind :: "server \<Rightarrow> kind \<Rightarrow> bool" where
  "readable_kind sv k \<longleftrightarrow>
     (case kind_specific k of
        None \<Rightarrow> True
      | Some x \<Rightarrow>
          sv_domain sv (provider x) = Inr (provider x) \<and> sv_domain sv (vendor x) = Inr (vendor x) \<and>
          skewer_from_str (sv_parse_err sv) (product x) = Inr (product x) \<and>
          skewer_from_str (sv_parse_err sv) (variant x) = Inr (variant x) \<and>
          sv_version sv (sv_version_core sv (spec_version x) @
            (if sv_version_pre sv (spec_version x) = '''' then '''' else ''-'' @ sv_version_pre sv (spec_version x)))
          = Inr (spec_version x))"

lemma pending_status:
  "strum_from_str e particle_status_variants particle_status_to_string ''Pending'' = Inr StatusPending"
  by (simp add: strum_from_str_def particle_status_variants_def)

lemma sub_camel: "sub_into_string (kind_sub k) = Some t \<Longrightarrow> camel_from_str perr t = Inr t"
proof -
  assume a: "sub_into_string (kind_sub k) = Some t"
  have "sub_to_camel_case (kind_sub k) = Some (Some t)" by (simp add: sub_to_camel_case_total a)
  then have "camel_unwrap t = Some t"
    using a by (cases "kind_sub k") (auto simp: camel_unwrap_sub_names)
  then show ?thesis by (auto simp: camel_unwrap_def camel_from_str_def split: if_splits)
qed

lemma read_new_row:
  assumes "readable_point sv (reg_point r)" "readable_kind sv (reg_kind r)"
  shows "read_row sv (new_row (params_from_registration sv r) n) =
    (case reg_kind r of
       KNative _ \<Rightarrow> Inl (err_of_string ''Native<?> requires a sub kind'')
     | k \<Rightarrow> Inr \<lparr>rec_details = \<lparr>det_stub = \<lparr>stub_point = reg_point r, stub_kind = k, stub_status = StatusPending\<rparr>,
                               det_properties = Map.empty\<rparr>,
                rec_location = particle_location_default\<rparr>)"
proof -
  let ?row = "new_row (params_from_registration sv r) n" and ?k = "reg_kind r"
  obtain q where q: "point_parent (reg_point r) = Some q" "sv_point sv (point_to_string q) = Inr q"
    "point_push (sv_point sv) q (seg_to_string (last (segments (reg_point r)))) = Inr (reg_point r)"
    using assms(1) by (auto simp: readable_point_def)
  have seg: "last_segment (reg_point r) = Some (last (segments (reg_point r)))"
    using q(1) by (auto simp: point_parent_def last_segment_def split: if_splits)
  have sub: "(case sub_into_string (kind_sub ?k) of None \<Rightarrow> Inr None
      | Some sub \<Rightarrow> res_bind (camel_from_str (sv_parse_err sv) sub) (\<lambda>c. Inr (Some c))) = Inr (sub_into_string (kind_sub ?k))"
    using sub_camel[of ?k _ "sv_parse_err sv"] by (auto split: option.splits)
  have spec: "read_specific sv ?row = Inr (kind_specific ?k)"
  proof (cases "kind_specific ?k")
    case (Some x)
    then show ?thesis using assms(2)
      by (cases x) (auto simp: read_specific_def new_row_def params_from_registration_def readable_kind_def Let_def
          split: if_splits)
  qed (simp add: read_specific_def new_row_def params_from_registration_def Let_def)
  show ?thesis
    using q seg sub spec
    by (simp add: read_row_def new_row_def params_from_registration_def Let_def base_kind_strum.from_str_display
        kind_parts_roundtrip read_point_opt_def pending_status
        particle_location_default_def split: kind.splits)
qed


section \<open>Facts: selecting\<close>

text \<open>Tables that can be read: the row of a particle is found by the texts of its parent and its
  last segment, and the parsers read these texts back.\<close>

definition row_ok :: "server \<Rightarrow> pg_particle \<Rightarrow> bool" where
  "row_ok sv r \<longleftrightarrow>
     (\<exists>q seg rec. pp_parent r = point_to_string q \<and> pp_segment r = seg_to_string seg \<and> route q = RSThis \<and>
        sv_point sv (point_to_string q) = Inr q \<and> read_row sv r = Inr rec \<and>
        stub_point (det_stub (rec_details rec)) = q\<lparr>segments := segments q @ [seg]\<rparr> \<and>
        sv_point sv (point_to_string (q\<lparr>segments := segments q @ [seg]\<rparr>)) = Inr (q\<lparr>segments := segments q @ [seg]\<rparr>))"

definition tables_ok :: "server \<Rightarrow> pg \<Rightarrow> bool" where
  "tables_ok sv s \<longleftrightarrow>
     list_all (row_ok sv) (pg_particles s) \<and> distinct (map (\<lambda>r. (pp_parent r, pp_segment r)) (pg_particles s))"

abbreviation child :: "point \<Rightarrow> point_seg \<Rightarrow> point" where
  "child q seg \<equiv> q\<lparr>segments := segments q @ [seg]\<rparr>"

text \<open>A row whose parent column is the text of a readable point is the row of a child of that point.\<close>

lemma row_child:
  assumes "row_ok sv r" "pp_parent r = point_to_string q" "sv_point sv (point_to_string q) = Inr q"
  obtains seg rec where "pp_segment r = seg_to_string seg" "decode_row sv r = Inr rec"
    "stub_point (det_stub (rec_details rec)) = child q seg" "route q = RSThis"
    "sv_point sv (point_to_string (child q seg)) = Inr (child q seg)"
  using assms by (auto simp: row_ok_def decode_row_def)

lemma find_distinct:
  assumes "distinct (map (\<lambda>r. (pp_parent r, pp_segment r)) rs)" "r \<in> set rs"
  shows "List.find (row_at (pp_parent r) (pp_segment r)) rs = Some r"
  using assms by (induction rs) (auto simp: row_at_def image_iff)

lemma record_of_child:
  assumes "tables_ok sv s" "r \<in> set (pg_particles s)" "pp_parent r = point_to_string q"
    "pp_segment r = seg_to_string seg" "decode_row sv r = Inr rec"
  shows "\<exists>props. pg_record sv (child q seg) s = Inr (rec\<lparr>rec_details := (rec_details rec)\<lparr>det_properties := props\<rparr>\<rparr>)"
proof -
  have "List.find (row_at (point_to_string q) (seg_to_string seg)) (pg_particles s) = Some r"
    using find_distinct[of "pg_particles s" r] assms by (simp add: tables_ok_def)
  then show ?thesis
    using assms(5)
    by (intro exI[of _ "properties_of (resource_id (point_to_string q) (seg_to_string seg) s) s"])
      (cases q, simp add: pg_record_def is_local_root_def point_parent_def last_segment_def)
qed

lemma query_path_snoc:
  "query_path sv s rt path walked (segs @ [seg]) =
     res_bind (query_path sv s rt path walked segs) (\<lambda>path.
       query_path sv s rt path (walked @ segs) [seg])"
  by (induction segs arbitrary: path walked) (auto simp: res_bind_assoc)

lemma query_child:
  assumes "tables_ok sv s" "r \<in> set (pg_particles s)" "pp_parent r = point_to_string q"
    "pp_segment r = seg_to_string seg" "decode_row sv r = Inr rec"
    "stub_point (det_stub (rec_details rec)) = child q seg" "pg_query sv q s = Inr hier"
  shows "pg_query sv (child q seg) s = Inr (hierarchy_push hier (PointKindSeg seg (stub_kind (det_stub (rec_details rec)))))"
proof -
  obtain props where "pg_record sv (child q seg) s = Inr (rec\<lparr>rec_details := (rec_details rec)\<lparr>det_properties := props\<rparr>\<rparr>)"
    using record_of_child[OF assms(1-5)] by blast
  then have "pg_record sv \<lparr>route = route q, segments = segments q @ [seg]\<rparr> s =
      Inr (rec\<lparr>rec_details := (rec_details rec)\<lparr>det_properties := props\<rparr>\<rparr>)"
    by (metis (full_types) point_def.surjective point_def.update_convs(2) old.unit.exhaust)
  then show ?thesis
    using assms(6,7) by (simp add: pg_query_def query_path_snoc last_segment_def)
qed

lemma decode_stubs_ok:
  "list_all (row_ok sv) rs \<Longrightarrow> \<exists>sts. decode_stubs sv rs = Inr sts \<and>
     sts = map (\<lambda>r. case decode_row sv r of Inr rec \<Rightarrow> det_stub (rec_details rec)) rs"
  by (induction rs) (auto simp: row_ok_def decode_row_def)

text \<open>The state of a search: it stands at a readable point whose hierarchy it knows.\<close>

definition search_ok :: "server \<Rightarrow> pg \<Rightarrow> 'm sub_select \<Rightarrow> bool" where
  "search_ok sv s sub \<longleftrightarrow>
     sv_point sv (point_to_string (ss_point sub)) = Inr (ss_point sub) \<and>
     pg_query sv (ss_point sub) s = Inr (ss_hierarchy sub)"

text \<open>What a search finds first: the children that satisfy its conditions.\<close>

lemma matched_rows:
  assumes "tables_ok sv s" "search_ok sv s sub"
    and "decode_stubs sv (filter (satisfies (conditions sub)) (pg_particles s)) = Inr so_far" "st \<in> set so_far"
  obtains seg where "stub_point st = child (ss_point sub) seg" "route (ss_point sub) = RSThis"
    "sv_point sv (point_to_string (stub_point st)) = Inr (stub_point st)"
    "pg_query sv (stub_point st) s = Inr (hierarchy_push (ss_hierarchy sub) (PointKindSeg seg (stub_kind st)))"
    "\<exists>r \<in> set (pg_particles s). \<exists>rec. read_row sv r = Inr rec \<and> det_stub (rec_details rec) = st"
proof -
  have ok: "list_all (row_ok sv) (filter (satisfies (conditions sub)) (pg_particles s))"
    using assms(1) by (auto simp: tables_ok_def list_all_iff)
  from decode_stubs_ok[OF this] assms(3,4) obtain r where r: "r \<in> set (pg_particles s)"
    "satisfies (conditions sub) r" "st = (case decode_row sv r of Inr rec \<Rightarrow> det_stub (rec_details rec))"
    by auto
  have "row_ok sv r" using assms(1) r(1) by (auto simp: tables_ok_def list_all_iff)
  moreover have par: "pp_parent r = point_to_string (ss_point sub)"
    using r(2) by (simp add: satisfies_def conditions_def)
  ultimately obtain seg rec where c: "pp_segment r = seg_to_string seg" "decode_row sv r = Inr rec"
    "stub_point (det_stub (rec_details rec)) = child (ss_point sub) seg" "route (ss_point sub) = RSThis"
    "sv_point sv (point_to_string (child (ss_point sub) seg)) = Inr (child (ss_point sub) seg)"
    using row_child assms(2) unfolding search_ok_def by metis
  from c(2) have "read_row sv r = Inr rec" by (auto simp: decode_row_def split: sum.splits)
  then show ?thesis
    using that[of seg] c r query_child[OF assms(1) r(1) par c(1,2,3)] assms(2)
    by (auto simp: search_ok_def)
qed


text \<open>The search for a child that was matched is again at a readable point.\<close>

lemma search_ok_child:
  assumes "tables_ok sv s" "search_ok sv s sub"
    and "decode_stubs sv (filter (satisfies (conditions sub)) (pg_particles s)) = Inr so_far" "st \<in> set so_far"
    and "last_segment (stub_point st) = Some seg" "push_segment (ss_point sub) seg = Inr p"
  shows "p = stub_point st" "length (segments p) = Suc (length (segments (ss_point sub)))"
    "search_ok sv s (sub_sub_select sub p hs (hierarchy_push (ss_hierarchy sub) (PointKindSeg seg (stub_kind st))))"
proof -
  obtain seg' where m: "stub_point st = child (ss_point sub) seg'"
    "sv_point sv (point_to_string (stub_point st)) = Inr (stub_point st)"
    "pg_query sv (stub_point st) s = Inr (hierarchy_push (ss_hierarchy sub) (PointKindSeg seg' (stub_kind st)))"
    using matched_rows[OF assms(1-4)] by metis
  then have "seg' = seg" using assms(5) by (simp add: last_segment_def)
  moreover from this show p: "p = stub_point st"
    using assms(6) m(1) by (auto simp: push_segment_def split: if_splits)
  ultimately show "search_ok sv s (sub_sub_select sub p hs (hierarchy_push (ss_hierarchy sub) (PointKindSeg seg (stub_kind st))))"
    using m by (simp add: search_ok_def sub_sub_select_def)
  show "length (segments p) = Suc (length (segments (ss_point sub)))" using p m by simp
qed

text \<open>Every member of a list of searches below comes from one of them.\<close>

lemma map_sum_Inr_iff [simp]: "map_sum f g z = Inr y \<longleftrightarrow> (\<exists>x. z = Inr x \<and> y = g x)"
  by (cases z) auto

lemma select_below_mem:
  assumes "select_below rec sub hs sts = Some (Inr below)" "x \<in> set below"
  shows "\<exists>st \<in> set sts. \<exists>seg p list. last_segment (stub_point st) = Some seg \<and>
    push_segment (ss_point sub) seg = Inr p \<and>
    rec (sub_sub_select sub p hs (hierarchy_push (ss_hierarchy sub) (PointKindSeg seg (stub_kind st)))) = Some (Inr list) \<and>
    x \<in> set list"
  using assms
proof (induction sts arbitrary: below)
  case (Cons st sts)
  show ?case
  proof (cases "last_segment (stub_point st)")
    case None
    with Cons show ?thesis by auto
  next
    case (Some seg)
    with Cons.prems(1) obtain p list rest where r: "push_segment (ss_point sub) seg = Inr p"
      "rec (sub_sub_select sub p hs (hierarchy_push (ss_hierarchy sub) (PointKindSeg seg (stub_kind st)))) = Some (Inr list)"
      "select_below rec sub hs sts = Some (Inr rest)" "below = list @ rest"
      by (auto split: sum.splits option.splits)
    then show ?thesis
      using Some Cons.IH[OF r(3)] Cons.prems(2) by (cases "x \<in> set list") auto
  qed
qed simp

lemma retain_matching_mem:
  "retain_matching sv sub sts = Some kept \<Longrightarrow> st \<in> set kept \<Longrightarrow> st \<in> set sts \<and>
     (\<exists>seg. last_segment (stub_point st) = Some seg \<and>
        selector_matches (sv_req sv) (ss_pattern sub) (hierarchy_push (ss_hierarchy sub) (PointKindSeg seg (stub_kind st))) = Some True)"
  by (induction sts arbitrary: kept) (auto split: option.splits if_splits)

text \<open>Whether a selected particle matches, or was reached with all hops used up.\<close>

definition is_match_of :: "server \<Rightarrow> pg \<Rightarrow> selector \<Rightarrow> stub \<Rightarrow> bool" where
  "is_match_of sv s pattern st \<longleftrightarrow>
     (\<exists>h. pg_query sv (stub_point st) s = Inr h \<and> selector_matches (sv_req sv) pattern h = Some True)"

lemma sub_select_sound:
  assumes "tables_ok sv s" "search_ok sv s sub" "pg_sub_select n sv s sub = Some (Inr sts)" "st \<in> set sts"
  shows "is_match_of sv s (ss_pattern sub) st \<or>
    (\<forall>h \<in> set (ss_hops sub). hop_segment h \<noteq> SSRecursive) \<and>
      length (segments (stub_point st)) = Suc (length (segments (ss_point sub)) + length (ss_hops sub))"
  using assms(2-4)
proof (induction n arbitrary: sub sts)
  case (Suc n)
  let ?rows = "filter (satisfies (conditions sub)) (pg_particles s)"
  obtain so_far where dec: "decode_stubs sv ?rows = Inr so_far"
    using Suc.prems(2) by (cases "decode_stubs sv ?rows") auto
  note m = matched_rows[OF assms(1) Suc.prems(1) dec]
  show ?case
  proof (cases "ss_hops sub")
    case Nil
    with Suc.prems dec have "st \<in> set so_far" by auto
    then obtain seg where "stub_point st = child (ss_point sub) seg" using m by metis
    with Nil show ?thesis by simp
  next
    case (Cons h hs)
    define rest where "rest = (case hop_segment h of SSRecursive \<Rightarrow> h # hs | _ \<Rightarrow> hs)"
    from Suc.prems(2) dec Cons obtain below kept where b: "select_below (pg_sub_select n sv s) sub rest so_far = Some (Inr below)"
      "retain_matching sv sub so_far = Some kept" "sts = kept @ below"
      by (auto simp: rest_def split: option.splits sum.splits)
    consider "st \<in> set kept" | "st \<in> set below" using Suc.prems(3) b(3) by auto
    then show ?thesis
    proof cases
      case 1
      with retain_matching_mem[OF b(2)] obtain seg where k: "st \<in> set so_far" "last_segment (stub_point st) = Some seg"
        "selector_matches (sv_req sv) (ss_pattern sub) (hierarchy_push (ss_hierarchy sub) (PointKindSeg seg (stub_kind st))) = Some True"
        by blast
      obtain seg' where "stub_point st = child (ss_point sub) seg'"
        "pg_query sv (stub_point st) s = Inr (hierarchy_push (ss_hierarchy sub) (PointKindSeg seg' (stub_kind st)))"
        using m[OF k(1)] by metis
      with k show ?thesis by (auto simp: is_match_of_def last_segment_def)
    next
      case 2
      then obtain st' seg p list where r: "st' \<in> set so_far" "last_segment (stub_point st') = Some seg"
        "push_segment (ss_point sub) seg = Inr p"
        "pg_sub_select n sv s (sub_sub_select sub p rest (hierarchy_push (ss_hierarchy sub) (PointKindSeg seg (stub_kind st')))) = Some (Inr list)"
        "st \<in> set list"
        using select_below_mem[OF b(1)] by metis
      note c = search_ok_child[OF assms(1) Suc.prems(1) dec r(1-3)]
      from Suc.IH[OF c(3) r(4,5)] c(2) Cons show ?thesis
        by (auto simp: sub_sub_select_def rest_def split: seg_selector.splits)
    qed
  qed
qed simp


lemma root_hops_exact:
  "\<forall>h \<in> set (take (length (query_root_segments hs)) hs). hop_segment h \<noteq> SSRecursive"
  by (induction hs) (auto split: seg_selector.splits exact_point_seg.splits)

lemma select_stubs_cases:
  assumes "pg_select_stubs n sv sel s = Some (Inr stubs)"
  obtains hierarchy hs list where "pg_query sv (query_root (sl_pattern sel)) s = Inr hierarchy"
    "sub_select_hops (sl_pattern sel) = Some hs"
    "pg_sub_select n sv s (select_sub_select sel (query_root (sl_pattern sel)) hs hierarchy) = Some (Inr list)"
    "stubs = list @ (if matches_root (sl_pattern sel) then [root_stub] else [])"
  using assms by (auto simp: pg_select_stubs_def Let_def split: option.splits sum.splits)


text \<open>The depth of the tables bounds the calls a search needs.\<close>

definition depth_at_most :: "server \<Rightarrow> nat \<Rightarrow> pg \<Rightarrow> bool" where
  "depth_at_most sv d s \<longleftrightarrow>
     (\<forall>r \<in> set (pg_particles s). \<forall>rec. read_row sv r = Inr rec \<longrightarrow> length (segments (stub_point (det_stub (rec_details rec)))) \<le> d)"

lemma select_below_returns:
  assumes "\<And>st seg p. st \<in> set sts \<Longrightarrow> last_segment (stub_point st) = Some seg \<Longrightarrow> push_segment (ss_point sub) seg = Inr p \<Longrightarrow>
    rec (sub_sub_select sub p hs (hierarchy_push (ss_hierarchy sub) (PointKindSeg seg (stub_kind st)))) \<noteq> None"
  shows "select_below rec sub hs sts \<noteq> None"
  using assms
proof (induction sts)
  case (Cons st sts)
  then have "select_below rec sub hs sts \<noteq> None" by simp
  with Cons.prems[of st] show ?case by (fastforce split: option.splits sum.splits)
qed simp

lemma retain_matching_returns:
  "(\<And>st. st \<in> set sts \<Longrightarrow> last_segment (stub_point st) \<noteq> None) \<Longrightarrow> retain_matching sv sub sts \<noteq> None"
proof (induction sts)
  case (Cons st sts)
  obtain seg where "last_segment (stub_point st) = Some seg" using Cons.prems[of st] by auto
  moreover obtain hs where "ss_pattern sub = Selector hs" by (cases "ss_pattern sub")
  moreover have "retain_matching sv sub sts \<noteq> None" using Cons by simp
  ultimately show ?case by (auto simp: hierarchy_push_def selector_matches_selects)
qed simp

lemma sub_select_returns:
  assumes "tables_ok sv s" "depth_at_most sv d s" "search_ok sv s sub" "d < n + length (segments (ss_point sub))" "0 < n"
  shows "pg_sub_select n sv s sub \<noteq> None"
  using assms(3-5)
proof (induction n arbitrary: sub)
  case (Suc n)
  let ?rows = "filter (satisfies (conditions sub)) (pg_particles s)"
  have "list_all (row_ok sv) ?rows" using assms(1) by (auto simp: tables_ok_def list_all_iff)
  then obtain so_far where dec: "decode_stubs sv ?rows = Inr so_far" using decode_stubs_ok by metis
  note m = matched_rows[OF assms(1) Suc.prems(1) dec]
  have seg: "last_segment (stub_point st) \<noteq> None" if "st \<in> set so_far" for st
    using m[OF that] by (metis last_segment_def append_is_Nil_conv not_Cons_self2 option.distinct(1) point_def.select_convs(2) point_def.surjective point_def.update_convs(2))
  have deep: "length (segments (stub_point st)) \<le> d" if "st \<in> set so_far" for st
    using m[OF that] assms(2) unfolding depth_at_most_def by metis
  have below: "select_below (pg_sub_select n sv s) sub hs so_far \<noteq> None" for hs
  proof (rule select_below_returns)
    fix st seg p assume a: "st \<in> set so_far" "last_segment (stub_point st) = Some seg" "push_segment (ss_point sub) seg = Inr p"
    note c = search_ok_child[OF assms(1) Suc.prems(1) dec a]
    from deep[OF a(1)] c(1,2) Suc.prems(2) have "0 < n" "d < n + length (segments p)" by auto
    then show "pg_sub_select n sv s (sub_sub_select sub p hs (hierarchy_push (ss_hierarchy sub) (PointKindSeg seg (stub_kind st)))) \<noteq> None"
      using Suc.IH[OF c(3)] by (simp add: sub_sub_select_def)
  qed
  have kept: "retain_matching sv sub so_far \<noteq> None" using retain_matching_returns seg by blast
  show ?case
  proof (cases "ss_hops sub")
    case (Cons h hs)
    obtain b where "select_below (pg_sub_select n sv s) sub (case hop_segment h of SSRecursive \<Rightarrow> h # hs | _ \<Rightarrow> hs) so_far = Some b"
      using below by blast
    with dec kept Cons show ?thesis by (cases b) auto
  qed (simp add: dec)
qed simp


text \<open>A selection ends: as many nested searches as the deepest particle has segments, and one
  more, are enough.\<close>

theorem selections_return:
  assumes "tables_ok sv s" "depth_at_most sv d s"
    and "sv_point sv (point_to_string (query_root (sl_pattern sel))) = Inr (query_root (sl_pattern sel))"
  shows "\<exists>r. pg_select_stubs (Suc d) sv sel s = Some r"
proof (cases "pg_query sv (query_root (sl_pattern sel)) s")
  case (Inr hierarchy)
  obtain hs where hs: "sub_select_hops (sl_pattern sel) = Some hs" using query_root_split by blast
  have "search_ok sv s (select_sub_select sel (query_root (sl_pattern sel)) hs hierarchy)"
    using assms(3) Inr by (simp add: search_ok_def select_sub_select_def)
  then have "pg_sub_select (Suc d) sv s (select_sub_select sel (query_root (sl_pattern sel)) hs hierarchy) \<noteq> None"
    by (rule sub_select_returns[OF assms(1,2)]) auto
  then show ?thesis using Inr hs by (auto simp: pg_select_stubs_def Let_def simp del: pg_sub_select.simps)
qed (simp add: pg_select_stubs_def Let_def)

text \<open>A selector of exact segments selects the children of the particle it names, all of them, and
  not the particle.\<close>

theorem exact_selectors_select_the_children:
  assumes "tables_ok sv s" "hops (sl_pattern sel) \<noteq> []"
    and exact: "length (segments (query_root (sl_pattern sel))) = length (hops (sl_pattern sel))"
    and "sv_point sv (point_to_string (query_root (sl_pattern sel))) = Inr (query_root (sl_pattern sel))"
    and "pg_query sv (query_root (sl_pattern sel)) s = Inr hierarchy"
  shows "\<exists>stubs. pg_select_stubs (Suc n) sv sel s = Some (Inr stubs) \<and>
    (\<forall>st. st \<in> set stubs \<longleftrightarrow>
       (\<exists>r \<in> set (pg_particles s). \<exists>rec. read_row sv r = Inr rec \<and> det_stub (rec_details rec) = st \<and>
          point_parent (stub_point st) = Some (query_root (sl_pattern sel))))"
proof -
  let ?root = "query_root (sl_pattern sel)"
  let ?sub = "select_sub_select sel ?root [] hierarchy"
  let ?rows = "filter (satisfies (conditions ?sub)) (pg_particles s)"
  have ok: "search_ok sv s ?sub" using assms(4,5) by (simp add: search_ok_def select_sub_select_def)
  have conds: "satisfies (conditions ?sub) r \<longleftrightarrow> pp_parent r = point_to_string ?root" for r
    by (simp add: conditions_def satisfies_def select_sub_select_def)
  have rows: "list_all (row_ok sv) ?rows" using assms(1) by (auto simp: tables_ok_def list_all_iff)
  obtain stubs where dec: "decode_stubs sv ?rows = Inr stubs"
    "stubs = map (\<lambda>r. case decode_row sv r of Inr rec \<Rightarrow> det_stub (rec_details rec)) ?rows"
    using decode_stubs_ok[OF rows] by blast
  have not_root: "\<not> matches_root (sl_pattern sel)"
  proof -
    obtain h hs where h: "hops (sl_pattern sel) = h # hs" using assms(2) by (cases "hops (sl_pattern sel)") auto
    have "\<exists>e. hop_segment h = SSExact e"
      using exact h by (auto simp: query_root_def split: seg_selector.splits)
    then show ?thesis using h by (auto simp: matches_root_def)
  qed
  have sel: "pg_select_stubs (Suc n) sv sel s = Some (Inr stubs)"
    using assms(5) exact dec(1) not_root query_root_split[of "sl_pattern sel"]
    by (simp add: pg_select_stubs_def Let_def) (simp add: select_sub_select_def)
  have "st \<in> set stubs \<longleftrightarrow>
       (\<exists>r \<in> set (pg_particles s). \<exists>rec. read_row sv r = Inr rec \<and> det_stub (rec_details rec) = st \<and>
          point_parent (stub_point st) = Some ?root)" for st
  proof
    assume "st \<in> set stubs"
    from matched_rows[OF assms(1) ok dec(1) this] obtain seg where m: "stub_point st = child ?root seg"
      "\<exists>r \<in> set (pg_particles s). \<exists>rec. read_row sv r = Inr rec \<and> det_stub (rec_details rec) = st"
      unfolding select_sub_select_def sub_select.select_convs by metis
    then have "point_parent (stub_point st) = Some ?root"
      by (simp add: point_parent_def query_root_def)
    with m(2) show "\<exists>r \<in> set (pg_particles s). \<exists>rec. read_row sv r = Inr rec \<and> det_stub (rec_details rec) = st \<and>
          point_parent (stub_point st) = Some ?root" by blast
  next
    assume "\<exists>r \<in> set (pg_particles s). \<exists>rec. read_row sv r = Inr rec \<and> det_stub (rec_details rec) = st \<and>
          point_parent (stub_point st) = Some ?root"
    then obtain r rec where r: "r \<in> set (pg_particles s)" "read_row sv r = Inr rec" "det_stub (rec_details rec) = st"
      "point_parent (stub_point st) = Some ?root" by blast
    from r(1) assms(1) have "row_ok sv r" by (auto simp: tables_ok_def list_all_iff)
    then obtain q seg where "pp_parent r = point_to_string q" "stub_point st = child q seg"
      using r(2,3) by (auto simp: row_ok_def)
    moreover from this r(4) have "q = ?root" by (cases q) (simp add: point_parent_def)
    ultimately have "r \<in> set ?rows" using r(1) conds by simp
    with dec(2) r(2,3) show "st \<in> set stubs" by (force simp: decode_row_def)
  qed
  with sel show ?thesis by blast
qed

section \<open>Facts: owners and grants\<close>

lemma chown_all_only_supers:
  assumes "chown_all n sv before owner by xs s = Some (Inr s')"
  shows "\<exists>points. xs = map SPoint points \<and>
    (\<forall>p \<in> set points. \<exists>a. pg_access n sv by p before = Some (Inr a) \<and> has_super a) \<and>
    s' = s\<lparr>pg_particles := map (\<lambda>r. if pp_point r \<in> point_to_string ` set points
      then r\<lparr>pp_owner := point_to_string owner\<rparr> else r) (pg_particles s)\<rparr>"
  using assms
proof (induction xs arbitrary: s)
  case (Cons x xs)
  let ?set = "\<lambda>on r. if pp_point r = point_to_string on then r\<lparr>pp_owner := point_to_string owner\<rparr> else r"
  from Cons.prems obtain on a where x: "x = SPoint on" "pg_access n sv by on before = Some (Inr a)" "has_super a"
    "chown_all n sv before owner by xs (s\<lparr>pg_particles := map (?set on) (pg_particles s)\<rparr>) = Some (Inr s')"
    by (auto split: substance.splits option.splits sum.splits if_splits)
  from Cons.IH[OF x(4)] obtain points where p: "xs = map SPoint points"
    "\<forall>p \<in> set points. \<exists>a. pg_access n sv by p before = Some (Inr a) \<and> has_super a"
    "s' = s\<lparr>pg_particles := map (\<lambda>r. if pp_point r \<in> point_to_string ` set points
      then r\<lparr>pp_owner := point_to_string owner\<rparr> else r) (map (?set on) (pg_particles s))\<rparr>"
    by auto
  then show ?case using x by (intro exI[of _ "on # points"]) (auto simp: image_iff)
qed simp

text \<open>C20. Owners change all together or not at all: when \<open>chown\<close> succeeds, the particle that asks has
  super access on every selected particle, and the owner of these particles and of no other is
  replaced; when it fails, nothing has changed.\<close>

theorem only_supers_change_owners:
  assumes "pg_chown n sv any on owner by s = Some (r, s')"
  shows "case r of
      Inl e \<Rightarrow> s' = s
    | Inr _ \<Rightarrow> \<exists>points. (pg_select n sv (points_select any on) s :: unit substance list run) = Some (Inr (map SPoint points)) \<and>
        (\<forall>p \<in> set points. \<exists>a. pg_access n sv by p s = Some (Inr a) \<and> has_super a) \<and>
        s' = s\<lparr>pg_particles := map (\<lambda>r. if pp_point r \<in> point_to_string ` set points
          then r\<lparr>pp_owner := point_to_string owner\<rparr> else r) (pg_particles s)\<rparr>"
proof (cases r)
  case (Inr u)
  from assms Inr obtain selection where sel: "(pg_select n sv (points_select any on) s :: unit substance list run) = Some (Inr selection)"
    "chown_all n sv s owner by selection s = Some (Inr s')"
    by (auto simp: pg_chown_def split: option.splits sum.splits)
  with chown_all_only_supers[OF sel(2)] Inr show ?thesis by auto
qed (use assms in \<open>auto simp: pg_chown_def split: option.splits sum.splits\<close>)


text \<open>Records and hierarchies do not depend on the grants.\<close>

lemma record_grants [simp]: "pg_record sv p (s\<lparr>pg_grants := gs, pg_grant_serial := n\<rparr>) = pg_record sv p s"
  by (simp add: pg_record_def properties_of_def resource_id_def cong: option.case_cong)

lemma query_grants [simp]: "pg_query sv p (s\<lparr>pg_grants := gs, pg_grant_serial := n\<rparr>) = pg_query sv p s"
proof -
  have "query_path sv (s\<lparr>pg_grants := gs, pg_grant_serial := n\<rparr>) rt path walked segs = query_path sv s rt path walked segs"
    for rt path walked segs by (induction segs arbitrary: path walked) simp_all
  then show ?thesis by (simp add: pg_query_def)
qed

lemma decode_grants_append:
  assumes "decode_grants sv gs = Some (Inr is)" "decode_grants sv hs = Some (Inr js)"
  shows "decode_grants sv (gs @ hs) = Some (Inr (is @ js))"
  using assms
proof (induction gs arbitrary: "is")
  case (Cons x gs)
  obtain g giver where x: "x = (g, giver)" by (cases x)
  with Cons.prems obtain i js' where "read_grant sv g giver = Some (Inr i)" "decode_grants sv gs = Some (Inr js')" "is = i # js'"
    by (auto split: option.splits sum.splits)
  with Cons x show ?case by simp
qed simp

lemma find_by_id:
  assumes "distinct (map pp_id rs)" "r \<in> set rs"
  shows "List.find (\<lambda>q. pp_id q = pp_id r) rs = Some r"
  using assms by (induction rs) (auto simp: image_iff)

text \<open>What the parsers must do for a grant to be read back.\<close>

definition readable_grant :: "server \<Rightarrow> access_grant \<Rightarrow> bool" where
  "readable_grant sv g \<longleftrightarrow>
     (\<forall>t. selector_to_string (on_point g) = Some t \<longrightarrow> sv_selector sv t = Inr (on_point g)) \<and>
     (\<forall>t. selector_to_string (to_point g) = Some t \<longrightarrow> sv_selector sv t = Inr (to_point g)) \<and>
     sv_point sv (point_to_string (by_particle g)) = Inr (by_particle g) \<and>
     (\<forall>p. grant_kind g = GrantPrivilege p \<longrightarrow> sv_privilege sv (privilege_to_string p) = Inr p)"

lemma read_stored_grant:
  assumes "readable_grant sv g" "selector_to_string (on_point g) = Some on" "selector_to_string (to_point g) = Some to"
  shows "read_grant sv \<lparr>pg_id = i, pg_kind = grant_tag (grant_kind g), pg_data = grant_data (grant_kind g),
      pg_query_root = root, pg_on_point = on, pg_to_point = to, pg_by_particle = b\<rparr> (point_to_string (by_particle g)) =
    Some (Inr (IndexedGrant (of_nat i) g))"
  using assms
  by (cases "grant_kind g") (auto simp: read_grant_def read_grant_kind_def readable_grant_def mask_roundtrip)


section \<open>Facts: locations\<close>

text \<open>The operations that change the tables.\<close>

inductive pg_step :: "server \<Rightarrow> pg \<Rightarrow> pg \<Rightarrow> bool" for sv where
  step_register: "pg_register sv r s = Some (x, s') \<Longrightarrow> pg_step sv s s'"
| step_star: "pg_assign_star sv p q s = Some (x, s') \<Longrightarrow> pg_step sv s s'"
| step_host: "pg_assign_host sv p q s = Some (x, s') \<Longrightarrow> pg_step sv s s'"
| step_status: "pg_set_status sv p st s = Some (x, s') \<Longrightarrow> pg_step sv s s'"
| step_properties: "pg_set_properties sv p props s = Some (x, s') \<Longrightarrow> pg_step sv s s'"
| step_sequence: "pg_sequence sv p s = Some (y, s') \<Longrightarrow> pg_step sv s s'"
| step_delete: "pg_delete n sv () sel s = Some ((z :: cosmic_err + unit substance list), s') \<Longrightarrow> pg_step sv s s'"
| step_grant: "pg_grant sv g s = Some (x, s') \<Longrightarrow> pg_step sv s s'"
| step_chown: "pg_chown n sv () on owner by s = Some (x, s') \<Longrightarrow> pg_step sv s s'"
| step_remove: "pg_remove_access n sv gid to s = Some (x, s') \<Longrightarrow> pg_step sv s s'"
| step_nuke: "pg_nuke s = Some (x, s') \<Longrightarrow> pg_step sv s s'"

definition unlocated :: "pg \<Rightarrow> bool" where
  "unlocated s \<longleftrightarrow> (\<forall>r \<in> set (pg_particles s). pp_star r = None \<and> pp_host r = None)"

definition others_unlocated :: "server \<Rightarrow> bool" where
  "others_unlocated sv \<longleftrightarrow> (\<forall>t s s'. sv_other sv t s = Inr s' \<longrightarrow> unlocated s \<longrightarrow> unlocated s')"

lemma pasted_unlocated:
  assumes "others_unlocated sv" "pasted sv t vs f s = Inr s'" "unlocated s"
    and "\<And>s'. f s = Inr s' \<Longrightarrow> unlocated s'"
  shows "unlocated s'"
  using assms unfolding pasted_def others_unlocated_def by (metis (full_types))

lemma delete_unlocated:
  "others_unlocated sv \<Longrightarrow> unlocated s \<Longrightarrow> delete_property sv a b key s = Inr s' \<Longrightarrow> unlocated s'"
  unfolding delete_property_def by (erule pasted_unlocated, assumption+) (auto simp: unlocated_def)

lemma pasted_properties_unlocated:
  assumes "others_unlocated sv" "unlocated s"
    and "pasted sv t vs (\<lambda>s. res_bind (f s) (\<lambda>ps. Inr (s\<lparr>pg_properties := ps\<rparr>))) s = Inr s'"
  shows "unlocated s'"
proof (rule pasted_unlocated[OF assms(1,3,2)])
  fix s2 assume "res_bind (f s) (\<lambda>ps. Inr (s\<lparr>pg_properties := ps\<rparr>)) = Inr s2"
  with assms(2) show "unlocated s2" by (auto simp: res_bind_Inr_iff unlocated_def)
qed

lemma mod_unlocated:
  assumes "others_unlocated sv" "unlocated s"
  shows "register_property sv a b m s = Inr s' \<Longrightarrow> unlocated s'" (is "?r \<Longrightarrow> _")
    and "upsert_property sv a b m s = Inr s' \<Longrightarrow> unlocated s'" (is "?u \<Longrightarrow> _")
proof -
  show "unlocated s'" if ?r
  proof (cases m)
    case (PropSet k v l)
    with that show ?thesis
      by (auto simp del: append.simps simp: Let_def intro: pasted_properties_unlocated[OF assms])
  qed (use that delete_unlocated[OF assms] in \<open>simp\<close>)
  show "unlocated s'" if ?u
  proof (cases m)
    case (PropSet k v l)
    with that show ?thesis
      by (auto simp del: append.simps simp: Let_def intro: pasted_properties_unlocated[OF assms])
  qed (use that delete_unlocated[OF assms] in \<open>simp\<close>)
qed

lemma all_properties_unlocated:
  assumes "\<And>m s s'. f m s = Inr s' \<Longrightarrow> unlocated s \<Longrightarrow> unlocated s'"
  shows "all_properties f ms s = Inr s' \<Longrightarrow> unlocated s \<Longrightarrow> unlocated s'"
proof (induction ms arbitrary: s)
  case (Cons x ms)
  obtain i m where x: "x = (i, m)" by (cases x)
  with Cons.prems obtain s1 where "f m s = Inr s1" "all_properties f ms s1 = Inr s'"
    by (auto simp: res_bind_Inr_iff)
  with Cons show ?case using assms by blast
qed simp

lemma transaction_unlocated:
  assumes "transaction f s = Some (x, s')" "unlocated s" "\<And>s'. f s = Inr s' \<Longrightarrow> unlocated s'"
  shows "unlocated s'"
  using assms by (auto simp: transaction_def split: sum.splits)

lemma at_point_cases:
  assumes "at_point p e1 e2 f s = Some (x, s')"
  obtains "s' = s" | a b where "f a b s = Some (x, s')"
  using assms by (auto simp: at_point_def split: option.splits)

lemma update_rows_unlocated:
  "unlocated s \<Longrightarrow> (\<And>r. pp_star (f r) = pp_star r \<and> pp_host (f r) = pp_host r) \<Longrightarrow> unlocated (update_rows a b f s)"
  by (auto simp: unlocated_def update_rows_def)

lemma sequence_unlocated:
  assumes "others_unlocated sv" "unlocated s"
    and "transaction (pasted sv t vs (\<lambda>s. if g s then Inl e
           else Inr (update_rows a b (\<lambda>r. r\<lparr>pp_sequence := pp_sequence r + 1\<rparr>) s))) s = Some (x, s')"
  shows "unlocated s'"
proof (rule transaction_unlocated[OF assms(3,2)])
  fix s2 assume "pasted sv t vs (\<lambda>s. if g s then Inl e
           else Inr (update_rows a b (\<lambda>r. r\<lparr>pp_sequence := pp_sequence r + 1\<rparr>) s)) s = Inr s2"
  then show "unlocated s2"
    by (rule pasted_unlocated[OF assms(1) _ assms(2)]) (use assms(2) in \<open>auto simp: update_rows_unlocated split: if_splits\<close>)
qed

lemma step_unlocated:
  assumes "others_unlocated sv" "pg_step sv s s'" "unlocated s"
  shows "unlocated s'"
  using assms(2)
proof cases
  case (step_register r x)
  let ?ps = "params_from_registration sv r"
  have "unlocated s2" if "res_bind (insert_particle sv ?ps s)
      (all_properties (register_property sv (rp_parent ?ps) (rp_segment ?ps)) (reg_props r)) = Inr s2" for s2
  proof -
    from that obtain s1 where s1: "insert_particle sv ?ps s = Inr s1"
      "all_properties (register_property sv (rp_parent ?ps) (rp_segment ?ps)) (reg_props r) s1 = Inr s2"
      by (auto simp: res_bind_Inr_iff)
    from s1(1) have "unlocated s1"
      unfolding insert_particle_def
      by (rule pasted_unlocated[OF assms(1) _ assms(3)]) (use assms(3) in \<open>auto simp: unlocated_def new_row_def split: if_splits\<close>)
    with s1(2) mod_unlocated(1)[OF assms(1)] show ?thesis
      using all_properties_unlocated[of "register_property sv (rp_parent ?ps) (rp_segment ?ps)"] by blast
  qed
  with step_register assms(3) show ?thesis
    by (auto simp: pg_register_def Let_def split: if_splits elim!: transaction_unlocated)
next
  case (step_star p q x)
  then show ?thesis using assms(3) unfolding pg_assign_star_def pg_assign_def by (auto elim!: at_point_cases)
next
  case (step_host p q x)
  then show ?thesis using assms(3) unfolding pg_assign_host_def pg_assign_def by (auto elim!: at_point_cases)
next
  case (step_status p st x)
  then show ?thesis using assms(1,3) unfolding pg_set_status_def
    by (auto elim!: at_point_cases transaction_unlocated pasted_unlocated simp: update_rows_unlocated)
next
  case (step_properties p props x)
  then show ?thesis using assms(1,3) unfolding pg_set_properties_def
    by (auto elim!: at_point_cases transaction_unlocated
        intro: all_properties_unlocated[of "upsert_property sv _ _", OF mod_unlocated(2)[OF assms(1)]])
next
  case (step_sequence p y)
  from step_sequence[unfolded pg_sequence_def] show ?thesis
  proof (cases rule: at_point_cases)
    case (2 a b)
    then obtain x s1 where t: "transaction (pasted sv
              (''UPDATE particles SET sequence=sequence+1 WHERE parent='' @ quoted a @
               '' AND point_segment='' @ quoted b) [a, b]
              (\<lambda>s. if list_ex (\<lambda>r. row_at a b r \<and> sint (pp_sequence r) = 2 ^ 31 - 1) (pg_particles s)
                    then Inl (sv_err sv ''integer out of range'')
                    else Inr (update_rows a b (\<lambda>r. r\<lparr>pp_sequence := pp_sequence r + 1\<rparr>) s))) s = Some (x, s1)"
      "s' = s \<or> s' = s1"
      by (fastforce simp del: append.simps split: option.splits sum.splits)
    from sequence_unlocated[OF assms(1,3) t(1)] t(2) assms(3) show ?thesis by blast
  qed (simp add: assms(3))
next
  case (step_delete n sel z)
  then show ?thesis using assms(3) by (auto simp: pg_delete_def split: option.splits sum.splits if_splits)
next
  case (step_grant g x)
  then show ?thesis using assms(3) by (auto simp: pg_grant_def unlocated_def split: option.splits)
next
  case (step_chown n on owner by' x)
  show ?thesis
  proof (cases x)
    case (Inr u)
    with step_chown obtain sel :: "unit substance list" where "chown_all n sv s owner by' sel s = Some (Inr s')"
      by (auto simp: pg_chown_def split: option.splits sum.splits)
    from chown_all_only_supers[OF this] assms(3) show ?thesis by (auto simp: unlocated_def)
  qed (use step_chown assms(3) in \<open>auto simp: pg_chown_def split: option.splits sum.splits\<close>)
next
  case (step_remove n gid to x)
  then show ?thesis using assms(3)
    by (auto simp: pg_remove_access_def unlocated_def Let_def split: option.splits sum.splits if_splits)
next
  case (step_nuke x)
  then show ?thesis by (auto simp: pg_nuke_def pg_empty_def unlocated_def)
qed




section \<open>Witnesses\<close>

definition sample_localhost :: point where
  "sample_localhost = \<lparr>route = RSThis, segments = [PSSpace ''localhost'']\<rparr>"

definition sample_users :: point where
  "sample_users = \<lparr>route = RSThis, segments = [PSSpace ''localhost'', PSBase ''users'']\<rparr>"

definition sample_user :: point where
  "sample_user = \<lparr>route = RSThis, segments = [PSSpace ''localhost'', PSBase ''users'', PSBase ''ann'']\<rparr>"

definition sample_server :: server where
  "sample_server =
     \<lparr>sv_point = (\<lambda>t. if t = ''ROOT'' then Inr root_point
        else if t = ''localhost'' then Inr sample_localhost
        else if t = ''localhost:users'' then Inr sample_users
        else if t = ''localhost:users:ann'' then Inr sample_user else Inl (err_of_string t)),
      sv_version = (\<lambda>t. Inl (err_of_string t)), sv_domain = (\<lambda>t. Inl (err_of_string t)),
      sv_selector = (\<lambda>t. if t = ''localhost'' then Inr (Selector [Hop False (SSExact (EPointSeg (PSSpace ''localhost''))) kind_selector_any])
        else Inl (err_of_string t)),
      sv_privilege = (\<lambda>t. Inr (PrivSingle t)), sv_parse_err = err_of_string, sv_strum_err = '''',
      sv_version_core = version_text, sv_version_pre = (\<lambda>_. ''''), sv_req = (\<lambda>_ _. False),
      sv_err = cosmic_err_new,
      sv_insert_property = (\<lambda>_ _ _ _ _. Inl (cosmic_err_new ''type'')),
      sv_upsert_property = (\<lambda>_ _ _ _ _ _. Inl (cosmic_err_new ''ambiguous'')),
      sv_other = (\<lambda>t _. Inl (cosmic_err_new t))\<rparr>"

definition sample_registration :: "point \<Rightarrow> kind \<Rightarrow> registration" where
  "sample_registration p k =
     \<lparr>reg_point = p, reg_kind = k, reg_registry = [], reg_props = [], reg_owner = root_point,
      reg_strategy = StrategyCommit, reg_status = StatusReady\<rparr>"

definition sample_row :: "point \<Rightarrow> kind \<Rightarrow> nat \<Rightarrow> pg_particle" where
  "sample_row p k n = new_row (params_from_registration sample_server (sample_registration p k)) n"

definition sample_tables :: pg where
  "sample_tables = \<lparr>pg_particles = [sample_row sample_localhost KSpace 1, sample_row sample_users KUser 2,
       sample_row sample_user KUser 3],
     pg_properties = [], pg_grants = [], pg_particle_serial = 4, pg_grant_serial = 1\<rparr>"

lemma sample_texts [simp]:
  "point_to_string sample_localhost = ''localhost''" "point_to_string sample_users = ''localhost:users''"
  "point_to_string sample_user = ''localhost:users:ann''" "point_to_string root_point = ''ROOT''"
  by (simp_all add: point_to_string_def to_string_impl_def sample_localhost_def sample_users_def sample_user_def root_point_def)

lemma sample_parents [simp]:
  "point_parent sample_localhost = Some root_point" "point_parent sample_users = Some sample_localhost"
  "point_parent sample_user = Some sample_users"
  by (simp_all add: point_parent_def sample_localhost_def sample_users_def sample_user_def root_point_def)

lemma sample_parse [simp]:
  "sv_point sample_server ''ROOT'' = Inr root_point" "sv_point sample_server ''localhost'' = Inr sample_localhost"
  "sv_point sample_server ''localhost:users'' = Inr sample_users"
  "sv_point sample_server ''localhost:users:ann'' = Inr sample_user"
  by (simp_all add: sample_server_def)

lemma sample_children:
  "sample_localhost = child root_point (PSSpace ''localhost'')" "sample_users = child sample_localhost (PSBase ''users'')"
  "sample_user = child sample_users (PSBase ''ann'')"
  by (simp_all add: sample_localhost_def sample_users_def sample_user_def root_point_def)

lemma sample_pushes [simp]:
  "point_push (sv_point sample_server) root_point ''localhost'' = Inr sample_localhost"
  "point_push (sv_point sample_server) sample_localhost ''users'' = Inr sample_users"
  "point_push (sv_point sample_server) sample_users ''ann'' = Inr sample_user"
proof -
  show "point_push (sv_point sample_server) root_point ''localhost'' = Inr sample_localhost"
    by (simp add: point_push_def root_point_def)
  have "segments sample_localhost = [PSSpace ''localhost'']" by (simp add: sample_localhost_def)
  then show "point_push (sv_point sample_server) sample_localhost ''users'' = Inr sample_users"
    by (simp add: point_push_def)
  have "segments sample_users = [PSSpace ''localhost'', PSBase ''users'']" by (simp add: sample_users_def)
  then show "point_push (sv_point sample_server) sample_users ''ann'' = Inr sample_user"
    by (simp add: point_push_def)
qed

lemma sample_lasts [simp]:
  "segments sample_localhost = [PSSpace ''localhost'']" "segments sample_users = [PSSpace ''localhost'', PSBase ''users'']"
  "segments sample_user = [PSSpace ''localhost'', PSBase ''users'', PSBase ''ann'']"
  by (simp_all add: sample_localhost_def sample_users_def sample_user_def)

lemma sample_readable:
  "readable_point sample_server sample_localhost" "readable_point sample_server sample_users"
  "readable_point sample_server sample_user" "k \<in> {KSpace, KUser} \<Longrightarrow> readable_kind sample_server k"
  by (auto simp: readable_point_def readable_kind_def kind_specific_def)


lemma sample_rows:
  "read_row sample_server (sample_row sample_localhost KSpace n) =
     Inr \<lparr>rec_details = \<lparr>det_stub = \<lparr>stub_point = sample_localhost, stub_kind = KSpace, stub_status = StatusPending\<rparr>,
        det_properties = Map.empty\<rparr>, rec_location = particle_location_default\<rparr>"
  "read_row sample_server (sample_row sample_users KUser n) =
     Inr \<lparr>rec_details = \<lparr>det_stub = \<lparr>stub_point = sample_users, stub_kind = KUser, stub_status = StatusPending\<rparr>,
        det_properties = Map.empty\<rparr>, rec_location = particle_location_default\<rparr>"
  "read_row sample_server (sample_row sample_user KUser n) =
     Inr \<lparr>rec_details = \<lparr>det_stub = \<lparr>stub_point = sample_user, stub_kind = KUser, stub_status = StatusPending\<rparr>,
        det_properties = Map.empty\<rparr>, rec_location = particle_location_default\<rparr>"
  using read_new_row[of sample_server] sample_readable
  by (simp_all add: sample_row_def sample_registration_def)

lemma sample_columns [simp]:
  "pp_parent (sample_row sample_localhost k n) = ''ROOT''" "pp_segment (sample_row sample_localhost k n) = ''localhost''"
  "pp_parent (sample_row sample_users k n) = ''localhost''" "pp_segment (sample_row sample_users k n) = ''users''"
  "pp_parent (sample_row sample_user k n) = ''localhost:users''" "pp_segment (sample_row sample_user k n) = ''ann''"
  by (simp_all add: sample_row_def new_row_def params_from_registration_def sample_registration_def Let_def last_segment_def)

lemma row_okI:
  assumes "pp_parent r = point_to_string q" "pp_segment r = seg_to_string seg" "route q = RSThis"
    "sv_point sv (point_to_string q) = Inr q" "read_row sv r = Inr rec" "p = child q seg"
    "stub_point (det_stub (rec_details rec)) = p" "sv_point sv (point_to_string p) = Inr p"
  shows "row_ok sv r"
  using assms unfolding row_ok_def by blast

lemma sample_tables_ok: "tables_ok sample_server sample_tables"
proof -
  have r: "route sample_localhost = RSThis" "route sample_users = RSThis" "route root_point = RSThis"
    by (simp_all add: sample_localhost_def sample_users_def root_point_def)
  have "row_ok sample_server (sample_row sample_localhost KSpace 1)"
    by (rule row_okI[OF _ _ r(3) _ sample_rows(1) sample_children(1)]) simp_all
  moreover have "row_ok sample_server (sample_row sample_users KUser 2)"
    by (rule row_okI[OF _ _ r(1) _ sample_rows(2) sample_children(2)]) simp_all
  moreover have "row_ok sample_server (sample_row sample_user KUser 3)"
    by (rule row_okI[OF _ _ r(2) _ sample_rows(3) sample_children(3)]) simp_all
  ultimately show ?thesis by (simp add: tables_ok_def sample_tables_def)
qed


definition sample_exact :: "unit select" where
  "sample_exact = select_new () (Selector [Hop False (SSExact (EPointSeg (PSSpace ''localhost''))) kind_selector_any])"

definition sample_any :: "unit select" where
  "sample_any = select_new ()
     (Selector [Hop False (SSExact (EPointSeg (PSSpace ''localhost''))) kind_selector_any, Hop False SSAny kind_selector_any])"

lemma sample_patterns [simp]:
  "sl_pattern sample_exact = Selector [Hop False (SSExact (EPointSeg (PSSpace ''localhost''))) kind_selector_any]"
  "sl_pattern sample_any =
     Selector [Hop False (SSExact (EPointSeg (PSSpace ''localhost''))) kind_selector_any, Hop False SSAny kind_selector_any]"
  by (simp_all add: sample_exact_def sample_any_def select_new_def)

lemma sample_roots [simp]:
  "query_root (Selector [Hop False (SSExact (EPointSeg (PSSpace ''localhost''))) kind_selector_any]) = sample_localhost"
  "query_root (Selector [Hop False (SSExact (EPointSeg (PSSpace ''localhost''))) kind_selector_any, Hop False SSAny kind_selector_any])
     = sample_localhost"
  by (simp_all add: query_root_def sample_localhost_def)

lemma sample_decode [simp]:
  "decode_row sample_server (sample_row sample_localhost KSpace n) =
     Inr \<lparr>rec_details = \<lparr>det_stub = \<lparr>stub_point = sample_localhost, stub_kind = KSpace, stub_status = StatusPending\<rparr>,
        det_properties = Map.empty\<rparr>, rec_location = particle_location_default\<rparr>"
  "decode_row sample_server (sample_row sample_users KUser n) =
     Inr \<lparr>rec_details = \<lparr>det_stub = \<lparr>stub_point = sample_users, stub_kind = KUser, stub_status = StatusPending\<rparr>,
        det_properties = Map.empty\<rparr>, rec_location = particle_location_default\<rparr>"
  "decode_row sample_server (sample_row sample_user KUser n) =
     Inr \<lparr>rec_details = \<lparr>det_stub = \<lparr>stub_point = sample_user, stub_kind = KUser, stub_status = StatusPending\<rparr>,
        det_properties = Map.empty\<rparr>, rec_location = particle_location_default\<rparr>"
  by (simp_all add: decode_row_def sample_rows)

lemma sample_routes [simp]:
  "route sample_localhost = RSThis" "route sample_users = RSThis" "route sample_user = RSThis"
  by (simp_all add: sample_localhost_def sample_users_def sample_user_def)

lemma sample_query:
  "pg_query sample_server sample_localhost sample_tables =
     Inr \<lparr>hier_route = RSThis, hier_segments = [PointKindSeg (PSSpace ''localhost'') KSpace]\<rparr>"
proof -
  have p: "\<lparr>route = RSThis, segments = [PSSpace ''localhost'']\<rparr> = sample_localhost" by (simp add: sample_localhost_def)
  have rec: "pg_record sample_server sample_localhost sample_tables =
     Inr \<lparr>rec_details = \<lparr>det_stub = \<lparr>stub_point = sample_localhost, stub_kind = KSpace, stub_status = StatusPending\<rparr>,
        det_properties = Map.empty\<rparr>, rec_location = particle_location_default\<rparr>"
    by (simp add: pg_record_def is_local_root_def sample_tables_def row_at_def last_segment_def properties_of_def)
  show ?thesis
    by (simp add: pg_query_def p rec last_segment_def hierarchy_push_def)
qed

lemma exact_selectors_select_the_children_witness:
  "\<exists>stubs. pg_select_stubs 1 sample_server sample_exact sample_tables = Some (Inr stubs) \<and>
     (\<exists>st \<in> set stubs. stub_point st = sample_users) \<and> (\<forall>st \<in> set stubs. stub_point st \<noteq> sample_localhost)"
proof -
  have "\<exists>stubs. pg_select_stubs (Suc 0) sample_server sample_exact sample_tables = Some (Inr stubs) \<and>
    (\<forall>st. st \<in> set stubs \<longleftrightarrow>
       (\<exists>r \<in> set (pg_particles sample_tables). \<exists>rec. read_row sample_server r = Inr rec \<and> det_stub (rec_details rec) = st \<and>
          point_parent (stub_point st) = Some (query_root (sl_pattern sample_exact))))"
    by (rule exact_selectors_select_the_children[OF sample_tables_ok]) (simp_all add: sample_query)
  then obtain stubs where s: "pg_select_stubs (Suc 0) sample_server sample_exact sample_tables = Some (Inr stubs)"
    "\<forall>st. st \<in> set stubs \<longleftrightarrow>
       (\<exists>r \<in> set (pg_particles sample_tables). \<exists>rec. read_row sample_server r = Inr rec \<and> det_stub (rec_details rec) = st \<and>
          point_parent (stub_point st) = Some sample_localhost)"
    unfolding sample_patterns sample_roots by blast
  have "\<lparr>stub_point = sample_users, stub_kind = KUser, stub_status = StatusPending\<rparr> \<in> set stubs"
    using s(2) by (simp add: sample_tables_def sample_rows)
  moreover have "point_parent sample_localhost \<noteq> Some sample_localhost"
    by (simp add: sample_localhost_def point_parent_def)
  ultimately show ?thesis using s by (metis One_nat_def stub.select_convs(1))
qed

text \<open>The hop \<open>localhost:*\<close> selects the grandchildren of \<open>localhost\<close> too.\<close>

lemma sample_selection:
  "pg_select_stubs 3 sample_server sample_any sample_tables =
     Some (Inr [\<lparr>stub_point = sample_users, stub_kind = KUser, stub_status = StatusPending\<rparr>,
                \<lparr>stub_point = sample_user, stub_kind = KUser, stub_status = StatusPending\<rparr>])"
proof -
  have "push_segment sample_localhost (PSBase ''users'') = Inr sample_users"
    "push_segment sample_users (PSBase ''ann'') = Inr sample_user"
    by (simp_all add: push_segment_def sample_children)
  moreover have "pg_particles sample_tables =
      [sample_row sample_localhost KSpace 1, sample_row sample_users KUser 2, sample_row sample_user KUser 3]"
    by (simp add: sample_tables_def)
  moreover have "hop_conditions (Hop False SSAny kind_selector_any) = []"
    "hop_matches req (Hop False seg kind_selector_any) x = seg_selector_matches req seg (pk_segment x)" for req seg x
    by (simp_all add: hop_conditions_def kind_selector_any_def hop_matches_def kind_selector_matches_def)
  ultimately show ?thesis
    by (simp add: numeral_3_eq_3 pg_select_stubs_def sample_query sub_select_hops_def Let_def matches_root_def
        select_sub_select_def sub_sub_select_def conditions_def satisfies_def
        last_segment_def hierarchy_push_def selector_matches_selects)
qed


lemma selections_return_witness:
  "\<exists>r. pg_select_stubs 4 sample_server sample_any sample_tables = Some r"
proof -
  have "depth_at_most sample_server 3 sample_tables"
    by (simp add: depth_at_most_def sample_tables_def sample_rows)
  from selections_return[OF sample_tables_ok this, of sample_any] show ?thesis by (simp add: numeral_eq_Suc)
qed


lemma sample_exact_selection:
  "(pg_select 1 sample_server (points_select () (sl_pattern sample_exact)) sample_tables :: unit substance list run) =
     Some (Inr [SPoint sample_users])"
proof -
  have "pg_particles sample_tables =
      [sample_row sample_localhost KSpace 1, sample_row sample_users KUser 2, sample_row sample_user KUser 3]"
    by (simp add: sample_tables_def)
  then show ?thesis
    by (simp add: pg_select_def points_select_def pg_select_stubs_def sample_query sub_select_hops_def Let_def
        matches_root_def select_sub_select_def conditions_def satisfies_def)
qed

lemma only_supers_change_owners_witness:
  "\<exists>s' a. pg_chown 1 sample_server () (sl_pattern sample_exact) sample_user hyperuser sample_tables = Some (Inr (), s') \<and>
     pg_access 1 sample_server hyperuser sample_users sample_tables = Some (Inr a) \<and> has_super a"
proof -
  have acc: "pg_access 1 sample_server hyperuser sample_users sample_tables = Some (Inr a) \<Longrightarrow> has_super a"
    "\<exists>a. pg_access 1 sample_server hyperuser sample_users sample_tables = Some (Inr a)" for a
    by (auto simp: pg_access_def pg_access_db_def joined_def sample_tables_def map_filter_simps access_call_def space_res_def
        split: if_splits)
  then have "\<exists>s'. pg_chown 1 sample_server () (sl_pattern sample_exact) sample_user hyperuser sample_tables = Some (Inr (), s')"
    using acc by (auto simp: pg_chown_def sample_exact_selection[unfolded sample_patterns One_nat_def])
  then obtain s' where s': "pg_chown 1 sample_server () (sl_pattern sample_exact) sample_user hyperuser sample_tables = Some (Inr (), s')"
    by blast
  from only_supers_change_owners[OF this] sample_exact_selection obtain a where
    "pg_access 1 sample_server hyperuser sample_users sample_tables = Some (Inr a)" "has_super a"
    by auto
  with s' show ?thesis by blast
qed

definition sample_grant :: access_grant where
  "sample_grant = \<lparr>grant_kind = GrantSuper, on_point = sl_pattern sample_exact, to_point = sl_pattern sample_exact,
     by_particle = sample_localhost\<rparr>"



end
