(* ===== verification/Binds.thy ===== *)
theory Binds
  imports FieldLayer
begin

text \<open>
  Reading a bind or mechtron configuration from text (\<open>parse.rs\<close>, \<open>config.rs\<close>, \<open>config/mechtron.rs\<close>):
  lexical scopes, how they become the scopes of \<open>FieldLayer\<close>, and what becomes of errors.  The grammars
  are written with nom, a package outside the repository: each use of its combinators is a field
  \<open>gr_...\<close> of the grammar, a parser of one type, and everything the code does with what the parsers
  give is modelled.  A panic is \<open>None\<close>.
\<close>

section \<open>Spans and the errors of parsers\<close>

text \<open>\<open>Span\<close>: a piece of a source, with its place there; \<open>new_span\<close>, \<open>span_with_extra\<close>, \<open>trace\<close>.\<close>

record span =
  sp_text :: string
  sp_offset :: nat
  sp_line :: "32 word"
  sp_column :: nat
  sp_extra :: string

definition span_with_extra :: "string \<Rightarrow> string \<Rightarrow> span" where
  "span_with_extra s extra = \<lparr>sp_text = s, sp_offset = 0, sp_line = 1, sp_column = 1, sp_extra = extra\<rparr>"

definition new_span :: "string \<Rightarrow> span" where
  "new_span s = span_with_extra s s"

definition span_range :: "span \<Rightarrow> nat \<times> nat" where
  "span_range s = (sp_offset s, sp_offset s + length (sp_text s))"

definition span_trace :: "span \<Rightarrow> trace" where
  "span_trace s = \<lparr>trace_range = span_range s, trace_extra = sp_extra s\<rparr>"

text \<open>\<open>Tw\<close> keeps a value with the trace of its span.\<close>

record 'w tw =
  tw_trace :: trace
  tw_w :: 'w

definition tw_new :: "span \<Rightarrow> 'w \<Rightarrow> 'w tw" where
  "tw_new s w = \<lparr>tw_trace = span_trace s, tw_w = w\<rparr>"

definition err_from_loc_span :: "string \<Rightarrow> string \<Rightarrow> span \<Rightarrow> space_err" where
  "err_from_loc_span message lbl s =
     ParseErrs (parse_errs_from_report
       (report_finish
         (report_with_label (report_with_message (report_build RKError) message)
           (label_with_message (label_new (sp_offset s, sp_offset s + length (sp_text s))) lbl)))
       (sp_extra s))"

text \<open>The error trees of nom, as far as the code looks into them: \<open>ErrorTree\<close>, \<open>StackContext\<close>, \<open>nom::Err\<close>.\<close>

datatype stack_context = SCContext string | SCOther

datatype error_tree =
    ETBase span
  | ETStack error_tree "(span \<times> stack_context) list"
  | ETAlt "error_tree list"

datatype nom_err = NomIncomplete | NomError error_tree | NomFailure error_tree

type_synonym 'a res = "nom_err + span \<times> 'a"
type_synonym 'a parser = "span \<Rightarrow> 'a res"

definition create_err_report :: "string \<Rightarrow> span \<Rightarrow> space_err" where
  "create_err_report ctx loc = server_error ctx"

text \<open>\<open>find_tree\<close>: the loop over the alternatives returns in its first round; a stack without contexts
  panics.\<close>

fun find_tree :: "error_tree \<Rightarrow> space_err option" where
  "find_tree (ETStack base contexts) =
     (case contexts of
        [] \<Rightarrow> None
      | (s, SCContext c) # _ \<Rightarrow> Some (create_err_report c s)
      | _ \<Rightarrow> Some (err_of_string ''internal parser error: could not find a parse context in order to generate a useful error message''))"
| "find_tree (ETBase loc) = Some (create_err_report ''eof'' loc)"
| "find_tree (ETAlt []) =
     Some (err_of_string ''internal parser error: ErrorTree::Alt could not find a suitable context error in the various alts'')"
| "find_tree (ETAlt (alt # alts)) = find_tree alt"

fun find_parse_err :: "nom_err \<Rightarrow> space_err option" where
  "find_parse_err NomIncomplete = Some (err_of_string ''internal parser error: Incomplete'')"
| "find_parse_err (NomError e) = find_tree e"
| "find_parse_err (NomFailure e) = find_tree e"

definition first_context :: "nom_err \<Rightarrow> (unit + string \<times> nom_err) option" where
  "first_context orig =
     (case orig of
        NomError (ETStack base contexts) \<Rightarrow>
          (case contexts of
             [] \<Rightarrow> None
           | (_, SCContext c) # _ \<Rightarrow> Some (Inr (c, orig))
           | _ \<Rightarrow> Some (Inl ()))
      | _ \<Rightarrow> Some (Inl ()))"

text \<open>The conversions with \<open>?\<close>: \<open>From<nom::Err<ErrorTree>>\<close> for \<open>SpaceErr\<close> and for \<open>ParseErrs\<close>.\<close>

definition place_message :: "string \<Rightarrow> span \<Rightarrow> space_err" where
  "place_message what loc =
     Status 500 (what @ '' line: '' @ nat_to_string (unat (sp_line loc)) @ '' column: '' @ nat_to_string (sp_column loc))"

fun handle_tree :: "error_tree \<Rightarrow> space_err" where
  "handle_tree (ETBase loc) = place_message ''parse error'' loc"
| "handle_tree (ETStack base contexts) =
     (case contexts of
        [] \<Rightarrow> Status 500 ''error, cannot find location''
      | (loc, _) # _ \<Rightarrow> place_message ''Stack parse error'' loc)"
| "handle_tree (ETAlt what) = Status 500 ''alt error''"

fun space_err_of_nom :: "nom_err \<Rightarrow> space_err" where
  "space_err_of_nom NomIncomplete = Status 500 ''unexpected incomplete parsing error''"
| "space_err_of_nom (NomError e) = handle_tree e"
| "space_err_of_nom (NomFailure e) = handle_tree e"

definition parse_errs_of_nom :: "nom_err \<Rightarrow> parse_errs option" where
  "parse_errs_of_nom e =
     map_option (\<lambda>x. case x of Status _ _ \<Rightarrow> \<lparr>pe_report = [], pe_source = None, pe_ctx = ''''\<rparr> | ParseErrs errs \<Rightarrow> errs)
       (find_parse_err e)"

section \<open>Results that may panic\<close>

type_synonym 'a attempt = "(space_err + 'a) option"

definition try_bind :: "'a attempt \<Rightarrow> ('a \<Rightarrow> 'b attempt) \<Rightarrow> 'b attempt" where
  "try_bind r f = (case r of None \<Rightarrow> None | Some (Inl e) \<Rightarrow> Some (Inl e) | Some (Inr a) \<Rightarrow> f a)"

lemma try_bind_simps [simp]:
  "try_bind None f = None" "try_bind (Some (Inl e)) f = Some (Inl e)" "try_bind (Some (Inr a)) f = f a"
  by (simp_all add: try_bind_def)

lemma try_bind_Inr_iff: "try_bind r f = Some (Inr b) \<longleftrightarrow> (\<exists>a. r = Some (Inr a) \<and> f a = Some (Inr b))"
  by (auto simp: try_bind_def split: option.splits sum.splits)

text \<open>A loop that stops at the first error or panic.\<close>

fun try_map :: "('a \<Rightarrow> 'b attempt) \<Rightarrow> 'a list \<Rightarrow> 'b list attempt" where
  "try_map f [] = Some (Inr [])"
| "try_map f (x # xs) = try_bind (f x) (\<lambda>y. try_bind (try_map f xs) (\<lambda>ys. Some (Inr (y # ys))))"

lemma try_map_Inr_iff: "try_map f xs = Some (Inr ys) \<longleftrightarrow> list_all2 (\<lambda>x y. f x = Some (Inr y)) xs ys"
  by (induction xs arbitrary: ys) (auto simp: try_bind_Inr_iff list_all2_Cons1)

text \<open>A loop that collects the results and the errors.\<close>

fun try_collect :: "('a \<Rightarrow> 'b attempt) \<Rightarrow> 'a list \<Rightarrow> ('b list \<times> space_err list) option" where
  "try_collect f [] = Some ([], [])"
| "try_collect f (x # xs) =
     (case f x of
        None \<Rightarrow> None
      | Some r \<Rightarrow>
          (case try_collect f xs of
             None \<Rightarrow> None
           | Some (oks, errs) \<Rightarrow> Some (case r of Inl e \<Rightarrow> (oks, e # errs) | Inr y \<Rightarrow> (y # oks, errs))))"

lemma try_collect_ok_iff:
  "try_collect f xs = Some (ys, []) \<longleftrightarrow> list_all2 (\<lambda>x y. f x = Some (Inr y)) xs ys"
proof (induction xs arbitrary: ys)
  case (Cons x xs)
  show ?case
  proof (cases "try_collect f xs")
    case None
    then have "\<not> list_all2 (\<lambda>x y. f x = Some (Inr y)) xs zs" for zs using Cons.IH[of zs] by simp
    with None show ?thesis by (auto simp: list_all2_Cons1 split: option.splits)
  next
    case (Some p)
    obtain oks errs where p: "p = (oks, errs)" by (cases p)
    have "list_all2 (\<lambda>x y. f x = Some (Inr y)) xs zs \<longleftrightarrow> oks = zs \<and> errs = []" for zs
      using Cons.IH[of zs] Some p by simp
    with Some p show ?thesis by (auto simp: list_all2_Cons1 split: option.splits sum.splits)
  qed
qed auto

text \<open>\<open>error::result\<close> and the conversion with \<open>?\<close>.\<close>

fun result_of :: "'a res \<Rightarrow> 'a attempt" where
  "result_of (Inr (_, e)) = Some (Inr e)"
| "result_of (Inl err) = map_option Inl (find_parse_err err)"

fun converted :: "'a res \<Rightarrow> space_err + 'a" where
  "converted (Inr (_, e)) = Inr e"
| "converted (Inl err) = Inl (space_err_of_nom err)"

lemma result_of_Inr_iff: "result_of r = Some (Inr a) \<longleftrightarrow> (\<exists>next. r = Inr (next, a))"
  by (cases r rule: result_of.cases) auto


section \<open>Lexical scopes\<close>

text \<open>The kinds of blocks, with their delimiters and the names of their contexts.\<close>

datatype nested_block_kind = Curly | Parens | Square | Angle
datatype terminated_block_kind = Semicolon
datatype delimited_block_kind = SingleQuotes | DoubleQuotes

datatype block_kind =
    Nested nested_block_kind | Terminated terminated_block_kind | Delimited delimited_block_kind | Partial

fun nested_open_char :: "nested_block_kind \<Rightarrow> char" where
  "nested_open_char Curly = CHR ''{''"
| "nested_open_char Parens = CHR ''(''"
| "nested_open_char Square = CHR ''[''"
| "nested_open_char Angle = CHR ''<''"

fun nested_close_char :: "nested_block_kind \<Rightarrow> char" where
  "nested_close_char Curly = CHR ''}''"
| "nested_close_char Parens = CHR '')''"
| "nested_close_char Square = CHR '']''"
| "nested_close_char Angle = CHR ''>''"

fun nested_open :: "nested_block_kind \<Rightarrow> string" where
  "nested_open Curly = ''{''" | "nested_open Parens = ''(''" | "nested_open Square = ''[''" | "nested_open Angle = ''<''"

fun nested_close :: "nested_block_kind \<Rightarrow> string" where
  "nested_close Curly = ''}''" | "nested_close Parens = '')''" | "nested_close Square = '']''" | "nested_close Angle = ''>''"

fun nested_context :: "nested_block_kind \<Rightarrow> string" where
  "nested_context Curly = ''block:{}''"
| "nested_context Parens = ''block:()''"
| "nested_context Square = ''block:[]''"
| "nested_context Angle = ''block:<>''"

fun open_context :: "nested_block_kind \<Rightarrow> string" where
  "open_context Curly = ''block:open:{''"
| "open_context Parens = ''block:open:(''"
| "open_context Square = ''block:open:[''"
| "open_context Angle = ''block:open:<''"

fun close_context :: "nested_block_kind \<Rightarrow> string" where
  "close_context Curly = ''block:close:}''"
| "close_context Parens = ''block:close:)''"
| "close_context Square = ''block:close:]''"
| "close_context Angle = ''block:close:>''"

fun unpaired_closing_scope :: "nested_block_kind \<Rightarrow> string" where
  "unpaired_closing_scope Curly = ''block:close-before-open:}''"
| "unpaired_closing_scope Parens = ''block:close-before-open:)''"
| "unpaired_closing_scope Square = ''block:close-before-open:]''"
| "unpaired_closing_scope Angle = ''block:close-before-open:>''"

definition is_block_terminator :: "char \<Rightarrow> bool" where
  "is_block_terminator c \<longleftrightarrow> c = CHR ''}'' \<or> c = CHR '')'' \<or> c = CHR '']'' \<or> c = CHR ''>''"

definition block_error_message :: "string \<Rightarrow> unit + string" where
  "block_error_message ctx =
     (if open_context Curly = ctx then Inr ''expecting '{' (open scope block)''
      else if open_context Parens = ctx then Inr ''expecting '(' (open scope block)''
      else if open_context Angle = ctx then Inr ''expecting '<' (open scope block)''
      else if open_context Square = ctx then Inr ''expecting '[' (open scope block)''
      else if close_context Curly = ctx then Inr ''expecting '}' (close scope block)''
      else if close_context Parens = ctx then Inr ''expecting ')' (close scope block)''
      else if close_context Angle = ctx then Inr ''expecting '>' (close scope block)''
      else if close_context Square = ctx then Inr ''expecting ']' (close scope block)''
      else if unpaired_closing_scope Curly = ctx then Inr ''closing scope without an opening scope''
      else if unpaired_closing_scope Parens = ctx then Inr ''closing scope without an opening scope''
      else if unpaired_closing_scope Angle = ctx then Inr ''closing scope without an opening scope''
      else if unpaired_closing_scope Square = ctx then Inr ''closing scope without an opening scope''
      else Inl ())"

fun terminated_char :: "terminated_block_kind \<Rightarrow> char" where
  "terminated_char Semicolon = CHR '';''"

fun delimited_delim :: "delimited_block_kind \<Rightarrow> string" where
  "delimited_delim SingleQuotes = [CHR 0x27]"
| "delimited_delim DoubleQuotes = [CHR 0x22]"

fun delimited_escaped :: "delimited_block_kind \<Rightarrow> string" where
  "delimited_escaped SingleQuotes = [CHR 0x27]"
| "delimited_escaped DoubleQuotes = [CHR 0x22]"

fun delimited_context :: "delimited_block_kind \<Rightarrow> string" where
  "delimited_context SingleQuotes = ''single:quotes:block''"
| "delimited_context DoubleQuotes = ''double:quotes:block''"

fun missing_close_context :: "delimited_block_kind \<Rightarrow> string" where
  "missing_close_context SingleQuotes = ''single:quotes:block:missing-close''"
| "missing_close_context DoubleQuotes = ''double:quotes:block:missing-close''"

text \<open>Selectors, blocks and scopes as the text has them: \<open>LexScopeSelector\<close>, \<open>ScopeFilterDef\<close>, \<open>Block\<close>,
  \<open>Scope\<close>, \<open>RootScopeSelector\<close>.\<close>

record lex_filter =
  lf_name :: span
  lf_args :: "span option"

record lex_selector =
  lx_name :: span
  lx_filters :: "lex_filter list"
  lx_children :: "span option"
  lx_path :: "span option"

record lex_block =
  lb_kind :: block_kind
  lb_content :: span

record ('s, 'b) block_scope =
  so_selector :: 's
  so_step :: "span option"
  so_block :: 'b

record root_selector =
  rt_name :: span
  rt_version_span :: span
  rt_version :: version

type_synonym lex_scope = "(lex_selector, lex_block) block_scope"
type_synonym lex_parent_scope = "(lex_selector, lex_scope list) block_scope"
type_synonym lex_root_scope = "(root_selector, lex_block) block_scope"

definition scope_new :: "'s \<Rightarrow> 'b \<Rightarrow> ('s, 'b) block_scope" where
  "scope_new selector block = \<lparr>so_selector = selector, so_step = None, so_block = block\<rparr>"

definition scope_upgrade :: "('s, 'b) block_scope \<Rightarrow> 'c \<Rightarrow> ('s, 'c) block_scope" where
  "scope_upgrade s block = \<lparr>so_selector = so_selector s, so_step = so_step s, so_block = block\<rparr>"

definition has_children :: "lex_selector \<Rightarrow> bool" where
  "has_children s \<longleftrightarrow> lx_children s \<noteq> None"

definition to_scope_filter :: "lex_filter \<Rightarrow> scope_filter" where
  "to_scope_filter f = \<lparr>sf_name = sp_text (lf_name f), sf_args = map_option sp_text (lf_args f)\<rparr>"

definition to_scope_filters :: "lex_filter list \<Rightarrow> scope_filter list" where
  "to_scope_filters fs = map to_scope_filter fs"

record lex_route =
  lr_names :: "span list"
  lr_filters :: "lex_filter list"
  lr_path :: "span option"

datatype text_type = Comment span | NoComment span

record assignment =
  as_key :: string
  as_value :: string

text \<open>The parsers that are made of nom's combinators.  Where a parser of the code is put together with
  them, the combination is a function of that parser (with \<open>None\<close> where that one may not return).\<close>

record ('p, 't) grammar =
  gr_tag :: "string \<Rightarrow> span parser"
  gr_from_error_kind :: "span \<Rightarrow> error_tree"
  gr_texts :: "text_type list parser"
  gr_all_space :: "span parser"
  gr_root_scope :: "lex_root_scope parser"
  gr_scopes :: "(unit \<times> lex_scope) list parser"
  gr_angled_name :: "(span \<times> span option) parser"
  gr_plain_name :: "(span \<times> span option) parser"
  gr_filters :: "(lex_filter option \<times> lex_filter list) parser"
  gr_selector_tuple :: "(span \<times> span option) parser \<Rightarrow> lex_filter list parser
    \<Rightarrow> ((span \<times> span option) \<times> lex_filter list \<times> span option) parser"
  gr_all_consuming :: "lex_selector parser \<Rightarrow> lex_selector parser"
  gr_route_tuple :: "(span \<Rightarrow> span list res option) \<Rightarrow> lex_filter list parser
    \<Rightarrow> span \<Rightarrow> (span list \<times> lex_filter list \<times> span option) res option"
  gr_with_topic :: "(span \<Rightarrow> lex_route res option)
    \<Rightarrow> span \<Rightarrow> (topic value_pattern option \<times> lex_route) res option"
  gr_kind_chars :: "span parser"
  gr_camel_chars :: "span parser"
  gr_camel_recognized :: "span parser"
  gr_http_context :: "http_method parser \<Rightarrow> http_method parser"
  gr_pipeline :: "('p, 't) pipeline parser"
  gr_assignment :: "(span \<times> span) parser"
  gr_many :: "assignment parser \<Rightarrow> assignment list parser"
  gr_wasm :: "assignment parser \<Rightarrow> assignment list parser"
  gr_attribute :: "span parser"
  gr_quoted :: "span parser"
  gr_regex :: "string \<Rightarrow> string option"
  gr_version :: "string \<Rightarrow> space_err + version"
  gr_point :: "string \<Rightarrow> space_err + point"
  gr_strum :: string
  gr_camel_err :: "string \<Rightarrow> space_err"

text \<open>Mapping what a parser gives.\<close>

fun res_value :: "('a \<Rightarrow> 'b) \<Rightarrow> 'a res \<Rightarrow> 'b res" where
  "res_value f (Inr (next, a)) = Inr (next, f a)"
| "res_value f (Inl e) = Inl e"

lemma res_value_Inr_iff: "res_value f r = Inr (n, b) \<longleftrightarrow> (\<exists>a. r = Inr (n, a) \<and> b = f a)"
  by (cases r rule: result_of.cases) auto

text \<open>\<open>scope_filters\<close>, \<open>next_stacked_name\<close>, \<open>lex_scope_selector\<close>, \<open>lex_child_scopes\<close>, \<open>lex_scopes\<close>.\<close>

definition scope_filters :: "('p, 't) grammar \<Rightarrow> lex_filter list parser" where
  "scope_filters g input =
     res_value (\<lambda>(first, many_filters). (case first of None \<Rightarrow> [] | Some f \<Rightarrow> [f]) @ many_filters) (gr_filters g input)"

definition next_stacked_name :: "('p, 't) grammar \<Rightarrow> (span \<times> span option) parser" where
  "next_stacked_name g input =
     (case gr_angled_name g input of
        Inr (next, (name, children)) \<Rightarrow> Inr (next, (name, children))
      | Inl _ \<Rightarrow> gr_plain_name g input)"

definition lex_scope_selector :: "('p, 't) grammar \<Rightarrow> lex_selector parser" where
  "lex_scope_selector g input =
     res_value (\<lambda>((name, children), filters, path).
         \<lparr>lx_name = name, lx_filters = filters, lx_children = children, lx_path = path\<rparr>)
       (gr_selector_tuple g (next_stacked_name g) (scope_filters g) input)"

definition lex_scopes :: "('p, 't) grammar \<Rightarrow> span \<Rightarrow> lex_scope list attempt" where
  "lex_scopes g input =
     (if length (sp_text input) = 0 then Some (Inr [])
      else if is_ok (gr_all_space g input) then Some (Inr [])
      else result_of (res_value (map snd) (gr_scopes g input)))"

definition lex_child_scopes :: "('p, 't) grammar \<Rightarrow> lex_scope \<Rightarrow> lex_parent_scope attempt" where
  "lex_child_scopes g parent =
     (case lx_children (so_selector parent) of
        Some children \<Rightarrow>
          (case converted (gr_all_consuming g (lex_scope_selector g) children) of
             Inl e \<Rightarrow> Some (Inl e)
           | Inr child_selector \<Rightarrow>
               Some (Inr \<lparr>so_selector = so_selector parent, so_step = None,
                          so_block = [scope_new child_selector (so_block parent)]\<rparr>))
      | None \<Rightarrow>
          try_bind (lex_scopes g (lb_content (so_block parent))) (\<lambda>scopes.
            Some (Inr \<lparr>so_selector = so_selector parent, so_step = so_step parent, so_block = scopes\<rparr>)))"

text \<open>\<open>lex_name_stack\<close> follows the nested names; with every round the text that is left is shorter, so as
  many rounds as the text has characters are enough, if the names of a text are within it.\<close>

fun name_stack :: "('p, 't) grammar \<Rightarrow> nat \<Rightarrow> span option \<Rightarrow> (nom_err + span list) option" where
  "name_stack g n None = Some (Inr [])"
| "name_stack g 0 (Some input) = None"
| "name_stack g (Suc n) (Some input) =
     (case next_stacked_name g input of
        Inl e \<Rightarrow> Some (Inl e)
      | Inr (_, (name, c)) \<Rightarrow> map_option (map_sum (\<lambda>e. e) (\<lambda>names. name # names)) (name_stack g n c))"

definition lex_name_stack :: "('p, 't) grammar \<Rightarrow> nat \<Rightarrow> span \<Rightarrow> span list res option" where
  "lex_name_stack g n input =
     (case next_stacked_name g input of
        Inl e \<Rightarrow> Some (Inl e)
      | Inr (next, (name, children)) \<Rightarrow>
          map_option (map_sum (\<lambda>e. e) (\<lambda>names. (next, name # names))) (name_stack g n children))"


definition lex_route_selector :: "('p, 't) grammar \<Rightarrow> nat \<Rightarrow> span \<Rightarrow> lex_route res option" where
  "lex_route_selector g n input =
     map_option (res_value (\<lambda>(names, filters, path). \<lparr>lr_names = names, lr_filters = filters, lr_path = path\<rparr>))
       (gr_route_tuple g (lex_name_stack g n) (scope_filters g) input)"

text \<open>The names of the methods: each family reads a name in camel case and looks it up.\<close>

definition sys_method_at :: "('p, 't) grammar \<Rightarrow> hyp_method parser" where
  "sys_method_at g input =
     (case gr_camel_chars g input of
        Inl e \<Rightarrow> Inl e
      | Inr (next, chars) \<Rightarrow>
          (case strum_from_str (gr_strum g) hyp_method_variants hyp_method_to_string (sp_text chars) of
             Inr m \<Rightarrow> Inr (next, m)
           | Inl _ \<Rightarrow> Inl (NomError (gr_from_error_kind g input))))"

definition cmd_method_at :: "('p, 't) grammar \<Rightarrow> cmd_method parser" where
  "cmd_method_at g input =
     (case gr_camel_chars g input of
        Inl e \<Rightarrow> Inl e
      | Inr (next, chars) \<Rightarrow>
          (case strum_from_str (gr_strum g) cmd_method_variants cmd_method_to_string (sp_text chars) of
             Inr m \<Rightarrow> Inr (next, m)
           | Inl _ \<Rightarrow> Inl (NomError (gr_from_error_kind g input))))"

definition ext_method_at :: "('p, 't) grammar \<Rightarrow> ext_method parser" where
  "ext_method_at g input =
     (case gr_camel_chars g input of
        Inl e \<Rightarrow> Inl e
      | Inr (next, chars) \<Rightarrow>
          (case ext_method_new (gr_camel_err g) (sp_text chars) of
             Inr m \<Rightarrow> Inr (next, m)
           | Inl _ \<Rightarrow> Inl (NomError (gr_from_error_kind g input))))"

definition parse_camel_case_http :: "('p, 't) grammar \<Rightarrow> http_method parser" where
  "parse_camel_case_http g input =
     (case gr_camel_recognized g input of
        Inl e \<Rightarrow> Inl e
      | Inr (next, rtn) \<Rightarrow>
          (case strum_from_str (gr_strum g) http_method_variants http_method_to_string (sp_text rtn) of
             Inr m \<Rightarrow> Inr (next, m)
           | Inl _ \<Rightarrow> Inl (NomError (gr_from_error_kind g next))))"

definition http_method_at :: "('p, 't) grammar \<Rightarrow> http_method parser" where
  "http_method_at g = gr_http_context g (parse_camel_case_http g)"

definition wrapped_ext_method :: "('p, 't) grammar \<Rightarrow> wave_method parser" where
  "wrapped_ext_method g input =
     (case ext_method_at g input of
        Inl e \<Rightarrow> Inl e
      | Inr (next, m) \<Rightarrow>
          (case ext_method_new (gr_camel_err g) (ext_string m) of
             Inr m \<Rightarrow> Inr (next, Ext m)
           | Inl _ \<Rightarrow> Inl (NomError (gr_from_error_kind g input))))"

definition wrapped_http_method :: "('p, 't) grammar \<Rightarrow> wave_method parser" where
  "wrapped_http_method g input = res_value Http (http_method_at g input)"

definition wrapped_sys_method :: "('p, 't) grammar \<Rightarrow> wave_method parser" where
  "wrapped_sys_method g input = res_value Hyp (sys_method_at g input)"

definition wrapped_cmd_method :: "('p, 't) grammar \<Rightarrow> wave_method parser" where
  "wrapped_cmd_method g input = res_value Cmd (cmd_method_at g input)"

text \<open>\<open>method_kind\<close> unwraps the look-up of the word it recognised.\<close>

definition method_kind_at :: "('p, 't) grammar \<Rightarrow> span \<Rightarrow> method_kind res option" where
  "method_kind_at g input =
     (case gr_kind_chars g input of
        Inl e \<Rightarrow> Some (Inl e)
      | Inr (next, v) \<Rightarrow>
          (case strum_from_str (gr_strum g) method_kind_variants method_kind_to_string (sp_text v) of
             Inr k \<Rightarrow> Some (Inr (next, k))
           | Inl _ \<Rightarrow> None))"

definition value_pattern_of ::
  "('p, 't) grammar \<Rightarrow> (span \<Rightarrow> 'a res option) \<Rightarrow> span \<Rightarrow> 'a value_pattern res option" where
  "value_pattern_of g f input =
     (case gr_tag g ''*'' input of
        Inr (next, _) \<Rightarrow> Some (Inr (next, VPAny))
      | Inl _ \<Rightarrow> map_option (res_value VPPattern) (f input))"

definition result_opt :: "'a res option \<Rightarrow> 'a attempt" where
  "result_opt r = (case r of None \<Rightarrow> None | Some r \<Rightarrow> result_of r)"

section \<open>From lexical scopes to the scopes of a configuration\<close>

definition regex_new :: "('p, 't) grammar \<Rightarrow> string \<Rightarrow> space_err + string" where
  "regex_new g s = (case gr_regex g s of None \<Rightarrow> Inr s | Some e \<Rightarrow> Inl (err_of_string e))"

definition default_path :: "('p, 't) grammar \<Rightarrow> span option \<Rightarrow> space_err + string" where
  "default_path g path = (case path of None \<Rightarrow> regex_new g ''.*'' | Some p \<Rightarrow> regex_new g (sp_text p))"

text \<open>\<open>RouteScopeSelector\<close>: \<open>new\<close> names every selector Route; \<open>from\<close> checks the name.\<close>

definition route_scope_selector_new ::
  "('p, 't) grammar \<Rightarrow> scope_filter list \<Rightarrow> string option \<Rightarrow> space_err + string scope_selector" where
  "route_scope_selector_new g filters path =
     res_bind (case path of None \<Rightarrow> regex_new g ''.*'' | Some p \<Rightarrow> regex_new g p) (\<lambda>path.
       Inr \<lparr>ss_name = ''Route'', ss_path = path, ss_filters = filters\<rparr>)"

definition route_scope_selector_from ::
  "('p, 't) grammar \<Rightarrow> lex_selector \<Rightarrow> space_err + string scope_selector" where
  "route_scope_selector_from g s =
     (if sp_text (lx_name s) \<noteq> ''Route'' then Inl (server_error ''expected Route'')
      else route_scope_selector_new g [] (map_option sp_text (lx_path s)))"

definition route_selector_and_filters :: "('p, 't) grammar \<Rightarrow> lex_selector \<Rightarrow> space_err + string scope_selector" where
  "route_selector_and_filters g s =
     route_scope_selector_new g (to_scope_filters (lx_filters s)) (map_option sp_text (lx_path s))"

text \<open>\<open>MessageScopeSelector::from_selector\<close>: the name is \<open>*\<close> or starts with the name of a kind of method.\<close>

definition message_selector ::
  "('p, 't) grammar \<Rightarrow> lex_selector \<Rightarrow> method_kind value_pattern scope_selector attempt" where
  "message_selector g s =
     (case result_opt (value_pattern_of g (method_kind_at g) (lx_name s)) of
        None \<Rightarrow> None
      | Some (Inl _) \<Rightarrow>
          Some (Inl (err_from_loc_span
            (''unknown MessageKind: '' @ sp_text (lx_name s) @ '' valid message kinds: Ext, Http, Cmd or *'')
            ''unknown message kind'' (lx_name s)))
      | Some (Inr kind) \<Rightarrow>
          Some (res_bind (default_path g (lx_path s)) (\<lambda>path.
            Inr \<lparr>ss_name = kind, ss_path = path, ss_filters = to_scope_filters (lx_filters s)\<rparr>)))"

text \<open>\<open>MethodScopeSelector::from_selector\<close>: below a scope for any kind the name is not read.\<close>

definition method_name ::
  "('p, 't) grammar \<Rightarrow> wave_method parser \<Rightarrow> string \<times> string \<Rightarrow> string \<Rightarrow> span \<Rightarrow> wave_method value_pattern attempt" where
  "method_name g f message lbl name =
     (case result_opt (value_pattern_of g (Some \<circ> f) name) of
        None \<Rightarrow> None
      | Some (Inr r) \<Rightarrow> Some (Inr r)
      | Some (Inl _) \<Rightarrow> Some (Inl (err_from_loc_span (fst message @ quoted (sp_text name) @ snd message) lbl name)))"

definition method_names ::
  "('p, 't) grammar \<Rightarrow> method_kind value_pattern \<Rightarrow> span \<Rightarrow> wave_method value_pattern attempt" where
  "method_names g parent name =
     (case parent of
        VPAny \<Rightarrow> Some (Inr VPAny)
      | VPNone \<Rightarrow> Some (Inr VPNone)
      | VPPattern MKHyp \<Rightarrow>
          method_name g (wrapped_sys_method g) (''invalid Hyp method '', ''.  Hyp should be CamelCase'') ''invalid Hyp'' name
      | VPPattern MKCmd \<Rightarrow>
          method_name g (wrapped_cmd_method g) (''invalid Cmd method '', ''.  Cmd should be CamelCase'') ''invalid Cmd'' name
      | VPPattern MKExt \<Rightarrow>
          method_name g (wrapped_ext_method g) (''invalid Ext method '', ''.  Ext should be CamelCase'') ''invalid Ext'' name
      | VPPattern MKHttp \<Rightarrow>
          method_name g (wrapped_http_method g)
            (''invalid Http Pattern '', ''.  Http should be camel case 'Get' and a valid Http method'')
            ''invalid Http method'' name)"


definition method_selector ::
  "('p, 't) grammar \<Rightarrow> method_kind value_pattern \<Rightarrow> lex_selector \<Rightarrow> wave_method value_pattern scope_selector attempt" where
  "method_selector g parent s =
     try_bind (method_names g parent (lx_name s)) (\<lambda>name.
       Some (res_bind (default_path g (lx_path s)) (\<lambda>path.
         Inr \<lparr>ss_name = name, ss_path = path, ss_filters = to_scope_filters (lx_filters s)\<rparr>)))"

definition method_scope_from ::
  "('p, 't) grammar \<Rightarrow> method_kind value_pattern \<Rightarrow> lex_scope \<Rightarrow> ('p, 't) method_scope attempt" where
  "method_scope_from g parent scope =
     try_bind (method_selector g parent (so_selector scope)) (\<lambda>selector.
     try_bind (result_of (gr_pipeline g (lb_content (so_block scope)))) (\<lambda>block.
       Some (Inr \<lparr>sc_selector = selector, sc_block = block\<rparr>)))"

definition wave_scope_from :: "('p, 't) grammar \<Rightarrow> lex_parent_scope \<Rightarrow> ('p, 't) wave_scope attempt" where
  "wave_scope_from g scope =
     try_bind (message_selector g (so_selector scope)) (\<lambda>selector.
     try_bind (try_map (method_scope_from g (ss_name selector)) (so_block scope)) (\<lambda>block.
       Some (Inr \<lparr>sc_selector = selector, sc_block = block\<rparr>)))"

definition fold_errors :: "space_err list \<Rightarrow> space_err" where
  "fold_errors errs = ParseErrs (parse_errs_fold parse_errs_of_space_err errs)"

definition message_scope_from :: "('p, 't) grammar \<Rightarrow> lex_scope \<Rightarrow> ('p, 't) wave_scope attempt" where
  "message_scope_from g scope = try_bind (lex_child_scopes g scope) (wave_scope_from g)"

definition route_scope_from :: "('p, 't) grammar \<Rightarrow> lex_parent_scope \<Rightarrow> ('p, 't) route_scope attempt" where
  "route_scope_from g scope =
     (case route_selector_and_filters g (so_selector scope) of
        Inl e \<Rightarrow> Some (Inl e)
      | Inr selector \<Rightarrow>
          (case try_collect (message_scope_from g) (so_block scope) of
             None \<Rightarrow> None
           | Some (scopes, errs) \<Rightarrow>
               Some (if errs = [] then Inr \<lparr>sc_selector = selector, sc_block = scopes\<rparr> else Inl (fold_errors errs))))"

text \<open>A report at one span of a source that is named by another.\<close>

definition err_report_at :: "string \<Rightarrow> string \<Rightarrow> span \<Rightarrow> string \<Rightarrow> space_err" where
  "err_report_at message lbl s extra =
     ParseErrs (parse_errs_from_report
       (report_finish
         (report_with_label (report_with_message (report_build RKError) message)
           (label_with_message (label_new (sp_offset s, sp_offset s + length (sp_text s))) lbl)))
       extra)"

definition semantic_bind_scope :: "('p, 't) grammar \<Rightarrow> lex_scope \<Rightarrow> ('p, 't) route_scope attempt" where
  "semantic_bind_scope g scope =
     (if sp_text (lx_name (so_selector scope)) = ''Route''
      then try_bind (lex_child_scopes g scope) (route_scope_from g)
      else Some (Inl (err_report_at
             (''Unrecognized BindConfig selector: '' @ quoted (sp_text (lx_name (so_selector scope))))
             ''Unrecognized Selector'' (lx_name (so_selector scope)) (sp_extra (lb_content (so_block scope))))))"

definition parse_bind_config :: "('p, 't) grammar \<Rightarrow> span \<Rightarrow> ('p, 't) bind_config attempt" where
  "parse_bind_config g input =
     try_bind (lex_scopes g input) (\<lambda>scopes.
       case try_collect (semantic_bind_scope g) scopes of
         None \<Rightarrow> None
       | Some (oks, errors) \<Rightarrow> Some (if errors \<noteq> [] then Inl (fold_errors errors) else Inr oks))"

section \<open>Mechtron configurations and documents\<close>

text \<open>\<open>MechtronConfig::new\<close>: the last \<open>bin\<close> and the last \<open>name\<close> of all scopes.\<close>

datatype mechtron_scope = WasmScope "assignment list"

record mechtron_config =
  mc_wasm :: point
  mc_name :: string

fun mechtron_assign ::
  "('p, 't) grammar \<Rightarrow> point option \<times> string option \<Rightarrow> assignment \<Rightarrow> space_err + point option \<times> string option" where
  "mechtron_assign g (wasm, name) a =
     (if as_key a = ''bin'' then res_bind (gr_point g (as_value a)) (\<lambda>p. Inr (Some p, name))
      else if as_key a = ''name'' then Inr (wasm, Some (as_value a))
      else Inr (wasm, name))"

definition mechtron_config_new :: "('p, 't) grammar \<Rightarrow> mechtron_scope list \<Rightarrow> space_err + mechtron_config" where
  "mechtron_config_new g scopes =
     res_bind (res_foldl (mechtron_assign g) (None, None) (concat (map (\<lambda>s. case s of WasmScope as \<Rightarrow> as) scopes)))
       (\<lambda>(wasm, name).
         (case (wasm, name) of
            (Some w, Some n) \<Rightarrow> Inr \<lparr>mc_wasm = w, mc_name = n\<rparr>
          | _ \<Rightarrow> Inl (err_of_string ''required `bin` and `name` in Wasm scope'')))"

definition assignment_of :: "('p, 't) grammar \<Rightarrow> assignment parser" where
  "assignment_of g input = res_value (\<lambda>(k, v). \<lparr>as_key = sp_text k, as_value = sp_text v\<rparr>) (gr_assignment g input)"

definition parse_mechtron_config :: "('p, 't) grammar \<Rightarrow> span \<Rightarrow> space_err + mechtron_config" where
  "parse_mechtron_config g input =
     res_bind (converted (gr_wasm g (assignment_of g) input)) (\<lambda>assignments.
       mechtron_config_new g [WasmScope assignments])"

definition semantic_mechtron_scope :: "('p, 't) grammar \<Rightarrow> lex_scope \<Rightarrow> mechtron_scope attempt" where
  "semantic_mechtron_scope g scope =
     (if sp_text (lx_name (so_selector scope)) = ''Wasm''
      then try_bind (result_of (gr_many g (assignment_of g) (lb_content (so_block scope)))) (\<lambda>as. Some (Inr (WasmScope as)))
      else Some (Inl (err_report_at
             (''Unrecognized MechtronConfig selector: '' @ quoted (sp_text (lx_name (so_selector scope))))
             ''Unrecognized Selector'' (lx_name (so_selector scope)) (sp_extra (lb_content (so_block scope))))))"

text \<open>\<open>strip_comments\<close> puts a blank for every character of a comment.\<close>

fun stripped :: "text_type \<Rightarrow> string" where
  "stripped (NoComment s) = sp_text s"
| "stripped (Comment s) = replicate (length (sp_text s)) (CHR '' '')"

definition strip_comments :: "('p, 't) grammar \<Rightarrow> string parser" where
  "strip_comments g input = res_value (\<lambda>texts. concat (map stripped texts)) (gr_texts g input)"

fun text_type_to_string :: "text_type \<Rightarrow> string" where
  "text_type_to_string (Comment s) = sp_text s"
| "text_type_to_string (NoComment s) = sp_text s"

datatype ('p, 't) document = DocBind "('p, 't) bind_config" | DocMechtron mechtron_config

definition root_to_concrete :: "('p, 't) grammar \<Rightarrow> root_selector \<Rightarrow> space_err + string \<times> version" where
  "root_to_concrete g s =
     res_bind (gr_version g (version_to_string (rt_version s))) (\<lambda>v. Inr (sp_text (rt_name s), v))"

definition lex_root_scope_of :: "('p, 't) grammar \<Rightarrow> span \<Rightarrow> lex_root_scope attempt" where
  "lex_root_scope_of g s = result_of (gr_root_scope g s)"

definition doc :: "('p, 't) grammar \<Rightarrow> string \<Rightarrow> ('p, 't) document attempt" where
  "doc g src =
     try_bind (Some (converted (strip_comments g (new_span src)))) (\<lambda>text.
     try_bind (lex_root_scope_of g (span_with_extra text src)) (\<lambda>root.
     try_bind (Some (root_to_concrete g (so_selector root))) (\<lambda>(name, version).
       let content = lb_content (so_block root);
           unsupported = Inl (err_report_at
             (''ConfigParser does not know how to process a Bind at version '' @ quoted (version_to_string version))
             ''Unsupported Bind Config Version'' (rt_version_span (so_selector root)) (sp_extra content))
       in if name = ''Mechtron'' then
            try_bind (Some (gr_version g ''1.0.0'')) (\<lambda>one.
              if version = one
              then try_bind (Some (parse_mechtron_config g content)) (\<lambda>c. Some (Inr (DocMechtron c)))
              else Some unsupported)
          else if name = ''Bind'' then
            try_bind (Some (gr_version g ''1.0.0'')) (\<lambda>one.
              if version = one
              then try_bind (parse_bind_config g content) (\<lambda>c. Some (Inr (DocBind c)))
              else Some unsupported)
          else Some (Inl (err_report_at
                 (''ConfigParser does not know how to process a '' @ quoted (sp_text (rt_name (so_selector root))))
                 ''Unrecognized Config Kind'' (rt_name (so_selector root)) (sp_extra content))))))"

definition bind_config_of :: "('p, 't) grammar \<Rightarrow> string \<Rightarrow> ('p, 't) bind_config attempt" where
  "bind_config_of g src =
     try_bind (doc g src) (\<lambda>d. case d of DocBind c \<Rightarrow> Some (Inr c) | _ \<Rightarrow> Some (Inl (err_of_string ''not a bind config'')))"

definition mechtron_config_of :: "('p, 't) grammar \<Rightarrow> string \<Rightarrow> mechtron_config attempt" where
  "mechtron_config_of g src =
     try_bind (doc g src)
       (\<lambda>d. case d of DocMechtron c \<Rightarrow> Some (Inr c) | _ \<Rightarrow> Some (Inl (err_of_string ''not a Mechtron config'')))"

section \<open>Route selectors\<close>

definition required_name :: "span list \<Rightarrow> string \<Rightarrow> string \<Rightarrow> span \<Rightarrow> space_err + span \<times> span list" where
  "required_name names message lbl loc =
     (case names of [] \<Rightarrow> Inl (err_from_loc_span message lbl loc) | n # ns \<Rightarrow> Inr (n, ns))"

definition sub_method ::
  "('p, 't) grammar \<Rightarrow> 'm parser \<Rightarrow> ('m value_pattern \<Rightarrow> method_pattern) \<Rightarrow> string \<Rightarrow> span \<Rightarrow> span list
   \<Rightarrow> (method_pattern \<times> span list) attempt" where
  "sub_method g f wrap message kind_span names =
     try_bind (Some (required_name names message ''sub kind required'' kind_span)) (\<lambda>(m, names).
     try_bind (result_opt (value_pattern_of g (Some \<circ> f) m)) (\<lambda>m. Some (Inr (wrap m, names))))"

definition route_method ::
  "('p, 't) grammar \<Rightarrow> method_kind value_pattern \<Rightarrow> span \<Rightarrow> span list \<Rightarrow> (method_pattern value_pattern \<times> span list) attempt" where
  "route_method g kind kind_span names =
     (case kind of
        VPAny \<Rightarrow> Some (Inr (VPAny, names))
      | VPNone \<Rightarrow> Some (Inr (VPNone, names))
      | VPPattern k \<Rightarrow>
          try_bind
            (case k of
               MKHyp \<Rightarrow> sub_method g (sys_method_at g) MPHyp ''Hyp method requires a sub kind i.e. Hyp<Assign> or Ext<*>'' kind_span names
             | MKCmd \<Rightarrow> sub_method g (cmd_method_at g) MPCmd ''Cmd method requires a sub kind i.e. Cmd<Bounce>'' kind_span names
             | MKExt \<Rightarrow> sub_method g (ext_method_at g) MPExt ''Ext method requires a sub kind i.e. Ext<SomeExt> or Ext<*>'' kind_span names
             | MKHttp \<Rightarrow> sub_method g (http_method_at g) MPHttp ''Http method requires a sub kind i.e. Http<Get> or Http<*>'' kind_span names)
            (\<lambda>(m, names). Some (Inr (VPPattern m, names))))"

definition route_path :: "('p, 't) grammar \<Rightarrow> span option \<Rightarrow> space_err + string" where
  "route_path g path =
     (case path of
        None \<Rightarrow> Inr ''/.*''
      | Some i \<Rightarrow>
          (case gr_regex g (sp_text i) of
             None \<Rightarrow> Inr (sp_text i)
           | Some err \<Rightarrow> Inl (err_from_loc_span (''cannot parse Path regex: '' @ quoted err) ''path regex error'' i)))"

text \<open>\<open>route_selector\<close>; the regular expression of a selector without a path is a constant, which
  compiles (\<open>unwrap\<close>).\<close>

definition route_selector_of :: "('p, 't) grammar \<Rightarrow> nat \<Rightarrow> span \<Rightarrow> route_selector attempt" where
  "route_selector_of g n input =
     (case gr_with_topic g (lex_route_selector g n) input of
        None \<Rightarrow> None
      | Some (Inl err) \<Rightarrow> map_option Inl (find_parse_err err)
      | Some (Inr (next, (topic, lex_route))) \<Rightarrow>
          if length (sp_text next) > 0
          then Some (Inl (err_from_loc_span ''could not consume entire route selector'' ''extra'' next))
          else
            try_bind (Some (required_name (lr_names lex_route)
              ''expecting MethodKind [ Http, Ext ]'' ''expecting MethodKind'' input)) (\<lambda>(kind_span, names).
            try_bind (result_opt (value_pattern_of g (method_kind_at g) kind_span)) (\<lambda>kind.
            try_bind (route_method g kind kind_span names) (\<lambda>(m, names).
              case names of
                _ # _ \<Rightarrow>
                  Some (Inl (err_from_loc_span
                    ''Too many SubKinds: only Http/Ext supported with one subkind i.e. Http<Get>, Ext<MyMethod>''
                    ''too many subkinds'' (hd names)))
              | [] \<Rightarrow>
                  Some (res_bind (route_path g (lr_path lex_route)) (\<lambda>path.
                    Inr \<lparr>rs_topic = topic, rs_method = m, rs_path = path, rs_filters = to_scope_filters (lr_filters lex_route)\<rparr>))))))"

definition route_attribute :: "('p, 't) grammar \<Rightarrow> nat \<Rightarrow> string \<Rightarrow> route_selector attempt" where
  "route_attribute g n input =
     try_bind (result_of (gr_attribute g (new_span input))) (route_selector_of g n)"

definition route_attribute_value :: "('p, 't) grammar \<Rightarrow> nat \<Rightarrow> string \<Rightarrow> route_selector attempt" where
  "route_attribute_value g n input =
     try_bind (result_of (gr_quoted g (new_span input))) (route_selector_of g n)"


section \<open>Facts\<close>

lemma fold_errors_empty: "fold_errors errs = ParseErrs \<lparr>pe_report = [], pe_source = None, pe_ctx = ''''\<rparr>"
  by (simp add: fold_errors_def fold_of_space_errs)

lemma nested_delims: "nested_open k = [nested_open_char k]" "nested_close k = [nested_close_char k]"
  by (cases k; simp)+

text \<open>Every context of a block kind has its message, and messages are only for these contexts.\<close>

lemma ex_nested: "(\<exists>k. P k) \<longleftrightarrow> P Curly \<or> P Parens \<or> P Square \<or> P Angle"
  by (metis nested_block_kind.exhaust)

lemma is_ok_if: "is_ok (if a then Inr x else r) \<longleftrightarrow> a \<or> is_ok r"
  by simp

lemma block_error_message_ok:
  "is_ok (block_error_message ctx) \<longleftrightarrow>
     (\<exists>k. open_context k = ctx \<or> close_context k = ctx \<or> unpaired_closing_scope k = ctx)"
  unfolding block_error_message_def is_ok_if ex_nested by (simp only: is_ok_simps) blast

lemma closing_chars_terminate: "is_block_terminator c \<longleftrightarrow> (\<exists>k. nested_close_char k = c)"
  unfolding is_block_terminator_def ex_nested nested_close_char.simps by blast

text \<open>A stack of nested names ends, because the names of a text are within it.\<close>

definition names_shrink :: "('p, 't) grammar \<Rightarrow> bool" where
  "names_shrink g \<longleftrightarrow>
     (\<forall>input next name c. next_stacked_name g input = Inr (next, name, Some c) \<longrightarrow> length (sp_text c) < length (sp_text input))"

lemma name_stack_returns:
  assumes "names_shrink g"
    and "case children of None \<Rightarrow> True | Some c \<Rightarrow> length (sp_text c) < n"
  shows "name_stack g n children \<noteq> None"
  using assms
proof (induction g n children rule: name_stack.induct)
  case (3 g n input)
  show ?case
  proof (cases "next_stacked_name g input")
    case (Inr r)
    obtain nx name c where r: "r = (nx, name, c)" by (cases r)
    have "case c of None \<Rightarrow> True | Some c \<Rightarrow> length (sp_text c) < n"
    proof (cases c)
      case (Some t)
      from 3(2) Inr r Some have "length (sp_text t) < length (sp_text input)" unfolding names_shrink_def by blast
      with 3(3) Some show ?thesis by simp
    qed simp
    with 3(1)[OF Inr[unfolded r] refl refl 3(2)] show ?thesis by (simp add: Inr r)
  qed simp
qed auto

lemma lex_name_stack_returns:
  assumes "names_shrink g" "length (sp_text input) \<le> n"
  shows "lex_name_stack g n input \<noteq> None"
proof (cases "next_stacked_name g input")
  case (Inr r)
  obtain nx name children where r: "r = (nx, name, children)" by (cases r)
  have "case children of None \<Rightarrow> True | Some c \<Rightarrow> length (sp_text c) < n"
  proof (cases children)
    case (Some t)
    from assms(1) Inr r Some have "length (sp_text t) < length (sp_text input)" unfolding names_shrink_def by blast
    with assms(2) Some show ?thesis by simp
  qed simp
  from name_stack_returns[OF assms(1) this] show ?thesis
    by (simp add: lex_name_stack_def Inr r)
qed (simp add: lex_name_stack_def)

text \<open>Stripping comments keeps every other character at its place, if the texts are the consumed input.\<close>

lemma stripped_length [simp]: "length (stripped t) = length (text_type_to_string t)"
  by (cases t) simp_all

lemma stripped_keeps_places:
  assumes "i < length (concat (map stripped ts))"
  shows "concat (map stripped ts) ! i = concat (map text_type_to_string ts) ! i \<or> concat (map stripped ts) ! i = CHR '' ''"
  using assms
proof (induction ts arbitrary: i)
  case (Cons t ts)
  show ?case
  proof (cases "i < length (text_type_to_string t)")
    case True
    then show ?thesis by (cases t) (simp_all add: nth_append)
  next
    case False
    moreover have "concat (map stripped (t # ts)) ! i = concat (map stripped ts) ! (i - length (text_type_to_string t))"
      using False by (simp add: nth_append)
    moreover have "concat (map text_type_to_string (t # ts)) ! i = concat (map text_type_to_string ts) ! (i - length (text_type_to_string t))"
      using False by (simp add: nth_append)
    ultimately show ?thesis using Cons.IH[of "i - length (text_type_to_string t)"] Cons.prems by simp
  qed
qed simp


section \<open>Facts: where the scopes of a configuration come from\<close>

definition lex_path :: "lex_scope \<Rightarrow> string" where
  "lex_path s = (case lx_path (so_selector s) of None \<Rightarrow> ''.*'' | Some p \<Rightarrow> sp_text p)"

definition child_of :: "('p, 't) grammar \<Rightarrow> lex_scope \<Rightarrow> lex_scope \<Rightarrow> bool" where
  "child_of g child parent \<longleftrightarrow> (\<exists>p. lex_child_scopes g parent = Some (Inr p) \<and> child \<in> set (so_block p))"

definition kind_of_name :: "('p, 't) grammar \<Rightarrow> lex_scope \<Rightarrow> method_kind value_pattern attempt" where
  "kind_of_name g s = result_opt (value_pattern_of g (method_kind_at g) (lx_name (so_selector s)))"

text \<open>The scopes at the top of a bind document.\<close>

definition document_scopes :: "('p, 't) grammar \<Rightarrow> string \<Rightarrow> lex_scope list attempt" where
  "document_scopes g src =
     try_bind (Some (converted (strip_comments g (new_span src)))) (\<lambda>text.
     try_bind (lex_root_scope_of g (span_with_extra text src)) (\<lambda>root. lex_scopes g (lb_content (so_block root))))"

lemma list_all2_from: "list_all2 P xs ys \<Longrightarrow> y \<in> set ys \<Longrightarrow> \<exists>x \<in> set xs. P x y"
  by (induction rule: list_all2_induct) auto

lemma regex_new_Inr_iff: "regex_new g s = Inr r \<longleftrightarrow> r = s \<and> gr_regex g s = None"
  by (auto simp: regex_new_def split: option.splits)

lemma child_scopes_selector: "lex_child_scopes g s = Some (Inr p) \<Longrightarrow> so_selector p = so_selector s"
  by (auto simp: lex_child_scopes_def try_bind_Inr_iff split: option.splits sum.splits)

lemma method_scope_source:
  assumes "method_scope_from g kind s = Some (Inr m)"
  shows "ss_path (sc_selector m) = lex_path s"
    and "method_names g kind (lx_name (so_selector s)) = Some (Inr (ss_name (sc_selector m)))"
    and "result_of (gr_pipeline g (lb_content (so_block s))) = Some (Inr (sc_block m))"
proof -
  from assms obtain selector block where m:
    "method_selector g kind (so_selector s) = Some (Inr selector)"
    "result_of (gr_pipeline g (lb_content (so_block s))) = Some (Inr block)"
    "m = \<lparr>sc_selector = selector, sc_block = block\<rparr>"
    by (auto simp: method_scope_from_def try_bind_Inr_iff)
  from m(1) show "ss_path (sc_selector m) = lex_path s"
    by (auto simp: m(3) method_selector_def try_bind_Inr_iff res_bind_Inr_iff default_path_def lex_path_def
        regex_new_Inr_iff split: option.splits)
  from m(1) show "method_names g kind (lx_name (so_selector s)) = Some (Inr (ss_name (sc_selector m)))"
    by (auto simp: m(3) method_selector_def try_bind_Inr_iff res_bind_Inr_iff)
  from m(2) show "result_of (gr_pipeline g (lb_content (so_block s))) = Some (Inr (sc_block m))"
    by (simp add: m(3))
qed

lemma message_selector_source:
  assumes "message_selector g s = Some (Inr selector)"
  shows "ss_path selector = (case lx_path s of None \<Rightarrow> ''.*'' | Some p \<Rightarrow> sp_text p)"
    and "result_opt (value_pattern_of g (method_kind_at g) (lx_name s)) = Some (Inr (ss_name selector))"
  using assms
  by (auto simp: message_selector_def res_bind_Inr_iff default_path_def regex_new_Inr_iff split: option.splits sum.splits)

lemma wave_scope_source:
  assumes "message_scope_from g s = Some (Inr w)" "m \<in> set (sc_block w)"
  shows "\<exists>meth. child_of g meth s \<and> method_scope_from g (ss_name (sc_selector w)) meth = Some (Inr m)"
    and "ss_path (sc_selector w) = lex_path s" and "kind_of_name g s = Some (Inr (ss_name (sc_selector w)))"
proof -
  from assms(1) obtain p selector block where p:
    "lex_child_scopes g s = Some (Inr p)" "message_selector g (so_selector p) = Some (Inr selector)"
    "list_all2 (\<lambda>x y. method_scope_from g (ss_name selector) x = Some (Inr y)) (so_block p) block"
    "w = \<lparr>sc_selector = selector, sc_block = block\<rparr>"
    by (auto simp: message_scope_from_def wave_scope_from_def try_bind_Inr_iff try_map_Inr_iff)
  from p(3,4) assms(2) obtain meth where "meth \<in> set (so_block p)" "method_scope_from g (ss_name selector) meth = Some (Inr m)"
    by (auto dest: list_all2_from)
  then show "\<exists>meth. child_of g meth s \<and> method_scope_from g (ss_name (sc_selector w)) meth = Some (Inr m)"
    using p(1,4) unfolding child_of_def by auto
  note sel = message_selector_source[OF p(2)[unfolded child_scopes_selector[OF p(1)]]]
  show "ss_path (sc_selector w) = lex_path s" "kind_of_name g s = Some (Inr (ss_name (sc_selector w)))"
    using sel by (simp_all add: p(4) lex_path_def kind_of_name_def)
qed

lemma route_scope_source:
  assumes "semantic_bind_scope g s = Some (Inr r)"
  shows "sp_text (lx_name (so_selector s)) = ''Route''" and "ss_path (sc_selector r) = lex_path s"
    and "w \<in> set (sc_block r) \<Longrightarrow> \<exists>message. child_of g message s \<and> message_scope_from g message = Some (Inr w)"
proof -
  from assms show route: "sp_text (lx_name (so_selector s)) = ''Route''"
    by (auto simp: semantic_bind_scope_def split: if_splits)
  from assms route obtain p where p: "lex_child_scopes g s = Some (Inr p)" "route_scope_from g p = Some (Inr r)"
    by (auto simp: semantic_bind_scope_def try_bind_Inr_iff)
  from p(2) obtain selector scopes where r:
    "route_selector_and_filters g (so_selector s) = Inr selector"
    "list_all2 (\<lambda>x y. message_scope_from g x = Some (Inr y)) (so_block p) scopes"
    "r = \<lparr>sc_selector = selector, sc_block = scopes\<rparr>"
    unfolding route_scope_from_def child_scopes_selector[OF p(1)]
    by (auto simp: try_collect_ok_iff split: sum.splits option.splits prod.splits if_splits)
  from r(1) show "ss_path (sc_selector r) = lex_path s"
    by (auto simp: r(3) route_selector_and_filters_def route_scope_selector_new_def res_bind_Inr_iff
        regex_new_Inr_iff lex_path_def split: option.splits)
  assume "w \<in> set (sc_block r)"
  with r(2,3) obtain message where "message \<in> set (so_block p)" "message_scope_from g message = Some (Inr w)"
    by (auto dest: list_all2_from)
  with p(1) show "\<exists>message. child_of g message s \<and> message_scope_from g message = Some (Inr w)"
    unfolding child_of_def by blast
qed


lemma bind_select_found:
  assumes "bind_select rx path c d = Inr m"
  shows "\<exists>r w. r \<in> set c \<and> w \<in> set (sc_block r) \<and> m \<in> set (sc_block w) \<and> scopes_match rx path d (r, w, m)"
proof -
  from assms have "select_route rx path d c = Some m"
    by (auto simp: bind_select_def split: option.splits)
  then obtain r w where f: "List.find (scopes_match rx path d) (bind_methods c) = Some (r, w, m)"
    unfolding select_route_find by auto
  then have "(r, w, m) \<in> set (bind_methods c)" "scopes_match rx path d (r, w, m)"
    unfolding find_Some_iff in_set_conv_nth by auto
  then show ?thesis by (auto simp: bind_methods_def)
qed

lemma parse_bind_config_Inr_iff:
  "parse_bind_config g input = Some (Inr c) \<longleftrightarrow>
     (\<exists>scopes. lex_scopes g input = Some (Inr scopes) \<and>
        list_all2 (\<lambda>s r. semantic_bind_scope g s = Some (Inr r)) scopes c)"
proof -
  have "(case try_collect f xs of None \<Rightarrow> None
      | Some (oks, errors) \<Rightarrow> Some (if errors \<noteq> [] then Inl (fold_errors errors) else Inr oks)) = Some (Inr c)
    \<longleftrightarrow> try_collect f xs = Some (c, [])" for f :: "lex_scope \<Rightarrow> ('a, 'b) route_scope attempt" and xs
    by (auto split: option.splits prod.splits if_splits)
  then show ?thesis
    by (simp add: parse_bind_config_def try_bind_Inr_iff try_collect_ok_iff)
qed

lemma bind_config_source:
  assumes "bind_config_of g src = Some (Inr c)"
  shows "\<exists>scopes. document_scopes g src = Some (Inr scopes) \<and>
    list_all2 (\<lambda>s r. semantic_bind_scope g s = Some (Inr r)) scopes c"
proof -
  from assms obtain d where d: "doc g src = Some (Inr d)"
    "(case d of DocBind c \<Rightarrow> Some (Inr c) | _ \<Rightarrow> Some (Inl (err_of_string ''not a bind config''))) = Some (Inr c)"
    unfolding bind_config_of_def try_bind_Inr_iff by blast
  from d(2) have "d = DocBind c" by (cases d) simp_all
  with d(1) have "doc g src = Some (Inr (DocBind c))" by simp
  then obtain plain root where t: "converted (strip_comments g (new_span src)) = Inr plain"
    "lex_root_scope_of g (span_with_extra plain src) = Some (Inr root)"
    "parse_bind_config g (lb_content (so_block root)) = Some (Inr c)"
    by (auto simp: doc_def try_bind_Inr_iff Let_def split: if_splits prod.splits)
  from t(3) show ?thesis
    by (simp add: parse_bind_config_Inr_iff document_scopes_def t(1,2))
qed

lemma method_kind_matches:
  "vp_is_match method_kind_is_match kind x = pass \<longleftrightarrow> kind = VPAny \<or> kind = VPPattern x"
  by (cases kind) (auto simp: method_kind_is_match_def)

text \<open>C6. Whatever pipeline a parsed bind configuration selects for a wave is written in the document: the
  text has a Route scope with a scope for the kind of the wave's method (or for any kind) and in it a
  method scope with just this pipeline, and the path of the wave matches the paths of all three.\<close>

theorem selected_pipelines_are_written:
  assumes "bind_config_of g src = Some (Inr c)" "bind_select rx path c d = Inr m"
  shows "\<exists>scopes route message meth kind.
    document_scopes g src = Some (Inr scopes) \<and> route \<in> set scopes \<and>
    sp_text (lx_name (so_selector route)) = ''Route'' \<and> child_of g message route \<and> child_of g meth message \<and>
    list_all (\<lambda>s. rx (lex_path s) (path (dc_uri (dw_core d)))) [route, message, meth] \<and>
    kind_of_name g message = Some (Inr kind) \<and>
    (kind = VPAny \<or> kind = VPPattern (method_kind_of (dc_method (dw_core d)))) \<and>
    method_names g kind (lx_name (so_selector meth)) = Some (Inr (ss_name (sc_selector m))) \<and>
    vp_is_match method_is_match (ss_name (sc_selector m)) (dc_method (dw_core d)) = pass \<and>
    result_of (gr_pipeline g (lb_content (so_block meth))) = Some (Inr (sc_block m))"
proof -
  from bind_config_source[OF assms(1)] obtain scopes where
    s: "document_scopes g src = Some (Inr scopes)" "list_all2 (\<lambda>s r. semantic_bind_scope g s = Some (Inr r)) scopes c"
    by blast
  from bind_select_found[OF assms(2)] obtain r w where
    f: "r \<in> set c" "w \<in> set (sc_block r)" "m \<in> set (sc_block w)" "scopes_match rx path d (r, w, m)" by blast
  from list_all2_from[OF s(2) f(1)] obtain route where
    route: "route \<in> set scopes" "semantic_bind_scope g route = Some (Inr r)" by blast
  from route_scope_source(3)[OF route(2) f(2)] obtain message where
    message: "child_of g message route" "message_scope_from g message = Some (Inr w)" by blast
  from wave_scope_source(1)[OF message(2) f(3)] obtain meth where
    meth: "child_of g meth message" "method_scope_from g (ss_name (sc_selector w)) meth = Some (Inr m)" by blast
  note r_path = route_scope_source(2)[OF route(2)] and w_path = wave_scope_source(2,3)[OF message(2) f(3)]
    and m_src = method_scope_source[OF meth(2)]
  from f(4) have ok: "route_scope_is_match rx path (sc_selector r) d = pass"
    "message_scope_is_match rx path (sc_selector w) d = pass" "method_scope_is_match rx path (sc_selector m) d = pass"
    by (simp_all add: scopes_match_def)
  from ok(1) have "rx (lex_path route) (path (dc_uri (dw_core d)))"
    by (simp add: route_scope_is_match_def r_path split: if_splits)
  moreover from ok(2) have "rx (lex_path message) (path (dc_uri (dw_core d)))"
    "vp_is_match method_kind_is_match (ss_name (sc_selector w)) (method_kind_of (dc_method (dw_core d))) = pass"
    by (auto simp: message_scope_is_match_def w_path res_bind_Inr_iff split: if_splits)
  moreover from ok(3) have "rx (lex_path meth) (path (dc_uri (dw_core d)))"
    "vp_is_match method_is_match (ss_name (sc_selector m)) (dc_method (dw_core d)) = pass"
    by (auto simp: method_scope_is_match_def m_src res_bind_Inr_iff split: if_splits)
  ultimately show ?thesis
    using s(1) route(1) route_scope_source(1)[OF route(2)] message(1) meth(1) w_path(2) m_src(2,3)
    unfolding method_kind_matches by (intro exI[of _ scopes] exI[of _ route] exI[of _ message] exI[of _ meth] exI[of _ "ss_name (sc_selector w)"]) simp
qed


text \<open>Below a scope for any kind of method the names of the method scopes are not read: such a scope
  answers every wave whose path it matches, by the first of its method scopes with a matching path.\<close>

theorem any_kind_ignores_method_names:
  assumes "wave_scope_from g scope = Some (Inr w)" "ss_name (sc_selector w) = VPAny"
  shows "select_method rx path d (sc_block w) =
    List.find (\<lambda>m. rx (ss_path (sc_selector m)) (path (dc_uri (dw_core d)))) (sc_block w)"
proof -
  from assms obtain block where b: "list_all2 (\<lambda>x y. method_scope_from g VPAny x = Some (Inr y)) (so_block scope) block"
    "sc_block w = block"
    by (auto simp: wave_scope_from_def try_bind_Inr_iff try_map_Inr_iff)
  have "ss_name (sc_selector m) = VPAny" if "m \<in> set block" for m
    using list_all2_from[OF b(1) that] method_scope_source(2)[of g VPAny _ m]
    by (auto simp: method_names_def)
  then show ?thesis unfolding b(2)
    by (induction block) (auto simp: method_scope_is_match_def)
qed


section \<open>A grammar and a document at work\<close>

abbreviation word_span :: "string \<Rightarrow> span" where
  "word_span s \<equiv> span_with_extra s ''''"

definition sample_scope :: "string \<Rightarrow> string \<Rightarrow> lex_scope" where
  "sample_scope name content =
     scope_new \<lparr>lx_name = word_span name, lx_filters = [], lx_children = None, lx_path = None\<rparr>
       \<lparr>lb_kind = Nested Curly, lb_content = word_span content\<rparr>"

text \<open>Block \<open>R\<close> holds a route, \<open>M\<close> a scope for any kind, \<open>G\<close> a method; \<open>X\<close> holds a scope with an unknown name.\<close>

definition sample_scopes :: "string \<Rightarrow> lex_scope list" where
  "sample_scopes s =
     (if s = ''R'' then [sample_scope ''Route'' ''M'']
      else if s = ''M'' then [sample_scope ''*'' ''G'']
      else if s = ''G'' then [sample_scope ''Get'' ''P'']
      else [sample_scope ''Rout'' ''M''])"

definition sample_grammar :: "(point, unit) grammar" where
  "sample_grammar =
     \<lparr>gr_tag = (\<lambda>t i. if sp_text i = t then Inr (i, i) else Inl NomIncomplete),
      gr_from_error_kind = ETBase,
      gr_texts = (\<lambda>i. Inr (i, [NoComment i])),
      gr_all_space = (\<lambda>i. Inl NomIncomplete),
      gr_root_scope = (\<lambda>i. Inr (i, scope_new
        \<lparr>rt_name = word_span ''Bind'', rt_version_span = word_span ''1.0.0'', rt_version = Version ''1.0.0''\<rparr>
        \<lparr>lb_kind = Nested Curly, lb_content = i\<rparr>)),
      gr_scopes = (\<lambda>i. Inr (i, map (Pair ()) (sample_scopes (sp_text i)))),
      gr_angled_name = (\<lambda>i. Inl NomIncomplete), gr_plain_name = (\<lambda>i. Inr (i, (i, None))),
      gr_filters = (\<lambda>i. Inr (i, (None, []))),
      gr_selector_tuple = (\<lambda>_ _ i. Inr (i, ((i, None), [], None))), gr_all_consuming = (\<lambda>p. p),
      gr_route_tuple = (\<lambda>_ _ i. Some (Inr (i, ([i], [], None)))),
      gr_with_topic = (\<lambda>_ i. None),
      gr_kind_chars = (\<lambda>i. Inr (i, i)), gr_camel_chars = (\<lambda>i. Inr (i, i)), gr_camel_recognized = (\<lambda>i. Inr (i, i)),
      gr_http_context = (\<lambda>p. p), gr_pipeline = (\<lambda>i. Inr (i, default_pipeline)),
      gr_assignment = (\<lambda>i. Inr (i, (i, i))), gr_many = (\<lambda>_ i. Inr (i, [])), gr_wasm = (\<lambda>_ i. Inr (i, [])),
      gr_attribute = (\<lambda>i. Inr (i, i)), gr_quoted = (\<lambda>i. Inr (i, i)),
      gr_regex = (\<lambda>_. None), gr_version = (\<lambda>s. Inr (Version s)),
      gr_point = (\<lambda>_. Inl (err_of_string ''no point'')), gr_strum = ''no variant'',
      gr_camel_err = err_of_string\<rparr>"

abbreviation sample_config :: "(point, unit) bind_config" where
  "sample_config \<equiv>
     [\<lparr>sc_selector = \<lparr>ss_name = ''Route'', ss_path = ''.*'', ss_filters = []\<rparr>,
       sc_block = [\<lparr>sc_selector = \<lparr>ss_name = VPAny, ss_path = ''.*'', ss_filters = []\<rparr>,
         sc_block = [\<lparr>sc_selector = \<lparr>ss_name = VPAny, ss_path = ''.*'', ss_filters = []\<rparr>, sc_block = default_pipeline\<rparr>]\<rparr>]\<rparr>]"

lemma sample_fields:
  "gr_tag sample_grammar = (\<lambda>t i. if sp_text i = t then Inr (i, i) else Inl NomIncomplete)"
  "gr_texts sample_grammar = (\<lambda>i. Inr (i, [NoComment i]))"
  "gr_all_space sample_grammar = (\<lambda>i. Inl NomIncomplete)"
  "gr_scopes sample_grammar = (\<lambda>i. Inr (i, map (Pair ()) (sample_scopes (sp_text i))))"
  "gr_pipeline sample_grammar = (\<lambda>i. Inr (i, default_pipeline))"
  "gr_regex sample_grammar = (\<lambda>_. None)"
  "gr_version sample_grammar = (\<lambda>s. Inr (Version s))"
  "gr_root_scope sample_grammar i = Inr (i, scope_new
        \<lparr>rt_name = word_span ''Bind'', rt_version_span = word_span ''1.0.0'', rt_version = Version ''1.0.0''\<rparr>
        \<lparr>lb_kind = Nested Curly, lb_content = i\<rparr>)"
  by (simp_all add: sample_grammar_def)

lemma span_text [simp]: "sp_text (span_with_extra s e) = s"
  by (simp add: span_with_extra_def)

lemma sample_lex_scopes: "s \<noteq> [] \<Longrightarrow> lex_scopes sample_grammar (span_with_extra s e) = Some (Inr (sample_scopes s))"
  by (simp add: lex_scopes_def sample_fields comp_def)

lemma sample_scope_parts:
  "so_selector (sample_scope n c) = \<lparr>lx_name = word_span n, lx_filters = [], lx_children = None, lx_path = None\<rparr>"
  "so_block (sample_scope n c) = \<lparr>lb_kind = Nested Curly, lb_content = word_span c\<rparr>"
  by (simp_all add: sample_scope_def scope_new_def)

lemma sample_child_scopes:
  "c \<noteq> [] \<Longrightarrow> lex_child_scopes sample_grammar (sample_scope n c) =
     Some (Inr \<lparr>so_selector = so_selector (sample_scope n c), so_step = so_step (sample_scope n c), so_block = sample_scopes c\<rparr>)"
  by (simp add: lex_child_scopes_def sample_scope_parts sample_lex_scopes)

lemma sample_method_scope:
  "method_scope_from sample_grammar VPAny (sample_scope n c) =
     Some (Inr \<lparr>sc_selector = \<lparr>ss_name = VPAny, ss_path = ''.*'', ss_filters = []\<rparr>, sc_block = default_pipeline\<rparr>)"
  by (simp add: method_scope_from_def sample_scope_parts method_selector_def method_names_def default_path_def
      regex_new_def to_scope_filters_def sample_fields)

lemma sample_message_scope:
  "wave_scope_from sample_grammar \<lparr>so_selector = so_selector (sample_scope ''*'' ''G''), so_step = x, so_block = sample_scopes ''G''\<rparr> =
     Some (Inr (hd (sc_block (hd sample_config))))"
  by (simp add: wave_scope_from_def sample_scope_parts sample_scopes_def message_selector_def value_pattern_of_def
      result_opt_def default_path_def regex_new_def to_scope_filters_def sample_fields sample_method_scope)

lemma sample_route_scope:
  "semantic_bind_scope sample_grammar (sample_scope ''Route'' ''M'') = Some (Inr (hd sample_config))"
proof -
  have m: "message_scope_from sample_grammar (sample_scope ''*'' ''G'') = Some (Inr (hd (sc_block (hd sample_config))))"
    unfolding message_scope_from_def by (simp add: sample_child_scopes sample_message_scope)
  show ?thesis
    by (simp add: semantic_bind_scope_def sample_child_scopes sample_scope_parts(1) sample_scopes_def
        route_scope_from_def m route_selector_and_filters_def route_scope_selector_new_def regex_new_def
        to_scope_filters_def sample_fields)
qed

lemma sample_parses: "bind_config_of sample_grammar ''R'' = Some (Inr sample_config)"
proof -
  have "parse_bind_config sample_grammar (span_with_extra ''R'' e) = Some (Inr sample_config)" for e
    by (simp add: parse_bind_config_def sample_lex_scopes sample_route_scope) (simp add: sample_scopes_def sample_route_scope)
  then show ?thesis
    by (simp add: bind_config_of_def doc_def strip_comments_def lex_root_scope_of_def root_to_concrete_def
        version_to_string_def sample_fields new_span_def scope_new_def)
qed


abbreviation sample_ping :: "unit directed" where
  "sample_ping \<equiv> tv_payload (sample_core_bound (Http HttpGet))"

lemma sample_selects: "bind_select (\<lambda>_ _. True) (\<lambda>s. s) sample_config sample_ping =
    Inr \<lparr>sc_selector = \<lparr>ss_name = VPAny, ss_path = ''.*'', ss_filters = []\<rparr>, sc_block = default_pipeline\<rparr>"
  by (simp add: bind_select_def route_scope_is_match_def message_scope_is_match_def method_scope_is_match_def)

lemma selected_pipelines_are_written_witness:
  "\<exists>scopes route. document_scopes sample_grammar ''R'' = Some (Inr scopes) \<and> route \<in> set scopes \<and>
     sp_text (lx_name (so_selector route)) = ''Route''"
  using selected_pipelines_are_written[OF sample_parses sample_selects] by blast


lemma any_kind_ignores_method_names_witness:
  "\<exists>w. wave_scope_from sample_grammar \<lparr>so_selector = so_selector (sample_scope ''*'' ''G''), so_step = None,
       so_block = sample_scopes ''G''\<rparr> = Some (Inr w) \<and>
     select_method (\<lambda>_ _. True) (\<lambda>s. s) (tv_payload (sample_core_bound (Cmd CmdInit))) (sc_block w) =
       Some (hd (sc_block w))"
  using any_kind_ignores_method_names[OF sample_message_scope[of None], of "\<lambda>_ _. True" "\<lambda>s. s"
      "tv_payload (sample_core_bound (Cmd CmdInit))"] sample_message_scope[of None] by simp

end
