(* ===== verification/Mechtrons.thy ===== *)
theory Mechtrons
  imports Shells Binds
begin

text \<open>
  Mechtrons, the programs that run as WebAssembly: the blocking transmitter (\<open>wave/exchange/synch.rs\<close>),
  the guest (\<open>mechtron/src\<close>) with the buffers through which it talks to its host, the host
  (\<open>mechtron-host\<close>) and the drivers for hosts and mechtrons (\<open>driver/mechtron.rs\<close>).  Serialisation
  (bincode) and text encoding are the fields \<open>co_...\<close> of a codec.  What the imports of the guest do
  while it runs is part of its handler.
\<close>

section \<open>The blocking transmitter\<close>

definition sync_transmitter_new :: transmitter where
  "sync_transmitter_new =
     \<lparr>tr_agent = Fill AgentAnonymous, tr_scope = Fill ScopeNone, tr_handling = Fill handling_default,
      tr_method = StratNone, tr_from = StratNone, tr_to = StratNone, tr_via = StratNone\<rparr>"

text \<open>What the router is asked: to route a wave, or to exchange one, which it answers with \<open>exch\<close>.\<close>

datatype 'x sync_out = SyncRoute "'x ultrawave" | SyncExchange "'x directed"

type_synonym ('x, 'w) sync_call = "'x sync_out list \<times> (space_err + 'w)"

definition sync_direct ::
  "uuid \<Rightarrow> transmitter \<Rightarrow> ('x directed \<Rightarrow> space_err + 'x reflected_aggregate)
   \<Rightarrow> ('x reflected_aggregate \<Rightarrow> space_err + 'w) \<Rightarrow> 'x directed_proto \<Rightarrow> ('x, 'w) sync_call" where
  "sync_direct u tr exch from_agg p =
     (case dp_build u (prep_direct tr p) of
        Inl e \<Rightarrow> ([], Inl e)
      | Inr d \<Rightarrow>
          (case dw_bounce_backs d of
             BBNone \<Rightarrow> ([SyncRoute (dw_to_ultra d)], from_agg AggNone)
           | _ \<Rightarrow> ([SyncExchange d], res_bind (exch d) from_agg)))"

definition sync_ping ::
  "uuid \<Rightarrow> transmitter \<Rightarrow> ('x directed \<Rightarrow> space_err + 'x reflected_aggregate) \<Rightarrow> 'x directed_proto
   \<Rightarrow> ('x, 'x substance pong wave) sync_call" where
  "sync_ping u tr exch p =
     (let p = p\<lparr>dp_bounce_backs := Some BBSingle\<rparr>
      in if dp_kind p = Some DKPing then sync_direct u tr exch agg_to_pong p
         else ([], Inl (server_error ''expected DirectedKind::Ping'')))"

definition sync_ripple ::
  "uuid \<Rightarrow> transmitter \<Rightarrow> ('x directed \<Rightarrow> space_err + 'x reflected_aggregate) \<Rightarrow> 'x directed_proto
   \<Rightarrow> ('x, 'x substance echo wave list) sync_call" where
  "sync_ripple u tr exch p =
     (if dp_kind p = Some DKRipple then sync_direct u tr exch agg_to_echoes p
      else ([], Inl (server_error ''expected DirectedKind::Ping'')))"

definition sync_signal ::
  "uuid \<Rightarrow> transmitter \<Rightarrow> ('x directed \<Rightarrow> space_err + 'x reflected_aggregate) \<Rightarrow> 'x directed_proto
   \<Rightarrow> ('x, unit) sync_call" where
  "sync_signal u tr exch p =
     (if dp_kind p = Some DKSignal then sync_direct u tr exch agg_to_unit p
      else ([], Inl (server_error ''expected DirectedKind::Ping'')))"

definition sync_bounce_from ::
  "uuid \<Rightarrow> uuid \<Rightarrow> transmitter \<Rightarrow> ('x directed \<Rightarrow> space_err + 'x reflected_aggregate) \<Rightarrow> surface \<Rightarrow> surface
   \<Rightarrow> 'x sync_out list \<times> bool" where
  "sync_bounce_from u v tr exch to from =
     (case sync_ping u tr exch (dp_set_method (Cmd CmdBounce) (dp_set_to (Single to) (dp_set_from from (dp_ping v)))) of
        (out, r) \<Rightarrow> (out, case r of Inr pong \<Rightarrow> pong_is_ok (w_variant pong) | Inl _ \<Rightarrow> False))"

definition sync_bounce ::
  "uuid \<Rightarrow> uuid \<Rightarrow> transmitter \<Rightarrow> ('x directed \<Rightarrow> space_err + 'x reflected_aggregate) \<Rightarrow> surface
   \<Rightarrow> 'x sync_out list \<times> bool" where
  "sync_bounce u v tr exch to =
     (case sync_ping u tr exch (dp_set_method (Cmd CmdBounce) (dp_set_to (Single to) (dp_ping v))) of
        (out, r) \<Rightarrow> (out, case r of Inr pong \<Rightarrow> pong_is_ok (w_variant pong) | Inl _ \<Rightarrow> False))"

definition sync_reflect :: "uuid \<Rightarrow> transmitter \<Rightarrow> 'x reflected_proto \<Rightarrow> ('x, unit) sync_call" where
  "sync_reflect u tr p =
     (case rp_build u (prep_reflect tr p) of
        Inl e \<Rightarrow> ([], Inl e)
      | Inr r \<Rightarrow> ([SyncRoute (rw_to_ultra r)], Inr ()))"

definition sync_push_from :: "surface \<Rightarrow> transmitter \<Rightarrow> transmitter" where
  "sync_push_from f tr = tr\<lparr>tr_from := Override f\<rparr>"

section \<open>The memory of a guest\<close>

text \<open>\<open>membrane.rs\<close>: numbered buffers.  The counter is an \<open>AtomicI32\<close>, whose \<open>fetch_add\<close> wraps around.\<close>

type_synonym buffer_id = "32 word"

record membrane =
  mb_buffers :: "buffer_id \<rightharpoonup> bin"
  mb_index :: buffer_id

definition membrane_new :: membrane where
  "membrane_new = \<lparr>mb_buffers = Map.empty, mb_index = 0\<rparr>"

definition write_buffer :: "bin \<Rightarrow> membrane \<Rightarrow> buffer_id \<times> membrane" where
  "write_buffer bytes m =
     (mb_index m, \<lparr>mb_buffers = (mb_buffers m)(mb_index m \<mapsto> bytes), mb_index = mb_index m + 1\<rparr>)"

text \<open>\<open>mechtron_guest_alloc_buffer\<close>: the content of a new buffer is whatever \<open>junk\<close> the memory held; a
  negative length is a capacity that overflows.\<close>

definition alloc_buffer :: "(nat \<Rightarrow> 8 word) \<Rightarrow> 32 word \<Rightarrow> membrane \<Rightarrow> (buffer_id \<times> membrane) option" where
  "alloc_buffer junk len m =
     (if sint len < 0 then None else Some (write_buffer (map junk [0..<unat len]) m))"

definition dealloc_buffer :: "buffer_id \<Rightarrow> membrane \<Rightarrow> membrane" where
  "dealloc_buffer i m = m\<lparr>mb_buffers := (mb_buffers m)(i := None)\<rparr>"

text \<open>Reading and consuming; an unknown number panics.\<close>

definition read_buffer :: "buffer_id \<Rightarrow> membrane \<Rightarrow> bin option" where
  "read_buffer i m = mb_buffers m i"

definition consume_buffer :: "buffer_id \<Rightarrow> membrane \<Rightarrow> (bin \<times> membrane) option" where
  "consume_buffer i m = (case mb_buffers m i of None \<Rightarrow> None | Some b \<Rightarrow> Some (b, dealloc_buffer i m))"

definition get_buffer_len :: "buffer_id \<Rightarrow> membrane \<Rightarrow> 32 word option" where
  "get_buffer_len i m = map_option (\<lambda>b. word_of_nat (length b)) (mb_buffers m i)"

record 'x codec =
  co_utf8 :: "string \<Rightarrow> bin"
  co_from_utf8 :: "bin \<Rightarrow> string + string"
  co_ser :: "'x ultrawave \<Rightarrow> string + bin"
  co_de :: "bin \<Rightarrow> string + 'x ultrawave"
  co_ser_details :: "details \<Rightarrow> string + bin"
  co_de_details :: "bin \<Rightarrow> string + details"

definition read_string :: "'x codec \<Rightarrow> buffer_id \<Rightarrow> membrane \<Rightarrow> (string + string) option" where
  "read_string c i m = map_option (co_from_utf8 c) (read_buffer i m)"

definition consume_string :: "'x codec \<Rightarrow> buffer_id \<Rightarrow> membrane \<Rightarrow> ((string + string) \<times> membrane) option" where
  "consume_string c i m = map_option (\<lambda>(b, m). (co_from_utf8 c b, m)) (consume_buffer i m)"

definition write_string :: "'x codec \<Rightarrow> string \<Rightarrow> membrane \<Rightarrow> buffer_id \<times> membrane" where
  "write_string c s m = write_buffer (co_utf8 c s) m"

text \<open>The host writes into a buffer it had the guest allocate, byte by byte (\<open>None\<close>: the guest trapped, or
  the pointer did not cover the bytes).\<close>

fun set_bytes :: "nat \<Rightarrow> bin \<Rightarrow> bin \<Rightarrow> bin" where
  "set_bytes i [] buffer = buffer"
| "set_bytes i (b # bs) buffer = set_bytes (Suc i) bs (buffer[i := b])"

definition host_write_buffer :: "(nat \<Rightarrow> 8 word) \<Rightarrow> bin \<Rightarrow> membrane \<Rightarrow> (buffer_id \<times> membrane) option" where
  "host_write_buffer junk bytes m =
     (case alloc_buffer junk (word_of_nat (length bytes)) m of
        None \<Rightarrow> None
      | Some (i, m') \<Rightarrow>
          (case mb_buffers m' i of
             None \<Rightarrow> None
           | Some buffer \<Rightarrow>
               if length buffer < length bytes then None
               else Some (i, m'\<lparr>mb_buffers := (mb_buffers m')(i \<mapsto> set_bytes 0 bytes buffer)\<rparr>)))"

definition host_write_string :: "(nat \<Rightarrow> 8 word) \<Rightarrow> 'x codec \<Rightarrow> string \<Rightarrow> membrane \<Rightarrow> (buffer_id \<times> membrane) option" where
  "host_write_string junk c s m = host_write_buffer junk (co_utf8 c s) m"

text \<open>The host reads as many bytes as \<open>mechtron_guest_get_buffer_len\<close> says.\<close>

definition host_read_buffer :: "buffer_id \<Rightarrow> membrane \<Rightarrow> bin option" where
  "host_read_buffer i m =
     (case (mb_buffers m i, get_buffer_len i m) of
        (Some buffer, Some len) \<Rightarrow> if unat len \<le> length buffer then Some (take (unat len) buffer) else None
      | _ \<Rightarrow> None)"

definition host_consume_buffer :: "buffer_id \<Rightarrow> membrane \<Rightarrow> (bin \<times> membrane) option" where
  "host_consume_buffer i m = map_option (\<lambda>raw. (raw, dealloc_buffer i m)) (host_read_buffer i m)"

definition host_consume_string :: "'x codec \<Rightarrow> buffer_id \<Rightarrow> membrane \<Rightarrow> ((string + string) \<times> membrane) option" where
  "host_consume_string c i m =
     map_option (\<lambda>raw. case co_from_utf8 c raw of
         Inl e \<Rightarrow> (Inl e, m)
       | Inr s \<Rightarrow> (Inr s, dealloc_buffer i m)) (host_read_buffer i m)"


section \<open>The guest\<close>

text \<open>A handler may write buffers and talk to the host while it runs.  The calls of a factory answer the
  text of their error.\<close>

type_synonym 'x guest_handler = "'x root_ctx \<Rightarrow> membrane \<Rightarrow> ('x rcore bounce \<times> membrane) option"

record 'x mech_factory =
  mf_new :: "details \<Rightarrow> string + unit"
  mf_lifecycle :: "details \<Rightarrow> string + unit"
  mf_create :: "details \<Rightarrow> string + unit"
  mf_handler :: "details \<Rightarrow> string + 'x guest_handler"

text \<open>\<open>MechtronFactories::add\<close> expects a name in skewer case (\<open>skewer_ok\<close>).\<close>

definition factories_add ::
  "(string \<Rightarrow> bool) \<Rightarrow> string \<Rightarrow> 'x mech_factory \<Rightarrow> (string \<rightharpoonup> 'x mech_factory) \<Rightarrow> (string \<rightharpoonup> 'x mech_factory) option" where
  "factories_add skewer_ok name f fs = (if skewer_ok name then Some (fs(name \<mapsto> f)) else None)"

record hosted_mechtron =
  hm_details :: details
  hm_name :: string

record 'x guest =
  gu_details :: details
  gu_mechtrons :: "point \<rightharpoonup> hosted_mechtron"
  gu_factories :: "string \<rightharpoonup> 'x mech_factory"

definition details_point :: "details \<Rightarrow> point" where
  "details_point d = stub_point (det_stub d)"

definition guest_new :: "(string + (string \<rightharpoonup> 'x mech_factory)) \<Rightarrow> details \<Rightarrow> string + 'x guest" where
  "guest_new factories details =
     res_bind factories (\<lambda>fs. Inr \<lparr>gu_details = details, gu_mechtrons = Map.empty, gu_factories = fs\<rparr>)"

definition guest_transmitter :: "details \<Rightarrow> transmitter" where
  "guest_transmitter details =
     sync_transmitter_new\<lparr>tr_agent := Override (AgentPoint (details_point details)),
       tr_from := Override (to_surface (details_point details)),
       tr_to := Override (Single (to_surface \<lparr>route = RSGlobal, segments = [PSSpace ''logger'']\<rparr>))\<rparr>"

definition guest_hosted :: "'x guest \<Rightarrow> point \<Rightarrow> string + hosted_mechtron" where
  "guest_hosted g p =
     ok_or (gu_mechtrons g p)
       (''mechtron associated with point: '' @ point_to_string p @ '' is not hosted by guest '' @
        point_to_string (details_point (gu_details g)))"

text \<open>\<open>Guest::handler\<close>: the guest itself, or the mechtron, with the surface its shell answers from.\<close>

datatype 'x guest_target = GuestSelf surface | GuestMechtron surface "'x guest_handler"

definition guest_handler_of :: "'x guest \<Rightarrow> point \<Rightarrow> string + 'x guest_target" where
  "guest_handler_of g p =
     (if p = details_point (gu_details g) then Inr (GuestSelf (to_surface p))
      else res_bind (guest_hosted g p) (\<lambda>hosted.
             res_bind (ok_or (gu_factories g (hm_name hosted))
               (''cannot find factory associated with name: '' @ hm_name hosted)) (\<lambda>f.
             res_bind (mf_handler f (hm_details hosted)) (\<lambda>h.
               Inr (GuestMechtron (to_surface (details_point (hm_details hosted))) h)))))"

text \<open>\<open>GuestErr\<close> as a core, and the route \<open>Hyp<Host>\<close>: the mechtron is entered before its factory is
  asked, and stays when that fails.\<close>

definition guest_err_core :: "string \<Rightarrow> 'x rcore" where
  "guest_err_core m = ReflectedCore (\<lambda>_. None) (status 500) (SText m)"

definition guest_assign ::
  "('x \<Rightarrow> mechtron_config) \<Rightarrow> ('x, 'x substance) host_cmd \<Rightarrow> 'x guest \<Rightarrow> (string + unit) \<times> 'x guest" where
  "guest_assign conf h g =
     (let name = mc_name (conf (hc_config h)); details = hc_details h
      in case gu_factories g name of
           None \<Rightarrow> (Inl (''Guest does not have a mechtron with name: '' @ name), g)
         | Some f \<Rightarrow>
             (res_bind (mf_new f details) (\<lambda>_. res_bind (mf_lifecycle f details) (\<lambda>_. mf_create f details)),
              g\<lparr>gu_mechtrons := (gu_mechtrons g)(details_point details \<mapsto> \<lparr>hm_details = details, hm_name = name\<rparr>)\<rparr>))"

definition host_route :: route_selector where
  "host_route = \<lparr>rs_topic = None, rs_method = VPPattern (MPHyp (VPPattern HypHost)), rs_path = ''/.*'', rs_filters = []\<rparr>"

definition substance_to_hyper :: "'x substance \<Rightarrow> space_err + ('x, 'x substance) hyper_substance" where
  "substance_to_hyper s = (case s of SHyper h \<Rightarrow> Inr h | _ \<Rightarrow> Inl (err_of_string ''expected HyperSubstance''))"

definition guest_self_handle ::
  "uuid \<Rightarrow> (string \<Rightarrow> string) \<Rightarrow> ('x \<Rightarrow> mechtron_config) \<Rightarrow> 'x root_ctx \<Rightarrow> 'x guest \<Rightarrow> ('x rcore bounce \<times> 'x guest) option" where
  "guest_self_handle u path conf ctx g =
     (if is_ok (route_selector_is_match host_route (ctx_wave ctx)) then
        (case substance_to_hyper (dc_body (dw_core (ctx_wave ctx))) of
           Inr (HsHost h) \<Rightarrow>
             (case guest_assign conf h g of
                (Inr _, g') \<Rightarrow> Some (Reflected rcore_ok, g')
              | (Inl m, g') \<Rightarrow> Some (Reflected (guest_err_core m), g'))
         | Inr _ \<Rightarrow> Some (Reflected (guest_err_core ''expecting Host ''), g)
         | Inl err \<Rightarrow>
             (case ctx_wave ctx of
                DSignal _ \<Rightarrow> Some (Absorbed, g)
              | _ \<Rightarrow> Some (Reflected (rcore_of_err err), g)))
      else map_option (\<lambda>b. (b, g)) (handler_handle u path [] ctx))"

section \<open>The membrane\<close>

text \<open>The instance of a wasm module: its buffers and the global \<open>GUEST\<close>.\<close>

record 'x wasm =
  wa_membrane :: membrane
  wa_guest :: "'x guest option"

definition wasm_new :: "'x wasm" where
  "wasm_new = \<lparr>wa_membrane = membrane_new, wa_guest = None\<rparr>"

text \<open>\<open>mechtron_guest_init\<close>; \<open>mk\<close> is \<open>mechtron_guest\<close>, which the module defines.\<close>

definition guest_init ::
  "'x codec \<Rightarrow> string \<Rightarrow> (details \<Rightarrow> string + 'x guest) \<Rightarrow> buffer_id \<Rightarrow> buffer_id \<Rightarrow> 'x wasm
   \<Rightarrow> (32 word \<times> 'x wasm) option" where
  "guest_init c version mk v frame w =
     (case consume_string c v (wa_membrane w) of
        Some (Inr s, m) \<Rightarrow>
          if s \<noteq> version then Some (-1, w\<lparr>wa_membrane := m\<rparr>)
          else (case consume_buffer frame m of
             None \<Rightarrow> None
           | Some (bytes, m) \<Rightarrow>
               (case co_de_details c bytes of
                  Inl _ \<Rightarrow> None
                | Inr details \<Rightarrow>
                    if wa_guest w \<noteq> None then Some (-3, w\<lparr>wa_membrane := m\<rparr>)
                    else (case mk details of
                            Inr g \<Rightarrow> Some (0, \<lparr>wa_membrane = m, wa_guest = Some g\<rparr>)
                          | Inl _ \<Rightarrow> Some (-2, w\<lparr>wa_membrane := m\<rparr>))))
      | _ \<Rightarrow> None)"

text \<open>\<open>mechtron_frame_to_guest\<close>: 0 for a wave that is not answered, otherwise the buffer of the answer.\<close>

definition shell_answer :: "uuid \<Rightarrow> surface \<Rightarrow> 'x directed \<Rightarrow> 'x rcore bounce \<Rightarrow> 'x ultrawave option option" where
  "shell_answer u surf d b =
     (case b of
        Absorbed \<Rightarrow> Some None
      | Reflected core \<Rightarrow>
          (case dw_reflection d of
             Inr r \<Rightarrow> Some (Some (rw_to_ultra (reflection_make u r core surf)))
           | Inl _ \<Rightarrow> None))"

definition write_answer :: "'x codec \<Rightarrow> 'x ultrawave option \<Rightarrow> membrane \<Rightarrow> (buffer_id \<times> membrane) option" where
  "write_answer c a m =
     (case a of
        None \<Rightarrow> Some (0, m)
      | Some w \<Rightarrow> (case co_ser c w of Inr bytes \<Rightarrow> Some (write_buffer bytes m) | Inl _ \<Rightarrow> None))"

definition guest_directed ::
  "uuid \<Rightarrow> (string \<Rightarrow> string) \<Rightarrow> ('x \<Rightarrow> mechtron_config) \<Rightarrow> 'x codec \<Rightarrow> 'x directed \<Rightarrow> 'x guest \<Rightarrow> membrane
   \<Rightarrow> (buffer_id \<times> 'x wasm) option" where
  "guest_directed u path conf c d g m =
     (case unwrap_single (dw_to d) of
        None \<Rightarrow> None
      | Some to \<Rightarrow>
          (case guest_handler_of g (surf_point to) of
             Inl _ \<Rightarrow> None
           | Inr (GuestSelf surf) \<Rightarrow>
               (case guest_self_handle u path conf \<lparr>ctx_to = surf, ctx_wave = d\<rparr> g of
                  None \<Rightarrow> None
                | Some (b, g') \<Rightarrow>
                    (case shell_answer u surf d b of
                       None \<Rightarrow> None
                     | Some a \<Rightarrow>
                         map_option (\<lambda>(i, m). (i, \<lparr>wa_membrane = m, wa_guest = Some g'\<rparr>)) (write_answer c a m)))
           | Inr (GuestMechtron surf h) \<Rightarrow>
               (case h \<lparr>ctx_to = surf, ctx_wave = d\<rparr> m of
                  None \<Rightarrow> None
                | Some (b, m') \<Rightarrow>
                    (case shell_answer u surf d b of
                       None \<Rightarrow> None
                     | Some a \<Rightarrow>
                         map_option (\<lambda>(i, m). (i, \<lparr>wa_membrane = m, wa_guest = Some g\<rparr>)) (write_answer c a m')))))"

definition frame_to_guest ::
  "uuid \<Rightarrow> (string \<Rightarrow> string) \<Rightarrow> ('x \<Rightarrow> mechtron_config) \<Rightarrow> 'x codec \<Rightarrow> buffer_id \<Rightarrow> 'x wasm
   \<Rightarrow> (buffer_id \<times> 'x wasm) option" where
  "frame_to_guest u path conf c frame w =
     (case consume_buffer frame (wa_membrane w) of
        None \<Rightarrow> None
      | Some (bytes, m) \<Rightarrow>
          (case co_de c bytes of
             Inl _ \<Rightarrow> None
           | Inr wave \<Rightarrow>
               if uw_is_directed wave then
                 (case (uw_to_directed wave, wa_guest w) of
                    (Inr d, Some g) \<Rightarrow> guest_directed u path conf c d g m
                  | _ \<Rightarrow> None)
               else Some (0, w\<lparr>wa_membrane := m\<rparr>)))"

text \<open>\<open>mechtron_exchange_wave_host\<close>, the other direction: \<open>host\<close> is the import \<open>mechtron_frame_to_host\<close>.\<close>

definition exchange_wave_host ::
  "'x codec \<Rightarrow> (buffer_id \<Rightarrow> membrane \<Rightarrow> (buffer_id \<times> membrane) option) \<Rightarrow> 'x ultrawave \<Rightarrow> membrane
   \<Rightarrow> ((string + 'x reflected_aggregate) \<times> membrane) option" where
  "exchange_wave_host c host wave m =
     (case co_ser c wave of
        Inl e \<Rightarrow> Some (Inl e, m)
      | Inr bytes \<Rightarrow>
          (case write_buffer bytes m of
             (i, m) \<Rightarrow>
               (case host i m of
                  None \<Rightarrow> None
                | Some (r, m) \<Rightarrow>
                    if r = 0 then Some (Inr AggNone, m)
                    else (case consume_buffer r m of
                       None \<Rightarrow> None
                     | Some (bytes, m) \<Rightarrow>
                         (case co_de c bytes of
                            Inl e \<Rightarrow> Some (Inl e, m)
                          | Inr agg \<Rightarrow>
                              (case uw_to_reflected agg of
                                 Inr a \<Rightarrow> Some (Inr (AggSingle a), m)
                               | Inl _ \<Rightarrow> None))))))"

text \<open>\<open>GuestRouter\<close>, the router of the transmitters in the guest.\<close>

definition guest_router_exchange ::
  "'x codec \<Rightarrow> (buffer_id \<Rightarrow> membrane \<Rightarrow> (buffer_id \<times> membrane) option) \<Rightarrow> 'x directed \<Rightarrow> membrane
   \<Rightarrow> ((space_err + 'x reflected_aggregate) \<times> membrane) option" where
  "guest_router_exchange c host d m =
     map_option (\<lambda>(r, m). (map_sum server_error (\<lambda>a. a) r, m)) (exchange_wave_host c host (dw_to_ultra d) m)"

section \<open>The host\<close>

text \<open>What a host runs with: the content of new buffers, the codec, the state in which a trap leaves an
  instance, the text of the error of a trap and of a dropped channel, the version of the host, and the
  arguments of the calls of the guest.\<close>

record 'x host_world =
  hw_junk :: "nat \<Rightarrow> 8 word"
  hw_codec :: "'x codec"
  hw_trap :: "'x wasm \<Rightarrow> 'x wasm"
  hw_lost :: string
  hw_version :: string
  hw_uuid :: uuid
  hw_path :: "string \<Rightarrow> string"
  hw_config :: "'x \<Rightarrow> mechtron_config"

text \<open>A compiled module: what it exports, its version and its \<open>mechtron_guest\<close>.\<close>

record 'x wasm_module =
  wm_memory :: bool
  wm_alloc :: bool
  wm_ptr :: bool
  wm_len :: bool
  wm_dealloc :: bool
  wm_init :: bool
  wm_version :: string
  wm_guest :: "details \<Rightarrow> string + 'x guest"

type_synonym ('x, 'a) host_call = "'x wasm \<Rightarrow> (string + 'a) \<times> 'x wasm"

definition host_bind :: "('x, 'a) host_call \<Rightarrow> ('a \<Rightarrow> ('x, 'b) host_call) \<Rightarrow> ('x, 'b) host_call" where
  "host_bind c f w = (case c w of (Inl e, w) \<Rightarrow> (Inl e, w) | (Inr a, w) \<Rightarrow> f a w)"

definition host_lift :: "string + 'a \<Rightarrow> ('x, 'a) host_call" where
  "host_lift r w = (r, w)"

definition in_guest :: "'x host_world \<Rightarrow> ('x wasm \<Rightarrow> ('a \<times> 'x wasm) option) \<Rightarrow> ('x, 'a) host_call" where
  "in_guest hw call w = (case call w of None \<Rightarrow> (Inl (hw_lost hw), hw_trap hw w) | Some (a, w) \<Rightarrow> (Inr a, w))"

definition host_write :: "'x host_world \<Rightarrow> bin \<Rightarrow> ('x, buffer_id) host_call" where
  "host_write hw bytes = in_guest hw (\<lambda>w.
     map_option (\<lambda>(i, m). (i, w\<lparr>wa_membrane := m\<rparr>)) (host_write_buffer (hw_junk hw) bytes (wa_membrane w)))"

text \<open>\<open>WasmHost::init\<close>.  The buffer of the test string is never freed.\<close>

definition host_init :: "'x host_world \<Rightarrow> 'x wasm_module \<Rightarrow> details \<Rightarrow> ('x, unit) host_call" where
  "host_init hw md details =
     (if \<not> wm_memory md then host_lift (Inl ''init failed'')
      else if \<not> (wm_alloc md \<and> wm_ptr md) then host_lift (Inl (hw_lost hw))
      else
        host_bind (host_write hw (co_utf8 (hw_codec hw) ''Test write string'')) (\<lambda>_.
          if \<not> (wm_len md \<and> wm_dealloc md) then host_lift (Inl ''init failed'')
          else
            host_bind (host_write hw (co_utf8 (hw_codec hw) (hw_version hw))) (\<lambda>v.
            host_bind (host_lift (co_ser_details (hw_codec hw) details)) (\<lambda>bytes.
            host_bind (host_write hw bytes) (\<lambda>d.
              if \<not> wm_init md then host_lift (Inl (hw_lost hw))
              else
                host_bind (in_guest hw (guest_init (hw_codec hw) (wm_version md) (wm_guest md) v d)) (\<lambda>code.
                  if code = 0 then host_lift (Inr ())
                  else host_lift (Inl (''Mechtron init error '' @ int_to_string (sint code) @ '' ''))))))))"

definition serialize_wave_to_guest :: "'x host_world \<Rightarrow> 'x ultrawave \<Rightarrow> ('x, buffer_id) host_call" where
  "serialize_wave_to_guest hw wave =
     host_bind (host_lift (co_ser (hw_codec hw) wave)) (\<lambda>bytes. host_write hw bytes)"

definition call_guest :: "'x host_world \<Rightarrow> buffer_id \<Rightarrow> ('x, buffer_id) host_call" where
  "call_guest hw i = in_guest hw (frame_to_guest (hw_uuid hw) (hw_path hw) (hw_config hw) (hw_codec hw) i)"

definition host_wave_route :: "'x host_world \<Rightarrow> 'x ultrawave \<Rightarrow> ('x, buffer_id) host_call" where
  "host_wave_route hw wave = host_bind (serialize_wave_to_guest hw wave) (call_guest hw)"

text \<open>\<open>deserialize_wave_to_host\<close> reads the buffer and leaves it.  The outer option is the \<open>unwrap\<close> of the read.\<close>

definition deserialize_wave_to_host :: "'x host_world \<Rightarrow> buffer_id \<Rightarrow> 'x wasm \<Rightarrow> (string + 'x ultrawave) option" where
  "deserialize_wave_to_host hw i w = map_option (co_de (hw_codec hw)) (host_read_buffer i (wa_membrane w))"

text \<open>The call \<open>GuestConsumeWave\<close>: its result is negative as an \<open>i32\<close> when the guest has written more than
  2^31 buffers.\<close>

definition guest_consume_wave :: "'x host_world \<Rightarrow> buffer_id \<Rightarrow> ('x, 'x ultrawave option) host_call" where
  "guest_consume_wave hw i =
     host_bind (call_guest hw i) (\<lambda>frame w.
       if sint frame > 0 then
         (case deserialize_wave_to_host hw frame w of
            Some (Inr wave) \<Rightarrow> (Inr (Some wave), w)
          | _ \<Rightarrow> (Inl (hw_lost hw), w))
       else (Inr None, w))"

definition transmit_to_guest :: "'x host_world \<Rightarrow> 'x ultrawave \<Rightarrow> ('x, 'x ultrawave option) host_call" where
  "transmit_to_guest hw wave = host_bind (serialize_wave_to_guest hw wave) (guest_consume_wave hw)"

definition create_proto :: "uuid \<Rightarrow> details \<Rightarrow> ('x, 'x substance) host_cmd \<Rightarrow> 'x directed_proto" where
  "create_proto u details cmd =
     dp_set_body (SHyper (HsHost cmd))
       (dp_set_method (Hyp HypHost)
         (dp_set_from (with_layer (to_surface (details_point details)) Host)
           (dp_set_to (Single (with_layer (to_surface (details_point details)) Core)) (dp_ping u))))"

text \<open>What the guest answers is the number of a buffer, which nobody reads.\<close>

definition create_mechtron ::
  "'x host_world \<Rightarrow> details \<Rightarrow> ('x, 'x substance) host_cmd \<Rightarrow> ('x, unit) host_call" where
  "create_mechtron hw details cmd =
     host_bind (host_lift (map_sum err_to_string (\<lambda>d. d) (dp_build (hw_uuid hw) (create_proto (hw_uuid hw) details cmd))))
       (\<lambda>d. host_bind (host_wave_route hw (dw_to_ultra d)) (\<lambda>_. host_lift (Inr ())))"

section \<open>What guests ask of their host\<close>

definition global_logger :: point where
  "global_logger = \<lparr>route = RSGlobal, segments = [PSSpace ''logger'']\<rparr>"

datatype 'x host_out =
    HostLog 'x
  | HostPing "'x directed_proto"
  | HostSignal "'x directed_proto"
  | HostRoute "'x ultrawave"

text \<open>\<open>WasmHost::wave_to_host\<close>: \<open>ping\<close> is the transmitter of the host.  A failing ping and a ripple panic
  the task that should answer, and the caller sees the dropped channel.\<close>

definition logged_by :: "'x directed \<Rightarrow> 'x option" where
  "logged_by d =
     (case (dc_method (dw_core d), dc_body (dw_core d)) of
        (Cmd CmdLog, SLog log) \<Rightarrow>
          (case unwrap_single (dw_to d) of
             Some to \<Rightarrow> if surf_point to = global_logger then Some log else None
           | None \<Rightarrow> None)
      | _ \<Rightarrow> None)"

definition wave_to_host ::
  "'x host_world \<Rightarrow> ('x directed_proto \<Rightarrow> space_err + 'x substance pong wave) \<Rightarrow> 'x ultrawave
   \<Rightarrow> 'x host_out list \<times> (string + 'x ultrawave option)" where
  "wave_to_host hw ping wave =
     (case uw_to_directed wave of
        Inr d \<Rightarrow>
          (case logged_by d of
             Some log \<Rightarrow> ([HostLog log], Inr None)
           | None \<Rightarrow>
               (let proto = dp_of_directed (hw_uuid hw) d
                in case d of
                     DPing _ \<Rightarrow>
                       ([HostPing proto],
                        case ping proto of Inr pong \<Rightarrow> Inr (Some (Pong pong)) | Inl _ \<Rightarrow> Inl (hw_lost hw))
                   | DRipple _ \<Rightarrow> ([], Inl (hw_lost hw))
                   | DSignal _ \<Rightarrow> ([HostSignal proto], Inr None)))
      | Inl _ \<Rightarrow> ([HostRoute wave], Inr None))"

text \<open>The import \<open>mechtron_frame_to_host\<close>, with \<open>WasmHostApi::wave_to_host\<close>: every error is unwrapped.\<close>

definition host_import ::
  "'x host_world \<Rightarrow> ('x directed_proto \<Rightarrow> space_err + 'x substance pong wave) \<Rightarrow> buffer_id \<Rightarrow> membrane
   \<Rightarrow> (buffer_id \<times> membrane) option" where
  "host_import hw ping i m =
     (case host_consume_buffer i m of
        None \<Rightarrow> None
      | Some (bytes, m) \<Rightarrow>
          (case co_de (hw_codec hw) bytes of
             Inl _ \<Rightarrow> None
           | Inr wave \<Rightarrow>
               (case snd (wave_to_host hw ping wave) of
                  Inl _ \<Rightarrow> None
                | Inr None \<Rightarrow> Some (0, m)
                | Inr (Some answer) \<Rightarrow>
                    (case co_ser (hw_codec hw) answer of
                       Inl _ \<Rightarrow> None
                     | Inr bytes \<Rightarrow> host_write_buffer (hw_junk hw) bytes m))))"

section \<open>The hosts of a driver\<close>

text \<open>A host is known by the channel to its runner, here its number.\<close>

record 'x wasm_host =
  wh_details :: details
  wh_instance :: "'x wasm"

record 'x hosts =
  hs_hosts :: "'x wasm_host list"
  hs_via_wasm :: "point \<rightharpoonup> nat"
  hs_via_point :: "point \<rightharpoonup> nat"

definition hosts_new :: "'x hosts" where
  "hosts_new = \<lparr>hs_hosts = [], hs_via_wasm = Map.empty, hs_via_point = Map.empty\<rparr>"

definition get_via_wasm :: "point \<Rightarrow> 'x hosts \<Rightarrow> space_err + nat" where
  "get_via_wasm wasm hs =
     ok_or (hs_via_wasm hs wasm) (err_of_string (''could not get host via wasm: '' @ point_to_string wasm))"

definition get_via_point :: "point \<Rightarrow> 'x hosts \<Rightarrow> space_err + nat" where
  "get_via_point p hs =
     ok_or (hs_via_point hs p) (err_of_string (''could not get host via point: '' @ point_to_string p))"

text \<open>\<open>create_host\<close>: the host is entered before it is initialised, and how that went is not asked.  \<open>fetch\<close>
  reads an artifact, \<open>compile\<close> makes and instantiates the module.\<close>

definition create_host ::
  "'x host_world \<Rightarrow> (point \<Rightarrow> space_err + bin) \<Rightarrow> (bin \<Rightarrow> string + 'x wasm_module) \<Rightarrow> details \<Rightarrow> point \<Rightarrow> 'x hosts
   \<Rightarrow> (space_err + nat) \<times> 'x hosts" where
  "create_host hw fetch compile details wasm hs =
     (case fetch wasm of
        Inl e \<Rightarrow> (Inl e, hs)
      | Inr bin \<Rightarrow>
          (case compile bin of
             Inl e \<Rightarrow> (Inl (server_error e), hs)
           | Inr md \<Rightarrow>
               (let n = length (hs_hosts hs)
                in (Inr n,
                    \<lparr>hs_hosts = hs_hosts hs @ [\<lparr>wh_details = details,
                                 wh_instance = snd (host_init hw md details wasm_new)\<rparr>],
                     hs_via_wasm = (hs_via_wasm hs)(wasm \<mapsto> n),
                     hs_via_point = (hs_via_point hs)(details_point details \<mapsto> n)\<rparr>))))"

text \<open>A call to one of the hosts.\<close>

definition on_host :: "nat \<Rightarrow> (details \<Rightarrow> ('x, 'a) host_call) \<Rightarrow> 'x hosts \<Rightarrow> (string + 'a) \<times> 'x hosts" where
  "on_host n call hs =
     (let h = hs_hosts hs ! n
      in case call (wh_details h) (wh_instance h) of
           (r, w) \<Rightarrow> (r, hs\<lparr>hs_hosts := (hs_hosts hs)[n := h\<lparr>wh_instance := w\<rparr>]\<rparr>))"

section \<open>The drivers of hosts and mechtrons\<close>

record 'x mech_env =
  me_hosts :: "'x hosts"
  me_registry :: mem_reg

type_synonym ('x, 'a) mech_io = "('x mech_env, 'a) io"

definition on_hosts :: "('x hosts \<Rightarrow> (space_err + 'a) \<times> 'x hosts) \<Rightarrow> ('x, 'a) mech_io" where
  "on_hosts f e = (case f (me_hosts e) of (r, hs) \<Rightarrow> Some (space_res r, e\<lparr>me_hosts := hs\<rparr>))"

definition on_mech_registry :: "(mem_reg, 'a) io \<Rightarrow> ('x, 'a) mech_io" where
  "on_mech_registry m e = map_option (\<lambda>(r, s). (r, e\<lparr>me_registry := s\<rparr>)) (m (me_registry e))"

text \<open>The property of a particle that names an artifact.\<close>

definition point_property ::
  "(string \<Rightarrow> space_err + point) \<Rightarrow> string \<Rightarrow> cosmic_err \<Rightarrow> details \<Rightarrow> cosmic_err + point" where
  "point_property from_str key missing details =
     res_bind (ok_or (det_properties details key) missing) (\<lambda>p. space_res (from_str (prop_value p)))"

text \<open>The host particle that the driver has created for a module, below its \<open>hosts\<close>.\<close>

definition host_create :: "point \<Rightarrow> kind_template \<Rightarrow> point \<Rightarrow> 'x substance create" where
  "host_create hosts_base kind wasm =
     \<lparr>cr_parent = hosts_base, cr_segment = SegPattern ''host-%'', cr_kind = kind,
      cr_properties = set_properties_push set_properties_new (PropSet ''wasm'' (point_to_string wasm) False),
      cr_strategy = StrategyCommit, cr_state = StateNone\<rparr>"

text \<open>\<open>HostDriverHandler::host\<close>.  \<open>create\<close> pings the global executor with the creation; in the end that
  comes back as an assignment to this driver.  The result of \<open>create_mechtron\<close> is dropped.\<close>

definition host_driver_host ::
  "'x host_world \<Rightarrow> (string \<Rightarrow> space_err + point) \<Rightarrow> (point \<Rightarrow> space_err + mechtron_config)
   \<Rightarrow> ('x substance create \<Rightarrow> ('x, 'x substance pong) mech_io) \<Rightarrow> point \<Rightarrow> kind_template
   \<Rightarrow> ('x, 'x substance) hyper_substance \<Rightarrow> ('x, unit) mech_io" where
  "host_driver_host hw from_str mechtron create hosts_base kind input =
     (case input of
        HsHost cmd \<Rightarrow>
          io_bind (io_lift (point_property from_str ''config''
                     (cosmic_err_of_space (server_error ''expected config property'')) (hc_details cmd))) (\<lambda>at.
          io_bind (io_lift (space_res (mechtron at))) (\<lambda>config.
          io_bind (\<lambda>e. case get_via_wasm (mc_wasm config) (me_hosts e) of
                     Inr n \<Rightarrow> Some (Inr n, e)
                   | Inl _ \<Rightarrow>
                       io_bind (create (host_create hosts_base kind (mc_wasm config))) (\<lambda>pong.
                       io_bind (io_lift (space_res (pong_ok_or pong))) (\<lambda>_.
                         on_hosts (\<lambda>hs. (get_via_wasm (mc_wasm config) hs, hs)))) e) (\<lambda>n.
          io_bind (on_hosts (\<lambda>hs. case on_host n (\<lambda>d. create_mechtron hw d cmd) hs of (_, hs) \<Rightarrow> (Inr (), hs))) (\<lambda>_.
          io_bind (on_hosts (\<lambda>hs. (Inr (details_point (wh_details (hs_hosts hs ! n))), hs))) (\<lambda>p.
            on_mech_registry (mem_assign_host (details_point (hc_details cmd)) p))))))
      | _ \<Rightarrow> io_fail (cosmic_err_new ''expecting Host''))"

definition host_driver_assign ::
  "'x host_world \<Rightarrow> (string \<Rightarrow> space_err + point) \<Rightarrow> (point \<Rightarrow> space_err + bin) \<Rightarrow> (bin \<Rightarrow> string + 'x wasm_module)
   \<Rightarrow> ('x, 'x substance) hyper_substance \<Rightarrow> ('x, unit) mech_io" where
  "host_driver_assign hw from_str fetch compile input =
     (case input of
        HsAssign a \<Rightarrow>
          io_bind (io_lift (point_property from_str ''wasm''
                     (cosmic_err_new ''wasm property must be set for a Mechtron Host'') (asg_details a))) (\<lambda>wasm.
          io_bind (on_hosts (create_host hw fetch compile (asg_details a) wasm)) (\<lambda>_. io_return ()))
      | _ \<Rightarrow> io_fail (cosmic_err_new ''expected HyperSubstance<Assign>''))"

text \<open>\<open>HostItem::transport\<close>: the wave to route back, if any (\<open>None\<close>: the wave is no transport).\<close>

definition host_item_transport ::
  "'x host_world \<Rightarrow> 'x ultrawave \<Rightarrow> 'x wasm \<Rightarrow> ('x ultrawave list \<times> 'x wasm) option" where
  "host_item_transport hw wave w =
     (case uw_unwrap_from_transport wave of
        Inl _ \<Rightarrow> None
      | Inr inner \<Rightarrow>
          (case transmit_to_guest hw inner w of
             (Inr (Some answer), w) \<Rightarrow> Some (if uw_is_reflected answer then [answer] else [], w)
           | (_, w) \<Rightarrow> Some ([], w)))"

text \<open>The driver of hosts reads its item from the hosts by point.\<close>

definition host_driver_item :: "point \<Rightarrow> 'x hosts \<Rightarrow> space_err + nat" where
  "host_driver_item p hs = get_via_point p hs"

text \<open>\<open>MechtronDriverHandler::assign\<close>: the ping to the driver of hosts on the same star.\<close>

definition mechtron_assign_proto ::
  "uuid \<Rightarrow> (string \<Rightarrow> space_err + point) \<Rightarrow> (point \<Rightarrow> space_err + 'x) \<Rightarrow> (space_err + point option)
   \<Rightarrow> ('x, 'x substance) hyper_substance \<Rightarrow> cosmic_err + 'x directed_proto" where
  "mechtron_assign_proto u from_str mechtron lookup input =
     (case input of
        HsAssign a \<Rightarrow>
          res_bind (point_property from_str ''config''
                      (cosmic_err_new ''config property must be set for a Mechtron'') (asg_details a)) (\<lambda>at.
          res_bind (space_res (mechtron at)) (\<lambda>config.
          res_bind (space_res lookup) (\<lambda>host.
          res_bind (ok_or host (cosmic_err_new (''missing Host Driver which must be on the same Star as the '' @
                      ''Mechtron Driver in order for it to work''))) (\<lambda>host.
            Inr (dp_set_body (SHyper (HsHost (assign_to_host_cmd a config)))
                  (dp_set_to (Single (with_layer (to_surface host) Core)) (dp_set_method (Hyp HypHost) (dp_ping u))))))))
      | _ \<Rightarrow> Inl (cosmic_err_new ''MechtronDriverHandler expecting Assign''))"

definition mechtron_assigned :: "space_err + 'x substance pong wave \<Rightarrow> cosmic_err + unit" where
  "mechtron_assigned answer = res_bind (space_res (res_bind answer (\<lambda>pong. pong_ok_or (w_variant pong)))) (\<lambda>_. Inr ())"

text \<open>\<open>Mechtron::traverse\<close>: what reaches a mechtron goes to its host as a transport.\<close>

definition mechtron_traverse ::
  "uuid \<Rightarrow> point \<Rightarrow> cosmic_err + particle_record \<Rightarrow> 'x ultrawave \<Rightarrow> space_err + 'x directed_proto" where
  "mechtron_traverse u p record wave =
     res_bind (case record of Inr r \<Rightarrow> Inr r | Inl e \<Rightarrow> Inl (server_error (ce_message e))) (\<lambda>r.
     res_bind (ok_or (loc_host (rec_location r)) (err_of_string ''expected Mechtron to have an assigned Host'')) (\<lambda>host.
       Inr (wrap_in_transport u wave (with_layer (to_surface p) Core) (with_layer (to_surface host) Core))))"

section \<open>Facts: blocking and waiting callers\<close>

text \<open>The two transmitters agree: \<open>direct\<close> of the blocking one asks its router to exchange the very wave
  for which the waiting one asks the exchanger, or to route it when nothing is to come back, and makes of
  what is delivered the same answer; only an error of the exchange itself is known to the blocking one.\<close>

theorem blocking_calls_agree_with_waiting_ones:
  "sync_direct u tr exch from_agg p =
     (case direct_start u tr p of
        Inl e \<Rightarrow> ([], Inl e)
      | Inr (d, waits) \<Rightarrow>
          ([if waits then SyncExchange d else SyncRoute (dw_to_ultra d)],
           case exch d of
             Inr agg \<Rightarrow> direct_finish recv_err from_agg waits (Some agg)
           | Inl e \<Rightarrow> if waits then Inl e else direct_finish recv_err from_agg waits None))"
  by (auto simp: sync_direct_def direct_start_def direct_finish_def split: sum.split bounce_backs.split)

section \<open>Facts: buffers\<close>

text \<open>What guest and host rely on: a store of numbered buffers.  \<open>fits\<close> are the contents it takes.\<close>

locale buffer_store =
  fixes put :: "bin \<Rightarrow> 'm \<Rightarrow> ('i \<times> 'm) option"
    and look :: "'i \<Rightarrow> 'm \<Rightarrow> bin option"
    and drop_it :: "'i \<Rightarrow> 'm \<Rightarrow> 'm"
    and fits :: "bin \<Rightarrow> bool"
  assumes put_total: "fits b \<Longrightarrow> \<exists>i m'. put b m = Some (i, m')"
    and look_put: "fits b \<Longrightarrow> put b m = Some (i, m') \<Longrightarrow> look j m' = (if j = i then Some b else look j m)"
    and look_drop: "look j (drop_it i m) = (if j = i then None else look j m)"
begin

lemma passed_on: "fits b \<Longrightarrow> \<exists>i m'. put b m = Some (i, m') \<and> look i m' = Some b"
  using put_total[of b m] by (auto simp: look_put)

lemma consumed_leaves_no_trace:
  assumes "fits b" "put b m = Some (i, m')" "look i m = None"
  shows "look j (drop_it i m') = look j m"
  using assms by (simp add: look_drop look_put)

end

lemma set_bytes_eq:
  "i + length bs \<le> length buffer \<Longrightarrow> set_bytes i bs buffer = take i buffer @ bs @ drop (i + length bs) buffer"
proof (induction bs arbitrary: i buffer)
  case (Cons b bs)
  then show ?case
    by (simp add: take_Suc_conv_app_nth take_update_swap drop_update_cancel list_update_append)
qed simp

lemma sint_neg_iff: "sint (w :: 32 word) < 0 \<longleftrightarrow> 2 ^ 31 \<le> unat w"
proof -
  have l: "uint w < 2 ^ 32" using uint_lt2p[of w] by simp
  have "sint w < 0 \<longleftrightarrow> bit (uint w) 31"
    using bit_last_iff[of w] by (simp add: bit_unsigned_iff bit_uint_iff)
  also have "\<dots> \<longleftrightarrow> odd (uint w div 2 ^ 31)" by (simp add: bit_iff_odd)
  also have "\<dots> \<longleftrightarrow> 2 ^ 31 \<le> uint w"
  proof
    assume "odd (uint w div 2 ^ 31)"
    then show "2 ^ 31 \<le> uint w" by (metis div_pos_pos_trivial even_zero not_le uint_ge_0)
  next
    assume "2 ^ 31 \<le> uint w"
    then have "uint w div 2 ^ 31 = 1" using l by (intro int_div_pos_eq[where r = "uint w - 2 ^ 31"]) auto
    then show "odd (uint w div 2 ^ 31)" by simp
  qed
  finally show ?thesis by (simp add: le_nat_iff flip: nat_uint_eq)
qed

lemma host_write_eq:
  assumes "length bytes < 2 ^ 31"
  shows "host_write_buffer junk bytes m = Some (write_buffer bytes m)"
proof -
  have u: "unat (word_of_nat (length bytes) :: 32 word) = length bytes"
    using assms by (simp add: unat_of_nat)
  have "\<not> sint (word_of_nat (length bytes) :: 32 word) < 0"
    using assms u by (simp add: sint_neg_iff)
  then show ?thesis
    by (simp add: host_write_buffer_def alloc_buffer_def write_buffer_def u set_bytes_eq)
qed

interpretation guest_buffers: buffer_store "\<lambda>b m. Some (write_buffer b m)" read_buffer dealloc_buffer "\<lambda>_. True"
  by unfold_locales (auto simp: write_buffer_def read_buffer_def dealloc_buffer_def)

lemma host_read_short:
  "mb_buffers m i = Some b \<Longrightarrow> length b < 2 ^ 32 \<Longrightarrow> host_read_buffer i m = Some b"
  by (simp add: host_read_buffer_def get_buffer_len_def unat_of_nat)

interpretation host_buffers: buffer_store "host_write_buffer junk" host_read_buffer dealloc_buffer "\<lambda>b. length b < 2 ^ 31"
proof
  fix b :: bin and m :: membrane and i j :: buffer_id and m' :: membrane
  show "length b < 2 ^ 31 \<Longrightarrow> \<exists>i m'. host_write_buffer junk b m = Some (i, m')"
    by (simp add: host_write_eq write_buffer_def)
  show "host_read_buffer j m' = (if j = i then Some b else host_read_buffer j m)"
    if "length b < 2 ^ 31" "host_write_buffer junk b m = Some (i, m')"
    using that
    by (cases "j = mb_index m")
      (auto simp: host_write_eq write_buffer_def host_read_buffer_def get_buffer_len_def unat_of_nat cong: option.case_cong)
  show "host_read_buffer j (dealloc_buffer i m) = (if j = i then None else host_read_buffer j m)"
    by (simp add: host_read_buffer_def get_buffer_len_def dealloc_buffer_def)
qed

text \<open>The buffers of a membrane after \<open>n\<close> of them were written, by guest or host.\<close>

inductive mb_run :: "nat \<Rightarrow> membrane \<Rightarrow> bool" where
  run_new: "mb_run 0 membrane_new"
| run_write: "mb_run n m \<Longrightarrow> write_buffer b m = (i, m') \<Longrightarrow> mb_run (Suc n) m'"
| run_host: "mb_run n m \<Longrightarrow> host_write_buffer junk b m = Some (i, m') \<Longrightarrow> mb_run (Suc n) m'"
| run_dealloc: "mb_run n m \<Longrightarrow> mb_run n (dealloc_buffer i m)"

lemma host_write_index:
  "host_write_buffer junk b m = Some (i, m') \<Longrightarrow>
     i = mb_index m \<and> mb_index m' = mb_index m + 1 \<and> (\<forall>j. j \<noteq> i \<longrightarrow> mb_buffers m' j = mb_buffers m j)"
  by (auto simp: host_write_buffer_def alloc_buffer_def write_buffer_def split: option.splits if_splits)

lemma next_index: "n < 2 ^ 32 \<Longrightarrow> unat (word_of_nat n :: 32 word) = n"
  by (simp add: unat_of_nat)

lemma mb_run_fresh:
  "mb_run n m \<Longrightarrow> n < 2 ^ 32 \<Longrightarrow> mb_index m = word_of_nat n \<and> (\<forall>i. n \<le> unat i \<longrightarrow> mb_buffers m i = None)"
proof (induction rule: mb_run.induct)
  case (run_write n m b i m')
  then show ?case by (auto simp: write_buffer_def next_index)
next
  case (run_host n m junk b i m')
  then have old: "mb_index m = word_of_nat n" "\<And>j. n \<le> unat j \<Longrightarrow> mb_buffers m j = None" by simp_all
  have made: "i = mb_index m" "mb_index m' = mb_index m + 1" "\<And>j. j \<noteq> i \<Longrightarrow> mb_buffers m' j = mb_buffers m j"
    using host_write_index[OF run_host.hyps(2)] by simp_all
  have "unat i = n" using made(1) old(1) run_host.prems by (simp add: next_index)
  then have "j \<noteq> i" if "Suc n \<le> unat j" for j using that by auto
  then show ?case using old made by simp
qed (auto simp: membrane_new_def dealloc_buffer_def)

text \<open>C10. Buffers are never written over before the counter wraps around: as long as fewer than 2^32
  buffers were written, the next one gets a number that is free, the numbers of the host's calls are those
  of the guest's, and the answer of a guest has a number the host takes for an answer exactly when between
  1 and 2^31 - 1 buffers were written before it.\<close>

theorem buffers_are_fresh:
  assumes "mb_run n m" "n < 2 ^ 32" "write_buffer b m = (i, m')"
  shows "mb_buffers m i = None \<and> read_buffer i m' = Some b \<and>
    (\<forall>j. j \<noteq> i \<longrightarrow> read_buffer j m' = read_buffer j m) \<and> (sint i > 0 \<longleftrightarrow> 0 < n \<and> n < 2 ^ 31)"
proof -
  note f = mb_run_fresh[OF assms(1,2)]
  have i: "i = word_of_nat n" using assms(3) f by (auto simp: write_buffer_def)
  have u: "unat i = n" using i assms(2) by (simp add: next_index)
  have "sint i > 0 \<longleftrightarrow> \<not> sint i < 0 \<and> sint i \<noteq> 0" by auto
  also have "\<dots> \<longleftrightarrow> n < 2 ^ 31 \<and> 0 < n"
    using u by (auto simp: sint_neg_iff signed_eq_0_iff unat_gt_0)
  finally show ?thesis
    using assms(3) f u by (auto simp: write_buffer_def read_buffer_def)
qed

lemma buffers_are_fresh_witness:
  "\<exists>i m'. write_buffer [7] (snd (write_buffer [5] membrane_new)) = (i, m') \<and> read_buffer i m' = Some [7] \<and> sint i > 0"
proof -
  obtain i0 m0 where m0: "write_buffer [5] membrane_new = (i0, m0)" by (cases "write_buffer [5] membrane_new")
  obtain i m' where w: "write_buffer [7] m0 = (i, m')" by (cases "write_buffer [7] m0")
  have "mb_run 1 m0" using run_write[OF run_new m0] by simp
  from buffers_are_fresh[OF this _ w] have "read_buffer i m' = Some [7] \<and> sint i > 0" by simp
  then show ?thesis using m0 w by auto
qed

section \<open>Facts: waves across the membrane\<close>

lemma host_consume_short:
  "mb_buffers m i = Some b \<Longrightarrow> length b < 2 ^ 32 \<Longrightarrow> host_consume_buffer i m = Some (b, dealloc_buffer i m)"
  by (simp add: host_consume_buffer_def host_read_short)

lemmas membrane_simps = write_buffer_def dealloc_buffer_def consume_buffer_def

text \<open>C11. A ping of a mechtron goes through its host and back: the host's transmitter gets the ping, its
  pong is what the call in the guest returns, and neither the request nor the answer stays in memory.\<close>

theorem guest_pings_through_the_host:
  assumes "\<And>w bytes. co_ser (hw_codec hw) w = Inr bytes \<Longrightarrow> co_de (hw_codec hw) bytes = Inr w"
    and "co_ser (hw_codec hw) (Ping p) = Inr req" "length req < 2 ^ 31"
    and "logged_by (DPing p) = None"
    and "ping (dp_of_directed (hw_uuid hw) (DPing p)) = Inr pong"
    and "co_ser (hw_codec hw) (Pong pong) = Inr ans" "length ans < 2 ^ 31"
    and "mb_run n m" "n + 1 < 2 ^ 32"
  shows "guest_router_exchange (hw_codec hw) (host_import hw ping) (DPing p) m =
           Some (Inr (AggSingle (RPong pong)), m\<lparr>mb_index := mb_index m + 2\<rparr>) \<and>
         fst (wave_to_host hw ping (Ping p)) = [HostPing (dp_of_directed (hw_uuid hw) (DPing p))]"
proof -
  have at: "unat (mb_index m) = n" "unat (mb_index m + 1) = n + 1"
    using mb_run_fresh[OF assms(8)] assms(9) next_index[of n] next_index[of "Suc n"] by (simp_all add: add.commute)
  then have free: "mb_buffers m (mb_index m) = None" "mb_buffers m (mb_index m + 1) = None" "mb_index m + 1 \<noteq> 0"
    using mb_run_fresh[OF assms(8)] assms(9) by auto
  let ?m = "m\<lparr>mb_index := mb_index m + 1\<rparr>"
  have read: "host_consume_buffer (mb_index m) (snd (write_buffer req m)) = Some (req, ?m)"
    using assms(3) free(1) by (simp add: host_consume_short membrane_simps fun_upd_idem)
  have host: "wave_to_host hw ping (Ping p) =
      ([HostPing (dp_of_directed (hw_uuid hw) (DPing p))], Inr (Some (Pong pong)))"
    using assms(4,5) by (simp add: wave_to_host_def)
  have "host_import hw ping (mb_index m) (snd (write_buffer req m)) = Some (write_buffer ans ?m)"
    using read assms(1)[OF assms(2)] host assms(6,7) by (simp add: host_import_def host_write_eq)
  then show ?thesis
    using assms(1)[OF assms(6)] assms(2) free host
    by (simp add: guest_router_exchange_def exchange_wave_host_def membrane_simps fun_upd_idem)
qed

text \<open>C14. What a mechtron answers to a ping that its host hands it: the host returns the answer when it is one
  of the first 2^31 - 1 buffers after the first, and nothing after that, as if the wave had not been
  answered; in either case the serialised answer stays in the memory of the guest.\<close>

theorem guest_answers_stay_behind:
  assumes codec: "\<And>w bytes. co_ser (hw_codec hw) w = Inr bytes \<Longrightarrow> co_de (hw_codec hw) bytes = Inr w"
    and req: "co_ser (hw_codec hw) (Ping p) = Inr req" "length req < 2 ^ 31"
    and guest: "wa_guest w = Some g"
      "guest_handler_of g (surf_point (ping_to (w_variant p))) = Inr (GuestMechtron surf h)"
      "\<And>m. h \<lparr>ctx_to = surf, ctx_wave = DPing p\<rparr> m = Some (Reflected core, m)"
    and answer: "dw_reflection (DPing p) = Inr r" "answer = rw_to_ultra (reflection_make (hw_uuid hw) r core surf)"
      "co_ser (hw_codec hw) answer = Inr ans" "length ans < 2 ^ 31"
    and run: "mb_run n (wa_membrane w)" "n + 1 < 2 ^ 32"
  shows "transmit_to_guest hw (Ping p) w =
    (Inr (if n + 1 < 2 ^ 31 then Some answer else None),
     w\<lparr>wa_membrane := \<lparr>mb_buffers = (mb_buffers (wa_membrane w))(word_of_nat (n + 1) \<mapsto> ans),
                        mb_index = word_of_nat (n + 2)\<rparr>\<rparr>)"
proof -
  let ?m = "wa_membrane w"
  have old: "mb_index ?m = word_of_nat n" "mb_buffers ?m (mb_index ?m) = None"
    using mb_run_fresh[OF run(1)] run(2) by (auto simp: next_index)
  let ?i = "word_of_nat (n + 1) :: 32 word"
  have u: "unat ?i = n + 1" using run(2) by (rule next_index)
  have i: "0 < sint ?i \<longleftrightarrow> n + 1 < 2 ^ 31"
  proof -
    have "sint ?i \<noteq> 0" using u by (metis signed_eq_0_iff add_is_0 one_neq_zero unat_0)
    moreover have "sint ?i < 0 \<longleftrightarrow> \<not> n + 1 < 2 ^ 31" using u by (simp only: sint_neg_iff not_less)
    ultimately show ?thesis by linarith
  qed
  let ?w = "w\<lparr>wa_membrane := \<lparr>mb_buffers = (mb_buffers ?m)(?i \<mapsto> ans), mb_index = word_of_nat (n + 2)\<rparr>\<rparr>"
  have written: "serialize_wave_to_guest hw (Ping p) w = (Inr (mb_index ?m), w\<lparr>wa_membrane := snd (write_buffer req ?m)\<rparr>)"
    using req by (simp add: serialize_wave_to_guest_def host_bind_def host_lift_def host_write_def in_guest_def
        host_write_eq write_buffer_def)
  have consumed: "consume_buffer (mb_index ?m) (snd (write_buffer req ?m)) = Some (req, ?m\<lparr>mb_index := ?i\<rparr>)"
    using old by (simp add: membrane_simps fun_upd_idem add.commute)
  have "guest_directed (hw_uuid hw) (hw_path hw) (hw_config hw) (hw_codec hw) (DPing p) g (?m\<lparr>mb_index := ?i\<rparr>) =
      Some (?i, ?w)"
    using guest answer
    by (cases w) (simp add: guest_directed_def shell_answer_def write_answer_def write_buffer_def unwrap_single_def add.commute)
  then have called: "call_guest hw (mb_index ?m) (w\<lparr>wa_membrane := snd (write_buffer req ?m)\<rparr>) = (Inr ?i, ?w)"
    using consumed codec[OF req(1)] guest(1) by (simp add: call_guest_def in_guest_def frame_to_guest_def)
  have "deserialize_wave_to_host hw ?i ?w = Some (Inr answer)"
    using answer(4) codec[OF answer(3)] by (simp add: deserialize_wave_to_host_def host_read_short)
  then show ?thesis
    using written called i by (simp add: transmit_to_guest_def guest_consume_wave_def host_bind_def)
qed

section \<open>Facts: hosting\<close>

text \<open>C23. Once a host for its module is known, the hosting of a mechtron is reported as done, whatever the
  host and its guest make of it: the record of the mechtron names the host, also when the guest trapped,
  does not know the mechtron or failed to create it.\<close>

theorem hosting_is_always_reported:
  assumes "det_properties (hc_details cmd) ''config'' = Some prop" "from_str (prop_value prop) = Inr at"
    and "mechtron at = Inr config" "get_via_wasm (mc_wasm config) (me_hosts e) = Inr n"
    and "n < length (hs_hosts (me_hosts e))"
    and "mem_particles (me_registry e) (details_point (hc_details cmd)) = Some rec"
  shows "host_driver_host hw from_str mechtron create hosts_base kind (HsHost cmd) e =
    Some (Inr (),
      \<lparr>me_hosts = snd (on_host n (\<lambda>d. create_mechtron hw d cmd) (me_hosts e)),
       me_registry = (me_registry e)\<lparr>mem_particles := (mem_particles (me_registry e))
         (details_point (hc_details cmd) \<mapsto> rec\<lparr>rec_location := (rec_location rec)
            \<lparr>loc_host := Some (details_point (wh_details (hs_hosts (me_hosts e) ! n)))\<rparr>\<rparr>)\<rparr>\<rparr>)"
proof -
  obtain x hs where run: "on_host n (\<lambda>d. create_mechtron hw d cmd) (me_hosts e) = (x, hs)"
    by fastforce
  then have "wh_details (hs_hosts hs ! n) = wh_details (hs_hosts (me_hosts e) ! n)"
    using assms(5) by (auto simp: on_host_def Let_def split: prod.splits)
  then show ?thesis
    using assms run
    by (simp add: host_driver_host_def point_property_def ok_or_def space_res_def io_bind_def
        on_hosts_def on_mech_registry_def mem_assign_host_def)
qed

text \<open>A mechtron is hosted before its factory has made it: when \<open>new\<close>, the lifecycle or \<open>create\<close> fails,
  waves for it still reach the handler of its factory.\<close>

theorem failed_mechtrons_are_hosted:
  assumes "gu_factories g (mc_name (conf (hc_config h))) = Some f"
    and "details_point (hc_details h) \<noteq> details_point (gu_details g)"
    and "guest_assign conf h g = (r, g')"
  shows "guest_handler_of g' (details_point (hc_details h)) =
           res_bind (mf_handler f (hc_details h)) (\<lambda>k. Inr (GuestMechtron (to_surface (details_point (hc_details h))) k)) \<and>
         (is_ok r \<longleftrightarrow> is_ok (mf_new f (hc_details h)) \<and> is_ok (mf_lifecycle f (hc_details h)) \<and> is_ok (mf_create f (hc_details h))) \<and>
         (\<forall>p. p \<noteq> details_point (hc_details h) \<longrightarrow> guest_handler_of g' p = guest_handler_of g p)"
proof (intro conjI)
  let ?p = "details_point (hc_details h)"
  have g': "g' = g\<lparr>gu_mechtrons := (gu_mechtrons g)(?p \<mapsto> \<lparr>hm_details = hc_details h, hm_name = mc_name (conf (hc_config h))\<rparr>)\<rparr>"
    and r: "r = res_bind (mf_new f (hc_details h)) (\<lambda>_. res_bind (mf_lifecycle f (hc_details h)) (\<lambda>_. mf_create f (hc_details h)))"
    using assms(1,3) by (simp_all add: guest_assign_def Let_def)
  show "guest_handler_of g' ?p = res_bind (mf_handler f (hc_details h)) (\<lambda>k. Inr (GuestMechtron (to_surface ?p) k))"
    using assms(1,2) by (simp add: g' guest_handler_of_def guest_hosted_def ok_or_def)
  show "is_ok r \<longleftrightarrow> is_ok (mf_new f (hc_details h)) \<and> is_ok (mf_lifecycle f (hc_details h)) \<and> is_ok (mf_create f (hc_details h))"
    unfolding r by (cases "mf_new f (hc_details h)"; cases "mf_lifecycle f (hc_details h)") simp_all
  show "\<forall>p. p \<noteq> ?p \<longrightarrow> guest_handler_of g' p = guest_handler_of g p"
    by (simp add: g' guest_handler_of_def guest_hosted_def)
qed

section \<open>Examples\<close>

definition sample_codec :: "'x ultrawave \<Rightarrow> 'x ultrawave \<Rightarrow> 'x codec" where
  "sample_codec a b =
     \<lparr>co_utf8 = (\<lambda>_. []), co_from_utf8 = (\<lambda>_. Inr ''''),
      co_ser = (\<lambda>w. if w = a then Inr [1] else if w = b then Inr [2] else Inl ''''),
      co_de = (\<lambda>bytes. if bytes = [1] then Inr a else Inr b),
      co_ser_details = (\<lambda>_. Inr []), co_de_details = (\<lambda>_. Inl '''')\<rparr>"

definition sample_world :: "unit ultrawave \<Rightarrow> unit ultrawave \<Rightarrow> unit host_world" where
  "sample_world a b =
     \<lparr>hw_junk = (\<lambda>_. 0), hw_codec = sample_codec a b, hw_trap = (\<lambda>w. w), hw_lost = '''', hw_version = '''',
      hw_uuid = Uuid ''h'', hw_path = (\<lambda>s. s), hw_config = (\<lambda>_. \<lparr>mc_wasm = root_point, mc_name = ''m''\<rparr>)\<rparr>"

lemma sample_world_codec:
  "co_ser (hw_codec (sample_world a b)) w = Inr bytes \<Longrightarrow> co_de (hw_codec (sample_world a b)) bytes = Inr w"
  by (auto simp: sample_world_def sample_codec_def split: if_splits)

lemma sample_world_ser:
  "co_ser (hw_codec (sample_world a b)) a = Inr [1]" "b \<noteq> a \<Longrightarrow> co_ser (hw_codec (sample_world a b)) b = Inr [2]"
  by (auto simp: sample_world_def sample_codec_def)

lemma sample_world_uuid [simp]: "hw_uuid (sample_world a b) = Uuid ''h''"
  by (simp add: sample_world_def)

definition sample_surface :: surface where
  "sample_surface = Surface root_point Core TopicNone"

definition sample_call :: "unit substance ping wave" where
  "sample_call = wave_new (Uuid ''u'') WKPing (PingV sample_surface (dcore_new (Cmd CmdInit))) sample_surface"

definition sample_return :: "unit substance pong wave" where
  "sample_return = wave_new (Uuid ''v'') WKPong
     (PongV sample_surface (Single sample_surface) rcore_ok (WaveId (Uuid ''u'') WKPing)) sample_surface"

lemma guest_pings_through_the_host_witness:
  "\<exists>m. guest_router_exchange (hw_codec (sample_world (Ping sample_call) (Pong sample_return)))
     (host_import (sample_world (Ping sample_call) (Pong sample_return)) (\<lambda>_. Inr sample_return))
     (DPing sample_call) membrane_new = Some (Inr (AggSingle (RPong sample_return)), m)"
  by (rule exI, rule conjunct1, rule guest_pings_through_the_host[where n = 0 and req = "[1]" and ans = "[2]"])
    (auto simp: sample_world_ser run_new logged_by_def sample_call_def dcore_new_def intro: sample_world_codec)

definition sample_factory :: "(string + unit) \<Rightarrow> unit mech_factory" where
  "sample_factory made =
     \<lparr>mf_new = (\<lambda>_. Inr ()), mf_lifecycle = (\<lambda>_. Inr ()), mf_create = (\<lambda>_. made),
      mf_handler = (\<lambda>_. Inr (\<lambda>_ m. Some (Reflected rcore_ok, m)))\<rparr>"

definition details_at :: "point \<Rightarrow> details" where
  "details_at p = \<lparr>det_stub = \<lparr>stub_point = p, stub_kind = KHost, stub_status = StatusReady\<rparr>,
     det_properties = Map.empty(''config'' \<mapsto> \<lparr>prop_key = ''config'', prop_value = '''', prop_locked = False\<rparr>)\<rparr>"

definition sample_guest :: "(string + unit) \<Rightarrow> unit guest" where
  "sample_guest made =
     \<lparr>gu_details = details_at hyperuser,
      gu_mechtrons = Map.empty(root_point \<mapsto> \<lparr>hm_details = details_at root_point, hm_name = ''m''\<rparr>),
      gu_factories = Map.empty(''m'' \<mapsto> sample_factory made)\<rparr>"

lemma root_is_not_hyperuser: "root_point \<noteq> hyperuser"
  by (simp add: root_point_def hyperuser_def)

abbreviation sample_directed :: "unit directed" where
  "sample_directed \<equiv> DPing sample_call"

abbreviation "sample_answer \<equiv> rw_to_ultra (reflection_make (Uuid ''h'')
  (Reflection RKPong (reflect_to sample_directed) (dw_to sample_directed) (dw_id sample_directed) False)
  rcore_ok (to_surface root_point)) :: unit ultrawave"

lemma guest_answers_stay_behind_witness:
  "fst (transmit_to_guest (sample_world (Ping sample_call) sample_answer) (Ping sample_call)
     \<lparr>wa_membrane = membrane_new, wa_guest = Some (sample_guest (Inr ()))\<rparr>) = Inr (Some sample_answer)"
proof -
  let ?h = "\<lambda>_ m. Some (Reflected rcore_ok, m)"
  have at: "guest_handler_of (sample_guest (Inr ())) (surf_point (ping_to (w_variant sample_call))) =
      Inr (GuestMechtron (to_surface root_point) ?h)"
    using root_is_not_hyperuser
    by (simp add: guest_handler_of_def guest_hosted_def sample_guest_def sample_factory_def sample_call_def ok_or_def
        sample_surface_def details_point_def details_at_def)
  have reflection: "dw_reflection sample_directed =
      Inr (Reflection RKPong (reflect_to sample_directed) (dw_to sample_directed) (dw_id sample_directed) False)"
    by (simp add: sample_call_def)
  define answer where "answer = sample_answer"
  have "Ping sample_call \<noteq> answer" by (simp add: answer_def reflection_make_def)
  then have "transmit_to_guest (sample_world (Ping sample_call) answer) (Ping sample_call)
      \<lparr>wa_membrane = membrane_new, wa_guest = Some (sample_guest (Inr ()))\<rparr> = (Inr (if 0 + 1 < (2::nat) ^ 31 then Some answer else None),
      \<lparr>wa_membrane = membrane_new, wa_guest = Some (sample_guest (Inr ()))\<rparr>\<lparr>wa_membrane :=
        \<lparr>mb_buffers = (mb_buffers membrane_new)(word_of_nat (0 + 1) \<mapsto> [2]), mb_index = word_of_nat (0 + 2)\<rparr>\<rparr>)"
    using guest_answers_stay_behind[where n = 0 and req = "[1]" and ans = "[2]" and p = sample_call and answer = answer
        and hw = "sample_world (Ping sample_call) answer" and w = "\<lparr>wa_membrane = membrane_new, wa_guest = Some (sample_guest (Inr ()))\<rparr>",
        OF sample_world_codec sample_world_ser(1) _ _ at _ reflection _ sample_world_ser(2)]
    by (simp add: run_new answer_def sample_world_uuid)
  then show ?thesis by (simp add: answer_def)
qed

definition sample_cmd :: "(unit, unit substance) host_cmd" where
  "sample_cmd = HostCmd AssignCreate (details_at root_point) StateNone ()"

lemma failed_mechtrons_are_hosted_witness:
  "\<exists>g'. guest_assign (\<lambda>_. \<lparr>mc_wasm = root_point, mc_name = ''m''\<rparr>) sample_cmd (sample_guest (Inl ''no'')) = (Inl ''no'', g') \<and>
        is_ok (guest_handler_of g' root_point)"
proof -
  obtain r g' where a: "guest_assign (\<lambda>_. \<lparr>mc_wasm = root_point, mc_name = ''m''\<rparr>) sample_cmd (sample_guest (Inl ''no'')) = (r, g')"
    by fastforce
  then have "r = Inl ''no''"
    by (simp add: guest_assign_def sample_guest_def sample_factory_def Let_def)
  moreover have "is_ok (guest_handler_of g' root_point)"
    using failed_mechtrons_are_hosted[OF _ _ a, of "sample_factory (Inl ''no'')"] root_is_not_hyperuser
    by (simp add: sample_guest_def sample_cmd_def details_at_def details_point_def sample_factory_def)
  ultimately show ?thesis using a by blast
qed

definition sample_env :: "unit mech_env" where
  "sample_env =
     \<lparr>me_hosts = \<lparr>hs_hosts = [\<lparr>wh_details = details_at hyperuser, wh_instance = wasm_new\<rparr>],
                  hs_via_wasm = Map.empty(root_point \<mapsto> 0), hs_via_point = Map.empty(hyperuser \<mapsto> 0)\<rparr>,
      me_registry = mem_reg_new\<lparr>mem_particles := Map.empty(root_point \<mapsto>
        \<lparr>rec_details = details_at root_point, rec_location = particle_location_default\<rparr>)\<rparr>\<rparr>"

text \<open>The guest of this host is not even there.\<close>

lemma hosting_is_always_reported_witness:
  "\<exists>e'. host_driver_host (sample_world (Ping sample_call) (Pong sample_return)) (\<lambda>_. Inr root_point)
      (\<lambda>_. Inr \<lparr>mc_wasm = root_point, mc_name = ''m''\<rparr>) (\<lambda>_. io_panic) root_point \<lparr>kt_base = BKHost, kt_sub = None, kt_specific = None\<rparr> (HsHost sample_cmd) sample_env
      = Some (Inr (), e')"
  using hosting_is_always_reported[where cmd = sample_cmd and e = sample_env and at = root_point and n = 0
      and config = "\<lparr>mc_wasm = root_point, mc_name = ''m''\<rparr>" and from_str = "\<lambda>_. Inr root_point"
      and mechtron = "\<lambda>_. Inr \<lparr>mc_wasm = root_point, mc_name = ''m''\<rparr>" and create = "\<lambda>_. io_panic"
      and hosts_base = root_point and kind = "\<lparr>kt_base = BKHost, kt_sub = None, kt_specific = None\<rparr>" and hw = "sample_world (Ping sample_call) (Pong sample_return)"]
  by (simp add: sample_cmd_def details_at_def details_point_def sample_env_def get_via_wasm_def ok_or_def)

end
