(* ===== verification/Typing.thy ===== *)
theory Typing
  imports Mechtrons
begin

text \<open>
  The kinds of the waves that travel: every way in which the code makes a wave or hands one on, from the
  prototypes of senders to the answers of shells, contexts and timers, the copies of ripples and the
  changes made on the way.
\<close>

section \<open>Waves of the right kind\<close>

text \<open>The id of a wave says what it is, a pong answers a ping and an echo a ripple.\<close>

fun well_kinded :: "'x ultrawave \<Rightarrow> bool" where
  "well_kinded (Ping w) \<longleftrightarrow> wid_kind (w_id w) = WKPing"
| "well_kinded (Ripple w) \<longleftrightarrow> wid_kind (w_id w) = WKRipple"
| "well_kinded (Signal w) \<longleftrightarrow> wid_kind (w_id w) = WKSignal"
| "well_kinded (Pong w) \<longleftrightarrow>
     wid_kind (w_id w) = WKPong \<and> wid_kind (pong_reflection_of (w_variant w)) = WKPing"
| "well_kinded (Echo w) \<longleftrightarrow>
     wid_kind (w_id w) = WKEcho \<and> wid_kind (echo_reflection_of (w_variant w)) = WKRipple"

section \<open>The waves that travel\<close>

inductive travelling :: "'x ultrawave \<Rightarrow> bool" where
  built: "dp_build u p = Inr d \<Longrightarrow> \<forall>v. uw_payload (dw_to_ultra d) = Some v \<longrightarrow> travelling v \<Longrightarrow>
    travelling (dw_to_ultra d)"
| replied: "travelling (dw_to_ultra d) \<Longrightarrow> shell_handle u s h d = Some (Some a) \<Longrightarrow>
    \<forall>v. uw_payload a = Some v \<longrightarrow> travelling v \<Longrightarrow> travelling a"
| answered: "travelling (dw_to_ultra d) \<Longrightarrow> ctx_answer u \<lparr>ctx_to = s, ctx_wave = d\<rparr> core f = Reflected r \<Longrightarrow>
    \<forall>v. uw_payload (rw_to_ultra r) = Some v \<longrightarrow> travelling v \<Longrightarrow> travelling (rw_to_ultra r)"
| refused: "travelling (dw_to_ultra d) \<Longrightarrow> dw_err u (\<lambda>t. t) d e s = Reflected r \<Longrightarrow>
    \<forall>v. uw_payload (rw_to_ultra r) = Some v \<longrightarrow> travelling v \<Longrightarrow> travelling (rw_to_ultra r)"
| timed_out: "travelling (dw_to_ultra d) \<Longrightarrow> reflected_proto_of u d = Reflected p \<Longrightarrow>
    timeout_answer t (rp_set_from s p) r = Some a \<Longrightarrow> travelling (rw_to_ultra a)"
| copied: "travelling (Ripple w) \<Longrightarrow> travelling (Ripple (ripple_set_to to w))"
| visited: "travelling w \<Longrightarrow> travelling (uw_add_history w star)"
| hopped: "travelling w \<Longrightarrow> travelling (uw_inc_hops w)"
| agent: "travelling w \<Longrightarrow> travelling (uw_set_agent a w)"
| sender: "travelling w \<Longrightarrow> travelling (uw_set_from f w)"
| receiver: "travelling w \<Longrightarrow> travelling (uw_set_to s w)"
| tracked: "travelling w \<Longrightarrow> travelling (uw_set_track b w)"

section \<open>Facts\<close>

lemma well_kinded_changed [simp]:
  "well_kinded (uw_set_agent a w) = well_kinded w" "well_kinded (uw_set_from f w) = well_kinded w"
  "well_kinded (uw_set_track b w) = well_kinded w" "well_kinded (uw_add_history w p) = well_kinded w"
  "well_kinded (uw_set_hops n w) = well_kinded w"
  by (cases w; simp)+

lemma well_kinded_to [simp]: "well_kinded (uw_set_to s w) = well_kinded w"
  by (cases w; cases "w_variant (case w of Pong x \<Rightarrow> x)"; cases "w_variant (case w of Echo x \<Rightarrow> x)"; simp)

lemma well_kinded_body [simp]: "well_kinded (uw_set_body c w) = well_kinded w"
  by (cases w; simp)

lemma payload_changed [simp]:
  "uw_payload (uw_set_agent a w) = uw_payload w" "uw_payload (uw_set_from f w) = uw_payload w"
  "uw_payload (uw_set_track b w) = uw_payload w" "uw_payload (uw_set_hops n w) = uw_payload w"
  by (cases w; simp add: uw_payload_def)+

lemma payload_to [simp]: "uw_payload (uw_set_to s w) = uw_payload w"
proof (cases w)
  case (Ping x) then show ?thesis by (cases "w_variant x") (simp add: uw_payload_def)
next
  case (Pong x) then show ?thesis by (cases "w_variant x") (simp add: uw_payload_def)
next
  case (Ripple x) then show ?thesis by (cases "w_variant x") (simp add: uw_payload_def)
next
  case (Echo x) then show ?thesis by (cases "w_variant x") (simp add: uw_payload_def)
next
  case (Signal x) then show ?thesis by (cases "w_variant x") (simp add: uw_payload_def)
qed

lemma payload_ripple [simp]:
  "uw_payload (Ripple (ripple_set_to r w)) = uw_payload (Ripple w)"
  "uw_payload (uw_add_history w' p) = uw_payload w'"
  subgoal by (cases "w_variant w") (simp add: uw_payload_def ripple_set_to_def)
  subgoal by (cases w'; cases "w_variant (case w' of Ripple x \<Rightarrow> x)"; simp add: uw_payload_def)
  done

lemma well_kinded_hops [simp]: "well_kinded (uw_inc_hops w) = well_kinded w"
  by (subst uw_inc_hops.simps) (simp add: Let_def split: option.split)

lemma payload_body: "uw_payload (uw_set_body c w) = ultrawave c"
proof (cases w)
  case (Ping x) then show ?thesis by (cases "ping_core (w_variant x)") (simp add: uw_payload_def)
next
  case (Pong x) then show ?thesis by (cases "pong_core (w_variant x)") (simp add: uw_payload_def)
next
  case (Ripple x)
  then show ?thesis by (cases "w_variant x"; cases "ripple_core (w_variant x)") (simp add: uw_payload_def)
next
  case (Echo x) then show ?thesis by (cases "echo_core (w_variant x)") (simp add: uw_payload_def)
next
  case (Signal x) then show ?thesis by (cases "signal_core (w_variant x)") (simp add: uw_payload_def)
qed

lemma payload_hops: "uw_payload (uw_inc_hops w) = map_option uw_inc_hops (uw_payload w)"
  by (subst uw_inc_hops.simps) (simp add: Let_def payload_body split: option.split, simp add: uw_payload_def)

lemma built_well_kinded: "dp_build u p = Inr d \<Longrightarrow> well_kinded (dw_to_ultra d)"
  by (cases "dp_kind p"; cases "the (dp_kind p)") (auto simp: dp_build_def dp_dress_def Let_def res_bind_Inr_iff)

lemma reflected_well_kinded:
  assumes "dw_reflection d = Inr r" "well_kinded (dw_to_ultra d)"
  shows "well_kinded (rw_to_ultra (reflection_make u r core s))"
  using assms by (cases d) (auto simp: reflection_make_def pong_new_def echo_new_def)

lemma travelling_well_kinded:
  "travelling w \<Longrightarrow> well_kinded w \<and> (\<forall>v. uw_payload w = Some v \<longrightarrow> well_kinded v)"
proof (induction rule: travelling.induct)
  case (built u p d)
  then show ?case using built_well_kinded by blast
next
  case (replied d u s h a)
  then show ?case
    by (auto simp: shell_handle_def Let_def reflected_well_kinded split: bounce.splits sum.splits)
next
  case (answered d u s core f r)
  then show ?case
    by (cases d) (auto simp: ctx_answer_def pong_new_def echo_new_def)
next
  case (refused d u e s r)
  then show ?case
    by (cases d) (auto simp: ping_err_def ripple_err_def pong_new_def echo_new_def)
next
  case (timed_out d u p t s r a)
  then show ?case
    by (cases d) (auto simp: timeout_answer_def rp_build_def ping_pong_def ripple_echo_def rp_simps res_bind_Inr_iff
        Let_def uw_payload_def pong_new_def echo_new_def rcore_with_new_substance_def split: sum.splits)
next
  case (copied w to)
  have "w_id (ripple_set_to to w) = w_id w" by (simp add: ripple_set_to_def)
  then show ?case using copied by simp
qed (auto simp: payload_hops)

text \<open>C8. Waves keep their kind on all their ways: the id of a wave that travels says what the wave is, a pong
  refers to a ping and an echo to a ripple, and the same holds of the wave that comes out of a transport
  and of the signal that comes out of a hop.\<close>

theorem travelling_waves_have_their_kind:
  assumes "travelling w"
  shows "wid_kind (uw_id w) = uw_kind w \<and>
    (\<forall>r. uw_to_reflected w = Inr r \<longrightarrow> wid_kind (rw_reflection_of r) = (if uw_kind w = WKPong then WKPing else WKRipple)) \<and>
    (\<forall>v. uw_unwrap_from_transport w = Inr v \<longrightarrow> wid_kind (uw_id v) = uw_kind v) \<and>
    (\<forall>s. uw_unwrap_from_hop w = Inr s \<longrightarrow> wid_kind (w_id s) = WKSignal)"
proof -
  have w: "well_kinded w" and p: "\<And>v. uw_payload w = Some v \<Longrightarrow> well_kinded v"
    using travelling_well_kinded[OF assms] by auto
  have k: "wid_kind (uw_id v) = uw_kind v" if "well_kinded v" for v :: "'a ultrawave"
    using that by (cases v) auto
  show ?thesis
  proof (intro conjI allI impI)
    show "wid_kind (uw_id w) = uw_kind w" using w by (rule k)
  next
    fix r assume "uw_to_reflected w = Inr r"
    then show "wid_kind (rw_reflection_of r) = (if uw_kind w = WKPong then WKPing else WKRipple)"
      using w by (cases w) auto
  next
    fix v assume "uw_unwrap_from_transport w = Inr v"
    then have "uw_payload w = Some v"
      by (cases w) (auto simp: uw_unwrap_from_transport_def signal_unwrap_from_transport_def Let_def uw_payload_def
          split: if_splits substance.splits)
    then show "wid_kind (uw_id v) = uw_kind v" using p k by blast
  next
    fix s assume "uw_unwrap_from_hop w = Inr s"
    then obtain v where "uw_payload w = Some v" "uw_to_signal v = Inr s"
      by (cases w) (auto simp: uw_unwrap_from_hop_def signal_unwrap_from_hop_def Let_def uw_payload_def
          split: if_splits substance.splits)
    then show "wid_kind (w_id s) = WKSignal" using p[of v] by (cases v) auto
  qed
qed

lemma travelling_waves_have_their_kind_witness:
  "\<exists>w. travelling w \<and> wid_kind (uw_id (w :: unit ultrawave)) = WKSignal"
proof -
  have "\<exists>d. dp_build (Uuid ''u'') (dp_set_from sample_surface (dp_set_to (Single sample_surface)
      (dp_signal (Uuid ''v'')))) = Inr (DSignal d :: unit directed) \<and> uw_payload (Signal d :: unit ultrawave) = None"
    by (simp add: dp_build_def dp_simps uw_payload_def dcore_default_def Let_def dp_dress_def)
  then obtain d where d: "dp_build (Uuid ''u'') (dp_set_from sample_surface (dp_set_to (Single sample_surface)
      (dp_signal (Uuid ''v'')))) = Inr (DSignal d :: unit directed)" "uw_payload (Signal d :: unit ultrawave) = None" by blast
  have t: "travelling (Signal d :: unit ultrawave)" using built[OF d(1)] d(2) by simp
  moreover have "wid_kind (uw_id (Signal d :: unit ultrawave)) = uw_kind (Signal d :: unit ultrawave)"
    using travelling_waves_have_their_kind[OF t] by blast
  ultimately show ?thesis by auto
qed

end
