(* ===== verification/Artifacts.thy ===== *)
theory Artifacts
  imports Mechtrons
begin

text \<open>
  Artifacts: the two caches of configurations (\<open>artifact/asynch.rs\<close>, \<open>artifact/synch.rs\<close>) with the
  fetchers they ask, and the drivers that unpack a bundle into artifacts and read them
  (\<open>driver/artifact.rs\<close>).  The conversions of bytes to configurations, the zip archive, the store
  and the file system are parameters.
\<close>

section \<open>References\<close>

record 'a art_ref =
  ar_artifact :: 'a
  ar_point :: point

text \<open>\<open>ArtRef::bundle\<close>; \<open>None\<close> is a panic.\<close>

definition art_ref_bundle :: "'a art_ref \<Rightarrow> point option" where
  "art_ref_bundle r = (case to_bundle (ar_point r) of Some (Inr b) \<Rightarrow> Some b | _ \<Rightarrow> None)"

section \<open>Fetchers\<close>

type_synonym fetcher = "point \<Rightarrow> space_err + bin"

definition no_dice_fetch :: fetcher where
  "no_dice_fetch p = Inl (err_of_string ''cannot pull artifacts right now'')"

definition map_fetch :: "(point \<rightharpoonup> bin) \<Rightarrow> fetcher" where
  "map_fetch m p = ok_or (m p) (not_found (''could not find '' @ point_to_string p))"

text \<open>\<open>ReadArtifactFetcher\<close> pings the particle; \<open>ping\<close> is its transmitter.\<close>

definition read_fetch :: "uuid \<Rightarrow> ('x directed_proto \<Rightarrow> space_err + 'x substance pong wave) \<Rightarrow> fetcher" where
  "read_fetch u ping p =
     res_bind (ping (dp_set_method (Cmd CmdRead) (dp_set_to (Single (to_surface p)) (dp_ping u)))) (\<lambda>pong.
     res_bind (pong_ok_or (w_variant pong)) (\<lambda>_.
       case rc_body (pong_core (w_variant pong)) of
         SBin bin \<Rightarrow> Inr bin
       | other \<Rightarrow>
           Inl (server_error (''expected Bin, encountered unexpected substance '' @
             substance_kind_to_string (substance_kind_of other) @ '' when fetching Artifact''))))"

section \<open>The cache\<close>

record 'b artifact_api =
  aa_binds :: "point \<rightharpoonup> 'b"
  aa_mechtrons :: "point \<rightharpoonup> mechtron_config"
  aa_wasm :: "point \<rightharpoonup> bin"
  aa_fetcher :: fetcher

definition api_new :: "fetcher \<Rightarrow> 'b artifact_api" where
  "api_new f = \<lparr>aa_binds = Map.empty, aa_mechtrons = Map.empty, aa_wasm = Map.empty, aa_fetcher = f\<rparr>"

definition api_no_fetcher :: "'b artifact_api" where
  "api_no_fetcher = api_new no_dice_fetch"

definition api_set_fetcher :: "fetcher \<Rightarrow> 'b artifact_api \<Rightarrow> 'b artifact_api" where
  "api_set_fetcher f api = api\<lparr>aa_fetcher := f\<rparr>"

text \<open>\<open>fetch\<close>; \<open>None\<close> is the panic of \<open>has_bundle\<close>.\<close>

definition fetch_as :: "(bin \<Rightarrow> space_err + 'a) \<Rightarrow> fetcher \<Rightarrow> point \<Rightarrow> (space_err + 'a) option" where
  "fetch_as conv f p =
     map_option (\<lambda>bundled. if \<not> bundled then Inl (err_of_string ''point is not from a bundle'')
       else res_bind (f p) conv) (has_bundle p)"

definition api_mechtron ::
  "(bin \<Rightarrow> space_err + mechtron_config) \<Rightarrow> point \<Rightarrow> 'b artifact_api
   \<Rightarrow> ((space_err + mechtron_config art_ref) \<times> 'b artifact_api) option" where
  "api_mechtron conv p api =
     (case aa_mechtrons api p of
        Some m \<Rightarrow> Some (Inr \<lparr>ar_artifact = m, ar_point = p\<rparr>, api)
      | None \<Rightarrow>
          (case fetch_as conv (aa_fetcher api) p of
             None \<Rightarrow> None
           | Some (Inl e) \<Rightarrow> Some (Inl e, api)
           | Some (Inr m) \<Rightarrow>
               Some (Inr \<lparr>ar_artifact = m, ar_point = p\<rparr>, api\<lparr>aa_mechtrons := (aa_mechtrons api)(p \<mapsto> m)\<rparr>)))"

definition api_bind ::
  "(bin \<Rightarrow> space_err + 'b) \<Rightarrow> point \<Rightarrow> 'b artifact_api \<Rightarrow> ((space_err + 'b art_ref) \<times> 'b artifact_api) option" where
  "api_bind conv p api =
     (case aa_binds api p of
        Some b \<Rightarrow> Some (Inr \<lparr>ar_artifact = b, ar_point = p\<rparr>, api)
      | None \<Rightarrow>
          (case fetch_as conv (aa_fetcher api) p of
             None \<Rightarrow> None
           | Some (Inl e) \<Rightarrow> Some (Inl e, api)
           | Some (Inr b) \<Rightarrow>
               Some (Inr \<lparr>ar_artifact = b, ar_point = p\<rparr>, api\<lparr>aa_binds := (aa_binds api)(p \<mapsto> b)\<rparr>)))"

text \<open>\<open>wasm\<close> does not ask for a bundle.\<close>

definition api_wasm :: "point \<Rightarrow> 'b artifact_api \<Rightarrow> (space_err + bin art_ref) \<times> 'b artifact_api" where
  "api_wasm p api =
     (case aa_wasm api p of
        Some b \<Rightarrow> (Inr \<lparr>ar_artifact = b, ar_point = p\<rparr>, api)
      | None \<Rightarrow>
          (case aa_fetcher api p of
             Inl e \<Rightarrow> (Inl e, api)
           | Inr b \<Rightarrow> (Inr \<lparr>ar_artifact = b, ar_point = p\<rparr>, api\<lparr>aa_wasm := (aa_wasm api)(p \<mapsto> b)\<rparr>)))"

text \<open>The blocking twin of guests.  \<open>raw\<close> looks whether the point is among the binds.\<close>

record 'b sync_api =
  sa_binds :: "point \<rightharpoonup> 'b"
  sa_mechtrons :: "point \<rightharpoonup> mechtron_config"
  sa_raw :: "point \<rightharpoonup> bin"
  sa_fetcher :: fetcher

definition sync_api_new :: "fetcher \<Rightarrow> 'b sync_api" where
  "sync_api_new f = \<lparr>sa_binds = Map.empty, sa_mechtrons = Map.empty, sa_raw = Map.empty, sa_fetcher = f\<rparr>"

definition sync_api_mechtron ::
  "(bin \<Rightarrow> space_err + mechtron_config) \<Rightarrow> point \<Rightarrow> 'b sync_api
   \<Rightarrow> ((space_err + mechtron_config art_ref) \<times> 'b sync_api) option" where
  "sync_api_mechtron conv p api =
     (case sa_mechtrons api p of
        Some m \<Rightarrow> Some (Inr \<lparr>ar_artifact = m, ar_point = p\<rparr>, api)
      | None \<Rightarrow>
          (case fetch_as conv (sa_fetcher api) p of
             None \<Rightarrow> None
           | Some (Inl e) \<Rightarrow> Some (Inl e, api)
           | Some (Inr m) \<Rightarrow>
               Some (Inr \<lparr>ar_artifact = m, ar_point = p\<rparr>, api\<lparr>sa_mechtrons := (sa_mechtrons api)(p \<mapsto> m)\<rparr>)))"

definition sync_api_bind ::
  "(bin \<Rightarrow> space_err + 'b) \<Rightarrow> point \<Rightarrow> 'b sync_api \<Rightarrow> ((space_err + 'b art_ref) \<times> 'b sync_api) option" where
  "sync_api_bind conv p api =
     (case sa_binds api p of
        Some b \<Rightarrow> Some (Inr \<lparr>ar_artifact = b, ar_point = p\<rparr>, api)
      | None \<Rightarrow>
          (case fetch_as conv (sa_fetcher api) p of
             None \<Rightarrow> None
           | Some (Inl e) \<Rightarrow> Some (Inl e, api)
           | Some (Inr b) \<Rightarrow>
               Some (Inr \<lparr>ar_artifact = b, ar_point = p\<rparr>, api\<lparr>sa_binds := (sa_binds api)(p \<mapsto> b)\<rparr>)))"

definition sync_api_raw :: "point \<Rightarrow> 'b sync_api \<Rightarrow> ((space_err + bin art_ref) \<times> 'b sync_api) option" where
  "sync_api_raw p api =
     (if sa_binds api p \<noteq> None then
        map_option (\<lambda>b. (Inr \<lparr>ar_artifact = b, ar_point = p\<rparr>, api)) (sa_raw api p)
      else
        (case sa_fetcher api p of
           Inl e \<Rightarrow> Some (Inl e, api)
         | Inr b \<Rightarrow> Some (Inr \<lparr>ar_artifact = b, ar_point = p\<rparr>, api\<lparr>sa_raw := (sa_raw api)(p \<mapsto> b)\<rparr>)))"

section \<open>Unpacking a bundle\<close>

text \<open>The archive is copied to a file first: \<open>with_file_name\<close> replaces the last component of a path, here the
  name of the fresh temporary directory.\<close>

definition with_file_name :: "string \<Rightarrow> string \<Rightarrow> string" where
  "with_file_name path name = rev (dropWhile (\<lambda>c. c \<noteq> CHR ''/'') (rev path)) @ name"

definition zip_file :: "string \<Rightarrow> string" where
  "zip_file temp_dir = with_file_name temp_dir ''file.zip''"

text \<open>What the zip package reads: the names in the order of the archive, and a file by its name.\<close>

record archive =
  zip_names :: "string list"
  zip_by_name :: "string \<Rightarrow> bin option"

definition artifact_names :: "archive \<Rightarrow> string list" where
  "artifact_names a = filter (\<lambda>n. \<not> (n \<noteq> [] \<and> last n = CHR ''/'')) (zip_names a)"

fun split_slash :: "string \<Rightarrow> string list" where
  "split_slash [] = [[]]"
| "split_slash (c # cs) =
     (if c = CHR ''/'' then [] # split_slash cs
      else (case split_slash cs of [] \<Rightarrow> [[c]] | s # ss \<Rightarrow> (c # s) # ss))"

text \<open>The loop over the segments of a name: the path so far, and whether it is a directory.\<close>

fun path_steps :: "string \<Rightarrow> string list \<Rightarrow> (string \<times> artifact_sub) list" where
  "path_steps path [] = []"
| "path_steps path [s] = [(path @ s, ArtifactRaw)]"
| "path_steps path (s # s' # ss) =
     (path @ s @ ''/'', ArtifactDir) # path_steps (path @ s @ ''/'') (s' # ss)"

definition artifact_points ::
  "(string \<Rightarrow> space_err + point) \<Rightarrow> point \<Rightarrow> string list \<Rightarrow> space_err + (point \<times> artifact_sub) list" where
  "artifact_points from_str bundle names =
     res_bind (res_map (\<lambda>(path, sub). res_bind (from_str (point_to_string bundle @ '':/'' @ path)) (\<lambda>p. Inr (p, sub)))
                (concat (map (\<lambda>n. path_steps [] (split_slash n)) names))) (\<lambda>ps.
     res_bind (from_str (point_to_string bundle @ '':/'')) (\<lambda>root.
       Inr (ps @ [(root, ArtifactDir)])))"

text \<open>The set of them is put in order by the length of the text: \<open>iter\<close> is the order in which the set is
  read, and \<open>sort_by\<close> is stable.\<close>

definition in_creation_order ::
  "((point \<times> artifact_sub) set \<Rightarrow> (point \<times> artifact_sub) list) \<Rightarrow> (point \<times> artifact_sub) list \<Rightarrow> (point \<times> artifact_sub) list" where
  "in_creation_order iter ps = sort_key (\<lambda>(p, _). length (point_to_string p)) (iter (set ps))"

text \<open>The creation of one artifact; \<open>None\<close> is a panic of \<open>expect\<close>.\<close>

definition artifact_state :: "archive \<Rightarrow> point \<Rightarrow> artifact_sub \<Rightarrow> 'x substance state_src option" where
  "artifact_state a p sub =
     (if sub = ArtifactDir then Some StateNone
      else map_option (\<lambda>path. case zip_by_name a (tl path) of
               Some content \<Rightarrow> StateSubstance (SBin content)
             | None \<Rightarrow> StateNone) (filepath p))"

definition artifact_create :: "archive \<Rightarrow> point \<times> artifact_sub \<Rightarrow> 'x substance create option" where
  "artifact_create a e =
     (case e of (p, sub) \<Rightarrow>
        (case (point_parent p, artifact_state a p sub, last_segment p) of
           (Some parent, Some state, Some seg) \<Rightarrow>
             Some \<lparr>cr_parent = parent, cr_segment = SegExact (seg_to_string seg),
                   cr_kind = \<lparr>kt_base = to_base (KArtifact sub), kt_sub = sub_into_string (kind_sub (KArtifact sub)),
                              kt_specific = None\<rparr>,
                   cr_properties = set_properties_new, cr_strategy = StrategyCommit, cr_state = state\<rparr>
         | _ \<Rightarrow> None))"

text \<open>\<open>BundleDriverHandler::assign\<close>.  \<open>unzip\<close> writes and opens the archive, \<open>store\<close> keeps the bundle,
  \<open>create\<close> sends a creation and waits for its answer.\<close>

datatype 'x bundle_out = BundleStore string "'x substance" | BundleLocate point | BundleCreate "'x substance create"

fun send_creates ::
  "('x substance create \<Rightarrow> bool) \<Rightarrow> archive \<Rightarrow> (point \<times> artifact_sub) list \<Rightarrow> 'x bundle_out list \<times> bool" where
  "send_creates create a [] = ([], True)"
| "send_creates create a (e # es) =
     (case artifact_create a e of
        None \<Rightarrow> ([], False)
      | Some c \<Rightarrow>
          if create c then (case send_creates create a es of (out, fin) \<Rightarrow> (BundleCreate c # out, fin))
          else ([BundleCreate c], False))"

definition bundle_assign ::
  "(bin \<Rightarrow> cosmic_err + archive) \<Rightarrow> (string \<Rightarrow> 'x substance \<Rightarrow> cosmic_err + unit) \<Rightarrow> (point \<Rightarrow> cosmic_err + unit)
   \<Rightarrow> (string \<Rightarrow> space_err + point) \<Rightarrow> ((point \<times> artifact_sub) set \<Rightarrow> (point \<times> artifact_sub) list)
   \<Rightarrow> ('x substance create \<Rightarrow> bool) \<Rightarrow> ('x, 'x substance) hyper_substance
   \<Rightarrow> 'x bundle_out list \<times> (cosmic_err + unit) option" where
  "bundle_assign unzip store placed from_str iter create input =
     (case input of
        HsAssign assign \<Rightarrow>
          (let bundle = details_point (asg_details assign)
           in case asg_state assign of
                StateNone \<Rightarrow> ([], Some (Inl (cosmic_err_new ''ArtifactBundle cannot be stateless'')))
              | StateSubstance (SBin zipped) \<Rightarrow>
                  (case unzip zipped of
                     Inl e \<Rightarrow> ([], Some (Inl e))
                   | Inr a \<Rightarrow>
                       (let s = BundleStore (point_to_string bundle) (SBin zipped)
                        in case store (point_to_string bundle) (SBin zipped) of
                             Inl e \<Rightarrow> ([s], Some (Inl e))
                           | Inr _ \<Rightarrow>
                               (case placed bundle of
                                  Inl e \<Rightarrow> ([s, BundleLocate bundle], Some (Inl e))
                                | Inr _ \<Rightarrow>
                                    (case artifact_points from_str bundle (artifact_names a) of
                                       Inl e \<Rightarrow> ([s, BundleLocate bundle], Some (Inl (cosmic_err_of_space e)))
                                     | Inr ps \<Rightarrow>
                                         (case send_creates create a (in_creation_order iter ps) of
                                            (out, fin) \<Rightarrow>
                                              (s # BundleLocate bundle # out, if fin then Some (Inr ()) else None))))))
              | _ \<Rightarrow> ([], Some (Inl (cosmic_err_new ''ArtifactBundle Manager expected Bin payload''))))
      | _ \<Rightarrow> ([], Some (Inl (cosmic_err_new ''Bad Reqeust: expected Assign''))))"

section \<open>Artifacts\<close>

text \<open>The store of a star: what it keeps under a text, and whether an entry could be written.\<close>

type_synonym 'x value_repo = "string \<rightharpoonup> 'x substance"

definition artifact_assign ::
  "(string \<Rightarrow> space_err + unit) \<Rightarrow> (point \<Rightarrow> cosmic_err + unit) \<Rightarrow> ('x, 'x substance) hyper_substance
   \<Rightarrow> 'x value_repo \<Rightarrow> (cosmic_err + unit) \<times> 'x value_repo" where
  "artifact_assign written placed input repo =
     (case input of
        HsAssign assign \<Rightarrow>
          (let p = details_point (asg_details assign)
           in case stub_kind (det_stub (asg_details assign)) of
                KArtifact ArtifactDir \<Rightarrow> (placed p, repo)
              | KArtifact _ \<Rightarrow>
                  (case get_substance (asg_state assign) of
                     Inl e \<Rightarrow> (Inl (cosmic_err_of_space e), repo)
                   | Inr substance \<Rightarrow>
                       (case written (point_to_string p) of
                          Inl e \<Rightarrow> (Inl (cosmic_err_of_space e), repo)
                        | Inr _ \<Rightarrow> (placed p, repo(point_to_string p \<mapsto> substance))))
              | _ \<Rightarrow> (Inr (), repo))
      | _ \<Rightarrow> (Inl (cosmic_err_new ''ArtifactDriver expected Assign''), repo))"

text \<open>\<open>Cmd<Read>\<close> and \<open>Http<Get>\<close> of an artifact; \<open>None\<close> is the panic when nothing is stored.\<close>

definition artifact_read :: "kind \<Rightarrow> point \<Rightarrow> 'x value_repo \<Rightarrow> 'x substance option" where
  "artifact_read k p repo = (if k = KArtifact ArtifactDir then Some SEmpty else repo (point_to_string p))"

definition artifact_get :: "kind \<Rightarrow> point \<Rightarrow> 'x value_repo \<Rightarrow> 'x substance option" where
  "artifact_get k p repo = (if k = KArtifact ArtifactDir then Some SEmpty else repo (point_to_string p))"

section \<open>Facts: paths\<close>

definition dirs_text :: "string list \<Rightarrow> string" where
  "dirs_text ds = concat (map (\<lambda>d. d @ ''/'') ds)"

lemma dirs_text_simps [simp]:
  "dirs_text [] = []" "dirs_text (d # ds) = d @ ''/'' @ dirs_text ds"
  "dirs_text (xs @ ys) = dirs_text xs @ dirs_text ys"
  by (simp_all add: dirs_text_def)

lemma split_slash_ne [simp]: "split_slash s \<noteq> []"
  by (cases s) (auto split: list.split)

lemma split_slash_cons: "c \<noteq> CHR ''/'' \<Longrightarrow> split_slash (c # cs) = (c # hd (split_slash cs)) # tl (split_slash cs)"
  by (cases "split_slash cs") auto

lemma split_slash_join: "split_slash s = ds @ [f] \<Longrightarrow> dirs_text ds @ f = s"
proof (induction s arbitrary: ds f)
  case (Cons c cs)
  have whole: "split_slash cs = butlast (split_slash cs) @ [last (split_slash cs)]" by simp
  note IH = Cons.IH[OF whole]
  show ?case
  proof (cases "c = CHR ''/''")
    case True
    then have "ds @ [f] = ([] # butlast (split_slash cs)) @ [last (split_slash cs)]"
      using Cons.prems whole by simp
    then have "ds = [] # butlast (split_slash cs)" "f = last (split_slash cs)" by (simp_all only: append1_eq_conv)
    then show ?thesis using True IH by simp
  next
    case False
    then have e: "ds @ [f] = (c # hd (split_slash cs)) # tl (split_slash cs)"
      using Cons.prems split_slash_cons by metis
    show ?thesis
    proof (cases ds)
      case Nil
      then have "split_slash cs = [hd (split_slash cs)]" "f = c # hd (split_slash cs)"
        using e by (metis append_Nil list.collapse list.inject split_slash_ne)+
      then have "split_slash cs = [] @ [hd (split_slash cs)]" by simp
      from Cons.IH[OF this] show ?thesis using Nil \<open>f = c # hd (split_slash cs)\<close> by simp
    next
      case (Cons d ds')
      then have d: "d = c # hd (split_slash cs)" "ds' @ [f] = tl (split_slash cs)" using e by simp_all
      then have "split_slash cs = (hd (split_slash cs) # ds') @ [f]" by (metis append_Cons list.collapse split_slash_ne)
      then have "dirs_text (hd (split_slash cs) # ds') @ f = cs" using Cons.IH by blast
      then show ?thesis using Cons d by simp
    qed
  qed
qed simp

lemma path_steps_eq:
  "path_steps path (ds @ [f]) =
     map (\<lambda>k. (path @ dirs_text (take (Suc k) ds), ArtifactDir)) [0..<length ds] @ [(path @ dirs_text ds @ f, ArtifactRaw)]"
proof (induction ds arbitrary: path)
  case (Cons d ds)
  obtain s ss where ss: "ds @ [f] = s # ss" by (cases ds) auto
  have "path_steps path ((d # ds) @ [f]) = (path @ d @ ''/'', ArtifactDir) # path_steps (path @ d @ ''/'') (ds @ [f])"
    using ss by simp
  also have "\<dots> = map (\<lambda>k. (path @ dirs_text (take (Suc k) (d # ds)), ArtifactDir)) (0 # map Suc [0..<length ds])
      @ [(path @ dirs_text (d # ds) @ f, ArtifactRaw)]"
    by (subst Cons.IH) (simp add: comp_def)
  also have "0 # map Suc [0..<length ds] = [0..<length (d # ds)]"
    by (simp add: map_Suc_upt upt_conv_Cons del: upt_Suc)
  finally show ?case .
qed simp

section \<open>Facts: the artifacts of a bundle\<close>

definition bundle_dir :: "point \<Rightarrow> string list \<Rightarrow> point" where
  "bundle_dir b ds = b\<lparr>segments := segments b @ PSFilesystemRootDir # map (\<lambda>d. PSDir (d @ ''/'')) ds\<rparr>"

definition bundle_file :: "point \<Rightarrow> string list \<Rightarrow> string \<Rightarrow> point" where
  "bundle_file b ds f = b\<lparr>segments := segments (bundle_dir b ds) @ [PSFile f]\<rparr>"

text \<open>What is asked of the parser of points: the paths of the archive below the bundle are read as
  directories and files.\<close>

definition reads_paths :: "(string \<Rightarrow> space_err + point) \<Rightarrow> point \<Rightarrow> string list \<Rightarrow> bool" where
  "reads_paths from_str b names \<longleftrightarrow>
     from_str (point_to_string b @ '':/'') = Inr (bundle_dir b []) \<and>
     (\<forall>n ds f. n \<in> set names \<longrightarrow> split_slash n = ds @ [f] \<longrightarrow>
        (\<forall>k < length ds. from_str (point_to_string b @ '':/'' @ dirs_text (take (Suc k) ds)) =
           Inr (bundle_dir b (take (Suc k) ds))) \<and>
        from_str (point_to_string b @ '':/'' @ dirs_text ds @ f) = Inr (bundle_file b ds f))"

definition artifact_entries :: "point \<Rightarrow> string \<Rightarrow> (point \<times> artifact_sub) list" where
  "artifact_entries b n =
     (let ds = butlast (split_slash n)
      in map (\<lambda>k. (bundle_dir b (take (Suc k) ds), ArtifactDir)) [0..<length ds] @
         [(bundle_file b ds (last (split_slash n)), ArtifactRaw)])"

lemma artifact_points_eq:
  assumes "reads_paths from_str b names"
  shows "artifact_points from_str b names =
    Inr (concat (map (artifact_entries b) names) @ [(bundle_dir b [], ArtifactDir)])"
proof -
  let ?P = "\<lambda>x y. (case x of (path, sub) \<Rightarrow> res_bind (from_str (point_to_string b @ '':/'' @ path)) (\<lambda>p. Inr (p, sub))) = Inr y"
  have "list_all2 ?P (path_steps [] (split_slash n)) (artifact_entries b n)" if n: "n \<in> set names" for n
  proof -
    let ?ds = "butlast (split_slash n)" and ?f = "last (split_slash n)"
    have s: "split_slash n = ?ds @ [?f]" by simp
    have r: "\<forall>k < length ?ds. from_str (point_to_string b @ '':/'' @ dirs_text (take (Suc k) ?ds)) =
           Inr (bundle_dir b (take (Suc k) ?ds))"
      "from_str (point_to_string b @ '':/'' @ dirs_text ?ds @ ?f) = Inr (bundle_file b ?ds ?f)"
      using assms n s unfolding reads_paths_def by blast+
    show ?thesis
      unfolding artifact_entries_def Let_def
      by (subst s, subst path_steps_eq, rule list_all2_appendI)
        (use r in \<open>simp_all add: list_all2_map1 list_all2_map2 list_all2_same\<close>)
  qed
  then have "list_all2 ?P (concat (map (\<lambda>n. path_steps [] (split_slash n)) names)) (concat (map (artifact_entries b) names))"
    by (induction names) (simp_all add: list_all2_appendI)
  then show ?thesis
    using assms by (simp add: artifact_points_def reads_paths_def flip: res_map_Inr_iff)
qed

lemma entry_parent:
  assumes "(p, sub) \<in> set (concat (map (artifact_entries b) names) @ [(bundle_dir b [], ArtifactDir)])"
  shows "\<exists>q. point_parent p = Some q \<and>
    (q = b \<or> (q, ArtifactDir) \<in> set (concat (map (artifact_entries b) names) @ [(bundle_dir b [], ArtifactDir)]))"
proof -
  let ?es = "concat (map (artifact_entries b) names) @ [(bundle_dir b [], ArtifactDir)]"
  have up: "(bundle_dir b (take k (butlast (split_slash n))), ArtifactDir) \<in> set ?es"
    if "n \<in> set names" "k \<le> length (butlast (split_slash n))" for n k
  proof (cases k)
    case (Suc j)
    then have "(bundle_dir b (take k (butlast (split_slash n))), ArtifactDir) \<in> set (artifact_entries b n)"
      using that(2) by (auto simp: artifact_entries_def Let_def image_iff intro!: bexI[of _ j])
    then show ?thesis using that(1) by auto
  qed simp
  from assms consider "p = bundle_dir b []"
    | n k where "n \<in> set names" "k < length (butlast (split_slash n))" "p = bundle_dir b (take (Suc k) (butlast (split_slash n)))"
    | n where "n \<in> set names" "p = bundle_file b (butlast (split_slash n)) (last (split_slash n))"
    by (auto simp: artifact_entries_def Let_def)
  then show ?thesis
  proof cases
    case 1
    then show ?thesis by (simp add: point_parent_def bundle_dir_def)
  next
    case 2
    let ?ds = "butlast (split_slash n)"
    have "point_parent p = Some (bundle_dir b (take k ?ds))"
      using 2(2,3) by (simp add: point_parent_def bundle_dir_def take_Suc_conv_app_nth butlast_append)
    then show ?thesis using up[OF 2(1), of k] 2(2) by auto
  next
    case 3
    have "point_parent p = Some (bundle_dir b (take (length (butlast (split_slash n))) (butlast (split_slash n))))"
      using 3(2) by (simp add: point_parent_def bundle_file_def bundle_dir_def butlast_append)
    then show ?thesis using up[OF 3(1)] by blast
  qed
qed

lemma segments_snoc:
  "\<exists>d. segments_to_string isroot kind str post i (xs @ [s]) = segments_to_string isroot kind str post i xs @ d @ str s"
proof (induction xs arbitrary: post i)
  case Nil
  show ?case by (simp add: Let_def)
next
  case (Cons x xs)
  obtain d where "segments_to_string isroot kind str (if isroot x then True else post) (Suc i) (xs @ [s]) =
      segments_to_string isroot kind str (if isroot x then True else post) (Suc i) xs @ d @ str s"
    using Cons.IH by blast
  then show ?case by (intro exI[of _ d]) (simp add: Let_def)
qed

lemma parent_is_shorter:
  assumes "point_parent p = Some q" "segments q \<noteq> []" "seg_to_string (last (segments p)) \<noteq> []"
  shows "length (point_to_string q) < length (point_to_string p)"
proof -
  have p: "segments p = segments q @ [last (segments p)]" "route p = route q" "segments p \<noteq> []"
    using assms(1) by (auto simp: point_parent_def split: if_splits)
  obtain d where "segments_to_string seg_is_filesystem_root seg_kind seg_to_string False 0 (segments p) =
      segments_to_string seg_is_filesystem_root seg_kind seg_to_string False 0 (segments q) @ d @
        seg_to_string (last (segments p))"
    using segments_snoc[of _ _ _ False 0 "segments q" "last (segments p)"] p(1) by metis
  then show ?thesis using p(2,3) assms(2,3) by (simp add: point_to_string_def to_string_impl_def)
qed

lemma bundle_dir_snoc: "segments (bundle_dir b (take (Suc k) ds)) \<noteq> []" "segments (bundle_dir b ds) \<noteq> []"
  by (simp_all add: bundle_dir_def)

lemma names_end_in_files:
  assumes "reads_paths from_str b names" "n \<in> set names"
  shows "last (split_slash n) \<noteq> []"
proof
  assume f: "last (split_slash n) = []"
  let ?ds = "butlast (split_slash n)"
  have s: "split_slash n = ?ds @ [last (split_slash n)]" by simp
  have r: "\<forall>k < length ?ds. from_str (point_to_string b @ '':/'' @ dirs_text (take (Suc k) ?ds)) =
         Inr (bundle_dir b (take (Suc k) ?ds))"
    "from_str (point_to_string b @ '':/'' @ dirs_text ?ds @ []) = Inr (bundle_file b ?ds [])"
    "from_str (point_to_string b @ '':/'') = Inr (bundle_dir b [])"
    using assms s f unfolding reads_paths_def by metis+
  have "from_str (point_to_string b @ '':/'' @ dirs_text ?ds) = Inr (bundle_dir b ?ds)"
  proof (cases "length ?ds")
    case 0
    then have "?ds = []" by (simp only: length_0_conv)
    then show ?thesis using r(3) by (simp only: dirs_text_simps append_Nil2)
  next
    case (Suc j)
    then show ?thesis using r(1)[rule_format, of j] by simp
  qed
  then have "bundle_dir b ?ds = bundle_file b ?ds []" using r(2) by simp
  then have "segments (bundle_dir b ?ds) = segments (bundle_dir b ?ds) @ [PSFile []]"
    by (metis bundle_file_def point_def.simps(2) point_def.update_convs(2) point_def.surjective)
  then show False by simp
qed

lemma entry_text:
  assumes "reads_paths from_str b names"
    "(p, sub) \<in> set (concat (map (artifact_entries b) names) @ [(bundle_dir b [], ArtifactDir)])"
  shows "seg_to_string (last (segments p)) \<noteq> []"
proof -
  from assms(2) consider "p = bundle_dir b []"
    | n k where "n \<in> set names" "k < length (butlast (split_slash n))" "p = bundle_dir b (take (Suc k) (butlast (split_slash n)))"
    | n where "n \<in> set names" "p = bundle_file b (butlast (split_slash n)) (last (split_slash n))"
    by (auto simp: artifact_entries_def Let_def)
  then show ?thesis
  proof cases
    case 1
    then show ?thesis by (simp add: bundle_dir_def)
  next
    case 2
    then show ?thesis by (simp add: bundle_dir_def take_Suc_conv_app_nth)
  next
    case 3
    then show ?thesis using names_end_in_files[OF assms(1) 3(1)] by (simp add: bundle_file_def)
  qed
qed

lemma before_in_sorted:
  assumes "sort_key f es = xs @ e # ys" "e' \<in> set es" "f e' < f e"
  shows "e' \<in> set xs"
proof -
  have "sorted (map f (xs @ e # ys))" using sorted_sort_key[of f es] assms(1) by simp
  then have "\<forall>y \<in> set ys. f e \<le> f y" by (simp add: sorted_append)
  moreover have "e' \<in> set (xs @ e # ys)" using assms(1,2) by (metis set_sort)
  ultimately show ?thesis using assms(3) by auto
qed

lemma parents_come_first:
  assumes "reads_paths from_str b names" "artifact_points from_str b names = Inr ps"
    and "set (iter (set ps)) = set ps"
    and "in_creation_order iter ps = xs @ (p, sub) # ys"
  shows "\<exists>q. point_parent p = Some q \<and> (q = b \<or> (q, ArtifactDir) \<in> set xs)"
proof -
  have ps: "ps = concat (map (artifact_entries b) names) @ [(bundle_dir b [], ArtifactDir)]"
    using artifact_points_eq[OF assms(1)] assms(2) by simp
  have it: "set (iter (set ps)) = set ps" by (rule assms(3))
  have "(p, sub) \<in> set (in_creation_order iter ps)" using assms(4) by simp
  then have in_ps: "(p, sub) \<in> set ps" by (simp add: in_creation_order_def it)
  obtain q where q: "point_parent p = Some q" "q = b \<or> (q, ArtifactDir) \<in> set ps"
    using entry_parent[of p sub b names] in_ps ps by blast
  show ?thesis
  proof (cases "q = b")
    case False
    then have qs: "(q, ArtifactDir) \<in> set ps" using q(2) by blast
    then obtain r where "point_parent q = Some r" using entry_parent[of q ArtifactDir b names] ps by blast
    then have "segments q \<noteq> []" by (auto simp: point_parent_def)
    then have "length (point_to_string q) < length (point_to_string p)"
      using parent_is_shorter[OF q(1)] entry_text[OF assms(1)] in_ps ps by blast
    then have "(q, ArtifactDir) \<in> set xs"
      using before_in_sorted[OF assms(4)[unfolded in_creation_order_def]] qs it by auto
    then show ?thesis using q(1) by blast
  qed (use q(1) in blast)
qed

lemma filepath_text_append [simp]: "filepath_text (xs @ ys) = filepath_text xs @ filepath_text ys"
  by (induction xs) simp_all

lemma filepath_text_dirs: "filepath_text (map (\<lambda>d. PSDir (d @ ''/'')) ds) = dirs_text ds"
  by (induction ds) simp_all

lemma filepath_bundle_file:
  "filepath (bundle_file b ds f) = Some (filepath_text (segments b) @ ''/'' @ dirs_text ds @ f)"
  by (simp add: filepath_def bundle_file_def bundle_dir_def filepath_text_dirs)

lemma artifact_create_total:
  assumes "(p, sub) \<in> set (concat (map (artifact_entries b) names) @ [(bundle_dir b [], ArtifactDir)])"
  shows "artifact_create a (p, sub) \<noteq> (None :: 'x substance create option)"
proof -
  obtain q where q: "point_parent p = Some q" using entry_parent[OF assms] by blast
  then have l: "last_segment p \<noteq> None" by (auto simp: point_parent_def last_segment_def)
  have "artifact_state a p sub \<noteq> (None :: 'x substance state_src option)"
    using assms by (auto simp: artifact_state_def artifact_entries_def Let_def filepath_bundle_file)
  then show ?thesis using q l by (auto simp: artifact_create_def)
qed

lemma artifact_create_content:
  assumes "split_slash n = ds @ [f]" "filepath_text (segments b) = []" "zip_by_name a n = Some content"
    and "artifact_create a (bundle_file b ds f, ArtifactRaw) = Some (c :: 'x substance create)"
  shows "cr_state c = StateSubstance (SBin content) \<and> cr_segment c = SegExact f \<and> cr_parent c = bundle_dir b ds"
proof -
  have "tl (''/'' @ dirs_text ds @ f) = n" using split_slash_join[OF assms(1)] by simp
  then have "artifact_state a (bundle_file b ds f) ArtifactRaw = Some (StateSubstance (SBin content :: 'x substance))"
    using assms(2,3) by (simp add: artifact_state_def filepath_bundle_file)
  then show ?thesis
    using assms(4) by (auto simp: artifact_create_def point_parent_def last_segment_def bundle_file_def bundle_dir_def butlast_append)
qed

lemma send_creates_all:
  fixes create :: "'x substance create \<Rightarrow> bool"
  assumes "\<And>c. create c" "\<And>e. e \<in> set es \<Longrightarrow> artifact_create a e \<noteq> (None :: 'x substance create option)"
  shows "send_creates create a es = (map (\<lambda>e. BundleCreate (the (artifact_create a e))) es, True)"
  using assms(2)
proof (induction es)
  case (Cons e es)
  have "artifact_create a e \<noteq> (None :: 'x substance create option)" using Cons.prems[of e] by simp
  then obtain c where "artifact_create a e = Some (c :: 'x substance create)" by blast
  then show ?case using Cons assms(1) by simp
qed simp

text \<open>C9. A bundle is unpacked into its artifacts: when the archive can be read and every creation is
  answered, the bundle is stored and located, and then there is one creation after the other in which
  the directory an artifact is in is the bundle or was created before it, and each file of the archive
  is created with its bytes, below its directory, under its name.\<close>

theorem bundles_are_unpacked_in_order:
  fixes create :: "'x substance create \<Rightarrow> bool"
  assumes "unzip zipped = Inr a" "asg_state assign = StateSubstance (SBin zipped)" "b = details_point (asg_details assign)"
    and "store (point_to_string b) (SBin zipped) = Inr ()" "placed b = Inr ()" "\<And>c. create c"
    and "reads_paths from_str b (artifact_names a)" "filepath_text (segments b) = []"
    and "\<forall>ps. artifact_points from_str b (artifact_names a) = Inr ps \<longrightarrow> set (iter (set ps)) = set ps"
  shows "\<exists>es creates. bundle_assign unzip store placed from_str iter create (HsAssign assign) =
      (BundleStore (point_to_string b) (SBin zipped) # BundleLocate b # map BundleCreate creates, Some (Inr ())) \<and>
    map Some (creates :: 'x substance create list) = map (artifact_create a) es \<and>
    (\<forall>xs p sub ys. es = xs @ (p, sub) # ys \<longrightarrow>
       (\<exists>q. point_parent p = Some q \<and> (q = b \<or> (q, ArtifactDir) \<in> set xs))) \<and>
    (\<forall>n ds f content. n \<in> set (artifact_names a) \<and> split_slash n = ds @ [f] \<and> zip_by_name a n = Some content \<longrightarrow>
       (\<exists>c \<in> set creates. cr_state c = StateSubstance (SBin content) \<and> cr_segment c = SegExact f \<and>
          cr_parent c = bundle_dir b ds))"
proof -
  let ?ps = "concat (map (artifact_entries b) (artifact_names a)) @ [(bundle_dir b [], ArtifactDir)]"
  define es where "es = in_creation_order iter ?ps"
  define creates :: "'x substance create list" where "creates = map (the \<circ> artifact_create a) es"
  have points: "artifact_points from_str b (artifact_names a) = Inr ?ps" using artifact_points_eq[OF assms(7)] .
  have es: "set es = set ?ps" using assms(9)[rule_format, OF points] by (simp add: in_creation_order_def es_def)
  have total: "artifact_create a e \<noteq> (None :: 'x substance create option)" if "e \<in> set es" for e
  proof (cases e)
    case (Pair p sub)
    show ?thesis unfolding Pair by (rule artifact_create_total) (use that Pair es in blast)
  qed
  have sent: "send_creates create a es = (map BundleCreate creates, True)"
    using send_creates_all[of create es a] assms(6) total by (simp add: creates_def comp_def)
  have run: "bundle_assign unzip store placed from_str iter create (HsAssign assign) =
      (BundleStore (point_to_string b) (SBin zipped) # BundleLocate b # map BundleCreate creates, Some (Inr ()))"
    using sent by (simp add: bundle_assign_def Let_def assms(1,2,4,5) points flip: assms(3) es_def)
  have made: "map Some creates = map (artifact_create a) es" using total by (simp add: creates_def)
  have order: "\<exists>q. point_parent p = Some q \<and> (q = b \<or> (q, ArtifactDir) \<in> set xs)" if "es = xs @ (p, sub) # ys" for xs p sub ys
    using parents_come_first[OF assms(7) points, of iter] assms(9)[rule_format, OF points] that unfolding es_def by blast
  have files: "\<exists>c \<in> set creates. cr_state c = StateSubstance (SBin content) \<and> cr_segment c = SegExact f \<and>
          cr_parent c = bundle_dir b ds"
    if n: "n \<in> set (artifact_names a) \<and> split_slash n = ds @ [f] \<and> zip_by_name a n = Some content" for n ds f content
  proof -
    have e: "(bundle_file b ds f, ArtifactRaw) \<in> set es"
      using n unfolding es by (auto simp: artifact_entries_def Let_def intro!: bexI[of _ n])
    obtain c where c: "artifact_create a (bundle_file b ds f, ArtifactRaw) = Some (c :: 'x substance create)"
      using total[OF e] by blast
    then have "c \<in> set creates" using e by (auto simp: creates_def image_iff intro!: bexI[of _ "(bundle_file b ds f, ArtifactRaw)"])
    then show ?thesis using artifact_create_content[of n ds f b a content c] n assms(8) c by blast
  qed
  show ?thesis using run made order files by blast
qed

text \<open>C12. A file of a bundle is read back: once its creation has come back as an assignment to the driver of
  artifacts, reading the particle, by command or by http, gives the bytes of the archive.\<close>

theorem bundled_files_are_read_back:
  assumes "split_slash n = ds @ [f]" "filepath_text (segments b) = []" "zip_by_name a n = Some content"
    and "artifact_create a (bundle_file b ds f, ArtifactRaw) = Some (c :: 'x substance create)"
    and "details_point (asg_details assign) = bundle_file b ds f"
    and "stub_kind (det_stub (asg_details assign)) = KArtifact ArtifactRaw" "asg_state assign = cr_state c"
    and "written (point_to_string (bundle_file b ds f)) = Inr ()" "placed (bundle_file b ds f) = Inr ()"
    and "artifact_assign written placed (HsAssign assign) repo = (r, repo')"
  shows "r = Inr () \<and>
    artifact_read (KArtifact ArtifactRaw) (bundle_file b ds f) repo' = Some (SBin content) \<and>
    artifact_get (KArtifact ArtifactRaw) (bundle_file b ds f) repo' = Some (SBin content) \<and>
    (\<forall>p. point_to_string p \<noteq> point_to_string (bundle_file b ds f) \<longrightarrow>
       artifact_read (KArtifact ArtifactRaw) p repo' = artifact_read (KArtifact ArtifactRaw) p repo)"
proof -
  have "cr_state c = StateSubstance (SBin content)" using artifact_create_content[OF assms(1-4)] by blast
  then have "r = Inr ()" "repo' = repo(point_to_string (bundle_file b ds f) \<mapsto> SBin content)"
    using assms(5-10) by (simp_all add: artifact_assign_def Let_def)
  then show ?thesis by (simp add: artifact_read_def artifact_get_def)
qed

section \<open>Facts: caches\<close>

text \<open>The caches an api can have, with whatever calls of whatever tasks came before.\<close>

inductive api_run ::
  "(bin \<Rightarrow> space_err + mechtron_config) \<Rightarrow> (bin \<Rightarrow> space_err + 'b) \<Rightarrow> fetcher \<Rightarrow> 'b artifact_api \<Rightarrow> bool"
  for to_mech to_bind f where
  run_new: "api_run to_mech to_bind f (api_new f)"
| run_mechtron: "api_run to_mech to_bind f api \<Longrightarrow> api_mechtron to_mech p api = Some (r, api') \<Longrightarrow>
    api_run to_mech to_bind f api'"
| run_bind: "api_run to_mech to_bind f api \<Longrightarrow> api_bind to_bind p api = Some (s, api') \<Longrightarrow> api_run to_mech to_bind f api'"
| run_wasm: "api_run to_mech to_bind f api \<Longrightarrow> api_wasm p api = (t, api') \<Longrightarrow> api_run to_mech to_bind f api'"

lemma api_run_sound:
  "api_run to_mech to_bind f api \<Longrightarrow> aa_fetcher api = f \<and>
     (\<forall>p m. aa_mechtrons api p = Some m \<longrightarrow> fetch_as to_mech f p = Some (Inr m)) \<and>
     (\<forall>p b. aa_binds api p = Some b \<longrightarrow> fetch_as to_bind f p = Some (Inr b)) \<and>
     (\<forall>p b. aa_wasm api p = Some b \<longrightarrow> f p = Inr b)"
proof (induction rule: api_run.induct)
  case (run_mechtron api p r api')
  then show ?case by (auto simp: api_mechtron_def split: option.splits sum.splits if_splits)
next
  case (run_bind api p s api')
  then show ?case by (auto simp: api_bind_def split: option.splits sum.splits if_splits)
next
  case (run_wasm api p t api')
  then show ?case by (auto simp: api_wasm_def split: option.splits sum.splits if_splits)
qed (simp add: api_new_def)


text \<open>The blocking cache of raw bytes looks into the wrong map: bytes that were read are fetched again
  each time, and once the bind configuration at the point was read, reading its bytes panics unless that
  was done before.\<close>

theorem raw_bytes_are_not_cached:
  assumes "sync_api_bind to_bind p api = Some (Inr r, api')"
  shows "(sa_raw api p = None \<longrightarrow> sync_api_raw p api' = None) \<and>
    (sa_binds api q = None \<longrightarrow>
      map_option fst (sync_api_raw q api) = Some (map_sum (\<lambda>e. e) (\<lambda>b. \<lparr>ar_artifact = b, ar_point = q\<rparr>) (sa_fetcher api q)))"
  using assms by (auto simp: sync_api_raw_def sync_api_bind_def split: option.splits sum.splits)

text \<open>All bundles that a machine unpacks go through one file: the name of the fresh directory is replaced,
  not extended, so what the file holds when it is opened may be another bundle.\<close>

theorem bundles_share_a_file:
  assumes "CHR ''/'' \<notin> set a" "CHR ''/'' \<notin> set b"
  shows "zip_file (dir @ ''/'' @ a) = dir @ ''/file.zip'' \<and> zip_file (dir @ ''/'' @ a) = zip_file (dir @ ''/'' @ b)"
proof -
  have d: "dropWhile (\<lambda>c. c \<noteq> CHR ''/'') (rev x @ CHR ''/'' # ys) = CHR ''/'' # ys" if "CHR ''/'' \<notin> set x" for x ys
    using that by (subst dropWhile_append2) auto
  show ?thesis using d[OF assms(1)] d[OF assms(2)] by (simp add: zip_file_def with_file_name_def)
qed

section \<open>Examples\<close>

definition sample_bundle :: point where
  "sample_bundle = \<lparr>route = RSThis, segments = [PSSpace ''repo'', PSBase ''my'', PSVersion (Version ''1.0.0'')]\<rparr>"

definition sample_archive :: archive where
  "sample_archive =
     \<lparr>zip_names = [''bind/'', ''bind/app'', ''read''],
      zip_by_name = [''bind/app'' \<mapsto> [1], ''read'' \<mapsto> [2]]\<rparr>"

definition sample_paths :: "string \<Rightarrow> space_err + point" where
  "sample_paths s =
     (let t = point_to_string sample_bundle @ '':/''
      in if s = t then Inr (bundle_dir sample_bundle [])
         else if s = t @ ''bind/'' then Inr (bundle_dir sample_bundle [''bind''])
         else if s = t @ ''bind/app'' then Inr (bundle_file sample_bundle [''bind''] ''app'')
         else if s = t @ ''read'' then Inr (bundle_file sample_bundle [] ''read'')
         else Inl (err_of_string s))"

lemma sample_names [simp]: "artifact_names sample_archive = [''bind/app'', ''read'']"
  by (simp add: artifact_names_def sample_archive_def)

lemma sample_by_name: "zip_by_name sample_archive ''bind/app'' = Some [1]"
  by (simp add: sample_archive_def)

lemma sample_reads: "reads_paths sample_paths sample_bundle (artifact_names sample_archive)"
  by (auto simp: reads_paths_def sample_paths_def Let_def append_eq_Cons_conv Cons_eq_append_conv less_Suc_eq)

definition sample_bundle_assign :: "unit substance assign" where
  "sample_bundle_assign = Assign AssignCreate (details_at sample_bundle) (StateSubstance (SBin [9]))"

definition sample_iter :: "(point \<times> artifact_sub) list" where
  "sample_iter = [(bundle_dir sample_bundle [''bind''], ArtifactDir), (bundle_file sample_bundle [''bind''] ''app'', ArtifactRaw),
     (bundle_file sample_bundle [] ''read'', ArtifactRaw), (bundle_dir sample_bundle [], ArtifactDir)]"

lemma sample_bundle_at: "details_point (asg_details sample_bundle_assign) = sample_bundle"
  by (simp add: sample_bundle_assign_def details_point_def details_at_def)

lemma bundles_are_unpacked_in_order_witness:
  "\<exists>out. bundle_assign (\<lambda>_. Inr sample_archive) (\<lambda>_ _. Inr ()) (\<lambda>_. Inr ()) sample_paths (\<lambda>_. sample_iter) (\<lambda>_. True)
     (HsAssign sample_bundle_assign :: (unit, unit substance) hyper_substance) = (out, Some (Inr ())) \<and>
     (\<exists>c. BundleCreate c \<in> set out \<and> cr_state c = StateSubstance (SBin [1]))"
proof -
  have iter: "\<forall>ps. artifact_points sample_paths sample_bundle (artifact_names sample_archive) = Inr ps \<longrightarrow> set sample_iter = set ps"
  proof (intro allI impI)
    fix ps assume p: "artifact_points sample_paths sample_bundle (artifact_names sample_archive) = Inr ps"
    have "ps = concat (map (artifact_entries sample_bundle) (artifact_names sample_archive)) @ [(bundle_dir sample_bundle [], ArtifactDir)]"
      using p artifact_points_eq[OF sample_reads] by simp
    then show "set sample_iter = set ps" by (auto simp: artifact_entries_def sample_iter_def Let_def)
  qed
  have stated: "asg_state sample_bundle_assign = StateSubstance (SBin [9])" by (simp add: sample_bundle_assign_def)
  have no_files: "filepath_text (segments sample_bundle) = []" by (simp add: sample_bundle_def)
  obtain creates where c: "bundle_assign (\<lambda>_. Inr sample_archive) (\<lambda>_ _. Inr ()) (\<lambda>_. Inr ()) sample_paths (\<lambda>_. sample_iter) (\<lambda>_. True)
        (HsAssign sample_bundle_assign) =
      (BundleStore (point_to_string sample_bundle) (SBin [9]) # BundleLocate sample_bundle #
        map BundleCreate (creates :: unit substance create list), Some (Inr ()))"
    "\<And>n ds f content. n \<in> set (artifact_names sample_archive) \<and> split_slash n = ds @ [f] \<and> zip_by_name sample_archive n = Some content \<Longrightarrow>
      \<exists>c \<in> set creates. cr_state c = StateSubstance (SBin content)"
    using bundles_are_unpacked_in_order[where unzip = "\<lambda>_. Inr sample_archive" and store = "\<lambda>_ _. Inr ()" and placed = "\<lambda>_. Inr ()"
        and from_str = sample_paths and iter = "\<lambda>_. sample_iter" and create = "\<lambda>_ :: unit substance create. True"
        and a = sample_archive and assign = sample_bundle_assign and b = sample_bundle and zipped = "[9]",
        OF refl stated sample_bundle_at[symmetric] refl refl TrueI sample_reads no_files iter]
    by - (elim exE conjE, rule that, assumption, blast)
  obtain k where "k \<in> set creates" "cr_state k = StateSubstance (SBin [1])"
    using c(2)[of "''bind/app''" "[''bind'']" "''app''" "[1]"] sample_names
    by (auto simp: sample_by_name)
  then show ?thesis using c(1) by auto
qed

lemma bundled_files_are_read_back_witness:
  "\<exists>repo'. artifact_assign (\<lambda>_. Inr ()) (\<lambda>_. Inr ())
      (HsAssign (Assign AssignCreate
        \<lparr>det_stub = \<lparr>stub_point = bundle_file sample_bundle [''bind''] ''app'', stub_kind = KArtifact ArtifactRaw,
                     stub_status = StatusReady\<rparr>, det_properties = Map.empty\<rparr> (StateSubstance (SBin [1]))) :: (unit, unit substance) hyper_substance)
      Map.empty = (Inr (), repo') \<and>
    artifact_read (KArtifact ArtifactRaw) (bundle_file sample_bundle [''bind''] ''app'') repo' = Some (SBin [1])"
proof -
  let ?p = "bundle_file sample_bundle [''bind''] ''app''"
  let ?a = "Assign AssignCreate \<lparr>det_stub = \<lparr>stub_point = ?p, stub_kind = KArtifact ArtifactRaw, stub_status = StatusReady\<rparr>,
      det_properties = Map.empty\<rparr> (StateSubstance (SBin [1])) :: unit substance assign"
  have split: "split_slash ''bind/app'' = [''bind''] @ [''app'']" by simp
  have top: "filepath_text (segments sample_bundle) = []" by (simp add: sample_bundle_def)
  have entry: "(?p, ArtifactRaw) \<in> set (concat (map (artifact_entries sample_bundle) (artifact_names sample_archive)) @ [(bundle_dir sample_bundle [], ArtifactDir)])"
    by (simp add: artifact_entries_def Let_def)
  obtain c where c: "artifact_create sample_archive (?p, ArtifactRaw) = Some (c :: unit substance create)"
    using artifact_create_total[OF entry] by blast
  obtain r repo' where run: "artifact_assign (\<lambda>_. Inr ()) (\<lambda>_. Inr ()) (HsAssign ?a) Map.empty = (r, repo')" by fastforce
  have "asg_state ?a = cr_state c" using artifact_create_content[OF split top sample_by_name c] by simp
  then have "r = Inr () \<and> artifact_read (KArtifact ArtifactRaw) ?p repo' = Some (SBin [1])"
    using bundled_files_are_read_back[OF split top sample_by_name c _ _ _ refl refl run] by (simp add: details_point_def)
  then show ?thesis using run by auto
qed

lemma has_bundle_sample: "has_bundle sample_bundle = Some True"
  by (simp add: has_bundle_def sample_bundle_def)


lemma raw_bytes_are_not_cached_witness:
  "\<exists>api. sync_api_bind (\<lambda>_. Inr ()) sample_bundle (sync_api_new (\<lambda>_. Inr [])) =
       Some (Inr \<lparr>ar_artifact = (), ar_point = sample_bundle\<rparr>, api) \<and> sync_api_raw sample_bundle api = None"
proof -
  obtain api where a: "sync_api_bind (\<lambda>_. Inr ()) sample_bundle (sync_api_new (\<lambda>_. Inr [])) =
       Some (Inr \<lparr>ar_artifact = (), ar_point = sample_bundle\<rparr>, api)"
    by (simp add: sync_api_bind_def sync_api_new_def fetch_as_def has_bundle_sample)
  then show ?thesis using raw_bytes_are_not_cached[OF a] by (auto simp: sync_api_new_def)
qed

lemma bundles_share_a_file_witness:
  "zip_file ''/tmp/zipcheck.a'' = ''/tmp/file.zip'' \<and> zip_file ''/tmp/zipcheck.a'' = zip_file ''/tmp/zipcheck.b''"
proof -
  have "CHR ''/'' \<notin> set ''zipcheck.a''" "CHR ''/'' \<notin> set ''zipcheck.b''" by simp_all
  from bundles_share_a_file[OF this, of "''/tmp''", unfolded append.simps] show ?thesis .
qed

end
