(* ===== verification/Spec2Isabelle.thy ===== *)
theory Spec2Isabelle
  imports Shells Machines Tables Typing Artifacts
begin

text \<open>
  \<^bold>\<open>Verification of the Cosmic Initiative core.\<close>

  The repository holds a distributed runtime. Everything in it has an \<^emph>\<open>address\<close> (a point), a
  \<^emph>\<open>kind\<close>, and talks by \<^emph>\<open>waves\<close>. Stars host particles, know each other through hyperlanes, and
  carry waves between them; a machine is a set of stars. The crates are under
  \<^verbatim>\<open>src/rust/cosmic\<close>: \<^verbatim>\<open>cosmic-space\<close> has the data and the pure logic, \<^verbatim>\<open>cosmic-hyperlane\<close> the links
  between stars and clients, \<^verbatim>\<open>cosmic-hyperspace\<close> the stars, drivers and machines, and
  \<^verbatim>\<open>cosmic-registry-postgres\<close> the registry with its access control.

  \<^bold>\<open>How a request runs, and where it is modelled.\<close>  A transmitter builds a wave from a prototype
  (Protos, Exchange) and the exchanger remembers it until it is answered (Exchange). The star the
  sender lives on injects it (Stars): it travels through the layers of its sender's traversal plan
  (Surface, Traversals), where the shell tracks it (Shells) and the field runs the pipeline that the
  bind configuration selects (FieldLayer). At the end of the plan the star looks up where the
  recipient lives, provisioning it when it has no star yet (Registry, Wrangles), wraps the wave in a
  transport (Waves) and sends that over a hyperlane (Lanes, Gates, Clients) to the next star, which
  counts the hop and forwards or injects it. There it descends to the core, where a driver
  (Drivers, Machines) or a handler (Shells) answers it, and the answer takes the same way back.

  \<^bold>\<open>Theories, in the order they build on each other.\<close>
  \<^item> Prelude: lemma collections, list, option, result and text lemmas that all theories share;
    \<open>rresult\<close> is the type of the code's \<^verbatim>\<open>Result\<close>, \<open>Inl\<close> the error.
  \<^item> Err (\<^verbatim>\<open>err.rs\<close>): \<open>SpaceErr\<close>, its status and message, the parse errors and how they are folded.
  \<^item> Loc, Points (\<^verbatim>\<open>loc.rs\<close>): routes, segments and points at their three stages (with variables, with
    working-directory context, resolved), their text, ancestry, push, truncate, bundle and file
    system operations; the locale \<open>stage\<close> is the contract of the conversions between stages.
  \<^item> Scope (\<^verbatim>\<open>parse.rs\<close>, \<^verbatim>\<open>loc.rs\<close>, \<^verbatim>\<open>util.rs\<close>): environments, resolvers and the substitution of variables;
    the locale \<open>lexical_scope\<close> states what \<open>Env\<close> promises.
  \<^item> Surface (\<^verbatim>\<open>loc.rs\<close>, \<^verbatim>\<open>traversal.rs\<close>): topics, layers, surfaces, selectors of surfaces, traversal
    plans; the locale \<open>strum\<close> is the round trip of every enum with a text form.
  \<^item> Kinds (\<^verbatim>\<open>kind.rs\<close>), Selectors (\<^verbatim>\<open>selector.rs\<close>), Security (\<^verbatim>\<open>security.rs\<close>), Access
    (\<^verbatim>\<open>cosmic-registry-postgres\<close>): kinds and their parts, matching of points against selectors,
    permissions and masks, and \<open>PostgresRegistry::access\<close>.
  \<^item> Tables (\<^verbatim>\<open>cosmic-registry-postgres\<close>, \<^verbatim>\<open>command.rs\<close>): the other operations of that registry on its
    tables, a statement being a filter or an update of rows; what the server makes of a literal is
    a parameter.
  \<^item> WaveTypes, Methods, Substances, Waves, Protos (\<^verbatim>\<open>wave.rs\<close>, \<^verbatim>\<open>wave/core\<close>, \<^verbatim>\<open>substance.rs\<close>, \<^verbatim>\<open>hyper.rs\<close>):
    methods, cores, payloads, waves, transports, reflections and prototypes.
  \<^item> Exchange (\<^verbatim>\<open>wave/exchange.rs\<close>, \<^verbatim>\<open>wave/exchange/asynch.rs\<close>): the exchanger as a step relation, the
    transmitter and the contexts handlers work in.
  \<^item> Properties, Registry (\<^verbatim>\<open>particle/property.rs\<close>, \<^verbatim>\<open>mem/registry.rs\<close>, \<^verbatim>\<open>global.rs\<close>): the property
    configuration of a kind, creation of particles, the registry and provisioning; the locales
    \<open>registry\<close> and \<open>provisioner\<close> are what the stars rely on, interpreted on the registry in memory.
  \<^item> Traversals, Stars, FieldLayer, Shells (\<^verbatim>\<open>traversal.rs\<close>, \<^verbatim>\<open>star.rs\<close>, \<^verbatim>\<open>layer/field.rs\<close>, \<^verbatim>\<open>layer/shell.rs\<close>,
    \<^verbatim>\<open>config/bind.rs\<close>, \<^verbatim>\<open>cosmic-macros\<close>): the way of a wave through the layers and the stars.
  \<^item> Lanes, Gates, Clients (\<^verbatim>\<open>cosmic-hyperlane\<close>): the queue of a lane as a state machine, hyperways and
    their transforms, interchanges, authentication and greetings, the client and its runner.
  \<^item> Wrangles, Drivers, Machines (\<^verbatim>\<open>star.rs\<close>, \<^verbatim>\<open>driver\<close>, \<^verbatim>\<open>machine.rs\<close>, \<^verbatim>\<open>mem/cosmos.rs\<close>): finding stars for
    kinds, placing particles, bringing drivers up, and a whole machine of stars.

  \<^item> Binds (\<^verbatim>\<open>parse.rs\<close>, \<^verbatim>\<open>cosmic-nom\<close>, \<^verbatim>\<open>config.rs\<close>, \<^verbatim>\<open>config/mechtron.rs\<close>): how a bind or mechtron
    configuration is read from its document, over a record of the nom parsers that are called.
  \<^item> Mechtrons (\<^verbatim>\<open>synch.rs\<close>, \<^verbatim>\<open>mechtron\<close>, \<^verbatim>\<open>mechtron-host\<close>, \<^verbatim>\<open>driver/mechtron.rs\<close>): guests and their buffers,
    hosts, and the drivers of both; the locale \<open>buffer_store\<close> is what the two sides of a membrane rely
    on, interpreted on the buffers as guest and host use them.
  \<^item> Artifacts (\<^verbatim>\<open>artifact.rs\<close>, \<^verbatim>\<open>artifact\<close>, \<^verbatim>\<open>driver/artifact.rs\<close>): caches of configurations and the drivers
    that unpack bundles and read artifacts.
  \<^item> Typing: the waves that travel, over all the theories above, and their kinds.

  \<^bold>\<open>Conventions.\<close>  A struct is a record or a one-constructor datatype, an enum a datatype with the
  source's variants. Strings are char lists. \<open>u8\<close> to \<open>u64\<close> counters whose wrap-around matters are words
  (the hops of a wave are 16 bit words), lengths and indices are natural numbers. A hash map whose
  iteration order the code depends on is taken with an explicit list of its keys as a parameter, so that
  the theorems hold for every order. A call that may panic returns an option, \<open>None\<close> being the panic. Tasks and channels are explicit:
  each receive of a task is a step, and the order of steps is arbitrary.  Random ids, clocks,
  what the SQL server makes of texts and code outside the repository are arguments of the definitions.

  \<^bold>\<open>Fuel and termination.\<close>  Most functions are total by recursion on data. \<open>access_within\<close> takes the
  number of nested calls allowed, and its termination (for ranked delegation) and divergence (for a
  particle that granted to itself) are theorems. \<open>flood\<close> (search among stars) takes a number of rounds,
  and as many rounds as there are stars suffice; provisioning takes the number of segments of the
  point; relaying is bounded by the 255 hops the code itself enforces.

  \<^bold>\<open>What the properties show.\<close>  Access is granted only by who may grant it; answers reach exactly the
  request they answer, and every request gets an answer or a timeout; transports arrive where the
  adjacents lead and never circulate for ever; every plan leads from the field to the core and back;
  matching of selectors and binds agrees with short reference definitions; the registry keeps located
  particles below located parents; lanes keep order and bound their backlog; a default machine can
  place what its drivers offer; pipelines that are run were written in a configuration; waves cross the
  membrane of a guest and come back, and keep their kind everywhere; bundles are unpacked in
  an order that can be created and read back as they were packed. Several properties state how the code fails: they are the
  findings of the manifest.

  \<^bold>\<open>Not modelled.\<close>  The grammars of \<^verbatim>\<open>parse.rs\<close> are built from the combinators of nom, a package outside the
  repository; where modelled code reads text with them, the parser is a parameter. Outside the
  model are also the SQL server, serialisation, the WebAssembly engine, the log of spans, the TCP
  and QUIC transports, the web driver (sockets), the zip archive and the store of artifacts, the command line program, code generation of the derive macros, and the former implementation under
  \<^verbatim>\<open>src/rust/starlane\<close>, which the cosmic crates replace.
\<close>

end
